(* ===== verification/Kortny_Prelude.thy ===== *)
theory Kortny_Prelude
  imports Main "HOL-Library.AList" "HOL-Library.Product_Lexorder"
begin

text \<open>
  The shared vocabulary of the development: Python's text operations on strings, JSON
  values and the dictionaries they are made of, exceptions as values, the state-and-error
  sequencing every database operation is written in, and the generic lemmas on tables of
  rows.

  Text. A Python \<open>str\<close> is a \<open>string\<close>, one character per code point; the code points
  above 127 are carried along but never changed by \<open>casefold\<close>, so statements about
  case-insensitive matching are about ASCII text.

  Dictionaries. A JSON object is an association list in insertion order with at most one
  entry per key; \<open>AList.update\<close> is Python's \<open>d[k] = v\<close> (in place when the key is there,
  at the end otherwise) and \<open>map_of\<close> its lookup.

  Collections of facts: \<open>db_simps\<close> evaluates the database operations and
  \<open>py_simps\<close> the text and number operations.
\<close>

named_theorems db_simps "unfolding rules for the database operations"
named_theorems py_simps "unfolding rules for Python's text and number operations"

section \<open>Characters and text\<close>

definition lower_char :: "char \<Rightarrow> char" where
  "lower_char c =
     (case map_of (zip ''ABCDEFGHIJKLMNOPQRSTUVWXYZ'' ''abcdefghijklmnopqrstuvwxyz'') c of
        Some d \<Rightarrow> d | None \<Rightarrow> c)"

text \<open>The same function on the bits of a character, which is what evaluation uses.\<close>

lemma lower_char_bits [simp, code]:
  "lower_char (Char b0 b1 b2 b3 b4 b5 b6 b7) =
     (if \<not> b5 \<and> b6 \<and> \<not> b7 \<and> (b0 \<or> b1 \<or> b2 \<or> b3 \<or> b4) \<and>
         \<not> (b4 \<and> b3 \<and> (b2 \<or> (b1 \<and> b0)))
      then Char b0 b1 b2 b3 b4 True b6 b7 else Char b0 b1 b2 b3 b4 b5 b6 b7)"
  by (cases b0; cases b1; cases b2; cases b3; cases b4; cases b5; cases b6; cases b7;
      simp add: lower_char_def)

lemma lower_char_idem [simp]: "lower_char (lower_char c) = lower_char c"
  by (cases c) simp

definition casefold :: "string \<Rightarrow> string" where
  "casefold s = map lower_char s"

lemma casefold_simps [simp, py_simps]:
  "casefold [] = []"
  "casefold (c # s) = lower_char c # casefold s"
  by (simp_all add: casefold_def)

lemma casefold_idem [simp]: "casefold (casefold s) = casefold s"
  by (simp add: casefold_def)

lemma casefold_append: "casefold (s @ t) = casefold s @ casefold t"
  by (simp add: casefold_def)

text \<open>\<open>str.isspace\<close> on ASCII: tab, newline, vertical tab, form feed, carriage return, the
  four information separators and the blank.\<close>

definition whitespace_chars :: string where
  "whitespace_chars =
     [CHR 0x09, CHR 0x0A, CHR 0x0B, CHR 0x0C, CHR 0x0D,
      CHR 0x1C, CHR 0x1D, CHR 0x1E, CHR 0x1F, CHR '' '']"

definition is_space :: "char \<Rightarrow> bool" where
  "is_space c = (c \<in> set whitespace_chars)"

definition lstrip :: "string \<Rightarrow> string" where
  "lstrip s = dropWhile is_space s"

definition rstrip :: "string \<Rightarrow> string" where
  "rstrip s = rev (dropWhile is_space (rev s))"

definition strip :: "string \<Rightarrow> string" where
  "strip s = rstrip (lstrip s)"

lemmas strip_simps [py_simps] =
  strip_def lstrip_def rstrip_def is_space_def whitespace_chars_def

text \<open>The truth value of \<open>isinstance(v, str) and v.strip()\<close>.\<close>

definition non_blank :: "string \<Rightarrow> bool" where
  "non_blank s = (strip s \<noteq> [])"

fun starts_with :: "string \<Rightarrow> string \<Rightarrow> bool" where
  "starts_with [] s = True"
| "starts_with (p # ps) [] = False"
| "starts_with (p # ps) (c # s) = (p = c \<and> starts_with ps s)"

lemma starts_with_iff: "starts_with p s \<longleftrightarrow> (\<exists>t. s = p @ t)"
  by (induction p s rule: starts_with.induct) auto

text \<open>The Python test \<open>sub in s\<close> on strings.\<close>

fun contains :: "string \<Rightarrow> string \<Rightarrow> bool" where
  "contains sub [] = (sub = [])"
| "contains sub (c # s) = (starts_with sub (c # s) \<or> contains sub s)"

lemma contains_iff: "contains sub s \<longleftrightarrow> (\<exists>u v. s = u @ sub @ v)"
proof (induction s)
  case Nil
  then show ?case by auto
next
  case (Cons c s)
  show ?case
  proof
    assume "contains sub (c # s)"
    then consider "starts_with sub (c # s)" | "contains sub s" by auto
    then show "\<exists>u v. c # s = u @ sub @ v"
    proof cases
      case 1
      then obtain t where "c # s = [] @ sub @ t" by (auto simp: starts_with_iff)
      then show ?thesis by blast
    next
      case 2
      then obtain u v where "s = u @ sub @ v" using Cons by blast
      then have "c # s = (c # u) @ sub @ v" by simp
      then show ?thesis by blast
    qed
  next
    assume "\<exists>u v. c # s = u @ sub @ v"
    then obtain u v where uv: "c # s = u @ sub @ v" by blast
    show "contains sub (c # s)"
    proof (cases u)
      case Nil
      with uv have "starts_with sub (c # s)" by (auto simp: starts_with_iff)
      then show ?thesis by simp
    next
      case (Cons a u')
      with uv have "s = u' @ sub @ v" by simp
      then have "contains sub s" using Cons.IH by blast
      then show ?thesis by simp
    qed
  qed
qed

definition contains_any :: "string list \<Rightarrow> string \<Rightarrow> bool" where
  "contains_any subs s = list_ex (\<lambda>sub. contains sub s) subs"

definition replace_char :: "char \<Rightarrow> char \<Rightarrow> string \<Rightarrow> string" where
  "replace_char a b s = map (\<lambda>c. if c = a then b else c) s"

text \<open>\<open>s.split(sep)\<close> with a one-character separator: the pieces, empty ones included.\<close>

fun split_on :: "char \<Rightarrow> string \<Rightarrow> string list" where
  "split_on sep [] = [[]]"
| "split_on sep (c # s) =
     (if c = sep then [] # split_on sep s
      else (case split_on sep s of [] \<Rightarrow> [[c]] | w # ws \<Rightarrow> (c # w) # ws))"

text \<open>
  Maximal runs of the characters that satisfy \<open>p\<close>, in order. \<open>s.split()\<close> is this with
  the non-blank characters, and a split at \<open>[^a-z0-9]+\<close> whose empty pieces are dropped
  is this with the characters inside the class.
\<close>

fun runs_aux :: "(char \<Rightarrow> bool) \<Rightarrow> string \<Rightarrow> string \<Rightarrow> string list" where
  "runs_aux p w [] = (if w = [] then [] else [rev w])"
| "runs_aux p w (c # s) =
     (if p c then runs_aux p (c # w) s
      else if w = [] then runs_aux p [] s
      else rev w # runs_aux p [] s)"

definition runs :: "(char \<Rightarrow> bool) \<Rightarrow> string \<Rightarrow> string list" where
  "runs p s = runs_aux p [] s"

definition split_ws :: "string \<Rightarrow> string list" where
  "split_ws s = runs (\<lambda>c. \<not> is_space c) s"

fun join :: "string \<Rightarrow> string list \<Rightarrow> string" where
  "join sep [] = []"
| "join sep [w] = w"
| "join sep (w # v # ws) = w @ sep @ join sep (v # ws)"

lemma runs_aux_sound:
  "w \<in> set (runs_aux p acc s) \<Longrightarrow> list_all p acc \<Longrightarrow> w \<noteq> [] \<and> list_all p w"
proof (induction s arbitrary: acc)
  case Nil
  then show ?case by (cases "acc = []") (auto simp: list_all_iff)
next
  case (Cons c s)
  have here: "w \<noteq> [] \<and> list_all p w" if "w \<in> set (runs_aux p [] s)"
    using Cons.IH [OF that] by simp
  show ?case
  proof (cases "p c")
    case True
    have "w \<in> set (runs_aux p (c # acc) s)" using Cons.prems(1) True by simp
    moreover have "list_all p (c # acc)" using Cons.prems(2) True by simp
    ultimately show ?thesis by (rule Cons.IH)
  next
    case False
    show ?thesis
    proof (cases "acc = [] \<or> w \<noteq> rev acc")
      case True
      with Cons.prems(1) False have "w \<in> set (runs_aux p [] s)" by (auto split: if_splits)
      then show ?thesis by (rule here)
    next
      case False
      with Cons.prems(2) show ?thesis by (simp add: list_all_iff)
    qed
  qed
qed

lemma runs_sound: "w \<in> set (runs p s) \<Longrightarrow> w \<noteq> [] \<and> list_all p w"
  unfolding runs_def by (rule runs_aux_sound) auto

section \<open>Python sets of words\<close>

text \<open>
  The code intersects small sets of words and sorts the result. A set is the list of its
  elements here; \<open>sorted_words\<close> is \<open>sorted(set)\<close>, ordered by code points.
\<close>

fun char_code :: "char \<Rightarrow> nat" where
  "char_code (Char b0 b1 b2 b3 b4 b5 b6 b7) =
     of_bool b0 + 2 * of_bool b1 + 4 * of_bool b2 + 8 * of_bool b3 +
     16 * of_bool b4 + 32 * of_bool b5 + 64 * of_bool b6 + 128 * of_bool b7"

fun str_le :: "string \<Rightarrow> string \<Rightarrow> bool" where
  "str_le [] t = True"
| "str_le (a # s) [] = False"
| "str_le (a # s) (b # t) =
     (char_code a < char_code b \<or> (a = b \<and> str_le s t))"

fun insert_word :: "string \<Rightarrow> string list \<Rightarrow> string list" where
  "insert_word w [] = [w]"
| "insert_word w (v # vs) =
     (if w = v then v # vs else if str_le w v then w # v # vs else v # insert_word w vs)"

definition sorted_words :: "string list \<Rightarrow> string list" where
  "sorted_words ws = foldr insert_word ws []"

lemma set_insert_word [simp]: "set (insert_word w vs) = insert w (set vs)"
  by (induction vs) auto

lemma set_sorted_words [simp]: "set (sorted_words ws) = set ws"
  unfolding sorted_words_def by (induction ws) auto

definition inter_words :: "string list \<Rightarrow> string list \<Rightarrow> string list" where
  "inter_words xs ys = sorted_words (filter (\<lambda>w. w \<in> set ys) xs)"

lemma set_inter_words [simp]: "set (inter_words xs ys) = set xs \<inter> set ys"
  unfolding inter_words_def by auto

lemma inter_words_eq_Nil [simp]: "inter_words xs ys = [] \<longleftrightarrow> set xs \<inter> set ys = {}"
proof -
  have "inter_words xs ys = [] \<longleftrightarrow> set (inter_words xs ys) = {}" by (rule set_empty [symmetric])
  then show ?thesis by (simp only: set_inter_words)
qed

section \<open>JSON values\<close>

text \<open>A float carries the text \<open>repr\<close> gives it, which is all the code reads of one.\<close>

datatype json =
    JNull
  | JBool bool
  | JInt int
  | JFloat string
  | JStr string
  | JArr "json list"
  | JObj "(string \<times> json) list"

type_synonym jobj = "(string \<times> json) list"

text \<open>\<open>payload.get(k)\<close>: a missing key and a null value both read as \<open>None\<close>.\<close>

definition jget :: "jobj \<Rightarrow> string \<Rightarrow> json" where
  "jget p k = (case map_of p k of None \<Rightarrow> JNull | Some v \<Rightarrow> v)"

definition jopt_str :: "string option \<Rightarrow> json" where
  "jopt_str x = (case x of None \<Rightarrow> JNull | Some s \<Rightarrow> JStr s)"

fun json_str :: "json \<Rightarrow> string option" where
  "json_str (JStr s) = Some s"
| "json_str _ = None"

fun json_obj :: "json \<Rightarrow> jobj option" where
  "json_obj (JObj o') = Some o'"
| "json_obj _ = None"

text \<open>\<open>dict\<close> update with another mapping, key by key.\<close>

definition jmerge :: "jobj \<Rightarrow> jobj \<Rightarrow> jobj" where
  "jmerge p q = fold (\<lambda>(k, v) acc. AList.update k v acc) q p"

lemma jget_simps [simp]:
  "jget [] k = JNull"
  "jget ((k', v) # p) k = (if k' = k then v else jget p k)"
  by (simp_all add: jget_def)

lemma jget_update [simp]: "jget (AList.update k v p) k' = (if k' = k then v else jget p k')"
  by (simp add: jget_def update_conv)

lemma json_str_eq_Some [simp]: "json_str j = Some s \<longleftrightarrow> j = JStr s"
  by (cases j) auto

lemma json_obj_eq_Some [simp]: "json_obj j = Some p \<longleftrightarrow> j = JObj p"
  by (cases j) auto

section \<open>Exceptions and state\<close>

text \<open>
  The exceptions the modelled code raises or lets through. \<open>TaskCancelled\<close> is the
  repository's own \<open>TaskCancelledError\<close>, \<open>IntegrityError\<close> and \<open>DataError\<close> are what
  the database reports for a violated unique index and for a number outside its column. The
  others belong to the agent: \<open>RecoverableToolError\<close> of \<open>kortny/tools/types.py\<close>,
  \<open>_ExecutionBudgetExhausted\<close>, \<open>AgentExecutionGuardrailError\<close>,
  \<open>ComposioConnectionRequired\<close> and \<open>TaskCostBudgetExceeded\<close> (ceiling and current cost), which
  end a run, and any other exception of a tool or of the model service, by the name of its class
  and its text.
\<close>

record recoverable_error =
  re_code :: string
  re_message :: string
  re_hint :: "string option"
  re_details :: jobj

datatype py_error =
    ValueError string
  | LookupErr string
  | InvalidOperation
  | IntegrityError string
  | DataError
  | TaskCancelled string
  | TypeErr string
  | RecoverableTool recoverable_error
  | BudgetExhaustedRun string
  | GuardrailErr string
  | ConnectionRequired string string
  | CostBudgetExceeded string string
  | Raised string string

type_synonym 'a res = "py_error + 'a"

text \<open>
  An operation reads and writes a state and returns or raises. What it wrote before an
  exception stays in the session, so the state is part of both outcomes.
\<close>

type_synonym ('s, 'a) op = "'s \<Rightarrow> 'a res \<times> 's"

definition returning :: "'a \<Rightarrow> ('s, 'a) op" where
  "returning x = (\<lambda>s. (Inr x, s))"

definition raising :: "py_error \<Rightarrow> ('s, 'a) op" where
  "raising e = (\<lambda>s. (Inl e, s))"

definition seq :: "('s, 'a) op \<Rightarrow> ('a \<Rightarrow> ('s, 'b) op) \<Rightarrow> ('s, 'b) op" where
  "seq m k = (\<lambda>s. case m s of (Inl e, s') \<Rightarrow> (Inl e, s') | (Inr x, s') \<Rightarrow> k x s')"

text \<open>
  \<open>session_scope\<close> and \<open>session_factory.begin()\<close> roll back when their block raises: what the block wrote is lost, and what
  \<open>others\<close> committed while it ran stays.
\<close>

definition transaction :: "('s \<Rightarrow> 's) \<Rightarrow> ('s, 'a) op \<Rightarrow> ('s, 'a) op" where
  "transaction others m =
     (\<lambda>s. case m s of (Inl e, _) \<Rightarrow> (Inl e, others s) | (Inr x, s') \<Rightarrow> (Inr x, s'))"

definition reading :: "('s \<Rightarrow> 'a) \<Rightarrow> ('s, 'a) op" where
  "reading f = (\<lambda>s. (Inr (f s), s))"

definition writing :: "('s \<Rightarrow> 's) \<Rightarrow> ('s, unit) op" where
  "writing f = (\<lambda>s. (Inr (), f s))"

definition guarding :: "bool \<Rightarrow> py_error \<Rightarrow> ('s, unit) op" where
  "guarding b e = (if b then returning () else raising e)"

definition lifting :: "'a res \<Rightarrow> ('s, 'a) op" where
  "lifting r = (\<lambda>s. (r, s))"

lemma op_simps [simp]:
  "returning x s = (Inr x, s)"
  "raising e s = (Inl e, s)"
  "reading f s = (Inr (f s), s)"
  "writing g s = (Inr (), g s)"
  "lifting r s = (r, s)"
  "guarding b e s = (if b then (Inr (), s) else (Inl e, s))"
  by (simp_all add: returning_def raising_def reading_def writing_def lifting_def guarding_def)

lemma seq_apply:
  "seq m k s = (case m s of (Inl e, s') \<Rightarrow> (Inl e, s') | (Inr x, s') \<Rightarrow> k x s')"
  by (simp add: seq_def)

lemma seq_return [simp]: "m s = (Inr x, s') \<Longrightarrow> seq m k s = k x s'"
  by (simp add: seq_def)

lemma seq_raise [simp]: "m s = (Inl e, s') \<Longrightarrow> seq m k s = (Inl e, s')"
  by (simp add: seq_def)

text \<open>An exception \<open>except\<close> clause: \<open>h\<close> decides what happens with the error.\<close>

definition catching :: "('s, 'a) op \<Rightarrow> (py_error \<Rightarrow> ('s, 'a) op) \<Rightarrow> ('s, 'a) op" where
  "catching m h = (\<lambda>s. case m s of (Inl e, s') \<Rightarrow> h e s' | (Inr x, s') \<Rightarrow> (Inr x, s'))"

lemma seq_inv:
  assumes inv: "I s"
    and m: "\<And>r s'. m s = (r, s') \<Longrightarrow> I s \<Longrightarrow> I s'"
    and k: "\<And>x s' r s''. m s = (Inr x, s') \<Longrightarrow> I s' \<Longrightarrow> k x s' = (r, s'') \<Longrightarrow> I s''"
    and run: "seq m k s = (r, t)"
  shows "I t"
proof (cases "m s")
  case (Pair r' s')
  show ?thesis
  proof (cases r')
    case (Inl e)
    with Pair run m inv show ?thesis by auto
  next
    case (Inr x)
    with Pair run have "k x s' = (r, t)" by simp
    with Pair Inr k m inv show ?thesis by blast
  qed
qed

text \<open>\<open>for x in xs\<close> over an operation, stopping at the first exception.\<close>

fun for_each :: "('a \<Rightarrow> ('s, unit) op) \<Rightarrow> 'a list \<Rightarrow> ('s, unit) op" where
  "for_each f [] = returning ()"
| "for_each f (x # xs) = seq (f x) (\<lambda>_. for_each f xs)"

lemma for_each_inv:
  assumes "I s"
    and "\<And>x s r s'. x \<in> set xs \<Longrightarrow> I s \<Longrightarrow> f x s = (r, s') \<Longrightarrow> I s'"
    and "for_each f xs s = (r, t)"
  shows "I t"
  using assms
proof (induction xs arbitrary: s)
  case Nil
  then show ?case by simp
next
  case (Cons x xs)
  have step: "I s'" if "f x s = (r', s')" for r' s'
    using that Cons.prems(1) Cons.prems(2) [of x s r' s'] by simp
  show ?case
  proof (cases "f x s")
    case (Pair r' s')
    show ?thesis
    proof (cases r')
      case (Inl e)
      with Pair Cons.prems(3) step show ?thesis by auto
    next
      case (Inr u)
      have "I s'" using step Pair .
      moreover have "for_each f xs s' = (r, t)" using Pair Inr Cons.prems(3) by simp
      ultimately show ?thesis
        using Cons.IH [of s'] Cons.prems(2) by (metis list.set_intros(2))
    qed
  qed
qed

text \<open>
  A frame: states that are well formed, and a preorder on states that stays inside them. An
  operation tracks it when every outcome, the exceptions included, is related to its start;
  the sequencing constructs then track it too.
\<close>

locale frame =
  fixes ok :: "'s \<Rightarrow> bool" and rel :: "'s \<Rightarrow> 's \<Rightarrow> bool"
  assumes rel_refl: "rel s s"
    and rel_trans: "rel s s' \<Longrightarrow> rel s' s'' \<Longrightarrow> rel s s''"
    and rel_ok: "ok s \<Longrightarrow> rel s s' \<Longrightarrow> ok s'"
begin

definition tracks :: "('s, 'a) op \<Rightarrow> bool" where
  "tracks m \<longleftrightarrow> (\<forall>s r s'. ok s \<longrightarrow> m s = (r, s') \<longrightarrow> rel s s')"

lemma tracksI: "(\<And>s r s'. ok s \<Longrightarrow> m s = (r, s') \<Longrightarrow> rel s s') \<Longrightarrow> tracks m"
  by (simp add: tracks_def)

lemma tracksD: "tracks m \<Longrightarrow> ok s \<Longrightarrow> m s = (r, s') \<Longrightarrow> rel s s'"
  by (simp add: tracks_def)

lemma tracks_ok: "tracks m \<Longrightarrow> ok s \<Longrightarrow> m s = (r, s') \<Longrightarrow> ok s'"
  using tracksD rel_ok by blast

lemma tracks_pure [simp, intro]:
  "tracks (returning x)" "tracks (raising e)" "tracks (reading f)" "tracks (lifting r)"
  "tracks (guarding b e)"
  using rel_refl by (auto simp: tracks_def split: if_splits)

lemma tracks_seq:
  assumes m: "tracks m" and k: "\<And>x. tracks (k x)"
  shows "tracks (seq m k)"
proof (rule tracksI)
  fix s r s' assume ok: "ok s" and run: "seq m k s = (r, s')"
  obtain x s1 where one: "m s = (x, s1)" by (cases "m s")
  have "rel s s1" using tracksD [OF m ok one] .
  moreover have "ok s1" using tracks_ok [OF m ok one] .
  ultimately show "rel s s'"
    using run one tracksD [OF k] rel_trans by (cases x) (auto simp: seq_apply)
qed

lemma tracks_catching:
  assumes m: "tracks m" and h: "\<And>e. tracks (h e)"
  shows "tracks (catching m h)"
proof (rule tracksI)
  fix s r s' assume ok: "ok s" and run: "catching m h s = (r, s')"
  obtain x s1 where one: "m s = (x, s1)" by (cases "m s")
  have "rel s s1" using tracksD [OF m ok one] .
  moreover have "ok s1" using tracks_ok [OF m ok one] .
  ultimately show "rel s s'"
    using run one tracksD [OF h] rel_trans by (cases x) (auto simp: catching_def)
qed

text \<open>What is read is read from a state that is ok; what is lifted is a value.\<close>

lemma tracks_reading: "(\<And>s. ok s \<Longrightarrow> tracks (k (f s))) \<Longrightarrow> tracks (seq (reading f) k)"
  by (simp add: tracks_def seq_apply)

lemma tracks_lifting: "(\<And>x. r = Inr x \<Longrightarrow> tracks (k x)) \<Longrightarrow> tracks (seq (lifting r) k)"
  by (cases r) (simp_all add: tracks_def seq_apply rel_refl)

lemma tracks_if: "(b \<Longrightarrow> tracks m) \<Longrightarrow> (\<not> b \<Longrightarrow> tracks m') \<Longrightarrow> tracks (if b then m else m')"
  by simp

end

text \<open>
  A triple: from every state with \<open>P\<close> the operation returns a value and a state with \<open>Q\<close> or raises
  in a state with \<open>X\<close>. It is total: operations are functions, so there is no third case.
\<close>

definition triple ::
  "('s \<Rightarrow> bool) \<Rightarrow> ('s, 'a) op \<Rightarrow> ('a \<Rightarrow> 's \<Rightarrow> bool) \<Rightarrow> ('s \<Rightarrow> bool) \<Rightarrow> bool" where
  "triple P m Q X \<longleftrightarrow>
     (\<forall>s. P s \<longrightarrow> (case m s of (Inl e, s') \<Rightarrow> X s' | (Inr x, s') \<Rightarrow> Q x s'))"

lemma tripleI:
  assumes "\<And>s e s'. P s \<Longrightarrow> m s = (Inl e, s') \<Longrightarrow> X s'"
    and "\<And>s x s'. P s \<Longrightarrow> m s = (Inr x, s') \<Longrightarrow> Q x s'"
  shows "triple P m Q X"
  using assms by (auto simp: triple_def split: prod.split sum.split)

lemma tripleD:
  "triple P m Q X \<Longrightarrow> P s \<Longrightarrow> m s = (Inr x, s') \<Longrightarrow> Q x s'"
  "triple P m Q X \<Longrightarrow> P s \<Longrightarrow> m s = (Inl e, s') \<Longrightarrow> X s'"
  by (force simp: triple_def)+

lemma triple_seq:
  assumes m: "triple P m R X" and k: "\<And>x. triple (R x) (k x) Q X"
  shows "triple P (seq m k) Q X"
  unfolding triple_def
proof (intro allI impI)
  fix s assume "P s"
  obtain r s' where run: "m s = (r, s')" by (cases "m s")
  show "case seq m k s of (Inl e, s') \<Rightarrow> X s' | (Inr x, s') \<Rightarrow> Q x s'"
  proof (cases r)
    case (Inl e)
    with run tripleD(2) [OF m \<open>P s\<close>] show ?thesis by simp
  next
    case (Inr x)
    with run tripleD(1) [OF m \<open>P s\<close>] have "R x s'" by simp
    with run Inr k [of x] show ?thesis by (simp add: triple_def)
  qed
qed

lemma triple_catching:
  assumes m: "triple P m Q Y" and h: "\<And>e. triple Y (h e) Q X"
  shows "triple P (catching m h) Q X"
  unfolding triple_def
proof (intro allI impI)
  fix s assume "P s"
  obtain r s' where run: "m s = (r, s')" by (cases "m s")
  show "case catching m h s of (Inl e, s') \<Rightarrow> X s' | (Inr x, s') \<Rightarrow> Q x s'"
  proof (cases r)
    case (Inl e)
    with run tripleD(2) [OF m \<open>P s\<close>] have "Y s'" by simp
    with run Inl h [of e] show ?thesis by (simp add: triple_def catching_def)
  next
    case (Inr x)
    with run tripleD(1) [OF m \<open>P s\<close>] show ?thesis by (simp add: catching_def)
  qed
qed

lemma triple_weaken:
  assumes "triple P m Q X" and "\<And>s. P' s \<Longrightarrow> P s" and "\<And>x s. Q x s \<Longrightarrow> Q' x s"
    and "\<And>s. X s \<Longrightarrow> X' s"
  shows "triple P' m Q' X'"
  using assms by (fastforce simp: triple_def split: prod.split sum.split)

lemma triple_returning: "(\<And>s. P s \<Longrightarrow> Q x s) \<Longrightarrow> triple P (returning x) Q X"
  by (simp add: triple_def)

lemma triple_raising: "(\<And>s. P s \<Longrightarrow> X s) \<Longrightarrow> triple P (raising e) Q X"
  by (simp add: triple_def)

lemma triple_writing: "(\<And>s. P s \<Longrightarrow> Q () (g s)) \<Longrightarrow> triple P (writing g) Q X"
  by (simp add: triple_def)

lemma triple_reading:
  "(\<And>x. triple (\<lambda>s. P s \<and> x = f s) (k x) Q X) \<Longrightarrow> triple P (seq (reading f) k) Q X"
  by (fastforce simp: triple_def seq_apply split: prod.split sum.split)

lemma triple_if:
  "(b \<Longrightarrow> triple P m Q X) \<Longrightarrow> (\<not> b \<Longrightarrow> triple P m' Q X) \<Longrightarrow> triple P (if b then m else m') Q X"
  by simp

lemma triple_pre: "(\<And>s. P s \<Longrightarrow> triple (\<lambda>s'. s' = s) m Q X) \<Longrightarrow> triple P m Q X"
  by (fastforce simp: triple_def)

section \<open>Tables of rows\<close>

text \<open>
  A table is the list of its rows in insertion order. A row is found and updated by its
  key; an \<open>UPDATE\<close> changes every row with the key, which is one row when keys are distinct.
\<close>

definition row_get :: "('r \<Rightarrow> 'k) \<Rightarrow> 'k \<Rightarrow> 'r list \<Rightarrow> 'r option" where
  "row_get key k rows = find (\<lambda>r. key r = k) rows"

definition row_upd :: "('r \<Rightarrow> 'k) \<Rightarrow> 'k \<Rightarrow> ('r \<Rightarrow> 'r) \<Rightarrow> 'r list \<Rightarrow> 'r list" where
  "row_upd key k f rows = map (\<lambda>r. if key r = k then f r else r) rows"

lemma row_get_Some: "row_get key k rows = Some r \<Longrightarrow> r \<in> set rows \<and> key r = k"
  by (auto simp: row_get_def find_Some_iff)

lemma row_get_in:
  "distinct (map key rows) \<Longrightarrow> r \<in> set rows \<Longrightarrow> row_get key (key r) rows = Some r"
  by (induction rows) (auto simp: row_get_def)

lemma row_get_None: "row_get key k rows = None \<longleftrightarrow> k \<notin> key ` set rows"
  by (auto simp: row_get_def find_None_iff)

lemma map_key_row_upd [simp]:
  "(\<And>r. key (f r) = key r) \<Longrightarrow> map key (row_upd key k f rows) = map key rows"
  by (induction rows) (auto simp: row_upd_def)

lemma length_row_upd [simp]: "length (row_upd key k f rows) = length rows"
  by (simp add: row_upd_def)

lemma row_get_upd:
  "(\<And>r. key (f r) = key r) \<Longrightarrow>
   row_get key k' (row_upd key k f rows) =
     (if k' = k then map_option f (row_get key k rows) else row_get key k' rows)"
  by (induction rows) (auto simp: row_get_def row_upd_def)

lemma row_get_append:
  "row_get key k (rows @ rows') =
     (case row_get key k rows of None \<Rightarrow> row_get key k rows' | Some r \<Rightarrow> Some r)"
  by (induction rows) (auto simp: row_get_def)

lemma row_get_Nil [simp]: "row_get key k [] = None"
  by (simp add: row_get_def)

lemma row_get_Cons [simp]:
  "row_get key k (r # rows) = (if key r = k then Some r else row_get key k rows)"
  by (simp add: row_get_def)

lemma set_row_upd:
  "r \<in> set (row_upd key k f rows) \<Longrightarrow>
     (r \<in> set rows \<and> key r \<noteq> k) \<or> (\<exists>r0 \<in> set rows. key r0 = k \<and> r = f r0)"
  by (auto simp: row_upd_def split: if_splits)

lemma row_upd_id: "k \<notin> key ` set rows \<Longrightarrow> row_upd key k f rows = rows"
  by (induction rows) (auto simp: row_upd_def)

end
