(* ===== verification/Py_Numbers.thy ===== *)
theory Py_Numbers
  imports Kortny_Prelude
begin

text \<open>
  Numbers, identifiers and instants as the code prints and parses them: decimal and
  hexadecimal digits, \<open>uuid.UUID\<close>, \<open>decimal.Decimal\<close> and \<open>datetime.isoformat\<close>.

  A UUID is the number its 128 bits are; \<open>uuid_str\<close> prints it in the 8-4-4-4-12 form and
  \<open>uuid_parse\<close> reads it back. A \<open>Decimal\<close> is a sign, a coefficient and an exponent, or
  one of the special values. An instant is the number of microseconds since the epoch, in UTC.
\<close>

section \<open>Digits\<close>

definition digit_char :: "nat \<Rightarrow> char" where
  "digit_char d = ''0123456789abcdef'' ! d"

definition digit_value :: "char \<Rightarrow> nat option" where
  "digit_value c = map_of (zip ''0123456789abcdef'' [0..<16]) c"

fun digits_base :: "nat \<Rightarrow> nat \<Rightarrow> string" where
  "digits_base b n =
     (if b < 2 \<or> n < b then [digit_char n] else digits_base b (n div b) @ [digit_char (n mod b)])"

declare digits_base.simps [simp del]

definition nat_str :: "nat \<Rightarrow> string" where
  "nat_str n = digits_base 10 n"

definition int_str :: "int \<Rightarrow> string" where
  "int_str i = (if i < 0 then CHR ''-'' # nat_str (nat (- i)) else nat_str (nat i))"

definition pad_left :: "nat \<Rightarrow> string \<Rightarrow> string" where
  "pad_left k s = replicate (k - length s) (CHR ''0'') @ s"

definition is_digit :: "char \<Rightarrow> bool" where
  "is_digit c = (c \<in> set ''0123456789'')"

definition digits_value :: "nat \<Rightarrow> string \<Rightarrow> nat" where
  "digits_value b s =
     foldl (\<lambda>a c. b * a + (case digit_value c of Some d \<Rightarrow> d | None \<Rightarrow> 0)) 0 s"

lemma digit_table:
  "list_all (\<lambda>d. digit_value (digit_char d) = Some d \<and> digit_char d \<noteq> CHR ''-'') [0..<16]"
  by code_simp

lemma digit_value_char [simp]: "d < 16 \<Longrightarrow> digit_value (digit_char d) = Some d"
  and digit_char_not_dash [simp]: "d < 16 \<Longrightarrow> digit_char d \<noteq> CHR ''-''"
  using digit_table by (simp_all add: list_all_iff)

lemma digits_value_snoc [simp]:
  "digits_value b (s @ [c]) =
     b * digits_value b s + (case digit_value c of Some d \<Rightarrow> d | None \<Rightarrow> 0)"
  by (simp add: digits_value_def)

lemma digits_value_base:
  "2 \<le> b \<Longrightarrow> b \<le> 16 \<Longrightarrow> digits_value b (digits_base b n) = n"
proof (induction b n rule: digits_base.induct)
  case (1 b n)
  show ?case
  proof (cases "n < b")
    case True
    with 1 show ?thesis by (subst digits_base.simps) (simp add: digits_value_def)
  next
    case False
    then have "digits_value b (digits_base b (n div b)) = n div b" using 1 by simp
    moreover have "n mod b < b" using 1(2) by simp
    then have "n mod b < 16" using 1(3) by simp
    ultimately show ?thesis
      using False 1 by (subst digits_base.simps) simp
  qed
qed

lemma digits_value_pad [simp]: "digits_value b (pad_left k s) = digits_value b s"
proof -
  have "foldl (\<lambda>a c. b * a + (case digit_value c of Some d \<Rightarrow> d | None \<Rightarrow> 0)) 0
          (replicate n (CHR ''0'')) = 0" for n
    by (induction n) (auto simp: digit_value_def upt_rec)
  then show ?thesis by (simp add: pad_left_def digits_value_def)
qed

lemma digits_base_chars:
  "2 \<le> b \<Longrightarrow> b \<le> 16 \<Longrightarrow> c \<in> set (digits_base b n) \<Longrightarrow> \<exists>d < 16. c = digit_char d"
proof (induction b n rule: digits_base.induct)
  case (1 b n)
  show ?case
  proof (cases "n < b")
    case True
    with 1 have "c = digit_char n" and "n < 16" by (simp_all add: digits_base.simps [of b n])
    then show ?thesis by blast
  next
    case False
    then have c: "c \<in> set (digits_base b (n div b)) \<or> c = digit_char (n mod b)"
      using 1(2,4) by (auto simp: digits_base.simps [of b n])
    have "n mod b < b" using 1(2) by simp
    then have "n mod b < 16" using 1(3) by simp
    with c 1 False show ?thesis by auto
  qed
qed

lemma nat_str_inj [simp]: "nat_str m = nat_str n \<longleftrightarrow> m = n"
proof
  assume "nat_str m = nat_str n"
  then have "digits_value 10 (nat_str m) = digits_value 10 (nat_str n)" by simp
  then show "m = n" by (simp add: nat_str_def digits_value_base)
qed simp

section \<open>Python's str and repr of JSON values\<close>

text \<open>The \<open>repr\<close> of one character inside quotes \<open>q\<close>.\<close>

definition repr_char :: "char \<Rightarrow> char \<Rightarrow> string" where
  "repr_char q c =
     (if c = q \<or> c = CHR 0x5C then [CHR 0x5C, c]
      else if c = CHR 0x0A then [CHR 0x5C, CHR ''n'']
      else if c = CHR 0x0D then [CHR 0x5C, CHR ''r'']
      else if c = CHR 0x09 then [CHR 0x5C, CHR ''t'']
      else if char_code c < 32 \<or> (127 \<le> char_code c \<and> char_code c \<le> 160) \<or> char_code c = 173
      then [CHR 0x5C, CHR ''x'', digit_char (char_code c div 16), digit_char (char_code c mod 16)]
      else [c])"

definition repr_text :: "string \<Rightarrow> string" where
  "repr_text s =
     (let q = (if CHR 0x27 \<in> set s \<and> CHR 0x22 \<notin> set s then CHR 0x22 else CHR 0x27)
      in [q] @ concat (map (repr_char q) s) @ [q])"

fun py_repr :: "json \<Rightarrow> string" where
  "py_repr JNull = ''None''"
| "py_repr (JBool b) = (if b then ''True'' else ''False'')"
| "py_repr (JInt i) = int_str i"
| "py_repr (JFloat r) = r"
| "py_repr (JStr s) = repr_text s"
| "py_repr (JArr xs) = ''['' @ join '', '' (map py_repr xs) @ '']''"
| "py_repr (JObj kvs) =
     ''{'' @ join '', '' (map (\<lambda>kv. repr_text (fst kv) @ '': '' @ py_repr (snd kv)) kvs) @ ''}''"

text \<open>\<open>str(value)\<close>: a text stands for itself, everything else is printed as \<open>repr\<close> does.\<close>

definition py_str :: "json \<Rightarrow> string" where
  "py_str j = (case j of JStr s \<Rightarrow> s | _ \<Rightarrow> py_repr j)"

section \<open>UUIDs\<close>

type_synonym uuid = nat

definition uuid_hex :: "uuid \<Rightarrow> string" where
  "uuid_hex u = pad_left 32 (digits_base 16 u)"

definition uuid_str :: "uuid \<Rightarrow> string" where
  "uuid_str u =
     (let h = uuid_hex u
      in take 8 h @ ''-'' @ take 4 (drop 8 h) @ ''-'' @ take 4 (drop 12 h) @ ''-'' @
         take 4 (drop 16 h) @ ''-'' @ drop 20 h)"

text \<open>
  \<open>uuid.UUID(text)\<close>: every \<open>urn:\<close> and \<open>uuid:\<close> is removed, then the braces around the
  text, then every dash; 32 characters must remain, read in base 16. The signs, blanks and
  underscores \<open>int(_, 16)\<close> would let through among them are refused here.
\<close>

fun remove_all :: "string \<Rightarrow> nat \<Rightarrow> string \<Rightarrow> string" where
  "remove_all sub skip [] = []"
| "remove_all sub (Suc k) (c # s) = remove_all sub k s"
| "remove_all sub 0 (c # s) =
     (if sub \<noteq> [] \<and> starts_with sub (c # s) then remove_all sub (length sub - 1) s
      else c # remove_all sub 0 s)"

definition uuid_parse :: "string \<Rightarrow> uuid option" where
  "uuid_parse s =
     (let body = remove_all ''uuid:'' 0 (remove_all ''urn:'' 0 s);
          brace = (\<lambda>c. c \<in> set ''{}'');
          inner = rev (dropWhile brace (rev (dropWhile brace body)));
          h = casefold (filter (\<lambda>c. c \<noteq> CHR ''-'') inner)
      in if length h = 32 \<and> list_all (\<lambda>c. digit_value c \<noteq> None) h
         then Some (digits_value 16 h) else None)"

lemma uuid_hex_no_dash: "CHR ''-'' \<notin> set (uuid_hex u)"
proof
  assume "CHR ''-'' \<in> set (uuid_hex u)"
  then have "CHR ''-'' \<in> set (digits_base 16 u)" by (auto simp: uuid_hex_def pad_left_def)
  then obtain d where "d < 16" "CHR ''-'' = digit_char d"
    using digits_base_chars [of 16] by auto
  then show False using digit_char_not_dash by metis
qed

lemma filter_dash_id: "CHR ''-'' \<notin> set xs \<Longrightarrow> filter (\<lambda>c. c \<noteq> CHR ''-'') xs = xs"
  by (induction xs) auto

lemma take_drop_join: "take i (drop j h) @ drop (i + j) h = drop j h"
  by (metis append_take_drop_id drop_drop)

lemma uuid_str_hex: "filter (\<lambda>c. c \<noteq> CHR ''-'') (uuid_str u) = uuid_hex u"
proof -
  let ?h = "uuid_hex u" and ?f = "filter (\<lambda>c. c \<noteq> CHR ''-'')"
  have sub: "?f (take k (drop j ?h)) = take k (drop j ?h)" and sub': "?f (drop j ?h) = drop j ?h"
    for j k
    using uuid_hex_no_dash [of u] by (auto intro!: filter_dash_id dest: in_set_takeD in_set_dropD)
  have "?f (uuid_str u) = take 8 ?h @ take 4 (drop 8 ?h) @ take 4 (drop 12 ?h) @
      take 4 (drop 16 ?h) @ drop 20 ?h"
    using sub [of 8 0] by (simp add: uuid_str_def Let_def sub sub')
  also have "take 4 (drop 16 ?h) @ drop 20 ?h = drop 16 ?h"
    using take_drop_join [of 4 16 ?h] by simp
  also have "take 4 (drop 12 ?h) @ drop 16 ?h = drop 12 ?h"
    using take_drop_join [of 4 12 ?h] by simp
  also have "take 4 (drop 8 ?h) @ drop 12 ?h = drop 8 ?h"
    using take_drop_join [of 4 8 ?h] by simp
  finally show ?thesis by simp
qed

lemma uuid_str_inj [simp]: "uuid_str a = uuid_str b \<longleftrightarrow> a = b"
proof
  assume "uuid_str a = uuid_str b"
  then have "uuid_hex a = uuid_hex b" using uuid_str_hex by metis
  then have "digits_value 16 (uuid_hex a) = digits_value 16 (uuid_hex b)" by simp
  then show "a = b" by (simp add: uuid_hex_def digits_value_base)
qed simp

section \<open>Decimals\<close>

datatype decimal = Dec bool nat int | DInf bool | DNaN

text \<open>\<open>Decimal(i)\<close> for an integer.\<close>

definition dec_of_int :: "int \<Rightarrow> decimal" where
  "dec_of_int i = Dec (i < 0) (nat \<bar>i\<bar>) 0"

definition dec_zero :: decimal where
  "dec_zero = Dec False 0 0"

text \<open>The signed coefficient scaled to a common exponent \<open>e \<le>\<close> its own.\<close>

fun dec_scaled :: "int \<Rightarrow> decimal \<Rightarrow> int" where
  "dec_scaled e (Dec s c x) = (if s then - 1 else 1) * int c * 10 ^ nat (x - e)"
| "dec_scaled e _ = 0"

fun dec_expo :: "decimal \<Rightarrow> int" where
  "dec_expo (Dec s c x) = x"
| "dec_expo _ = 0"

text \<open>Ordering comparisons; with a NaN operand they raise \<open>InvalidOperation\<close>.\<close>

fun dec_less :: "decimal \<Rightarrow> decimal \<Rightarrow> bool res" where
  "dec_less DNaN _ = Inl InvalidOperation"
| "dec_less _ DNaN = Inl InvalidOperation"
| "dec_less (DInf s) (DInf t) = Inr (s \<and> \<not> t)"
| "dec_less (DInf s) _ = Inr s"
| "dec_less _ (DInf t) = Inr (\<not> t)"
| "dec_less a b =
     (let e = min (dec_expo a) (dec_expo b) in Inr (dec_scaled e a < dec_scaled e b))"

fun dec_le :: "decimal \<Rightarrow> decimal \<Rightarrow> bool res" where
  "dec_le DNaN _ = Inl InvalidOperation"
| "dec_le _ DNaN = Inl InvalidOperation"
| "dec_le (DInf s) (DInf t) = Inr (s \<or> \<not> t)"
| "dec_le (DInf s) _ = Inr s"
| "dec_le _ (DInf t) = Inr (\<not> t)"
| "dec_le a b =
     (let e = min (dec_expo a) (dec_expo b) in Inr (dec_scaled e a \<le> dec_scaled e b))"

text \<open>\<open>str(Decimal)\<close>: plain notation for small exponents, scientific otherwise.\<close>

fun dec_str :: "decimal \<Rightarrow> string" where
  "dec_str DNaN = ''NaN''"
| "dec_str (DInf s) = (if s then ''-Infinity'' else ''Infinity'')"
| "dec_str (Dec s c x) =
     (let ds = nat_str c; n = int (length ds); left = x + n;
          dot = (if x \<le> 0 \<and> left > -6 then left else 1);
          body = (if dot \<le> 0 then ''0.'' @ replicate (nat (- dot)) (CHR ''0'') @ ds
                  else if dot \<ge> n then ds @ replicate (nat (dot - n)) (CHR ''0'')
                  else take (nat dot) ds @ ''.'' @ drop (nat dot) ds);
          ex = (if left = dot then []
                else ''E'' @ (if left - dot < 0 then [] else ''+'') @ int_str (left - dot))
      in (if s then ''-'' else []) @ body @ ex)"

text \<open>
  \<open>Decimal(text)\<close>: blanks around and underscores inside are dropped; a sign, digits with
  at most one point, an exponent; or an infinity; or a NaN, whose sign, signal and payload
  are not kept. \<open>None\<close> stands for the \<open>InvalidOperation\<close> of any other text.
\<close>

definition take_digits :: "string \<Rightarrow> string \<times> string" where
  "take_digits s = (takeWhile is_digit s, dropWhile is_digit s)"

definition parse_sign :: "string \<Rightarrow> bool \<times> string" where
  "parse_sign s =
     (case s of [] \<Rightarrow> (False, [])
      | c # r \<Rightarrow> if c = CHR ''-'' then (True, r) else if c = CHR ''+'' then (False, r) else (False, s))"

definition parse_exponent :: "string \<Rightarrow> int option" where
  "parse_exponent s =
     (case s of [] \<Rightarrow> Some 0
      | c # r \<Rightarrow>
          if c \<noteq> CHR ''e'' then None
          else (let (neg, r') = parse_sign r; (ds, rest) = take_digits r'
                in if ds = [] \<or> rest \<noteq> [] then None
                   else Some ((if neg then - 1 else 1) * int (digits_value 10 ds))))"

definition dec_parse :: "string \<Rightarrow> decimal option" where
  "dec_parse text =
     (let s = casefold (filter (\<lambda>c. c \<noteq> CHR ''_'') (strip text));
          (neg, body) = parse_sign s;
          (ip, rest) = take_digits body;
          (fp, rest') = (case rest of [] \<Rightarrow> ([], [])
                         | c # r \<Rightarrow> if c = CHR ''.'' then take_digits r else ([], rest))
      in if body = ''inf'' \<or> body = ''infinity'' then Some (DInf neg)
         else if (starts_with ''nan'' body \<and> list_all is_digit (drop 3 body)) \<or>
                 (starts_with ''snan'' body \<and> list_all is_digit (drop 4 body)) then Some DNaN
         else if ip = [] \<and> fp = [] then None
         else map_option (\<lambda>x. Dec neg (digits_value 10 (ip @ fp)) (x - int (length fp)))
                (parse_exponent rest'))"

lemma dec_str_examples:
  "dec_str (Dec False 1500 (-3)) = ''1.500''"
  "dec_str (Dec True 5 (-7)) = ''-5E-7''"
  "dec_str (Dec False 12 3) = ''1.2E+4''"
  by code_simp+

lemma dec_parse_examples:
  "dec_parse '' 1.50 '' = Some (Dec False 150 (-2))"
  "dec_parse ''-.5e3'' = Some (Dec True 5 2)"
  "dec_parse ''abc'' = None"
  by code_simp+

lemma digit_chars: "list_all (\<lambda>d. is_digit (digit_char d)) [0..<10]"
  by code_simp

lemma nat_str_digits: "list_all is_digit (nat_str n) \<and> nat_str n \<noteq> []"
proof -
  have "list_all is_digit (digits_base b n) \<and> digits_base b n \<noteq> []" if "b = 10" for b
    using that
  proof (induction b n rule: digits_base.induct)
    case (1 b n)
    have d: "is_digit (digit_char k)" if "k < 10" for k
      using digit_chars that by (simp add: list_all_iff)
    show ?case
      using 1 d [of n] d [of "n mod 10"] by (cases "n < b") (simp_all add: digits_base.simps [of 10 n])
  qed
  then show ?thesis by (simp add: nat_str_def)
qed

lemma nat_str_value: "digits_value 10 (nat_str n) = n"
  by (simp add: nat_str_def digits_value_base)

lemma digits_value_zeros: "digits_value b (replicate k (CHR ''0'') @ s) = digits_value b s"
  using digits_value_pad [of b "k + length s" s] by (simp add: pad_left_def)

definition numeric_char :: "char \<Rightarrow> bool" where
  "numeric_char c = (is_digit c \<or> c \<in> set ''+-.E'')"

lemma digit_numeric: "list_all is_digit s \<Longrightarrow> list_all numeric_char s"
  by (auto simp: list_all_iff numeric_char_def)

lemma numeric_plain: "numeric_char c \<Longrightarrow> \<not> is_space c \<and> c \<noteq> CHR ''_''"
  by (auto simp: numeric_char_def is_digit_def is_space_def whitespace_chars_def)

lemma digit_lower: "is_digit c \<Longrightarrow> lower_char c = c"
  by (auto simp: is_digit_def)

lemma casefold_digits: "list_all is_digit s \<Longrightarrow> casefold s = s"
  by (induction s) (simp_all add: digit_lower)

lemma strip_id: "\<forall>c \<in> set s. \<not> is_space c \<Longrightarrow> strip s = s"
proof -
  assume s: "\<forall>c \<in> set s. \<not> is_space c"
  have "dropWhile is_space t = t" if "\<forall>c \<in> set t. \<not> is_space c" for t
    using that by (cases t) simp_all
  from this [of s] this [of "rev s"] s show ?thesis by (simp add: strip_def lstrip_def rstrip_def)
qed

lemma numeric_kept:
  assumes "list_all numeric_char s"
  shows "filter (\<lambda>c. c \<noteq> CHR ''_'') (strip s) = s"
proof -
  have "strip s = s" using assms numeric_plain by (intro strip_id) (simp add: list_all_iff)
  then show ?thesis using assms numeric_plain by (simp add: list_all_iff filter_id_conv)
qed

lemma take_digits_stop:
  assumes "list_all is_digit ds" and "r = [] \<or> \<not> is_digit (hd r)"
  shows "take_digits (ds @ r) = (ds, r)"
  using assms by (cases r) (simp_all add: take_digits_def list_all_iff takeWhile_append dropWhile_append)

text \<open>The exponent as it is printed, in lower case as it is parsed.\<close>

definition expo_str :: "int \<Rightarrow> string" where
  "expo_str e = ''E'' @ (if e < 0 then [] else ''+'') @ int_str e"

lemma expo_numeric: "list_all numeric_char (expo_str e)"
  using nat_str_digits digit_numeric by (auto simp: expo_str_def int_str_def numeric_char_def)

lemma parse_expo: "parse_exponent (casefold (expo_str e)) = Some e"
proof -
  have n: "take_digits (nat_str k) = (nat_str k, [])" "nat_str k \<noteq> []" "casefold (nat_str k) = nat_str k" for k
    using take_digits_stop [of "nat_str k" "[]"] nat_str_digits [of k] casefold_digits by auto
  show ?thesis
    by (auto simp: expo_str_def int_str_def parse_exponent_def parse_sign_def casefold_append n nat_str_value)
qed

lemma expo_start: "expo_str e \<noteq> []" "hd (casefold (expo_str e)) = CHR ''e''" "casefold (expo_str e) \<noteq> []"
  by (simp_all add: expo_str_def)

lemma digit_not_sign: "is_digit c \<Longrightarrow> c \<notin> set ''+-.inse''"
  by (auto simp: is_digit_def)

lemma dec_parse_parts:
  assumes ip: "list_all is_digit ip" "ip \<noteq> []" and fp: "list_all is_digit fp"
    and point: "mid = (if dotted then ''.'' @ fp else [])" "dotted \<or> fp = []"
    and ex: "ex = [] \<and> e = 0 \<or> ex = expo_str e"
  shows "dec_parse ((if s then ''-'' else []) @ ip @ mid @ ex) = Some (Dec s (digits_value 10 (ip @ fp)) (e - int (length fp)))"
proof -
  let ?ex = "casefold ex" and ?whole = "(if s then ''-'' else []) @ ip @ mid @ ex"
  obtain c i where c: "ip = c # i" "is_digit c" using ip by (cases ip) auto
  have exp: "parse_exponent ?ex = Some e" "?ex = [] \<or> \<not> is_digit (hd ?ex) \<and> hd ?ex \<noteq> CHR ''.''"
    using ex parse_expo expo_start by (auto simp: parse_exponent_def is_digit_def)
  have "list_all numeric_char ?whole"
    using ip fp point ex expo_numeric digit_numeric by (auto simp: numeric_char_def)
  then have text1: "casefold (filter (\<lambda>c. c \<noteq> CHR ''_'') (strip ?whole)) =
      (if s then ''-'' else []) @ ip @ mid @ ?ex"
    using ip fp point casefold_digits by (simp add: numeric_kept casefold_append)
  have sign: "parse_sign ((if s then ''-'' else []) @ ip @ mid @ ?ex) = (s, ip @ mid @ ?ex)"
    using c digit_not_sign [OF c(2)] by (simp add: parse_sign_def)
  have first: "take_digits (ip @ mid @ ?ex) = (ip, mid @ ?ex)"
    by (rule take_digits_stop) (use ip point exp(2) in \<open>auto simp: is_digit_def\<close>)
  have second: "(case mid @ ?ex of [] \<Rightarrow> ([], [])
      | c # r \<Rightarrow> if c = CHR ''.'' then take_digits r else ([], mid @ ?ex)) = (fp, ?ex)"
  proof (cases dotted)
    case True
    have "take_digits (fp @ ?ex) = (fp, ?ex)" by (rule take_digits_stop) (use fp exp(2) in auto)
    with True point show ?thesis by simp
  next
    case False
    with point exp(2) show ?thesis by (auto split: list.splits)
  qed
  have plain: "ip @ mid @ ?ex \<noteq> ''inf''" "ip @ mid @ ?ex \<noteq> ''infinity''"
    "\<not> starts_with ''nan'' (ip @ mid @ ?ex)" "\<not> starts_with ''snan'' (ip @ mid @ ?ex)"
    using c digit_not_sign [OF c(2)] by auto
  show ?thesis
    unfolding dec_parse_def Let_def text1 sign prod.case first second
    using plain ip(2) exp(1) by simp
qed

text \<open>Reading what was printed gives the number back, with its sign, coefficient and exponent.\<close>

lemma dec_parse_str: "dec_parse (dec_str (Dec s c x)) = Some (Dec s c x)"
proof -
  let ?ds = "nat_str c"
  define n where "n = int (length ?ds)"
  note ds = nat_str_digits [of c]
  have n: "1 \<le> n" using ds by (cases ?ds) (simp_all add: n_def)
  have cut: "list_all is_digit (take k ?ds)" "list_all is_digit (drop k ?ds)" for k
    using ds by (auto simp: list_all_iff dest: in_set_takeD in_set_dropD)
  have zero: "is_digit (CHR ''0'')" by code_simp
  show ?thesis
  proof (cases "x \<le> 0 \<and> x + n > - 6")
    case True
    consider (small) "x + n \<le> 0" | (whole) "x + n > 0" "x = 0" | (mid) "x + n > 0" "x < 0" using True by linarith
    then show ?thesis
    proof cases
      case small
      let ?fp = "replicate (nat (- (x + n))) (CHR ''0'') @ ?ds"
      have "dec_str (Dec s c x) = (if s then ''-'' else []) @ ''0'' @ (''.'' @ ?fp) @ []"
        using True small by (simp add: Let_def flip: n_def)
      moreover have "list_all is_digit ?fp" using ds zero by (auto simp: list_all_iff)
      moreover have "digits_value 10 (''0'' @ ?fp) = c"
        using digits_value_zeros [of 10 "Suc (nat (- (x + n)))" ?ds] by (simp add: nat_str_value)
      moreover have "int (length ?fp) = - x" using small by (simp add: n_def)
      ultimately show ?thesis
        using dec_parse_parts [of "''0''" ?fp "''.'' @ ?fp" True "[]" 0 s] zero by (simp del: dec_str.simps)
    next
      case whole
      then have "dec_str (Dec s c x) = (if s then ''-'' else []) @ ?ds @ [] @ []"
        using True ds by (simp add: Let_def flip: n_def)
      with whole ds show ?thesis
        using dec_parse_parts [of ?ds "[]" "[]" False "[]" 0 s] by (simp add: nat_str_value del: dec_str.simps)
    next
      case mid
      let ?k = "nat (x + n)"
      have "dec_str (Dec s c x) = (if s then ''-'' else []) @ take ?k ?ds @ (''.'' @ drop ?k ?ds) @ []"
        using True mid by (simp add: Let_def flip: n_def)
      moreover have "take ?k ?ds \<noteq> []" "int (length (drop ?k ?ds)) = - x" using mid n by (auto simp: n_def)
      ultimately show ?thesis
        using dec_parse_parts [of "take ?k ?ds" "drop ?k ?ds" "''.'' @ drop ?k ?ds" True "[]" 0 s] cut
        by (simp add: nat_str_value del: dec_str.simps)
    qed
  next
    case False
    let ?e = "x + n - 1"
    have e: "x + n \<noteq> 1" using False n by linarith
    have cond: "(x \<le> 0 \<and> - 6 < x + n) = False" using False by simp
    have sci: "dec_str (Dec s c x) = (if s then ''-'' else []) @
        (if 1 \<ge> n then ?ds @ replicate (nat (1 - n)) (CHR ''0'') else take (nat 1) ?ds @ ''.'' @ drop (nat 1) ?ds) @ expo_str ?e"
      unfolding dec_str.simps Let_def n_def [symmetric] cond if_False using e by (simp add: expo_str_def)
    consider (one) "n = 1" | (more) "1 < n" using n by linarith
    then show ?thesis
    proof cases
      case one
      have "dec_str (Dec s c x) = (if s then ''-'' else []) @ ?ds @ [] @ expo_str ?e"
        using one by (simp only: sci) simp
      with ds one show ?thesis
        using dec_parse_parts [of ?ds "[]" "[]" False "expo_str ?e" ?e s] by (simp add: nat_str_value del: dec_str.simps)
    next
      case more
      have "dec_str (Dec s c x) = (if s then ''-'' else []) @ take 1 ?ds @ (''.'' @ drop 1 ?ds) @ expo_str ?e"
        using more by (simp only: sci) simp
      moreover have "take 1 ?ds \<noteq> []" "int (length (drop 1 ?ds)) = n - 1" using more ds by (auto simp: n_def)
      ultimately show ?thesis
        using dec_parse_parts [of "take 1 ?ds" "drop 1 ?ds" "''.'' @ drop 1 ?ds" True "expo_str ?e" ?e s] cut
        by (simp add: nat_str_value del: dec_str.simps)
    qed
  qed
qed

text \<open>
  Storing a number in a \<open>Numeric(12, 6)\<close> column: it is rounded to six places, halves away
  from zero, and refused when the result needs more than six digits before the point.
\<close>

definition round_micros :: "nat \<Rightarrow> int \<Rightarrow> nat" where
  "round_micros c x =
     (if 0 \<le> x + 6 then c * 10 ^ nat (x + 6)
      else (let m = 10 ^ nat (- (x + 6)) in (2 * c + m) div (2 * m)))"

fun to_micros :: "decimal \<Rightarrow> int res" where
  "to_micros (Dec s c x) =
     (let m = int (round_micros c x)
      in if m < 10 ^ 12 then Inr (if s then - m else m) else Inl DataError)"
| "to_micros _ = Inl DataError"

text \<open>The decimal read back from such a column.\<close>

definition of_micros :: "int \<Rightarrow> decimal" where
  "of_micros m = Dec (m < 0) (nat \<bar>m\<bar>) (- 6)"

lemma to_micros_of_micros: "\<bar>m\<bar> < 10 ^ 12 \<Longrightarrow> to_micros (of_micros m) = Inr m"
  by (auto simp: of_micros_def round_micros_def Let_def)

section \<open>Instants\<close>

type_synonym timestamp = int

text \<open>\<open>timedelta(seconds=n)\<close>, in microseconds.\<close>

definition seconds :: "int \<Rightarrow> int" where
  "seconds n = n * 1000000"

text \<open>A \<open>datetime\<close> argument: without a zone it holds a wall-clock reading, with one an instant.\<close>

datatype py_datetime = Naive timestamp | Aware timestamp

definition civil_of_days :: "int \<Rightarrow> int \<times> int \<times> int" where
  "civil_of_days days =
     (let z = days + 719468; era = z div 146097; doe = z mod 146097;
          yoe = (doe - doe div 1460 + doe div 36524 - doe div 146096) div 365;
          doy = doe - (365 * yoe + yoe div 4 - yoe div 100);
          mp = (5 * doy + 2) div 153;
          m = (if mp < 10 then mp + 3 else mp - 9)
      in (yoe + era * 400 + (if m \<le> 2 then 1 else 0), m, doy - (153 * mp + 2) div 5 + 1))"

definition pad_int :: "nat \<Rightarrow> int \<Rightarrow> string" where
  "pad_int k i = pad_left k (nat_str (nat i))"

text \<open>\<open>isoformat\<close> of an instant in UTC.\<close>

definition isoformat :: "timestamp \<Rightarrow> string" where
  "isoformat t =
     (let (y, m, d) = civil_of_days (t div 86400000000); r = t mod 86400000000;
          us = r mod 1000000; sec = r div 1000000
      in pad_int 4 y @ ''-'' @ pad_int 2 m @ ''-'' @ pad_int 2 d @ ''T'' @
         pad_int 2 (sec div 3600) @ '':'' @ pad_int 2 (sec div 60 mod 60) @ '':'' @
         pad_int 2 (sec mod 60) @ (if us = 0 then [] else ''.'' @ pad_int 6 us) @ ''+00:00'')"

lemma isoformat_examples:
  "isoformat 0 = ''1970-01-01T00:00:00+00:00''"
  "isoformat 1709210096000000 = ''2024-02-29T12:34:56+00:00''"
  by code_simp+

end
