(* ===== verification/Task_Identity.thy ===== *)
theory Task_Identity
  imports Py_Numbers
begin

text \<open>
  \<open>kortny/tasks/identity.py\<close>: the deterministic idempotency identity of a task request.

  The hash is an argument \<open>sha\<close>: the hexadecimal SHA-256 digest of a text's UTF-8 encoding,
  which the Python library computes and the code treats as opaque. The canonical JSON text
  the digest is taken of is computed here, as \<open>json.dumps\<close> with sorted keys and compact
  separators writes it.
\<close>

section \<open>Canonical JSON text\<close>

definition hex2 :: "nat \<Rightarrow> string" where
  "hex2 n = [digit_char (n div 16), digit_char (n mod 16)]"

text \<open>One character of a JSON string with \<open>ensure_ascii\<close>.\<close>

definition json_escape_char :: "char \<Rightarrow> string" where
  "json_escape_char c =
     (if c = CHR 0x22 then [CHR 0x5C, CHR 0x22]
      else if c = CHR 0x5C then [CHR 0x5C, CHR 0x5C]
      else if c = CHR 0x0A then [CHR 0x5C, CHR ''n'']
      else if c = CHR 0x0D then [CHR 0x5C, CHR ''r'']
      else if c = CHR 0x09 then [CHR 0x5C, CHR ''t'']
      else if c = CHR 0x0C then [CHR 0x5C, CHR ''f'']
      else if c = CHR 0x08 then [CHR 0x5C, CHR ''b'']
      else if 32 \<le> char_code c \<and> char_code c \<le> 126 then [c]
      else [CHR 0x5C, CHR ''u'', CHR ''0'', CHR ''0''] @ hex2 (char_code c))"

definition json_string_text :: "string \<Rightarrow> string" where
  "json_string_text s = [CHR 0x22] @ concat (map json_escape_char s) @ [CHR 0x22]"

fun insert_field :: "string \<times> 'a \<Rightarrow> (string \<times> 'a) list \<Rightarrow> (string \<times> 'a) list" where
  "insert_field f [] = [f]"
| "insert_field f (g # gs) =
     (if str_le (fst f) (fst g) then f # g # gs else g # insert_field f gs)"

definition sort_fields :: "(string \<times> 'a) list \<Rightarrow> (string \<times> 'a) list" where
  "sort_fields fs = foldr insert_field fs []"

text \<open>The members of an object are sorted after their values have been rendered.\<close>

fun json_dumps :: "json \<Rightarrow> string" where
  "json_dumps JNull = ''null''"
| "json_dumps (JBool b) = (if b then ''true'' else ''false'')"
| "json_dumps (JInt i) = int_str i"
| "json_dumps (JFloat r) = r"
| "json_dumps (JStr s) = json_string_text s"
| "json_dumps (JArr xs) = ''['' @ join '','' (map json_dumps xs) @ '']''"
| "json_dumps (JObj kvs) =
     ''{'' @ join '','' (map (\<lambda>(k, t). json_string_text k @ '':'' @ t)
                 (sort_fields (map (\<lambda>kv. (fst kv, json_dumps (snd kv))) kvs))) @ ''}''"

lemma json_dumps_example:
  "json_dumps (JObj [(''b'', JArr [JInt (-2), JNull]), (''a'', JStr ''x'')]) =
     ''{'' @ json_string_text ''a'' @ '':'' @ json_string_text ''x'' @ '','' @
     json_string_text ''b'' @ '':[-2,null]}''"
  by (simp add: sort_fields_def int_str_def nat_str_def digits_base.simps digit_char_def)

section \<open>Identities\<close>

record task_identity =
  ident_kind :: string
  ident_key :: string
  ident_payload :: jobj
  ident_fingerprint :: string

text \<open>Keys whose value is \<open>None\<close> are dropped; the input contributes its digest and a preview.\<close>

definition identity_payload :: "(string \<Rightarrow> string) \<Rightarrow> jobj \<Rightarrow> string \<Rightarrow> jobj" where
  "identity_payload sha values input_text =
     AList.update ''input_preview'' (JStr (take 200 input_text))
       (AList.update ''input_sha256'' (JStr (sha input_text))
         (filter (\<lambda>(k, v). v \<noteq> JNull) values))"

definition fingerprint :: "(string \<Rightarrow> string) \<Rightarrow> jobj \<Rightarrow> string" where
  "fingerprint sha payload = sha (json_dumps (JObj payload))"

definition without_keys :: "jobj \<Rightarrow> string list \<Rightarrow> jobj" where
  "without_keys payload ignored = filter (\<lambda>(k, v). k \<notin> set ignored) payload"

definition slack_message_identity ::
  "(string \<Rightarrow> string) \<Rightarrow> string \<Rightarrow> string \<Rightarrow> string option \<Rightarrow> string \<Rightarrow> string \<Rightarrow>
   string option \<Rightarrow> string option \<Rightarrow> task_identity" where
  "slack_message_identity sha channel_id message_ts thread_ts user_id input_text
     slack_event_id source_surface =
     (let resolved = (case thread_ts of Some t \<Rightarrow> if t = [] then message_ts else t
                      | None \<Rightarrow> message_ts);
          payload = identity_payload sha
            [(''kind'', JStr ''slack_message''), (''channel_id'', JStr channel_id),
             (''thread_ts'', JStr resolved), (''message_ts'', JStr message_ts),
             (''user_id'', JStr user_id), (''slack_event_id'', jopt_str slack_event_id),
             (''source_surface'', jopt_str source_surface)] input_text
      in \<lparr>ident_kind = ''slack_message'',
          ident_key = ''slack-message:'' @ channel_id @ '':'' @ resolved @ '':'' @ message_ts,
          ident_payload = payload,
          ident_fingerprint =
            fingerprint sha (without_keys payload [''slack_event_id'', ''source_surface''])\<rparr>)"

definition slack_event_identity ::
  "(string \<Rightarrow> string) \<Rightarrow> string \<Rightarrow> string \<Rightarrow> string option \<Rightarrow> string \<Rightarrow> string \<Rightarrow>
   string option \<Rightarrow> task_identity" where
  "slack_event_identity sha slack_event_id channel_id thread_ts user_id input_text
     source_surface =
     (let payload = identity_payload sha
            [(''kind'', JStr ''slack_event''), (''slack_event_id'', JStr slack_event_id),
             (''channel_id'', JStr channel_id), (''thread_ts'', jopt_str thread_ts),
             (''user_id'', JStr user_id), (''source_surface'', jopt_str source_surface)]
            input_text
      in \<lparr>ident_kind = ''slack_event'', ident_key = ''slack-event:'' @ slack_event_id,
          ident_payload = payload, ident_fingerprint = fingerprint sha payload\<rparr>)"

definition synthetic_identity ::
  "(string \<Rightarrow> string) \<Rightarrow> string \<Rightarrow> string \<Rightarrow> string \<Rightarrow> jobj \<Rightarrow> task_identity" where
  "synthetic_identity sha source source_id input_text extra =
     (let payload = identity_payload sha
            (jmerge [(''kind'', JStr ''synthetic''), (''source'', JStr source),
                     (''source_id'', JStr source_id)] extra) input_text
      in \<lparr>ident_kind = ''synthetic'', ident_key = ''synthetic:'' @ source @ '':'' @ source_id,
          ident_payload = payload, ident_fingerprint = fingerprint sha payload\<rparr>)"

definition scheduled_identity ::
  "(string \<Rightarrow> string) \<Rightarrow> string \<Rightarrow> string \<Rightarrow> string \<Rightarrow> jobj \<Rightarrow> task_identity" where
  "scheduled_identity sha schedule_id fire_time input_text extra =
     (let payload = identity_payload sha
            (jmerge [(''kind'', JStr ''scheduled''), (''schedule_id'', JStr schedule_id),
                     (''fire_time'', JStr fire_time)] extra) input_text
      in \<lparr>ident_kind = ''scheduled'', ident_key = ''scheduled:'' @ schedule_id @ '':'' @ fire_time,
          ident_payload = payload, ident_fingerprint = fingerprint sha payload\<rparr>)"

definition manual_identity ::
  "(string \<Rightarrow> string) \<Rightarrow> string \<Rightarrow> string option \<Rightarrow> string \<Rightarrow> string \<Rightarrow>
   string option \<Rightarrow> task_identity" where
  "manual_identity sha channel_id thread_ts user_id input_text source_surface =
     (let payload = identity_payload sha
            [(''kind'', JStr ''manual''), (''channel_id'', JStr channel_id),
             (''thread_ts'', jopt_str thread_ts), (''user_id'', JStr user_id),
             (''source_surface'', jopt_str source_surface)] input_text
      in \<lparr>ident_kind = ''manual'', ident_key = ''manual:'' @ fingerprint sha payload,
          ident_payload = payload, ident_fingerprint = fingerprint sha payload\<rparr>)"

text \<open>The arguments of a request, as \<open>create_task\<close> and \<open>for_task_request\<close> take them.\<close>

record task_request =
  rq_installation :: uuid
  rq_slack_event_id :: "string option"
  rq_channel :: string
  rq_thread_ts :: "string option"
  rq_message_ts :: "string option"
  rq_user :: string
  rq_input :: string
  rq_source_surface :: "string option"
  rq_parent :: "uuid option"
  rq_identity :: "task_identity option"

text \<open>The text of an optional string, when it is there and not empty (Python truth).\<close>

definition truthy :: "string option \<Rightarrow> string option" where
  "truthy x = (case x of Some s \<Rightarrow> if s = [] then None else Some s | None \<Rightarrow> None)"

definition for_task_request :: "(string \<Rightarrow> string) \<Rightarrow> task_request \<Rightarrow> task_identity" where
  "for_task_request sha r =
     (case truthy (rq_message_ts r) of
        Some ts \<Rightarrow> slack_message_identity sha (rq_channel r) ts (rq_thread_ts r) (rq_user r)
                     (rq_input r) (rq_slack_event_id r) (rq_source_surface r)
      | None \<Rightarrow>
          (case truthy (rq_slack_event_id r) of
             Some ev \<Rightarrow> slack_event_identity sha ev (rq_channel r) (rq_thread_ts r) (rq_user r)
                          (rq_input r) (rq_source_surface r)
           | None \<Rightarrow> manual_identity sha (rq_channel r) (rq_thread_ts r) (rq_user r)
                       (rq_input r) (rq_source_surface r)))"

lemmas identity_defs =
  slack_message_identity_def slack_event_identity_def synthetic_identity_def
  scheduled_identity_def manual_identity_def for_task_request_def

section \<open>Facts\<close>

text \<open>The fingerprint of a Slack message ignores how the message reached the ingress.\<close>

lemma slack_message_fingerprint:
  "ident_fingerprint (slack_message_identity sha ch ts th u txt ev src) =
   ident_fingerprint (slack_message_identity sha ch ts th u txt ev' src')"
  by (cases ev; cases src; cases ev'; cases src')
     (simp_all add: identity_defs identity_payload_def without_keys_def jopt_str_def Let_def)

lemma slack_message_key:
  "ident_key (slack_message_identity sha ch ts th u txt ev src) =
   ''slack-message:'' @ ch @ '':'' @ (case truthy th of Some t \<Rightarrow> t | None \<Rightarrow> ts) @ '':'' @ ts"
  by (simp add: identity_defs truthy_def Let_def split: option.split)

text \<open>The kind is one the check constraint of the \<open>tasks\<close> table allows.\<close>

definition identity_kinds :: "string list" where
  "identity_kinds = [''slack_message'', ''slack_event'', ''synthetic'', ''scheduled'', ''manual'']"

lemma for_task_request_kind: "ident_kind (for_task_request sha r) \<in> set identity_kinds"
  by (simp add: identity_defs identity_kinds_def Let_def split: option.split)

end
