(* ===== verification/Task_Store.thy ===== *)
theory Task_Store
  imports Task_Identity
begin

text \<open>
  The rows of \<open>kortny/db/models.py\<close> the task core reads and writes, the database as the
  state every operation works on, and the two primitive writes all of them are made of:
  changing the row of a task and appending to its event log.

  A \<open>Task\<close> argument is the row with its identifier: an attribute assignment followed by a
  flush is an update of that row. The lists are in insertion order. \<open>db_now\<close> is the clock
  \<open>datetime.now(UTC)\<close> and the column defaults read; it stands still inside one operation.
  \<open>db_row_locks\<close> holds the tasks whose rows other transactions have locked, which a
  \<open>SKIP LOCKED\<close> query passes over; a plain \<open>FOR UPDATE\<close> waits for the lock, so it needs
  no case of its own. Costs are integers in millionths of a dollar, the scale of the
  \<open>Numeric(12, 6)\<close> columns.
\<close>

section \<open>Rows\<close>

datatype task_status =
  Pending | Running | Waiting_Approval | Succeeded | Failed | Crashed | Cancelled

datatype event_type =
    Task_Created | Status_Changed | Llm_Call | Tool_Call | Tool_Result
  | Artifact_Created | Message_Posted | Error_Event | Log

fun status_value :: "task_status \<Rightarrow> string" where
  "status_value Pending = ''pending''"
| "status_value Running = ''running''"
| "status_value Waiting_Approval = ''waiting_approval''"
| "status_value Succeeded = ''succeeded''"
| "status_value Failed = ''failed''"
| "status_value Crashed = ''crashed''"
| "status_value Cancelled = ''cancelled''"

definition all_statuses :: "task_status list" where
  "all_statuses = [Pending, Running, Waiting_Approval, Succeeded, Failed, Crashed, Cancelled]"

text \<open>The enumeration call \<open>TaskStatus(text)\<close>.\<close>

definition parse_status :: "string \<Rightarrow> task_status option" where
  "parse_status s = map_of (map (\<lambda>st. (status_value st, st)) all_statuses) s"

lemma parse_status_value [simp]: "parse_status (status_value s) = Some s"
  by (cases s) (simp_all add: parse_status_def all_statuses_def)

lemma status_value_inj [simp]: "status_value s = status_value s' \<longleftrightarrow> s = s'"
  by (metis parse_status_value option.inject)

record task =
  t_id :: uuid
  t_installation :: uuid
  t_parent :: "uuid option"
  t_slack_event_id :: "string option"
  t_channel :: string
  t_thread_ts :: "string option"
  t_message_ts :: "string option"
  t_user :: string
  t_identity_kind :: "string option"
  t_identity_key :: "string option"
  t_identity_payload :: jobj
  t_identity_fingerprint :: "string option"
  t_input :: string
  t_status :: task_status
  t_result_summary :: "string option"
  t_error :: "jobj option"
  t_routing_quality :: "string option"
  t_routing_score :: "int option"
  t_available_at :: timestamp
  t_locked_by :: "string option"
  t_locked_at :: "timestamp option"
  t_lease_expires_at :: "timestamp option"
  t_attempts :: int
  t_max_attempts :: int
  t_total_input_tokens :: int
  t_total_output_tokens :: int
  t_total_cost :: int
  t_created_at :: timestamp
  t_started_at :: "timestamp option"
  t_finished_at :: "timestamp option"
  t_updated_at :: timestamp

record event =
  e_id :: nat
  e_task :: uuid
  e_seq :: nat
  e_type :: event_type
  e_payload :: jobj
  e_created_at :: timestamp

record usage =
  u_id :: nat
  u_task :: uuid
  u_event :: "nat option"
  u_provider :: "string option"
  u_model :: string
  u_model_tier :: "string option"
  u_provider_kind :: "string option"
  u_provider_account :: "uuid option"
  u_cost_source :: "string option"
  u_input_tokens :: int
  u_output_tokens :: int
  u_cache_creation :: int
  u_cache_read :: int
  u_cost :: int
  u_created_at :: timestamp

record schedule =
  s_id :: uuid
  s_installation :: uuid
  s_owner_type :: string
  s_owner_user :: "string option"
  s_title :: string
  s_spec_kind :: string
  s_cron_expr :: "string option"
  s_interval_seconds :: "int option"
  s_run_at :: "timestamp option"
  s_timezone :: string
  s_next_run_at :: "timestamp option"
  s_last_run_at :: "timestamp option"
  s_catchup_policy :: string
  s_catchup_window :: "int option"
  s_overlap_policy :: string
  s_status :: string
  s_task_template :: jobj
  s_delivery_kind :: string
  s_delivery_user :: "string option"
  s_delivery_channel :: "string option"
  s_delivery_thread_ts :: "string option"
  s_artifact_policy :: string
  s_cost_ceiling :: "int option"
  s_key_template :: "string option"
  s_created_by :: "string option"
  s_metadata :: jobj
  s_created_at :: timestamp
  s_updated_at :: timestamp

record db =
  db_tasks :: "task list"
  db_events :: "event list"
  db_usage :: "usage list"
  db_schedules :: "schedule list"
  db_next_event :: nat
  db_next_usage :: nat
  db_now :: timestamp
  db_row_locks :: "uuid list"

definition empty_db :: db where
  "empty_db = \<lparr>db_tasks = [], db_events = [], db_usage = [], db_schedules = [],
     db_next_event = 1, db_next_usage = 1, db_now = 0, db_row_locks = []\<rparr>"

section \<open>Primitive reads and writes\<close>

definition task_get :: "uuid \<Rightarrow> db \<Rightarrow> task option" where
  "task_get tid d = row_get t_id tid (db_tasks d)"

definition upd_task :: "uuid \<Rightarrow> (task \<Rightarrow> task) \<Rightarrow> db \<Rightarrow> db" where
  "upd_task tid f d = d\<lparr>db_tasks := row_upd t_id tid f (db_tasks d)\<rparr>"

definition events_of :: "uuid \<Rightarrow> db \<Rightarrow> event list" where
  "events_of tid d = filter (\<lambda>e. e_task e = tid) (db_events d)"

definition next_event_seq :: "uuid \<Rightarrow> db \<Rightarrow> nat" where
  "next_event_seq tid d = foldr max (map e_seq (events_of tid d)) 0 + 1"

definition new_event :: "uuid \<Rightarrow> event_type \<Rightarrow> jobj \<Rightarrow> db \<Rightarrow> event" where
  "new_event tid ty p d =
     \<lparr>e_id = db_next_event d, e_task = tid, e_seq = next_event_seq tid d, e_type = ty,
      e_payload = p, e_created_at = db_now d\<rparr>"

definition add_event :: "uuid \<Rightarrow> event_type \<Rightarrow> jobj \<Rightarrow> db \<Rightarrow> db" where
  "add_event tid ty p d =
     d\<lparr>db_events := db_events d @ [new_event tid ty p d],
       db_next_event := Suc (db_next_event d)\<rparr>"

definition resolve_task :: "uuid \<Rightarrow> (db, task) op" where
  "resolve_task tid = (\<lambda>d. case task_get tid d of
       Some t \<Rightarrow> (Inr t, d)
     | None \<Rightarrow> (Inl (LookupErr (''Task not found: '' @ uuid_str tid)), d))"

definition update_task :: "uuid \<Rightarrow> (task \<Rightarrow> task) \<Rightarrow> (db, unit) op" where
  "update_task tid f = writing (upd_task tid f)"

text \<open>The row is locked, the sequence number computed and the event inserted.\<close>

definition append_event :: "uuid \<Rightarrow> event_type \<Rightarrow> jobj \<Rightarrow> (db, event) op" where
  "append_event tid ty p =
     seq (resolve_task tid) (\<lambda>t.
     seq (reading (new_event (t_id t) ty p)) (\<lambda>e.
     seq (writing (add_event (t_id t) ty p)) (\<lambda>_.
     returning e)))"

section \<open>Reading back what was written\<close>

lemma task_get_id [simp]: "task_get tid d = Some t \<Longrightarrow> t_id t = tid"
  unfolding task_get_def by (drule row_get_Some) simp

lemma task_get_in: "task_get tid d = Some t \<Longrightarrow> t \<in> set (db_tasks d)"
  unfolding task_get_def by (drule row_get_Some) simp

lemma task_get_upd:
  "(\<And>r. t_id (f r) = t_id r) \<Longrightarrow>
   task_get k (upd_task tid f d) =
     (if k = tid then map_option f (task_get tid d) else task_get k d)"
  by (simp add: task_get_def upd_task_def row_get_upd)

lemma store_frame [simp]:
  "task_get k (add_event tid ty p d) = task_get k d"
  "db_tasks (add_event tid ty p d) = db_tasks d"
  "db_usage (add_event tid ty p d) = db_usage d"
  "db_schedules (add_event tid ty p d) = db_schedules d"
  "db_now (add_event tid ty p d) = db_now d"
  "db_row_locks (add_event tid ty p d) = db_row_locks d"
  "db_events (upd_task tid f d) = db_events d"
  "db_usage (upd_task tid f d) = db_usage d"
  "db_schedules (upd_task tid f d) = db_schedules d"
  "db_now (upd_task tid f d) = db_now d"
  "db_row_locks (upd_task tid f d) = db_row_locks d"
  "db_next_event (upd_task tid f d) = db_next_event d"
  by (simp_all add: task_get_def add_event_def upd_task_def)

lemma events_of_upd [simp]: "events_of k (upd_task tid f d) = events_of k d"
  by (simp add: events_of_def)

lemma events_of_add:
  "events_of k (add_event tid ty p d) =
     (if k = tid then events_of tid d @ [new_event tid ty p d] else events_of k d)"
  by (simp add: events_of_def add_event_def new_event_def)

lemma new_event_simps [simp]:
  "e_task (new_event tid ty p d) = tid"
  "e_type (new_event tid ty p d) = ty"
  "e_payload (new_event tid ty p d) = p"
  "e_seq (new_event tid ty p d) = next_event_seq tid d"
  by (simp_all add: new_event_def)

lemma next_event_seq_upd [simp]: "next_event_seq k (upd_task tid f d) = next_event_seq k d"
  by (simp add: next_event_seq_def)

lemma new_event_upd [simp]: "new_event k ty p (upd_task tid f d) = new_event k ty p d"
  by (simp add: new_event_def)

text \<open>The events a write adds carry a fresh number, whatever the log holds.\<close>

lemma next_event_seq_fresh: "next_event_seq tid d \<notin> e_seq ` set (events_of tid d)"
proof -
  have le: "n \<in> set ns \<Longrightarrow> n \<le> foldr max ns 0" for n :: nat and ns
    by (induction ns) auto
  have "n < next_event_seq tid d" if "n \<in> e_seq ` set (events_of tid d)" for n
    using le [of n "map e_seq (events_of tid d)"] that by (simp add: next_event_seq_def)
  then show ?thesis by blast
qed

lemma resolve_task_simp [db_simps]:
  "task_get tid d = Some t \<Longrightarrow> resolve_task tid d = (Inr t, d)"
  "task_get tid d = None \<Longrightarrow>
     resolve_task tid d = (Inl (LookupErr (''Task not found: '' @ uuid_str tid)), d)"
  by (simp_all add: resolve_task_def)

lemma update_task_simp [db_simps]: "update_task tid f d = (Inr (), upd_task tid f d)"
  by (simp add: update_task_def)

lemma append_event_simp [db_simps]:
  "task_get tid d = Some t \<Longrightarrow>
     append_event tid ty p d = (Inr (new_event tid ty p d), add_event tid ty p d)"
  by (simp add: append_event_def seq_apply resolve_task_def)

lemma append_event_missing [db_simps]:
  "task_get tid d = None \<Longrightarrow>
     append_event tid ty p d = (Inl (LookupErr (''Task not found: '' @ uuid_str tid)), d)"
  by (simp add: append_event_def seq_apply resolve_task_def)

section \<open>An append-only log per key\<close>

text \<open>
  What the rest of the system relies on of \<open>task_events\<close>: an append changes one task's log,
  at its end. A client that only appends can then reason with prefixes.
\<close>

locale keyed_log =
  fixes append :: "'k \<Rightarrow> 'a \<Rightarrow> 'log \<Rightarrow> 'log"
    and entries :: "'k \<Rightarrow> 'log \<Rightarrow> 'e list"
    and entry :: "'k \<Rightarrow> 'a \<Rightarrow> 'log \<Rightarrow> 'e"
  assumes append_here: "entries k (append k a l) = entries k l @ [entry k a l]"
    and append_elsewhere: "k' \<noteq> k \<Longrightarrow> entries k' (append k a l) = entries k' l"
begin

definition grows :: "'log \<Rightarrow> 'log \<Rightarrow> bool" where
  "grows l l' \<longleftrightarrow> (\<forall>k. \<exists>es. entries k l' = entries k l @ es)"

lemma grows_refl: "grows l l"
  by (simp add: grows_def)

lemma grows_trans: "grows l l' \<Longrightarrow> grows l' l'' \<Longrightarrow> grows l l''"
  unfolding grows_def by (metis append.assoc)

lemma grows_append: "grows l (append k a l)"
  unfolding grows_def using append_here append_elsewhere by (metis append_Nil2)

lemma grows_appends: "grows l (fold (\<lambda>(k, a). append k a) kas l)"
proof (induction kas arbitrary: l)
  case Nil
  then show ?case by (simp add: grows_refl)
next
  case (Cons ka kas)
  then show ?case using grows_append grows_trans by (cases ka) fastforce
qed

lemma grows_nth:
  assumes "grows l l'" and "i < length (entries k l)"
  shows "entries k l' ! i = entries k l ! i"
  using assms unfolding grows_def by (metis nth_append)

lemma grows_length: "grows l l' \<Longrightarrow> length (entries k l) \<le> length (entries k l')"
  unfolding grows_def by (metis le_add1 length_append)

end

interpretation event_log: keyed_log
  "\<lambda>k a. add_event k (fst a) (snd a)" events_of "\<lambda>k a. new_event k (fst a) (snd a)"
  by unfold_locales (auto simp: events_of_add)

abbreviation log_grows :: "db \<Rightarrow> db \<Rightarrow> bool" where
  "log_grows \<equiv> event_log.grows"

lemma log_grows_same: "db_events d' = db_events d \<Longrightarrow> log_grows d d'"
  by (simp add: event_log.grows_def events_of_def)

lemma log_grows_upd [simp]: "log_grows d (upd_task tid f d') \<longleftrightarrow> log_grows d d'"
  by (simp add: event_log.grows_def)

lemma log_grows_add: "log_grows d d' \<Longrightarrow> log_grows d (add_event tid ty p d')"
  using event_log.grows_trans event_log.grows_append [of d' tid "(ty, p)"] by fastforce

section \<open>Invariants of the store\<close>

definition log_numbered :: "db \<Rightarrow> bool" where
  "log_numbered d \<longleftrightarrow>
     (\<forall>tid. map e_seq (events_of tid d) = [1..<Suc (length (events_of tid d))])"

definition events_owned :: "db \<Rightarrow> bool" where
  "events_owned d \<longleftrightarrow> e_task ` set (db_events d) \<subseteq> t_id ` set (db_tasks d)"

definition identity_of :: "task \<Rightarrow> (uuid \<times> string) option" where
  "identity_of t = map_option (\<lambda>k. (t_installation t, k)) (t_identity_key t)"

definition somes :: "'a option list \<Rightarrow> 'a list" where
  "somes xs = map the (filter (\<lambda>x. x \<noteq> None) xs)"

text \<open>The primary key and the two unique indexes of the \<open>tasks\<close> table.\<close>

definition tasks_unique :: "db \<Rightarrow> bool" where
  "tasks_unique d \<longleftrightarrow>
     distinct (map t_id (db_tasks d)) \<and>
     distinct (somes (map identity_of (db_tasks d))) \<and>
     distinct (somes (map t_slack_event_id (db_tasks d)))"

definition status_log :: "uuid \<Rightarrow> db \<Rightarrow> jobj list" where
  "status_log tid d =
     map e_payload (filter (\<lambda>e. e_type e = Status_Changed) (events_of tid d))"

text \<open>
  Reading the status changes of a task: every entry names the status it ends in. Where it starts is
  what the writer's session showed, which need not be where the entry before it ended.
\<close>

fun status_walk :: "task_status \<Rightarrow> jobj list \<Rightarrow> task_status option" where
  "status_walk s [] = Some s"
| "status_walk s (p # ps) =
     (case json_str (jget p ''to'') of
        None \<Rightarrow> None
      | Some u \<Rightarrow> (case parse_status u of None \<Rightarrow> None | Some s' \<Rightarrow> status_walk s' ps))"

definition audited :: "db \<Rightarrow> bool" where
  "audited d \<longleftrightarrow>
     (\<forall>t \<in> set (db_tasks d). status_walk Pending (status_log (t_id t) d) = Some (t_status t))"

definition store_ok :: "db \<Rightarrow> bool" where
  "store_ok d \<longleftrightarrow> tasks_unique d \<and> events_owned d \<and> log_numbered d"

lemma foldr_max_upt: "foldr max [1..<Suc n] (0::nat) = n"
proof -
  have "foldr max ns m = max (foldr max ns 0) m" for ns and m :: nat
    by (induction ns) auto
  then have app: "foldr max (ns @ [m]) (0::nat) = max (foldr max ns 0) m" for ns m
    by (metis foldr_Cons foldr_Nil foldr_append id_apply max_0R comp_apply)
  show ?thesis by (induction n) (simp_all add: app del: foldr_append)
qed

lemma next_event_seq_numbered:
  "log_numbered d \<Longrightarrow> next_event_seq tid d = Suc (length (events_of tid d))"
  by (simp only: next_event_seq_def log_numbered_def foldr_max_upt)

lemma log_numbered_upd [simp]: "log_numbered (upd_task tid f d) = log_numbered d"
  by (simp add: log_numbered_def)

lemma log_numbered_add [intro]: "log_numbered d \<Longrightarrow> log_numbered (add_event tid ty p d)"
  using next_event_seq_numbered [of d tid]
  by (simp add: log_numbered_def events_of_add del: upt_Suc) simp

lemma status_walk_append:
  "status_walk s (ps @ qs) =
     (case status_walk s ps of None \<Rightarrow> None | Some s' \<Rightarrow> status_walk s' qs)"
  by (induction s ps rule: status_walk.induct) (auto split: option.split)

lemma status_log_upd [simp]: "status_log k (upd_task tid f d) = status_log k d"
  by (simp add: status_log_def)

lemma status_log_add:
  "status_log k (add_event tid ty p d) =
     (if k = tid \<and> ty = Status_Changed then status_log k d @ [p] else status_log k d)"
  by (simp add: status_log_def events_of_add)

lemma events_owned_add:
  "events_owned d \<Longrightarrow> task_get tid d \<noteq> None \<Longrightarrow> events_owned (add_event tid ty p d)"
  by (auto simp: events_owned_def add_event_def task_get_def row_get_None)

lemma status_log_unowned:
  "events_owned d \<Longrightarrow> tid \<notin> t_id ` set (db_tasks d) \<Longrightarrow> status_log tid d = []"
  by (auto simp: status_log_def events_of_def events_owned_def filter_empty_conv)

text \<open>An update that keeps a row's keys keeps the store's shape.\<close>

definition keeps_keys :: "(task \<Rightarrow> task) \<Rightarrow> bool" where
  "keeps_keys f \<longleftrightarrow>
     (\<forall>t. t_id (f t) = t_id t \<and> identity_of (f t) = identity_of t \<and>
          t_slack_event_id (f t) = t_slack_event_id t)"

lemma map_upd_task:
  "(\<And>t. g (f t) = g t) \<Longrightarrow> map g (db_tasks (upd_task tid f d)) = map g (db_tasks d)"
  by (simp add: upd_task_def row_upd_def)

lemma store_ok_upd: "keeps_keys f \<Longrightarrow> store_ok (upd_task tid f d) = store_ok d"
proof -
  assume f: "keeps_keys f"
  then have "map g (db_tasks (upd_task tid f d)) = map g (db_tasks d)"
    if "g = t_id" for g
    using that by (simp add: map_upd_task keeps_keys_def)
  then have ids: "map t_id (db_tasks (upd_task tid f d)) = map t_id (db_tasks d)" by simp
  moreover have "t_id ` set (db_tasks (upd_task tid f d)) = t_id ` set (db_tasks d)"
    by (metis ids set_map)
  ultimately show ?thesis
    using f by (simp add: store_ok_def tasks_unique_def events_owned_def map_upd_task keeps_keys_def)
qed

lemma store_ok_add:
  "store_ok d \<Longrightarrow> task_get tid d \<noteq> None \<Longrightarrow> store_ok (add_event tid ty p d)"
  by (auto simp: store_ok_def tasks_unique_def events_owned_add)

lemma audited_keep:
  assumes "audited d" and "\<And>t. t_id (f t) = t_id t" and "\<And>t. t_status (f t) = t_status t"
  shows "audited (upd_task tid f d)"
  using assms by (auto simp: audited_def upd_task_def row_upd_def status_log_def events_of_def)

lemma audited_other: "audited d \<Longrightarrow> ty \<noteq> Status_Changed \<Longrightarrow> audited (add_event tid ty p d)"
  by (simp add: audited_def status_log_add)

text \<open>A change of status and the entry that reports it, together, keep the log true.\<close>

lemma audited_change:
  assumes ok: "audited d" "tasks_unique d" and t: "task_get tid d = Some t"
    and f: "\<And>r. t_id (f r) = t_id r"
    and p: "jget p ''to'' = JStr (status_value (t_status (f t)))"
  shows "audited (add_event tid Status_Changed p (upd_task tid f d))"
  unfolding audited_def
proof
  fix r assume "r \<in> set (db_tasks (add_event tid Status_Changed p (upd_task tid f d)))"
  then consider (other) "r \<in> set (db_tasks d)" "t_id r \<noteq> tid"
    | (self) r0 where "r0 \<in> set (db_tasks d)" "t_id r0 = tid" "r = f r0"
    by (auto simp: upd_task_def dest: set_row_upd)
  then show "status_walk Pending (status_log (t_id r)
      (add_event tid Status_Changed p (upd_task tid f d))) = Some (t_status r)"
  proof cases
    case other
    with ok show ?thesis by (simp add: status_log_add audited_def)
  next
    case self
    from self(1,2) have "task_get tid d = Some r0"
      using ok row_get_in [of t_id "db_tasks d" r0] by (simp add: task_get_def tasks_unique_def)
    with t self have r: "r = f t" "t \<in> set (db_tasks d)" "t_id t = tid" by simp_all
    then have "status_walk Pending (status_log tid d) = Some (t_status t)"
      using ok by (auto simp: audited_def)
    with r show ?thesis using p f by (simp add: status_log_add status_walk_append)
  qed
qed

end
