(* ===== verification/Task_Repository.thy ===== *)
theory Task_Repository
  imports Task_Store
begin

text \<open>
  \<open>kortny/tasks/repository.py\<close>: creating tasks idempotently, moving them between statuses,
  the human approval round trip, the usage rollup and the scheduled cost ceiling. One
  definition per method, in the order of the class, over \<open>('s, 'a) op\<close> of the prelude.

  \<open>create_task\<close> is written as its two database turns: the lookup, and the insert with its
  recovery from a unique-index violation; what other transactions commit in between is the
  argument \<open>race\<close> of \<open>create_task\<close> and real interleaving in theory \<open>Task_System\<close>.
\<close>

section \<open>Sanitizing payloads\<close>

text \<open>\<open>sanitize_payload\<close> on JSON values: null members of objects are dropped, at any depth.\<close>

fun sanitize :: "json \<Rightarrow> json" where
  "sanitize (JArr xs) = JArr (map sanitize xs)"
| "sanitize (JObj kvs) =
     JObj (map (\<lambda>kv. (fst kv, sanitize (snd kv))) (filter (\<lambda>kv. snd kv \<noteq> JNull) kvs))"
| "sanitize j = j"

fun null_free :: "json \<Rightarrow> bool" where
  "null_free (JArr xs) = list_all null_free xs"
| "null_free (JObj kvs) = list_all (\<lambda>kv. snd kv \<noteq> JNull \<and> null_free (snd kv)) kvs"
| "null_free _ = True"

lemma sanitize_eq_JNull [simp]: "sanitize j = JNull \<longleftrightarrow> j = JNull"
  by (cases j) auto

lemma sanitize_null_free: "null_free (sanitize j)"
  by (induction j rule: sanitize.induct) (auto simp: list_all_iff)

lemma sanitize_id: "null_free j \<Longrightarrow> sanitize j = j"
proof (induction j rule: null_free.induct)
  case (1 xs)
  then show ?case by (auto simp: list_all_iff intro: map_idI)
next
  case (2 kvs)
  then have "filter (\<lambda>kv. snd kv \<noteq> JNull) kvs = kvs"
    by (auto simp: list_all_iff filter_id_conv)
  moreover have "map (\<lambda>kv. (fst kv, sanitize (snd kv))) kvs = kvs"
    using 2 by (force simp: list_all_iff intro: map_idI)
  ultimately show ?case by simp
qed simp_all

section \<open>Constants and conversions\<close>

definition terminal_statuses :: "task_status list" where
  "terminal_statuses = [Succeeded, Failed, Cancelled]"

definition cancellable_statuses :: "task_status list" where
  "cancellable_statuses = [Pending, Running, Waiting_Approval]"

definition tool_approval_required_message :: string where
  "tool_approval_required_message = ''tool_approval_required''"

definition tool_approval_waiting_message :: string where
  "tool_approval_waiting_message = ''tool_approval_waiting''"

definition tool_approval_decision_message :: string where
  "tool_approval_decision_message = ''tool_approval_decision''"

definition ceiling_message :: string where
  "ceiling_message = ''scheduled_task_cost_ceiling_exceeded''"

lemmas message_defs =
  tool_approval_required_message_def tool_approval_waiting_message_def
  tool_approval_decision_message_def ceiling_message_def

text \<open>The cost argument of \<open>record_llm_usage\<close>.\<close>

datatype cost_arg = CostDec decimal | CostInt int | CostStr string

fun coerce_decimal :: "cost_arg \<Rightarrow> decimal res" where
  "coerce_decimal (CostDec x) = Inr x"
| "coerce_decimal (CostInt i) = Inr (dec_of_int i)"
| "coerce_decimal (CostStr s) =
     (case dec_parse s of None \<Rightarrow> Inl InvalidOperation | Some x \<Rightarrow> Inr x)"

definition optional_decimal :: "json \<Rightarrow> decimal option" where
  "optional_decimal j = (if j = JNull then None else dec_parse (py_str j))"

definition optional_uuid :: "json \<Rightarrow> uuid option" where
  "optional_uuid j =
     (case j of JStr s \<Rightarrow> if non_blank s then uuid_parse s else None | _ \<Rightarrow> None)"

definition clear_task_lease :: "task \<Rightarrow> task" where
  "clear_task_lease t = t\<lparr>t_locked_by := None, t_locked_at := None, t_lease_expires_at := None\<rparr>"

section \<open>Queries\<close>

definition get_task :: "uuid \<Rightarrow> db \<Rightarrow> task option" where
  "get_task tid d = task_get tid d"

definition get_by_slack_event_id :: "string \<Rightarrow> db \<Rightarrow> task option" where
  "get_by_slack_event_id ev d = find (\<lambda>t. t_slack_event_id t = Some ev) (db_tasks d)"

definition get_by_identity_key :: "uuid \<Rightarrow> string \<Rightarrow> db \<Rightarrow> task option" where
  "get_by_identity_key inst key d =
     find (\<lambda>t. t_installation t = inst \<and> t_identity_key t = Some key) (db_tasks d)"

text \<open>
  \<open>ORDER BY ... DESC LIMIT 1\<close>. Ties, which SQL leaves open, go to the row inserted first.
\<close>

definition first_by :: "('r \<Rightarrow> 'k::linorder) \<Rightarrow> 'r list \<Rightarrow> 'r option" where
  "first_by key rows = (case sort_key key rows of [] \<Rightarrow> None | r # _ \<Rightarrow> Some r)"

definition get_by_thread :: "string \<Rightarrow> string \<Rightarrow> db \<Rightarrow> task option" where
  "get_by_thread ch ts d =
     first_by (\<lambda>t. - t_created_at t)
       (filter (\<lambda>t. t_channel t = ch \<and> t_thread_ts t = Some ts) (db_tasks d))"

definition get_by_slack_message :: "string \<Rightarrow> string \<Rightarrow> db \<Rightarrow> task option" where
  "get_by_slack_message ch ts d =
     first_by (\<lambda>t. - t_created_at t)
       (filter (\<lambda>t. t_channel t = ch \<and> t_message_ts t = Some ts) (db_tasks d))"

text \<open>The text of a JSON member as \<open>->>\<close> reads it; arrays and objects are never compared here.\<close>

fun json_text :: "json \<Rightarrow> string option" where
  "json_text (JStr s) = Some s"
| "json_text (JInt i) = Some (int_str i)"
| "json_text (JFloat r) = Some r"
| "json_text (JBool b) = Some (if b then ''true'' else ''false'')"
| "json_text _ = None"

definition posted_in :: "string \<Rightarrow> string \<Rightarrow> db \<Rightarrow> (event \<times> task) list" where
  "posted_in ch ts d =
     [(e, t). e \<leftarrow> db_events d, t \<leftarrow> db_tasks d,
        e_task e = t_id t \<and> t_channel t = ch \<and> e_type e = Message_Posted \<and>
        json_text (jget (e_payload e) ''message_ts'') = Some ts]"

definition get_by_slack_reaction_target :: "string \<Rightarrow> string \<Rightarrow> db \<Rightarrow> task option" where
  "get_by_slack_reaction_target ch ts d =
     (let direct = get_by_slack_message ch ts d;
          posted = map_option snd
            (first_by (\<lambda>(e, t). (- e_created_at e, - t_created_at t)) (posted_in ch ts d))
      in case direct of
           None \<Rightarrow> posted
         | Some a \<Rightarrow> (case posted of
             None \<Rightarrow> direct
           | Some b \<Rightarrow> if t_created_at a \<le> t_created_at b then posted else direct))"

definition list_by_thread :: "string \<Rightarrow> string \<Rightarrow> db \<Rightarrow> task list" where
  "list_by_thread ch ts d =
     sort_key (\<lambda>t. (t_created_at t, t_id t))
       (filter (\<lambda>t. t_channel t = ch \<and> t_thread_ts t = Some ts) (db_tasks d))"

section \<open>Creating tasks\<close>

definition record_identity_mismatch :: "task \<Rightarrow> task_identity \<Rightarrow> (db, unit) op" where
  "record_identity_mismatch t ident =
     (if t_identity_fingerprint t = Some (ident_fingerprint ident) then returning ()
      else if t_identity_key t = None \<and> t_slack_event_id t \<noteq> None then returning ()
      else seq (append_event (t_id t) Log
        [(''message'', JStr ''task_identity_mismatch''),
         (''existing_identity_kind'', jopt_str (t_identity_kind t)),
         (''existing_identity_key'', jopt_str (t_identity_key t)),
         (''existing_identity_fingerprint'', jopt_str (t_identity_fingerprint t)),
         (''requested_identity_kind'', JStr (ident_kind ident)),
         (''requested_identity_key'', JStr (ident_key ident)),
         (''requested_identity_fingerprint'', JStr (ident_fingerprint ident)),
         (''requested_identity_payload'', sanitize (JObj (ident_payload ident)))])
        (\<lambda>_. returning ()))"

text \<open>By identity key, then by Slack event id; a hit under another fingerprint is logged.\<close>

definition lookup_existing ::
  "uuid \<Rightarrow> task_identity \<Rightarrow> string option \<Rightarrow> (db, task option) op" where
  "lookup_existing inst ident ev =
     seq (reading (get_by_identity_key inst (ident_key ident))) (\<lambda>found.
     case found of
       Some t \<Rightarrow> seq (record_identity_mismatch t ident) (\<lambda>_. returning (Some t))
     | None \<Rightarrow> (case ev of
         None \<Rightarrow> returning None
       | Some ev' \<Rightarrow> seq (reading (get_by_slack_event_id ev')) (\<lambda>found'. case found' of
           Some t \<Rightarrow> seq (record_identity_mismatch t ident) (\<lambda>_. returning (Some t))
         | None \<Rightarrow> returning None)))"

definition get_by_slack_task_identity ::
  "(string \<Rightarrow> string) \<Rightarrow> task_request \<Rightarrow> (db, task option) op" where
  "get_by_slack_task_identity sha rq =
     lookup_existing (rq_installation rq) (for_task_request sha rq) (rq_slack_event_id rq)"

definition request_identity :: "(string \<Rightarrow> string) \<Rightarrow> task_request \<Rightarrow> task_identity" where
  "request_identity sha rq =
     (case rq_identity rq of Some i \<Rightarrow> i | None \<Rightarrow> for_task_request sha rq)"

definition new_task :: "uuid \<Rightarrow> task_request \<Rightarrow> task_identity \<Rightarrow> timestamp \<Rightarrow> task" where
  "new_task tid rq ident now =
     \<lparr>t_id = tid, t_installation = rq_installation rq, t_parent = rq_parent rq,
      t_slack_event_id = rq_slack_event_id rq, t_channel = rq_channel rq,
      t_thread_ts = rq_thread_ts rq, t_message_ts = rq_message_ts rq, t_user = rq_user rq,
      t_identity_kind = Some (ident_kind ident), t_identity_key = Some (ident_key ident),
      t_identity_payload = ident_payload ident,
      t_identity_fingerprint = Some (ident_fingerprint ident), t_input = rq_input rq,
      t_status = Pending, t_result_summary = None, t_error = None, t_routing_quality = None,
      t_routing_score = None, t_available_at = now, t_locked_by = None, t_locked_at = None,
      t_lease_expires_at = None, t_attempts = 0, t_max_attempts = 3,
      t_total_input_tokens = 0, t_total_output_tokens = 0, t_total_cost = 0,
      t_created_at = now, t_started_at = None, t_finished_at = None, t_updated_at = now\<rparr>"

text \<open>
  The constraints of the \<open>tasks\<close> table, in the order an insert meets them: the identity-kind
  check, the primary key, the two unique indexes, the reference to the parent.
\<close>

definition insert_violation :: "task \<Rightarrow> db \<Rightarrow> string option" where
  "insert_violation row d =
     (if \<not> (case t_identity_kind row of None \<Rightarrow> True | Some k \<Rightarrow> k \<in> set identity_kinds)
      then Some ''ck_tasks_identity_kind''
      else if t_id row \<in> t_id ` set (db_tasks d) then Some ''tasks_pkey''
      else if identity_of row \<noteq> None \<and> identity_of row \<in> identity_of ` set (db_tasks d)
      then Some ''idx_tasks_identity_unique''
      else if t_slack_event_id row \<noteq> None \<and>
              t_slack_event_id row \<in> t_slack_event_id ` set (db_tasks d)
      then Some ''tasks_slack_event_id_key''
      else if t_parent row \<noteq> None \<and> the (t_parent row) \<notin> t_id ` set (db_tasks d)
      then Some ''tasks_parent_task_id_fkey''
      else None)"

definition insert_task :: "task \<Rightarrow> (db, unit) op" where
  "insert_task row = (\<lambda>d. case insert_violation row d of
       Some c \<Rightarrow> (Inl (IntegrityError c), d)
     | None \<Rightarrow> (Inr (), d\<lparr>db_tasks := db_tasks d @ [row]\<rparr>))"

definition created_payload :: "task_request \<Rightarrow> task_identity \<Rightarrow> jobj" where
  "created_payload rq ident =
     [(''slack_event_id'', jopt_str (rq_slack_event_id rq)),
      (''slack_channel_id'', JStr (rq_channel rq)),
      (''slack_thread_ts'', jopt_str (rq_thread_ts rq)),
      (''slack_message_ts'', jopt_str (rq_message_ts rq)),
      (''slack_user_id'', JStr (rq_user rq)),
      (''identity_kind'', JStr (ident_kind ident)),
      (''identity_key'', JStr (ident_key ident)),
      (''identity_fingerprint'', JStr (ident_fingerprint ident))]"

text \<open>The insert inside its savepoint; a lost race answers with the winner's row.\<close>

definition create_insert ::
  "(string \<Rightarrow> string) \<Rightarrow> uuid \<Rightarrow> task_request \<Rightarrow> (db, task) op" where
  "create_insert sha fresh rq =
     (let ident = request_identity sha rq in
      seq (reading (\<lambda>d. new_task fresh rq ident (db_now d))) (\<lambda>row.
      seq (catching (seq (insert_task row) (\<lambda>_. returning None)) (\<lambda>e. case e of
             IntegrityError c \<Rightarrow>
               seq (lookup_existing (rq_installation rq) ident (rq_slack_event_id rq)) (\<lambda>found.
               case found of Some t \<Rightarrow> returning (Some t) | None \<Rightarrow> raising e)
           | _ \<Rightarrow> raising e)) (\<lambda>found.
      case found of
        Some t \<Rightarrow> returning t
      | None \<Rightarrow> seq (append_event fresh Task_Created (created_payload rq ident)) (\<lambda>_.
                returning row))))"

definition create_task ::
  "(string \<Rightarrow> string) \<Rightarrow> (db \<Rightarrow> db) \<Rightarrow> uuid \<Rightarrow> task_request \<Rightarrow> (db, task) op" where
  "create_task sha race fresh rq =
     seq (lookup_existing (rq_installation rq) (request_identity sha rq) (rq_slack_event_id rq))
       (\<lambda>found. case found of
          Some t \<Rightarrow> returning t
        | None \<Rightarrow> seq (writing race) (\<lambda>_. create_insert sha fresh rq))"

section \<open>Status changes\<close>

definition from_to :: "task_status \<Rightarrow> task_status \<Rightarrow> jobj" where
  "from_to s s' = [(''from'', JStr (status_value s)), (''to'', JStr (status_value s'))]"

definition transition_row :: "timestamp \<Rightarrow> task_status \<Rightarrow> task \<Rightarrow> task" where
  "transition_row now st t = t\<lparr>
     t_status := st, t_updated_at := now,
     t_started_at := (if st = Running \<and> t_started_at t = None then Some now else t_started_at t),
     t_finished_at := (if st \<in> set terminal_statuses then Some now else t_finished_at t)\<rparr>"

text \<open>
  \<open>seen\<close> is the status that the session's object of the task shows. A worker's session keeps its objects
  over its commits, so it is the status of the last refresh, which another session may have changed.
\<close>

definition transition :: "task_status \<Rightarrow> uuid \<Rightarrow> string \<Rightarrow> (db, task) op" where
  "transition seen tid status =
     seq (resolve_task tid) (\<lambda>t.
     case parse_status status of
       None \<Rightarrow> raising (ValueError (repr_text status @ '' is not a valid TaskStatus''))
     | Some st \<Rightarrow>
         seq (reading db_now) (\<lambda>now.
         seq (update_task tid (transition_row now st)) (\<lambda>_.
         seq (append_event tid Status_Changed (from_to seen st)) (\<lambda>_.
         resolve_task tid))))"

definition cancel_row :: "timestamp \<Rightarrow> task \<Rightarrow> task" where
  "cancel_row now t = clear_task_lease
     (t\<lparr>t_status := Cancelled, t_finished_at := Some now, t_updated_at := now\<rparr>)"

definition cancel_task :: "uuid \<Rightarrow> string option \<Rightarrow> string \<Rightarrow> (db, task option) op" where
  "cancel_task tid by_user reason =
     seq (resolve_task tid) (\<lambda>t.
     if t_status t \<notin> set cancellable_statuses then returning None
     else
       seq (reading db_now) (\<lambda>now.
       seq (update_task tid (cancel_row now)) (\<lambda>_.
       seq (append_event tid Status_Changed
             (from_to (t_status t) Cancelled @
              [(''reason'', JStr reason), (''by_user_id'', jopt_str by_user)])) (\<lambda>_.
       seq (resolve_task tid) (\<lambda>t'. returning (Some t'))))))"

definition retry_row :: "timestamp \<Rightarrow> task \<Rightarrow> task" where
  "retry_row at t = clear_task_lease
     (t\<lparr>t_status := Pending, t_attempts := 0, t_available_at := at, t_started_at := None,
        t_finished_at := None, t_error := None, t_updated_at := at\<rparr>)"

definition retry_failed_task ::
  "uuid \<Rightarrow> string option \<Rightarrow> string \<Rightarrow> timestamp option \<Rightarrow> (db, task option) op" where
  "retry_failed_task tid by_user reason available_at =
     seq (resolve_task tid) (\<lambda>t.
     if t_status t \<noteq> Failed then returning None
     else
       seq (reading (\<lambda>d. case available_at of Some at \<Rightarrow> at | None \<Rightarrow> db_now d)) (\<lambda>at.
       seq (update_task tid (retry_row at)) (\<lambda>_.
       seq (append_event tid Status_Changed
             (from_to (t_status t) Pending @
              [(''reason'', JStr reason), (''by_user_id'', jopt_str by_user)])) (\<lambda>_.
       seq (resolve_task tid) (\<lambda>t'. returning (Some t'))))))"

section \<open>Tool approvals\<close>

text \<open>\<open>request.get('tool', 'a tool')\<close> inside an f-string.\<close>

definition waiting_summary :: "jobj \<Rightarrow> string" where
  "waiting_summary request =
     ''Waiting for approval to run '' @
     (case map_of request ''tool'' of None \<Rightarrow> ''a tool'' | Some j \<Rightarrow> py_str j) @ ''.''"

definition waiting_row :: "timestamp \<Rightarrow> jobj \<Rightarrow> task \<Rightarrow> task" where
  "waiting_row now request t = clear_task_lease
     (t\<lparr>t_status := Waiting_Approval, t_result_summary := Some (waiting_summary request),
        t_updated_at := now\<rparr>)"

definition mark_waiting_for_tool_approval ::
  "task_status \<Rightarrow> uuid \<Rightarrow> jobj \<Rightarrow> string \<Rightarrow> string option \<Rightarrow> (db, task) op" where
  "mark_waiting_for_tool_approval seen tid request prompt_ts by_worker =
     seq (resolve_task tid) (\<lambda>t.
     seq (reading db_now) (\<lambda>now.
     seq (update_task tid (waiting_row now request)) (\<lambda>_.
     seq (append_event tid Status_Changed
           (from_to seen Waiting_Approval @
            [(''reason'', JStr ''tool_approval_required''), (''by_worker_id'', jopt_str by_worker),
             (''approval_key'', jget request ''approval_key''), (''tool'', jget request ''tool''),
             (''prompt_message_ts'', JStr prompt_ts)])) (\<lambda>_.
     seq (append_event tid Log
           [(''message'', JStr tool_approval_waiting_message), (''request'', JObj request),
            (''prompt_message_ts'', JStr prompt_ts), (''by_worker_id'', jopt_str by_worker)]) (\<lambda>_.
     resolve_task tid)))))"

definition log_events_newest_first :: "uuid \<Rightarrow> db \<Rightarrow> event list" where
  "log_events_newest_first tid d =
     rev (sort_key e_seq (filter (\<lambda>e. e_type e = Log) (events_of tid d)))"

definition decided_keys :: "event list \<Rightarrow> string list" where
  "decided_keys evs =
     [k. e \<leftarrow> evs, jget (e_payload e) ''message'' = JStr tool_approval_decision_message,
         k \<leftarrow> (case json_str (jget (e_payload e) ''approval_key'') of Some k \<Rightarrow> [k] | None \<Rightarrow> [])]"

fun first_undecided :: "string list \<Rightarrow> event list \<Rightarrow> jobj option" where
  "first_undecided decided [] = None"
| "first_undecided decided (e # es) =
     (if jget (e_payload e) ''message'' \<noteq> JStr tool_approval_required_message
      then first_undecided decided es
      else case json_obj (jget (e_payload e) ''request'') of
             None \<Rightarrow> first_undecided decided es
           | Some request \<Rightarrow>
               (case json_str (jget request ''approval_key'') of
                  None \<Rightarrow> first_undecided decided es
                | Some k \<Rightarrow> if k \<in> set decided then first_undecided decided es
                            else Some request))"

definition pending_approval :: "uuid \<Rightarrow> db \<Rightarrow> jobj option" where
  "pending_approval tid d =
     (let evs = log_events_newest_first tid d in first_undecided (decided_keys evs) evs)"

definition latest_pending_tool_approval :: "uuid \<Rightarrow> (db, jobj option) op" where
  "latest_pending_tool_approval tid =
     seq (resolve_task tid) (\<lambda>t. reading (pending_approval (t_id t)))"

definition decision_payload :: "string \<Rightarrow> string \<Rightarrow> jobj \<Rightarrow> string \<Rightarrow> jobj" where
  "decision_payload decision key pending by_user =
     [(''message'', JStr tool_approval_decision_message), (''decision'', JStr decision),
      (''approval_key'', JStr key), (''tool'', jget pending ''tool''),
      (''by_user_id'', JStr by_user)]"

definition approve_row :: "timestamp \<Rightarrow> task \<Rightarrow> task" where
  "approve_row at t = clear_task_lease
     (t\<lparr>t_status := Pending, t_available_at := at, t_finished_at := None, t_error := None,
        t_updated_at := at\<rparr>)"

definition approve_tool_approval ::
  "uuid \<Rightarrow> string \<Rightarrow> string \<Rightarrow> timestamp option \<Rightarrow> (db, task option) op" where
  "approve_tool_approval tid key by_user available_at =
     seq (resolve_task tid) (\<lambda>t.
     if t_status t \<noteq> Waiting_Approval then returning None
     else seq (latest_pending_tool_approval tid) (\<lambda>pending.
       case pending of
         None \<Rightarrow> returning None
       | Some request \<Rightarrow>
           if jget request ''approval_key'' \<noteq> JStr key then returning None
           else
             seq (reading (\<lambda>d. case available_at of Some at \<Rightarrow> at | None \<Rightarrow> db_now d)) (\<lambda>at.
             seq (update_task tid (approve_row at)) (\<lambda>_.
             seq (append_event tid Log (decision_payload ''approved'' key request by_user)) (\<lambda>_.
             seq (append_event tid Status_Changed
                   (from_to Waiting_Approval Pending @
                    [(''reason'', JStr ''tool_approval_approved''), (''approval_key'', JStr key),
                     (''by_user_id'', JStr by_user)])) (\<lambda>_.
             seq (resolve_task tid) (\<lambda>t'. returning (Some t'))))))))"

definition reject_tool_approval :: "uuid \<Rightarrow> string \<Rightarrow> string \<Rightarrow> (db, task option) op" where
  "reject_tool_approval tid key by_user =
     seq (resolve_task tid) (\<lambda>t.
     if t_status t \<noteq> Waiting_Approval then returning None
     else seq (latest_pending_tool_approval tid) (\<lambda>pending.
       case pending of
         None \<Rightarrow> returning None
       | Some request \<Rightarrow>
           if jget request ''approval_key'' \<noteq> JStr key then returning None
           else
             seq (append_event tid Log (decision_payload ''rejected'' key request by_user)) (\<lambda>_.
             cancel_task tid (Some by_user) ''tool_approval_rejected'')))"

definition raise_if_cancelled :: "uuid \<Rightarrow> string option \<Rightarrow> (db, unit) op" where
  "raise_if_cancelled tid phase =
     seq (resolve_task tid) (\<lambda>t.
     if t_status t = Cancelled
     then raising (TaskCancelled (''Task '' @ uuid_str (t_id t) @ '' was cancelled'' @
            (case truthy phase of Some p \<Rightarrow> '' during '' @ p | None \<Rightarrow> [])))
     else returning ())"

section \<open>Usage and the cost ceiling\<close>

record usage_args =
  ua_provider :: string
  ua_model :: string
  ua_input_tokens :: int
  ua_output_tokens :: int
  ua_cost :: cost_arg
  ua_cache_creation :: int
  ua_cache_read :: int
  ua_event_id :: "nat option"
  ua_model_tier :: "string option"
  ua_metadata :: jobj
  ua_provider_kind :: "string option"
  ua_provider_account :: "uuid option"
  ua_cost_source :: "string option"

definition llm_providers :: "string list" where
  "llm_providers = [''openai'', ''anthropic'', ''openrouter'']"

definition effective_provider_kind :: "usage_args \<Rightarrow> string option" where
  "effective_provider_kind a =
     (case truthy (ua_provider_kind a) of Some k \<Rightarrow> Some k | None \<Rightarrow> truthy (Some (ua_provider a)))"

definition usage_event_payload :: "usage_args \<Rightarrow> decimal \<Rightarrow> jobj" where
  "usage_event_payload a cost =
     (let base = [(''message'', JStr ''llm_call_completed''), (''provider'', JStr (ua_provider a)),
            (''model'', JStr (ua_model a)), (''model_tier'', jopt_str (ua_model_tier a)),
            (''input_tokens'', JInt (ua_input_tokens a)),
            (''output_tokens'', JInt (ua_output_tokens a)),
            (''total_tokens'', JInt (ua_input_tokens a + ua_output_tokens a)),
            (''cache_creation_input_tokens'', JInt (ua_cache_creation a)),
            (''cache_read_input_tokens'', JInt (ua_cache_read a)),
            (''cost_usd'', JStr (dec_str cost))];
          kinded = (case truthy (effective_provider_kind a) of
                      Some k \<Rightarrow> base @ [(''provider_kind'', JStr k)] | None \<Rightarrow> base)
      in if ua_metadata a = [] then kinded
         else (case sanitize (JObj (ua_metadata a)) of JObj m \<Rightarrow> jmerge kinded m | _ \<Rightarrow> kinded))"

definition fits_int4 :: "int \<Rightarrow> bool" where
  "fits_int4 i \<longleftrightarrow> - (2 ^ 31) \<le> i \<and> i < 2 ^ 31"

text \<open>Inserting the usage row: the columns' ranges and the reference to the event.\<close>

definition insert_usage :: "uuid \<Rightarrow> usage_args \<Rightarrow> nat \<Rightarrow> decimal \<Rightarrow> (db, usage) op" where
  "insert_usage tid a ev cost =
     seq (lifting (to_micros cost)) (\<lambda>micros.
     seq (guarding (list_all fits_int4 [ua_input_tokens a, ua_output_tokens a,
            ua_cache_creation a, ua_cache_read a]) DataError) (\<lambda>_.
     seq (reading (\<lambda>d. ev \<in> e_id ` set (db_events d))) (\<lambda>known.
     seq (guarding known (IntegrityError ''llm_usage_event_id_fkey'')) (\<lambda>_.
     seq (reading (\<lambda>d.
       \<lparr>u_id = db_next_usage d, u_task = tid, u_event = Some ev,
        u_provider = (if ua_provider a \<in> set llm_providers then Some (ua_provider a) else None),
        u_model = ua_model a, u_model_tier = ua_model_tier a,
        u_provider_kind = effective_provider_kind a,
        u_provider_account = ua_provider_account a, u_cost_source = ua_cost_source a,
        u_input_tokens = ua_input_tokens a, u_output_tokens = ua_output_tokens a,
        u_cache_creation = ua_cache_creation a, u_cache_read = ua_cache_read a,
        u_cost = micros, u_created_at = db_now d\<rparr>)) (\<lambda>row.
     seq (writing (\<lambda>d. d\<lparr>db_usage := db_usage d @ [row], db_next_usage := Suc (db_next_usage d)\<rparr>))
       (\<lambda>_. returning row))))))"

definition usage_of :: "uuid \<Rightarrow> db \<Rightarrow> usage list" where
  "usage_of tid d = filter (\<lambda>u. u_task u = tid) (db_usage d)"

definition usage_total :: "(usage \<Rightarrow> int) \<Rightarrow> uuid \<Rightarrow> db \<Rightarrow> int" where
  "usage_total f tid d = sum_list (map f (usage_of tid d))"

definition rollup_row :: "timestamp \<Rightarrow> int \<Rightarrow> int \<Rightarrow> int \<Rightarrow> task \<Rightarrow> task" where
  "rollup_row now i out c t =
     t\<lparr>t_total_input_tokens := i, t_total_output_tokens := out, t_total_cost := c,
       t_updated_at := now\<rparr>"

definition refresh_usage_rollup :: "uuid \<Rightarrow> (db, unit) op" where
  "refresh_usage_rollup tid =
     seq (reading (usage_total u_input_tokens tid)) (\<lambda>i.
     seq (reading (usage_total u_output_tokens tid)) (\<lambda>out.
     seq (reading (usage_total u_cost tid)) (\<lambda>c.
     seq (guarding (fits_int4 i \<and> fits_int4 out \<and> \<bar>c\<bar> < 10 ^ 12) DataError) (\<lambda>_.
     seq (reading db_now) (\<lambda>now. update_task tid (rollup_row now i out c))))))"

definition ceiling_recorded :: "uuid \<Rightarrow> db \<Rightarrow> bool" where
  "ceiling_recorded tid d =
     list_ex (\<lambda>e. e_type e = Log \<and>
       json_text (jget (e_payload e) ''message'') = Some ceiling_message) (events_of tid d)"

definition paused_row :: "uuid \<Rightarrow> timestamp \<Rightarrow> decimal \<Rightarrow> decimal \<Rightarrow> schedule \<Rightarrow> schedule" where
  "paused_row tid now ceil cumulative s =
     s\<lparr>s_metadata := jmerge (s_metadata s)
         [(''last_budget_status'', JStr ''exceeded''),
          (''last_budget_task_id'', JStr (uuid_str tid)),
          (''last_budget_exceeded_at'', JStr (isoformat now)),
          (''last_budget_ceiling_usd'', JStr (dec_str ceil)),
          (''last_budget_observed_cost_usd'', JStr (dec_str cumulative))],
       s_status := ''paused'', s_updated_at := now\<rparr>"

definition schedule_get :: "uuid \<Rightarrow> db \<Rightarrow> schedule option" where
  "schedule_get sid d = row_get s_id sid (db_schedules d)"

text \<open>The status the schedule had, if there is one, and whether it has been paused.\<close>

definition pause_schedule ::
  "uuid option \<Rightarrow> uuid \<Rightarrow> decimal \<Rightarrow> decimal \<Rightarrow> (db, string option \<times> bool) op" where
  "pause_schedule sid tid ceil cumulative =
     (case sid of
        None \<Rightarrow> returning (None, False)
      | Some sid' \<Rightarrow>
          seq (reading (schedule_get sid')) (\<lambda>found. case found of
            None \<Rightarrow> returning (None, False)
          | Some s \<Rightarrow>
              if s_status s = ''active'' then
                seq (reading db_now) (\<lambda>now.
                seq (writing (\<lambda>d. d\<lparr>db_schedules :=
                      row_upd s_id sid' (paused_row tid now ceil cumulative) (db_schedules d)\<rparr>))
                  (\<lambda>_. returning (Some (s_status s), True)))
              else returning (Some (s_status s), False)))"

definition record_cost_ceiling :: "uuid \<Rightarrow> (db, unit) op" where
  "record_cost_ceiling tid =
     seq (resolve_task tid) (\<lambda>t.
     if t_identity_kind t \<noteq> Some ''scheduled'' then returning ()
     else case optional_decimal (jget (t_identity_payload t) ''planned_cost_ceiling_usd'') of
       None \<Rightarrow> returning ()
     | Some ceil \<Rightarrow>
         seq (lifting (dec_le ceil dec_zero)) (\<lambda>none_set.
         if none_set then returning () else
         let cumulative = of_micros (t_total_cost t) in
         seq (lifting (dec_le cumulative ceil)) (\<lambda>within.
         if within then returning () else
         seq (reading (ceiling_recorded tid)) (\<lambda>recorded.
         if recorded then returning () else
         let sid = optional_uuid (jget (t_identity_payload t) ''schedule_id'') in
         seq (pause_schedule sid tid ceil cumulative) (\<lambda>(before, paused).
         seq (append_event tid Log
           [(''message'', JStr ceiling_message), (''behavior'', JStr ''pause_future_runs''),
            (''cost_ceiling_usd'', JStr (dec_str ceil)),
            (''cumulative_cost_usd'', JStr (dec_str cumulative)),
            (''schedule_id'', jopt_str (map_option uuid_str sid)),
            (''schedule_status_before'', jopt_str before),
            (''schedule_paused'', JBool paused)])
           (\<lambda>_. returning ()))))))"

definition record_llm_usage :: "uuid \<Rightarrow> usage_args \<Rightarrow> (db, usage) op" where
  "record_llm_usage tid a =
     seq (guarding (0 \<le> ua_input_tokens a \<and> 0 \<le> ua_output_tokens a)
           (ValueError ''Token counts must be non-negative'')) (\<lambda>_.
     seq (guarding (0 \<le> ua_cache_creation a \<and> 0 \<le> ua_cache_read a)
           (ValueError ''Cache token counts must be non-negative'')) (\<lambda>_.
     seq (resolve_task tid) (\<lambda>t.
     seq (lifting (coerce_decimal (ua_cost a))) (\<lambda>cost.
     seq (lifting (dec_less cost dec_zero)) (\<lambda>negative.
     seq (guarding (\<not> negative) (ValueError ''LLM cost must be non-negative'')) (\<lambda>_.
     seq (case ua_event_id a of
            Some ev \<Rightarrow> returning ev
          | None \<Rightarrow> seq (append_event tid Llm_Call (usage_event_payload a cost))
                      (\<lambda>e. returning (e_id e))) (\<lambda>ev.
     seq (insert_usage tid a ev cost) (\<lambda>u.
     seq (refresh_usage_rollup tid) (\<lambda>_.
     seq (record_cost_ceiling tid) (\<lambda>_.
     returning u))))))))))"

section \<open>What each operation does, branch by branch\<close>

lemma row_keys [simp]:
  "t_id (clear_task_lease t) = t_id t"
  "t_id (transition_row now st t) = t_id t"
  "t_id (cancel_row now t) = t_id t"
  "t_id (retry_row now t) = t_id t"
  "t_id (waiting_row now rq t) = t_id t"
  "t_id (approve_row now t) = t_id t"
  "t_id (rollup_row now i out c t) = t_id t"
  by (simp_all add: clear_task_lease_def transition_row_def cancel_row_def retry_row_def
      waiting_row_def approve_row_def rollup_row_def)

lemma row_status [simp]:
  "t_status (clear_task_lease t) = t_status t"
  "t_status (transition_row now st t) = st"
  "t_status (cancel_row now t) = Cancelled"
  "t_status (retry_row now t) = Pending"
  "t_status (waiting_row now rq t) = Waiting_Approval"
  "t_status (approve_row now t) = Pending"
  "t_status (rollup_row now i out c t) = t_status t"
  by (simp_all add: clear_task_lease_def transition_row_def cancel_row_def retry_row_def
      waiting_row_def approve_row_def rollup_row_def)

lemma rows_keep_keys [simp]:
  "keeps_keys clear_task_lease"
  "keeps_keys (transition_row now st)"
  "keeps_keys (cancel_row now)"
  "keeps_keys (retry_row now)"
  "keeps_keys (waiting_row now rq)"
  "keeps_keys (approve_row now)"
  "keeps_keys (rollup_row now i out c)"
  by (simp_all add: keeps_keys_def identity_of_def clear_task_lease_def transition_row_def
      cancel_row_def retry_row_def waiting_row_def approve_row_def rollup_row_def)

lemma from_to_simps [simp]:
  "jget (from_to s s' @ p) ''from'' = JStr (status_value s)"
  "jget (from_to s s' @ p) ''to'' = JStr (status_value s')"
  "jget (from_to s s') ''from'' = JStr (status_value s)"
  "jget (from_to s s') ''to'' = JStr (status_value s')"
  by (simp_all add: from_to_def)

lemmas op_eval = seq_apply resolve_task_def update_task_simp append_event_simp task_get_upd

text \<open>An operation on a task that does not exist changes nothing and raises.\<close>

abbreviation not_found :: "uuid \<Rightarrow> py_error" where
  "not_found tid \<equiv> LookupErr (''Task not found: '' @ uuid_str tid)"

lemma missing_task:
  assumes "task_get tid d = None"
  shows "transition seen tid s d = (Inl (not_found tid), d)"
    and "cancel_task tid u r d = (Inl (not_found tid), d)"
    and "retry_failed_task tid u r at d = (Inl (not_found tid), d)"
    and "mark_waiting_for_tool_approval seen tid rq ts w d = (Inl (not_found tid), d)"
    and "approve_tool_approval tid k uid at d = (Inl (not_found tid), d)"
    and "reject_tool_approval tid k uid d = (Inl (not_found tid), d)"
    and "raise_if_cancelled tid ph d = (Inl (not_found tid), d)"
  using assms
  by (simp_all add: transition_def cancel_task_def retry_failed_task_def
      mark_waiting_for_tool_approval_def approve_tool_approval_def reject_tool_approval_def
      raise_if_cancelled_def seq_apply resolve_task_def)

lemma transition_eq:
  assumes "task_get tid d = Some t" and "parse_status s = Some st"
  shows "transition seen tid s d =
    (Inr (transition_row (db_now d) st t),
     add_event tid Status_Changed (from_to seen st)
       (upd_task tid (transition_row (db_now d) st) d))"
  using assms by (simp add: transition_def op_eval)

lemma transition_bad_status:
  "task_get tid d = Some t \<Longrightarrow> parse_status s = None \<Longrightarrow>
   transition seen tid s d = (Inl (ValueError (repr_text s @ '' is not a valid TaskStatus'')), d)"
  by (simp add: transition_def op_eval)

definition cancel_payload :: "task_status \<Rightarrow> string option \<Rightarrow> string \<Rightarrow> jobj" where
  "cancel_payload s by_user reason =
     from_to s Cancelled @ [(''reason'', JStr reason), (''by_user_id'', jopt_str by_user)]"

lemma cancel_task_eq:
  assumes "task_get tid d = Some t"
  shows "cancel_task tid u r d =
    (if t_status t \<in> set cancellable_statuses
     then (Inr (Some (cancel_row (db_now d) t)),
           add_event tid Status_Changed (cancel_payload (t_status t) u r)
             (upd_task tid (cancel_row (db_now d)) d))
     else (Inr None, d))"
  using assms by (simp add: cancel_task_def op_eval cancel_payload_def)

lemma retry_failed_task_eq:
  assumes "task_get tid d = Some t"
  shows "retry_failed_task tid u r at d =
    (if t_status t = Failed
     then (let at' = (case at of Some x \<Rightarrow> x | None \<Rightarrow> db_now d) in
           (Inr (Some (retry_row at' t)),
            add_event tid Status_Changed
              (from_to Failed Pending @
               [(''reason'', JStr r), (''by_user_id'', jopt_str u)])
              (upd_task tid (retry_row at') d)))
     else (Inr None, d))"
  using assms by (simp add: retry_failed_task_def op_eval Let_def split: option.split)

lemma mark_waiting_eq:
  assumes "task_get tid d = Some t"
  shows "mark_waiting_for_tool_approval seen tid rq ts w d =
    (Inr (waiting_row (db_now d) rq t),
     add_event tid Log
       [(''message'', JStr tool_approval_waiting_message), (''request'', JObj rq),
        (''prompt_message_ts'', JStr ts), (''by_worker_id'', jopt_str w)]
       (add_event tid Status_Changed
         (from_to seen Waiting_Approval @
          [(''reason'', JStr ''tool_approval_required''), (''by_worker_id'', jopt_str w),
           (''approval_key'', jget rq ''approval_key''), (''tool'', jget rq ''tool''),
           (''prompt_message_ts'', JStr ts)])
         (upd_task tid (waiting_row (db_now d) rq) d)))"
  using assms by (simp add: mark_waiting_for_tool_approval_def op_eval)

text \<open>The request an approval decision with this key answers, if the task waits for it.\<close>

definition awaited :: "uuid \<Rightarrow> string \<Rightarrow> db \<Rightarrow> jobj option" where
  "awaited tid key d =
     (case task_get tid d of
        None \<Rightarrow> None
      | Some t \<Rightarrow>
          if t_status t \<noteq> Waiting_Approval then None
          else (case pending_approval tid d of
                  None \<Rightarrow> None
                | Some rq \<Rightarrow> if jget rq ''approval_key'' = JStr key then Some rq else None))"

lemma latest_pending_eq:
  "task_get tid d = Some t \<Longrightarrow>
   latest_pending_tool_approval tid d = (Inr (pending_approval tid d), d)"
  by (simp add: latest_pending_tool_approval_def op_eval)

lemma approve_none:
  assumes "task_get tid d = Some t" and "awaited tid key d = None"
  shows "approve_tool_approval tid key u at d = (Inr None, d)"
    and "reject_tool_approval tid key u d = (Inr None, d)"
  using assms
  by (auto simp: approve_tool_approval_def reject_tool_approval_def op_eval latest_pending_eq
      awaited_def split: option.splits if_splits)

definition approved_event_payload :: "string \<Rightarrow> string \<Rightarrow> jobj" where
  "approved_event_payload key u =
     from_to Waiting_Approval Pending @
     [(''reason'', JStr ''tool_approval_approved''), (''approval_key'', JStr key),
      (''by_user_id'', JStr u)]"

lemma approve_some:
  assumes t: "task_get tid d = Some t" and rq: "awaited tid key d = Some rq"
  shows "approve_tool_approval tid key u at d =
    (let at' = (case at of Some x \<Rightarrow> x | None \<Rightarrow> db_now d) in
     (Inr (Some (approve_row at' t)),
      add_event tid Status_Changed (approved_event_payload key u)
        (add_event tid Log (decision_payload ''approved'' key rq u)
          (upd_task tid (approve_row at') d))))"
proof -
  from t rq have "t_status t = Waiting_Approval" "pending_approval tid d = Some rq"
    "jget rq ''approval_key'' = JStr key"
    by (auto simp: awaited_def split: if_splits option.splits)
  with t show ?thesis
    by (simp add: approve_tool_approval_def op_eval latest_pending_eq approved_event_payload_def
        Let_def split: option.split)
qed

lemma reject_some:
  assumes t: "task_get tid d = Some t" and rq: "awaited tid key d = Some rq"
  shows "reject_tool_approval tid key u d =
    (Inr (Some (cancel_row (db_now d) t)),
     add_event tid Status_Changed
       (cancel_payload Waiting_Approval (Some u) ''tool_approval_rejected'')
       (upd_task tid (cancel_row (db_now d))
         (add_event tid Log (decision_payload ''rejected'' key rq u) d)))"
proof -
  from t rq have "t_status t = Waiting_Approval" "pending_approval tid d = Some rq"
    "jget rq ''approval_key'' = JStr key"
    by (auto simp: awaited_def split: if_splits option.splits)
  with t show ?thesis
    by (simp add: reject_tool_approval_def seq_apply resolve_task_def append_event_simp
        latest_pending_eq cancel_task_eq cancellable_statuses_def)
qed

section \<open>Which approval request is pending\<close>

lemma set_log_events [simp]:
  "set (log_events_newest_first tid d) = {e \<in> set (events_of tid d). e_type e = Log}"
  by (simp add: log_events_newest_first_def)

lemma set_decided_keys:
  "set (decided_keys evs) =
     {k. \<exists>e \<in> set evs. jget (e_payload e) ''message'' = JStr tool_approval_decision_message \<and>
           jget (e_payload e) ''approval_key'' = JStr k}"
proof (induction evs)
  case Nil
  then show ?case by (simp add: decided_keys_def)
next
  case (Cons e evs)
  have "set (decided_keys (e # evs)) =
      {k. jget (e_payload e) ''message'' = JStr tool_approval_decision_message \<and>
          jget (e_payload e) ''approval_key'' = JStr k} \<union> set (decided_keys evs)"
    by (cases "jget (e_payload e) ''approval_key''") (auto simp: decided_keys_def)
  with Cons show ?case by auto
qed

lemma first_undecided_sound:
  "first_undecided decided evs = Some rq \<Longrightarrow>
   \<exists>e k. e \<in> set evs \<and> jget (e_payload e) ''message'' = JStr tool_approval_required_message \<and>
     jget (e_payload e) ''request'' = JObj rq \<and> jget rq ''approval_key'' = JStr k \<and>
     k \<notin> set decided"
proof (induction evs)
  case Nil
  then show ?case by simp
next
  case (Cons e evs)
  show ?case
  proof (cases "first_undecided decided evs = Some rq")
    case True
    with Cons.IH show ?thesis by (meson list.set_intros(2))
  next
    case False
    with Cons.prems have "jget (e_payload e) ''message'' = JStr tool_approval_required_message"
      and "jget (e_payload e) ''request'' = JObj rq"
      and "\<exists>k. jget rq ''approval_key'' = JStr k \<and> k \<notin> set decided"
      by (auto split: if_splits option.splits)
    then show ?thesis by (meson list.set_intros(1))
  qed
qed

lemma first_undecided_none:
  "first_undecided decided evs = None \<Longrightarrow> e \<in> set evs \<Longrightarrow>
   jget (e_payload e) ''message'' = JStr tool_approval_required_message \<Longrightarrow>
   jget (e_payload e) ''request'' = JObj rq \<Longrightarrow> jget rq ''approval_key'' = JStr k \<Longrightarrow>
   k \<in> set decided"
  by (induction evs) (auto split: if_splits option.splits)

section \<open>Idempotent creation\<close>

lemma get_by_identity_key_Some:
  "get_by_identity_key inst key d = Some t \<Longrightarrow>
     t \<in> set (db_tasks d) \<and> t_installation t = inst \<and> t_identity_key t = Some key"
  by (auto simp: get_by_identity_key_def find_Some_iff)

lemma get_by_slack_event_id_Some:
  "get_by_slack_event_id ev d = Some t \<Longrightarrow>
     t \<in> set (db_tasks d) \<and> t_slack_event_id t = Some ev"
  by (auto simp: get_by_slack_event_id_def find_Some_iff)

lemma task_get_member:
  "tasks_unique d \<Longrightarrow> t \<in> set (db_tasks d) \<Longrightarrow> task_get (t_id t) d = Some t"
  by (simp add: task_get_def tasks_unique_def row_get_in)

lemma record_identity_mismatch_eq:
  assumes "task_get (t_id t) d \<noteq> None"
  shows "record_identity_mismatch t ident d = (Inr (), d) \<or>
    (\<exists>p. record_identity_mismatch t ident d = (Inr (), add_event (t_id t) Log p d))"
  using assms by (auto simp: record_identity_mismatch_def seq_apply append_event_simp)

text \<open>The row an existing request resolves to: the identity key first, then the Slack event.\<close>

definition existing_row :: "uuid \<Rightarrow> task_identity \<Rightarrow> string option \<Rightarrow> db \<Rightarrow> task option" where
  "existing_row inst ident ev d =
     (case get_by_identity_key inst (ident_key ident) d of
        Some t \<Rightarrow> Some t
      | None \<Rightarrow> (case ev of None \<Rightarrow> None | Some ev' \<Rightarrow> get_by_slack_event_id ev' d))"

lemma existing_row_in:
  "existing_row inst ident ev d = Some t \<Longrightarrow> t \<in> set (db_tasks d)"
  by (auto simp: existing_row_def split: option.splits
      dest: get_by_identity_key_Some get_by_slack_event_id_Some)

lemma lookup_existing_eq:
  assumes "tasks_unique d"
  shows "case existing_row inst ident ev d of
      None \<Rightarrow> lookup_existing inst ident ev d = (Inr None, d)
    | Some t \<Rightarrow> lookup_existing inst ident ev d = (Inr (Some t), d) \<or>
        (\<exists>p. lookup_existing inst ident ev d = (Inr (Some t), add_event (t_id t) Log p d))"
proof (cases "existing_row inst ident ev d")
  case None
  then show ?thesis
    by (auto simp: existing_row_def lookup_existing_def seq_apply split: option.splits)
next
  case (Some t)
  then have "task_get (t_id t) d \<noteq> None"
    using task_get_member [OF assms] existing_row_in by fastforce
  then consider "record_identity_mismatch t ident d = (Inr (), d)"
    | p where "record_identity_mismatch t ident d = (Inr (), add_event (t_id t) Log p d)"
    using record_identity_mismatch_eq by blast
  then show ?thesis
    using Some by cases
      (auto simp: existing_row_def lookup_existing_def seq_apply split: option.splits)
qed

lemma existing_row_complete:
  assumes "existing_row inst ident ev d = None" and "t \<in> set (db_tasks d)"
  shows "\<not> (t_installation t = inst \<and> t_identity_key t = Some (ident_key ident))"
    and "ev \<noteq> None \<Longrightarrow> t_slack_event_id t \<noteq> ev"
  using assms
  by (auto simp: existing_row_def get_by_identity_key_def get_by_slack_event_id_def find_None_iff
      split: option.splits)

lemma new_task_keys [simp]:
  "t_id (new_task fresh rq ident now) = fresh"
  "identity_of (new_task fresh rq ident now) = Some (rq_installation rq, ident_key ident)"
  "t_slack_event_id (new_task fresh rq ident now) = rq_slack_event_id rq"
  "t_status (new_task fresh rq ident now) = Pending"
  "t_identity_kind (new_task fresh rq ident now) = Some (ident_kind ident)"
  "t_parent (new_task fresh rq ident now) = rq_parent rq"
  by (simp_all add: new_task_def identity_of_def)

lemma somes_append: "somes (xs @ [x]) = somes xs @ (case x of None \<Rightarrow> [] | Some y \<Rightarrow> [y])"
  by (cases x) (auto simp: somes_def)

lemma set_somes [simp]: "y \<in> set (somes xs) \<longleftrightarrow> Some y \<in> set xs"
  by (force simp: somes_def)

text \<open>The row an insert adds keeps the indexes unique.\<close>

lemma insert_keeps_unique:
  assumes "tasks_unique d" and "insert_violation row d = None"
  shows "tasks_unique (d\<lparr>db_tasks := db_tasks d @ [row]\<rparr>)"
  using assms
  by (auto simp: tasks_unique_def insert_violation_def somes_append split: if_splits option.splits)

lemma somes_Cons: "somes (x # xs) = (case x of None \<Rightarrow> somes xs | Some y \<Rightarrow> y # somes xs)"
  by (cases x) (auto simp: somes_def)

lemma distinct_somes_inj:
  assumes "distinct (somes (map g rows))" and "a \<in> set rows" and "b \<in> set rows"
    and "g a = Some k" and "g b = Some k"
  shows "a = b"
  using assms
proof (induction rows)
  case Nil
  then show ?case by simp
next
  case (Cons r rows)
  have "Some k \<in> g ` set rows" if "r' \<in> set rows" "g r' = Some k" for r'
    using that by (metis image_eqI)
  with Cons show ?case
    by (cases "g r") (auto simp: somes_Cons simp del: not_None_eq)
qed

lemma identity_unique_row:
  assumes "tasks_unique d" and "t \<in> set (db_tasks d)" and "t' \<in> set (db_tasks d)"
    and "identity_of t = Some k" and "identity_of t' = Some k"
  shows "t = t'"
  using assms distinct_somes_inj by (fastforce simp: tasks_unique_def)

end
