(* ===== verification/Task_Queue.thy ===== *)
theory Task_Queue
  imports Task_Repository
begin

text \<open>
  \<open>kortny/queue/service.py\<close>: claiming pending tasks under a lease, renewing a lease, and the
  sweep that requeues or dead-letters running tasks whose lease has expired. Durations are
  microseconds (\<open>seconds\<close> of theory \<open>Py_Numbers\<close>).
\<close>

definition default_lease_for :: int where
  "default_lease_for = seconds 300"

definition default_reclaim_limit :: nat where
  "default_reclaim_limit = 100"

definition default_retry_backoff_seconds :: int where
  "default_retry_backoff_seconds = 30"

definition default_max_retry_backoff_seconds :: int where
  "default_max_retry_backoff_seconds = 300"

definition coerce_utc :: "py_datetime option \<Rightarrow> db \<Rightarrow> timestamp" where
  "coerce_utc v d = (case v of None \<Rightarrow> db_now d | Some (Naive t) \<Rightarrow> t | Some (Aware t) \<Rightarrow> t)"

definition isoformat_optional :: "timestamp option \<Rightarrow> string option" where
  "isoformat_optional v = map_option isoformat v"

definition retry_backoff :: "int \<Rightarrow> int" where
  "retry_backoff attempts =
     (let expo = max 0 (attempts - 1);
          secs = min (default_retry_backoff_seconds * 2 ^ nat expo)
                     default_max_retry_backoff_seconds
      in seconds secs)"

section \<open>Claiming\<close>

text \<open>The rows of the claim query, best first: \<open>SKIP LOCKED\<close> drops the locked ones.\<close>

definition claimable :: "timestamp \<Rightarrow> db \<Rightarrow> task list" where
  "claimable now d =
     sort_key (\<lambda>t. (t_available_at t, t_created_at t))
       (filter (\<lambda>t. t_status t = Pending \<and> t_available_at t \<le> now \<and>
                    t_id t \<notin> set (db_row_locks d)) (db_tasks d))"

definition claim_row :: "string \<Rightarrow> timestamp \<Rightarrow> int \<Rightarrow> task \<Rightarrow> task" where
  "claim_row worker now lease_for t = t\<lparr>
     t_status := Running, t_locked_by := Some worker, t_locked_at := Some now,
     t_lease_expires_at := Some (now + lease_for), t_updated_at := now,
     t_started_at := (if t_started_at t = None then Some now else t_started_at t)\<rparr>"

definition claim_next :: "string \<Rightarrow> int \<Rightarrow> py_datetime option \<Rightarrow> (db, task option) op" where
  "claim_next worker lease_for now =
     seq (reading (coerce_utc now)) (\<lambda>claim_time.
     seq (reading (claimable claim_time)) (\<lambda>rows.
     case rows of
       [] \<Rightarrow> returning None
     | t # _ \<Rightarrow>
         seq (update_task (t_id t) (claim_row worker claim_time lease_for)) (\<lambda>_.
         seq (append_event (t_id t) Status_Changed
               (from_to (t_status t) Running @
                [(''worker_id'', JStr worker),
                 (''lease_expires_at'', JStr (isoformat (claim_time + lease_for)))])) (\<lambda>_.
         seq (resolve_task (t_id t)) (\<lambda>t'. returning (Some t'))))))"

section \<open>Reclaiming\<close>

definition expired :: "timestamp \<Rightarrow> task \<Rightarrow> bool" where
  "expired now t \<longleftrightarrow>
     t_status t = Running \<and>
     (case t_lease_expires_at t of None \<Rightarrow> False | Some at \<Rightarrow> at \<le> now)"

definition expired_tasks :: "timestamp \<Rightarrow> nat \<Rightarrow> db \<Rightarrow> task list" where
  "expired_tasks now limit d =
     take limit (sort_key (\<lambda>t. (the (t_lease_expires_at t), t_created_at t))
       (filter (\<lambda>t. expired now t \<and> t_id t \<notin> set (db_row_locks d)) (db_tasks d)))"

definition crash_row :: "timestamp \<Rightarrow> task \<Rightarrow> task" where
  "crash_row now t = t\<lparr>t_status := Crashed, t_updated_at := now\<rparr>"

definition dead_letter_error :: "task \<Rightarrow> int \<Rightarrow> jobj" where
  "dead_letter_error t next =
     [(''reason'', JStr ''lease_expired''), (''attempts'', JInt next),
      (''max_attempts'', JInt (t_max_attempts t)), (''dead_letter'', JBool True),
      (''last_worker_id'', jopt_str (t_locked_by t)),
      (''lease_expires_at'', jopt_str (isoformat_optional (t_lease_expires_at t)))]"

text \<open>The second half of the sweep; the error is worked out before the lease is cleared.\<close>

definition requeue_row :: "timestamp \<Rightarrow> task \<Rightarrow> task" where
  "requeue_row now t =
     (let next = t_attempts t + 1;
          err = dead_letter_error t next;
          t1 = (clear_task_lease t)\<lparr>t_attempts := next, t_updated_at := now\<rparr>
      in if t_max_attempts t \<le> next
         then t1\<lparr>t_status := Failed, t_finished_at := Some now, t_error := Some err\<rparr>
         else t1\<lparr>t_status := Pending, t_available_at := now + retry_backoff next,
                 t_error := None\<rparr>)"

definition crashed_payload :: "task \<Rightarrow> jobj" where
  "crashed_payload t =
     from_to Running Crashed @
     [(''reason'', JStr ''lease_expired''), (''locked_by'', jopt_str (t_locked_by t)),
      (''lease_expires_at'', jopt_str (isoformat_optional (t_lease_expires_at t)))]"

definition requeued_payload :: "task \<Rightarrow> jobj" where
  "requeued_payload t =
     from_to Crashed (t_status t) @
     [(''reason'', JStr ''lease_expired''), (''attempts'', JInt (t_attempts t)),
      (''max_attempts'', JInt (t_max_attempts t))] @
     (if t_status t = Pending
      then [(''retry_at'', JStr (isoformat (t_available_at t))),
            (''retry_backoff_seconds'', JInt (retry_backoff (t_attempts t) div seconds 1))]
      else [(''dead_letter'', JBool True)])"

definition reclaim_task :: "timestamp \<Rightarrow> uuid \<Rightarrow> (db, unit) op" where
  "reclaim_task now tid =
     seq (resolve_task tid) (\<lambda>t.
     seq (update_task tid (crash_row now)) (\<lambda>_.
     seq (append_event tid Status_Changed (crashed_payload t)) (\<lambda>_.
     seq (update_task tid (requeue_row now)) (\<lambda>_.
     seq (resolve_task tid) (\<lambda>t'.
     seq (append_event tid Status_Changed (requeued_payload t')) (\<lambda>_.
     returning ()))))))"

definition reclaim_expired_leases :: "py_datetime option \<Rightarrow> nat \<Rightarrow> (db, uuid list) op" where
  "reclaim_expired_leases now limit =
     seq (reading (coerce_utc now)) (\<lambda>reclaim_time.
     seq (reading (expired_tasks reclaim_time limit)) (\<lambda>rows.
     seq (for_each (reclaim_task reclaim_time) (map t_id rows)) (\<lambda>_.
     returning (map t_id rows))))"

section \<open>Renewing\<close>

definition renewable :: "uuid \<Rightarrow> string \<Rightarrow> timestamp \<Rightarrow> db \<Rightarrow> task option" where
  "renewable tid worker now d =
     find (\<lambda>t. t_id t = tid \<and> t_status t = Running \<and> t_locked_by t = Some worker \<and>
               (case t_lease_expires_at t of None \<Rightarrow> False | Some at \<Rightarrow> now < at) \<and>
               t_id t \<notin> set (db_row_locks d)) (db_tasks d)"

definition renew_row :: "timestamp \<Rightarrow> int \<Rightarrow> task \<Rightarrow> task" where
  "renew_row now lease_for t =
     t\<lparr>t_lease_expires_at := Some (now + lease_for), t_updated_at := now\<rparr>"

definition renew_lease ::
  "uuid \<Rightarrow> string \<Rightarrow> int \<Rightarrow> py_datetime option \<Rightarrow> (db, task option) op" where
  "renew_lease tid worker lease_for now =
     seq (guarding (0 < lease_for) (ValueError ''lease_for must be positive'')) (\<lambda>_.
     seq (reading (coerce_utc now)) (\<lambda>renewal_time.
     seq (reading (renewable tid worker renewal_time)) (\<lambda>found.
     case found of
       None \<Rightarrow> returning None
     | Some t \<Rightarrow>
         seq (update_task (t_id t) (renew_row renewal_time lease_for)) (\<lambda>_.
         seq (append_event (t_id t) Log
               [(''message'', JStr ''task_lease_renewed''), (''worker_id'', JStr worker),
                (''lease_expires_at'', JStr (isoformat (renewal_time + lease_for)))]) (\<lambda>_.
         seq (resolve_task (t_id t)) (\<lambda>t'. returning (Some t')))))))"

section \<open>The backoff\<close>

lemma retry_backoff_bounds: "seconds 30 \<le> retry_backoff n \<and> retry_backoff n \<le> seconds 300"
proof -
  have "(1::int) \<le> 2 ^ nat (max 0 (n - 1))" by simp
  then show ?thesis
    by (simp add: retry_backoff_def default_retry_backoff_seconds_def
        default_max_retry_backoff_seconds_def seconds_def Let_def min_def)
qed

lemma retry_backoff_mono: "m \<le> n \<Longrightarrow> retry_backoff m \<le> retry_backoff n"
proof -
  assume "m \<le> n"
  then have "(2::int) ^ nat (max 0 (m - 1)) \<le> 2 ^ nat (max 0 (n - 1))"
    by (intro power_increasing) auto
  then have "min (30 * (2::int) ^ nat (max 0 (m - 1))) 300 \<le> min (30 * 2 ^ nat (max 0 (n - 1))) 300"
    by linarith
  then show ?thesis
    by (simp only: retry_backoff_def default_retry_backoff_seconds_def
        default_max_retry_backoff_seconds_def seconds_def Let_def)
qed

lemma retry_backoff_values:
  "map retry_backoff [1, 2, 3, 4, 5] = map seconds [30, 60, 120, 240, 300]"
  by (simp add: retry_backoff_def default_retry_backoff_seconds_def
      default_max_retry_backoff_seconds_def seconds_def)

section \<open>What each operation does, branch by branch\<close>

lemma queue_row_keys [simp]:
  "t_id (claim_row w now l t) = t_id t"
  "t_id (crash_row now t) = t_id t"
  "t_id (requeue_row now t) = t_id t"
  "t_id (renew_row now l t) = t_id t"
  by (simp_all add: claim_row_def crash_row_def requeue_row_def renew_row_def Let_def)

lemma queue_row_status [simp]:
  "t_status (claim_row w now l t) = Running"
  "t_status (crash_row now t) = Crashed"
  "t_status (renew_row now l t) = t_status t"
  "t_status (requeue_row now t) =
     (if t_max_attempts t \<le> t_attempts t + 1 then Failed else Pending)"
  by (simp_all add: claim_row_def crash_row_def requeue_row_def renew_row_def Let_def)

lemma queue_rows_keep_keys [simp]:
  "keeps_keys (claim_row w now l)" "keeps_keys (crash_row now)"
  "keeps_keys (requeue_row now)" "keeps_keys (renew_row now l)"
  by (simp_all add: keeps_keys_def identity_of_def claim_row_def crash_row_def requeue_row_def
      renew_row_def clear_task_lease_def Let_def)

definition claimed_payload :: "string \<Rightarrow> timestamp \<Rightarrow> int \<Rightarrow> jobj" where
  "claimed_payload worker now lease_for =
     from_to Pending Running @
     [(''worker_id'', JStr worker), (''lease_expires_at'', JStr (isoformat (now + lease_for)))]"

lemma claimable_in:
  "claimable now d = t # ts \<Longrightarrow>
     t \<in> set (db_tasks d) \<and> t_status t = Pending \<and> t_available_at t \<le> now \<and>
     t_id t \<notin> set (db_row_locks d)"
proof -
  assume "claimable now d = t # ts"
  then have "t \<in> set (claimable now d)" by simp
  then show ?thesis by (simp add: claimable_def)
qed

lemma claim_next_eq:
  assumes "tasks_unique d"
  shows "claim_next w l now d =
    (case claimable (coerce_utc now d) d of
       [] \<Rightarrow> (Inr None, d)
     | t # _ \<Rightarrow>
         (Inr (Some (claim_row w (coerce_utc now d) l t)),
          add_event (t_id t) Status_Changed (claimed_payload w (coerce_utc now d) l)
            (upd_task (t_id t) (claim_row w (coerce_utc now d) l) d)))"
proof (cases "claimable (coerce_utc now d) d")
  case Nil
  then show ?thesis by (simp add: claim_next_def seq_apply)
next
  case (Cons t ts)
  from claimable_in [OF this] have "task_get (t_id t) d = Some t" "t_status t = Pending"
    using task_get_member [OF assms] by auto
  with Cons show ?thesis
    by (simp add: claim_next_def op_eval claimed_payload_def del: task_get_id)
qed

text \<open>No claimable row is due earlier than the one claimed.\<close>

lemma claimable_first:
  assumes "claimable now d = t # ts" and "r \<in> set (db_tasks d)"
    and "t_status r = Pending" "t_available_at r \<le> now" "t_id r \<notin> set (db_row_locks d)"
  shows "(t_available_at t, t_created_at t) \<le> (t_available_at r, t_created_at r)"
proof -
  let ?k = "\<lambda>t. (t_available_at t, t_created_at t)"
  have "sorted (map ?k (claimable now d))" by (simp add: claimable_def)
  then have "sorted (map ?k (t # ts))" by (simp only: assms(1))
  moreover have "r \<in> set (t # ts)" using assms unfolding assms(1) [symmetric] claimable_def by simp
  ultimately show ?thesis by auto
qed

lemma claimable_empty:
  "claimable now d = [] \<longleftrightarrow>
     (\<forall>t \<in> set (db_tasks d). \<not> (t_status t = Pending \<and> t_available_at t \<le> now \<and>
        t_id t \<notin> set (db_row_locks d)))"
proof -
  have "claimable now d = [] \<longleftrightarrow> set (claimable now d) = {}" by simp
  then show ?thesis by (auto simp: claimable_def)
qed

lemma reclaim_task_eq:
  assumes "task_get tid d = Some t"
  shows "reclaim_task now tid d =
    (Inr (),
     add_event tid Status_Changed (requeued_payload (requeue_row now (crash_row now t)))
       (upd_task tid (requeue_row now)
         (add_event tid Status_Changed (crashed_payload t) (upd_task tid (crash_row now) d))))"
  using assms by (simp add: reclaim_task_def op_eval)

lemma renewable_Some:
  "renewable tid w now d = Some t \<Longrightarrow>
     t \<in> set (db_tasks d) \<and> t_id t = tid \<and> t_status t = Running \<and> t_locked_by t = Some w \<and>
     (\<exists>at. t_lease_expires_at t = Some at \<and> now < at)"
  by (auto simp: renewable_def find_Some_iff split: option.splits)

definition renewed_payload :: "string \<Rightarrow> timestamp \<Rightarrow> int \<Rightarrow> jobj" where
  "renewed_payload worker now lease_for =
     [(''message'', JStr ''task_lease_renewed''), (''worker_id'', JStr worker),
      (''lease_expires_at'', JStr (isoformat (now + lease_for)))]"

lemma renew_lease_eq:
  assumes "tasks_unique d" and "0 < l"
  shows "renew_lease tid w l now d =
    (case renewable tid w (coerce_utc now d) d of
       None \<Rightarrow> (Inr None, d)
     | Some t \<Rightarrow>
         (Inr (Some (renew_row (coerce_utc now d) l t)),
          add_event tid Log (renewed_payload w (coerce_utc now d) l)
            (upd_task tid (renew_row (coerce_utc now d) l) d)))"
proof (cases "renewable tid w (coerce_utc now d) d")
  case None
  with assms show ?thesis by (simp add: renew_lease_def seq_apply)
next
  case (Some t)
  from renewable_Some [OF this] have "task_get tid d = Some t" "t_id t = tid"
    using task_get_member [OF assms(1)] by auto
  with Some assms(2) show ?thesis by (simp add: renew_lease_def op_eval renewed_payload_def)
qed

lemma expired_tasks_in:
  "t \<in> set (expired_tasks now n d) \<Longrightarrow> t \<in> set (db_tasks d) \<and> expired now t"
  unfolding expired_tasks_def by (drule in_set_takeD) simp

lemma distinct_map_filter_sort:
  "distinct (map f xs) \<Longrightarrow> distinct (map f (take n (sort_key k (filter p xs))))"
proof -
  assume "distinct (map f xs)"
  then have "distinct (map f (sort_key k (filter p xs)))"
    by (auto simp: distinct_map intro: inj_on_subset)
  then show ?thesis by (metis distinct_take take_map)
qed

lemma expired_tasks_distinct:
  "tasks_unique d \<Longrightarrow> distinct (map t_id (expired_tasks now n d))"
  unfolding expired_tasks_def tasks_unique_def by (rule distinct_map_filter_sort) simp

end
