(* ===== verification/Task_Worker.thy ===== *)
theory Task_Worker
  imports Task_Queue
begin

text \<open>
  \<open>kortny/worker/service.py\<close>: one poll cycle of a worker, from the sweep and the claim to
  the outcome it writes, and \<open>kortny/routing/quality.py\<close>, the label a finished task gets.

  The executor that runs the agent is an argument: an operation that returns the result
  summary or raises. On an exception its state is the one that was committed, which is what
  \<open>session.rollback()\<close> goes back to. The recovery of stale Slack side effects at the start of
  the cycle does not touch the task tables and the episode written at its end is best effort;
  neither is part of the state here, and the heartbeat thread is \<open>renew_lease\<close> running in
  parallel (theory \<open>Task_System\<close>).
\<close>

section \<open>Routing quality\<close>

datatype routing_quality = Clean | Recovered | Partial | Failed_Route | Cancelled_Route

fun quality_value :: "routing_quality \<Rightarrow> string" where
  "quality_value Clean = ''clean''"
| "quality_value Recovered = ''recovered''"
| "quality_value Partial = ''partial''"
| "quality_value Failed_Route = ''failed''"
| "quality_value Cancelled_Route = ''cancelled''"

text \<open>The score in thousandths, the scale of its column, and the text of the float.\<close>

fun quality_score :: "routing_quality \<Rightarrow> int option" where
  "quality_score Clean = Some 1000"
| "quality_score Recovered = Some 750"
| "quality_score Partial = Some 500"
| "quality_score Failed_Route = Some 0"
| "quality_score Cancelled_Route = None"

fun quality_score_text :: "routing_quality \<Rightarrow> string option" where
  "quality_score_text Clean = Some ''1.0''"
| "quality_score_text Recovered = Some ''0.75''"
| "quality_score_text Partial = Some ''0.5''"
| "quality_score_text Failed_Route = Some ''0.0''"
| "quality_score_text Cancelled_Route = None"

definition recovery_messages :: "string list" where
  "recovery_messages =
     [''tool_call_recoverable_failed'', ''execution_recovery_planner_failed'',
      ''agent_empty_completion_retry'', ''agent_empty_response_retry'']"

definition partial_messages :: "string list" where
  "partial_messages = [''execution_budget_exceeded'']"

definition completion_messages :: "string list" where
  "completion_messages = [''agent_completed'', ''adk_runtime_completed'']"

text \<open>The loop over the payloads: the partial flag, the recovered flag, the reason codes.\<close>

fun scan_payloads :: "jobj list \<Rightarrow> bool \<times> bool \<times> string list \<Rightarrow> bool \<times> bool \<times> string list" where
  "scan_payloads [] acc = acc"
| "scan_payloads (p # ps) (partial, recovered, reasons) =
     scan_payloads ps
       (case json_str (jget p ''message'') of
          None \<Rightarrow> (partial, recovered, reasons)
        | Some m \<Rightarrow>
            if m \<in> set partial_messages \<or>
               (m \<in> set completion_messages \<and> jget p ''partial'' = JBool True)
            then (True, recovered, reasons)
            else if m \<in> set recovery_messages
            then (partial, True, if m \<in> set reasons then reasons else reasons @ [m])
            else (partial, recovered, reasons))"

definition compute_routing_quality ::
  "string \<Rightarrow> jobj list \<Rightarrow> int \<Rightarrow> routing_quality \<times> string list" where
  "compute_routing_quality status payloads attempts =
     (if status = ''failed'' \<or> status = ''crashed'' then (Failed_Route, [''terminal_failure''])
      else if status = ''cancelled'' then (Cancelled_Route, [''cancelled''])
      else if status \<noteq> ''succeeded'' then (Cancelled_Route, [''not_terminal''])
      else
        (let retried = attempts > 1;
             (partial, recovered, reasons) =
               scan_payloads payloads (False, retried, if retried then [''retried''] else [])
         in if partial then (Partial, ''budget_exhausted'' # reasons)
            else if recovered then (Recovered, reasons)
            else (Clean, [])))"

section \<open>Outcomes of a run\<close>

definition worker_log :: "string \<Rightarrow> string \<Rightarrow> jobj" where
  "worker_log message worker = [(''message'', JStr message), (''worker_id'', JStr worker)]"

definition worker_clear_lease :: "timestamp \<Rightarrow> task \<Rightarrow> task" where
  "worker_clear_lease now t = (clear_task_lease t)\<lparr>t_updated_at := now\<rparr>"

definition quality_row :: "routing_quality \<Rightarrow> task \<Rightarrow> task" where
  "quality_row q t = t\<lparr>t_routing_quality := Some (quality_value q),
                       t_routing_score := quality_score q\<rparr>"

text \<open>The score and its event; whatever goes wrong on the way is only logged.\<close>

definition record_routing_quality :: "uuid \<Rightarrow> (db, unit) op" where
  "record_routing_quality tid =
     catching
       (seq (resolve_task tid) (\<lambda>t.
        seq (reading (\<lambda>d. map e_payload (events_of tid d))) (\<lambda>payloads.
        case compute_routing_quality (status_value (t_status t)) payloads (t_attempts t) of
          (q, reasons) \<Rightarrow>
            seq (update_task tid (quality_row q)) (\<lambda>_.
            seq (append_event tid Log
                  [(''message'', JStr ''routing_quality_recorded''),
                   (''routing_quality'', JStr (quality_value q)),
                   (''routing_quality_score'', jopt_str (quality_score_text q)),
                   (''reason_codes'', JArr (map JStr reasons))]) (\<lambda>_.
            returning ())))))
       (\<lambda>_. returning ())"

datatype run_status = Idle | Ended task_status

text \<open>The executor returned: the task waits for an approval or has succeeded.\<close>

definition finish_returned :: "uuid \<Rightarrow> string \<Rightarrow> string \<Rightarrow> (db, run_status) op" where
  "finish_returned tid worker summary =
     seq (resolve_task tid) (\<lambda>t.
     seq (reading db_now) (\<lambda>now.
     seq (update_task tid (\<lambda>r. (worker_clear_lease now r)
            \<lparr>t_result_summary := Some summary, t_error := None\<rparr>)) (\<lambda>_.
     if t_status t = Waiting_Approval then
       seq (append_event tid Log (worker_log ''task_executor_waiting_for_approval'' worker)) (\<lambda>_.
       returning (Ended Waiting_Approval))
     else
       seq (append_event tid Log (worker_log ''task_executor_completed'' worker)) (\<lambda>_.
       seq (transition (t_status t) tid (status_value Succeeded)) (\<lambda>_.
       seq (record_routing_quality tid) (\<lambda>_.
       returning (Ended Succeeded)))))))"

text \<open>The executor saw the cancellation.\<close>

definition finish_cancelled :: "uuid \<Rightarrow> string \<Rightarrow> (db, run_status) op" where
  "finish_cancelled tid worker =
     seq (resolve_task tid) (\<lambda>t.
     seq (reading db_now) (\<lambda>now.
     seq (update_task tid (\<lambda>r. (worker_clear_lease now r)\<lparr>t_error := None\<rparr>)) (\<lambda>_.
     seq (append_event tid Log (worker_log ''task_executor_cancelled'' worker)) (\<lambda>_.
     seq (if t_status t \<noteq> Cancelled
          then seq (cancel_task tid None ''worker_cancelled'') (\<lambda>_. returning ())
          else returning ()) (\<lambda>_.
     seq (record_routing_quality tid) (\<lambda>_.
     returning (Ended Cancelled)))))))"

text \<open>Any other exception, given by its type name and its message.\<close>

definition finish_failed :: "uuid \<Rightarrow> string \<Rightarrow> string \<Rightarrow> string \<Rightarrow> (db, run_status) op" where
  "finish_failed tid worker exc_type exc_text =
     seq (resolve_task tid) (\<lambda>t.
     seq (reading db_now) (\<lambda>now.
     seq (update_task tid (\<lambda>r. (worker_clear_lease now r)\<lparr>t_error := Some
            [(''type'', JStr exc_type), (''message'', JStr exc_text),
             (''worker_id'', JStr worker)]\<rparr>)) (\<lambda>_.
     seq (append_event tid Error_Event
           [(''message'', JStr ''task_executor_failed''), (''error_type'', JStr exc_type),
            (''error'', JStr exc_text), (''worker_id'', JStr worker)]) (\<lambda>_.
     seq (transition (t_status t) tid (status_value Failed)) (\<lambda>_.
     seq (record_routing_quality tid) (\<lambda>_.
     returning (Ended Failed)))))))"

text \<open>
  What happens between the claim and the result. \<open>describe\<close> gives the type name and the
  message of an exception.
\<close>

definition execute_claimed ::
  "(py_error \<Rightarrow> string \<times> string) \<Rightarrow> (uuid \<Rightarrow> (db, string) op) \<Rightarrow> string \<Rightarrow> uuid \<Rightarrow>
   (db, run_status) op" where
  "execute_claimed describe executor worker tid =
     seq (resolve_task tid) (\<lambda>_.
     catching
       (seq (raise_if_cancelled tid (Some ''before_executor'')) (\<lambda>_.
        seq (executor tid) (\<lambda>summary.
        seq (raise_if_cancelled tid (Some ''after_executor'')) (\<lambda>_.
        finish_returned tid worker summary))))
       (\<lambda>e. case e of
          TaskCancelled _ \<Rightarrow> finish_cancelled tid worker
        | _ \<Rightarrow> finish_failed tid worker (fst (describe e)) (snd (describe e))))"

text \<open>
  \<open>run_once\<close>: the first transaction sweeps, claims and logs the start; \<open>mid\<close> is what the
  other processes commit before the second session opens.
\<close>

definition claim_phase ::
  "string \<Rightarrow> int \<Rightarrow> py_datetime option \<Rightarrow> (db, uuid option \<times> uuid list) op" where
  "claim_phase worker lease_for now =
     seq (reclaim_expired_leases now default_reclaim_limit) (\<lambda>reclaimed.
     seq (claim_next worker lease_for now) (\<lambda>claimed.
     case claimed of
       None \<Rightarrow> returning (None, reclaimed)
     | Some t \<Rightarrow>
         seq (append_event (t_id t) Log (worker_log ''task_executor_started'' worker)) (\<lambda>_.
         returning (Some (t_id t), reclaimed))))"

definition run_once ::
  "(py_error \<Rightarrow> string \<times> string) \<Rightarrow> (uuid \<Rightarrow> (db, string) op) \<Rightarrow> (db \<Rightarrow> db) \<Rightarrow> string \<Rightarrow> int \<Rightarrow>
   py_datetime option \<Rightarrow> (db, run_status \<times> uuid option \<times> uuid list) op" where
  "run_once describe executor mid worker lease_for now =
     seq (claim_phase worker lease_for now) (\<lambda>(claimed, reclaimed).
     case claimed of
       None \<Rightarrow> returning (Idle, None, reclaimed)
     | Some tid \<Rightarrow>
         seq (writing mid) (\<lambda>_.
         seq (execute_claimed describe executor worker tid) (\<lambda>st.
         returning (st, Some tid, reclaimed))))"

end
