(* ===== verification/Task_Moves.thy ===== *)
theory Task_Moves
  imports Task_Worker
begin

text \<open>
  What the operations of the task core have in common. A move is one committed change of the
  task tables: rewriting a task's bookkeeping, changing its status together with the entry
  that reports it, adding another entry to its log, inserting a task, billing usage together
  with the rollup, rewriting schedules, the passing of time. The invariants are proved once
  per kind of move; that every operation of the repository, of the queue and of the worker is
  a sequence of moves is the refinement the later theories build on.
\<close>

section \<open>Invariants of a row\<close>

text \<open>A lease is held with its owner, its start and its end, or not at all.\<close>

definition lease_whole :: "task \<Rightarrow> bool" where
  "lease_whole t \<longleftrightarrow>
     (t_locked_by t = None \<longleftrightarrow> t_lease_expires_at t = None) \<and>
     (t_locked_by t = None \<longleftrightarrow> t_locked_at t = None)"

definition row_ok :: "task \<Rightarrow> bool" where
  "row_ok t \<longleftrightarrow> lease_whole t \<and> t_identity_key t \<noteq> None"

definition totals :: "task \<Rightarrow> int \<times> int \<times> int" where
  "totals t = (t_total_input_tokens t, t_total_output_tokens t, t_total_cost t)"

definition usage_totals :: "uuid \<Rightarrow> db \<Rightarrow> int \<times> int \<times> int" where
  "usage_totals tid d =
     (usage_total u_input_tokens tid d, usage_total u_output_tokens tid d,
      usage_total u_cost tid d)"

definition rolled_up :: "db \<Rightarrow> bool" where
  "rolled_up d \<longleftrightarrow> (\<forall>t \<in> set (db_tasks d). totals t = usage_totals (t_id t) d)"

definition usage_owned :: "db \<Rightarrow> bool" where
  "usage_owned d \<longleftrightarrow> u_task ` set (db_usage d) \<subseteq> t_id ` set (db_tasks d)"

definition rows_ok :: "db \<Rightarrow> bool" where
  "rows_ok d \<longleftrightarrow> (\<forall>t \<in> set (db_tasks d). row_ok t)"

definition core_ok :: "db \<Rightarrow> bool" where
  "core_ok d \<longleftrightarrow>
     store_ok d \<and> audited d \<and> rows_ok d \<and> usage_owned d \<and> rolled_up d"

section \<open>Moves\<close>

text \<open>The changes to a row that touch neither its keys nor its totals nor break its invariant.\<close>

definition tame :: "task \<Rightarrow> (task \<Rightarrow> task) \<Rightarrow> bool" where
  "tame t f \<longleftrightarrow>
     keeps_keys f \<and> totals (f t) = totals t \<and> (row_ok t \<longrightarrow> row_ok (f t))"

definition billed :: "uuid \<Rightarrow> usage \<Rightarrow> timestamp \<Rightarrow> db \<Rightarrow> db" where
  "billed tid u now d =
     (let d1 = d\<lparr>db_usage := db_usage d @ [u], db_next_usage := Suc (db_next_usage d)\<rparr> in
      upd_task tid (rollup_row now (usage_total u_input_tokens tid d1)
        (usage_total u_output_tokens tid d1) (usage_total u_cost tid d1)) d1)"

inductive move :: "db \<Rightarrow> db \<Rightarrow> bool" where
  touch: "task_get tid d = Some t \<Longrightarrow> tame t f \<Longrightarrow> t_status (f t) = t_status t \<Longrightarrow>
    move d (upd_task tid f d)"
| change: "task_get tid d = Some t \<Longrightarrow> tame t f \<Longrightarrow>
    jget p ''to'' = JStr (status_value (t_status (f t))) \<Longrightarrow>
    move d (add_event tid Status_Changed p (upd_task tid f d))"
| note_event: "task_get tid d = Some t \<Longrightarrow> ty \<noteq> Status_Changed \<Longrightarrow>
    move d (add_event tid ty p d)"
| insert: "insert_violation row d = None \<Longrightarrow> t_status row = Pending \<Longrightarrow>
    totals row = (0, 0, 0) \<Longrightarrow> row_ok row \<Longrightarrow>
    move d (d\<lparr>db_tasks := db_tasks d @ [row]\<rparr>)"
| bill: "task_get tid d = Some t \<Longrightarrow> u_task u = tid \<Longrightarrow> move d (billed tid u now d)"
| reschedule: "move d (d\<lparr>db_schedules := ss\<rparr>)"
| elapse: "db_now d \<le> now \<Longrightarrow> move d (d\<lparr>db_now := now, db_row_locks := locks\<rparr>)"

abbreviation moves :: "db \<Rightarrow> db \<Rightarrow> bool" where
  "moves \<equiv> move\<^sup>*\<^sup>*"

section \<open>Every move keeps the invariants\<close>

lemma tasks_upd:
  assumes "tasks_unique d" and "task_get tid d = Some t"
  shows "r \<in> set (db_tasks (upd_task tid f d)) \<Longrightarrow>
    r = f t \<or> (r \<in> set (db_tasks d) \<and> t_id r \<noteq> tid)"
proof -
  assume "r \<in> set (db_tasks (upd_task tid f d))"
  then consider "r \<in> set (db_tasks d)" "t_id r \<noteq> tid"
    | r0 where "r0 \<in> set (db_tasks d)" "t_id r0 = tid" "r = f r0"
    by (auto simp: upd_task_def dest: set_row_upd)
  then show ?thesis
  proof cases
    case 2
    then have "task_get tid d = Some r0" using task_get_member [OF assms(1)] by blast
    with assms(2) 2 show ?thesis by simp
  qed simp
qed

lemma tameD:
  assumes "tame t f"
  shows "keeps_keys f" and "totals (f t) = totals t" and "row_ok t \<Longrightarrow> row_ok (f t)"
    and "\<And>r. t_id (f r) = t_id r"
  using assms by (auto simp: tame_def keeps_keys_def)

lemma core_okD:
  assumes "core_ok d"
  shows "store_ok d" "tasks_unique d" "audited d" "rows_ok d" "usage_owned d" "rolled_up d"
    "events_owned d" "log_numbered d"
  using assms by (simp_all add: core_ok_def store_ok_def)

lemma rows_ok_upd:
  assumes "rows_ok d" "tasks_unique d" "task_get tid d = Some t" "tame t f"
  shows "rows_ok (upd_task tid f d)"
  using assms task_get_in [OF assms(3)]
  by (auto simp: rows_ok_def tameD dest: tasks_upd [OF assms(2,3)])

lemma usage_totals_upd [simp]: "usage_totals k (upd_task tid f d) = usage_totals k d"
  by (simp add: usage_totals_def usage_total_def usage_of_def)

lemma usage_totals_add [simp]: "usage_totals k (add_event tid ty p d) = usage_totals k d"
  by (simp add: usage_totals_def usage_total_def usage_of_def)

lemma rolled_up_upd:
  assumes "rolled_up d" "tasks_unique d" "task_get tid d = Some t" "tame t f"
  shows "rolled_up (upd_task tid f d)"
  using assms task_get_in [OF assms(3)] task_get_id [OF assms(3)]
  by (auto simp: rolled_up_def tameD dest: tasks_upd [OF assms(2,3)])

lemma ids_upd:
  "(\<And>r. t_id (f r) = t_id r) \<Longrightarrow> t_id ` set (db_tasks (upd_task tid f d)) = t_id ` set (db_tasks d)"
  by (metis map_upd_task set_map)

lemma usage_owned_upd:
  "(\<And>r. t_id (f r) = t_id r) \<Longrightarrow> usage_owned (upd_task tid f d) = usage_owned d"
  by (simp add: usage_owned_def ids_upd)

lemma other_parts_add [simp]:
  "rows_ok (add_event tid ty p d) = rows_ok d"
  "usage_owned (add_event tid ty p d) = usage_owned d"
  "rolled_up (add_event tid ty p d) = rolled_up d"
  by (simp_all add: rows_ok_def usage_owned_def rolled_up_def)

lemma audited_touch:
  assumes "audited d" "tasks_unique d" "task_get tid d = Some t"
    and "\<And>r. t_id (f r) = t_id r" and "t_status (f t) = t_status t"
  shows "audited (upd_task tid f d)"
  using assms task_get_in [OF assms(3)]
  by (auto simp: audited_def dest!: tasks_upd [OF assms(2,3)])

lemma core_ok_touch:
  assumes ok: "core_ok d" and t: "task_get tid d = Some t" and f: "tame t f"
    and s: "t_status (f t) = t_status t"
  shows "core_ok (upd_task tid f d)"
  using core_okD [OF ok] t f s tameD [OF f]
  by (simp add: core_ok_def store_ok_upd rows_ok_upd rolled_up_upd usage_owned_upd audited_touch)

lemma core_ok_change:
  assumes ok: "core_ok d" and t: "task_get tid d = Some t" and f: "tame t f"
    and p: "jget p ''to'' = JStr (status_value (t_status (f t)))"
  shows "core_ok (add_event tid Status_Changed p (upd_task tid f d))"
proof -
  have "task_get tid (upd_task tid f d) \<noteq> None"
    using t tameD(4) [OF f] by (simp add: task_get_upd)
  then show ?thesis
    using core_okD [OF ok] t f p tameD [OF f]
    by (simp add: core_ok_def store_ok_upd store_ok_add rows_ok_upd rolled_up_upd
        usage_owned_upd audited_change)
qed

lemma core_ok_note:
  "core_ok d \<Longrightarrow> task_get tid d = Some t \<Longrightarrow> ty \<noteq> Status_Changed \<Longrightarrow>
   core_ok (add_event tid ty p d)"
  by (simp add: core_ok_def store_ok_add audited_other)

lemma insert_violation_None:
  "insert_violation row d = None \<Longrightarrow> t_id row \<notin> t_id ` set (db_tasks d)"
  by (auto simp: insert_violation_def split: if_splits)

lemma usage_totals_unowned:
  "usage_owned d \<Longrightarrow> tid \<notin> t_id ` set (db_tasks d) \<Longrightarrow> usage_totals tid d = (0, 0, 0)"
proof -
  assume "usage_owned d" "tid \<notin> t_id ` set (db_tasks d)"
  then have "usage_of tid d = []" by (auto simp: usage_of_def usage_owned_def filter_empty_conv)
  then show ?thesis by (simp add: usage_totals_def usage_total_def)
qed

lemma core_ok_insert:
  assumes ok: "core_ok d" and v: "insert_violation row d = None"
    and row: "t_status row = Pending" "totals row = (0, 0, 0)" "row_ok row"
  shows "core_ok (d\<lparr>db_tasks := db_tasks d @ [row]\<rparr>)"
proof -
  let ?d = "d\<lparr>db_tasks := db_tasks d @ [row]\<rparr>"
  note new = insert_violation_None [OF v]
  have logs: "status_log k ?d = status_log k d" "usage_totals k ?d = usage_totals k d"
    "events_of k ?d = events_of k d" for k
    by (simp_all add: status_log_def events_of_def usage_totals_def usage_total_def usage_of_def)
  have "audited ?d"
    using core_okD [OF ok] row(1) status_log_unowned [OF _ new]
    by (simp add: audited_def logs)
  moreover have "rolled_up ?d"
    using core_okD [OF ok] row(2) usage_totals_unowned [OF _ new]
    by (simp add: rolled_up_def logs)
  moreover have "store_ok ?d"
    using core_okD [OF ok] insert_keeps_unique [OF _ v]
    by (auto simp: store_ok_def events_owned_def log_numbered_def logs)
  moreover have "rows_ok ?d" "usage_owned ?d"
    using core_okD [OF ok] row(3) by (auto simp: rows_ok_def usage_owned_def)
  ultimately show ?thesis by (simp add: core_ok_def)
qed

lemma row_ok_rollup [simp]: "row_ok (rollup_row now i out c t) = row_ok t"
  by (simp add: row_ok_def lease_whole_def rollup_row_def)

lemma core_ok_bill:
  assumes ok: "core_ok d" and t: "task_get tid d = Some t" and u: "u_task u = tid"
  shows "core_ok (billed tid u now d)"
proof -
  let ?d1 = "d\<lparr>db_usage := db_usage d @ [u], db_next_usage := Suc (db_next_usage d)\<rparr>"
  define f where "f = rollup_row now (usage_total u_input_tokens tid ?d1)
    (usage_total u_output_tokens tid ?d1) (usage_total u_cost tid ?d1)"
  have eq: "billed tid u now d = upd_task tid f ?d1" by (simp add: billed_def f_def Let_def)
  have t1: "task_get tid ?d1 = Some t" and un: "tasks_unique ?d1"
    using t core_okD [OF ok] by (simp_all add: task_get_def tasks_unique_def)
  have logs: "status_log k ?d1 = status_log k d" "events_of k ?d1 = events_of k d" for k
    by (simp_all add: status_log_def events_of_def)
  have f: "keeps_keys f" "\<And>r. t_id (f r) = t_id r" "\<And>r. t_status (f r) = t_status r"
    "\<And>r. row_ok (f r) = row_ok r"
    by (simp_all add: f_def)
  have others: "usage_totals (t_id r) ?d1 = usage_totals (t_id r) d" if "t_id r \<noteq> tid" for r
    using that u by (simp add: usage_totals_def usage_total_def usage_of_def)
  have mine: "totals (f t) = usage_totals tid ?d1"
    by (simp add: f_def totals_def usage_totals_def rollup_row_def)
  have "rolled_up (upd_task tid f ?d1)"
    unfolding rolled_up_def usage_totals_upd
  proof
    fix r assume "r \<in> set (db_tasks (upd_task tid f ?d1))"
    from tasks_upd [OF un t1 this] show "totals r = usage_totals (t_id r) ?d1"
      using core_okD(6) [OF ok] mine f(2) task_get_id [OF t] others [of r]
      by (auto simp: rolled_up_def)
  qed
  moreover have "rows_ok (upd_task tid f ?d1)"
    using core_okD [OF ok] f task_get_in [OF t]
    by (auto simp: rows_ok_def dest!: tasks_upd [OF un t1])
  moreover have "audited (upd_task tid f ?d1)"
    using core_okD [OF ok] f by (intro audited_keep) (simp_all add: audited_def logs)
  moreover have "store_ok (upd_task tid f ?d1)"
    using core_okD [OF ok] f(1)
    by (simp add: store_ok_upd) (simp add: store_ok_def tasks_unique_def events_owned_def
        log_numbered_def logs)
  moreover have "tid \<in> t_id ` set (db_tasks d)"
    using task_get_in [OF t] task_get_id [OF t] by blast
  then have "usage_owned (upd_task tid f ?d1)"
    using core_okD(5) [OF ok] u f(2) by (simp add: usage_owned_upd) (simp add: usage_owned_def)
  ultimately show ?thesis by (simp add: core_ok_def eq)
qed

lemma core_ok_frame:
  assumes "core_ok d" and "db_tasks d' = db_tasks d" "db_events d' = db_events d"
    "db_usage d' = db_usage d"
  shows "core_ok d'"
proof -
  have "status_log k d' = status_log k d" "events_of k d' = events_of k d"
    "usage_totals k d' = usage_totals k d" for k
    using assms(2-) by (simp_all add: status_log_def events_of_def usage_totals_def
        usage_total_def usage_of_def)
  with assms show ?thesis
    by (simp add: core_ok_def store_ok_def tasks_unique_def events_owned_def log_numbered_def
        audited_def rows_ok_def usage_owned_def rolled_up_def)
qed

lemma core_ok_move:
  assumes "core_ok d" and "move d d'"
  shows "core_ok d'"
  using assms(2,1)
proof cases
  case touch
  with assms(1) show ?thesis by (simp add: core_ok_touch)
next
  case change
  with assms(1) show ?thesis by (simp add: core_ok_change)
next
  case note_event
  with assms(1) show ?thesis by (simp add: core_ok_note)
next
  case insert
  with assms(1) show ?thesis by (simp add: core_ok_insert)
next
  case bill
  with assms(1) show ?thesis by (simp add: core_ok_bill)
next
  case reschedule
  then show ?thesis by (intro core_ok_frame [OF assms(1)]) simp_all
next
  case elapse
  then show ?thesis by (intro core_ok_frame [OF assms(1)]) simp_all
qed

lemma log_grows_move: "move d d' \<Longrightarrow> log_grows d d'"
  by (cases rule: move.cases, assumption)
     (auto simp: billed_def Let_def event_log.grows_refl log_grows_same intro!: log_grows_add)

end
