(* ===== verification/Task_Refinement.thy ===== *)
theory Task_Refinement
  imports Task_Moves
begin

text \<open>
  Every operation of the task core is a sequence of moves, whatever its outcome and whatever the
  status of the task, also when it is moved back into a live status after it has ended.
\<close>

section \<open>The row changes are tame\<close>

lemmas row_defs =
  clear_task_lease_def transition_row_def cancel_row_def retry_row_def waiting_row_def
  approve_row_def rollup_row_def claim_row_def crash_row_def requeue_row_def renew_row_def
  worker_clear_lease_def quality_row_def

lemmas row_inv_defs = row_ok_def lease_whole_def totals_def terminal_statuses_def

lemma worker_rows [simp]:
  "t_id (worker_clear_lease now t) = t_id t"
  "t_status (worker_clear_lease now t) = t_status t"
  "t_id (quality_row q t) = t_id t"
  "t_status (quality_row q t) = t_status t"
  by (simp_all add: row_defs)

lemma keeps_keysI:
  "(\<And>t. t_id (f t) = t_id t) \<Longrightarrow> (\<And>t. identity_of (f t) = identity_of t) \<Longrightarrow>
   (\<And>t. t_slack_event_id (f t) = t_slack_event_id t) \<Longrightarrow> keeps_keys f"
  by (simp add: keeps_keys_def)

lemma tame_transition: "tame t (transition_row now st)"
  by (auto simp: tame_def transition_row_def row_inv_defs)

lemma tame_cancel: "tame t (cancel_row now)"
  by (simp add: tame_def) (simp add: row_defs row_inv_defs)

lemma tame_retry: "tame t (retry_row now)"
  by (simp add: tame_def) (simp add: row_defs row_inv_defs)

lemma tame_waiting: "tame t (waiting_row now rq)"
  by (simp add: tame_def) (auto simp: row_defs row_inv_defs)

lemma tame_approve: "tame t (approve_row now)"
  by (simp add: tame_def) (auto simp: row_defs row_inv_defs)

lemma tame_claim: "tame t (claim_row w now l)"
  by (simp add: tame_def) (auto simp: row_defs row_inv_defs)

lemma tame_crash: "tame t (crash_row now)"
  by (simp add: tame_def) (auto simp: row_defs row_inv_defs)

lemma tame_requeue: "tame t (requeue_row now)"
  by (simp add: tame_def) (auto simp: requeue_row_def clear_task_lease_def Let_def row_inv_defs)

lemma tame_renew: "t_locked_by t \<noteq> None \<Longrightarrow> tame t (renew_row now l)"
  by (simp add: tame_def) (auto simp: row_defs row_inv_defs)

lemma tame_quality: "tame t (quality_row q)"
  unfolding tame_def
  by (auto intro!: keeps_keysI simp: quality_row_def identity_of_def row_inv_defs)

text \<open>The worker's last words: no lease, another summary, another error.\<close>

lemma tame_settle:
  "tame t (\<lambda>r. (worker_clear_lease now r)\<lparr>t_result_summary := s, t_error := e\<rparr>)"
  "tame t (\<lambda>r. (worker_clear_lease now r)\<lparr>t_error := e\<rparr>)"
  unfolding tame_def
  by (auto intro!: keeps_keysI
      simp: worker_clear_lease_def clear_task_lease_def identity_of_def row_inv_defs)

section \<open>Chaining moves\<close>

lemma moves_refl: "moves d d"
  by simp

lemma moves_snoc: "moves d d1 \<Longrightarrow> move d1 d2 \<Longrightarrow> moves d d2"
  by (rule rtranclp.rtrancl_into_rtrancl)

lemma moves_trans: "moves d d1 \<Longrightarrow> moves d1 d2 \<Longrightarrow> moves d d2"
  by (rule rtranclp_trans)

lemma moves_touch:
  "moves d d1 \<Longrightarrow> task_get tid d1 = Some t \<Longrightarrow> tame t f \<Longrightarrow> t_status (f t) = t_status t \<Longrightarrow>
   moves d (upd_task tid f d1)"
  by (meson moves_snoc touch)

lemma moves_note:
  "moves d d1 \<Longrightarrow> task_get tid d1 = Some t \<Longrightarrow> ty \<noteq> Status_Changed \<Longrightarrow>
   moves d (add_event tid ty p d1)"
  by (meson moves_snoc note_event)

lemma moves_change:
  "moves d d1 \<Longrightarrow> task_get tid d1 = Some t \<Longrightarrow> tame t f \<Longrightarrow>
   jget p ''to'' = JStr (status_value (t_status (f t))) \<Longrightarrow>
   moves d (add_event tid Status_Changed p (upd_task tid f d1))"
  by (meson moves_snoc change)

lemma core_ok_moves: "moves d d' \<Longrightarrow> core_ok d \<Longrightarrow> core_ok d'"
  by (induction rule: rtranclp_induct) (auto intro: core_ok_move)

lemma log_grows_moves: "moves d d' \<Longrightarrow> log_grows d d'"
proof (induction rule: rtranclp_induct)
  case base
  then show ?case by (rule event_log.grows_refl)
next
  case (step y z)
  then show ?case using event_log.grows_trans log_grows_move by blast
qed

text \<open>A move never loses a task.\<close>

lemma task_get_move: "move d d' \<Longrightarrow> task_get tid d \<noteq> None \<Longrightarrow> task_get tid d' \<noteq> None"
proof (induction rule: move.induct)
  case (touch k d t f)
  then show ?case using tameD(4) [OF touch(2)] by (auto simp: task_get_upd)
next
  case (change k d t f p)
  then show ?case using tameD(4) [OF change(2)] by (auto simp: task_get_upd)
next
  case (insert row d)
  then show ?case by (auto simp: task_get_def row_get_append split: option.splits)
next
  case (bill k d t u now)
  then show ?case by (auto simp: billed_def Let_def task_get_upd) (auto simp: task_get_def)
qed (auto simp: task_get_def)

lemma task_get_moves: "moves d d' \<Longrightarrow> task_get tid d \<noteq> None \<Longrightarrow> task_get tid d' \<noteq> None"
  by (induction rule: rtranclp_induct) (auto dest: task_get_move)

section \<open>The repository\<close>

text \<open>An event and a row change write different tables, so their order does not matter.\<close>

lemma add_upd_commute: "add_event tid ty p (upd_task k f d) = upd_task k f (add_event tid ty p d)"
  by (simp add: add_event_def upd_task_def new_event_def next_event_seq_def events_of_def)

lemma append_event_moves:
  assumes "append_event tid ty p d = (r, d')" and "ty \<noteq> Status_Changed"
  shows "moves d d'"
  using assms
  by (cases "task_get tid d")
     (auto simp: append_event_simp append_event_missing intro: moves_note)

lemma transition_moves:
  assumes run: "transition seen tid s d = (r, d')"
  shows "moves d d'"
proof (cases "task_get tid d")
  case None
  with run show ?thesis by (simp add: missing_task)
next
  case (Some t)
  show ?thesis
  proof (cases "parse_status s")
    case None
    with run Some show ?thesis by (simp add: transition_bad_status)
  next
    case st: (Some st)
    have "d' = add_event tid Status_Changed (from_to seen st)
        (upd_task tid (transition_row (db_now d) st) d)"
      using run Some st by (simp add: transition_eq)
    then show ?thesis
      using moves_change [OF moves_refl Some tame_transition] by simp
  qed
qed

lemma cancel_payload_simps [simp]:
  "jget (cancel_payload s u r) ''from'' = JStr (status_value s)"
  "jget (cancel_payload s u r) ''to'' = JStr ''cancelled''"
  by (simp_all add: cancel_payload_def from_to_def)

lemma cancel_task_moves:
  assumes run: "cancel_task tid u r d = (x, d')"
  shows "moves d d'"
proof (cases "task_get tid d")
  case None
  with run show ?thesis by (simp add: missing_task)
next
  case (Some t)
  then show ?thesis
    using run moves_change [OF moves_refl Some tame_cancel]
    by (auto simp: cancel_task_eq split: if_splits)
qed

lemma retry_failed_task_moves:
  assumes run: "retry_failed_task tid u r at d = (x, d')"
  shows "moves d d'"
proof (cases "task_get tid d")
  case None
  with run show ?thesis by (simp add: missing_task)
next
  case (Some t)
  then show ?thesis
    using run moves_change [OF moves_refl Some tame_retry]
    by (auto simp: retry_failed_task_eq Let_def split: if_splits)
qed

lemma mark_waiting_moves:
  assumes run: "mark_waiting_for_tool_approval seen tid rq ts w d = (x, d')"
  shows "moves d d'"
proof (cases "task_get tid d")
  case None
  with run show ?thesis by (simp add: missing_task)
next
  case (Some t)
  have "moves d (add_event tid Status_Changed
      (from_to seen Waiting_Approval @ p) (upd_task tid (waiting_row (db_now d) rq) d))" for p
    by (rule moves_change [OF moves_refl Some tame_waiting]) simp_all
  then have "moves d (add_event tid Log q (add_event tid Status_Changed
      (from_to seen Waiting_Approval @ p) (upd_task tid (waiting_row (db_now d) rq) d)))" for p q
    by (rule moves_note) (simp_all add: task_get_upd Some)
  then show ?thesis using run Some by (auto simp: mark_waiting_eq)
qed

lemma awaited_status: "awaited tid key d = Some rq \<Longrightarrow> task_get tid d = Some t \<Longrightarrow>
    t_status t = Waiting_Approval"
  by (auto simp: awaited_def split: if_splits option.splits)

lemma approve_moves:
  assumes run: "approve_tool_approval tid key u at d = (x, d')"
  shows "moves d d'"
proof (cases "task_get tid d")
  case None
  with run show ?thesis by (simp add: missing_task)
next
  case (Some t)
  show ?thesis
  proof (cases "awaited tid key d")
    case None
    with run Some show ?thesis by (simp add: approve_none)
  next
    case rq: (Some rq)
    have st: "t_status t = Waiting_Approval" by (rule awaited_status [OF rq Some])
    let ?at = "case at of Some x \<Rightarrow> x | None \<Rightarrow> db_now d"
    let ?d1 = "add_event tid Log (decision_payload ''approved'' key rq u) d"
    have "d' = add_event tid Status_Changed (approved_event_payload key u)
        (upd_task tid (approve_row ?at) ?d1)"
      using run Some rq by (simp add: approve_some Let_def add_upd_commute)
    moreover have "moves d ?d1" by (rule moves_note [OF moves_refl Some]) simp
    then have "moves d (add_event tid Status_Changed (approved_event_payload key u)
        (upd_task tid (approve_row ?at) ?d1))"
      by (rule moves_change [OF _ _ tame_approve])
         (simp_all add: Some st approved_event_payload_def from_to_def)
    ultimately show ?thesis by simp
  qed
qed

lemma reject_moves:
  assumes run: "reject_tool_approval tid key u d = (x, d')"
  shows "moves d d'"
proof (cases "task_get tid d")
  case None
  with run show ?thesis by (simp add: missing_task)
next
  case (Some t)
  show ?thesis
  proof (cases "awaited tid key d")
    case None
    with run Some show ?thesis by (simp add: approve_none)
  next
    case rq: (Some rq)
    let ?d1 = "add_event tid Log (decision_payload ''rejected'' key rq u) d"
    have st: "t_status t = Waiting_Approval" by (rule awaited_status [OF rq Some])
    have "moves d ?d1" by (rule moves_note [OF moves_refl Some]) simp
    then have "moves d (add_event tid Status_Changed
        (cancel_payload Waiting_Approval (Some u) ''tool_approval_rejected'')
        (upd_task tid (cancel_row (db_now d)) ?d1))"
      by (rule moves_change [where t = t, OF _ _ tame_cancel]) (simp_all add: Some st)
    with run Some rq show ?thesis by (simp add: reject_some)
  qed
qed

lemma lookup_existing_moves:
  assumes "lookup_existing inst ident ev d = (r, d')" and "tasks_unique d"
  shows "moves d d'"
proof (cases "existing_row inst ident ev d")
  case None
  with lookup_existing_eq [OF assms(2), of inst ident ev] assms(1) show ?thesis by simp
next
  case (Some t)
  have "task_get (t_id t) d = Some t"
    by (rule task_get_member [OF assms(2) existing_row_in [OF Some]])
  then have "moves d (add_event (t_id t) Log p d)" for p
    by (rule moves_note [OF moves_refl]) simp
  with lookup_existing_eq [OF assms(2), of inst ident ev] assms(1) Some show ?thesis by auto
qed

lemma lookup_existing_result:
  assumes "lookup_existing inst ident ev d = (r, d')" and "tasks_unique d"
  shows "r = Inr (existing_row inst ident ev d)"
  using lookup_existing_eq [OF assms(2), of inst ident ev] assms(1) by (auto split: option.splits)

lemma row_ok_new [simp]: "row_ok (new_task fresh rq ident now)"
  by (simp add: row_inv_defs new_task_def)

lemma totals_new [simp]: "totals (new_task fresh rq ident now) = (0, 0, 0)"
  by (simp add: totals_def new_task_def)

lemma create_insert_eq:
  fixes sha fresh rq d
  defines "ident \<equiv> request_identity sha rq"
  defines "row \<equiv> new_task fresh rq ident (db_now d)"
  shows "create_insert sha fresh rq d =
    (case insert_violation row d of
       None \<Rightarrow> (Inr row, add_event fresh Task_Created (created_payload rq ident)
                          (d\<lparr>db_tasks := db_tasks d @ [row]\<rparr>))
     | Some c \<Rightarrow>
         (case lookup_existing (rq_installation rq) ident (rq_slack_event_id rq) d of
            (Inr (Some t), d') \<Rightarrow> (Inr t, d')
          | (Inr None, d') \<Rightarrow> (Inl (IntegrityError c), d')
          | (Inl e, d') \<Rightarrow> (Inl e, d')))"
proof (cases "insert_violation row d")
  case None
  then have "row_get t_id fresh (db_tasks d @ [row]) = Some row"
    using insert_violation_None [OF None] by (simp add: row_get_append row_def)
       (auto simp: row_get_None split: option.split dest: row_get_Some)
  then have "task_get fresh (d\<lparr>db_tasks := db_tasks d @ [row]\<rparr>) = Some row"
    by (simp add: task_get_def)
  with None show ?thesis
    by (simp add: create_insert_def insert_task_def catching_def seq_apply append_event_simp
        flip: ident_def row_def)
next
  case (Some c)
  then show ?thesis
    by (simp add: create_insert_def insert_task_def catching_def seq_apply
        flip: ident_def row_def split: prod.split sum.split option.split)
qed

lemma create_insert_moves:
  assumes run: "create_insert sha fresh rq d = (r, d')" and ok: "core_ok d"
  shows "moves d d'"
proof -
  let ?ident = "request_identity sha rq"
  let ?row = "new_task fresh rq ?ident (db_now d)"
  let ?d1 = "d\<lparr>db_tasks := db_tasks d @ [?row]\<rparr>"
  show ?thesis
  proof (cases "insert_violation ?row d")
    case None
    have "moves d ?d1" by (rule moves_snoc [OF moves_refl insert [OF None]]) simp_all
    moreover have "task_get fresh ?d1 \<noteq> None"
      by (simp add: task_get_def row_get_append split: option.split)
    ultimately show ?thesis
      using run None by (auto simp: create_insert_eq intro: moves_note)
  next
    case (Some c)
    then show ?thesis
      using run lookup_existing_moves [OF _ core_okD(2) [OF ok]]
      by (auto simp: create_insert_eq split: prod.splits sum.splits option.splits)
  qed
qed

lemma create_task_moves:
  assumes run: "create_task sha race fresh rq d = (r, d')" and ok: "core_ok d"
    and race: "\<And>d. core_ok d \<Longrightarrow> moves d (race d)"
  shows "moves d d'"
proof -
  let ?look = "lookup_existing (rq_installation rq) (request_identity sha rq) (rq_slack_event_id rq)"
  obtain x d1 where look: "?look d = (x, d1)" by (cases "?look d")
  have m: "moves d d1" by (rule lookup_existing_moves [OF look core_okD(2) [OF ok]])
  have ok2: "core_ok (race d1)" using core_ok_moves race m ok by blast
  have "moves d (race d1)" using m race core_ok_moves [OF m ok] moves_trans by blast
  then show ?thesis
    using run look m create_insert_moves [OF _ ok2]
    by (auto simp: create_task_def seq_apply split: sum.splits option.splits intro: moves_trans)
qed

section \<open>Usage\<close>

lemma record_cost_ceiling_moves:
  assumes run: "record_cost_ceiling tid d = (r, d')"
  shows "moves d d'"
proof (cases "task_get tid d")
  case None
  with run show ?thesis by (simp add: record_cost_ceiling_def seq_apply resolve_task_def)
next
  case (Some t)
  have pause: "moves d d1 \<and> task_get tid d1 = Some t"
    if "pause_schedule sid tid ceil cum d = (x, d1)" for sid ceil cum x d1
    using that Some
    by (auto simp: pause_schedule_def seq_apply task_get_def split: option.splits if_splits
        intro: moves_snoc reschedule)
  show ?thesis
    using run Some pause
    by (auto simp: record_cost_ceiling_def seq_apply resolve_task_def Let_def append_event_simp
        split: option.splits sum.splits if_splits prod.splits
        dest!: append_event_moves [of tid Log] intro: moves_note)
qed

text \<open>The usage row and the rollup that follows it are one billing.\<close>

lemma insert_refresh:
  assumes "insert_usage tid a ev cost d = (Inr u, d1)"
    and "refresh_usage_rollup tid d1 = (Inr x, d2)"
  shows "d2 = billed tid u (db_now d) d \<and> u_task u = tid"
  using assms
  by (auto simp: insert_usage_def refresh_usage_rollup_def seq_apply update_task_simp billed_def
      Let_def split: sum.splits if_splits)

lemma seq_InrE:
  assumes "seq m k s = (Inr x, s')"
  obtains y s1 where "m s = (Inr y, s1)" and "k y s1 = (Inr x, s')"
  using assms by (auto simp: seq_apply split: prod.splits sum.splits)

lemma guarding_InrD [dest!]: "guarding b e s = (Inr x, s') \<Longrightarrow> b \<and> s' = s"
  by (auto split: if_splits)

lemma lifting_InrD [dest!]: "lifting r s = (Inr x, s') \<Longrightarrow> r = Inr x \<and> s' = s"
  by simp

text \<open>The parts of a usage record that went through.\<close>

lemma record_llm_usageE:
  assumes "record_llm_usage tid a d = (Inr u, d')"
  obtains t cost ev d1 d2 where "task_get tid d = Some t"
    and "0 \<le> ua_input_tokens a" "0 \<le> ua_output_tokens a"
    and "coerce_decimal (ua_cost a) = Inr cost" "dec_less cost dec_zero = Inr False"
    and "d1 = d \<or> d1 = add_event tid Llm_Call (usage_event_payload a cost) d"
    and "insert_usage tid a ev cost d1 = (Inr u, d2)"
    and "record_cost_ceiling tid (billed tid u (db_now d1) d1) = (Inr (), d')"
    and "u_task u = tid"
proof -
  from assms obtain t cost ev d1 d2 d3 where *:
    "0 \<le> ua_input_tokens a \<and> 0 \<le> ua_output_tokens a"
    "resolve_task tid d = (Inr t, d)" "coerce_decimal (ua_cost a) = Inr cost"
    "dec_less cost dec_zero = Inr False"
    "(case ua_event_id a of Some ev \<Rightarrow> returning ev
       | None \<Rightarrow> seq (append_event tid Llm_Call (usage_event_payload a cost))
           (\<lambda>e. returning (e_id e))) d = (Inr ev, d1)"
    "insert_usage tid a ev cost d1 = (Inr u, d2)" "refresh_usage_rollup tid d2 = (Inr (), d3)"
    "record_cost_ceiling tid d3 = (Inr (), d')"
    unfolding record_llm_usage_def
    by (fastforce elim!: seq_InrE simp: resolve_task_def split: option.splits if_splits)
  from *(2) have t: "task_get tid d = Some t"
    by (auto simp: resolve_task_def split: option.splits)
  from *(5) t have "d1 = d \<or> d1 = add_event tid Llm_Call (usage_event_payload a cost) d"
    by (auto simp: seq_apply append_event_simp split: option.splits)
  with * t insert_refresh [OF *(6,7)] that show ?thesis by blast
qed

lemma record_llm_usage_moves:
  assumes run: "record_llm_usage tid a d = (Inr u, d')"
  shows "moves d d'"
  using run
proof (rule record_llm_usageE)
  fix t cost ev d1 d2
  assume t: "task_get tid d = Some t" and ut: "u_task u = tid"
    and d1: "d1 = d \<or> d1 = add_event tid Llm_Call (usage_event_payload a cost) d"
    and ceil: "record_cost_ceiling tid (billed tid u (db_now d1) d1) = (Inr (), d')"
  have "moves d d1" using d1 t by (auto intro: moves_note)
  moreover have "task_get tid d1 = Some t" using d1 t by auto
  ultimately have "moves d (billed tid u (db_now d1) d1)" using ut by (meson moves_snoc bill)
  then show ?thesis using record_cost_ceiling_moves [OF ceil] by (rule moves_trans)
qed

section \<open>The queue\<close>

lemma claimed_payload_simps [simp]:
  "jget (claimed_payload w now l) ''from'' = JStr ''pending''"
  "jget (claimed_payload w now l) ''to'' = JStr ''running''"
  by (simp_all add: claimed_payload_def from_to_def)

lemma claim_next_moves:
  assumes run: "claim_next w l now d = (r, d')" and ok: "core_ok d"
  shows "moves d d'"
proof (cases "claimable (coerce_utc now d) d")
  case Nil
  with run core_okD(2) [OF ok] show ?thesis by (simp add: claim_next_eq)
next
  case (Cons t ts)
  from claimable_in [OF this] have t: "t \<in> set (db_tasks d)" "t_status t = Pending" by auto
  have get: "task_get (t_id t) d = Some t" by (rule task_get_member [OF core_okD(2) [OF ok] t(1)])
  have "moves d (add_event (t_id t) Status_Changed (claimed_payload w now' l)
      (upd_task (t_id t) (claim_row w now' l) d))" for now'
    by (rule moves_change [OF moves_refl get tame_claim]) (simp_all add: t)
  with run Cons core_okD(2) [OF ok] show ?thesis by (auto simp: claim_next_eq)
qed

lemma reclaim_task_moves:
  assumes run: "reclaim_task now tid d = (r, d')"
    and running: "\<And>t. task_get tid d = Some t \<Longrightarrow> t_status t = Running"
  shows "moves d d'"
proof (cases "task_get tid d")
  case None
  with run show ?thesis by (simp add: reclaim_task_def seq_apply resolve_task_def)
next
  case (Some t)
  let ?d1 = "add_event tid Status_Changed (crashed_payload t) (upd_task tid (crash_row now) d)"
  have "moves d ?d1"
    by (rule moves_change [OF moves_refl Some tame_crash])
       (simp_all add: running [OF Some] crashed_payload_def from_to_def)
  then have "moves d (add_event tid Status_Changed (requeued_payload (requeue_row now (crash_row now t)))
      (upd_task tid (requeue_row now) ?d1))"
    by (rule moves_change [where t = "crash_row now t", OF _ _ tame_requeue])
       (simp_all add: Some task_get_upd requeued_payload_def from_to_def)
  with run Some show ?thesis by (simp add: reclaim_task_eq)
qed

lemma reclaim_task_result:
  "task_get tid d = Some t \<Longrightarrow> reclaim_task now tid d = (r, d') \<Longrightarrow>
   r = Inr () \<and> task_get tid d' = Some (requeue_row now (crash_row now t)) \<and>
   (\<forall>k. k \<noteq> tid \<longrightarrow> task_get k d' = task_get k d)"
  by (auto simp: reclaim_task_eq task_get_upd)

text \<open>The sweep handles distinct running tasks, so each is still running when its turn comes.\<close>

lemma reclaim_loop:
  assumes "distinct ids" and "\<forall>tid \<in> set ids. \<exists>t. task_get tid d = Some t \<and> t_status t = Running"
    and "for_each (reclaim_task now) ids d = (r, d')"
  shows "r = Inr () \<and> moves d d' \<and>
    (\<forall>tid \<in> set ids. task_get tid d' =
       map_option (\<lambda>t. requeue_row now (crash_row now t)) (task_get tid d)) \<and>
    (\<forall>tid. tid \<notin> set ids \<longrightarrow> task_get tid d' = task_get tid d)"
  using assms
proof (induction ids arbitrary: d)
  case Nil
  then show ?case by simp
next
  case (Cons tid ids)
  then obtain t where t: "task_get tid d = Some t" "t_status t = Running" by auto
  obtain x d1 where one: "reclaim_task now tid d = (x, d1)" by (cases "reclaim_task now tid d")
  note res = reclaim_task_result [OF t(1) one]
  have m: "moves d d1" using reclaim_task_moves [OF one] t by simp
  have "for_each (reclaim_task now) ids d1 = (r, d')" using Cons.prems(3) one res by simp
  moreover have "\<forall>k \<in> set ids. \<exists>t. task_get k d1 = Some t \<and> t_status t = Running"
    using Cons.prems(1,2) res by (metis distinct.simps(2) list.set_intros(2))
  ultimately have IH: "r = Inr () \<and> moves d1 d' \<and>
      (\<forall>k \<in> set ids. task_get k d' =
         map_option (\<lambda>t. requeue_row now (crash_row now t)) (task_get k d1)) \<and>
      (\<forall>k. k \<notin> set ids \<longrightarrow> task_get k d' = task_get k d1)"
    using Cons.IH Cons.prems(1) by simp
  have "tid \<notin> set ids" using Cons.prems(1) by simp
  then show ?case using IH m res t by (auto intro: moves_trans)
qed

lemma reclaim_expired_eq:
  assumes ok: "core_ok d" and run: "reclaim_expired_leases now n d = (r, d')"
  shows "r = Inr (map t_id (expired_tasks (coerce_utc now d) n d)) \<and> moves d d' \<and>
    (\<forall>t \<in> set (expired_tasks (coerce_utc now d) n d).
       task_get (t_id t) d' =
         Some (requeue_row (coerce_utc now d) (crash_row (coerce_utc now d) t))) \<and>
    (\<forall>tid. tid \<notin> t_id ` set (expired_tasks (coerce_utc now d) n d) \<longrightarrow>
       task_get tid d' = task_get tid d)"
proof -
  let ?now = "coerce_utc now d"
  let ?rows = "expired_tasks ?now n d"
  obtain x d1 where loop: "for_each (reclaim_task ?now) (map t_id ?rows) d = (x, d1)"
    by (cases "for_each (reclaim_task ?now) (map t_id ?rows) d")
  have get: "task_get (t_id t) d = Some t \<and> t_status t = Running" if "t \<in> set ?rows" for t
    using expired_tasks_in [OF that] task_get_member [OF core_okD(2) [OF ok]]
    by (auto simp: expired_def)
  then have "\<forall>k \<in> set (map t_id ?rows). \<exists>t. task_get k d = Some t \<and> t_status t = Running"
    by auto
  note res = reclaim_loop [OF expired_tasks_distinct [OF core_okD(2) [OF ok]] this loop]
  have "(r, d') = (Inr (map t_id ?rows), d1)"
    using run loop res by (simp add: reclaim_expired_leases_def seq_apply)
  then show ?thesis using res get by auto
qed

lemma renew_lease_moves:
  assumes run: "renew_lease tid w l now d = (r, d')" and ok: "core_ok d"
  shows "moves d d'"
proof (cases "0 < l")
  case False
  with run show ?thesis by (simp add: renew_lease_def seq_apply)
next
  case True
  note eq = renew_lease_eq [OF core_okD(2) [OF ok] True]
  show ?thesis
  proof (cases "renewable tid w (coerce_utc now d) d")
    case None
    with run eq show ?thesis by simp
  next
    case (Some t)
    from renewable_Some [OF this] have t: "t \<in> set (db_tasks d)" "t_id t = tid" "t_locked_by t = Some w"
      by auto
    have get: "task_get tid d = Some t" using task_get_member [OF core_okD(2) [OF ok] t(1)] t(2) by simp
    have "moves d (upd_task tid (renew_row now' l) d)" for now'
      by (rule moves_touch [OF moves_refl get tame_renew]) (simp_all add: t)
    then have "moves d (add_event tid Log p (upd_task tid (renew_row now' l) d))" for p now'
      by (rule moves_note) (simp_all add: get task_get_upd)
    with run eq Some show ?thesis by auto
  qed
qed

end
