(* ===== verification/Task_System.thy ===== *)
theory Task_System
  imports Task_Refinement
begin

text \<open>
  The task core as a system: the operations of the repository, the queue and the worker as
  the calls processes make on the shared database, in any order and interleaving, creations
  split between their lookup and their insert. The theorems say what holds in every
  reachable state and what the operations promise to their callers.
\<close>

interpretation core: frame core_ok moves
  by unfold_locales (auto intro: core_ok_moves)

section \<open>Every operation is tracked\<close>

lemma tracks_resolve [simp, intro]: "core.tracks (resolve_task tid)"
  by (rule core.tracksI) (auto simp: resolve_task_def split: option.splits)

lemma tracks_append [intro]: "ty \<noteq> Status_Changed \<Longrightarrow> core.tracks (append_event tid ty p)"
  by (rule core.tracksI) (auto dest: append_event_moves)

lemma tracks_update:
  assumes "\<And>t. tame t f" and "\<And>t. t_status (f t) = t_status t"
  shows "core.tracks (update_task tid f)"
proof (rule core.tracksI)
  fix d r d' assume run: "update_task tid f d = (r, d')"
  show "moves d d'"
  proof (cases "task_get tid d")
    case None
    then have "upd_task tid f d = d"
      by (simp add: upd_task_def task_get_def row_get_None row_upd_id)
    with run show ?thesis by (simp add: update_task_simp)
  next
    case (Some t)
    with run assms show ?thesis
      by (auto simp: update_task_simp intro: moves_touch [OF moves_refl Some])
  qed
qed

lemma tracks_finish_transition:
  "core.tracks (transition seen tid (status_value st))"
  by (rule core.tracksI) (auto intro: transition_moves)

lemma tracks_mark_waiting: "core.tracks (mark_waiting_for_tool_approval seen tid rq ts w)"
  by (rule core.tracksI) (rule mark_waiting_moves)

lemma tracks_cancel [intro]: "core.tracks (cancel_task tid u r)"
  by (rule core.tracksI) (rule cancel_task_moves)

lemma tracks_retry [intro]: "core.tracks (retry_failed_task tid u r at)"
  by (rule core.tracksI) (rule retry_failed_task_moves)

lemma tracks_approve [intro]: "core.tracks (approve_tool_approval tid k u at)"
  by (rule core.tracksI) (rule approve_moves)

lemma tracks_reject [intro]: "core.tracks (reject_tool_approval tid k u)"
  by (rule core.tracksI) (rule reject_moves)

lemma tracks_raise_if_cancelled [intro]: "core.tracks (raise_if_cancelled tid ph)"
  unfolding raise_if_cancelled_def by (intro core.tracks_seq core.tracks_if) auto

lemma tracks_lookup [intro]: "core.tracks (lookup_existing inst ident ev)"
  by (rule core.tracksI) (auto intro: lookup_existing_moves core_okD)

lemma tracks_create_insert [intro]: "core.tracks (create_insert sha fresh rq)"
  by (rule core.tracksI) (rule create_insert_moves)

lemma tracks_claim [intro]: "core.tracks (claim_next w l now)"
  by (rule core.tracksI) (rule claim_next_moves)

lemma tracks_renew [intro]: "core.tracks (renew_lease tid w l now)"
  by (rule core.tracksI) (rule renew_lease_moves)

lemma tracks_reclaim [intro]: "core.tracks (reclaim_expired_leases now n)"
  by (rule core.tracksI) (auto dest: reclaim_expired_eq)

lemma tracks_quality [intro]: "core.tracks (record_routing_quality tid)"
  unfolding record_routing_quality_def
  by (intro core.tracks_catching core.tracks_seq)
     (auto split: prod.split intro!: core.tracks_seq tracks_update tame_quality)

lemma tracks_finish_returned [intro]: "core.tracks (finish_returned tid w s)"
  unfolding finish_returned_def
  by (intro core.tracks_seq core.tracks_if tracks_update tame_settle tracks_finish_transition)
     (auto simp: terminal_statuses_def)

lemma tracks_finish_cancelled [intro]: "core.tracks (finish_cancelled tid w)"
  unfolding finish_cancelled_def
  by (intro core.tracks_seq core.tracks_if tracks_update tame_settle) auto

lemma tracks_finish_failed [intro]: "core.tracks (finish_failed tid w ty msg)"
proof -
  have tame: "tame t (\<lambda>r. (worker_clear_lease now r)\<lparr>t_error := e\<rparr>)" for t now e
    by (rule tame_settle)
  show ?thesis
    unfolding finish_failed_def
    by (intro core.tracks_seq tracks_update tame tracks_finish_transition)
       (auto simp: terminal_statuses_def)
qed

text \<open>A worker's cycle is tracked as soon as its executor is.\<close>

lemma tracks_execute_claimed:
  assumes "\<And>tid. core.tracks (executor tid)"
  shows "core.tracks (execute_claimed describe executor w tid)"
proof -
  have handler: "core.tracks (case e of TaskCancelled x \<Rightarrow> finish_cancelled tid w
      | _ \<Rightarrow> finish_failed tid w (fst (describe e)) (snd (describe e)))" for e
    by (cases e) auto
  show ?thesis
    unfolding execute_claimed_def
    by (intro core.tracks_seq core.tracks_catching handler assms) auto
qed

lemma tracks_run_once:
  assumes "\<And>tid. core.tracks (executor tid)" and "\<And>d. core_ok d \<Longrightarrow> moves d (mid d)"
  shows "core.tracks (run_once describe executor mid w l now)"
proof -
  have "core.tracks (writing mid)" by (rule core.tracksI) (auto intro: assms(2))
  moreover have "core.tracks (claim_phase w l now)"
    unfolding claim_phase_def
    by (intro core.tracks_seq) (auto split: option.split intro!: core.tracks_seq)
  ultimately show ?thesis
    unfolding run_once_def
    by (intro core.tracks_seq)
       (auto split: prod.split option.split intro!: core.tracks_seq tracks_execute_claimed assms(1))
qed

section \<open>Calls and steps\<close>

datatype call =
    Claim string int
  | Renew uuid string int
  | Reclaim nat
  | Start task_status uuid
  | Finish task_status uuid task_status
  | Cancel uuid "string option" string
  | Retry uuid "string option" string
  | Wait task_status uuid jobj string "string option"
  | Approve uuid string string
  | Reject uuid string string
  | Note uuid event_type jobj
  | Bill uuid usage_args
  | Worker_Returned uuid string string
  | Worker_Cancelled uuid string
  | Worker_Failed uuid string string string

definition ignore :: "(db, 'a) op \<Rightarrow> (db, unit) op" where
  "ignore m = seq m (\<lambda>_. returning ())"

fun perform :: "call \<Rightarrow> (db, unit) op" where
  "perform (Claim w l) = ignore (claim_next w l None)"
| "perform (Renew tid w l) = ignore (renew_lease tid w l None)"
| "perform (Reclaim n) = ignore (reclaim_expired_leases None n)"
| "perform (Start seen tid) = ignore (transition seen tid (status_value Running))"
| "perform (Finish seen tid st) = ignore (transition seen tid (status_value st))"
| "perform (Cancel tid u r) = ignore (cancel_task tid u r)"
| "perform (Retry tid u r) = ignore (retry_failed_task tid u r None)"
| "perform (Wait seen tid rq ts w) = ignore (mark_waiting_for_tool_approval seen tid rq ts w)"
| "perform (Approve tid k u) = ignore (approve_tool_approval tid k u None)"
| "perform (Reject tid k u) = ignore (reject_tool_approval tid k u)"
| "perform (Note tid ty p) = ignore (append_event tid ty p)"
| "perform (Bill tid a) = ignore (record_llm_usage tid a)"
| "perform (Worker_Returned tid w s) = ignore (finish_returned tid w s)"
| "perform (Worker_Cancelled tid w) = ignore (finish_cancelled tid w)"
| "perform (Worker_Failed tid w ty m) = ignore (finish_failed tid w ty m)"

text \<open>
  The calls the program makes: any of them at any time, with any status that a session may still
  show; nobody but the operations themselves writes status entries.
\<close>

fun enabled :: "call \<Rightarrow> db \<Rightarrow> bool" where
  "enabled (Note tid ty p) d = (ty \<noteq> Status_Changed)"
| "enabled _ d = True"

record sys =
  sy_db :: db
  sy_creating :: "(uuid \<times> task_request) list"

text \<open>
  A failed call is rolled back, so only calls that return are steps; \<open>create_task\<close> is its
  lookup and, when nothing was found, a pending insert that any other step may precede.
\<close>

inductive sys_step :: "(string \<Rightarrow> string) \<Rightarrow> sys \<Rightarrow> sys \<Rightarrow> bool" for sha where
  create_hit: "lookup_existing (rq_installation rq) (request_identity sha rq)
      (rq_slack_event_id rq) (sy_db s) = (Inr (Some t), d') \<Longrightarrow>
    sys_step sha s (s\<lparr>sy_db := d'\<rparr>)"
| create_miss: "lookup_existing (rq_installation rq) (request_identity sha rq)
      (rq_slack_event_id rq) (sy_db s) = (Inr None, d') \<Longrightarrow>
    sys_step sha s (s\<lparr>sy_db := d', sy_creating := (fresh, rq) # sy_creating s\<rparr>)"
| create_insert: "(fresh, rq) \<in> set (sy_creating s) \<Longrightarrow>
    create_insert sha fresh rq (sy_db s) = (Inr t, d') \<Longrightarrow>
    sys_step sha s
      (s\<lparr>sy_db := d', sy_creating := filter (\<lambda>c. c \<noteq> (fresh, rq)) (sy_creating s)\<rparr>)"
| call: "enabled c (sy_db s) \<Longrightarrow> perform c (sy_db s) = (Inr (), d') \<Longrightarrow>
    sys_step sha s (s\<lparr>sy_db := d'\<rparr>)"
| elapse: "db_now (sy_db s) \<le> now \<Longrightarrow>
    sys_step sha s (s\<lparr>sy_db := (sy_db s)\<lparr>db_now := now, db_row_locks := locks\<rparr>\<rparr>)"

inductive reachable :: "(string \<Rightarrow> string) \<Rightarrow> sys \<Rightarrow> bool" for sha where
  start: "reachable sha \<lparr>sy_db = empty_db, sy_creating = []\<rparr>"
| step: "reachable sha s \<Longrightarrow> sys_step sha s s' \<Longrightarrow> reachable sha s'"

inductive_cases sys_stepE: "sys_step sha s s'"

lemma core_ok_empty: "core_ok empty_db"
  by (simp add: core_ok_def store_ok_def tasks_unique_def events_owned_def log_numbered_def
      audited_def rows_ok_def usage_owned_def rolled_up_def empty_db_def events_of_def somes_def)

lemma ignoreD: "ignore m d = (Inr x, d') \<Longrightarrow> \<exists>y. m d = (Inr y, d')"
  by (auto simp: ignore_def elim!: seq_InrE)

lemma perform_moves:
  assumes ok: "core_ok d" and en: "enabled c d" and run: "perform c d = (Inr (), d')"
  shows "moves d d'"
proof (cases c)
  case (Start seen tid)
  then show ?thesis
    using run transition_moves by (auto dest!: ignoreD)
next
  case (Finish seen tid st)
  then show ?thesis using run transition_moves by (auto dest!: ignoreD)
next
  case (Wait seen tid rq ts w)
  then show ?thesis
    using run mark_waiting_moves by (auto dest!: ignoreD)
next
  case (Note tid ty p)
  then show ?thesis using run en by (auto dest!: ignoreD append_event_moves)
next
  case (Bill tid a)
  then show ?thesis using run by (auto dest!: ignoreD record_llm_usage_moves)
next
  case (Claim w l)
  then show ?thesis using run core.tracksD [OF tracks_claim ok] by (auto dest!: ignoreD)
next
  case (Renew tid w l)
  then show ?thesis using run core.tracksD [OF tracks_renew ok] by (auto dest!: ignoreD)
next
  case (Reclaim n)
  then show ?thesis using run core.tracksD [OF tracks_reclaim ok] by (auto dest!: ignoreD)
next
  case (Cancel tid u r)
  then show ?thesis using run core.tracksD [OF tracks_cancel ok] by (auto dest!: ignoreD)
next
  case (Retry tid u r)
  then show ?thesis using run core.tracksD [OF tracks_retry ok] by (auto dest!: ignoreD)
next
  case (Approve tid k u)
  then show ?thesis using run core.tracksD [OF tracks_approve ok] by (auto dest!: ignoreD)
next
  case (Reject tid k u)
  then show ?thesis using run core.tracksD [OF tracks_reject ok] by (auto dest!: ignoreD)
next
  case (Worker_Returned tid w s)
  then show ?thesis using run core.tracksD [OF tracks_finish_returned ok] by (auto dest!: ignoreD)
next
  case (Worker_Cancelled tid w)
  then show ?thesis using run core.tracksD [OF tracks_finish_cancelled ok] by (auto dest!: ignoreD)
next
  case (Worker_Failed tid w ty m)
  then show ?thesis using run core.tracksD [OF tracks_finish_failed ok] by (auto dest!: ignoreD)
qed

text \<open>The refinement: a step of the system is a sequence of moves of its database.\<close>

lemma sys_step_moves:
  assumes "sys_step sha s s'" and "core_ok (sy_db s)"
  shows "moves (sy_db s) (sy_db s')"
  using assms
proof cases
  case (create_hit rq t d')
  then show ?thesis using core.tracksD [OF tracks_lookup assms(2)] by simp
next
  case (create_miss rq d' fresh)
  then show ?thesis using core.tracksD [OF tracks_lookup assms(2)] by simp
next
  case (create_insert fresh rq t d')
  then show ?thesis using core.tracksD [OF tracks_create_insert assms(2)] by simp
next
  case (call c d')
  then show ?thesis using perform_moves [OF assms(2)] by simp
next
  case (elapse now locks)
  then show ?thesis using move.elapse moves_snoc [OF moves_refl] by simp
qed

lemma reachable_core_ok: "reachable sha s \<Longrightarrow> core_ok (sy_db s)"
proof (induction rule: reachable.induct)
  case start
  then show ?case by (simp add: core_ok_empty)
next
  case (step s s')
  then show ?case using sys_step_moves core_ok_moves by blast
qed

lemma reachable_moves: "(sys_step sha)\<^sup>*\<^sup>* s s' \<Longrightarrow> reachable sha s \<Longrightarrow>
    reachable sha s' \<and> moves (sy_db s) (sy_db s')"
proof (induction rule: rtranclp_induct)
  case base
  then show ?case by simp
next
  case (step y z)
  then have "reachable sha y" "moves (sy_db s) (sy_db y)" by auto
  then show ?case
    using step.hyps(2) sys_step_moves [OF _ reachable_core_ok] moves_trans reachable.step by blast
qed

end
