(* ===== verification/Task_Properties.thy ===== *)
theory Task_Properties
  imports Task_System
begin

text \<open>
  The properties of the task core, each with a run it applies to. The witnesses share one
  small history: a Slack message becomes task 7, which a worker claims.
\<close>

section \<open>A sample history\<close>

definition sample_sha :: "string \<Rightarrow> string" where
  "sample_sha s = take 4 s"

definition sample_request :: task_request where
  "sample_request = \<lparr>rq_installation = 1, rq_slack_event_id = Some ''Ev1'', rq_channel = ''C1'',
     rq_thread_ts = None, rq_message_ts = Some ''10.5'', rq_user = ''U1'', rq_input = ''hello'',
     rq_source_surface = None, rq_parent = None,
     rq_identity = Some \<lparr>ident_kind = ''slack_message'', ident_key = ''slack-message:C1:10.5:10.5'',
       ident_payload = [(''kind'', JStr ''slack_message'')], ident_fingerprint = ''f0''\<rparr>\<rparr>"

definition sample_row :: task where
  "sample_row = new_task 7 sample_request (request_identity sample_sha sample_request) 0"

definition sample_db :: db where
  "sample_db = snd (create_insert sample_sha 7 sample_request empty_db)"

definition claimed_db :: db where
  "claimed_db = snd (claim_next ''w1'' (seconds 300) None sample_db)"

lemmas sample_defs = sample_request_def sample_row_def request_identity_def empty_db_def

lemma empty_db_simps [simp]:
  "db_tasks empty_db = []" "db_events empty_db = []" "db_now empty_db = 0"
  "db_row_locks empty_db = []"
  by (simp_all add: empty_db_def)

lemma sample_no_violation: "insert_violation sample_row empty_db = None"
  by (simp add: insert_violation_def sample_defs identity_kinds_def)

lemma sample_db_eq: "sample_db = add_event 7 Task_Created
    (created_payload sample_request (request_identity sample_sha sample_request))
    (empty_db\<lparr>db_tasks := [sample_row]\<rparr>)"
  and sample_created: "create_insert sample_sha 7 sample_request empty_db = (Inr sample_row, sample_db)"
  using sample_no_violation
  by (simp_all add: sample_db_def create_insert_eq flip: sample_row_def)

lemma sample_lookup:
  "lookup_existing 1 (request_identity sample_sha sample_request) (Some ''Ev1'') empty_db =
     (Inr None, empty_db)"
  by (simp add: lookup_existing_def seq_apply get_by_identity_key_def get_by_slack_event_id_def)

lemma sample_reachable:
  "reachable sample_sha \<lparr>sy_db = sample_db, sy_creating = []\<rparr>"
proof -
  let ?s0 = "\<lparr>sy_db = empty_db, sy_creating = []\<rparr>"
  let ?s1 = "\<lparr>sy_db = empty_db, sy_creating = [(7, sample_request)]\<rparr>"
  have "sys_step sample_sha ?s0 (?s0\<lparr>sy_db := empty_db, sy_creating := (7, sample_request) # []\<rparr>)"
    using sys_step.create_miss [of sample_request sample_sha ?s0 empty_db 7] sample_lookup
    by (simp add: sample_request_def)
  then have one: "reachable sample_sha ?s1" using reachable.step reachable.start by fastforce
  have "sys_step sample_sha ?s1 \<lparr>sy_db = sample_db, sy_creating = []\<rparr>"
    using sys_step.create_insert [of 7 sample_request ?s1 sample_sha sample_row sample_db]
      sample_created by simp
  then show ?thesis using one reachable.step by blast
qed

lemma sample_get: "task_get 7 sample_db = Some sample_row"
  by (simp add: sample_db_eq) (simp add: task_get_def sample_row_def)

lemma sample_claimable: "claimable 0 sample_db = [sample_row]"
  by (simp add: claimable_def sample_db_eq) (simp add: sample_row_def new_task_def)

lemma sample_core_ok: "core_ok sample_db"
  using reachable_core_ok [OF sample_reachable] by simp

lemma sample_now [simp]: "db_now sample_db = 0"
  by (simp add: sample_db_eq)

lemma claimed_eq:
  "claim_next ''w1'' (seconds 300) None sample_db =
     (Inr (Some (claim_row ''w1'' 0 (seconds 300) sample_row)), claimed_db)"
  and claimed_db_eq: "claimed_db = add_event 7 Status_Changed
     (claimed_payload ''w1'' 0 (seconds 300)) (upd_task 7 (claim_row ''w1'' 0 (seconds 300)) sample_db)"
proof -
  have id: "t_id sample_row = 7" by (simp add: sample_row_def)
  show "claimed_db = add_event 7 Status_Changed
     (claimed_payload ''w1'' 0 (seconds 300)) (upd_task 7 (claim_row ''w1'' 0 (seconds 300)) sample_db)"
    by (simp add: claimed_db_def claim_next_eq [OF core_okD(2) [OF sample_core_ok]] coerce_utc_def
        sample_claimable id)
  then show "claim_next ''w1'' (seconds 300) None sample_db =
     (Inr (Some (claim_row ''w1'' 0 (seconds 300) sample_row)), claimed_db)"
    by (simp add: claim_next_eq [OF core_okD(2) [OF sample_core_ok]] coerce_utc_def
        sample_claimable id)
qed

lemma claimed_get: "task_get 7 claimed_db = Some (claim_row ''w1'' 0 (seconds 300) sample_row)"
  by (simp add: claimed_db_eq task_get_upd sample_get)

lemma claimed_step:
  "sys_step sample_sha \<lparr>sy_db = sample_db, sy_creating = []\<rparr> \<lparr>sy_db = claimed_db, sy_creating = []\<rparr>"
  using sys_step.call [of "Claim ''w1'' (seconds 300)" "\<lparr>sy_db = sample_db, sy_creating = []\<rparr>"
      claimed_db sample_sha] claimed_eq
  by (simp add: ignore_def seq_apply)

lemma claimed_reachable: "reachable sample_sha \<lparr>sy_db = claimed_db, sy_creating = []\<rparr>"
  using reachable.step [OF sample_reachable claimed_step] .

lemma claimed_core_ok: "core_ok claimed_db"
  using reachable_core_ok [OF claimed_reachable] by simp

section \<open>The audit log\<close>

text \<open>C1. In every reachable state the events of each task are numbered 1, 2, 3, ... in the
  order they were appended, whatever the interleaving of the operations.\<close>

theorem events_numbered:
  assumes "reachable sha s"
  shows "map e_seq (events_of tid (sy_db s)) = [1..<Suc (length (events_of tid (sy_db s)))]"
  using core_okD(8) [OF reachable_core_ok [OF assms]] unfolding log_numbered_def by blast

lemma events_numbered_witness:
  "map e_seq (events_of 7 claimed_db) = [1..<Suc (length (events_of 7 claimed_db))]"
  using events_numbered [OF claimed_reachable, of 7] by simp





text \<open>The log is append-only: what a task's log holds in a reachable state stays its
  beginning in every later one.\<close>

theorem log_append_only:
  assumes "reachable sha s" and "(sys_step sha)\<^sup>*\<^sup>* s s'"
  shows "\<exists>es. events_of tid (sy_db s') = events_of tid (sy_db s) @ es"
  using log_grows_moves reachable_moves [OF assms(2,1)] unfolding event_log.grows_def by blast

lemma log_append_only_witness:
  "\<exists>es. events_of 7 claimed_db = events_of 7 sample_db @ es"
  using log_append_only [OF sample_reachable, of "\<lparr>sy_db = claimed_db, sy_creating = []\<rparr>" 7]
    r_into_rtranclp [of "sys_step sample_sha", OF claimed_step]
  by simp

section \<open>Identity\<close>

text \<open>C3. No two tasks share an installation and identity key, and no two a Slack event id,
  however many creations race.\<close>

theorem one_task_per_identity:
  assumes "reachable sha s" and "t \<in> set (db_tasks (sy_db s))" and "t' \<in> set (db_tasks (sy_db s))"
    and "(identity_of t = identity_of t' \<and> identity_of t \<noteq> None) \<or>
         (t_slack_event_id t = t_slack_event_id t' \<and> t_slack_event_id t \<noteq> None)"
  shows "t = t'"
proof -
  have u: "tasks_unique (sy_db s)" using core_okD(2) [OF reachable_core_ok [OF assms(1)]] .
  from assms(4) show ?thesis
  proof
    assume same: "identity_of t = identity_of t' \<and> identity_of t \<noteq> None"
    then obtain k where "identity_of t = Some k" by (meson option.exhaust)
    with same have "identity_of t = Some k" "identity_of t' = Some k" by simp_all
    with u assms(2,3) show ?thesis by (meson identity_unique_row)
  next
    assume same: "t_slack_event_id t = t_slack_event_id t' \<and> t_slack_event_id t \<noteq> None"
    then obtain e where "t_slack_event_id t = Some e" by (meson option.exhaust)
    with same have "t_slack_event_id t = Some e" "t_slack_event_id t' = Some e" by simp_all
    with u assms(2,3) show ?thesis unfolding tasks_unique_def by (meson distinct_somes_inj)
  qed
qed

lemma one_task_per_identity_witness:
  "\<exists>t. t \<in> set (db_tasks sample_db) \<and> (\<forall>t' \<in> set (db_tasks sample_db).
      t_slack_event_id t' = Some ''Ev1'' \<longrightarrow> t = t')"
proof -
  have "sample_row \<in> set (db_tasks sample_db)" using task_get_in [OF sample_get] .
  moreover have "t_slack_event_id sample_row = Some ''Ev1''"
    by (simp add: sample_row_def sample_request_def)
  ultimately show ?thesis using one_task_per_identity [OF sample_reachable] by force
qed

text \<open>A Slack message delivered again, under another event id or from another surface,
  has the same identity key and the same fingerprint.\<close>

theorem redelivery_same_identity:
  "ident_key (slack_message_identity sha ch ts th u txt ev src) =
     ident_key (slack_message_identity sha ch ts th u txt ev' src') \<and>
   ident_fingerprint (slack_message_identity sha ch ts th u txt ev src) =
     ident_fingerprint (slack_message_identity sha ch ts th u txt ev' src')"
  using slack_message_fingerprint slack_message_key by simp

text \<open>Looking up an identity some task has finds that task.\<close>

lemma existing_row_identity:
  assumes "tasks_unique d" and "t \<in> set (db_tasks d)"
    and "identity_of t = Some (inst, ident_key ident)"
  shows "existing_row inst ident ev d = Some t"
proof -
  have t: "t_installation t = inst" "t_identity_key t = Some (ident_key ident)"
    using assms(3) by (auto simp: identity_of_def)
  then obtain r where r: "get_by_identity_key inst (ident_key ident) d = Some r"
    using assms(2) by (cases "get_by_identity_key inst (ident_key ident) d")
      (auto simp: get_by_identity_key_def find_None_iff)
  then have "r = t"
    using get_by_identity_key_Some [OF r] identity_unique_row [OF assms(1)] assms(2,3)
    by (fastforce simp: identity_of_def)
  with r show ?thesis by (simp add: existing_row_def)
qed

lemma lookup_existing_tasks:
  "lookup_existing inst ident ev d = (r, d') \<Longrightarrow> tasks_unique d \<Longrightarrow> db_tasks d' = db_tasks d"
  using lookup_existing_eq [of d inst ident ev] by (auto split: option.splits)

text \<open>Creating is idempotent, also for a request that lost the race: once some task has
  the identity of the request, both the lookup of \<open>create_task\<close> and the insert of a creation
  that had found nothing before return that task and add none.\<close>

theorem create_task_idempotent:
  assumes "tasks_unique d" and "t \<in> set (db_tasks d)"
    and "identity_of t = Some (rq_installation rq, ident_key (request_identity sha rq))"
  shows "fst (create_task sha race fresh rq d) = Inr t \<and>
    db_tasks (snd (create_task sha race fresh rq d)) = db_tasks d \<and>
    fst (create_insert sha fresh rq d) = Inr t \<and>
    db_tasks (snd (create_insert sha fresh rq d)) = db_tasks d"
proof -
  let ?ident = "request_identity sha rq"
  obtain r d' where look:
    "lookup_existing (rq_installation rq) ?ident (rq_slack_event_id rq) d = (r, d')"
    by (cases "lookup_existing (rq_installation rq) ?ident (rq_slack_event_id rq) d")
  have r: "r = Inr (Some t)"
    using lookup_existing_result [OF look assms(1)] existing_row_identity [OF assms] by simp
  note same = lookup_existing_tasks [OF look assms(1)]
  let ?row = "new_task fresh rq ?ident (db_now d)"
  have "insert_violation ?row d \<noteq> None"
    using assms(2,3) by (auto simp: insert_violation_def intro: rev_image_eqI split: option.splits)
  then have "fst (create_insert sha fresh rq d) = Inr t \<and>
      db_tasks (snd (create_insert sha fresh rq d)) = db_tasks d"
    using look r same by (auto simp: create_insert_eq split: option.splits)
  then show ?thesis
    using look r same by (simp add: create_task_def seq_apply)
qed

lemma create_task_idempotent_witness:
  "fst (create_task sample_sha id 8 sample_request sample_db) = Inr sample_row \<and>
   db_tasks (snd (create_insert sample_sha 8 sample_request sample_db)) = [sample_row]"
proof -
  have t: "sample_row \<in> set (db_tasks sample_db)" using task_get_in [OF sample_get] .
  have i: "identity_of sample_row =
      Some (rq_installation sample_request, ident_key (request_identity sample_sha sample_request))"
    by (simp add: sample_row_def)
  have "db_tasks sample_db = [sample_row]" by (simp add: sample_db_eq)
  with create_task_idempotent [OF core_okD(2) [OF sample_core_ok] t i] show ?thesis by simp
qed

section \<open>Leases\<close>

text \<open>C4. \<open>claim_next\<close> takes a pending, due and unlocked task of least due time, makes it
  running under the worker's lease and reports it; it returns nothing exactly when no task
  is claimable.\<close>

theorem claim_next_correct:
  assumes "core_ok d" and "claim_next w l now d = (r, d')"
  defines "at \<equiv> coerce_utc now d"
  defines "ready \<equiv> \<lambda>t. t_status t = Pending \<and> t_available_at t \<le> at \<and>
    t_id t \<notin> set (db_row_locks d)"
  shows "(r = Inr None \<and> d' = d \<and> (\<forall>t \<in> set (db_tasks d). \<not> ready t)) \<or>
    (\<exists>t \<in> set (db_tasks d). ready t \<and> (\<forall>o' \<in> set (db_tasks d). ready o' \<longrightarrow>
        (t_available_at t, t_created_at t) \<le> (t_available_at o', t_created_at o')) \<and>
      r = Inr (Some (claim_row w at l t)) \<and>
      task_get (t_id t) d' = Some (claim_row w at l t) \<and>
      (\<forall>k. k \<noteq> t_id t \<longrightarrow> task_get k d' = task_get k d) \<and>
      status_log (t_id t) d' = status_log (t_id t) d @ [claimed_payload w at l])"
proof (cases "claimable at d")
  case Nil
  with assms(2) show ?thesis
    using claimable_empty [of at d] claim_next_eq [OF core_okD(2) [OF assms(1)]]
    by (simp add: at_def ready_def)
next
  case (Cons t ts)
  note t = claimable_in [OF Cons]
  have get: "task_get (t_id t) d = Some t"
    using task_get_member [OF core_okD(2) [OF assms(1)]] t by blast
  have r: "r = Inr (Some (claim_row w at l t))"
    and d': "d' = add_event (t_id t) Status_Changed (claimed_payload w at l)
      (upd_task (t_id t) (claim_row w at l) d)"
    using assms(2) Cons claim_next_eq [OF core_okD(2) [OF assms(1)], of w l now]
    by (simp_all add: at_def)
  have first: "\<forall>o' \<in> set (db_tasks d). ready o' \<longrightarrow>
      (t_available_at t, t_created_at t) \<le> (t_available_at o', t_created_at o')"
    using claimable_first [OF Cons] by (auto simp: ready_def)
  have "task_get (t_id t) d' = Some (claim_row w at l t)"
    by (simp add: d' task_get_upd get del: task_get_id)
  moreover have "\<forall>k. k \<noteq> t_id t \<longrightarrow> task_get k d' = task_get k d"
    by (simp add: d' task_get_upd)
  moreover have "status_log (t_id t) d' = status_log (t_id t) d @ [claimed_payload w at l]"
    by (simp add: d' status_log_add)
  ultimately show ?thesis using t first r by (auto simp: ready_def)
qed

lemma claim_next_correct_witness:
  "task_get 7 claimed_db = Some (claim_row ''w1'' 0 (seconds 300) sample_row)"
proof -
  have "db_tasks sample_db = [sample_row]" by (simp add: sample_db_eq)
  moreover have "t_id sample_row = 7" by (simp add: sample_row_def)
  ultimately show ?thesis
    using claim_next_correct [OF sample_core_ok claimed_eq] by (simp add: coerce_utc_def)
qed

text \<open>C5. While its lease has not run out, a running task is out of everyone else's reach: no
  claim takes it, no sweep touches it, and a renewal by another worker changes nothing.\<close>

theorem lease_is_exclusive:
  assumes "core_ok d" and "task_get tid d = Some t" and "t_status t = Running"
    and "t_lease_expires_at t = Some at" and "coerce_utc now d < at"
  shows "task_get tid (snd (claim_next w l now d)) = Some t \<and>
    task_get tid (snd (reclaim_expired_leases now n d)) = Some t \<and>
    (t_locked_by t \<noteq> Some w \<longrightarrow> snd (renew_lease tid w l now d) = d)"
proof -
  obtain r d' where claim: "claim_next w l now d = (r, d')" by (cases "claim_next w l now d")
  have "x = t" if "x \<in> set (db_tasks d)" "t_id x = tid" for x
    using task_get_member [OF core_okD(2) [OF assms(1)] that(1)] that(2) assms(2) by simp
  note only = this
  have claimed: "task_get tid (snd (claim_next w l now d)) = Some t"
    using claim_next_correct [OF assms(1) claim] claim assms(2,3) only by fastforce
  obtain r2 d2 where sweep: "reclaim_expired_leases now n d = (r2, d2)"
    by (cases "reclaim_expired_leases now n d")
  have "tid \<notin> t_id ` set (expired_tasks (coerce_utc now d) n d)"
    using only assms(3,4,5) expired_tasks_in by (fastforce simp: expired_def)
  then have swept: "task_get tid (snd (reclaim_expired_leases now n d)) = Some t"
    using reclaim_expired_eq [OF assms(1) sweep] sweep assms(2) by simp
  have "snd (renew_lease tid w l now d) = d" if owner: "t_locked_by t \<noteq> Some w"
  proof -
    have "renewable tid w (coerce_utc now d) d = None"
      using only owner renewable_Some by (metis not_None_eq)
    then show ?thesis
      using renew_lease_eq [OF core_okD(2) [OF assms(1)], of l tid w now]
      by (cases "0 < l") (simp_all add: renew_lease_def seq_apply)
  qed
  with claimed swept show ?thesis by blast
qed

lemma lease_is_exclusive_witness:
  "snd (renew_lease 7 ''w2'' 5 None claimed_db) = claimed_db \<and>
   task_get 7 (snd (reclaim_expired_leases None 100 claimed_db)) = task_get 7 claimed_db"
proof -
  let ?t = "claim_row ''w1'' 0 (seconds 300) sample_row"
  have t: "t_status ?t = Running" "t_lease_expires_at ?t = Some (seconds 300)"
    "t_locked_by ?t \<noteq> Some ''w2''"
    by (simp_all add: claim_row_def)
  have now: "coerce_utc None claimed_db < seconds 300"
    by (simp add: coerce_utc_def claimed_db_eq seconds_def)
  from lease_is_exclusive [OF claimed_core_ok claimed_get t(1,2) now] t(3) claimed_get
  show ?thesis by simp
qed

lemma requeued_row:
  fixes t at
  defines "t' \<equiv> requeue_row at (crash_row at t)"
  shows "t_attempts t' = t_attempts t + 1 \<and>
    t_locked_by t' = None \<and> t_locked_at t' = None \<and> t_lease_expires_at t' = None \<and>
    (if t_attempts t + 1 < t_max_attempts t
     then t_status t' = Pending \<and> t_error t' = None \<and>
          t_available_at t' = at + retry_backoff (t_attempts t + 1)
     else t_status t' = Failed \<and> t_finished_at t' = Some at \<and>
          (\<exists>e. t_error t' = Some e \<and> jget e ''dead_letter'' = JBool True))"
  by (simp add: t'_def requeue_row_def crash_row_def clear_task_lease_def dead_letter_error_def
      Let_def)

lemma taken_first:
  assumes "t \<in> set (take n (sort_key k xs))" and "u \<in> set xs" "u \<notin> set (take n (sort_key k xs))"
  shows "k t \<le> k u"
proof -
  let ?s = "sort_key k xs"
  have "u \<in> set ?s" using assms(2) by simp
  then have "u \<in> set (drop n ?s)"
    using assms(3) by (metis Un_iff append_take_drop_id set_append)
  moreover have "sorted (map k (take n ?s) @ map k (drop n ?s))"
    by (simp flip: map_append)
  ultimately show ?thesis using assms(1) by (auto simp: sorted_append)
qed

definition swept :: "timestamp \<Rightarrow> db \<Rightarrow> task list" where
  "swept at d = filter (\<lambda>t. expired at t \<and> t_id t \<notin> set (db_row_locks d)) (db_tasks d)"

text \<open>C6. The sweep takes the running tasks whose lease has run out and whose row nobody else holds: all
  of them up to the limit, those whose lease ran out first if there are more. Each loses
  its lease and counts one more attempt; with attempts left it is pending again after the
  backoff of that attempt, without any left it has failed for good with a dead-letter error.
  It reports exactly those tasks and changes no other.\<close>

theorem reclaim_correct:
  assumes "core_ok d" and "reclaim_expired_leases now n d = (r, d')"
  defines "at \<equiv> coerce_utc now d"
  shows "\<exists>rows. r = Inr (map t_id rows) \<and> distinct (map t_id rows) \<and>
    length rows = min n (length (swept at d)) \<and>
    (\<forall>t \<in> set rows. \<forall>u \<in> set (swept at d) - set rows. the (t_lease_expires_at t) \<le> the (t_lease_expires_at u)) \<and>
    (\<forall>t \<in> set rows. t \<in> set (swept at d) \<and>
      (\<exists>t'. task_get (t_id t) d' = Some t' \<and> t_attempts t' = t_attempts t + 1 \<and>
        t_locked_by t' = None \<and> t_locked_at t' = None \<and> t_lease_expires_at t' = None \<and>
        (if t_attempts t + 1 < t_max_attempts t
         then t_status t' = Pending \<and> t_error t' = None \<and>
              t_available_at t' = at + retry_backoff (t_attempts t + 1)
         else t_status t' = Failed \<and> t_finished_at t' = Some at \<and>
              (\<exists>e. t_error t' = Some e \<and> jget e ''dead_letter'' = JBool True)))) \<and>
    (\<forall>tid. tid \<notin> t_id ` set rows \<longrightarrow> task_get tid d' = task_get tid d)"
proof -
  define rows where "rows = expired_tasks at n d"
  have eq: "r = Inr (map t_id rows)"
    "\<forall>t \<in> set rows. task_get (t_id t) d' = Some (requeue_row at (crash_row at t))"
    "\<forall>tid. tid \<notin> t_id ` set rows \<longrightarrow> task_get tid d' = task_get tid d"
    using reclaim_expired_eq [OF assms(1,2)] by (simp_all add: rows_def at_def)
  have sweep: "\<exists>t'. task_get (t_id t) d' = Some t' \<and> t_attempts t' = t_attempts t + 1 \<and>
        t_locked_by t' = None \<and> t_locked_at t' = None \<and> t_lease_expires_at t' = None \<and>
        (if t_attempts t + 1 < t_max_attempts t
         then t_status t' = Pending \<and> t_error t' = None \<and>
              t_available_at t' = at + retry_backoff (t_attempts t + 1)
         else t_status t' = Failed \<and> t_finished_at t' = Some at \<and>
              (\<exists>e. t_error t' = Some e \<and> jget e ''dead_letter'' = JBool True))"
    if "t \<in> set rows" for t
    using eq(2) that requeued_row [of at t] by blast
  have "distinct (map t_id rows)"
    unfolding rows_def by (rule expired_tasks_distinct [OF core_okD(2) [OF assms(1)]])
  moreover have length: "length rows = min n (length (swept at d))"
    by (simp add: rows_def expired_tasks_def swept_def min.commute)
  moreover have taken: "t \<in> set (swept at d)" if "t \<in> set rows" for t
    using that by (auto simp: rows_def expired_tasks_def swept_def dest: in_set_takeD)
  moreover have "the (t_lease_expires_at t) \<le> the (t_lease_expires_at u)"
    if "t \<in> set rows" "u \<in> set (swept at d) - set rows" for t u
  proof -
    have "(the (t_lease_expires_at t), t_created_at t) \<le> (the (t_lease_expires_at u), t_created_at u)"
      using that taken_first [of t n "\<lambda>t. (the (t_lease_expires_at t), t_created_at t)" "swept at d" u]
      by (simp add: rows_def expired_tasks_def swept_def)
    then show ?thesis by auto
  qed
  ultimately show ?thesis using eq(1,3) sweep by blast
qed

definition later :: "py_datetime option" where
  "later = Some (Aware (seconds 301))"

lemma claimed_expired: "expired_tasks (seconds 301) 100 claimed_db =
    [claim_row ''w1'' 0 (seconds 300) sample_row]"
proof -
  have "db_tasks claimed_db = [claim_row ''w1'' 0 (seconds 300) sample_row]"
    by (simp add: claimed_db_eq sample_db_eq upd_task_def row_upd_def sample_row_def)
  moreover have "db_row_locks claimed_db = []" by (simp add: claimed_db_eq sample_db_eq)
  ultimately show ?thesis
    by (simp add: expired_tasks_def expired_def claim_row_def seconds_def)
qed

lemma reclaim_correct_witness:
  "\<exists>t'. task_get 7 (snd (reclaim_expired_leases later 100 claimed_db)) = Some t' \<and>
    t_status t' = Pending \<and> t_attempts t' = 1 \<and> t_available_at t' = seconds 331"
proof -
  obtain r d' where run: "reclaim_expired_leases later 100 claimed_db = (r, d')"
    by (cases "reclaim_expired_leases later 100 claimed_db")
  have at: "coerce_utc later claimed_db = seconds 301" by (simp add: coerce_utc_def later_def)
  have row: "t_id sample_row = 7" "t_attempts sample_row = 0" "t_max_attempts sample_row = 3"
    by (simp_all add: sample_row_def) (simp_all add: new_task_def)
  have r: "r = Inr [7]"
    using reclaim_expired_eq [OF claimed_core_ok run] row by (simp add: at claimed_expired)
  obtain rows where rows: "r = Inr (map t_id rows)"
    "\<forall>t \<in> set rows. t \<in> set (swept (seconds 301) claimed_db) \<and>
      (\<exists>t'. task_get (t_id t) d' = Some t' \<and> t_attempts t' = t_attempts t + 1 \<and>
        (if t_attempts t + 1 < t_max_attempts t
         then t_status t' = Pending \<and> t_error t' = None \<and>
              t_available_at t' = seconds 301 + retry_backoff (t_attempts t + 1)
         else t_status t' = Failed \<and> t_finished_at t' = Some (seconds 301) \<and>
              (\<exists>e. t_error t' = Some e \<and> jget e ''dead_letter'' = JBool True)))"
    using reclaim_correct [OF claimed_core_ok run] unfolding at by blast
  have "map t_id rows = [7]" using r rows(1) by simp
  then obtain t where t: "t \<in> set rows" "t_id t = 7" by (cases rows) auto
  have "t \<in> set (db_tasks claimed_db)" using rows(2) t(1) by (auto simp: swept_def)
  then have "task_get 7 claimed_db = Some t"
    using task_get_member [OF core_okD(2) [OF claimed_core_ok]] t(2) by metis
  then have "t_attempts t = 0" "t_max_attempts t = 3"
    using claimed_get row by (auto simp: claim_row_def)
  moreover have "retry_backoff 1 = seconds 30"
    by (simp add: retry_backoff_def default_retry_backoff_seconds_def
        default_max_retry_backoff_seconds_def seconds_def)
  moreover have "\<exists>t'. task_get (t_id t) d' = Some t' \<and> t_attempts t' = t_attempts t + 1 \<and>
        (if t_attempts t + 1 < t_max_attempts t
         then t_status t' = Pending \<and> t_error t' = None \<and>
              t_available_at t' = seconds 301 + retry_backoff (t_attempts t + 1)
         else t_status t' = Failed \<and> t_finished_at t' = Some (seconds 301) \<and>
              (\<exists>e. t_error t' = Some e \<and> jget e ''dead_letter'' = JBool True))"
    using rows(2) t(1) by blast
  then obtain t' where "task_get 7 d' = Some t'" "t_attempts t' = t_attempts t + 1"
    "if t_attempts t + 1 < t_max_attempts t
         then t_status t' = Pending \<and> t_error t' = None \<and>
              t_available_at t' = seconds 301 + retry_backoff (t_attempts t + 1)
         else t_status t' = Failed \<and> t_finished_at t' = Some (seconds 301) \<and>
              (\<exists>e. t_error t' = Some e \<and> jget e ''dead_letter'' = JBool True)"
    using t(2) by auto
  ultimately show ?thesis using run by (intro exI [of _ t']) (simp add: seconds_def)
qed

text \<open>The backoff between attempts never shrinks as attempts are used up, and stays
  between half a minute and five minutes.\<close>

theorem backoff_bounded_monotone:
  "seconds 30 \<le> retry_backoff n \<and> retry_backoff n \<le> seconds 300 \<and>
   retry_backoff n \<le> retry_backoff (n + k * k)"
  using retry_backoff_bounds retry_backoff_mono by simp

section \<open>Approvals\<close>

lemma decision_recorded:
  assumes "core_ok d" and "task_get tid d \<noteq> None"
    and "e \<in> set (events_of tid d)" "e_type e = Log"
    and "jget (e_payload e) ''message'' = JStr tool_approval_decision_message"
    and "jget (e_payload e) ''approval_key'' = JStr key"
  shows "awaited tid key d = None"
proof (rule ccontr)
  assume "awaited tid key d \<noteq> None"
  then obtain rq where "pending_approval tid d = Some rq" "jget rq ''approval_key'' = JStr key"
    by (auto simp: awaited_def split: option.splits if_splits)
  then have "key \<notin> set (decided_keys (log_events_newest_first tid d))"
    by (auto simp: pending_approval_def Let_def dest!: first_undecided_sound)
  with assms show False by (auto simp: set_decided_keys)
qed

lemma decision_entry:
  assumes "task_get tid d = Some t" and "awaited tid key d = Some rq"
  shows "\<exists>e \<in> set (events_of tid (snd (approve_tool_approval tid key u at d))).
      e_type e = Log \<and> jget (e_payload e) ''message'' = JStr tool_approval_decision_message \<and>
      jget (e_payload e) ''approval_key'' = JStr key"
    and "\<exists>e \<in> set (events_of tid (snd (reject_tool_approval tid key u d))).
      e_type e = Log \<and> jget (e_payload e) ''message'' = JStr tool_approval_decision_message \<and>
      jget (e_payload e) ''approval_key'' = JStr key"
  using approve_some [OF assms] reject_some [OF assms]
  by (auto simp: Let_def events_of_add decision_payload_def)

lemma decided_forever:
  assumes ok: "core_ok d" and steps: "moves d d'" and get: "task_get tid d \<noteq> None"
    and e: "e \<in> set (events_of tid d)" "e_type e = Log"
      "jget (e_payload e) ''message'' = JStr tool_approval_decision_message"
      "jget (e_payload e) ''approval_key'' = JStr key"
  shows "approve_tool_approval tid key u at d' = (Inr None, d') \<and>
    reject_tool_approval tid key u d' = (Inr None, d')"
proof -
  obtain es where "events_of tid d' = events_of tid d @ es"
    using log_grows_moves [OF steps] unfolding event_log.grows_def by blast
  then have "e \<in> set (events_of tid d')" using e(1) by simp
  then have "awaited tid key d' = None"
    using decision_recorded core_ok_moves [OF steps ok] task_get_moves [OF steps get] e(2-) by blast
  then show ?thesis
    using task_get_moves [OF steps get] approve_none by (cases "task_get tid d'") auto
qed

text \<open>C7. A tool approval is decided at most once: after an approval or a rejection went
  through, every later attempt to decide the same key does nothing, whatever happens in
  between.\<close>

theorem approval_decided_once:
  assumes "core_ok d" and "awaited tid key d = Some rq"
    and "moves (snd (approve_tool_approval tid key u at d)) d1"
    and "moves (snd (reject_tool_approval tid key u d)) d2"
  shows "approve_tool_approval tid key u' at' d1 = (Inr None, d1) \<and>
      reject_tool_approval tid key u' d1 = (Inr None, d1) \<and>
    approve_tool_approval tid key u' at' d2 = (Inr None, d2) \<and>
      reject_tool_approval tid key u' d2 = (Inr None, d2)"
proof -
  obtain t where t: "task_get tid d = Some t"
    using assms(2) by (cases "task_get tid d") (auto simp: awaited_def)
  let ?a = "snd (approve_tool_approval tid key u at d)" and ?r = "snd (reject_tool_approval tid key u d)"
  have m: "moves d ?a" "moves d ?r"
    by (rule approve_moves [OF surjective_pairing], rule reject_moves [OF surjective_pairing])
  have ok: "core_ok ?a" "core_ok ?r" using m core_ok_moves assms(1) by blast+
  have get: "task_get tid ?a \<noteq> None" "task_get tid ?r \<noteq> None"
    using m t task_get_moves by (metis option.distinct(1))+
  show ?thesis
    using decided_forever [OF ok(1) assms(3) get(1)] decided_forever [OF ok(2) assms(4) get(2)]
      decision_entry [OF t assms(2)] by blast
qed

text \<open>A waiting task with a pending request, for the witnesses.\<close>

definition sample_tool_request :: jobj where
  "sample_tool_request = [(''approval_key'', JStr ''k1''), (''tool'', JStr ''deploy_site'')]"

definition waiting_db :: db where
  "waiting_db =
     snd (mark_waiting_for_tool_approval Running 7 sample_tool_request ''11.0'' None
       (add_event 7 Log [(''message'', JStr tool_approval_required_message),
                         (''request'', JObj sample_tool_request)] claimed_db))"

lemma waiting_core_ok: "core_ok waiting_db"
proof -
  let ?d = "add_event 7 Log [(''message'', JStr tool_approval_required_message),
                         (''request'', JObj sample_tool_request)] claimed_db"
  have m: "moves claimed_db ?d" by (rule moves_note [OF moves_refl claimed_get]) simp
  have "moves ?d waiting_db"
    unfolding waiting_db_def
    by (rule mark_waiting_moves [OF surjective_pairing])
  with m show ?thesis using core_ok_moves claimed_core_ok by blast
qed

lemma empty_events [simp]: "events_of k (empty_db\<lparr>db_tasks := ts\<rparr>) = []"
  by (simp add: events_of_def)

lemma waiting_events:
  "log_events_newest_first 7 waiting_db =
     filter (\<lambda>e. e_type e = Log) (log_events_newest_first 7 waiting_db) \<and>
   map e_payload (log_events_newest_first 7 waiting_db) =
     [[(''message'', JStr tool_approval_waiting_message), (''request'', JObj sample_tool_request),
       (''prompt_message_ts'', JStr ''11.0''), (''by_worker_id'', JNull)],
      [(''message'', JStr tool_approval_required_message), (''request'', JObj sample_tool_request)]]"
proof -
  define b where "b = add_event 7 Log [(''message'', JStr tool_approval_required_message),
                         (''request'', JObj sample_tool_request)] claimed_db"
  have get: "task_get 7 b = Some (claim_row ''w1'' 0 (seconds 300) sample_row)"
    by (simp add: b_def claimed_get)
  have lens: "length (events_of 7 claimed_db) = 2"
    by (simp add: claimed_db_eq sample_db_eq events_of_add)
  have num: "log_numbered claimed_db" using core_okD(8) [OF claimed_core_ok] .
  have "filter (\<lambda>e. e_type e = Log) (events_of 7 claimed_db) = []"
    by (simp add: claimed_db_eq sample_db_eq events_of_add)
  then show ?thesis
    using num lens
    by (simp add: log_events_newest_first_def waiting_db_def mark_waiting_eq [OF get]
        flip: b_def)
       (simp add: b_def events_of_add next_event_seq_numbered log_numbered_add jopt_str_def
        sort_key_def)
qed

lemma waiting_awaited: "awaited 7 ''k1'' waiting_db = Some sample_tool_request"
proof -
  obtain e1 e2 where evs: "log_events_newest_first 7 waiting_db = [e1, e2]"
    and p: "e_payload e1 = [(''message'', JStr tool_approval_waiting_message),
       (''request'', JObj sample_tool_request), (''prompt_message_ts'', JStr ''11.0''),
       (''by_worker_id'', JNull)]"
      "e_payload e2 = [(''message'', JStr tool_approval_required_message),
       (''request'', JObj sample_tool_request)]"
    using waiting_events by (auto simp: Cons_eq_map_conv)
  have "decided_keys [e1, e2] = []"
    by (simp add: decided_keys_def p message_defs)
  then have "pending_approval 7 waiting_db = Some sample_tool_request"
    by (simp add: pending_approval_def evs p message_defs) (simp add: sample_tool_request_def)
  moreover have "task_get 7 waiting_db = Some (waiting_row 0 sample_tool_request
      (claim_row ''w1'' 0 (seconds 300) sample_row))"
    by (simp add: waiting_db_def mark_waiting_eq claimed_get task_get_upd)
       (simp add: claimed_db_eq)
  ultimately show ?thesis by (simp add: awaited_def sample_tool_request_def)
qed

lemma approval_decided_once_witness:
  "fst (reject_tool_approval 7 ''k1'' ''U2''
     (snd (approve_tool_approval 7 ''k1'' ''U1'' None waiting_db))) = Inr None"
  using approval_decided_once [OF waiting_core_ok waiting_awaited moves_refl moves_refl,
      of "''U2''" None "''U1''" None] by simp

text \<open>An approval takes effect only on a request the task's log really asked for and
  nobody has decided: the task waits, the log holds the request under that key, and no
  decision with the key; the task is then pending again without a lease.\<close>

theorem approval_answers_request:
  assumes "approve_tool_approval tid key u at d = (Inr (Some t'), d')"
  shows "\<exists>t rq e. task_get tid d = Some t \<and> t_status t = Waiting_Approval \<and>
    e \<in> set (events_of tid d) \<and> e_type e = Log \<and>
    jget (e_payload e) ''message'' = JStr tool_approval_required_message \<and>
    jget (e_payload e) ''request'' = JObj rq \<and> jget rq ''approval_key'' = JStr key \<and>
    (\<forall>x \<in> set (events_of tid d). e_type x = Log \<longrightarrow>
       jget (e_payload x) ''message'' = JStr tool_approval_decision_message \<longrightarrow>
       jget (e_payload x) ''approval_key'' \<noteq> JStr key) \<and>
    task_get tid d' = Some t' \<and> t_status t' = Pending \<and> t_locked_by t' = None"
proof -
  obtain t where t: "task_get tid d = Some t"
    using assms by (cases "task_get tid d") (auto simp: missing_task)
  obtain rq where rq: "awaited tid key d = Some rq"
    using assms approve_none(1) [OF t] by (cases "awaited tid key d") auto
  have st: "t_status t = Waiting_Approval" by (rule awaited_status [OF rq t])
  have pend: "pending_approval tid d = Some rq" and key: "jget rq ''approval_key'' = JStr key"
    using rq t by (auto simp: awaited_def split: option.splits if_splits)
  from pend obtain e k where "e \<in> set (events_of tid d)" "e_type e = Log"
    "jget (e_payload e) ''message'' = JStr tool_approval_required_message"
    "jget (e_payload e) ''request'' = JObj rq" "jget rq ''approval_key'' = JStr k"
    "k \<notin> set (decided_keys (log_events_newest_first tid d))"
    by (auto simp: pending_approval_def Let_def dest!: first_undecided_sound)
  moreover have "task_get tid d' = Some t'" "t_status t' = Pending" "t_locked_by t' = None"
    using assms approve_some [OF t rq, of u at] t
    by (auto simp: Let_def task_get_upd approve_row_def clear_task_lease_def)
  ultimately show ?thesis using t st key by (fastforce simp: set_decided_keys)
qed

lemma approval_answers_request_witness:
  "\<exists>e \<in> set (events_of 7 waiting_db). jget (e_payload e) ''request'' = JObj sample_tool_request \<or>
     (\<exists>rq. jget (e_payload e) ''request'' = JObj rq \<and> jget rq ''approval_key'' = JStr ''k1'')"
proof -
  obtain t where "task_get 7 waiting_db = Some t"
    using waiting_awaited by (cases "task_get 7 waiting_db") (auto simp: awaited_def)
  from approve_some [OF this waiting_awaited, of "''U1''" None]
  obtain t' d' where "approve_tool_approval 7 ''k1'' ''U1'' None waiting_db = (Inr (Some t'), d')"
    by (simp add: Let_def)
  from approval_answers_request [OF this] show ?thesis by blast
qed

section \<open>Cancelling\<close>

text \<open>C8. A cancellation goes through exactly for a pending, running or waiting task; the task
  is then cancelled without a lease, the cooperative check of a running executor raises, and
  neither a second cancellation nor a retry changes anything any more.\<close>

theorem cancel_is_final:
  assumes "task_get tid d = Some t" and "cancel_task tid u reason d = (r, d')"
  shows "if t_status t \<in> {Pending, Running, Waiting_Approval}
    then (\<exists>t'. r = Inr (Some t') \<and> task_get tid d' = Some t' \<and> t_status t' = Cancelled \<and>
        t_finished_at t' = Some (db_now d) \<and> t_locked_by t' = None \<and>
        t_lease_expires_at t' = None) \<and>
      (\<exists>msg. raise_if_cancelled tid ph d' = (Inl (TaskCancelled msg), d')) \<and>
      cancel_task tid u' reason' d' = (Inr None, d') \<and>
      retry_failed_task tid u' reason' at d' = (Inr None, d')
    else r = Inr None \<and> d' = d"
proof (cases "t_status t \<in> set cancellable_statuses")
  case True
  have d': "r = Inr (Some (cancel_row (db_now d) t))"
    "d' = add_event tid Status_Changed (cancel_payload (t_status t) u reason)
       (upd_task tid (cancel_row (db_now d)) d)"
    using assms(2) True by (simp_all add: cancel_task_eq [OF assms(1)])
  then have get: "task_get tid d' = Some (cancel_row (db_now d) t)"
    by (simp add: task_get_upd assms(1))
  moreover have "cancel_task tid u' reason' d' = (Inr None, d')"
    "retry_failed_task tid u' reason' at d' = (Inr None, d')"
    by (simp_all add: cancel_task_eq [OF get] retry_failed_task_eq [OF get] cancellable_statuses_def)
  moreover have "\<exists>msg. raise_if_cancelled tid ph d' = (Inl (TaskCancelled msg), d')"
    using get by (simp add: raise_if_cancelled_def seq_apply resolve_task_def)
  moreover have "t_finished_at (cancel_row (db_now d) t) = Some (db_now d)"
    "t_locked_by (cancel_row (db_now d) t) = None"
    "t_lease_expires_at (cancel_row (db_now d) t) = None"
    by (simp_all add: cancel_row_def clear_task_lease_def)
  moreover have "t_status t \<in> {Pending, Running, Waiting_Approval}"
    using True by (simp add: cancellable_statuses_def)
  ultimately show ?thesis using d'(1) by simp
next
  case False
  then have "t_status t \<notin> {Pending, Running, Waiting_Approval}" "r = Inr None" "d' = d"
    using assms(2) by (simp_all add: cancel_task_eq [OF assms(1)] cancellable_statuses_def)
  then show ?thesis by simp
qed

lemma cancel_is_final_witness:
  "\<exists>t'. task_get 7 (snd (cancel_task 7 None ''stop'' claimed_db)) = Some t' \<and>
     t_status t' = Cancelled"
proof -
  have "t_status (claim_row ''w1'' 0 (seconds 300) sample_row) = Running" by simp
  with cancel_is_final [where u = None and reason = "''stop''" and ph = None and at = None
      and u' = None and reason' = "''again''", OF claimed_get surjective_pairing]
  show ?thesis by auto
qed

section \<open>Usage and the cost ceiling\<close>

lemma record_cost_ceiling_task:
  assumes "record_cost_ceiling tid d = (r, d')"
  shows "task_get k d' = task_get k d"
proof -
  have pause: "\<forall>j. task_get j d1 = task_get j d"
    if "pause_schedule sid tid ceil cum d = (x, d1)" for sid ceil cum x d1
    using that by (auto simp: pause_schedule_def seq_apply task_get_def split: option.splits if_splits)
  have app: "\<forall>j. task_get j d1 = task_get j d0"
    if "append_event tid ty p d0 = (x, d1)" for ty p x d0 d1
    using that by (cases "task_get tid d0") (auto simp: append_event_simp append_event_missing)
  show ?thesis
    using assms
    by (auto simp: record_cost_ceiling_def seq_apply resolve_task_def Let_def
        split: option.splits sum.splits if_splits prod.splits dest!: pause app)
qed

lemma usage_totals_billed:
  assumes "u_task u = tid"
  shows "usage_totals tid (billed tid u now d) =
    (usage_total u_input_tokens tid d + u_input_tokens u,
     usage_total u_output_tokens tid d + u_output_tokens u,
     usage_total u_cost tid d + u_cost u)"
  using assms
  by (simp add: billed_def Let_def) (simp add: usage_totals_def usage_total_def usage_of_def)

lemma insert_usage_row:
  assumes "insert_usage tid a ev cost d = (Inr u, d1)"
  shows "u_input_tokens u = ua_input_tokens a \<and> u_output_tokens u = ua_output_tokens a \<and>
    to_micros cost = Inr (u_cost u)"
  using assms by (auto simp: insert_usage_def seq_apply split: sum.splits if_splits)

text \<open>Recording a call adds its tokens and its cost, rounded to a millionth of a dollar,
  to the totals of the task; the totals stay the sums over the usage rows.\<close>

theorem usage_adds_to_totals:
  assumes "core_ok d" and "record_llm_usage tid a d = (Inr u, d')"
  shows "\<exists>t t' cost. task_get tid d = Some t \<and> task_get tid d' = Some t' \<and>
    coerce_decimal (ua_cost a) = Inr cost \<and> to_micros cost = Inr (u_cost u) \<and>
    t_total_input_tokens t' = t_total_input_tokens t + ua_input_tokens a \<and>
    t_total_output_tokens t' = t_total_output_tokens t + ua_output_tokens a \<and>
    t_total_cost t' = t_total_cost t + u_cost u"
  using assms(2)
proof (rule record_llm_usageE)
  fix t cost ev d1 d2
  assume t: "task_get tid d = Some t" and ut: "u_task u = tid"
    and cost: "coerce_decimal (ua_cost a) = Inr cost"
    and d1: "d1 = d \<or> d1 = add_event tid Llm_Call (usage_event_payload a cost) d"
    and ins: "insert_usage tid a ev cost d1 = (Inr u, d2)"
    and ceil: "record_cost_ceiling tid (billed tid u (db_now d1) d1) = (Inr (), d')"
  let ?b = "billed tid u (db_now d1) d1"
  have m: "moves d d1" using d1 t by (auto intro: moves_note)
  have t1: "task_get tid d1 = Some t" using d1 t by auto
  have ok1: "core_ok d1" using core_ok_moves [OF m assms(1)] .
  have okb: "core_ok ?b" using core_ok_bill [OF ok1 t1 ut] .
  obtain t' where t': "task_get tid ?b = Some t'"
    using t1 by (auto simp: billed_def Let_def task_get_upd) (auto simp: task_get_def)
  have "totals t' = usage_totals tid ?b"
    using core_okD(6) [OF okb] task_get_in [OF t'] task_get_id [OF t'] by (auto simp: rolled_up_def)
  moreover have "totals t = usage_totals tid d1"
    using core_okD(6) [OF ok1] task_get_in [OF t1] task_get_id [OF t1] by (auto simp: rolled_up_def)
  moreover have "task_get tid d' = Some t'" using record_cost_ceiling_task [OF ceil] t' by simp
  ultimately show ?thesis
    using t cost insert_usage_row [OF ins] usage_totals_billed [OF ut]
    by (intro exI [of _ t] exI [of _ t'] exI [of _ cost]) (simp add: totals_def usage_totals_def)
qed

definition sample_usage :: usage_args where
  "sample_usage = \<lparr>ua_provider = ''openai'', ua_model = ''m'', ua_input_tokens = 10,
     ua_output_tokens = 5, ua_cost = CostDec (Dec False 25 (- 7)), ua_cache_creation = 0,
     ua_cache_read = 0, ua_event_id = None, ua_model_tier = None, ua_metadata = [],
     ua_provider_kind = None, ua_provider_account = None, ua_cost_source = None\<rparr>"

lemma sample_usage_recorded: "\<exists>u d'. record_llm_usage 7 sample_usage claimed_db = (Inr u, d')"
proof -
  let ?t = "claim_row ''w1'' 0 (seconds 300) sample_row"
  have kind: "t_identity_kind ?t \<noteq> Some ''scheduled''"
    by (simp add: claim_row_def sample_row_def new_task_def request_identity_def sample_request_def)
  have nousage: "db_usage claimed_db = []" by (simp add: claimed_db_eq sample_db_eq empty_db_def)
  show ?thesis
    using claimed_get kind
    by (simp add: record_llm_usage_def sample_usage_def seq_apply resolve_task_def dec_zero_def
        append_event_simp insert_usage_def round_micros_def fits_int4_def refresh_usage_rollup_def
        usage_total_def usage_of_def nousage record_cost_ceiling_def task_get_upd update_task_simp
        Let_def)
       (simp add: add_event_def new_event_def task_get_def upd_task_def row_get_upd rollup_row_def)
qed

lemma usage_adds_to_totals_witness:
  "\<exists>d' t t'. task_get 7 claimed_db = Some t \<and> task_get 7 d' = Some t' \<and>
     t_total_input_tokens t' = t_total_input_tokens t + 10 \<and>
     t_total_cost t' = t_total_cost t + 3"
proof -
  obtain u d' where run: "record_llm_usage 7 sample_usage claimed_db = (Inr u, d')"
    using sample_usage_recorded by blast
  have "to_micros (Dec False 25 (- 7)) = Inr 3" by (simp add: round_micros_def)
  moreover obtain t t' cost where "task_get 7 claimed_db = Some t" "task_get 7 d' = Some t'"
    "coerce_decimal (ua_cost sample_usage) = Inr cost" "to_micros cost = Inr (u_cost u)"
    "t_total_input_tokens t' = t_total_input_tokens t + ua_input_tokens sample_usage"
    "t_total_cost t' = t_total_cost t + u_cost u"
    using usage_adds_to_totals [OF claimed_core_ok run] by blast
  ultimately show ?thesis
    by (intro exI [of _ d'] exI [of _ t] exI [of _ t'])
       (simp add: sample_usage_def del: to_micros.simps)
qed

text \<open>A task's ceiling is reported at most once: after it has been, recording it again
  changes nothing, neither the log nor a schedule, in any later state.\<close>

theorem ceiling_reported_once:
  assumes "ceiling_recorded tid d" and "moves d d'"
  shows "snd (record_cost_ceiling tid d') = d'"
proof -
  obtain es where "events_of tid d' = events_of tid d @ es"
    using log_grows_moves [OF assms(2)] unfolding event_log.grows_def by blast
  then have "ceiling_recorded tid d'" using assms(1) by (simp add: ceiling_recorded_def)
  then show ?thesis
    by (auto simp: record_cost_ceiling_def seq_apply resolve_task_def Let_def
        split: option.split sum.split)
qed

lemma ceiling_reported_once_witness:
  "snd (record_cost_ceiling 7 (add_event 7 Log [(''message'', JStr ceiling_message)] claimed_db)) =
     add_event 7 Log [(''message'', JStr ceiling_message)] claimed_db"
proof -
  have "ceiling_recorded 7 (add_event 7 Log [(''message'', JStr ceiling_message)] claimed_db)"
    by (simp add: ceiling_recorded_def events_of_add)
  from ceiling_reported_once [OF this moves_refl] show ?thesis .
qed

text \<open>When the cost of a scheduled task passes its planned ceiling for the first time, its
  active schedule is paused, with the task and the amounts in its metadata, and the event
  that says so is appended to the task's log.\<close>

theorem ceiling_pauses_schedule:
  assumes "task_get tid d = Some t" and "t_identity_kind t = Some ''scheduled''"
    and "optional_decimal (jget (t_identity_payload t) ''planned_cost_ceiling_usd'') = Some ceil"
    and "dec_le ceil dec_zero = Inr False" and "dec_le (of_micros (t_total_cost t)) ceil = Inr False"
    and "\<not> ceiling_recorded tid d"
    and "optional_uuid (jget (t_identity_payload t) ''schedule_id'') = Some sid"
    and "schedule_get sid d = Some s" and "s_status s = ''active''"
  shows "\<exists>p s'. record_cost_ceiling tid d = (Inr (), snd (record_cost_ceiling tid d)) \<and>
    events_of tid (snd (record_cost_ceiling tid d)) =
      events_of tid d @ [new_event tid Log p d] \<and>
    jget p ''message'' = JStr ceiling_message \<and> jget p ''schedule_paused'' = JBool True \<and>
    schedule_get sid (snd (record_cost_ceiling tid d)) = Some s' \<and> s_status s' = ''paused'' \<and>
    jget (s_metadata s') ''last_budget_task_id'' = JStr (uuid_str tid)"
proof -
  let ?d1 = "d\<lparr>db_schedules := row_upd s_id sid (paused_row tid (db_now d) ceil
      (of_micros (t_total_cost t))) (db_schedules d)\<rparr>"
  have pause: "pause_schedule (Some sid) tid ceil (of_micros (t_total_cost t)) d =
      (Inr (Some ''active'', True), ?d1)"
    using assms(8,9) by (simp add: pause_schedule_def seq_apply)
  have get1: "task_get tid ?d1 = Some t" using assms(1) by (simp add: task_get_def)
  have ev: "new_event tid Log p ?d1 = new_event tid Log p d" "events_of tid ?d1 = events_of tid d" for p
    by (simp_all add: new_event_def next_event_seq_def events_of_def)
  have sch: "schedule_get sid ?d1 = Some (paused_row tid (db_now d) ceil (of_micros (t_total_cost t)) s)"
    using assms(8) by (simp add: schedule_get_def row_get_upd paused_row_def)
  have sch': "schedule_get sid (add_event tid Log p ?d1) = schedule_get sid ?d1" for p
    by (simp add: schedule_get_def)
  define p where "p = [(''message'', JStr ceiling_message), (''behavior'', JStr ''pause_future_runs''),
      (''cost_ceiling_usd'', JStr (dec_str ceil)),
      (''cumulative_cost_usd'', JStr (dec_str (of_micros (t_total_cost t)))),
      (''schedule_id'', jopt_str (Some (uuid_str sid))),
      (''schedule_status_before'', jopt_str (Some ''active'')), (''schedule_paused'', JBool True)]"
  have p: "record_cost_ceiling tid d = (Inr (), add_event tid Log p ?d1)"
    "jget p ''message'' = JStr ceiling_message" "jget p ''schedule_paused'' = JBool True"
    using assms(1-7)
    by (simp_all add: p_def record_cost_ceiling_def seq_apply resolve_task_def Let_def pause
        append_event_simp [OF get1])
  show ?thesis
    by (rule exI [of _ p], rule exI [of _ "paused_row tid (db_now d) ceil (of_micros (t_total_cost t)) s"])
       (simp add: p events_of_add ev sch sch', simp add: paused_row_def jmerge_def)
qed

definition budget_task :: task where
  "budget_task = sample_row
     \<lparr>t_identity_kind := Some ''scheduled'', t_total_cost := 1500000,
      t_identity_payload := [(''planned_cost_ceiling_usd'', JStr ''1.25''),
        (''schedule_id'', JStr ''00000000-0000-0000-0000-00000000002a'')]\<rparr>"

definition budget_schedule :: schedule where
  "budget_schedule = \<lparr>s_id = 42, s_installation = 1, s_owner_type = ''system'',
     s_owner_user = None, s_title = ''digest'', s_spec_kind = ''interval'', s_cron_expr = None,
     s_interval_seconds = Some 3600, s_run_at = None, s_timezone = ''UTC'', s_next_run_at = None,
     s_last_run_at = None, s_catchup_policy = ''skip'', s_catchup_window = None,
     s_overlap_policy = ''skip'', s_status = ''active'', s_task_template = [],
     s_delivery_kind = ''slack_channel'', s_delivery_user = None, s_delivery_channel = Some ''C1'',
     s_delivery_thread_ts = None, s_artifact_policy = ''message_only'',
     s_cost_ceiling = Some 12500, s_key_template = None, s_created_by = None, s_metadata = [],
     s_created_at = 0, s_updated_at = 0\<rparr>"

definition budget_db :: db where
  "budget_db = empty_db\<lparr>db_tasks := [budget_task], db_schedules := [budget_schedule]\<rparr>"

lemma budget_parsed:
  "optional_decimal (JStr ''1.25'') = Some (Dec False 125 (- 2))"
  "optional_uuid (JStr ''00000000-0000-0000-0000-00000000002a'') = Some 42"
  by code_simp+

lemma ceiling_pauses_schedule_witness:
  "\<exists>s'. schedule_get 42 (snd (record_cost_ceiling 7 budget_db)) = Some s' \<and> s_status s' = ''paused''"
proof -
  have 1: "task_get 7 budget_db = Some budget_task"
    by (simp add: task_get_def budget_db_def) (simp add: budget_task_def sample_row_def)
  have 2: "t_identity_kind budget_task = Some ''scheduled''" by (simp add: budget_task_def)
  have 3: "optional_decimal (jget (t_identity_payload budget_task) ''planned_cost_ceiling_usd'') =
      Some (Dec False 125 (- 2))"
    by (simp add: budget_task_def budget_parsed)
  have 4: "dec_le (Dec False 125 (- 2)) dec_zero = Inr False"
    "dec_le (of_micros (t_total_cost budget_task)) (Dec False 125 (- 2)) = Inr False"
    by (simp_all add: dec_zero_def of_micros_def budget_task_def)
  have 5: "\<not> ceiling_recorded 7 budget_db"
    by (simp add: ceiling_recorded_def budget_db_def events_of_def)
  have 6: "optional_uuid (jget (t_identity_payload budget_task) ''schedule_id'') = Some 42"
    by (simp add: budget_task_def budget_parsed)
  have 7: "schedule_get 42 budget_db = Some budget_schedule" "s_status budget_schedule = ''active''"
    by (simp_all add: schedule_get_def budget_db_def budget_schedule_def)
  from ceiling_pauses_schedule [OF 1 2 3 4 5 6 7] show ?thesis by blast
qed

section \<open>The worker\<close>

lemma scan_payloads_recovered:
  "scan_payloads ps (p, r, rs) = (p', r', rs') \<Longrightarrow>
    (p' \<longleftrightarrow> p \<or> (\<exists>x \<in> set ps. \<exists>m. jget x ''message'' = JStr m \<and>
       (m \<in> set partial_messages \<or> (m \<in> set completion_messages \<and> jget x ''partial'' = JBool True)))) \<and>
    (r' \<longleftrightarrow> r \<or> (\<exists>x \<in> set ps. \<exists>m. jget x ''message'' = JStr m \<and> m \<in> set recovery_messages))"
proof (induction ps arbitrary: p r rs)
  case Nil
  then show ?case by simp
next
  case (Cons x ps)
  have sep: "m \<in> set recovery_messages \<Longrightarrow>
      m \<notin> set partial_messages \<and> m \<notin> set completion_messages" for m
    by (auto simp: recovery_messages_def partial_messages_def completion_messages_def)
  show ?case
  proof (cases "json_str (jget x ''message'')")
    case None
    then have "\<not> jget x ''message'' = JStr m" for m by auto
    with None Cons show ?thesis by (auto split: option.splits)
  next
    case (Some m)
    then have "jget x ''message'' = JStr m" by simp
    with Some Cons.prems sep show ?thesis
      by (auto split: if_splits dest!: Cons.IH)
  qed
qed

text \<open>The routing label of a succeeded task: partial when some event says the budget ran
  out or the completion was partial, else recovered when some event reports a recovery or the
  task's attempts exceed one, else clean.\<close>

theorem routing_quality_spec:
  "fst (compute_routing_quality ''succeeded'' payloads n) =
    (if \<exists>x \<in> set payloads. \<exists>m. jget x ''message'' = JStr m \<and>
       (m = ''execution_budget_exceeded'' \<or>
        (m \<in> {''agent_completed'', ''adk_runtime_completed''} \<and> jget x ''partial'' = JBool True))
     then Partial
     else if n > 1 \<or> (\<exists>x \<in> set payloads. \<exists>m. jget x ''message'' = JStr m \<and> m \<in> set recovery_messages)
     then Recovered else Clean)"
proof -
  obtain p' r' rs' where scan: "scan_payloads payloads
      (False, n > 1, if n > 1 then [''retried''] else []) = (p', r', rs')"
    by (cases "scan_payloads payloads (False, n > 1, if n > 1 then [''retried''] else [])")
  show ?thesis
    using scan_payloads_recovered [OF scan] scan
    by (simp add: compute_routing_quality_def partial_messages_def completion_messages_def)
qed

text \<open>A task whose first run lost its lease and whose second run succeeded counts one
  attempt and is labelled clean with the full score, although it needed a retry: the counter
  starts at zero, the label's threshold is one.\<close>

theorem one_crash_is_clean:
  "t_attempts (requeue_row at (crash_row at (new_task tid rq ident now))) = 1 \<and>
   compute_routing_quality (status_value Succeeded) []
     (t_attempts (requeue_row at (crash_row at (new_task tid rq ident now)))) = (Clean, [])"
  using requeued_row [of at "new_task tid rq ident now"]
  by (simp add: new_task_def compute_routing_quality_def)

lemma record_routing_quality_eq:
  assumes "task_get tid d = Some t"
  shows "\<exists>q p. record_routing_quality tid d =
    (Inr (), add_event tid Log p (upd_task tid (quality_row q) d))"
proof -
  obtain q reasons where "compute_routing_quality (status_value (t_status t))
      (map e_payload (events_of tid d)) (t_attempts t) = (q, reasons)"
    by (cases "compute_routing_quality (status_value (t_status t))
      (map e_payload (events_of tid d)) (t_attempts t)")
  with assms show ?thesis
    by (intro exI [of _ q]) (simp add: record_routing_quality_def catching_def seq_apply
        resolve_task_def update_task_simp append_event_simp task_get_upd, intro exI, rule refl)
qed

lemma finish_returned_tasks:
  assumes t: "task_get tid d = Some t" and st: "t_status t \<noteq> Waiting_Approval"
    and run: "finish_returned tid w s d = (r, d')"
  shows "r = Inr (Ended Succeeded) \<and> (\<exists>t'. task_get tid d' = Some t' \<and> t_status t' = Succeeded \<and>
    t_locked_by t' = None \<and> t_lease_expires_at t' = None \<and> t_result_summary t' = Some s)"
proof -
  let ?f = "\<lambda>r. (worker_clear_lease (db_now d) r)\<lparr>t_result_summary := Some s, t_error := None\<rparr>"
  have keep: "t_id (?f x) = t_id x" for x by (simp add: worker_clear_lease_def clear_task_lease_def)
  let ?d1 = "add_event tid Log (worker_log ''task_executor_completed'' w) (upd_task tid ?f d)"
  have get1: "task_get tid ?d1 = Some (?f t)" using t keep by (simp add: task_get_upd)
  let ?d2 = "add_event tid Status_Changed (from_to (t_status t) Succeeded)
      (upd_task tid (transition_row (db_now d) Succeeded) ?d1)"
  have tr: "transition (t_status t) tid (status_value Succeeded) ?d1 =
      (Inr (transition_row (db_now d) Succeeded (?f t)), ?d2)"
    using transition_eq [OF get1 parse_status_value [of Succeeded]]
    by (simp del: status_value.simps)
  have get2: "task_get tid ?d2 = Some (transition_row (db_now d) Succeeded (?f t))"
    by (simp add: task_get_upd t keep)
  obtain q p where qual: "record_routing_quality tid ?d2 =
      (Inr (), add_event tid Log p (upd_task tid (quality_row q) ?d2))"
    using record_routing_quality_eq [OF get2] by blast
  have run': "finish_returned tid w s d = seq (transition (t_status t) tid (status_value Succeeded))
      (\<lambda>_. seq (record_routing_quality tid) (\<lambda>_. returning (Ended Succeeded))) ?d1"
    using t st keep
    by (simp add: finish_returned_def seq_apply resolve_task_def update_task_simp
        append_event_simp task_get_upd)
  then have "finish_returned tid w s d =
      (Inr (Ended Succeeded), add_event tid Log p (upd_task tid (quality_row q) ?d2))"
    using tr qual by (simp add: seq_apply del: status_value.simps)
  then have fin: "r = Inr (Ended Succeeded)"
    "d' = add_event tid Log p (upd_task tid (quality_row q) ?d2)" using run by simp_all
  have "task_get tid d' = Some (quality_row q (transition_row (db_now d) Succeeded (?f t)))"
    using get2 unfolding fin(2) by (simp only: store_frame task_get_upd worker_rows) simp
  then show ?thesis
    using fin(1) by (simp add: quality_row_def transition_row_def worker_clear_lease_def
        clear_task_lease_def)
qed

text \<open>C9. The worker writes its result without looking at the lease: a task that another
  worker has claimed in the meantime is marked succeeded with the late worker's summary, and
  the other worker's lease is gone.\<close>

theorem late_worker_overwrites_lease:
  assumes "task_get tid d = Some t" and "t_status t = Running"
    and "t_locked_by t = Some other" and "other \<noteq> late"
  shows "\<exists>d' t'. finish_returned tid late summary d = (Inr (Ended Succeeded), d') \<and>
    task_get tid d' = Some t' \<and> t_status t' = Succeeded \<and> t_locked_by t' = None \<and>
    t_result_summary t' = Some summary"
  using finish_returned_tasks [OF assms(1) _ surjective_pairing, of late summary] assms(2)
  by (metis prod.collapse task_status.distinct(13))

lemma late_worker_overwrites_lease_witness:
  "\<exists>d' t'. finish_returned 7 ''w0'' ''done'' claimed_db = (Inr (Ended Succeeded), d') \<and>
    task_get 7 d' = Some t' \<and> t_status t' = Succeeded \<and> t_locked_by t' = None"
proof -
  let ?t = "claim_row ''w1'' 0 (seconds 300) sample_row"
  have "t_status ?t = Running" "t_locked_by ?t = Some ''w1''" "''w1'' \<noteq> ''w0''"
    by (simp_all add: claim_row_def)
  from late_worker_overwrites_lease [OF claimed_get this] show ?thesis by blast
qed

text \<open>C10. A whole poll cycle of a worker, sweep, claim, run and outcome, keeps every
  invariant of the task tables, whatever its executor raises or returns, as long as the
  executor itself changes them only through the operations of the task core.\<close>

theorem worker_cycle_refines:
  assumes "\<And>tid. core.tracks (executor tid)" and "\<And>d. core_ok d \<Longrightarrow> moves d (mid d)"
    and "core_ok d" and "run_once describe executor mid w l now d = (r, d')"
  shows "moves d d' \<and> core_ok d'"
  using core.tracksD [OF tracks_run_once [OF assms(1,2)] assms(3,4)]
    core_ok_moves [OF _ assms(3)] by blast

lemma worker_cycle_refines_witness:
  "core_ok (snd (run_once (\<lambda>e. (''E'', ''m'')) (\<lambda>tid. raising (ValueError ''boom'')) id ''w1'' 5 None
     sample_db))"
proof -
  have ex: "core.tracks (raising (ValueError ''boom'') :: (db, string) op)" by simp
  have mid: "moves d (id d)" for d by simp
  obtain r d' where run: "run_once (\<lambda>e. (''E'', ''m'')) (\<lambda>tid. raising (ValueError ''boom'')) id
      ''w1'' 5 None sample_db = (r, d')"
    by (cases "run_once (\<lambda>e. (''E'', ''m'')) (\<lambda>tid. raising (ValueError ''boom'')) id
      ''w1'' 5 None sample_db")
  from worker_cycle_refines [OF ex mid sample_core_ok run] run show ?thesis by simp
qed

end
