(* ===== verification/Task_Liveness.thy ===== *)
theory Task_Liveness
  imports Task_Properties
begin

text \<open>
  Progress of the queue: a due task is claimed after at most as many claims as there are due
  tasks, since each claim takes the task that is due longest.
\<close>

fun claims :: "string \<Rightarrow> int \<Rightarrow> py_datetime option \<Rightarrow> nat \<Rightarrow> db \<Rightarrow> db" where
  "claims w l now 0 d = d"
| "claims w l now (Suc n) d = claims w l now n (snd (claim_next w l now d))"

lemma length_filter_map_less:
  assumes "\<And>x. x \<in> set xs \<Longrightarrow> Q (f x) \<Longrightarrow> P x" and "y \<in> set xs" and "P y" and "\<not> Q (f y)"
  shows "length (filter Q (map f xs)) < length (filter P xs)"
proof -
  have le: "length (filter Q (map f ys)) \<le> length (filter P ys)" if "set ys \<subseteq> set xs" for ys
    using that assms(1) by (induction ys) auto
  obtain us vs where xs: "xs = us @ y # vs" using split_list [OF assms(2)] by blast
  have "length (filter Q (map f us)) \<le> length (filter P us)"
    "length (filter Q (map f vs)) \<le> length (filter P vs)"
    using le [of us] le [of vs] by (simp_all add: xs subset_iff)
  with assms(3,4) show ?thesis by (simp add: xs)
qed

lemma claimable_shrinks:
  assumes ok: "core_ok d" and head: "claimable at d = t # ts"
  shows "length (claimable at (upd_task (t_id t) (claim_row w at l) d)) < length (claimable at d)"
proof -
  let ?f = "\<lambda>r. if t_id r = t_id t then claim_row w at l r else r"
  let ?P = "\<lambda>t. t_status t = Pending \<and> t_available_at t \<le> at \<and> t_id t \<notin> set (db_row_locks d)"
  note t = claimable_in [OF head]
  have "length (filter ?P (map ?f (db_tasks d))) < length (filter ?P (db_tasks d))"
  proof (rule length_filter_map_less)
    show "t \<in> set (db_tasks d)" "?P t" "\<not> ?P (?f t)"
      using t by (auto simp: claim_row_def)
    show "?P x" if "?P (?f x)" for x
      using that by (cases "t_id x = t_id t") (auto simp: claim_row_def)
  qed
  then show ?thesis by (simp add: claimable_def upd_task_def row_upd_def)
qed

lemma claimed_within:
  assumes "core_ok d" and "task_get tid d = Some t" and "t_status t = Pending"
    and "t_available_at t \<le> coerce_utc (Some (Aware at)) d" and "tid \<notin> set (db_row_locks d)"
  shows "\<exists>n \<le> length (claimable at d).
    task_get tid (claims w l (Some (Aware at)) n d) = Some (claim_row w at l t)"
  using assms
proof (induction "length (claimable at d)" arbitrary: d rule: less_induct)
  case less
  have at: "coerce_utc (Some (Aware at)) x = at" for x :: db by (simp add: coerce_utc_def)
  have key: "t_id t = tid" and mem: "t \<in> set (db_tasks d)"
    using less.prems(2) by (auto simp: task_get_def dest: row_get_Some)
  show ?case
  proof (cases "claimable at d")
    case Nil
    then show ?thesis
      using claimable_empty [of at d] less.prems mem key by (auto simp: at)
  next
    case (Cons u us)
    let ?d' = "snd (claim_next w l (Some (Aware at)) d)"
    have d': "?d' = add_event (t_id u) Status_Changed (claimed_payload w at l)
        (upd_task (t_id u) (claim_row w at l) d)"
      using claim_next_eq [OF core_okD(2) [OF less.prems(1)], of w l "Some (Aware at)"] Cons
      by (simp add: at)
    show ?thesis
    proof (cases "t_id u = tid")
      case True
      then have "task_get tid ?d' = Some (claim_row w at l t)"
        using less.prems(2) by (simp add: d' task_get_upd)
      then show ?thesis using Cons by (intro exI [of _ "Suc 0"]) simp
    next
      case False
      have shrink: "length (claimable at ?d') < length (claimable at d)"
      proof -
        have "claimable at ?d' = claimable at (upd_task (t_id u) (claim_row w at l) d)"
          by (simp add: d' claimable_def)
        then show ?thesis using claimable_shrinks [OF less.prems(1) Cons] by simp
      qed
      have ok: "core_ok ?d'"
        using core_ok_moves [OF claim_next_moves [OF surjective_pairing less.prems(1)] less.prems(1)] .
      have get: "task_get tid ?d' = Some t"
        using less.prems(2) False by (simp add: d' task_get_upd)
      have locks: "tid \<notin> set (db_row_locks ?d')" using less.prems(5) by (simp add: d')
      obtain n where "n \<le> length (claimable at ?d')"
        "task_get tid (claims w l (Some (Aware at)) n ?d') = Some (claim_row w at l t)"
        using less.hyps [OF shrink ok get less.prems(3) _ locks] less.prems(4) by (auto simp: at)
      then show ?thesis using shrink by (intro exI [of _ "Suc n"]) simp
    qed
  qed
qed

text \<open>C39. No due task starves: a pending task that is due and not locked is running under the
  claiming worker's lease after at most as many claims as there are due tasks.\<close>

theorem due_task_is_claimed:
  assumes "core_ok d" and "task_get tid d = Some t" and "t_status t = Pending"
    and "t_available_at t \<le> at" and "tid \<notin> set (db_row_locks d)"
  shows "\<exists>n \<le> length (claimable at d).
    task_get tid (claims w l (Some (Aware at)) n d) = Some (claim_row w at l t)"
  by (rule claimed_within [OF assms(1-3) _ assms(5)]) (simp add: coerce_utc_def assms(4))

lemma due_task_is_claimed_witness:
  "\<exists>n \<le> 1. task_get 7 (claims ''w1'' 300 (Some (Aware 0)) n sample_db) =
     Some (claim_row ''w1'' 0 300 sample_row)"
proof -
  have row: "t_status sample_row = Pending" "t_available_at sample_row \<le> 0"
    by (simp_all add: sample_row_def) (simp_all add: new_task_def)
  have one: "length (claimable 0 sample_db) \<le> 1"
    by (simp add: claimable_def sample_db_eq)
  have free: "7 \<notin> set (db_row_locks sample_db)" by (simp add: sample_db_eq)
  from due_task_is_claimed [OF sample_core_ok sample_get row free, of "''w1''" 300] one
  show ?thesis by (meson le_trans)
qed

end
