(* ===== verification/Tool_Catalog.thy ===== *)
theory Tool_Catalog
  imports Py_Numbers
begin

text \<open>
  \<open>kortny/tools/catalog.py\<close> and the policy records of \<open>kortny/execution/sandbox.py\<close>: what
  Kortny knows statically about each native tool, the derived name sets the approval policy
  is built from, and the descriptors shown at run time.

  The metadata table is written out entry by entry in the order of the source; a CPU limit is
  in thousandths of a core. \<open>settings\<close> maps an attribute name of the loaded settings to its
  value.
\<close>

section \<open>Sandbox policies\<close>

datatype network_mode = Net_None | Net_Allowlist

fun network_value :: "network_mode \<Rightarrow> string" where
  "network_value Net_None = ''none''"
| "network_value Net_Allowlist = ''allowlist''"

record resource_limits =
  rl_millicpus :: int
  rl_memory_mb :: int
  rl_pids_limit :: int
  rl_timeout_seconds :: int

definition default_resource_limits :: resource_limits where
  "default_resource_limits =
     \<lparr>rl_millicpus = 1000, rl_memory_mb = 512, rl_pids_limit = 128, rl_timeout_seconds = 60\<rparr>"

text \<open>The checks of \<open>__post_init__\<close>, in their order.\<close>

definition check_limits :: "resource_limits \<Rightarrow> unit res" where
  "check_limits l =
     (if rl_millicpus l \<le> 0 then Inl (ValueError ''Sandbox CPU limit must be positive'')
      else if rl_memory_mb l \<le> 0 then Inl (ValueError ''Sandbox memory limit must be positive'')
      else if rl_pids_limit l \<le> 0 then Inl (ValueError ''Sandbox PID limit must be positive'')
      else if rl_timeout_seconds l \<le> 0 then Inl (ValueError ''Sandbox timeout must be positive'')
      else Inr ())"

text \<open>The \<open>repr\<close> of a number of thousandths as a float.\<close>

definition milli_repr :: "int \<Rightarrow> string" where
  "milli_repr m =
     (let frac = pad_left 3 (nat_str (nat (m mod 1000)));
          trimmed = rev (dropWhile (\<lambda>c. c = CHR ''0'') (rev frac))
      in int_str (m div 1000) @ ''.'' @ (if trimmed = [] then ''0'' else trimmed))"

definition limits_payload :: "resource_limits \<Rightarrow> jobj" where
  "limits_payload l =
     [(''cpus'', JFloat (milli_repr (rl_millicpus l))), (''memory_mb'', JInt (rl_memory_mb l)),
      (''pids_limit'', JInt (rl_pids_limit l)), (''timeout_seconds'', JInt (rl_timeout_seconds l))]"

record sandbox_policy =
  sp_requires_sandbox :: bool
  sp_profile :: string
  sp_network :: network_mode
  sp_egress_allowlist :: "string list"
  sp_limits :: resource_limits
  sp_reason :: string

definition default_sandbox_policy :: sandbox_policy where
  "default_sandbox_policy =
     \<lparr>sp_requires_sandbox = False, sp_profile = ''default'', sp_network = Net_None,
      sp_egress_allowlist = [], sp_limits = default_resource_limits, sp_reason = []\<rparr>"

definition check_policy :: "sandbox_policy \<Rightarrow> unit res" where
  "check_policy p =
     (if \<not> non_blank (sp_profile p) then Inl (ValueError ''Sandbox profile is required'')
      else if sp_network p = Net_Allowlist \<and> sp_egress_allowlist p = []
      then Inl (ValueError ''Sandbox allowlist network requires egress hosts'')
      else Inr ())"

definition policy_payload :: "sandbox_policy \<Rightarrow> jobj" where
  "policy_payload p =
     [(''requires_sandbox'', JBool (sp_requires_sandbox p)), (''profile'', JStr (sp_profile p)),
      (''network'', JStr (network_value (sp_network p))),
      (''egress_allowlist'', JArr (map JStr (sp_egress_allowlist p))),
      (''resource_limits'', JObj (limits_payload (sp_limits p))), (''reason'', JStr (sp_reason p))]"

section \<open>Tool metadata\<close>

datatype side_effect = Read | Write | Destructive

datatype approval_class = No_Approval | Self_Gated | User_Approval | Admin_Approval

fun side_effect_value :: "side_effect \<Rightarrow> string" where
  "side_effect_value Read = ''read''"
| "side_effect_value Write = ''write''"
| "side_effect_value Destructive = ''destructive''"

fun approval_value :: "approval_class \<Rightarrow> string" where
  "approval_value No_Approval = ''none''"
| "approval_value Self_Gated = ''self_gated''"
| "approval_value User_Approval = ''user_approval''"
| "approval_value Admin_Approval = ''admin_approval''"

definition sandbox_timeout_margin_seconds :: int where
  "sandbox_timeout_margin_seconds = 30"

record tool_metadata =
  tm_name :: string
  tm_namespace :: string
  tm_category :: string
  tm_display_name :: string
  tm_capabilities :: "string list"
  tm_side_effect :: side_effect
  tm_integration :: string
  tm_approval :: approval_class
  tm_timeout_seconds :: int
  tm_runtime_registered :: bool
  tm_dashboard_exposed :: bool
  tm_context_hint :: bool
  tm_required_env_vars :: "string list"
  tm_required_slack_scopes :: "string list"
  tm_plan_gates :: "string list"
  tm_result_budget :: string
  tm_notes :: "string list"
  tm_can_replace_native_tools :: "string list"
  tm_sandbox :: sandbox_policy

text \<open>The constructor with the defaults of the dataclass.\<close>

definition tool_metadata_of ::
  "string \<Rightarrow> string \<Rightarrow> string \<Rightarrow> string \<Rightarrow> string list \<Rightarrow> side_effect \<Rightarrow> tool_metadata" where
  "tool_metadata_of name namespace category display caps effect =
     \<lparr>tm_name = name, tm_namespace = namespace, tm_category = category,
      tm_display_name = display, tm_capabilities = caps, tm_side_effect = effect,
      tm_integration = [], tm_approval = No_Approval, tm_timeout_seconds = 60,
      tm_runtime_registered = True, tm_dashboard_exposed = True, tm_context_hint = False,
      tm_required_env_vars = [], tm_required_slack_scopes = [], tm_plan_gates = [],
      tm_result_budget = ''normal'', tm_notes = [], tm_can_replace_native_tools = [],
      tm_sandbox = default_sandbox_policy\<rparr>"

definition workbench_sandbox_policy :: sandbox_policy where
  "workbench_sandbox_policy =
     \<lparr>sp_requires_sandbox = True, sp_profile = ''workbench'', sp_network = Net_None,
      sp_egress_allowlist = [],
      sp_limits = \<lparr>rl_millicpus = 2000, rl_memory_mb = 2048, rl_pids_limit = 512,
                   rl_timeout_seconds = 300\<rparr>,
      sp_reason = ''Workbench commands run in the task's persistent sandbox session.''\<rparr>"

definition workbench_timeout_seconds :: int where
  "workbench_timeout_seconds =
     rl_timeout_seconds (sp_limits workbench_sandbox_policy) + sandbox_timeout_margin_seconds"

section \<open>The native tools\<close>

text \<open>The retrieval tool and the browser.\<close>

definition native_browser_tools :: "tool_metadata list" where
  "native_browser_tools =
    [(tool_metadata_of ''find_tools'' ''native.meta'' ''Runtime'' ''Find tools''
       [''tool_retrieval'', ''capability_lookup''] Read)
       \<lparr>tm_approval := No_Approval,
         tm_runtime_registered := False,
         tm_result_budget := ''bounded_results'',
         tm_notes := [''Agent-driven tool retrieval; loads external tools on demand.'']\<rparr>,
     (tool_metadata_of ''browser_navigate'' ''native.browser'' ''Browser'' ''Browser navigate''
       [''browser_navigate'', ''web_browse''] Read)
       \<lparr>tm_approval := No_Approval,
         tm_timeout_seconds := 60,
         tm_runtime_registered := False,
         tm_required_env_vars := [''KORTNY_BROWSER_URL''],
         tm_plan_gates := [''external_network''],
         tm_result_budget := ''small_lookup'',
         tm_notes := [''Navigates the browser to a URL via Playwright-MCP.'']\<rparr>,
     (tool_metadata_of ''browser_snapshot'' ''native.browser'' ''Browser'' ''Browser snapshot''
       [''browser_snapshot'', ''web_browse'', ''page_extraction''] Read)
       \<lparr>tm_approval := No_Approval,
         tm_timeout_seconds := 60,
         tm_runtime_registered := False,
         tm_required_env_vars := [''KORTNY_BROWSER_URL''],
         tm_plan_gates := [''external_network''],
         tm_result_budget := ''large_text_compaction'',
         tm_notes := [''Returns the accessibility-tree snapshot of the current page; use element refs from this to click/type.'']\<rparr>,
     (tool_metadata_of ''browser_click'' ''native.browser'' ''Browser'' ''Browser click''
       [''browser_interact'', ''web_browse''] Write)
       \<lparr>tm_approval := Self_Gated,
         tm_timeout_seconds := 60,
         tm_runtime_registered := False,
         tm_required_env_vars := [''KORTNY_BROWSER_URL''],
         tm_plan_gates := [''external_network''],
         tm_result_budget := ''normal'',
         tm_notes := [''Clicks a browser element by ref from a snapshot. May trigger page navigation or form submission.'']\<rparr>,
     (tool_metadata_of ''browser_type'' ''native.browser'' ''Browser'' ''Browser type''
       [''browser_interact'', ''web_browse''] Write)
       \<lparr>tm_approval := Self_Gated,
         tm_timeout_seconds := 60,
         tm_runtime_registered := False,
         tm_required_env_vars := [''KORTNY_BROWSER_URL''],
         tm_plan_gates := [''external_network''],
         tm_result_budget := ''normal'',
         tm_notes := [''Types text into a browser element by ref from a snapshot. Set submit=true to press Enter after typing.'']\<rparr>,
     (tool_metadata_of ''browser_take_screenshot'' ''native.browser'' ''Browser'' ''Browser screenshot''
       [''browser_screenshot'', ''web_browse''] Read)
       \<lparr>tm_approval := No_Approval,
         tm_timeout_seconds := 60,
         tm_runtime_registered := False,
         tm_required_env_vars := [''KORTNY_BROWSER_URL''],
         tm_plan_gates := [''external_network''],
         tm_result_budget := ''normal'',
         tm_notes := [''Takes a screenshot of the current browser page.'']\<rparr>,
     (tool_metadata_of ''browser_wait_for'' ''native.browser'' ''Browser'' ''Browser wait''
       [''browser_wait'', ''web_browse''] Read)
       \<lparr>tm_approval := No_Approval,
         tm_timeout_seconds := 120,
         tm_runtime_registered := False,
         tm_required_env_vars := [''KORTNY_BROWSER_URL''],
         tm_plan_gates := [''external_network''],
         tm_result_budget := ''normal'',
         tm_notes := [''Waits for text to appear on the page or for a time duration.'']\<rparr>,
     (tool_metadata_of ''browser_navigate_back'' ''native.browser'' ''Browser'' ''Browser navigate back''
       [''browser_navigate'', ''web_browse''] Read)
       \<lparr>tm_approval := No_Approval,
         tm_timeout_seconds := 30,
         tm_runtime_registered := False,
         tm_required_env_vars := [''KORTNY_BROWSER_URL''],
         tm_plan_gates := [''external_network''],
         tm_result_budget := ''small_lookup'',
         tm_notes := [''Navigates the browser back to the previous page.'']\<rparr>]"

text \<open>Web search and the Slack readers.\<close>

definition native_slack_context_tools :: "tool_metadata list" where
  "native_slack_context_tools =
    [(tool_metadata_of ''web_search'' ''native.research'' ''Research'' ''Web search''
       [''web_search'', ''current_research''] Read)
       \<lparr>tm_timeout_seconds := 20,
         tm_required_env_vars := [''BRAVE_SEARCH_API_KEY''],
         tm_plan_gates := [''external_network''],
         tm_result_budget := ''bounded_results'',
         tm_notes := [''Uses Brave Search when configured.'']\<rparr>,
     (tool_metadata_of ''slack_channel_history'' ''native.slack'' ''Slack context'' ''Slack channel history''
       [''slack_context'', ''channel_summary'', ''decision_recall''] Read)
       \<lparr>tm_required_env_vars := [''SLACK_BOT_TOKEN''],
         tm_required_slack_scopes := [''channels:history'', ''groups:history'', ''im:history'', ''mpim:history''],
         tm_context_hint := True,
         tm_plan_gates := [''slack_rate_limited''],
         tm_result_budget := ''history_window'',
         tm_notes := [''Uses observed local cache first when available.'']\<rparr>,
     (tool_metadata_of ''search_observed_slack_history'' ''native.slack'' ''Slack context'' ''Search observed Slack history''
       [''slack_context'', ''observed_history_search'', ''decision_recall'', ''channel_memory''] Read)
       \<lparr>tm_required_env_vars := [''POSTGRES_URL''],
         tm_context_hint := True,
         tm_plan_gates := [''scope_guarded_context''],
         tm_result_budget := ''bounded_results'',
         tm_notes := [''Searches Kortny's local observed Slack cache without Slack API calls.'']\<rparr>,
     (tool_metadata_of ''resolve_slack_identity'' ''native.slack'' ''Slack context'' ''Resolve Slack identity''
       [''slack_identity_resolution'', ''user_name_resolution'', ''channel_name_resolution'', ''slack_context''] Read)
       \<lparr>tm_timeout_seconds := 15,
         tm_required_env_vars := [''POSTGRES_URL''],
         tm_context_hint := True,
         tm_plan_gates := [''scope_guarded_context''],
         tm_result_budget := ''small_lookup'',
         tm_notes := [''Resolves cached Slack user and channel names without Slack API calls.'']\<rparr>,
     (tool_metadata_of ''slack_user_info'' ''native.slack'' ''Slack context'' ''Slack user info''
       [''slack_identity_resolution'', ''slack_user_info'', ''user_name_resolution''] Read)
       \<lparr>tm_required_env_vars := [''SLACK_BOT_TOKEN'', ''POSTGRES_URL''],
         tm_required_slack_scopes := [''users:read''],
         tm_context_hint := True,
         tm_plan_gates := [''slack_rate_limited'', ''identity_cache_refresh''],
         tm_result_budget := ''small_lookup'',
         tm_notes := [''Refreshes missing or stale user identity cache entries with Slack users.info.'']\<rparr>,
     (tool_metadata_of ''slack_channel_info'' ''native.slack'' ''Slack context'' ''Slack channel info''
       [''slack_identity_resolution'', ''slack_channel_info'', ''channel_name_resolution''] Read)
       \<lparr>tm_required_env_vars := [''SLACK_BOT_TOKEN'', ''POSTGRES_URL''],
         tm_required_slack_scopes := [''channels:read'', ''groups:read'', ''im:read'', ''mpim:read''],
         tm_context_hint := True,
         tm_plan_gates := [''slack_rate_limited'', ''current_channel_only'', ''identity_cache_refresh''],
         tm_result_budget := ''small_lookup'',
         tm_notes := [''Refreshes the current channel identity cache entry with Slack conversations.info.'']\<rparr>,
     (tool_metadata_of ''slack_reply_thread'' ''native.slack'' ''Slack actions'' ''Reply in Slack thread''
       [''slack_reply'', ''thread_reply'', ''slack_write''] Write)
       \<lparr>tm_approval := No_Approval,
         tm_required_env_vars := [''SLACK_BOT_TOKEN''],
         tm_required_slack_scopes := [''chat:write''],
         tm_plan_gates := [''current_thread_only''],
         tm_result_budget := ''visible_slack_message'',
         tm_notes := [''Scoped to the current task channel and thread.'', ''Do not use for ordinary final answers because the final response posts automatically.'']\<rparr>]"

text \<open>Slack reactions, canvases and files.\<close>

definition native_slack_action_tools :: "tool_metadata list" where
  "native_slack_action_tools =
    [(tool_metadata_of ''slack_add_reaction'' ''native.slack'' ''Slack actions'' ''Add Slack reaction''
       [''slack_reaction'', ''slack_acknowledgement'', ''slack_write''] Write)
       \<lparr>tm_approval := No_Approval,
         tm_required_env_vars := [''SLACK_BOT_TOKEN''],
         tm_required_slack_scopes := [''reactions:write''],
         tm_plan_gates := [''current_message_only''],
         tm_result_budget := ''small_action'',
         tm_notes := [''Scoped to the current triggering Slack message.'']\<rparr>,
     (tool_metadata_of ''slack_pin_message'' ''native.slack'' ''Slack actions'' ''Pin Slack message''
       [''slack_pin'', ''slack_write'', ''message_visibility''] Write)
       \<lparr>tm_approval := No_Approval,
         tm_required_env_vars := [''SLACK_BOT_TOKEN''],
         tm_required_slack_scopes := [''pins:write''],
         tm_plan_gates := [''current_message_only''],
         tm_result_budget := ''small_action'',
         tm_notes := [''Scoped to the current triggering Slack message.'']\<rparr>,
     (tool_metadata_of ''slack_add_bookmark'' ''native.slack'' ''Slack actions'' ''Add Slack bookmark''
       [''slack_bookmark'', ''slack_write'', ''channel_resource''] Write)
       \<lparr>tm_approval := No_Approval,
         tm_required_env_vars := [''SLACK_BOT_TOKEN''],
         tm_required_slack_scopes := [''bookmarks:write''],
         tm_plan_gates := [''current_channel_only'', ''link_bookmarks_only''],
         tm_result_budget := ''small_action'',
         tm_notes := [''Adds link bookmarks only, scoped to the current Slack channel.'']\<rparr>,
     (tool_metadata_of ''slack_create_channel_canvas'' ''native.slack'' ''Slack actions'' ''Create channel canvas''
       [''slack_canvas'', ''slack_canvas_create'', ''channel_documentation'', ''slack_write''] Write)
       \<lparr>tm_approval := No_Approval,
         tm_required_env_vars := [''SLACK_BOT_TOKEN''],
         tm_required_slack_scopes := [''canvases:write''],
         tm_plan_gates := [''current_channel_only'', ''no_dm_canvas'', ''markdown_canvas_only''],
         tm_result_budget := ''visible_channel_resource'',
         tm_notes := [''Creates the current Slack channel canvas only.'', ''Use when the user explicitly asks for a channel canvas or channel hub.'']\<rparr>,
     (tool_metadata_of ''slack_edit_canvas'' ''native.slack'' ''Slack actions'' ''Edit Slack canvas''
       [''slack_canvas'', ''slack_canvas_edit'', ''channel_documentation'', ''slack_write''] Write)
       \<lparr>tm_approval := No_Approval,
         tm_required_env_vars := [''SLACK_BOT_TOKEN''],
         tm_required_slack_scopes := [''canvases:write''],
         tm_plan_gates := [''one_canvas_change_per_call''],
         tm_result_budget := ''visible_channel_resource'',
         tm_notes := [''Edits a Slack canvas with one operation per call; defaults to the current channel canvas when no canvas_id is given.'', ''Supports append, insert, replace, and rename operations.'']\<rparr>,
     (tool_metadata_of ''slack_lookup_canvas_sections'' ''native.slack'' ''Slack context'' ''Lookup Slack canvas sections''
       [''slack_canvas'', ''slack_canvas_sections'', ''channel_documentation'', ''slack_context''] Read)
       \<lparr>tm_required_env_vars := [''SLACK_BOT_TOKEN''],
         tm_required_slack_scopes := [''canvases:read''],
         tm_context_hint := True,
         tm_plan_gates := [''criteria_required''],
         tm_result_budget := ''small_lookup'',
         tm_notes := [''Finds section IDs in a Slack canvas; defaults to the current channel canvas when no canvas_id is given.'', ''Use before targeted canvas edits when only a heading or phrase is known.'']\<rparr>,
     (tool_metadata_of ''slack_file_read'' ''native.slack'' ''Slack context'' ''Slack file reader''
       [''slack_file_read'', ''file_analysis''] Read)
       \<lparr>tm_required_env_vars := [''SLACK_BOT_TOKEN''],
         tm_required_slack_scopes := [''files:read''],
         tm_plan_gates := [''untrusted_file_input''],
         tm_result_budget := ''large_text_compaction'',
         tm_notes := [''Extracts text from supported Slack file attachments.'']\<rparr>]"

text \<open>Documents, code execution and the workbench files.\<close>

definition native_documents_tools :: "tool_metadata list" where
  "native_documents_tools =
    [(tool_metadata_of ''pdf_generator'' ''native.documents'' ''Documents'' ''PDF generator''
       [''document_generation'', ''artifact_generation''] Write)
       \<lparr>tm_approval := No_Approval,
         tm_timeout_seconds := 180,
         tm_result_budget := ''artifact'',
         tm_notes := [''Creates local task artifacts only when explicitly useful.'']\<rparr>,
     (tool_metadata_of ''document_studio'' ''native.documents'' ''Documents'' ''Document Studio''
       [''document_generation'', ''artifact_generation'', ''editorial_pdf'', ''presentation_generation'', ''word_document_generation''] Write)
       \<lparr>tm_approval := No_Approval,
         tm_timeout_seconds := 180,
         tm_result_budget := ''artifact'',
         tm_notes := [''Editorial-grade themed PDF, PowerPoint, or Word from one structured block IR. Preferred over pdf_generator for polished deliverables.'']\<rparr>,
     (tool_metadata_of ''code_exec'' ''native.execution'' ''Execution'' ''Code execution''
       [''sandboxed_code_execution'', ''python_execution''] Destructive)
       \<lparr>tm_approval := No_Approval,
         tm_timeout_seconds := 30 + sandbox_timeout_margin_seconds,
         tm_required_env_vars := [''KORTNY_SANDBOX_RUNNER_URL''],
         tm_plan_gates := [''sandbox_required'', ''network_disabled''],
         tm_result_budget := ''bounded_stdout'',
         tm_notes := [''Runs short Python snippets only through the isolated sandbox runner.'', ''No network, package installation, secrets, or host filesystem access.''],
         tm_sandbox := (default_sandbox_policy\<lparr>sp_requires_sandbox := True, sp_profile := ''code'', sp_network := Net_None,
         sp_limits := \<lparr>rl_millicpus = 1000, rl_memory_mb = 512, rl_pids_limit = 64, rl_timeout_seconds = 30\<rparr>,
         sp_reason := ''Untrusted code must run outside the worker process.''\<rparr>)\<rparr>,
     (tool_metadata_of ''sandbox_bash'' ''native.execution'' ''Execution'' ''Sandbox shell''
       [''sandboxed_code_execution'', ''shell_execution'', ''build_and_test''] Destructive)
       \<lparr>tm_approval := No_Approval,
         tm_timeout_seconds := workbench_timeout_seconds,
         tm_required_env_vars := [''KORTNY_SANDBOX_RUNNER_URL''],
         tm_plan_gates := [''sandbox_required'', ''network_disabled''],
         tm_result_budget := ''bounded_stdout'',
         tm_notes := [''Runs shell commands in the task's persistent sandbox workspace.'', ''Auto-approved: confined to the isolated per-task sandbox.''],
         tm_sandbox := workbench_sandbox_policy\<rparr>,
     (tool_metadata_of ''sandbox_write_file'' ''native.execution'' ''Execution'' ''Sandbox file writer''
       [''sandboxed_code_execution'', ''file_generation''] Write)
       \<lparr>tm_approval := No_Approval,
         tm_timeout_seconds := workbench_timeout_seconds,
         tm_required_env_vars := [''KORTNY_SANDBOX_RUNNER_URL''],
         tm_plan_gates := [''sandbox_required''],
         tm_result_budget := ''normal'',
         tm_notes := [''Writes files into the task's sandbox workspace.''],
         tm_sandbox := workbench_sandbox_policy\<rparr>,
     (tool_metadata_of ''sandbox_stage_file'' ''native.execution'' ''Execution'' ''Sandbox file staging''
       [''slack_file_staging'', ''document_editing'', ''sandbox_required''] Write)
       \<lparr>tm_approval := No_Approval,
         tm_timeout_seconds := workbench_timeout_seconds,
         tm_required_env_vars := [''KORTNY_SANDBOX_RUNNER_URL''],
         tm_plan_gates := [''sandbox_required''],
         tm_result_budget := ''normal'',
         tm_notes := [''Downloads a Slack file's binary bytes and stages them into the sandbox workspace.'', ''Binary-safe; size-capped at 5 MB. Use before editing uploaded docs with skill scripts.''],
         tm_sandbox := workbench_sandbox_policy\<rparr>,
     (tool_metadata_of ''sandbox_read_file'' ''native.execution'' ''Execution'' ''Sandbox file reader''
       [''sandboxed_code_execution'', ''file_inspection''] Read)
       \<lparr>tm_approval := No_Approval,
         tm_timeout_seconds := workbench_timeout_seconds,
         tm_required_env_vars := [''KORTNY_SANDBOX_RUNNER_URL''],
         tm_plan_gates := [''sandbox_required''],
         tm_result_budget := ''large_text_compaction'',
         tm_notes := [''Reads files from the task's sandbox workspace.''],
         tm_sandbox := workbench_sandbox_policy\<rparr>]"

text \<open>Workbench exports, deployment, memory and skills.\<close>

definition native_workbench_tools :: "tool_metadata list" where
  "native_workbench_tools =
    [(tool_metadata_of ''sandbox_export_artifact'' ''native.execution'' ''Execution'' ''Sandbox artifact export''
       [''sandboxed_code_execution'', ''artifact_generation''] Write)
       \<lparr>tm_approval := No_Approval,
         tm_timeout_seconds := workbench_timeout_seconds,
         tm_required_env_vars := [''KORTNY_SANDBOX_RUNNER_URL''],
         tm_plan_gates := [''sandbox_required''],
         tm_result_budget := ''artifact'',
         tm_notes := [''Exports sandbox files or zipped directories as task artifacts.''],
         tm_sandbox := workbench_sandbox_policy\<rparr>,
     (tool_metadata_of ''sandbox_publish_preview'' ''native.execution'' ''Execution'' ''Sandbox preview publisher''
       [''sandboxed_code_execution'', ''artifact_generation'', ''web_preview''] Write)
       \<lparr>tm_approval := No_Approval,
         tm_timeout_seconds := workbench_timeout_seconds,
         tm_required_env_vars := [''KORTNY_SANDBOX_RUNNER_URL'', ''KORTNY_ARTIFACTS_DIR'', ''KORTNY_PUBLIC_BASE_URL'', ''KORTNY_PREVIEW_SIGNING_SECRET''],
         tm_plan_gates := [''sandbox_required''],
         tm_result_budget := ''normal'',
         tm_notes := [''Publishes static sites from the sandbox at signed preview URLs.''],
         tm_sandbox := workbench_sandbox_policy\<rparr>,
     (tool_metadata_of ''deploy_site'' ''native.deploy'' ''Deployment'' ''Site deployer''
       [''site_deployment'', ''external_publishing''] Destructive)
       \<lparr>tm_approval := User_Approval,
         tm_timeout_seconds := 300,
         tm_plan_gates := [''explicit_user_request_required'', ''requester_approval_required'', ''external_network''],
         tm_result_budget := ''normal'',
         tm_notes := [''Deploys sandbox-built static sites to Netlify or Vercel from the trusted host; integration tokens never enter the sandbox.'']\<rparr>,
     (tool_metadata_of ''remember_fact'' ''native.memory'' ''Memory'' ''Remember fact''
       [''workspace_memory'', ''memory_write''] Write)
       \<lparr>tm_approval := Self_Gated,
         tm_required_env_vars := [''POSTGRES_URL''],
         tm_plan_gates := [''memory_confirmation''],
         tm_notes := [''Posts a Slack confirmation before saving durable memory.'']\<rparr>,
     (tool_metadata_of ''recall_fact'' ''native.memory'' ''Memory'' ''Recall fact''
       [''workspace_memory''] Read)
       \<lparr>tm_required_env_vars := [''POSTGRES_URL'']\<rparr>,
     (tool_metadata_of ''inspect_memory'' ''native.memory'' ''Memory'' ''Inspect memory''
       [''workspace_memory'', ''memory_provenance''] Read)
       \<lparr>tm_required_env_vars := [''POSTGRES_URL'']\<rparr>,
     (tool_metadata_of ''forget_fact'' ''native.memory'' ''Memory'' ''Forget fact''
       [''workspace_memory'', ''memory_delete''] Write)
       \<lparr>tm_approval := User_Approval,
         tm_required_env_vars := [''POSTGRES_URL''],
         tm_plan_gates := [''memory_mutation''],
         tm_notes := [''Uses audit-preserving soft delete.'']\<rparr>,
     (tool_metadata_of ''load_skill'' ''native.skills'' ''Skills'' ''Load skill''
       [''procedural_skills'', ''skill_instructions''] Read)
       \<lparr>tm_required_env_vars := [''POSTGRES_URL''],
         tm_notes := [''Loads full SKILL.md instructions for a skill enabled in the task's scope; records the invocation.'']\<rparr>,
     (tool_metadata_of ''load_skill_resource'' ''native.skills'' ''Skills'' ''Load skill resource''
       [''procedural_skills'', ''skill_resources''] Read)
       \<lparr>tm_required_env_vars := [''POSTGRES_URL''],
         tm_notes := [''Reads one bundled reference/asset/script file from an enabled skill. Scripts are viewable, never executed.'']\<rparr>,
     (tool_metadata_of ''run_skill_script'' ''native.skills'' ''Skills'' ''Run skill script''
       [''procedural_skills'', ''skill_script_execution''] Write)
       \<lparr>tm_approval := No_Approval,
         tm_timeout_seconds := workbench_timeout_seconds,
         tm_required_env_vars := [''POSTGRES_URL'', ''KORTNY_SANDBOX_RUNNER_URL''],
         tm_notes := [''Runs a bundled script from a trusted skill inside the task's sandbox; only skills at trust level 'trusted' are runnable. Trust tier is the gate and the sandbox bounds blast radius, so no per-call approval is required. Never executes on the worker host.'']\<rparr>]"

text \<open>The workspace graph, schedules and introspection.\<close>

definition native_workspace_tools :: "tool_metadata list" where
  "native_workspace_tools =
    [(tool_metadata_of ''query_workspace_graph'' ''native.context'' ''Workspace context'' ''Workspace graph''
       [''workspace_graph'', ''firm_context'', ''relationship_lookup''] Read)
       \<lparr>tm_required_env_vars := [''POSTGRES_URL''],
         tm_plan_gates := [''scope_guarded_context''],
         tm_result_budget := ''context_pack'',
         tm_notes := [''Returns scope-safe current graph context with evidence.'']\<rparr>,
     (tool_metadata_of ''declare_project'' ''native.context'' ''Workspace context'' ''Declare project''
       [''project_declaration'', ''workspace_graph''] Write)
       \<lparr>tm_approval := No_Approval,
         tm_required_env_vars := [''POSTGRES_URL''],
         tm_notes := [''Records a project boundary (name + channels) as graph hub + edges; internal knowledge only, no external egress.'']\<rparr>,
     (tool_metadata_of ''list_schedules'' ''native.scheduler'' ''Scheduling'' ''List schedules''
       [''schedule_truth'', ''schedule_lookup''] Read)
       \<lparr>tm_required_env_vars := [''POSTGRES_URL'']\<rparr>,
     (tool_metadata_of ''get_schedule'' ''native.scheduler'' ''Scheduling'' ''Get schedule''
       [''schedule_truth'', ''schedule_lookup''] Read)
       \<lparr>tm_required_env_vars := [''POSTGRES_URL'']\<rparr>,
     (tool_metadata_of ''create_schedule'' ''native.scheduler'' ''Scheduling'' ''Create schedule''
       [''schedule_create'', ''recurring_work''] Write)
       \<lparr>tm_approval := No_Approval,
         tm_required_env_vars := [''POSTGRES_URL''],
         tm_plan_gates := [''schedule_mutation'']\<rparr>,
     (tool_metadata_of ''update_schedule'' ''native.scheduler'' ''Scheduling'' ''Update schedule''
       [''schedule_update'', ''recurring_work''] Write)
       \<lparr>tm_approval := No_Approval,
         tm_required_env_vars := [''POSTGRES_URL''],
         tm_plan_gates := [''schedule_mutation'']\<rparr>,
     (tool_metadata_of ''pause_schedule'' ''native.scheduler'' ''Scheduling'' ''Pause schedule''
       [''schedule_pause'', ''recurring_work''] Write)
       \<lparr>tm_approval := No_Approval,
         tm_required_env_vars := [''POSTGRES_URL''],
         tm_plan_gates := [''schedule_mutation'']\<rparr>,
     (tool_metadata_of ''resume_schedule'' ''native.scheduler'' ''Scheduling'' ''Resume schedule''
       [''schedule_resume'', ''recurring_work''] Write)
       \<lparr>tm_approval := No_Approval,
         tm_required_env_vars := [''POSTGRES_URL''],
         tm_plan_gates := [''schedule_mutation'']\<rparr>,
     (tool_metadata_of ''cancel_schedule'' ''native.scheduler'' ''Scheduling'' ''Cancel schedule''
       [''schedule_cancel'', ''recurring_work''] Write)
       \<lparr>tm_approval := No_Approval,
         tm_required_env_vars := [''POSTGRES_URL''],
         tm_plan_gates := [''schedule_mutation'']\<rparr>,
     (tool_metadata_of ''describe_tools'' ''native.meta'' ''Runtime'' ''Describe tools''
       [''tool_inventory'', ''capability_lookup''] Read)
       \<lparr>tm_notes := [''Returns runtime truth about native tools and scoped integrations.'']\<rparr>,
     (tool_metadata_of ''list_integrations'' ''native.meta'' ''Runtime'' ''List integrations''
       [''tool_inventory'', ''capability_lookup''] Read)
       \<lparr>tm_notes := [''Compatibility alias for describe_tools.'']\<rparr>,
     (tool_metadata_of ''echo'' ''native.diagnostics'' ''Diagnostics'' ''Echo''
       [''diagnostic''] Read)
       \<lparr>tm_runtime_registered := False,
         tm_dashboard_exposed := False,
         tm_notes := [''Test-only registry probe.'']\<rparr>]"

text \<open>The code-act bridge.\<close>

definition native_codeact_tools :: "tool_metadata list" where
  "native_codeact_tools =
    [(tool_metadata_of ''codeact_exec'' ''native.execution'' ''Execution'' ''CodeAct executor''
       [''sandboxed_code_execution'', ''multi_tool_orchestration'', ''codeact_rpc''] Write)
       \<lparr>tm_approval := User_Approval,
         tm_timeout_seconds := 60 + sandbox_timeout_margin_seconds,
         tm_runtime_registered := False,
         tm_required_env_vars := [''KORTNY_SANDBOX_RUNNER_URL''],
         tm_plan_gates := [''sandbox_required'', ''network_disabled'', ''codeact_enabled''],
         tm_result_budget := ''bounded_stdout'',
         tm_notes := [''Executes model-written Python that calls the task's tools via the file-brokered RPC bridge.  Requires KORTNY_CODEACT_ENABLED=true.'', ''Approval is collected once for the whole script + allowlist before the sandbox starts.  No mid-script approval in v1.'', ''Secrets never enter the sandbox; tool calls are dispatched host-side.''],
         tm_sandbox := (default_sandbox_policy\<lparr>sp_requires_sandbox := True, sp_profile := ''workbench'', sp_network := Net_None,
         sp_limits := \<lparr>rl_millicpus = 1000, rl_memory_mb = 512, rl_pids_limit = 64, rl_timeout_seconds = 60\<rparr>,
         sp_reason := ''Model-written code must run in the isolated sandbox.''\<rparr>)\<rparr>]"

definition native_tools :: "tool_metadata list" where
  "native_tools =
     native_browser_tools @ native_slack_context_tools @ native_slack_action_tools @
     native_documents_tools @ native_workbench_tools @ native_workspace_tools @
     native_codeact_tools"

lemmas native_tools_defs =
  native_tools_def native_browser_tools_def native_slack_context_tools_def
  native_slack_action_tools_def native_documents_tools_def native_workbench_tools_def
  native_workspace_tools_def native_codeact_tools_def

text \<open>The dictionary lookup \<open>NATIVE_TOOL_METADATA.get(name)\<close>.\<close>

definition native_metadata :: "string \<Rightarrow> tool_metadata option" where
  "native_metadata name = find (\<lambda>m. tm_name m = name) native_tools"

section \<open>Queries\<close>

text \<open>\<open>str.title\<close>: every run of letters starts with a capital and goes on in lower case.\<close>

definition upper_char :: "char \<Rightarrow> char" where
  "upper_char c =
     (case map_of (zip ''abcdefghijklmnopqrstuvwxyz'' ''ABCDEFGHIJKLMNOPQRSTUVWXYZ'') c of
        Some d \<Rightarrow> d | None \<Rightarrow> c)"

definition is_letter :: "char \<Rightarrow> bool" where
  "is_letter c =
     (c \<in> set ''abcdefghijklmnopqrstuvwxyzABCDEFGHIJKLMNOPQRSTUVWXYZ'')"

fun title_aux :: "bool \<Rightarrow> string \<Rightarrow> string" where
  "title_aux inside [] = []"
| "title_aux inside (c # s) =
     (if is_letter c then (if inside then lower_char c else upper_char c) # title_aux True s
      else c # title_aux False s)"

definition tool_metadata_for :: "string \<Rightarrow> tool_metadata" where
  "tool_metadata_for name =
     (case native_metadata name of
        Some m \<Rightarrow> m
      | None \<Rightarrow> (tool_metadata_of name ''native.other'' ''Other''
                   (title_aux False (replace_char (CHR ''_'') (CHR '' '') name)) [] Read)
                 \<lparr>tm_notes := [''No explicit metadata has been registered yet.'']\<rparr>)"

definition tool_timeout_seconds :: "string \<Rightarrow> int" where
  "tool_timeout_seconds name = tm_timeout_seconds (tool_metadata_for name)"

definition names_where :: "(tool_metadata \<Rightarrow> bool) \<Rightarrow> string list" where
  "names_where p = map tm_name (filter p native_tools)"

definition read_only_native_tool_names :: "string list" where
  "read_only_native_tool_names = names_where (\<lambda>m. tm_side_effect m = Read)"

definition native_tool_names_by_approval :: "approval_class \<Rightarrow> string list" where
  "native_tool_names_by_approval a = names_where (\<lambda>m. tm_approval m = a)"

definition low_risk_native_write_tool_names :: "string list" where
  "low_risk_native_write_tool_names =
     names_where (\<lambda>m. tm_side_effect m = Write \<and> tm_approval m = No_Approval)"

definition auto_approved_native_tool_names :: "string list" where
  "auto_approved_native_tool_names = names_where (\<lambda>m. tm_approval m = No_Approval)"

definition namespace_integrations :: "(string \<times> string) list" where
  "namespace_integrations =
     [(''native.browser'', ''browser''), (''native.context'', ''workspace''),
      (''native.diagnostics'', ''diagnostics''), (''native.documents'', ''documents''),
      (''native.execution'', ''execution''), (''native.memory'', ''memory''),
      (''native.meta'', ''runtime''), (''native.research'', ''web''),
      (''native.scheduler'', ''scheduler''), (''native.slack'', ''slack'')]"

definition metadata_integration :: "tool_metadata \<Rightarrow> string" where
  "metadata_integration m =
     (if tm_integration m \<noteq> [] then tm_integration m
      else (case map_of namespace_integrations (tm_namespace m) of
              Some i \<Rightarrow> i | None \<Rightarrow> tm_namespace m))"

definition native_tool_integration_map :: "(string \<times> string) list" where
  "native_tool_integration_map = map (\<lambda>m. (tm_name m, metadata_integration m)) native_tools"

definition dashboard_native_tool_names :: "string list" where
  "dashboard_native_tool_names =
     names_where (\<lambda>m. tm_runtime_registered m \<and> tm_dashboard_exposed m)"

definition runtime_native_tool_names :: "string list" where
  "runtime_native_tool_names = names_where tm_runtime_registered"

definition native_slack_context_hint_names :: "string list" where
  "native_slack_context_hint_names = names_where tm_context_hint"

section \<open>Runtime tools and their descriptors\<close>

text \<open>
  A tool object: its name, description and parameter schema, and what external providers
  hang on it, the wrapped provider tool, the MCP server's view and the flag that a read-only
  claim may be honoured (absent on native tools, where it reads as true).
\<close>

record provider_tool =
  pt_read_only_hint :: "bool option"
  pt_destructive_hint :: "bool option"
  pt_tags :: "string list option"
  pt_slug :: "string option"
  pt_name :: "string option"
  pt_description :: "string option"

record tool =
  to_name :: string
  to_description :: string
  to_parameters :: jobj
  to_inner :: "provider_tool option"
  to_server :: "(bool option \<times> bool option) option"
  to_bypass_allowed :: bool

text \<open>Iterating a JSON value: the elements, the keys or the characters, else a \<open>TypeError\<close>.\<close>

fun json_iter :: "json \<Rightarrow> json list res" where
  "json_iter (JArr xs) = Inr xs"
| "json_iter (JObj kvs) = Inr (map (\<lambda>kv. JStr (fst kv)) kvs)"
| "json_iter (JStr s) = Inr (map (\<lambda>c. JStr [c]) s)"
| "json_iter _ = Inl (TypeErr ''object is not iterable'')"

fun texts_of :: "json list \<Rightarrow> string list" where
  "texts_of [] = []"
| "texts_of (JStr s # xs) = s # texts_of xs"
| "texts_of (_ # xs) = texts_of xs"

definition tool_argument_names :: "jobj \<Rightarrow> (string list \<times> string list) res" where
  "tool_argument_names schema =
     (case jget schema ''properties'' of
        JObj props \<Rightarrow>
          (case json_iter (case map_of schema ''required'' of None \<Rightarrow> JArr [] | Some j \<Rightarrow> j) of
             Inl e \<Rightarrow> Inl e
           | Inr xs \<Rightarrow>
               (let required = filter (\<lambda>n. n \<in> fst ` set props) (texts_of xs)
                in Inr (required, filter (\<lambda>n. n \<notin> set required) (map fst props))))
      | _ \<Rightarrow> Inr ([], []))"

definition settings_env_attrs :: "(string \<times> string) list" where
  "settings_env_attrs =
     [(''BRAVE_SEARCH_API_KEY'', ''brave_search_api_key''),
      (''COMPOSIO_API_KEY'', ''composio_api_key''), (''KORTNY_BROWSER_URL'', ''browser_url''),
      (''POSTGRES_URL'', ''postgres_url''),
      (''KORTNY_SANDBOX_RUNNER_URL'', ''sandbox_runner_url''),
      (''SLACK_APP_TOKEN'', ''slack_app_token''), (''SLACK_BOT_TOKEN'', ''slack_bot_token''),
      (''SLACK_SIGNING_SECRET'', ''slack_signing_secret'')]"

definition settings_has_env_var :: "(string \<Rightarrow> json) \<Rightarrow> string \<Rightarrow> bool" where
  "settings_has_env_var settings env =
     (case map_of settings_env_attrs env of
        None \<Rightarrow> True
      | Some attr \<Rightarrow> (case settings attr of JStr s \<Rightarrow> non_blank s | v \<Rightarrow> v \<noteq> JNull))"

definition missing_required_env_vars :: "tool_metadata \<Rightarrow> (string \<Rightarrow> json) \<Rightarrow> string list" where
  "missing_required_env_vars m settings =
     filter (\<lambda>env. \<not> settings_has_env_var settings env) (tm_required_env_vars m)"

definition disabled_reason_of ::
  "tool_metadata \<Rightarrow> (string \<Rightarrow> json) option \<Rightarrow> bool \<Rightarrow> string option" where
  "disabled_reason_of m settings config_available =
     (if \<not> config_available then Some ''Runtime settings could not load.''
      else (case settings of
              None \<Rightarrow> None
            | Some st \<Rightarrow>
                (let missing = missing_required_env_vars m st
                 in if missing \<noteq> []
                    then Some (''Missing required configuration: '' @ join '', '' missing @ ''.'')
                    else None)))"

record tool_descriptor =
  td_metadata :: tool_metadata
  td_integration :: string
  td_description :: string
  td_parameters :: jobj
  td_enabled :: bool
  td_disabled_reason :: "string option"
  td_required_args :: "string list"
  td_optional_args :: "string list"

definition truthy_text :: "string option \<Rightarrow> string option" where
  "truthy_text x = (case x of Some s \<Rightarrow> if s = [] then None else Some s | None \<Rightarrow> None)"

text \<open>
  The descriptor repeats the fields of the metadata; here it holds the metadata itself. A
  reason passed in counts when it is not empty.
\<close>

definition descriptor ::
  "tool_metadata \<Rightarrow> string \<Rightarrow> jobj \<Rightarrow> (string \<Rightarrow> json) option \<Rightarrow> bool \<Rightarrow> bool option \<Rightarrow>
   string option \<Rightarrow> tool_descriptor res" where
  "descriptor m description parameters settings config_available enabled reason =
     (case tool_argument_names parameters of
        Inl e \<Rightarrow> Inl e
      | Inr (required, optional) \<Rightarrow>
          (let dynamic = (case truthy_text reason of
                            Some r \<Rightarrow> Some r
                          | None \<Rightarrow> disabled_reason_of m settings config_available);
               resolved = (case enabled of Some b \<Rightarrow> b | None \<Rightarrow> dynamic = None)
           in Inr \<lparr>td_metadata = m, td_integration = metadata_integration m,
                   td_description = description, td_parameters = parameters,
                   td_enabled = resolved,
                   td_disabled_reason = (if resolved then None else dynamic),
                   td_required_args = required, td_optional_args = optional\<rparr>))"

definition tool_descriptor_for ::
  "tool \<Rightarrow> (string \<Rightarrow> json) option \<Rightarrow> bool \<Rightarrow> bool option \<Rightarrow> string option \<Rightarrow>
   tool_descriptor res" where
  "tool_descriptor_for t settings config_available enabled reason =
     descriptor (tool_metadata_for (to_name t)) (to_description t) (to_parameters t) settings
       config_available enabled reason"

fun tool_descriptors ::
  "tool list \<Rightarrow> (string \<Rightarrow> json) option \<Rightarrow> bool \<Rightarrow> tool_descriptor list res" where
  "tool_descriptors [] settings config_available = Inr []"
| "tool_descriptors (t # ts) settings config_available =
     (case tool_descriptor_for t settings config_available None None of
        Inl e \<Rightarrow> Inl e
      | Inr td \<Rightarrow>
          (case tool_descriptors ts settings config_available of
             Inl e \<Rightarrow> Inl e | Inr tds \<Rightarrow> Inr (td # tds)))"

definition descriptor_payload :: "tool_descriptor \<Rightarrow> jobj" where
  "descriptor_payload td =
     (let m = td_metadata td; strs = (\<lambda>xs. JArr (map JStr xs)) in
      [(''name'', JStr (tm_name m)), (''namespace'', JStr (tm_namespace m)),
       (''integration'', JStr (td_integration td)), (''category'', JStr (tm_category m)),
       (''display_name'', JStr (tm_display_name m)), (''description'', JStr (td_description td)),
       (''parameters'', JObj (td_parameters td)), (''capabilities'', strs (tm_capabilities m)),
       (''side_effect'', JStr (side_effect_value (tm_side_effect m))),
       (''approval'', JStr (approval_value (tm_approval m))),
       (''timeout_seconds'', JInt (tm_timeout_seconds m)),
       (''required_env_vars'', strs (tm_required_env_vars m)),
       (''required_slack_scopes'', strs (tm_required_slack_scopes m)),
       (''plan_gates'', strs (tm_plan_gates m)), (''result_budget'', JStr (tm_result_budget m)),
       (''notes'', strs (tm_notes m)),
       (''can_replace_native_tools'', strs (tm_can_replace_native_tools m)),
       (''sandbox'', JObj (policy_payload (tm_sandbox m))), (''enabled'', JBool (td_enabled td)),
       (''disabled_reason'', jopt_str (td_disabled_reason td)),
       (''required_args'', strs (td_required_args td)),
       (''optional_args'', strs (td_optional_args td))])"

section \<open>The catalog, evaluated\<close>

text \<open>The columns of the table that decide about approvals and egress.\<close>

lemma native_profile:
  "map (\<lambda>m. (tm_name m, tm_namespace m, tm_side_effect m, tm_approval m)) native_tools =
    [(''find_tools'', ''native.meta'', Read, No_Approval),
     (''browser_navigate'', ''native.browser'', Read, No_Approval),
     (''browser_snapshot'', ''native.browser'', Read, No_Approval),
     (''browser_click'', ''native.browser'', Write, Self_Gated),
     (''browser_type'', ''native.browser'', Write, Self_Gated),
     (''browser_take_screenshot'', ''native.browser'', Read, No_Approval),
     (''browser_wait_for'', ''native.browser'', Read, No_Approval),
     (''browser_navigate_back'', ''native.browser'', Read, No_Approval),
     (''web_search'', ''native.research'', Read, No_Approval),
     (''slack_channel_history'', ''native.slack'', Read, No_Approval),
     (''search_observed_slack_history'', ''native.slack'', Read, No_Approval),
     (''resolve_slack_identity'', ''native.slack'', Read, No_Approval),
     (''slack_user_info'', ''native.slack'', Read, No_Approval),
     (''slack_channel_info'', ''native.slack'', Read, No_Approval),
     (''slack_reply_thread'', ''native.slack'', Write, No_Approval),
     (''slack_add_reaction'', ''native.slack'', Write, No_Approval),
     (''slack_pin_message'', ''native.slack'', Write, No_Approval),
     (''slack_add_bookmark'', ''native.slack'', Write, No_Approval),
     (''slack_create_channel_canvas'', ''native.slack'', Write, No_Approval),
     (''slack_edit_canvas'', ''native.slack'', Write, No_Approval),
     (''slack_lookup_canvas_sections'', ''native.slack'', Read, No_Approval),
     (''slack_file_read'', ''native.slack'', Read, No_Approval),
     (''pdf_generator'', ''native.documents'', Write, No_Approval),
     (''document_studio'', ''native.documents'', Write, No_Approval),
     (''code_exec'', ''native.execution'', Destructive, No_Approval),
     (''sandbox_bash'', ''native.execution'', Destructive, No_Approval),
     (''sandbox_write_file'', ''native.execution'', Write, No_Approval),
     (''sandbox_stage_file'', ''native.execution'', Write, No_Approval),
     (''sandbox_read_file'', ''native.execution'', Read, No_Approval),
     (''sandbox_export_artifact'', ''native.execution'', Write, No_Approval),
     (''sandbox_publish_preview'', ''native.execution'', Write, No_Approval),
     (''deploy_site'', ''native.deploy'', Destructive, User_Approval),
     (''remember_fact'', ''native.memory'', Write, Self_Gated),
     (''recall_fact'', ''native.memory'', Read, No_Approval),
     (''inspect_memory'', ''native.memory'', Read, No_Approval),
     (''forget_fact'', ''native.memory'', Write, User_Approval),
     (''load_skill'', ''native.skills'', Read, No_Approval),
     (''load_skill_resource'', ''native.skills'', Read, No_Approval),
     (''run_skill_script'', ''native.skills'', Write, No_Approval),
     (''query_workspace_graph'', ''native.context'', Read, No_Approval),
     (''declare_project'', ''native.context'', Write, No_Approval),
     (''list_schedules'', ''native.scheduler'', Read, No_Approval),
     (''get_schedule'', ''native.scheduler'', Read, No_Approval),
     (''create_schedule'', ''native.scheduler'', Write, No_Approval),
     (''update_schedule'', ''native.scheduler'', Write, No_Approval),
     (''pause_schedule'', ''native.scheduler'', Write, No_Approval),
     (''resume_schedule'', ''native.scheduler'', Write, No_Approval),
     (''cancel_schedule'', ''native.scheduler'', Write, No_Approval),
     (''describe_tools'', ''native.meta'', Read, No_Approval),
     (''list_integrations'', ''native.meta'', Read, No_Approval),
     (''echo'', ''native.diagnostics'', Read, No_Approval),
     (''codeact_exec'', ''native.execution'', Write, User_Approval)]"
  by (simp add: native_tools_defs tool_metadata_of_def)

text \<open>A set of names that depends on these columns only is read off the profile.\<close>

lemma names_where_profile:
  "names_where (\<lambda>m. p (tm_name m, tm_namespace m, tm_side_effect m, tm_approval m)) =
   map fst (filter p (map (\<lambda>m. (tm_name m, tm_namespace m, tm_side_effect m, tm_approval m)) native_tools))"
  by (simp add: names_where_def filter_map comp_def)

lemma names_by_effect_approval:
  "names_where (\<lambda>m. q (tm_side_effect m) (tm_approval m)) =
   map fst (filter (\<lambda>(n, ns, e, a). q e a)
     (map (\<lambda>m. (tm_name m, tm_namespace m, tm_side_effect m, tm_approval m)) native_tools))"
  using names_where_profile [of "\<lambda>(n, ns, e, a). q e a"] by simp

lemma native_tool_names_distinct: "distinct (map tm_name native_tools)"
proof -
  have "map tm_name native_tools =
      map fst (map (\<lambda>m. (tm_name m, tm_namespace m, tm_side_effect m, tm_approval m)) native_tools)"
    by simp
  then show ?thesis by (simp add: native_profile)
qed

lemma native_tool_names_lower: "list_all (\<lambda>m. casefold (tm_name m) = tm_name m) native_tools"
proof -
  have "list_all (\<lambda>p. casefold (fst p) = fst p)
      (map (\<lambda>m. (tm_name m, tm_namespace m, tm_side_effect m, tm_approval m)) native_tools)"
    unfolding native_profile by simp
  then show ?thesis by (simp add: list_all_iff)
qed

lemma native_metadata_Some: "native_metadata name = Some m \<Longrightarrow> m \<in> set native_tools \<and> tm_name m = name"
  by (auto simp: native_metadata_def find_Some_iff)

lemma native_metadata_in: "m \<in> set native_tools \<Longrightarrow> native_metadata (tm_name m) = Some m"
proof -
  have "distinct (map tm_name ms) \<Longrightarrow> m \<in> set ms \<Longrightarrow> find (\<lambda>x. tm_name x = tm_name m) ms = Some m" for ms
    by (induction ms) auto
  then show "m \<in> set native_tools \<Longrightarrow> native_metadata (tm_name m) = Some m"
    using native_tool_names_distinct by (simp add: native_metadata_def)
qed

text \<open>Every policy in the table satisfies the checks its constructor makes, and the deadline of
  a sandboxed tool leaves the inner limit its margin.\<close>

lemma native_policies_valid:
  "list_all (\<lambda>m. check_limits (sp_limits (tm_sandbox m)) = Inr () \<and>
     check_policy (tm_sandbox m) = Inr () \<and>
     (sp_requires_sandbox (tm_sandbox m) \<longrightarrow>
        rl_timeout_seconds (sp_limits (tm_sandbox m)) + sandbox_timeout_margin_seconds
          \<le> tm_timeout_seconds m)) native_tools"
  by (simp add: native_tools_defs tool_metadata_of_def check_limits_def check_policy_def
      default_sandbox_policy_def default_resource_limits_def workbench_sandbox_policy_def
      workbench_timeout_seconds_def sandbox_timeout_margin_seconds_def non_blank_def strip_simps)

end
