(* ===== verification/Autonomy.thy ===== *)
theory Autonomy
  imports Tool_Catalog
begin

text \<open>
  \<open>kortny/autonomy.py\<close>: the deterministic risk tier of a planned tool call, from its metadata
  and its arguments, and the resolution of the autonomy level. The arguments are a JSON
  object in the order the call gives them.
\<close>

datatype autonomy_tier = Free | Implicit | Explicit

datatype autonomy_level = Conservative | Balanced | Autonomous

fun tier_value :: "autonomy_tier \<Rightarrow> string" where
  "tier_value Free = ''free''"
| "tier_value Implicit = ''implicit''"
| "tier_value Explicit = ''explicit''"

fun level_value :: "autonomy_level \<Rightarrow> string" where
  "level_value Conservative = ''conservative''"
| "level_value Balanced = ''balanced''"
| "level_value Autonomous = ''autonomous''"

definition default_autonomy_level :: string where
  "default_autonomy_level = ''balanced''"

record risk_assessment =
  ra_tier :: autonomy_tier
  ra_reasons :: "string list"

section \<open>Vocabularies\<close>

definition sql_free_verbs :: "string list" where
  "sql_free_verbs = [''select'', ''explain'', ''show'', ''with'']"

definition sql_implicit_verbs :: "string list" where
  "sql_implicit_verbs = [''insert'', ''update'', ''upsert'', ''merge'', ''replace'']"

definition sql_explicit_verbs :: "string list" where
  "sql_explicit_verbs = [''delete'', ''drop'', ''truncate'', ''alter'', ''grant'', ''revoke'']"

definition http_free_methods :: "string list" where
  "http_free_methods = [''get'', ''head'', ''options'']"

definition http_implicit_methods :: "string list" where
  "http_implicit_methods = [''post'', ''put'', ''patch'']"

definition http_explicit_methods :: "string list" where
  "http_explicit_methods = [''delete'']"

definition outward_signals :: "string list" where
  "outward_signals =
     [''send'', ''email'', ''publish'', ''deploy'', ''payment'', ''pay'', ''charge'', ''invoice'',
      ''broadcast'', ''tweet'', ''post_public'']"

definition destructive_signals :: "string list" where
  "destructive_signals =
     [''delete'', ''remove'', ''destroy'', ''drop'', ''purge'', ''wipe'', ''truncate'']"

definition write_signals :: "string list" where
  "write_signals =
     [''create'', ''update'', ''add'', ''insert'', ''set'', ''write'', ''edit'', ''modify'',
      ''upsert'', ''append'', ''enable'', ''disable'', ''move'', ''archive'', ''invite'', ''submit'']"

definition bulk_literals :: "string list" where
  "bulk_literals = [''all'', ''everyone'', ''*'', ''%'']"

definition bulk_key_hints :: "string list" where
  "bulk_key_hints = [''ids'', ''_ids'', ''bulk'', ''batch'', ''all_'', ''filter'', ''where'']"

lemmas verb_defs =
  sql_free_verbs_def sql_implicit_verbs_def sql_explicit_verbs_def http_free_methods_def
  http_implicit_methods_def http_explicit_methods_def

lemmas signal_defs = outward_signals_def destructive_signals_def write_signals_def

section \<open>Comments, tokens and words\<close>

text \<open>The rest of the text after a line comment: past the next newline.\<close>

fun after_line :: "string \<Rightarrow> string" where
  "after_line [] = []"
| "after_line (c # s) = (if c = CHR 0x0A then s else after_line s)"

text \<open>The rest after the nearest end of a block comment, if it ends.\<close>

fun after_block :: "string \<Rightarrow> string option" where
  "after_block (c # d # s) =
     (if c = CHR ''*'' \<and> d = CHR ''/'' then Some s else after_block (d # s))"
| "after_block _ = None"

lemma length_after_line: "length (after_line s) \<le> length s"
  by (induction s) auto

lemma length_after_block: "after_block s = Some r \<Longrightarrow> length r \<le> length s"
  by (induction s rule: after_block.induct) (auto split: if_splits)

text \<open>The substitution of every comment by a blank.\<close>

function strip_comments :: "string \<Rightarrow> string" where
  "strip_comments [] = []"
| "strip_comments (c # s) =
     (if starts_with ''--'' (c # s) then CHR '' '' # strip_comments (after_line (drop 1 s))
      else if starts_with ''/*'' (c # s) then
        (case after_block (drop 1 s) of
           Some r \<Rightarrow> CHR '' '' # strip_comments r
         | None \<Rightarrow> c # strip_comments s)
      else c # strip_comments s)"
  by pat_completeness auto

termination
proof (relation "measure length")
  fix c :: char and s r
  show "wf (measure length)" by simp
  show "(after_line (drop 1 s), c # s) \<in> measure length"
    using length_after_line [of "drop 1 s"] by simp
  show "(s, c # s) \<in> measure length" "(s, c # s) \<in> measure length" by simp_all
  assume "after_block (drop 1 s) = Some r"
  then show "(r, c # s) \<in> measure length"
    using length_after_block [of "drop 1 s" r] by simp
qed

definition token_char :: "char \<Rightarrow> bool" where
  "token_char c = (is_letter c \<or> c = CHR ''_'')"

definition leading_token :: "string \<Rightarrow> string option" where
  "leading_token s = (let w = takeWhile token_char s in if w = [] then None else Some w)"

definition word_char :: "char \<Rightarrow> bool" where
  "word_char c = (c \<in> set ''abcdefghijklmnopqrstuvwxyz0123456789'')"

definition words_of :: "string \<Rightarrow> string list" where
  "words_of text = runs word_char (casefold text)"

section \<open>SQL and HTTP\<close>

definition escalate :: "autonomy_tier \<Rightarrow> autonomy_tier" where
  "escalate t = (if t = Free then Implicit else Explicit)"

fun tier_order :: "autonomy_tier \<Rightarrow> nat" where
  "tier_order Free = 0"
| "tier_order Implicit = 1"
| "tier_order Explicit = 2"

definition max_tier :: "autonomy_tier \<Rightarrow> autonomy_tier \<Rightarrow> autonomy_tier" where
  "max_tier l r = (if tier_order r \<le> tier_order l then l else r)"

definition looks_like_sql :: "string \<Rightarrow> bool" where
  "looks_like_sql value =
     (let stripped = strip (strip_comments value)
      in stripped \<noteq> [] \<and>
         (case leading_token stripped of
            None \<Rightarrow> False
          | Some t \<Rightarrow> (let h = casefold t in
              h \<in> set sql_free_verbs \<or> h \<in> set sql_implicit_verbs \<or> h \<in> set sql_explicit_verbs)))"

definition sql_cte_tier :: "string \<Rightarrow> autonomy_tier \<times> string list" where
  "sql_cte_tier cleaned =
     (let tokens = words_of cleaned;
          explicit_hits = inter_words tokens sql_explicit_verbs;
          implicit_hits = inter_words tokens sql_implicit_verbs
      in if explicit_hits \<noteq> [] then (Explicit, [''sql_cte_verb:'' @ hd explicit_hits])
         else if implicit_hits \<noteq> [] then (Implicit, [''sql_cte_verb:'' @ hd implicit_hits])
         else if ''select'' \<in> set tokens then (Free, [''sql_cte_verb:select''])
         else (Explicit, [''sql_cte_ambiguous'']))"

definition sql_tier :: "string \<Rightarrow> (autonomy_tier \<times> string list) option" where
  "sql_tier value =
     (let cleaned = strip (strip_comments value) in
      case leading_token cleaned of
        None \<Rightarrow> None
      | Some t \<Rightarrow> (let h = casefold t in
          if h \<in> set sql_explicit_verbs then Some (Explicit, [''sql_verb:'' @ h])
          else if h \<in> set sql_implicit_verbs then Some (Implicit, [''sql_verb:'' @ h])
          else if h = ''with'' then Some (sql_cte_tier cleaned)
          else if h \<in> set sql_free_verbs then Some (Free, [''sql_verb:'' @ h])
          else None))"

definition http_tier :: "string \<Rightarrow> (autonomy_tier \<times> string list) option" where
  "http_tier value =
     (let token = casefold (strip value) in
      if token \<in> set http_explicit_methods then Some (Explicit, [''http_method:'' @ token])
      else if token \<in> set http_implicit_methods then Some (Implicit, [''http_method:'' @ token])
      else if token \<in> set http_free_methods then Some (Free, [''http_method:'' @ token])
      else None)"

definition looks_like_http_method_key :: "string \<Rightarrow> bool" where
  "looks_like_http_method_key key =
     (casefold key \<in> {''method'', ''http_method'', ''verb'', ''request_method''})"

fun bulk_signal :: "jobj \<Rightarrow> string option" where
  "bulk_signal [] = None"
| "bulk_signal ((key, value) # args) =
     (if contains_any bulk_key_hints (casefold key) then Some (''bulk_arg:'' @ key)
      else (case value of
              JArr xs \<Rightarrow> if 1 < length xs then Some (''bulk_collection:'' @ key) else bulk_signal args
            | JStr s \<Rightarrow> if casefold (strip s) \<in> set bulk_literals
                        then Some (''bulk_literal:'' @ key) else bulk_signal args
            | _ \<Rightarrow> bulk_signal args))"

section \<open>The classifier\<close>

definition base_tier :: "tool_metadata \<Rightarrow> autonomy_tier \<times> string list" where
  "base_tier m =
     (let words = words_of (join '' '' (tm_name m # tm_capabilities m));
          start = (case tm_side_effect m of
                     Destructive \<Rightarrow> (Explicit, [''metadata_side_effect:destructive''])
                   | Write \<Rightarrow> (Implicit, [''metadata_side_effect:write''])
                   | Read \<Rightarrow> (Free, [''metadata_side_effect:read'']));
          outward = inter_words words outward_signals;
          after_outward =
            (if outward \<noteq> []
             then (Explicit, snd start @ [''capability_outward:'' @ join '','' outward])
             else start);
          destructive = inter_words words destructive_signals;
          after_destructive =
            (if destructive \<noteq> []
             then (Explicit, snd after_outward @ [''capability_destructive:'' @ join '','' destructive])
             else after_outward)
      in if fst after_destructive = Free \<and> inter_words words write_signals \<noteq> []
         then (Implicit, snd after_destructive @ [''capability_write_hint''])
         else after_destructive)"

text \<open>One string argument; an argument that is HTTP or SQL is judged as that only.\<close>

definition inspect_text :: "string \<Rightarrow> string \<Rightarrow> autonomy_tier \<times> string list \<Rightarrow> autonomy_tier \<times> string list" where
  "inspect_text key raw acc =
     (let text = strip raw; tier = fst acc; reasons = snd acc in
      if text = [] then acc
      else
        (case (if looks_like_http_method_key key then http_tier text else None) of
           Some (t, rs) \<Rightarrow> (max_tier tier t, reasons @ rs)
         | None \<Rightarrow>
             (case (if looks_like_sql text then sql_tier text else None) of
                Some (t, rs) \<Rightarrow> (max_tier tier t, reasons @ rs)
              | None \<Rightarrow>
                  (let words = words_of text in
                   if inter_words words destructive_signals \<noteq> []
                   then (Explicit, reasons @ [''arg_destructive:'' @ key])
                   else if inter_words words outward_signals \<noteq> []
                   then (Explicit, reasons @ [''arg_outward:'' @ key])
                   else acc))))"

fun inspect_args :: "jobj \<Rightarrow> autonomy_tier \<times> string list \<Rightarrow> autonomy_tier \<times> string list" where
  "inspect_args [] acc = acc"
| "inspect_args ((key, value) # args) acc =
     inspect_args args (case value of JStr raw \<Rightarrow> inspect_text key raw acc | _ \<Rightarrow> acc)"

definition classify_tool_risk :: "tool_metadata \<Rightarrow> jobj \<Rightarrow> risk_assessment" where
  "classify_tool_risk m args =
     (let acc = inspect_args args (base_tier m); tier = fst acc; reasons = snd acc in
      case bulk_signal args of
        None \<Rightarrow> \<lparr>ra_tier = tier, ra_reasons = reasons\<rparr>
      | Some why \<Rightarrow>
          if tier \<noteq> Free \<and> escalate tier \<noteq> tier
          then \<lparr>ra_tier = escalate tier, ra_reasons = reasons @ [''bulk_escalation:'' @ why]\<rparr>
          else \<lparr>ra_tier = tier, ra_reasons = reasons\<rparr>)"

section \<open>The level\<close>

definition coerce_level :: "string option \<Rightarrow> autonomy_level option" where
  "coerce_level v =
     (case v of
        None \<Rightarrow> None
      | Some s \<Rightarrow> map_of (map (\<lambda>l. (level_value l, l)) [Conservative, Balanced, Autonomous])
                    (casefold (strip s)))"

definition resolve_autonomy_level ::
  "string option \<Rightarrow> string option \<Rightarrow> string option \<Rightarrow> autonomy_level" where
  "resolve_autonomy_level channel workspace default_level =
     (case coerce_level channel of
        Some l \<Rightarrow> l
      | None \<Rightarrow> (case coerce_level workspace of
          Some l \<Rightarrow> l
        | None \<Rightarrow> (case coerce_level default_level of Some l \<Rightarrow> l | None \<Rightarrow> Balanced)))"

section \<open>Facts\<close>

lemma max_tier_order [simp]:
  "tier_order (max_tier l r) = max (tier_order l) (tier_order r)"
  by (simp add: max_tier_def max_def)

lemma tier_order_inj [simp]: "tier_order l = tier_order r \<longleftrightarrow> l = r"
  by (cases l; cases r) auto

lemma tier_order_le_Explicit [simp]: "tier_order t \<le> 2"
  by (cases t) auto

lemma inspect_text_mono: "tier_order (fst acc) \<le> tier_order (fst (inspect_text key raw acc))"
  by (auto simp: inspect_text_def Let_def split: option.split)

lemma inspect_args_mono: "tier_order (fst acc) \<le> tier_order (fst (inspect_args args acc))"
proof (induction args acc rule: inspect_args.induct)
  case (1 acc)
  then show ?case by simp
next
  case (2 key v args acc)
  show ?case
  proof (cases v)
    case (JStr raw)
    then show ?thesis using 2 inspect_text_mono [of acc key raw] by (simp add: JStr)
  qed (use 2 in simp_all)
qed

lemma classify_mono: "tier_order (fst (inspect_args args (base_tier m))) \<le>
    tier_order (ra_tier (classify_tool_risk m args))"
  by (auto simp: classify_tool_risk_def escalate_def Let_def split: option.split)

lemma classify_base: "tier_order (fst (base_tier m)) \<le> tier_order (ra_tier (classify_tool_risk m args))"
  using inspect_args_mono [of "base_tier m" args] classify_mono [of args m] by linarith

lemma tier_Explicit: "2 \<le> tier_order t \<longleftrightarrow> t = Explicit"
  by (cases t) auto

text \<open>What one argument contributes, whatever the tier so far.\<close>

lemma inspect_args_arg:
  assumes "(key, JStr raw) \<in> set args"
    and "\<And>acc. k \<le> tier_order (fst (inspect_text key raw acc))"
  shows "k \<le> tier_order (fst (inspect_args args acc))"
  using assms(1)
proof (induction args acc rule: inspect_args.induct)
  case (1 acc)
  then show ?case by simp
next
  case (2 key' v args acc)
  let ?acc = "case v of JStr raw \<Rightarrow> inspect_text key' raw acc | _ \<Rightarrow> acc"
  show ?case
  proof (cases "(key, JStr raw) \<in> set args")
    case True
    then show ?thesis using 2 by simp
  next
    case False
    with 2(2) have "key' = key" "v = JStr raw" by auto
    then have "k \<le> tier_order (fst ?acc)" using assms(2) by simp
    then show ?thesis using inspect_args_mono [of ?acc args] by simp
  qed
qed

end
