(* ===== verification/Approvals.thy ===== *)
theory Approvals
  imports Autonomy
begin

text \<open>
  \<open>kortny/approvals.py\<close>: who has to approve a tool call. The risk of a tool comes from the
  catalog when it is native and from its provider's hints and its name otherwise; the policy
  maps native tools by their catalog class and everything else by tier and autonomy level.
\<close>

datatype approval_scope = Scope_None | Scope_User | Scope_Admin

fun scope_value :: "approval_scope \<Rightarrow> string" where
  "scope_value Scope_None = ''none''"
| "scope_value Scope_User = ''user''"
| "scope_value Scope_Admin = ''admin''"

record requirement =
  ar_scope :: approval_scope
  ar_reason :: string
  ar_risk :: string
  ar_tier :: "autonomy_tier option"
  ar_level :: "autonomy_level option"
  ar_reasons :: "string list"
  ar_audit :: bool

definition is_required :: "requirement \<Rightarrow> bool" where
  "is_required r = (ar_scope r \<noteq> Scope_None)"

definition plain_requirement :: "approval_scope \<Rightarrow> string \<Rightarrow> string \<Rightarrow> requirement" where
  "plain_requirement scope risk reason =
     \<lparr>ar_scope = scope, ar_reason = reason, ar_risk = risk, ar_tier = None, ar_level = None,
      ar_reasons = [], ar_audit = False\<rparr>"

definition no_approval_required :: requirement where
  "no_approval_required =
     plain_requirement Scope_None ''none''
       ''Tool is read-only or already has its own confirmation path.''"

section \<open>The name sets\<close>

definition read_only_native_tools :: "string list" where
  "read_only_native_tools = read_only_native_tool_names"

definition self_gated_native_tools :: "string list" where
  "self_gated_native_tools = native_tool_names_by_approval Self_Gated"

definition low_risk_native_write_tools :: "string list" where
  "low_risk_native_write_tools = low_risk_native_write_tool_names"

definition auto_approved_native_tools :: "string list" where
  "auto_approved_native_tools = auto_approved_native_tool_names"

definition user_approval_native_tools :: "string list" where
  "user_approval_native_tools = native_tool_names_by_approval User_Approval"

definition admin_approval_native_tools :: "string list" where
  "admin_approval_native_tools = native_tool_names_by_approval Admin_Approval"

definition sandboxed_code_native_tools :: "string list" where
  "sandboxed_code_native_tools = [''code_exec'']"

definition sandbox_workbench_tools :: "string list" where
  "sandbox_workbench_tools =
     [''sandbox_bash'', ''sandbox_write_file'', ''sandbox_read_file'',
      ''sandbox_export_artifact'', ''sandbox_publish_preview'']"

definition sandbox_workbench_approval_key :: string where
  "sandbox_workbench_approval_key = ''sandbox_workbench:session''"

definition write_verbs :: "string list" where
  "write_verbs =
     [''add'', ''archive'', ''cancel'', ''create'', ''delete'', ''disable'', ''enable'',
      ''invite'', ''move'', ''post'', ''publish'', ''remove'', ''send'', ''set'', ''submit'',
      ''update'', ''write'']"

definition read_verbs :: "string list" where
  "read_verbs =
     [''crawl'', ''fetch'', ''find'', ''get'', ''inspect'', ''list'', ''query'', ''read'',
      ''retrieve'', ''scrape'', ''search'', ''summarize'']"

definition destructive_verbs :: "string list" where
  "destructive_verbs = [''delete'', ''remove'', ''archive'', ''cancel'']"

definition read_only_tags :: "string list" where
  "read_only_tags = [''readonly'', ''readonlyhint'', ''read_only'', ''read-only'']"

section \<open>Requests\<close>

record approval_request =
  rqt_key :: string
  rqt_tool :: string
  rqt_call_id :: string
  rqt_args_hash :: string
  rqt_argument_keys :: "string list"
  rqt_scope :: approval_scope
  rqt_reason :: string
  rqt_risk :: string
  rqt_arguments :: jobj

definition request_payload :: "approval_request \<Rightarrow> jobj" where
  "request_payload r =
     [(''approval_key'', JStr (rqt_key r)), (''tool'', JStr (rqt_tool r)),
      (''tool_call_id'', JStr (rqt_call_id r)), (''normalized_args_hash'', JStr (rqt_args_hash r)),
      (''argument_keys'', JArr (map JStr (rqt_argument_keys r))),
      (''scope'', JStr (scope_value (rqt_scope r))), (''reason'', JStr (rqt_reason r)),
      (''risk'', JStr (rqt_risk r)), (''arguments'', JObj (rqt_arguments r))]"

definition approval_key :: "string \<Rightarrow> string \<Rightarrow> string" where
  "approval_key name hash = name @ '':'' @ hash"

definition approval_key_for :: "string \<Rightarrow> string \<Rightarrow> string" where
  "approval_key_for name hash =
     (if casefold name \<in> set sandbox_workbench_tools then sandbox_workbench_approval_key
      else approval_key name hash)"

abbreviation nl :: string where
  "nl \<equiv> [CHR 0x0A]"

definition reaction_instruction :: string where
  "reaction_instruction = ''Use the *Approve* / *Reject* buttons below.''"

definition approval_prompt_text :: "approval_request \<Rightarrow> string" where
  "approval_prompt_text r =
     (let joined = join '', '' (rqt_argument_keys r);
          args = (if joined = [] then ''none'' else joined)
      in if rqt_tool r \<in> set sandbox_workbench_tools then
           ''I need a sandboxed workspace to build and verify this. One '' @
           ''approval covers all sandbox commands for this task.'' @ nl @
           ''*Safety:* isolated container, no network, no host filesystem '' @
           ''access, CPU/memory capped, auto-removed when the task is done.'' @ nl @
           ''*First step:* '' @ rqt_tool r @ '' ('' @ args @ '')'' @ nl @ nl @ reaction_instruction
         else if rqt_tool r = ''deploy_site'' \<and> rqt_risk r = ''external_deployment'' then
           ''I'm ready to deploy this site to an external hosting provider. '' @
           ''Please approve before I publish.'' @ nl @
           ''*Inputs:* '' @ args @ nl @ nl @ reaction_instruction
         else if rqt_tool r = ''code_exec'' \<and> rqt_risk r = ''sandboxed_code_execution'' then
           ''I can check this in a locked-down Python sandbox. Please approve '' @
           ''before I run it.'' @ nl @
           ''*Safety:* no network, no package installs, and no access to the '' @
           ''host filesystem.'' @ nl @
           ''*Inputs:* '' @ args @ nl @ nl @ reaction_instruction
         else
           ''I need your approval before I run *'' @ rqt_tool r @ ''*.'' @ nl @
           ''*Why:* '' @ rqt_reason r @ nl @
           ''*Arguments:* '' @ args @ nl @ nl @ reaction_instruction)"

definition approval_rejected_text :: "approval_request option \<Rightarrow> string" where
  "approval_rejected_text r =
     (case r of None \<Rightarrow> ''Okay, I won't run that action.''
      | Some q \<Rightarrow> ''Okay, I won't run *'' @ rqt_tool q @ ''*.'')"

section \<open>Risk of any tool\<close>

definition optional_text :: "string option \<Rightarrow> string list" where
  "optional_text x = (case x of None \<Rightarrow> [] | Some s \<Rightarrow> [s])"

text \<open>The pieces between underscores and dashes, not between blanks.\<close>

definition tool_word_set :: "tool \<Rightarrow> string list" where
  "tool_word_set t =
     (let inner = (case to_inner t of
                     None \<Rightarrow> []
                   | Some p \<Rightarrow> optional_text (pt_slug p) @ optional_text (pt_name p) @
                               optional_text (pt_description p));
          parts = (\<lambda>s. filter non_blank
                     (split_on (CHR ''_'') (replace_char (CHR ''-'') (CHR ''_'') (casefold s))))
      in concat (map parts (to_name t # to_description t # inner)))"

definition risky_verbs_of :: "tool \<Rightarrow> string list" where
  "risky_verbs_of t = inter_words (tool_word_set t) write_verbs"

definition read_verbs_of :: "tool \<Rightarrow> string list" where
  "read_verbs_of t = inter_words (tool_word_set t) read_verbs"

definition is_explicitly_read_only :: "tool \<Rightarrow> bool" where
  "is_explicitly_read_only t =
     (case to_inner t of
        None \<Rightarrow> False
      | Some p \<Rightarrow> (case pt_tags p of
          None \<Rightarrow> False
        | Some tags \<Rightarrow>
            list_ex (\<lambda>tag. replace_char (CHR '' '') (CHR ''_'')
                (replace_char (CHR ''-'') (CHR ''_'') (casefold tag)) \<in> set read_only_tags) tags))"

text \<open>A hint of the wrapped tool, else of the MCP server's view of it.\<close>

definition read_only_hint_of :: "tool \<Rightarrow> bool option" where
  "read_only_hint_of t =
     (case Option.bind (to_inner t) pt_read_only_hint of
        Some b \<Rightarrow> Some b | None \<Rightarrow> Option.bind (to_server t) fst)"

definition destructive_hint_of :: "tool \<Rightarrow> bool option" where
  "destructive_hint_of t =
     (case Option.bind (to_inner t) pt_destructive_hint of
        Some b \<Rightarrow> Some b | None \<Rightarrow> Option.bind (to_server t) snd)"

definition external_tool_risk_shape :: "tool \<Rightarrow> side_effect \<times> string list" where
  "external_tool_risk_shape t =
     (let verbs = risky_verbs_of t;
          claim = is_explicitly_read_only t \<or> read_only_hint_of t = Some True
      in if destructive_hint_of t = Some True \<or> set verbs \<inter> set destructive_verbs \<noteq> {}
         then (Destructive, if verbs = [] then [''delete''] else verbs)
         else if claim \<and> to_bypass_allowed t then (Read, [])
         else if verbs \<noteq> [] then (Write, verbs)
         else if to_bypass_allowed t \<and> read_verbs_of t \<noteq> [] then (Read, [])
         else (Write, [''unknown_external_write'']))"

definition assess_tool_risk :: "tool \<Rightarrow> jobj \<Rightarrow> risk_assessment" where
  "assess_tool_risk t args =
     (case native_metadata (to_name t) of
        Some m \<Rightarrow> classify_tool_risk m args
      | None \<Rightarrow>
          (case external_tool_risk_shape t of
             (effect, caps) \<Rightarrow>
               classify_tool_risk (tool_metadata_of (to_name t) ''external.tool'' ''External''
                 (to_name t) caps effect) args))"

section \<open>The policy\<close>

definition ladder_requirement ::
  "approval_scope \<Rightarrow> string \<Rightarrow> string \<Rightarrow> bool \<Rightarrow> autonomy_level \<Rightarrow> risk_assessment \<Rightarrow> requirement" where
  "ladder_requirement scope risk reason audit level a =
     \<lparr>ar_scope = scope, ar_reason = reason, ar_risk = risk, ar_tier = Some (ra_tier a),
      ar_level = Some level, ar_reasons = ra_reasons a, ar_audit = audit\<rparr>"

definition requirement_from_ladder ::
  "tool \<Rightarrow> autonomy_level \<Rightarrow> risk_assessment \<Rightarrow> requirement" where
  "requirement_from_ladder t level a =
     (if ra_tier a = Free then
        ladder_requirement Scope_None ''read_only''
          (to_name t @ '' is read-only or generates a local artifact.'') False level a
      else if ra_tier a = Explicit then
        ladder_requirement Scope_User ''irreversible_or_outward''
          (to_name t @ '' performs an irreversible, outward, or bulk '' @
           ''action that needs your go-ahead.'') False level a
      else if level = Conservative then
        ladder_requirement Scope_User ''external_write''
          (to_name t @ '' writes to an external service; conservative '' @
           ''autonomy gates every write.'') False level a
      else
        ladder_requirement Scope_None ''external_write''
          (to_name t @ '' writes to an external service (auto-approved).'') True level a)"

definition requirement_for ::
  "tool \<Rightarrow> jobj \<Rightarrow> autonomy_level \<Rightarrow> risk_assessment option \<Rightarrow> requirement" where
  "requirement_for t args level risk =
     (let name = casefold (to_name t) in
      if name \<in> set read_only_native_tools \<or> name \<in> set self_gated_native_tools
      then no_approval_required
      else if name \<in> set auto_approved_native_tools \<or> name \<in> set low_risk_native_write_tools
      then no_approval_required
      else if name \<in> set user_approval_native_tools then
        (if name \<in> set sandbox_workbench_tools then
           plain_requirement Scope_User ''sandboxed_code_execution''
             (to_name t @ '' works inside Kortny's isolated sandbox '' @ ''workspace for this task.'')
         else if name = ''deploy_site'' then
           plain_requirement Scope_User ''external_deployment''
             (to_name t @ '' publishes files to an external hosting provider.'')
         else if name \<in> set sandboxed_code_native_tools then
           plain_requirement Scope_User ''sandboxed_code_execution''
             (to_name t @ '' can execute code in Kortny's isolated sandbox.'')
         else
           plain_requirement Scope_User ''workspace_state_mutation''
             (to_name t @ '' can change Kortny's stored state.''))
      else if name \<in> set admin_approval_native_tools then
        plain_requirement Scope_Admin ''sandboxed_code_execution''
          (to_name t @ '' can execute untrusted code in Kortny's sandbox.'')
      else requirement_from_ladder t level
             (case risk of Some a \<Rightarrow> a | None \<Rightarrow> assess_tool_risk t args))"

end
