(* ===== verification/Trifecta.thy ===== *)
theory Trifecta
  imports Approvals
begin

text \<open>
  \<open>kortny/agent/trifecta.py\<close>: the flow gate that raises the approval floor for outward tools
  once untrusted content has entered a task. The state is a value; \<open>arm\<close> and
  \<open>note_tool_result\<close> return whether they armed it, with the new state.
\<close>

definition untrusted_native_tools :: "string list" where
  "untrusted_native_tools =
     [''web_search'', ''slack_file_read'', ''slack_channel_history'',
      ''search_observed_slack_history'', ''slack_lookup_canvas_sections'', ''browser_navigate'',
      ''browser_snapshot'', ''browser_click'', ''browser_type'', ''browser_take_screenshot'',
      ''browser_wait_for'', ''browser_navigate_back'']"

definition external_tool_prefixes :: "string list" where
  "external_tool_prefixes = [''mcp__'', ''composio_'']"

definition outward_native_namespaces :: "string list" where
  "outward_native_namespaces =
     [''native.slack'', ''native.deploy'', ''native.memory'', ''native.scheduler'']"

definition outward_native_tools :: "string list" where
  "outward_native_tools = [''deploy_site'', ''sandbox_publish_preview'']"

definition trifecta_free_native_tools :: "string list" where
  "trifecta_free_native_tools =
     [''slack_add_reaction'', ''slack_pin_message'', ''code_exec'', ''sandbox_bash'',
      ''sandbox_write_file'', ''sandbox_read_file'', ''run_skill_script'',
      ''sandbox_export_artifact'']"

definition is_external_name :: "string \<Rightarrow> bool" where
  "is_external_name name = list_ex (\<lambda>p. starts_with p name) external_tool_prefixes"

definition is_untrusted_origin_tool :: "string \<Rightarrow> bool" where
  "is_untrusted_origin_tool tool_name =
     (let name = casefold tool_name in
      is_external_name name \<or> name \<in> set untrusted_native_tools)"

text \<open>The metadata is looked up under the name as given, not the folded one.\<close>

definition is_outward_or_write_tool :: "string \<Rightarrow> bool" where
  "is_outward_or_write_tool tool_name =
     (let name = casefold tool_name in
      if is_external_name name then True
      else if name \<in> set trifecta_free_native_tools then False
      else if name \<in> set outward_native_tools then True
      else (case native_metadata tool_name of
              None \<Rightarrow> False
            | Some m \<Rightarrow>
                if tm_side_effect m = Destructive then True
                else if tm_side_effect m = Write
                then tm_namespace m \<in> set outward_native_namespaces
                else False))"

record gate_state =
  gs_enabled :: bool
  gs_armed :: bool
  gs_armed_by :: "string option"

definition new_gate :: "bool \<Rightarrow> bool \<Rightarrow> gate_state" where
  "new_gate enabled armed =
     \<lparr>gs_enabled = enabled, gs_armed = armed,
      gs_armed_by = (if armed then Some ''initial_context'' else None)\<rparr>"

definition arm :: "string \<Rightarrow> gate_state \<Rightarrow> bool \<times> gate_state" where
  "arm source g =
     (if \<not> gs_enabled g \<or> gs_armed g then (False, g)
      else (True, g\<lparr>gs_armed := True, gs_armed_by := Some source\<rparr>))"

definition note_tool_result :: "string \<Rightarrow> gate_state \<Rightarrow> bool \<times> gate_state" where
  "note_tool_result tool_name g =
     (if \<not> gs_enabled g \<or> gs_armed g then (False, g)
      else if is_untrusted_origin_tool tool_name
      then (True, g\<lparr>gs_armed := True, gs_armed_by := Some tool_name\<rparr>)
      else (False, g))"

definition should_escalate :: "string \<Rightarrow> gate_state \<Rightarrow> bool" where
  "should_escalate tool_name g =
     (if \<not> gs_enabled g \<or> \<not> gs_armed g then False else is_outward_or_write_tool tool_name)"

section \<open>Runs of the gate\<close>

datatype gate_input = Arm string | Tool_Ran string

fun gate_step :: "gate_input \<Rightarrow> gate_state \<Rightarrow> bool \<times> gate_state" where
  "gate_step (Arm source) g = arm source g"
| "gate_step (Tool_Ran name) g = note_tool_result name g"

fun gate_run :: "gate_input list \<Rightarrow> gate_state \<Rightarrow> bool list \<times> gate_state" where
  "gate_run [] g = ([], g)"
| "gate_run (i # is) g =
     (case gate_step i g of (b, g') \<Rightarrow>
        (case gate_run is g' of (bs, g'') \<Rightarrow> (b # bs, g'')))"

fun arms :: "gate_input \<Rightarrow> bool" where
  "arms (Arm source) = True"
| "arms (Tool_Ran name) = is_untrusted_origin_tool name"

lemma gate_step_facts:
  assumes "gate_step i g = (b, g')"
  shows "gs_enabled g' = gs_enabled g"
    and "gs_armed g' \<longleftrightarrow> gs_armed g \<or> (gs_enabled g \<and> arms i)"
    and "b \<longleftrightarrow> \<not> gs_armed g \<and> gs_armed g'"
    and "gs_armed g \<Longrightarrow> g' = g"
  using assms
  by (cases i; auto simp: arm_def note_tool_result_def split: if_splits)+

lemma gate_run_armed: "gs_armed g \<Longrightarrow> gate_run is g = (map (\<lambda>_. False) is, g)"
proof (induction "is")
  case (Cons i "is")
  obtain b g' where s: "gate_step i g = (b, g')" by (cases "gate_step i g")
  with Cons gate_step_facts [OF s] show ?case by simp
qed simp

lemma gate_run_armed_iff:
  "gate_run is g = (bs, g') \<Longrightarrow>
     gs_enabled g' = gs_enabled g \<and>
     (gs_armed g' \<longleftrightarrow> gs_armed g \<or> (gs_enabled g \<and> list_ex arms is))"
proof (induction "is" arbitrary: g bs g')
  case (Cons i "is")
  obtain b g1 where s: "gate_step i g = (b, g1)" by (cases "gate_step i g")
  obtain bs1 g2 where r: "gate_run is g1 = (bs1, g2)" by (cases "gate_run is g1")
  from Cons.prems s r have "g' = g2" by simp
  with Cons.IH [OF r] gate_step_facts [OF s] show ?case by auto
qed simp

lemma gate_run_once:
  "gate_run is g = (bs, g') \<Longrightarrow>
     length (filter id bs) = (if \<not> gs_armed g \<and> gs_armed g' then 1 else 0)"
proof (induction "is" arbitrary: g bs g')
  case (Cons i "is")
  obtain b g1 where s: "gate_step i g = (b, g1)" by (cases "gate_step i g")
  obtain bs1 g2 where r: "gate_run is g1 = (bs1, g2)" by (cases "gate_run is g1")
  from Cons.prems s r have *: "bs = b # bs1" "g' = g2" by auto
  from Cons.IH [OF r] gate_step_facts [OF s] gate_run_armed_iff [OF r] show ?case
    by (auto simp: *)
qed simp

end
