(* ===== verification/Autonomy_Policy.thy ===== *)
theory Autonomy_Policy
  imports Autonomy
begin

text \<open>
  \<open>kortny/autonomy_policy.py\<close>: the scoped autonomy levels of a workspace and its channels, as
  rows, and the level a channel resolves to. \<open>race\<close> is what other transactions commit
  between the lookup and the insert of \<open>set_level\<close>.
\<close>

record autonomy_policy =
  ap_id :: uuid
  ap_installation :: uuid
  ap_scope_type :: string
  ap_scope_id :: "string option"
  ap_level :: string
  ap_updated_by :: "string option"
  ap_created_at :: timestamp
  ap_updated_at :: timestamp

record policy_db =
  pd_policies :: "autonomy_policy list"
  pd_now :: timestamp

definition in_scope :: "uuid \<Rightarrow> string \<Rightarrow> string option \<Rightarrow> autonomy_policy \<Rightarrow> bool" where
  "in_scope inst st sid p \<longleftrightarrow>
     ap_installation p = inst \<and> ap_scope_type p = st \<and> ap_scope_id p = sid"

definition find_policy :: "uuid \<Rightarrow> string \<Rightarrow> string option \<Rightarrow> policy_db \<Rightarrow> autonomy_policy option" where
  "find_policy inst st sid d = find (in_scope inst st sid) (pd_policies d)"

definition level_for :: "uuid \<Rightarrow> string \<Rightarrow> string option \<Rightarrow> policy_db \<Rightarrow> string option" where
  "level_for inst st sid d = map_option ap_level (find_policy inst st sid d)"

definition resolve_level :: "string \<Rightarrow> uuid \<Rightarrow> string option \<Rightarrow> policy_db \<Rightarrow> autonomy_level" where
  "resolve_level default_level inst channel_id d =
     (let workspace = level_for inst ''workspace'' None d;
          channel = (case channel_id of
                       None \<Rightarrow> None
                     | Some c \<Rightarrow> if c = [] then None else level_for inst ''channel'' (Some c) d)
      in resolve_autonomy_level channel workspace (Some default_level))"

definition workspace_policy :: "uuid \<Rightarrow> policy_db \<Rightarrow> autonomy_policy option" where
  "workspace_policy inst d = find_policy inst ''workspace'' None d"

text \<open>Ordered by scope id; texts are compared by code points.\<close>

fun insert_by_scope :: "autonomy_policy \<Rightarrow> autonomy_policy list \<Rightarrow> autonomy_policy list" where
  "insert_by_scope p [] = [p]"
| "insert_by_scope p (q # qs) =
     (case (ap_scope_id p, ap_scope_id q) of
        (Some a, Some b) \<Rightarrow> if str_le a b then p # q # qs else q # insert_by_scope p qs
      | (_, None) \<Rightarrow> p # q # qs
      | (None, _) \<Rightarrow> q # insert_by_scope p qs)"

definition channel_policies :: "uuid \<Rightarrow> policy_db \<Rightarrow> autonomy_policy list" where
  "channel_policies inst d =
     foldr insert_by_scope
       (filter (\<lambda>p. ap_installation p = inst \<and> ap_scope_type p = ''channel'') (pd_policies d)) []"

text \<open>The check constraints and the unique index, on \<open>coalesce(scope_id, '')\<close>.\<close>

definition scope_index :: "autonomy_policy \<Rightarrow> uuid \<times> string \<times> string" where
  "scope_index p =
     (ap_installation p, ap_scope_type p, case ap_scope_id p of None \<Rightarrow> [] | Some s \<Rightarrow> s)"

definition policy_violation :: "autonomy_policy \<Rightarrow> policy_db \<Rightarrow> string option" where
  "policy_violation row d =
     (if ap_scope_type row \<notin> {''workspace'', ''channel''}
      then Some ''ck_autonomy_policies_scope_type''
      else if ap_level row \<notin> {''conservative'', ''balanced'', ''autonomous''}
      then Some ''ck_autonomy_policies_level''
      else if (ap_scope_type row = ''workspace'') \<noteq> (ap_scope_id row = None)
      then Some ''ck_autonomy_policies_scope_id''
      else if ap_id row \<in> ap_id ` set (pd_policies d) then Some ''autonomy_policies_pkey''
      else if scope_index row \<in> scope_index ` set (pd_policies d)
      then Some ''idx_autonomy_policies_scope_unique''
      else None)"

definition insert_policy :: "autonomy_policy \<Rightarrow> (policy_db, unit) op" where
  "insert_policy row = (\<lambda>d. case policy_violation row d of
       Some c \<Rightarrow> (Inl (IntegrityError c), d)
     | None \<Rightarrow> (Inr (), d\<lparr>pd_policies := pd_policies d @ [row]\<rparr>))"

definition relevel :: "autonomy_level \<Rightarrow> string option \<Rightarrow> timestamp \<Rightarrow> autonomy_policy \<Rightarrow> autonomy_policy" where
  "relevel level user now p =
     p\<lparr>ap_level := level_value level, ap_updated_by := user, ap_updated_at := now\<rparr>"

definition update_policy ::
  "autonomy_level \<Rightarrow> string option \<Rightarrow> autonomy_policy \<Rightarrow> (policy_db, autonomy_policy) op" where
  "update_policy level user p =
     seq (reading pd_now) (\<lambda>now.
     seq (writing (\<lambda>d. d\<lparr>pd_policies := row_upd ap_id (ap_id p) (relevel level user now) (pd_policies d)\<rparr>))
       (\<lambda>_. returning (relevel level user now p)))"

definition set_level ::
  "(policy_db \<Rightarrow> policy_db) \<Rightarrow> uuid \<Rightarrow> uuid \<Rightarrow> string \<Rightarrow> string option \<Rightarrow> autonomy_level \<Rightarrow>
   string option \<Rightarrow> (policy_db, autonomy_policy) op" where
  "set_level race fresh inst st sid level user =
     seq (reading (find_policy inst st sid)) (\<lambda>existing. case existing of
       Some p \<Rightarrow> update_policy level user p
     | None \<Rightarrow>
         seq (writing race) (\<lambda>_.
         seq (reading (\<lambda>d. \<lparr>ap_id = fresh, ap_installation = inst, ap_scope_type = st,
                ap_scope_id = sid, ap_level = level_value level, ap_updated_by = user,
                ap_created_at = pd_now d, ap_updated_at = pd_now d\<rparr>)) (\<lambda>row.
         catching (seq (insert_policy row) (\<lambda>_. returning row)) (\<lambda>e. case e of
             IntegrityError c \<Rightarrow>
               seq (reading (find_policy inst st sid)) (\<lambda>again. case again of
                 None \<Rightarrow> raising e
               | Some p \<Rightarrow> update_policy level user p)
           | _ \<Rightarrow> raising e))))"

definition clear_level :: "uuid \<Rightarrow> string \<Rightarrow> string option \<Rightarrow> (policy_db, bool) op" where
  "clear_level inst st sid =
     seq (reading (find_policy inst st sid)) (\<lambda>found. case found of
       None \<Rightarrow> returning False
     | Some p \<Rightarrow>
         seq (writing (\<lambda>d. d\<lparr>pd_policies := filter (\<lambda>q. ap_id q \<noteq> ap_id p) (pd_policies d)\<rparr>))
           (\<lambda>_. returning True))"

section \<open>Facts\<close>

lemma coerce_level_value [simp]: "coerce_level (Some (level_value l)) = Some l"
  by (cases l) (simp_all add: coerce_level_def strip_simps)

lemma find_policy_Some:
  "find_policy inst st sid d = Some p \<Longrightarrow> p \<in> set (pd_policies d) \<and> in_scope inst st sid p"
  by (auto simp: find_policy_def find_Some_iff)

lemma find_row_upd:
  assumes "\<And>p. in_scope inst st sid (f p) = in_scope inst st sid p"
  shows "find (in_scope inst st sid) (row_upd ap_id k f ps) =
    map_option (\<lambda>p. if ap_id p = k then f p else p) (find (in_scope inst st sid) ps)"
  using assms by (induction ps) (auto simp: row_upd_def)

lemma in_scope_relevel [simp]: "in_scope inst st sid (relevel l u now p) = in_scope inst st sid p"
  by (simp add: in_scope_def relevel_def)

lemma update_policy_finds:
  assumes "find_policy inst st sid d = Some p" and "update_policy level user p d = (r, d')"
  shows "level_for inst st sid d' = Some (level_value level)"
    and "r = Inr (relevel level user (pd_now d) p)"
  using assms by (auto simp: update_policy_def seq_apply level_for_def find_policy_def find_row_upd)
     (simp add: relevel_def)

text \<open>A level that was set is the level found.\<close>

lemma set_level_finds:
  assumes "set_level race fresh inst st sid level user d = (Inr p, d')"
  shows "level_for inst st sid d' = Some (level_value level)"
proof (cases "find_policy inst st sid d")
  case (Some q)
  with assms show ?thesis using update_policy_finds(1) [OF Some]
    by (auto simp: set_level_def seq_apply)
next
  case None
  let ?row = "\<lparr>ap_id = fresh, ap_installation = inst, ap_scope_type = st, ap_scope_id = sid,
      ap_level = level_value level, ap_updated_by = user, ap_created_at = pd_now (race d),
      ap_updated_at = pd_now (race d)\<rparr>"
  show ?thesis
  proof (cases "policy_violation ?row (race d)")
    case v: None
    have "find_policy inst st sid (race d) = None"
    proof (rule ccontr)
      assume "find_policy inst st sid (race d) \<noteq> None"
      then obtain q where "q \<in> set (pd_policies (race d))" "in_scope inst st sid q"
        using find_policy_Some by blast
      then have "scope_index ?row \<in> scope_index ` set (pd_policies (race d))"
        by (auto simp: scope_index_def in_scope_def intro!: rev_image_eqI)
      with v show False by (auto simp: policy_violation_def split: if_splits)
    qed
    moreover have "d' = (race d)\<lparr>pd_policies := pd_policies (race d) @ [?row]\<rparr>"
      using assms None v
      by (auto simp: set_level_def seq_apply catching_def insert_policy_def)
    moreover have "find f (xs @ [x]) = (case find f xs of None \<Rightarrow> if f x then Some x else None
        | Some y \<Rightarrow> Some y)" for f and xs :: "autonomy_policy list" and x
      by (induction xs) auto
    ultimately show ?thesis
      by (auto simp: level_for_def find_policy_def in_scope_def split: option.splits)
  next
    case (Some c)
    with assms None show ?thesis
      by (auto simp: set_level_def seq_apply catching_def insert_policy_def
          dest: update_policy_finds(1) split: option.splits)
  qed
qed

text \<open>Clearing a scope leaves no level in it when its row is the only one.\<close>

lemma clear_level_finds:
  assumes "clear_level inst st sid d = (r, d')" and "distinct (map scope_index (pd_policies d))"
  shows "level_for inst st sid d' = None"
proof (cases "find_policy inst st sid d")
  case None
  with assms(1) show ?thesis by (simp add: clear_level_def seq_apply level_for_def)
next
  case (Some p)
  then have d': "pd_policies d' = filter (\<lambda>q. ap_id q \<noteq> ap_id p) (pd_policies d)"
    using assms(1) by (auto simp: clear_level_def seq_apply)
  have "q = p" if "q \<in> set (pd_policies d)" "in_scope inst st sid q" for q
  proof -
    have "scope_index q = scope_index p"
      using that find_policy_Some [OF Some] by (simp add: scope_index_def in_scope_def)
    then show ?thesis
      using that find_policy_Some [OF Some] assms(2) by (auto simp: distinct_map dest: inj_onD)
  qed
  then have "find_policy inst st sid d' = None"
    by (auto simp: find_policy_def find_None_iff d')
  then show ?thesis by (simp add: level_for_def)
qed

end
