(* ===== verification/Tool_Gate.thy ===== *)
theory Tool_Gate
  imports Trifecta Autonomy_Policy Task_System
begin

text \<open>
  The part of \<open>kortny/agent/coordinator.py\<close> that stands between a planned tool call and its
  execution: the autonomy level of the task's channel, the approval requirement, the trifecta
  gate, the approvals recorded in the task's log. \<open>ToolApprovalRequired\<close> is an outcome of its
  own, since its writes stay.

  The coordinator's memory, one gate state per task and one cached level per task, is part of
  the state. \<open>registry\<close> finds the tools registered for the task.
\<close>

record gate_world =
  gw_db :: db
  gw_policies :: policy_db
  gw_gates :: "(uuid \<times> gate_state) list"
  gw_levels :: "(uuid \<times> autonomy_level) list"

record gate_config =
  gc_trifecta_enabled :: bool
  gc_default_level :: string

record tool_call =
  tc_id :: string
  tc_name :: string
  tc_arguments :: jobj
  tc_args_hash :: string
  tc_attempt_no :: int
  tc_turn :: int
  tc_step_id :: string

definition on_db :: "(db, 'a) op \<Rightarrow> (gate_world, 'a) op" where
  "on_db m = (\<lambda>w. case m (gw_db w) of (r, d) \<Rightarrow> (r, w\<lparr>gw_db := d\<rparr>))"

definition trifecta_gate_message :: string where
  "trifecta_gate_message = ''trifecta_gate''"

definition tool_autonomy_decision_message :: string where
  "tool_autonomy_decision_message = ''tool_autonomy_decision''"

definition append_log :: "uuid \<Rightarrow> string \<Rightarrow> jobj \<Rightarrow> (gate_world, unit) op" where
  "append_log tid message payload =
     seq (on_db (append_event tid Log (jmerge [(''message'', JStr message)] payload)))
       (\<lambda>_. returning ())"

section \<open>The trifecta gate of a task\<close>

definition put_gate :: "uuid \<Rightarrow> gate_state \<Rightarrow> (gate_world, unit) op" where
  "put_gate tid g = writing (\<lambda>w. w\<lparr>gw_gates := AList.update tid g (gw_gates w)\<rparr>)"

definition trifecta_state :: "gate_config \<Rightarrow> task \<Rightarrow> (gate_world, gate_state) op" where
  "trifecta_state cfg t =
     seq (reading (\<lambda>w. map_of (gw_gates w) (t_id t))) (\<lambda>found. case found of
       Some g \<Rightarrow> returning g
     | None \<Rightarrow>
         (let at_start = (t_identity_kind t = Some ''synthetic'');
              g = new_gate (gc_trifecta_enabled cfg) at_start in
          seq (put_gate (t_id t) g) (\<lambda>_.
          seq (if at_start \<and> gc_trifecta_enabled cfg
               then append_log (t_id t) trifecta_gate_message
                 [(''event'', JStr ''armed''), (''armed_by'', JStr ''observed_channel_content''),
                  (''identity_kind'', jopt_str (t_identity_kind t))]
               else returning ()) (\<lambda>_.
          returning g))))"

definition arm_trifecta_if_untrusted ::
  "gate_config \<Rightarrow> task \<Rightarrow> tool_call \<Rightarrow> (gate_world, unit) op" where
  "arm_trifecta_if_untrusted cfg t tc =
     seq (trifecta_state cfg t) (\<lambda>g.
     case note_tool_result (tc_name tc) g of (armed_now, g') \<Rightarrow>
       if \<not> armed_now then returning ()
       else
         seq (put_gate (t_id t) g') (\<lambda>_.
         append_log (t_id t) trifecta_gate_message
           [(''event'', JStr ''armed''), (''armed_by'', JStr (tc_name tc)),
            (''turn'', JInt (tc_turn tc)), (''step_id'', JStr (tc_step_id tc)),
            (''tool_call_id'', JStr (tc_id tc))]))"

text \<open>\<open>has_images\<close> says whether a message of the context package carries an image.\<close>

definition arm_trifecta_if_images :: "gate_config \<Rightarrow> task \<Rightarrow> bool \<Rightarrow> (gate_world, unit) op" where
  "arm_trifecta_if_images cfg t has_images =
     (if \<not> has_images then returning ()
      else
        seq (trifecta_state cfg t) (\<lambda>g.
        case arm ''attached_image'' g of (armed_now, g') \<Rightarrow>
          if \<not> armed_now then returning ()
          else
            seq (put_gate (t_id t) g') (\<lambda>_.
            append_log (t_id t) trifecta_gate_message
              [(''event'', JStr ''armed''), (''armed_by'', JStr ''attached_image'')])))"

definition escalated :: "string \<Rightarrow> requirement \<Rightarrow> requirement" where
  "escalated name r =
     \<lparr>ar_scope = Scope_User,
      ar_reason = name @ '' acts outward after untrusted content entered '' @
        ''this task; confirming before it runs prevents data exfiltration '' @
        ''via injected instructions.'',
      ar_risk = ''trifecta_outward_after_untrusted'', ar_tier = ar_tier r, ar_level = ar_level r,
      ar_reasons = ar_reasons r, ar_audit = False\<rparr>"

definition apply_trifecta_gate ::
  "gate_config \<Rightarrow> task \<Rightarrow> tool_call \<Rightarrow> requirement \<Rightarrow> (gate_world, requirement) op" where
  "apply_trifecta_gate cfg t tc r =
     seq (trifecta_state cfg t) (\<lambda>g.
     if \<not> should_escalate (tc_name tc) g then returning r
     else if ar_scope r \<noteq> Scope_None then returning r
     else
       seq (append_log (t_id t) trifecta_gate_message
         [(''event'', JStr ''escalated''), (''tool'', JStr (tc_name tc)),
          (''armed_by'', jopt_str (gs_armed_by g)),
          (''prior_scope'', JStr (scope_value (ar_scope r))),
          (''escalated_scope'', JStr (scope_value Scope_User)), (''turn'', JInt (tc_turn tc)),
          (''step_id'', JStr (tc_step_id tc)), (''tool_call_id'', JStr (tc_id tc))]) (\<lambda>_.
       returning (escalated (tc_name tc) r)))"

section \<open>Approval before a tool runs\<close>

definition resolve_task_level :: "gate_config \<Rightarrow> task \<Rightarrow> (gate_world, autonomy_level) op" where
  "resolve_task_level cfg t =
     seq (reading (\<lambda>w. map_of (gw_levels w) (t_id t))) (\<lambda>cached. case cached of
       Some l \<Rightarrow> returning l
     | None \<Rightarrow>
         seq (reading (\<lambda>w. resolve_level (gc_default_level cfg) (t_installation t)
                (Some (t_channel t)) (gw_policies w))) (\<lambda>l.
         seq (writing (\<lambda>w. w\<lparr>gw_levels := AList.update (t_id t) l (gw_levels w)\<rparr>)) (\<lambda>_.
         returning l)))"

definition record_autonomy_decision :: "task \<Rightarrow> tool_call \<Rightarrow> requirement \<Rightarrow> (gate_world, unit) op" where
  "record_autonomy_decision t tc r =
     seq (on_db (append_event (t_id t) Log
       [(''message'', JStr tool_autonomy_decision_message), (''tool'', JStr (tc_name tc)),
        (''risk'', jopt_str (map_option tier_value (ar_tier r))),
        (''autonomy_level'', jopt_str (map_option level_value (ar_level r))),
        (''reasons'', JArr (map JStr (ar_reasons r))), (''turn'', JInt (tc_turn tc)),
        (''step_id'', JStr (tc_step_id tc))]))
       (\<lambda>_. returning ())"

text \<open>The newest decision about the key, by the text of its members.\<close>

definition decisions_about :: "string \<Rightarrow> event list \<Rightarrow> event list" where
  "decisions_about key evs =
     filter (\<lambda>e. json_text (jget (e_payload e) ''message'') = Some tool_approval_decision_message \<and>
                 json_text (jget (e_payload e) ''approval_key'') = Some key) evs"

definition approval_is_granted :: "uuid \<Rightarrow> string \<Rightarrow> db \<Rightarrow> bool" where
  "approval_is_granted tid key d =
     (case decisions_about key (log_events_newest_first tid d) of
        [] \<Rightarrow> False
      | e # _ \<Rightarrow> jget (e_payload e) ''decision'' = JStr ''approved'')"

datatype gate_outcome = Proceed | Approval_Required approval_request

definition approval_request_for :: "tool_call \<Rightarrow> requirement \<Rightarrow> approval_request" where
  "approval_request_for tc r =
     \<lparr>rqt_key = approval_key_for (tc_name tc) (tc_args_hash tc), rqt_tool = tc_name tc,
      rqt_call_id = tc_id tc, rqt_args_hash = tc_args_hash tc,
      rqt_argument_keys = sorted_words (map fst (tc_arguments tc)), rqt_scope = ar_scope r,
      rqt_reason = ar_reason r, rqt_risk = ar_risk r, rqt_arguments = tc_arguments tc\<rparr>"

definition required_payload :: "tool_call \<Rightarrow> approval_request \<Rightarrow> jobj" where
  "required_payload tc request =
     [(''message'', JStr tool_approval_required_message), (''turn'', JInt (tc_turn tc)),
      (''step_id'', JStr (tc_step_id tc)), (''request'', JObj (request_payload request))]"

definition raise_if_tool_approval_required ::
  "gate_config \<Rightarrow> (string \<Rightarrow> tool option) \<Rightarrow> task \<Rightarrow> tool_call \<Rightarrow> (gate_world, gate_outcome) op" where
  "raise_if_tool_approval_required cfg registry t tc =
     (case registry (tc_name tc) of
        None \<Rightarrow> returning Proceed
      | Some tool \<Rightarrow>
          seq (resolve_task_level cfg t) (\<lambda>level.
          let assessment = assess_tool_risk tool (tc_arguments tc) in
          seq (apply_trifecta_gate cfg t tc
                 (requirement_for tool (tc_arguments tc) level (Some assessment))) (\<lambda>r.
          if \<not> is_required r then
            seq (if ar_audit r then record_autonomy_decision t tc r else returning ()) (\<lambda>_.
            returning Proceed)
          else
            let key = approval_key_for (tc_name tc) (tc_args_hash tc) in
            seq (reading (\<lambda>w. approval_is_granted (t_id t) key (gw_db w))) (\<lambda>granted.
            if granted then
              seq (append_log (t_id t) ''tool_approval_previously_granted''
                [(''turn'', JInt (tc_turn tc)), (''tool_call_id'', JStr (tc_id tc)),
                 (''tool'', JStr (tc_name tc)), (''step_id'', JStr (tc_step_id tc)),
                 (''approval_key'', JStr key), (''normalized_args_hash'', JStr (tc_args_hash tc)),
                 (''attempt_no'', JInt (tc_attempt_no tc))]) (\<lambda>_.
              returning Proceed)
            else
              let request = approval_request_for tc r in
              seq (on_db (append_event (t_id t) Log (required_payload tc request))) (\<lambda>_.
              returning (Approval_Required request))))))"

section \<open>Facts\<close>

lemma on_db_apply: "on_db m w = (fst (m (gw_db w)), w\<lparr>gw_db := snd (m (gw_db w))\<rparr>)"
  by (simp add: on_db_def split: prod.split)

lemma append_log_apply:
  assumes "task_get tid (gw_db w) = Some t"
  shows "append_log tid message p w =
    (Inr (), w\<lparr>gw_db := add_event tid Log (jmerge [(''message'', JStr message)] p) (gw_db w)\<rparr>)"
  using assms by (simp add: append_log_def seq_apply on_db_apply append_event_simp)

lemma jmerge_Nil [simp]: "jmerge p [] = p"
  by (simp add: jmerge_def)

lemma jget_jmerge_other: "k \<notin> fst ` set q \<Longrightarrow> jget (jmerge p q) k = jget p k"
proof (induction q arbitrary: p)
  case (Cons kv q)
  have "jmerge p (kv # q) = jmerge (AList.update (fst kv) (snd kv) p) q"
    by (simp add: jmerge_def split_beta)
  with Cons show ?case by simp
qed simp

text \<open>The newest-first log after one more entry.\<close>

lemma sorted_seq_log:
  assumes "log_numbered d"
  shows "log_events_newest_first tid d = rev (filter (\<lambda>e. e_type e = Log) (events_of tid d))"
proof -
  have "sorted (map e_seq (events_of tid d))"
    using assms by (simp add: log_numbered_def del: upt_Suc)
  then have "sorted (map e_seq (filter (\<lambda>e. e_type e = Log) (events_of tid d)))"
    by (rule sorted_filter)
  then show ?thesis
    by (simp add: log_events_newest_first_def sorted_sort_id sort_key_id_if_sorted)
qed

end
