(* ===== verification/Gate_Run.thy ===== *)
theory Gate_Run
  imports Tool_Gate
begin

text \<open>
  The runs of \<open>Tool_Gate\<close> in closed form: what each step of the gate writes, and what an
  entry of the task's log does to the decision the gate looks for and to the request the
  repository waits for.
\<close>

section \<open>The decision in the log\<close>

lemma log_newest_add:
  assumes "log_numbered d"
  shows "log_events_newest_first k (add_event tid ty p d) =
    (if k = tid \<and> ty = Log then new_event tid ty p d # log_events_newest_first k d
     else log_events_newest_first k d)"
  using assms
  by (simp add: sorted_seq_log [OF log_numbered_add] sorted_seq_log events_of_add)

lemma log_newest_upd [simp]:
  "log_events_newest_first k (upd_task tid f d) = log_events_newest_first k d"
  by (simp add: log_events_newest_first_def)

abbreviation undeciding :: "jobj \<Rightarrow> bool" where
  "undeciding p \<equiv> json_text (jget p ''message'') \<noteq> Some tool_approval_decision_message"

lemma granted_upd [simp]: "approval_is_granted k key (upd_task tid f d) = approval_is_granted k key d"
  by (simp add: approval_is_granted_def)

lemma granted_add:
  assumes "log_numbered d" and "ty = Log \<longrightarrow> undeciding p"
  shows "approval_is_granted k key (add_event tid ty p d) = approval_is_granted k key d"
  using assms by (simp add: approval_is_granted_def log_newest_add decisions_about_def)

lemma granted_decision:
  assumes "log_numbered d"
  shows "approval_is_granted tid key (add_event tid Log (decision_payload dec key rq u) d) \<longleftrightarrow>
    dec = ''approved''"
  using assms
  by (simp add: approval_is_granted_def log_newest_add decisions_about_def decision_payload_def
      message_defs)

lemma pending_add_required:
  assumes "log_numbered d"
    and "jget p ''message'' = JStr tool_approval_required_message"
    and "jget p ''request'' = JObj rq" and "jget rq ''approval_key'' = JStr key"
    and "key \<notin> set (decided_keys (log_events_newest_first tid d))"
  shows "pending_approval tid (add_event tid Log p d) = Some rq"
  using assms
  by (simp add: pending_approval_def log_newest_add decided_keys_def message_defs)

lemma pending_add_other:
  assumes "log_numbered d"
    and "ty = Log \<longrightarrow> jget p ''message'' \<noteq> JStr tool_approval_required_message \<and>
      jget p ''message'' \<noteq> JStr tool_approval_decision_message"
  shows "pending_approval tid (add_event k ty p d) = pending_approval tid d"
  using assms by (auto simp: pending_approval_def log_newest_add decided_keys_def Let_def)

lemma pending_upd [simp]: "pending_approval k (upd_task tid f d) = pending_approval k d"
  by (simp add: pending_approval_def)

section \<open>The steps of the gate\<close>

text \<open>\<open>settled t w w'\<close>: what the steps before the requirement leave alone.\<close>

definition settled :: "gate_world \<Rightarrow> gate_world \<Rightarrow> bool" where
  "settled w w' \<longleftrightarrow>
     gw_policies w' = gw_policies w \<and>
     (\<forall>k. task_get k (gw_db w') = task_get k (gw_db w)) \<and>
     (log_numbered (gw_db w) \<longrightarrow> log_numbered (gw_db w') \<and>
        (\<forall>k key. approval_is_granted k key (gw_db w') = approval_is_granted k key (gw_db w)) \<and>
        (\<forall>k. decided_keys (log_events_newest_first k (gw_db w')) =
             decided_keys (log_events_newest_first k (gw_db w))))"

lemma settled_refl [simp]: "settled w w"
  by (simp add: settled_def)

lemma settled_trans: "settled w w1 \<Longrightarrow> settled w1 w2 \<Longrightarrow> settled w w2"
  by (simp add: settled_def)

lemma settled_memory [simp]:
  "settled w (w\<lparr>gw_gates := gs\<rparr>)" "settled w (w\<lparr>gw_levels := ls\<rparr>)"
  by (simp_all add: settled_def)

lemma settled_log:
  assumes "undeciding p"
  shows "settled w (w\<lparr>gw_db := add_event tid Log p (gw_db w)\<rparr>)"
proof -
  have "jget p ''message'' \<noteq> JStr tool_approval_decision_message" using assms by auto
  with assms show ?thesis
    by (auto simp: settled_def granted_add log_numbered_add log_newest_add decided_keys_def)
qed

lemma settled_append_log:
  assumes "task_get tid (gw_db w) \<noteq> None" and "''message'' \<notin> fst ` set p"
    and "message \<noteq> tool_approval_decision_message"
  shows "fst (append_log tid message p w) = Inr () \<and> settled w (snd (append_log tid message p w))"
proof -
  obtain t where "task_get tid (gw_db w) = Some t" using assms(1) by blast
  moreover have "undeciding (jmerge [(''message'', JStr message)] p)"
    using assms(2,3) by (simp add: jget_jmerge_other)
  ultimately show ?thesis by (simp add: append_log_apply settled_log)
qed


lemma trifecta_state_known:
  "map_of (gw_gates w) (t_id t) = Some g \<Longrightarrow> trifecta_state cfg t w = (Inr g, w)"
  by (simp add: trifecta_state_def seq_apply)

lemma trifecta_state_run:
  assumes "task_get (t_id t) (gw_db w) \<noteq> None"
  shows "\<exists>g w'. trifecta_state cfg t w = (Inr g, w') \<and> settled w w' \<and>
    gw_levels w' = gw_levels w \<and> map_of (gw_gates w') (t_id t) = Some g"
proof (cases "map_of (gw_gates w) (t_id t)")
  case (Some g)
  then show ?thesis using trifecta_state_known by (metis settled_refl)
next
  case None
  define start where "start = (t_identity_kind t = Some ''synthetic'')"
  define g where "g = new_gate (gc_trifecta_enabled cfg) start"
  define w1 where "w1 = w\<lparr>gw_gates := AList.update (t_id t) g (gw_gates w)\<rparr>"
  define entry where "entry = [(''event'', JStr ''armed''), (''armed_by'', JStr ''observed_channel_content''),
      (''identity_kind'', jopt_str (t_identity_kind t))]"
  have w1: "gw_db w1 = gw_db w" "gw_levels w1 = gw_levels w" "settled w w1"
    "map_of (gw_gates w1) (t_id t) = Some g"
    by (simp_all add: w1_def update_conv')
  have log: "fst (append_log (t_id t) trifecta_gate_message entry w1) = Inr () \<and>
      settled w1 (snd (append_log (t_id t) trifecta_gate_message entry w1))"
    by (rule settled_append_log)
      (use assms w1 in \<open>simp_all add: entry_def trifecta_gate_message_def message_defs\<close>)
  have memory: "gw_gates (snd (append_log k m q v)) = gw_gates v"
      "gw_levels (snd (append_log k m q v)) = gw_levels v" for k m q v
    by (auto simp: append_log_def seq_apply on_db_apply split: prod.splits sum.splits)
  have run: "trifecta_state cfg t w =
      (if start \<and> gc_trifecta_enabled cfg
       then (Inr g, snd (append_log (t_id t) trifecta_gate_message entry w1)) else (Inr g, w1))"
    using None log
    by (simp add: trifecta_state_def put_gate_def Let_def seq_apply
        flip: start_def g_def w1_def entry_def split: prod.split sum.split)
       (auto simp: seq_apply split: prod.split)
  show ?thesis
    using run w1 log settled_trans memory by (cases "start \<and> gc_trifecta_enabled cfg") auto
qed

text \<open>The level is read from memory or from the policies, and only the memory changes.\<close>

lemma resolve_task_level_run:
  "\<exists>l ls. resolve_task_level cfg t w = (Inr l, w\<lparr>gw_levels := ls\<rparr>)"
proof (cases "map_of (gw_levels w) (t_id t)")
  case (Some l)
  then have "resolve_task_level cfg t w = (Inr l, w\<lparr>gw_levels := gw_levels w\<rparr>)"
    by (simp add: resolve_task_level_def seq_apply)
  then show ?thesis by blast
qed (simp add: resolve_task_level_def seq_apply, blast)

text \<open>The gate only ever adds a requirement: it leaves one that exists, and asks the user when
  it is armed and the tool acts outward.\<close>

lemma apply_trifecta_gate_run:
  assumes get: "task_get (t_id t) (gw_db w) \<noteq> None"
    and gate: "trifecta_state cfg t w = (Inr g, w1)"
  shows "\<exists>w2. apply_trifecta_gate cfg t tc r w =
      (Inr (if should_escalate (tc_name tc) g \<and> \<not> is_required r then escalated (tc_name tc) r else r), w2) \<and>
    settled w w2"
proof -
  have s: "settled w w1" and get1: "task_get (t_id t) (gw_db w1) \<noteq> None"
    using trifecta_state_run [OF get, of cfg] gate get by (auto simp: settled_def)
  define entry where "entry = [(''event'', JStr ''escalated''), (''tool'', JStr (tc_name tc)),
          (''armed_by'', jopt_str (gs_armed_by g)),
          (''prior_scope'', JStr (scope_value (ar_scope r))),
          (''escalated_scope'', JStr (scope_value Scope_User)), (''turn'', JInt (tc_turn tc)),
          (''step_id'', JStr (tc_step_id tc)), (''tool_call_id'', JStr (tc_id tc))]"
  define w2 where "w2 = snd (append_log (t_id t) trifecta_gate_message entry w1)"
  have "fst (append_log (t_id t) trifecta_gate_message entry w1) = Inr () \<and> settled w1 w2"
    unfolding w2_def by (rule settled_append_log)
      (use get1 in \<open>simp_all add: entry_def trifecta_gate_message_def message_defs\<close>)
  then have "append_log (t_id t) trifecta_gate_message entry w1 = (Inr (), w2)" "settled w1 w2"
    by (simp_all add: w2_def prod_eq_iff)
  moreover have "apply_trifecta_gate cfg t tc r w =
      (if should_escalate (tc_name tc) g \<and> \<not> is_required r
       then seq (append_log (t_id t) trifecta_gate_message entry)
              (\<lambda>_. returning (escalated (tc_name tc) r)) w1
       else (Inr r, w1))"
    using gate by (simp add: apply_trifecta_gate_def seq_apply is_required_def entry_def)
  ultimately show ?thesis using s settled_trans [OF s] by (simp add: seq_apply)
qed

lemma escalated_required [simp]: "is_required (escalated name r)"
  by (simp add: escalated_def is_required_def)

section \<open>Runs of the whole check\<close>

definition call_requirement :: "tool \<Rightarrow> tool_call \<Rightarrow> autonomy_level \<Rightarrow> requirement" where
  "call_requirement tool tc level =
     requirement_for tool (tc_arguments tc) level (Some (assess_tool_risk tool (tc_arguments tc)))"

text \<open>The requirement the check works with, after the gate.\<close>

definition gated_requirement :: "tool \<Rightarrow> tool_call \<Rightarrow> autonomy_level \<Rightarrow> gate_state \<Rightarrow> requirement" where
  "gated_requirement tool tc level g =
     (let r = call_requirement tool tc level in
      if should_escalate (tc_name tc) g \<and> \<not> is_required r then escalated (tc_name tc) r else r)"

lemma gated_required:
  "is_required (gated_requirement tool tc level g) \<longleftrightarrow>
     is_required (call_requirement tool tc level) \<or> should_escalate (tc_name tc) g"
  by (auto simp: gated_requirement_def Let_def)

abbreviation call_key :: "tool_call \<Rightarrow> string" where
  "call_key tc \<equiv> approval_key_for (tc_name tc) (tc_args_hash tc)"

lemma raise_if_run:
  assumes reg: "registry (tc_name tc) = Some tool"
    and get: "task_get (t_id t) (gw_db w) \<noteq> None"
    and level: "resolve_task_level cfg t w = (Inr level, w1)"
    and gate: "trifecta_state cfg t w1 = (Inr g, w2)"
    and num: "log_numbered (gw_db w)"
  defines "r \<equiv> gated_requirement tool tc level g"
    and "ok \<equiv> approval_is_granted (t_id t) (call_key tc) (gw_db w)"
  shows "\<exists>w3. settled w w3 \<and>
    fst (raise_if_tool_approval_required cfg registry t tc w) =
      Inr (if is_required r \<and> \<not> ok then Approval_Required (approval_request_for tc r) else Proceed) \<and>
    (is_required r \<and> \<not> ok \<longrightarrow>
       snd (raise_if_tool_approval_required cfg registry t tc w) =
         w3\<lparr>gw_db := add_event (t_id t) Log
           (required_payload tc (approval_request_for tc r)) (gw_db w3)\<rparr>)"
proof -
  obtain ls where w1: "w1 = w\<lparr>gw_levels := ls\<rparr>"
    using resolve_task_level_run [of cfg t w] level by auto
  then have get1: "task_get (t_id t) (gw_db w1) \<noteq> None" and s1: "settled w w1" using get by simp_all
  obtain w3 where gated: "apply_trifecta_gate cfg t tc (call_requirement tool tc level) w1 = (Inr r, w3)"
    and s3: "settled w1 w3"
    using apply_trifecta_gate_run [OF get1 gate, of tc "call_requirement tool tc level"]
    by (auto simp: r_def gated_requirement_def Let_def)
  have s: "settled w w3" by (rule settled_trans [OF s1 s3])
  then obtain row where row: "task_get (t_id t) (gw_db w3) = Some row"
    and same: "approval_is_granted (t_id t) (call_key tc) (gw_db w3) = ok"
    using get num by (auto simp: settled_def ok_def)
  have unfolded: "raise_if_tool_approval_required cfg registry t tc w =
     (if \<not> is_required r then
        seq (if ar_audit r then record_autonomy_decision t tc r else returning ()) (\<lambda>_.
          returning Proceed) w3
      else if ok then
        seq (append_log (t_id t) ''tool_approval_previously_granted''
          [(''turn'', JInt (tc_turn tc)), (''tool_call_id'', JStr (tc_id tc)),
           (''tool'', JStr (tc_name tc)), (''step_id'', JStr (tc_step_id tc)),
           (''approval_key'', JStr (call_key tc)), (''normalized_args_hash'', JStr (tc_args_hash tc)),
           (''attempt_no'', JInt (tc_attempt_no tc))]) (\<lambda>_. returning Proceed) w3
      else
        seq (on_db (append_event (t_id t) Log (required_payload tc (approval_request_for tc r)))) (\<lambda>_.
          returning (Approval_Required (approval_request_for tc r))) w3)"
    using level gated same
    by (simp add: raise_if_tool_approval_required_def reg seq_apply Let_def
        flip: call_requirement_def)
  have "fst (record_autonomy_decision t tc r w3) = Inr ()"
    using row by (simp add: record_autonomy_decision_def seq_apply on_db_apply append_event_simp)
  then have "fst (seq (if ar_audit r then record_autonomy_decision t tc r else returning ()) (\<lambda>_.
          returning Proceed) w3) = Inr Proceed"
    by (auto simp: seq_apply split: prod.split sum.split)
  then show ?thesis
    using s row
    by (intro exI [of _ w3]) (simp add: unfolded seq_apply append_log_apply on_db_apply append_event_simp)
qed

end
