(* ===== verification/Gate_Properties.thy ===== *)
theory Gate_Properties
  imports Gate_Run Task_Properties
begin

text \<open>
  The properties of tool risk, approval policy, trifecta gate and autonomy levels, and of the
  approval round trip through gate, task repository and gate again.
\<close>

section \<open>Risk\<close>

lemma classify_no_args: "ra_tier (classify_tool_risk m []) = fst (base_tier m)"
  by (simp add: classify_tool_risk_def Let_def split: prod.splits)

lemma base_tier_effect:
  "tm_side_effect m = Destructive \<Longrightarrow> fst (base_tier m) = Explicit"
  "tm_side_effect m = Write \<Longrightarrow> fst (base_tier m) \<noteq> Free"
  by (auto simp: base_tier_def Let_def)

lemma destructive_explicit:
  "tm_side_effect m = Destructive \<Longrightarrow> ra_tier (classify_tool_risk m args) = Explicit"
  using classify_base [of m args] base_tier_effect(1) [of m] by (simp add: tier_Explicit)

lemma write_not_free:
  "tm_side_effect m = Write \<Longrightarrow> ra_tier (classify_tool_risk m args) \<noteq> Free"
  using classify_base [of m args] base_tier_effect(2) [of m] by (cases "fst (base_tier m)") auto

text \<open>Metadata sets a floor no argument can lower: a destructive tool is explicit and a
  writing tool never free, whatever its arguments, and arguments only ever raise the tier.\<close>

theorem risk_floor:
  "(tm_side_effect m = Destructive \<longrightarrow> ra_tier (classify_tool_risk m args) = Explicit) \<and>
   (tm_side_effect m = Write \<longrightarrow> ra_tier (classify_tool_risk m args) \<noteq> Free) \<and>
   tier_order (ra_tier (classify_tool_risk m [])) \<le> tier_order (ra_tier (classify_tool_risk m args))"
  using write_not_free [of m args] destructive_explicit [of m args] classify_base [of m args]
  by (simp add: classify_no_args)

definition shell_metadata :: tool_metadata where
  "shell_metadata = tool_metadata_of ''run'' ''external.tool'' ''External'' ''run'' [] Destructive"

lemma risk_floor_witness:
  "ra_tier (classify_tool_risk shell_metadata [(''cmd'', JStr ''ls'')]) = Explicit"
  using risk_floor [of shell_metadata "[(''cmd'', JStr ''ls'')]"]
  by (simp add: shell_metadata_def tool_metadata_of_def)

lemma looks_like_sql_Nil: "\<not> looks_like_sql []"
  by code_simp

lemma inspect_sql:
  assumes "\<not> looks_like_http_method_key key" and "looks_like_sql (strip raw)"
    and "sql_tier (strip raw) = Some (t, rs)"
  shows "tier_order t \<le> tier_order (fst (inspect_text key raw acc))"
proof -
  have "strip raw \<noteq> []" using assms(2) looks_like_sql_Nil by auto
  with assms show ?thesis by (simp add: inspect_text_def max_tier_def Let_def)
qed

text \<open>A SQL argument whose statement starts with a destructive verb, or with a common table
  expression that mentions one anywhere, makes the call explicit, whatever the tool and the
  other arguments.\<close>

theorem destructive_sql_is_explicit:
  assumes "(key, JStr raw) \<in> set args" and "\<not> looks_like_http_method_key key"
    and "leading_token (strip (strip_comments (strip raw))) = Some verb"
    and "casefold verb \<in> set sql_explicit_verbs \<or>
      (casefold verb = ''with'' \<and>
       set (words_of (strip (strip_comments (strip raw)))) \<inter> set sql_explicit_verbs \<noteq> {})"
  shows "ra_tier (classify_tool_risk m args) = Explicit"
proof -
  let ?cleaned = "strip (strip_comments (strip raw))"
  have ne: "?cleaned \<noteq> []" using assms(3) by (auto simp: leading_token_def)
  have known: "casefold verb \<in> set sql_free_verbs \<or> casefold verb \<in> set sql_explicit_verbs"
    using assms(4) by (auto simp: sql_free_verbs_def)
  then have sql: "looks_like_sql (strip raw)"
    using assms(3) ne by (auto simp: looks_like_sql_def Let_def)
  have with_not: "''with'' \<notin> set sql_explicit_verbs" "''with'' \<notin> set sql_implicit_verbs"
    by (simp_all add: sql_explicit_verbs_def sql_implicit_verbs_def)
  have "\<exists>rs. sql_tier (strip raw) = Some (Explicit, rs)"
  proof (cases "casefold verb \<in> set sql_explicit_verbs")
    case True
    then show ?thesis using assms(3) by (simp add: sql_tier_def)
  next
    case False
    with assms(4) have w: "casefold verb = ''with''"
      and hits: "set (words_of ?cleaned) \<inter> set sql_explicit_verbs \<noteq> {}" by auto
    have "\<exists>rs. sql_cte_tier ?cleaned = (Explicit, rs)"
      using hits by (simp add: sql_cte_tier_def)
    then show ?thesis using assms(3) w with_not by (simp add: sql_tier_def)
  qed
  then obtain rs where tier: "sql_tier (strip raw) = Some (Explicit, rs)" by blast
  have "2 \<le> tier_order (fst (inspect_args args (base_tier m)))"
    by (rule inspect_args_arg [OF assms(1)]) (use inspect_sql [OF assms(2) sql tier] in simp)
  then show ?thesis using classify_mono [of args m] by (simp flip: tier_Explicit)
qed

definition reader_metadata :: tool_metadata where
  "reader_metadata = tool_metadata_of ''warehouse_query'' ''external.tool'' ''External''
     ''warehouse_query'' [] Read"

lemma sample_cte:
  "leading_token (strip (strip_comments (strip ''WITH x AS (DELETE FROM t) SELECT 1''))) = Some ''WITH''"
  "''delete'' \<in> set (words_of (strip (strip_comments (strip ''WITH x AS (DELETE FROM t) SELECT 1''))))"
  by code_simp+

lemma destructive_sql_is_explicit_witness:
  "ra_tier (classify_tool_risk reader_metadata
     [(''query'', JStr ''WITH x AS (DELETE FROM t) SELECT 1'')]) = Explicit"
proof (rule destructive_sql_is_explicit [of "''query''"])
  show "(''query'', JStr ''WITH x AS (DELETE FROM t) SELECT 1'')
      \<in> set [(''query'', JStr ''WITH x AS (DELETE FROM t) SELECT 1'')]" by simp
  show "\<not> looks_like_http_method_key ''query''" by (simp add: looks_like_http_method_key_def)
  show "leading_token (strip (strip_comments (strip ''WITH x AS (DELETE FROM t) SELECT 1''))) =
      Some ''WITH''" by (rule sample_cte)
  have "''delete'' \<in> set sql_explicit_verbs" by (simp add: sql_explicit_verbs_def)
  with sample_cte(2) show "casefold ''WITH'' \<in> set sql_explicit_verbs \<or>
      (casefold ''WITH'' = ''with'' \<and>
       set (words_of (strip (strip_comments (strip ''WITH x AS (DELETE FROM t) SELECT 1''))))
         \<inter> set sql_explicit_verbs \<noteq> {})" by auto
qed

lemma letter_lower: "lower_char c \<in> set ''abcdefghijklmnopqrstuvwxyz'' \<Longrightarrow> is_letter c"
  unfolding is_letter_def by (cases c) (auto split: if_splits)

lemma letter_plain: "is_letter c \<Longrightarrow> \<not> is_space c \<and> c \<noteq> CHR ''-'' \<and> c \<noteq> CHR ''/''"
  by (auto simp: is_letter_def is_space_def whitespace_chars_def)

lemma strip_comments_letters:
  "\<forall>c \<in> set v. is_letter c \<Longrightarrow> strip_comments (v @ s) = v @ strip_comments s"
  using letter_plain by (induction v) auto

lemma strip_letters:
  assumes "\<forall>c \<in> set v. is_letter c" and "v \<noteq> []"
  shows "strip (v @ s) = v @ rstrip s"
proof -
  have "lstrip (v @ s) = v @ s"
    using assms letter_plain by (cases v) (simp_all add: lstrip_def)
  moreover have "dropWhile is_space (rev v) = rev v"
    using assms letter_plain by (cases v rule: rev_cases) simp_all
  ultimately show ?thesis
    by (cases "\<forall>c \<in> set s. is_space c") (auto simp: strip_def rstrip_def dropWhile_append)
qed

lemma prefix_head:
  "r @ u = s \<Longrightarrow> s = [] \<or> (\<exists>t. s = x # t) \<Longrightarrow> r = [] \<or> (\<exists>t. r = x # t)"
  by (cases r) auto

lemma rstrip_blank:
  assumes "s = [] \<or> (\<exists>t. s = CHR '' '' # t)"
  shows "rstrip s = [] \<or> (\<exists>t. rstrip s = CHR '' '' # t)"
proof -
  have "rstrip s @ rev (takeWhile is_space (rev s)) = s"
    by (metis rstrip_def rev_append rev_rev_ident takeWhile_dropWhile_id)
  then show ?thesis by (rule prefix_head) (rule assms)
qed

lemma leading_letters:
  assumes "\<forall>c \<in> set v. is_letter c" and "v \<noteq> []" and "s = [] \<or> (\<exists>t. s = CHR '' '' # t)"
  shows "leading_token (strip (strip_comments (v @ s))) = Some v"
proof -
  have "strip_comments s = [] \<or> (\<exists>t. strip_comments s = CHR '' '' # t)"
    using assms(3) by auto
  then have cut: "rstrip (strip_comments s) = [] \<or> (\<exists>t. rstrip (strip_comments s) = CHR '' '' # t)"
    by (rule rstrip_blank)
  have "takeWhile token_char (v @ rstrip (strip_comments s)) = v"
  proof -
    have "\<forall>c \<in> set v. token_char c" using assms(1) by (simp add: token_char_def)
    moreover have "\<not> token_char (CHR '' '')" by code_simp
    ultimately show ?thesis using cut by (elim disjE exE) (simp_all add: takeWhile_append2)
  qed
  then show ?thesis
    using assms(1,2) by (simp add: leading_token_def strip_comments_letters strip_letters)
qed

lemma free_verb_letters:
  assumes "casefold verb \<in> {''select'', ''explain'', ''show''}"
  shows "\<forall>c \<in> set verb. is_letter c" "verb \<noteq> []"
proof -
  have "\<forall>c \<in> set (casefold verb). c \<in> set ''abcdefghijklmnopqrstuvwxyz''" using assms by auto
  then show "\<forall>c \<in> set verb. is_letter c" using letter_lower by (auto simp: casefold_def simp del: set_simps)
  show "verb \<noteq> []" using assms by auto
qed

lemma inspect_free_verb:
  assumes "casefold verb \<in> {''select'', ''explain'', ''show''}" and "\<not> looks_like_http_method_key key"
  shows "fst (inspect_text key (verb @ '' '' @ rest) acc) = fst acc"
proof -
  note letters = free_verb_letters [OF assms(1)]
  let ?text = "strip (verb @ '' '' @ rest)"
  have whole: "?text = verb @ rstrip ('' '' @ rest)" by (rule strip_letters [OF letters])
  have lead: "leading_token (strip (strip_comments ?text)) = Some verb"
    unfolding whole by (rule leading_letters [OF letters rstrip_blank]) simp
  then have ne: "strip (strip_comments ?text) \<noteq> []" by (auto simp: leading_token_def)
  have sql: "looks_like_sql ?text" "sql_tier ?text = Some (Free, [''sql_verb:'' @ casefold verb])"
    using lead ne assms(1) by (auto simp: looks_like_sql_def sql_tier_def Let_def verb_defs)
  moreover have "?text \<noteq> []" using letters(2) whole by simp
  ultimately show ?thesis
    using assms(2) by (cases "fst acc") (simp_all add: inspect_text_def Let_def max_tier_def)
qed

lemma inspect_args_append: "inspect_args (xs @ ys) acc = inspect_args ys (inspect_args xs acc)"
  by (induction xs acc rule: inspect_args.induct) simp_all

lemma classify_Free: "ra_tier (classify_tool_risk m args) = Free \<longleftrightarrow> fst (inspect_args args (base_tier m)) = Free"
  by (auto simp: classify_tool_risk_def Let_def escalate_def split: option.split)

text \<open>C11. Only the leading verb of a statement counts: in a text that starts with \<open>SELECT\<close>, \<open>EXPLAIN\<close> or
  \<open>SHOW\<close>, in any case of the letters, nothing that follows the blank after it is looked at. Adding such a
  text to the arguments of a call, under a key that does not name an HTTP method, never makes a
  free call anything else, also when a destructive statement follows or stands under \<open>EXPLAIN ANALYZE\<close>.\<close>

theorem benign_prefix_hides_mutation:
  assumes "casefold verb \<in> {''select'', ''explain'', ''show''}" and "\<not> looks_like_http_method_key key"
  shows "ra_tier (classify_tool_risk m (args @ [(key, JStr (verb @ '' '' @ rest))])) = Free \<longleftrightarrow>
    ra_tier (classify_tool_risk m args) = Free"
  using inspect_free_verb [OF assms] by (simp add: classify_Free inspect_args_append)

lemma benign_prefix_hides_mutation_witness:
  "ra_tier (classify_tool_risk reader_metadata [(''query'', JStr ''SELECT 1; DROP TABLE users'')]) = Free \<and>
   ra_tier (classify_tool_risk reader_metadata [(''query'', JStr ''Explain ANALYZE DELETE FROM t'')]) = Free \<and>
   ra_tier (classify_tool_risk reader_metadata [(''query'', JStr ''please drop users'')]) = Explicit"
proof -
  have key: "\<not> looks_like_http_method_key ''query''" by (simp add: looks_like_http_method_key_def)
  have base: "ra_tier (classify_tool_risk reader_metadata []) = Free" by code_simp
  have plain: "ra_tier (classify_tool_risk reader_metadata [(''query'', JStr ''please drop users'')]) = Explicit"
    by code_simp
  show ?thesis
    using benign_prefix_hides_mutation [OF _ key, of "''SELECT''" reader_metadata "[]" "''1; DROP TABLE users''"]
      benign_prefix_hides_mutation [OF _ key, of "''Explain''" reader_metadata "[]" "''ANALYZE DELETE FROM t''"]
      base plain by simp
qed
section \<open>The approval policy\<close>

lemma in_names_where: "m \<in> set native_tools \<Longrightarrow> tm_name m \<in> set (names_where p) \<longleftrightarrow> p m"
proof -
  assume m: "m \<in> set native_tools"
  have "inj_on tm_name (set native_tools)"
    using native_tool_names_distinct by (simp add: distinct_map)
  with m show ?thesis by (auto simp: names_where_def dest: inj_onD)
qed

lemma names_where_native: "name \<in> set (names_where p) \<Longrightarrow> native_metadata name \<noteq> None"
  by (auto simp: names_where_def native_metadata_in)

lemmas name_set_defs =
  read_only_native_tools_def self_gated_native_tools_def low_risk_native_write_tools_def
  auto_approved_native_tools_def user_approval_native_tools_def admin_approval_native_tools_def
  read_only_native_tool_names_def native_tool_names_by_approval_def
  low_risk_native_write_tool_names_def auto_approved_native_tool_names_def

lemma native_gated_names:
  assumes "m \<in> set native_tools"
  shows "\<not> (tm_side_effect m = Read \<or> tm_approval m = Self_Gated \<or> tm_approval m = No_Approval) \<longleftrightarrow>
    tm_name m \<in> {''deploy_site'', ''forget_fact'', ''codeact_exec''}"
proof -
  have "list_all (\<lambda>(n, ns, e, a). \<not> (e = Read \<or> a = Self_Gated \<or> a = No_Approval) \<longleftrightarrow>
      n \<in> {''deploy_site'', ''forget_fact'', ''codeact_exec''})
      (map (\<lambda>m. (tm_name m, tm_namespace m, tm_side_effect m, tm_approval m)) native_tools)"
    unfolding native_profile by simp
  with assms show ?thesis by (auto simp: list_all_iff)
qed

lemma native_required_iff:
  assumes "m \<in> set native_tools" and "to_name t = tm_name m"
  shows "is_required (requirement_for t args level risk) \<longleftrightarrow>
    tm_name m \<in> {''deploy_site'', ''forget_fact'', ''codeact_exec''}"
proof -
  have lower: "casefold (to_name t) = tm_name m"
    using assms native_tool_names_lower by (auto simp: list_all_iff)
  have "is_required (requirement_for t args level risk) \<longleftrightarrow>
      \<not> (tm_side_effect m = Read \<or> tm_approval m = Self_Gated \<or> tm_approval m = No_Approval)"
    by (cases "tm_approval m")
       (simp_all add: requirement_for_def Let_def lower name_set_defs in_names_where [OF assms(1)]
        is_required_def no_approval_required_def plain_requirement_def)
  then show ?thesis using native_gated_names [OF assms(1)] by simp
qed

text \<open>A native tool needs an approval exactly when it is the site deployment, the
  forgetting of a fact or the code-act bridge, at every autonomy level and for all arguments
  and risks; in particular the sandbox workbench tools never do.\<close>

theorem native_gates:
  assumes "m \<in> set native_tools" and "to_name t = tm_name m"
  shows "is_required (requirement_for t args level risk) \<longleftrightarrow>
    tm_name m \<in> {''deploy_site'', ''forget_fact'', ''codeact_exec''}"
  using assms by (rule native_required_iff)

definition bash_tool :: tool where
  "bash_tool = \<lparr>to_name = ''sandbox_bash'', to_description = ''run a command'', to_parameters = [],
     to_inner = None, to_server = None, to_bypass_allowed = True\<rparr>"

lemma bash_metadata: "\<exists>m. m \<in> set native_tools \<and> tm_name m = ''sandbox_bash''"
proof -
  have "''sandbox_bash'' \<in> fst ` set (map (\<lambda>m. (tm_name m, tm_namespace m, tm_side_effect m, tm_approval m)) native_tools)"
    unfolding native_profile by simp
  then show ?thesis by auto
qed

lemma native_gates_witness:
  "\<not> is_required (requirement_for bash_tool [(''command'', JStr ''rm -rf /'')] Conservative None)"
proof -
  obtain m where m: "m \<in> set native_tools" "tm_name m = ''sandbox_bash''" using bash_metadata by blast
  have "to_name bash_tool = tm_name m" by (simp add: bash_tool_def m)
  from native_gates [OF m(1) this] m(2) show ?thesis by simp
qed

lemma ladder_requirement_shape:
  assumes "native_metadata (casefold (to_name t)) = None"
  shows "ar_scope (requirement_for t args level None) =
      (case ra_tier (assess_tool_risk t args) of Free \<Rightarrow> Scope_None | Explicit \<Rightarrow> Scope_User
       | Implicit \<Rightarrow> if level = Conservative then Scope_User else Scope_None) \<and>
    ar_audit (requirement_for t args level None) =
      (ra_tier (assess_tool_risk t args) = Implicit \<and> level \<noteq> Conservative)"
proof -
  have none: "casefold (to_name t) \<notin> set (names_where p)" for p
    using assms(1) names_where_native by blast
  show ?thesis
    by (cases "ra_tier (assess_tool_risk t args)")
       (simp_all add: requirement_for_def Let_def name_set_defs none requirement_from_ladder_def
        ladder_requirement_def)
qed

text \<open>Every other tool goes through the ladder: a free call runs, an explicit one needs the
  user at every level, an implicit one needs the user only under the conservative level and
  is otherwise run and audited.\<close>

theorem ladder_matrix:
  assumes "native_metadata (casefold (to_name t)) = None"
  shows "ar_scope (requirement_for t args level None) =
      (case ra_tier (assess_tool_risk t args) of Free \<Rightarrow> Scope_None | Explicit \<Rightarrow> Scope_User
       | Implicit \<Rightarrow> if level = Conservative then Scope_User else Scope_None) \<and>
    ar_audit (requirement_for t args level None) =
      (ra_tier (assess_tool_risk t args) = Implicit \<and> level \<noteq> Conservative)"
  using assms by (rule ladder_requirement_shape)

definition mail_tool :: tool where
  "mail_tool = \<lparr>to_name = ''composio_gmail_send_email'', to_description = ''Sends a mail.'',
     to_parameters = [], to_inner = None, to_server = None, to_bypass_allowed = True\<rparr>"

lemma mail_not_native: "native_metadata (casefold (to_name mail_tool)) = None"
proof -
  have "''composio_gmail_send_email'' \<notin> fst ` set (map (\<lambda>m. (tm_name m, tm_namespace m, tm_side_effect m, tm_approval m)) native_tools)"
    unfolding native_profile by simp
  then have "\<forall>m \<in> set native_tools. tm_name m \<noteq> ''composio_gmail_send_email''" by force
  then show ?thesis by (auto simp: native_metadata_def find_None_iff mail_tool_def)
qed

lemma ladder_matrix_witness:
  "ar_audit (requirement_for mail_tool [] Balanced None) \<longleftrightarrow>
     ra_tier (assess_tool_risk mail_tool []) = Implicit"
  using ladder_matrix [OF mail_not_native] by simp

text \<open>A read-only claim that must not be honoured is not: when the bypass flag of an external
  tool is off, its calls are never free, so under the conservative level all of them need an
  approval.\<close>

theorem untrusted_read_claim_gated:
  assumes "native_metadata (to_name t) = None" and "native_metadata (casefold (to_name t)) = None"
    and "\<not> to_bypass_allowed t"
  shows "ra_tier (assess_tool_risk t args) \<noteq> Free \<and>
    is_required (requirement_for t args Conservative None)"
proof -
  obtain effect caps where shape: "external_tool_risk_shape t = (effect, caps)"
    by (cases "external_tool_risk_shape t")
  then have "effect \<noteq> Read"
    using assms(3) by (auto simp: external_tool_risk_shape_def Let_def split: if_splits)
  then have tier: "ra_tier (assess_tool_risk t args) \<noteq> Free"
    by (cases effect)
       (auto simp: assess_tool_risk_def assms(1) shape tool_metadata_of_def write_not_free
          destructive_explicit)
  have "ar_scope (requirement_for t args Conservative None) = Scope_User"
    using ladder_requirement_shape [OF assms(2)] tier by (cases "ra_tier (assess_tool_risk t args)") auto
  with tier show ?thesis by (simp add: is_required_def)
qed

definition drifted_tool :: tool where
  "drifted_tool = mail_tool\<lparr>to_server := Some (Some True, None), to_bypass_allowed := False\<rparr>"

lemma untrusted_read_claim_gated_witness:
  "is_required (requirement_for drifted_tool [] Conservative None)"
proof -
  have same: "to_name drifted_tool = to_name mail_tool" "\<not> to_bypass_allowed drifted_tool"
    by (simp_all add: drifted_tool_def)
  have "casefold (to_name mail_tool) = to_name mail_tool" by (simp add: mail_tool_def)
  with mail_not_native untrusted_read_claim_gated [of drifted_tool "[]"] same show ?thesis by simp
qed

section \<open>The trifecta gate\<close>

text \<open>The gate of a task arms exactly when it is enabled and some untrusted content came in,
  never disarms, and reports the arming exactly once.\<close>

theorem gate_arms_once:
  assumes "gate_run inputs g = (reports, g')"
  shows "(gs_armed g' \<longleftrightarrow> gs_armed g \<or> (gs_enabled g \<and> list_ex arms inputs)) \<and>
    gs_enabled g' = gs_enabled g \<and>
    length (filter id reports) = (if gs_armed g' \<and> \<not> gs_armed g then 1 else 0)"
  using gate_run_armed_iff [OF assms] gate_run_once [OF assms] by simp

lemma gate_arms_once_witness:
  "length (filter id (fst (gate_run
     [Tool_Ran ''slack_add_reaction'', Tool_Ran ''web_search'', Tool_Ran ''mcp__x'']
     (new_gate True False)))) = 1"
proof -
  let ?is = "[Tool_Ran ''slack_add_reaction'', Tool_Ran ''web_search'', Tool_Ran ''mcp__x'']"
  obtain bs g' where run: "gate_run ?is (new_gate True False) = (bs, g')" by (cases "gate_run ?is (new_gate True False)")
  have "is_untrusted_origin_tool ''web_search''" by code_simp
  then have "list_ex arms ?is" by simp
  with gate_arms_once [OF run] run show ?thesis by (simp add: new_gate_def)
qed

text \<open>C12. A call of a registered tool goes ahead exactly when its key was approved last, or when
  neither the policy at the task's level asks for an approval nor the armed gate stops the
  tool.\<close>

theorem proceeds_iff_authorised:
  assumes "registry (tc_name tc) = Some tool" and "task_get (t_id t) (gw_db w) \<noteq> None"
    and "resolve_task_level cfg t w = (Inr level, w1)"
    and "trifecta_state cfg t w1 = (Inr g, w2)" and "log_numbered (gw_db w)"
  shows "fst (raise_if_tool_approval_required cfg registry t tc w) = Inr Proceed \<longleftrightarrow>
    approval_is_granted (t_id t) (approval_key_for (tc_name tc) (tc_args_hash tc)) (gw_db w) \<or>
    (\<not> is_required (requirement_for tool (tc_arguments tc) level
         (Some (assess_tool_risk tool (tc_arguments tc)))) \<and>
     \<not> should_escalate (tc_name tc) g)"
  using raise_if_run [of registry tc, OF assms] by (auto simp: gated_required call_requirement_def)

definition quiet_config :: gate_config where
  "quiet_config = \<lparr>gc_trifecta_enabled = True, gc_default_level = ''balanced''\<rparr>"

definition mail_call :: tool_call where
  "mail_call = \<lparr>tc_id = ''call-1'', tc_name = ''composio_gmail_send_email'', tc_arguments = [],
     tc_args_hash = ''h1'', tc_attempt_no = 1, tc_turn = 1, tc_step_id = ''s1''\<rparr>"

definition armed_world :: gate_world where
  "armed_world = \<lparr>gw_db = claimed_db, gw_policies = \<lparr>pd_policies = [], pd_now = 0\<rparr>,
     gw_gates = [(7, \<lparr>gs_enabled = True, gs_armed = True, gs_armed_by = Some ''web_search''\<rparr>)],
     gw_levels = [(7, Autonomous)]\<rparr>"

abbreviation mail_registry :: "string \<Rightarrow> tool option" where
  "mail_registry \<equiv> (\<lambda>n. if n = to_name mail_tool then Some mail_tool else None)"

lemma armed_world_facts:
  "mail_registry (tc_name mail_call) = Some mail_tool"
  "resolve_task_level quiet_config sample_row armed_world = (Inr Autonomous, armed_world)"
  "trifecta_state quiet_config sample_row armed_world =
     (Inr \<lparr>gs_enabled = True, gs_armed = True, gs_armed_by = Some ''web_search''\<rparr>, armed_world)"
  "task_get (t_id sample_row) (gw_db armed_world) \<noteq> None"
  "log_numbered (gw_db armed_world)"
  "log_events_newest_first 7 claimed_db = []"
  "t_id sample_row = 7"
proof -
  show id: "t_id sample_row = 7" by (simp add: sample_row_def)
  show "mail_registry (tc_name mail_call) = Some mail_tool"
    by (simp add: mail_call_def mail_tool_def)
  show "resolve_task_level quiet_config sample_row armed_world = (Inr Autonomous, armed_world)"
    by (simp add: resolve_task_level_def seq_apply id) (simp add: armed_world_def)
  show "trifecta_state quiet_config sample_row armed_world =
     (Inr \<lparr>gs_enabled = True, gs_armed = True, gs_armed_by = Some ''web_search''\<rparr>, armed_world)"
    by (rule trifecta_state_known) (simp add: armed_world_def id)
  show "task_get (t_id sample_row) (gw_db armed_world) \<noteq> None"
    using claimed_get by (simp add: armed_world_def id)
  show num: "log_numbered (gw_db armed_world)"
    using core_okD(8) [OF claimed_core_ok] by (simp add: armed_world_def)
  have "filter (\<lambda>e. e_type e = Log) (events_of 7 claimed_db) = []"
    by (simp add: claimed_db_eq sample_db_eq events_of_add)
  then show "log_events_newest_first 7 claimed_db = []"
    by (simp add: log_events_newest_first_def)
qed

lemma mail_escalated:
  "should_escalate (tc_name mail_call) \<lparr>gs_enabled = True, gs_armed = True, gs_armed_by = Some ''web_search''\<rparr>"
  by code_simp

lemma proceeds_iff_authorised_witness:
  "fst (raise_if_tool_approval_required quiet_config mail_registry sample_row mail_call armed_world)
     \<noteq> Inr Proceed"
proof -
  have "\<not> approval_is_granted 7 k (gw_db armed_world)" for k
    using armed_world_facts(6) by (simp add: approval_is_granted_def decisions_about_def armed_world_def)
  with proceeds_iff_authorised [of mail_registry mail_call, OF armed_world_facts(1)
      armed_world_facts(4) armed_world_facts(2) armed_world_facts(3) armed_world_facts(5)] mail_escalated armed_world_facts(7)
  show ?thesis by simp
qed

text \<open>What a call that stopped for an approval left behind: its request, the last entry of the
  log, under the key of the call.\<close>

lemma asked_for_approval:
  assumes run: "raise_if_tool_approval_required cfg registry t tc w = (Inr (Approval_Required rq), w1)"
    and get: "task_get (t_id t) (gw_db w) = Some row" and num: "log_numbered (gw_db w)"
  shows "\<exists>w3. settled w w3 \<and> rqt_key rq = call_key tc \<and>
    gw_db w1 = add_event (t_id t) Log (required_payload tc rq) (gw_db w3)"
proof (cases "registry (tc_name tc)")
  case None
  with run show ?thesis by (simp add: raise_if_tool_approval_required_def)
next
  case (Some tool)
  obtain level ls where level: "resolve_task_level cfg t w = (Inr level, w\<lparr>gw_levels := ls\<rparr>)"
    using resolve_task_level_run by blast
  have "task_get (t_id t) (gw_db (w\<lparr>gw_levels := ls\<rparr>)) \<noteq> None" using get by simp
  then obtain g w2 where gate: "trifecta_state cfg t (w\<lparr>gw_levels := ls\<rparr>) = (Inr g, w2)"
    using trifecta_state_run by blast
  have get': "task_get (t_id t) (gw_db w) \<noteq> None" using get by simp
  show ?thesis
    using raise_if_run [of registry tc, OF Some get' level gate num] run
    by (auto simp: approval_request_for_def split: if_splits)
qed

lemma waits_for_request:
  assumes run: "raise_if_tool_approval_required cfg registry t tc w = (Inr (Approval_Required rq), w1)"
    and get: "task_get (t_id t) (gw_db w) = Some row" and num: "log_numbered (gw_db w)"
    and new: "rqt_key rq \<notin> set (decided_keys (log_events_newest_first (t_id t) (gw_db w)))"
    and wait: "mark_waiting_for_tool_approval seen (t_id t) (request_payload rq) ts worker (gw_db w1) = (r, d)"
  shows "rqt_key rq = call_key tc \<and> log_numbered d \<and>
    (\<exists>row'. task_get (t_id t) d = Some row' \<and> t_status row' = Waiting_Approval) \<and>
    awaited (t_id t) (rqt_key rq) d = Some (request_payload rq)"
proof -
  obtain w3 where s: "settled w w3" and key: "rqt_key rq = call_key tc"
    and w1: "gw_db w1 = add_event (t_id t) Log (required_payload tc rq) (gw_db w3)"
    using asked_for_approval [OF run get num] by blast
  have num1: "log_numbered (gw_db w1)" and get1: "task_get (t_id t) (gw_db w1) = Some row"
    using s num get by (auto simp: w1 settled_def log_numbered_add)
  have "pending_approval (t_id t) (gw_db w1) = Some (request_payload rq)"
    unfolding w1
    by (rule pending_add_required [where key = "rqt_key rq"])
      (use s num new in \<open>simp_all add: settled_def required_payload_def request_payload_def\<close>)
  moreover have "tool_approval_waiting_message \<noteq> tool_approval_required_message"
    "tool_approval_waiting_message \<noteq> tool_approval_decision_message"
    by (simp_all add: message_defs)
  ultimately have "pending_approval (t_id t) d = Some (request_payload rq)"
    using wait num1
    by (auto simp: mark_waiting_eq [OF get1] pending_add_other log_numbered_add)
  moreover have "task_get (t_id t) d = Some (waiting_row (db_now (gw_db w1)) (request_payload rq) row)"
    using wait get1 by (auto simp: mark_waiting_eq [OF get1] task_get_upd)
  moreover have "log_numbered d" using wait num1 by (auto simp: mark_waiting_eq [OF get1] log_numbered_add)
  ultimately show ?thesis
    using key by (simp add: awaited_def waiting_row_def clear_task_lease_def request_payload_def)
qed

lemma armed_world_stops:
  "\<exists>rq w1. raise_if_tool_approval_required quiet_config mail_registry sample_row mail_call armed_world =
     (Inr (Approval_Required rq), w1)"
proof -
  have "\<not> approval_is_granted 7 k (gw_db armed_world)" for k
    using armed_world_facts(6) by (simp add: approval_is_granted_def decisions_about_def armed_world_def)
  with raise_if_run [of mail_registry mail_call, OF armed_world_facts(1)
      armed_world_facts(4) armed_world_facts(2) armed_world_facts(3) armed_world_facts(5)]
    mail_escalated armed_world_facts(7)
  show ?thesis by (auto simp: gated_required prod_eq_iff)
qed

lemma armed_world_undecided: "set (decided_keys (log_events_newest_first 7 (gw_db armed_world))) = {}"
  using armed_world_facts(6) by (simp add: armed_world_def decided_keys_def)

text \<open>C34. The approval round trip: a call that stopped for an approval is let through once its
  request was shown, the task put to wait and the request approved; the task is claimable
  again, and the call proceeds whatever the coordinator then remembers.\<close>

theorem approved_call_proceeds:
  assumes "raise_if_tool_approval_required cfg registry t tc w = (Inr (Approval_Required rq), w1)"
    and "task_get (t_id t) (gw_db w) = Some row" and "log_numbered (gw_db w)"
    and "rqt_key rq \<notin> set (decided_keys (log_events_newest_first (t_id t) (gw_db w)))"
    and "mark_waiting_for_tool_approval seen (t_id t) (request_payload rq) ts worker (gw_db w1) = (r2, d2)"
    and "approve_tool_approval (t_id t) (rqt_key rq) user at d2 = (r3, gw_db w3)"
  shows "(\<exists>t3. r3 = Inr (Some t3) \<and> task_get (t_id t) (gw_db w3) = Some t3 \<and> t_status t3 = Pending) \<and>
    fst (raise_if_tool_approval_required cfg' registry t tc w3) = Inr Proceed"
proof -
  obtain row' where key: "rqt_key rq = call_key tc" and num: "log_numbered d2"
    and get: "task_get (t_id t) d2 = Some row'"
    and await: "awaited (t_id t) (rqt_key rq) d2 = Some (request_payload rq)"
    using waits_for_request [OF assms(1-5)] by blast
  define at' where "at' = (case at of Some x \<Rightarrow> x | None \<Rightarrow> db_now d2)"
  have d3: "r3 = Inr (Some (approve_row at' row'))"
    "gw_db w3 = add_event (t_id t) Status_Changed (approved_event_payload (rqt_key rq) user)
        (add_event (t_id t) Log (decision_payload ''approved'' (rqt_key rq) (request_payload rq) user)
          (upd_task (t_id t) (approve_row at') d2))"
    using assms(6) approve_some [OF get await, of user at] by (simp_all add: Let_def at'_def)
  have num3: "log_numbered (gw_db w3)" using num by (simp add: d3 log_numbered_add)
  have get3: "task_get (t_id t) (gw_db w3) = Some (approve_row at' row')"
    using get by (simp add: d3 task_get_upd)
  have granted: "approval_is_granted (t_id t) (call_key tc) (gw_db w3)"
    using num by (simp add: d3 key granted_add granted_decision log_numbered_add)
  have "fst (raise_if_tool_approval_required cfg' registry t tc w3) = Inr Proceed"
  proof (cases "registry (tc_name tc)")
    case (Some tool)
    obtain level ls where level: "resolve_task_level cfg' t w3 = (Inr level, w3\<lparr>gw_levels := ls\<rparr>)"
      using resolve_task_level_run by blast
    have "task_get (t_id t) (gw_db (w3\<lparr>gw_levels := ls\<rparr>)) \<noteq> None" using get3 by simp
    then obtain g w4 where gate: "trifecta_state cfg' t (w3\<lparr>gw_levels := ls\<rparr>) = (Inr g, w4)"
      using trifecta_state_run by blast
    have "task_get (t_id t) (gw_db w3) \<noteq> None" using get3 by simp
    from raise_if_run [of registry tc, OF Some this level gate num3] granted show ?thesis by simp
  qed (simp add: raise_if_tool_approval_required_def)
  then show ?thesis using d3(1) get3 by (simp add: approve_row_def clear_task_lease_def)
qed

lemma approved_call_proceeds_witness:
  "\<exists>w3. fst (raise_if_tool_approval_required quiet_config mail_registry sample_row mail_call w3) = Inr Proceed \<and>
     gw_db w3 \<noteq> gw_db armed_world"
proof -
  obtain rq w1 where run: "raise_if_tool_approval_required quiet_config mail_registry sample_row mail_call armed_world =
     (Inr (Approval_Required rq), w1)" using armed_world_stops by blast
  obtain row where get: "task_get (t_id sample_row) (gw_db armed_world) = Some row"
    using armed_world_facts(4) by blast
  have new: "rqt_key rq \<notin> set (decided_keys (log_events_newest_first (t_id sample_row) (gw_db armed_world)))"
    using armed_world_undecided armed_world_facts(7) by simp
  obtain r2 d2 where wait: "mark_waiting_for_tool_approval Running (t_id sample_row) (request_payload rq) ''12.0''
      None (gw_db w1) = (r2, d2)" by fastforce
  obtain r3 d3 where ok: "approve_tool_approval (t_id sample_row) (rqt_key rq) ''U1'' None d2 =
      (r3, gw_db (armed_world\<lparr>gw_db := d3\<rparr>))"
    by (cases "approve_tool_approval (t_id sample_row) (rqt_key rq) ''U1'' None d2") simp
  have res: "(\<exists>t3. r3 = Inr (Some t3) \<and>
      task_get (t_id sample_row) (gw_db (armed_world\<lparr>gw_db := d3\<rparr>)) = Some t3 \<and> t_status t3 = Pending) \<and>
    fst (raise_if_tool_approval_required quiet_config mail_registry sample_row mail_call
      (armed_world\<lparr>gw_db := d3\<rparr>)) = Inr Proceed"
    by (rule approved_call_proceeds [OF run get armed_world_facts(5) new wait ok])
  have "fst (raise_if_tool_approval_required quiet_config mail_registry sample_row mail_call armed_world)
      \<noteq> Inr Proceed" using run by simp
  with res have "d3 \<noteq> gw_db armed_world" by auto
  with res show ?thesis by (intro exI [of _ "armed_world\<lparr>gw_db := d3\<rparr>"]) simp
qed

text \<open>A call that stopped for an approval stays stopped when its request is rejected: the
  task is cancelled and its key is not granted.\<close>

theorem rejected_call_stays_stopped:
  assumes "raise_if_tool_approval_required cfg registry t tc w = (Inr (Approval_Required rq), w1)"
    and "task_get (t_id t) (gw_db w) = Some row" and "log_numbered (gw_db w)"
    and "rqt_key rq \<notin> set (decided_keys (log_events_newest_first (t_id t) (gw_db w)))"
    and "mark_waiting_for_tool_approval seen (t_id t) (request_payload rq) ts worker (gw_db w1) = (r2, d2)"
    and "reject_tool_approval (t_id t) (rqt_key rq) user d2 = (r3, d3)"
  shows "(\<exists>t3. r3 = Inr (Some t3) \<and> task_get (t_id t) d3 = Some t3 \<and> t_status t3 = Cancelled) \<and>
    \<not> approval_is_granted (t_id t) (rqt_key rq) d3"
proof -
  obtain row' where num: "log_numbered d2" and get: "task_get (t_id t) d2 = Some row'"
    and await: "awaited (t_id t) (rqt_key rq) d2 = Some (request_payload rq)"
    using waits_for_request [OF assms(1-5)] by blast
  have d3: "r3 = Inr (Some (cancel_row (db_now d2) row'))"
    "d3 = add_event (t_id t) Status_Changed
       (cancel_payload Waiting_Approval (Some user) ''tool_approval_rejected'')
       (upd_task (t_id t) (cancel_row (db_now d2))
         (add_event (t_id t) Log
           (decision_payload ''rejected'' (rqt_key rq) (request_payload rq) user) d2))"
    using assms(6) reject_some [OF get await, of user] by simp_all
  have "\<not> approval_is_granted (t_id t) (rqt_key rq) d3"
    using num by (simp add: d3 granted_add granted_decision log_numbered_add)
  moreover have "task_get (t_id t) d3 = Some (cancel_row (db_now d2) row')"
    using get by (simp add: d3 task_get_upd)
  ultimately show ?thesis using d3(1) by (simp add: cancel_row_def clear_task_lease_def)
qed

lemma rejected_call_stays_stopped_witness:
  "\<exists>(rq :: approval_request) d2 d3 r3. \<not> approval_is_granted 7 (rqt_key rq) d3 \<and>
     reject_tool_approval 7 (rqt_key rq) ''U1'' d2 = (r3, d3) \<and> r3 \<noteq> Inr None"
proof -
  obtain rq w1 where run: "raise_if_tool_approval_required quiet_config mail_registry sample_row mail_call armed_world =
     (Inr (Approval_Required rq), w1)" using armed_world_stops by blast
  obtain row where get: "task_get (t_id sample_row) (gw_db armed_world) = Some row"
    using armed_world_facts(4) by blast
  have new: "rqt_key rq \<notin> set (decided_keys (log_events_newest_first (t_id sample_row) (gw_db armed_world)))"
    using armed_world_undecided armed_world_facts(7) by simp
  obtain r2 d2 where wait: "mark_waiting_for_tool_approval Running (t_id sample_row) (request_payload rq) ''12.0''
      None (gw_db w1) = (r2, d2)" by fastforce
  obtain r3 d3 where no: "reject_tool_approval (t_id sample_row) (rqt_key rq) ''U1'' d2 = (r3, d3)"
    by fastforce
  have res: "(\<exists>t3. r3 = Inr (Some t3) \<and> task_get (t_id sample_row) d3 = Some t3 \<and>
      t_status t3 = Cancelled) \<and> \<not> approval_is_granted (t_id sample_row) (rqt_key rq) d3"
    by (rule rejected_call_stays_stopped [OF run get armed_world_facts(5) new wait no])
  then have "r3 \<noteq> Inr None" by auto
  with res no have "\<not> approval_is_granted 7 (rqt_key rq) d3 \<and>
     reject_tool_approval 7 (rqt_key rq) ''U1'' d2 = (r3, d3) \<and> r3 \<noteq> Inr None"
    by (simp add: armed_world_facts(7))
  then show ?thesis by blast
qed

section \<open>Levels and names\<close>

text \<open>A level that was set is the level the scope resolves to, however the insert raced: a
  channel's own level wins over everything, and a workspace level over the default where the
  channel has none.\<close>

theorem set_level_resolves:
  assumes "set_level race fresh inst scope_type scope_id level user d = (Inr p, d')"
    and "c \<noteq> []"
  shows "(scope_type = ''channel'' \<and> scope_id = Some c \<longrightarrow>
      resolve_level fallback inst (Some c) d' = level) \<and>
    (scope_type = ''workspace'' \<and> scope_id = None \<longrightarrow>
      resolve_level fallback inst None d' = level \<and>
      (level_for inst ''channel'' (Some c) d' = None \<longrightarrow>
       resolve_level fallback inst (Some c) d' = level))"
  using set_level_finds [OF assms(1)] assms(2)
  by (auto simp: resolve_level_def resolve_autonomy_level_def coerce_level_def [of None])

lemma set_level_resolves_witness:
  "resolve_level ''balanced'' 1 (Some ''C1'')
     (snd (set_level (\<lambda>d. d) 5 1 ''channel'' (Some ''C1'') Conservative None
       \<lparr>pd_policies = [], pd_now = 0\<rparr>)) = Conservative"
proof -
  obtain p d' where run: "set_level (\<lambda>d. d) 5 1 ''channel'' (Some ''C1'') Conservative None
       \<lparr>pd_policies = [], pd_now = 0\<rparr> = (Inr p, d')"
    by (auto simp: set_level_def seq_apply find_policy_def catching_def insert_policy_def
        policy_violation_def)
  have "''C1'' \<noteq> []" by simp
  from set_level_resolves [OF run this] run show ?thesis by simp
qed

lemma browser_metadata:
  "map_option tm_side_effect (native_metadata ''browser_click'') = Some Write"
  "map_option tm_side_effect (native_metadata ''browser_type'') = Some Write"
  "\<not> is_outward_or_write_tool ''browser_click''" "\<not> is_outward_or_write_tool ''browser_type''"
  by code_simp+

lemma browser_unrequired:
  assumes "name \<in> {''browser_click'', ''browser_type''}"
  shows "\<not> is_required (requirement_for (t\<lparr>to_name := name\<rparr>) args level risk)"
proof -
  obtain m where "native_metadata name = Some m" using assms browser_metadata by auto
  then have m: "m \<in> set native_tools" "tm_name m = name"
    by (auto simp: native_metadata_def find_Some_iff)
  then have "to_name (t\<lparr>to_name := name\<rparr>) = tm_name m" by simp
  from native_required_iff [OF m(1) this] m(2) assms show ?thesis by auto
qed

text \<open>Clicking and typing in the browser are writes of the catalog, and are sent to a web page;
  they need no approval at any level, and a gate armed by untrusted content never stops
  them either.\<close>

theorem browser_writes_ungated:
  "map_option tm_side_effect (native_metadata ''browser_click'') = Some Write \<and>
   map_option tm_side_effect (native_metadata ''browser_type'') = Some Write \<and>
   \<not> is_required (requirement_for (t\<lparr>to_name := ''browser_click''\<rparr>) args level risk) \<and>
   \<not> is_required (requirement_for (t\<lparr>to_name := ''browser_type''\<rparr>) args level risk) \<and>
   \<not> should_escalate ''browser_click'' g \<and> \<not> should_escalate ''browser_type'' g"
  using browser_metadata browser_unrequired by (simp add: should_escalate_def)

end
