(* ===== verification/Model_Routing.thy ===== *)
theory Model_Routing
  imports Task_Repository
begin

text \<open>
  \<open>kortny/llm/routing.py\<close>: the recorded intent decision of a task, its execution-driving view,
  and the model tier it selects. Whether the task text carries image attachments is an argument
  (\<open>parse_image_attachment_pairs\<close>).
\<close>

datatype route_tier = Cheap_Fast | Standard_Tier | Analysis | Document | High_Reasoning | Humanizer
  | Vision | Profiler

record model_settings =
  ms_default :: string
  ms_cheap :: "string option"
  ms_standard :: "string option"
  ms_analysis :: "string option"
  ms_document :: "string option"
  ms_high_reasoning :: "string option"
  ms_humanizer :: "string option"
  ms_vision :: "string option"
  ms_profiler :: "string option"

record model_route =
  mr_tier :: route_tier
  mr_model :: string
  mr_reason :: string

text \<open>The Python \<open>or\<close> over optional names: the first that is set and not empty.\<close>

fun first_name :: "string option list \<Rightarrow> string \<Rightarrow> string" where
  "first_name [] fallback = fallback"
| "first_name (x # xs) fallback =
     (case truthy x of Some s \<Rightarrow> s | None \<Rightarrow> first_name xs fallback)"

definition model_for_tier :: "model_settings \<Rightarrow> route_tier \<Rightarrow> string" where
  "model_for_tier s tier = first_name
     (case tier of
        Cheap_Fast \<Rightarrow> [ms_cheap s]
      | Standard_Tier \<Rightarrow> [ms_standard s]
      | Analysis \<Rightarrow> [ms_analysis s, ms_standard s]
      | Document \<Rightarrow> [ms_document s, ms_analysis s, ms_standard s]
      | Humanizer \<Rightarrow> [ms_humanizer s, ms_cheap s, ms_standard s]
      | Vision \<Rightarrow> [ms_vision s]
      | Profiler \<Rightarrow> [ms_profiler s, ms_standard s]
      | High_Reasoning \<Rightarrow> [ms_high_reasoning s, ms_analysis s, ms_standard s]) (ms_default s)"

section \<open>The intent decision\<close>

definition intent_classified_message :: string where
  "intent_classified_message = ''intent_classification_completed''"

fun first_decision :: "event list \<Rightarrow> jobj option" where
  "first_decision [] = None"
| "first_decision (e # es) =
     (if jget (e_payload e) ''message'' \<noteq> JStr intent_classified_message then first_decision es
      else (case json_obj (jget (e_payload e) ''decision'') of
              Some p \<Rightarrow> Some p | None \<Rightarrow> first_decision es))"

definition latest_intent_decision :: "event list \<Rightarrow> jobj option" where
  "latest_intent_decision evs = first_decision (rev (sort_key e_seq evs))"

definition plain_str :: "json \<Rightarrow> string option" where
  "plain_str j = truthy (json_str j)"

text \<open>The strings of an iterable that is not a string; iterating an object gives its keys.\<close>

fun string_items :: "json \<Rightarrow> string list" where
  "string_items (JArr xs) = List.map_filter json_str xs"
| "string_items (JObj p) = map fst p"
| "string_items _ = []"

definition string_list :: "json \<Rightarrow> string list" where
  "string_list j = filter (\<lambda>s. s \<noteq> []) (string_items j)"

definition context_flags :: "string list" where
  "context_flags = [''needs_channel_context'', ''needs_thread_context'', ''needs_file_context'']"

definition effective_intent_decision :: "jobj option \<Rightarrow> jobj option" where
  "effective_intent_decision decision =
     (case decision of
        None \<Rightarrow> None
      | Some d \<Rightarrow>
          (case json_obj (jget d ''primary_intent'') of
             None \<Rightarrow> Some d
           | Some p \<Rightarrow>
               if jget p ''should_execute'' = JBool False then Some d
               else Some (jmerge d
                 ((case plain_str (jget p ''type'') of None \<Rightarrow> []
                   | Some c \<Rightarrow> [(''classification'', JStr c)]) @
                  [(''should_create_task'', JBool True)] @
                  (if string_list (jget p ''likely_tools'') = [] then []
                   else [(''likely_tools'', JArr (map JStr (string_list (jget p ''likely_tools''))))]) @
                  concat (map (\<lambda>k. case jget p k of JBool b \<Rightarrow> [(k, JBool b)] | _ \<Rightarrow> []) context_flags) @
                  (case plain_str (jget p ''objective'') of None \<Rightarrow> []
                   | Some obj \<Rightarrow> [(''reason'', JStr obj)]) @
                  [(''effective_intent_source'', JStr ''primary_intent'')]))))"

section \<open>The tier\<close>

definition document_tool_hints :: "string list" where
  "document_tool_hints =
     [''document_studio'', ''pdf_generator'', ''document_generation'', ''report_generation'',
      ''deck_builder'', ''deck-builder'', ''spreadsheet_builder'', ''spreadsheet-builder'']"

definition document_keywords :: "string list" where
  "document_keywords =
     [''pdf'', ''report'', ''document'', ''doc'', ''deck'', ''slides'', ''presentation'', ''brochure'',
      ''whitepaper'', ''make it'', ''extend this'', ''revise this'', ''version'']"

definition analysis_keywords :: "string list" where
  "analysis_keywords =
     [''analyze'', ''analyse'', ''review'', ''summarize'', ''summarise'', ''compare'', ''research'',
      ''source'', ''latest'', ''recent'', ''market'', ''ticker'', ''earnings'', ''audit'']"

definition objective_signals_document :: "jobj \<Rightarrow> bool" where
  "objective_signals_document d =
     (let parts = List.map_filter (\<lambda>k. json_str (jget d k)) [''reason'', ''objective''] @
            (case json_obj (jget d ''primary_intent'') of None \<Rightarrow> []
             | Some p \<Rightarrow> (case json_str (jget p ''objective'') of None \<Rightarrow> [] | Some s \<Rightarrow> [s]))
      in contains_any document_keywords (casefold (join '' '' parts)))"

definition tier_from_intent_decision :: "jobj option \<Rightarrow> route_tier option" where
  "tier_from_intent_decision decision =
     (case decision of
        None \<Rightarrow> None
      | Some d \<Rightarrow>
          (let likely = string_items (jget d ''likely_tools'');
               affinity = string_items (jget d ''toolkit_affinity'');
               class = plain_str (jget d ''classification'');
               tier = plain_str (jget d ''model_tier'')
           in if set (likely @ affinity) \<inter> set document_tool_hints \<noteq> {} then Some Document
              else if ''slack_file_read'' \<in> set likely then Some Analysis
              else if objective_signals_document d then Some Document
              else if ''web_search'' \<in> set likely then Some Analysis
              else if class \<in> {Some ''memory_candidate'', Some ''clarification'', Some ''cancel_or_retry''}
              then Some Cheap_Fast
              else if tier = Some ''cheap'' then Some Cheap_Fast
              else if tier = Some ''strong'' then Some High_Reasoning
              else if tier = Some ''standard'' then Some Standard_Tier
              else None))"

definition tier_from_task_input :: "string \<Rightarrow> route_tier" where
  "tier_from_task_input text =
     (let n = casefold text in
      if contains_any document_keywords n then Document
      else if contains_any analysis_keywords n then Analysis
      else if length n \<le> 160 then Standard_Tier
      else Analysis)"

definition route_for_tier :: "model_settings \<Rightarrow> route_tier \<Rightarrow> string \<Rightarrow> model_route" where
  "route_for_tier s tier reason = \<lparr>mr_tier = tier, mr_model = model_for_tier s tier, mr_reason = reason\<rparr>"

definition route_for_task :: "model_settings \<Rightarrow> bool \<Rightarrow> string \<Rightarrow> event list \<Rightarrow> model_route" where
  "route_for_task s has_images text evs =
     (if has_images
      then route_for_tier s Vision ''image attachment -> vision tier (HIG-279)''
      else
        (case tier_from_intent_decision (effective_intent_decision (latest_intent_decision evs)) of
           Some tier \<Rightarrow> route_for_tier s tier ''intent_classifier''
         | None \<Rightarrow> route_for_tier s (tier_from_task_input text) ''task_input_fallback''))"

end
