(* ===== verification/Scheduler.thy ===== *)
theory Scheduler
  imports Task_Queue
begin

text \<open>
  \<open>kortny/scheduler/service.py\<close>: due schedules become pending tasks. \<open>materialize_schedule\<close> decides
  one due row, \<open>materialize_due_schedules\<close> a batch under the advisory lock, and
  \<open>scheduler_run_once\<close> is the tick of the worker, one transaction that an exception rolls back.

  The ids of new tasks, what other transactions commit before an insert, SHA-256 and the time zone
  database are parameters. A zone maps an instant to the wall clock, in microseconds since the
  epoch as if it were UTC, and a wall clock back to the first instant that shows it (\<open>fold\<close> is 0
  after adding a \<open>timedelta\<close>).
\<close>

definition default_catchup_window_seconds :: int where
  "default_catchup_window_seconds = 300"

definition system_drive_metadata_key :: string where
  "system_drive_metadata_key = ''system_drive''"

record materialization =
  mz_schedule :: uuid
  mz_action :: string
  mz_fire_time :: "timestamp option"
  mz_task :: "uuid option"
  mz_reason :: "string option"

section \<open>Texts of a schedule\<close>

definition schedule_error :: "schedule \<Rightarrow> string \<Rightarrow> py_error" where
  "schedule_error s what = ValueError (''schedule '' @ uuid_str (s_id s) @ '' '' @ what)"

definition optional_template_string :: "jobj \<Rightarrow> string \<Rightarrow> string option" where
  "optional_template_string template name =
     (case jget template name of JStr v \<Rightarrow> if strip v = [] then None else Some (strip v) | _ \<Rightarrow> None)"

definition required_template_string :: "schedule \<Rightarrow> string \<Rightarrow> string res" where
  "required_template_string s name =
     (case optional_template_string (s_task_template s) name of
        Some v \<Rightarrow> Inr v
      | None \<Rightarrow> Inl (schedule_error s (''task_template is missing '' @ repr_text name)))"

definition legacy_delivery_kind :: "jobj \<Rightarrow> string" where
  "legacy_delivery_kind template =
     (let surface = optional_template_string template ''delivery_surface'' in
      if surface = Some ''thread'' then ''slack_thread''
      else if surface = Some ''channel'' then ''slack_channel''
      else if surface = Some ''dashboard'' then ''dashboard_only''
      else ''slack_dm'')"

definition first_true :: "string option \<Rightarrow> string option \<Rightarrow> string option" where
  "first_true a b = (case truthy a of Some x \<Rightarrow> Some x | None \<Rightarrow> b)"

record delivery =
  dl_kind :: string
  dl_channel :: string
  dl_user :: string
  dl_thread_ts :: "string option"
  dl_policy :: string

definition schedule_delivery :: "schedule \<Rightarrow> delivery res" where
  "schedule_delivery s =
     (let template = s_task_template s;
          kind = (if s_delivery_kind s = [] then legacy_delivery_kind template else s_delivery_kind s);
          channel = first_true (s_delivery_channel s) (optional_template_string template ''slack_channel_id'');
          user = first_true (s_delivery_user s)
            (first_true (optional_template_string template ''slack_user_id'') (s_owner_user s));
          thread = (if kind = ''slack_channel'' then None
                    else first_true (s_delivery_thread_ts s)
                           (optional_template_string template ''slack_thread_ts''));
          policy = (if s_artifact_policy s \<noteq> [] then s_artifact_policy s
                    else case optional_template_string template ''artifact_delivery_policy'' of
                           Some p \<Rightarrow> p | None \<Rightarrow> ''message_only'')
      in case truthy channel of
           None \<Rightarrow> Inl (schedule_error s ''delivery is missing slack_channel_id'')
         | Some c \<Rightarrow>
             (case truthy user of
                None \<Rightarrow> Inl (schedule_error s ''delivery is missing slack_user_id'')
              | Some u \<Rightarrow> Inr \<lparr>dl_kind = kind, dl_channel = c, dl_user = u, dl_thread_ts = thread,
                              dl_policy = policy\<rparr>))"

text \<open>The ceiling is a \<open>Numeric(10, 4)\<close>: an integer of ten thousandths.\<close>

definition ceiling_decimal :: "int \<Rightarrow> decimal" where
  "ceiling_decimal c = Dec (c < 0) (nat \<bar>c\<bar>) (- 4)"

definition has_valid_run_budget :: "schedule \<Rightarrow> bool" where
  "has_valid_run_budget s = (case s_cost_ceiling s of None \<Rightarrow> False | Some c \<Rightarrow> 0 < c)"

section \<open>When a schedule runs next\<close>

text \<open>Python's \<open>int(text)\<close>: a sign, and digits with single underscores between them.\<close>

definition py_int :: "string \<Rightarrow> int option" where
  "py_int text =
     (let (neg, body) = parse_sign (strip text); parts = split_on (CHR ''_'') body in
      if list_all (\<lambda>p. p \<noteq> [] \<and> list_all is_digit p) parts
      then Some ((if neg then - 1 else 1) * int (digits_value 10 (concat parts))) else None)"

definition unsupported_cron :: "schedule \<Rightarrow> py_error" where
  "unsupported_cron s = schedule_error s ''has unsupported cron expression''"

definition cron_weekday_to_python :: "schedule \<Rightarrow> string \<Rightarrow> int res" where
  "cron_weekday_to_python s v =
     (case py_int v of
        None \<Rightarrow> Inl (unsupported_cron s)
      | Some w \<Rightarrow> if 0 \<le> w \<and> w \<le> 6 then Inr ((w + 6) mod 7) else Inl (unsupported_cron s))"

definition weekday_part :: "schedule \<Rightarrow> string \<Rightarrow> int list res" where
  "weekday_part s part0 =
     (let part = strip part0 in
      if part = [] then Inl (unsupported_cron s)
      else if CHR ''-'' \<in> set part then
        (case (cron_weekday_to_python s (takeWhile (\<lambda>c. c \<noteq> CHR ''-'') part),
               cron_weekday_to_python s (tl (dropWhile (\<lambda>c. c \<noteq> CHR ''-'') part))) of
           (Inr a, Inr b) \<Rightarrow> if b < a then Inl (unsupported_cron s) else Inr [a..b]
         | _ \<Rightarrow> Inl (unsupported_cron s))
      else map_sum id (\<lambda>w. [w]) (cron_weekday_to_python s part))"

fun weekday_parts :: "schedule \<Rightarrow> string list \<Rightarrow> int list res" where
  "weekday_parts s [] = Inr []"
| "weekday_parts s (p # ps) =
     (case weekday_part s p of
        Inl e \<Rightarrow> Inl e
      | Inr ws \<Rightarrow> map_sum id (\<lambda>vs. ws @ vs) (weekday_parts s ps))"

definition parse_weekday_field :: "schedule \<Rightarrow> string \<Rightarrow> int list option res" where
  "parse_weekday_field s v =
     (if v = ''*'' then Inr None else map_sum id Some (weekday_parts s (split_on (CHR '','') v)))"

definition parse_simple_cron :: "schedule \<Rightarrow> (int \<times> int \<times> int list option) res" where
  "parse_simple_cron s =
     (case split_ws (case s_cron_expr s of None \<Rightarrow> [] | Some e \<Rightarrow> strip e) of
        [minute, hour, monthday, month, weekday] \<Rightarrow>
          if monthday \<noteq> ''*'' \<or> month \<noteq> ''*'' then Inl (unsupported_cron s)
          else (case (py_int minute, py_int hour) of
            (Some m, Some h) \<Rightarrow>
              if 0 \<le> m \<and> m \<le> 59 \<and> 0 \<le> h \<and> h \<le> 23
              then map_sum id (\<lambda>ws. (m, h, ws)) (parse_weekday_field s weekday)
              else Inl (unsupported_cron s)
          | _ \<Rightarrow> Inl (unsupported_cron s))
      | _ \<Rightarrow> Inl (unsupported_cron s))"

definition cron_supported :: "schedule \<Rightarrow> bool" where
  "cron_supported s = (case parse_simple_cron s of Inl _ \<Rightarrow> False | Inr _ \<Rightarrow> True)"

record zone =
  zn_wall :: "timestamp \<Rightarrow> int"
  zn_instant :: "int \<Rightarrow> timestamp"

type_synonym zone_table = "string \<Rightarrow> zone res"

text \<open>An unknown zone is read as UTC; \<open>LookupErr\<close> stands for \<open>ZoneInfoNotFoundError\<close>.\<close>

definition schedule_tzinfo :: "zone_table \<Rightarrow> schedule \<Rightarrow> zone res" where
  "schedule_tzinfo zones s =
     (case zones (if s_timezone s = [] then ''UTC'' else s_timezone s) of
        Inl (LookupErr _) \<Rightarrow> zones ''UTC''
      | r \<Rightarrow> r)"

definition day_span :: int where
  "day_span = seconds 86400"

text \<open>Monday is 0; the epoch was a Thursday.\<close>

definition weekday_of :: "int \<Rightarrow> int" where
  "weekday_of wall = (wall div day_span + 3) mod 7"

definition runs_on :: "int list option \<Rightarrow> int \<Rightarrow> bool" where
  "runs_on weekdays wall = (case weekdays of None \<Rightarrow> True | Some ws \<Rightarrow> weekday_of wall \<in> set ws)"

fun cron_search :: "int \<Rightarrow> int list option \<Rightarrow> int \<Rightarrow> nat \<Rightarrow> int option" where
  "cron_search local_after weekdays current 0 = None"
| "cron_search local_after weekdays current (Suc left) =
     (if local_after < current \<and> runs_on weekdays current
      then Some current else cron_search local_after weekdays (current + day_span) left)"

definition next_cron_after :: "zone_table \<Rightarrow> schedule \<Rightarrow> timestamp \<Rightarrow> timestamp res" where
  "next_cron_after zones s after =
     (case parse_simple_cron s of
        Inl e \<Rightarrow> Inl e
      | Inr (minute, hour, weekdays) \<Rightarrow>
          (case schedule_tzinfo zones s of
             Inl e \<Rightarrow> Inl e
           | Inr z \<Rightarrow>
               (let local_after = zn_wall z after;
                    candidate = local_after div day_span * day_span + seconds (hour * 3600 + minute * 60)
                in case cron_search local_after weekdays candidate 370 of
                     Some current \<Rightarrow> Inr (zn_instant z current)
                   | None \<Rightarrow> Inl (schedule_error s ''cron expression produced no next run''))))"

text \<open>The loop that adds the interval until the instant has passed.\<close>

function interval_loop :: "timestamp \<Rightarrow> int \<Rightarrow> timestamp \<Rightarrow> timestamp" where
  "interval_loop next interval after =
     (if next \<le> after \<and> 0 < interval then interval_loop (next + interval) interval after else next)"
  by pat_completeness auto

termination interval_loop
  by (relation "measure (\<lambda>(next, interval, after). nat (after - next + 1))") auto

declare interval_loop.simps [simp del]

definition next_interval_after :: "timestamp \<Rightarrow> schedule \<Rightarrow> timestamp \<Rightarrow> timestamp res" where
  "next_interval_after due_at s after =
     (case s_interval_seconds s of
        None \<Rightarrow> Inl (schedule_error s ''has invalid interval_seconds'')
      | Some n \<Rightarrow>
          if n \<le> 0 then Inl (schedule_error s ''has invalid interval_seconds'')
          else Inr (interval_loop due_at (seconds n) after))"

section \<open>One due schedule\<close>

definition put_schedule :: "uuid \<Rightarrow> (schedule \<Rightarrow> schedule) \<Rightarrow> (db, unit) op" where
  "put_schedule sid f = writing (\<lambda>d. d\<lparr>db_schedules := row_upd s_id sid f (db_schedules d)\<rparr>)"

definition overlap_active :: "schedule \<Rightarrow> db \<Rightarrow> bool" where
  "overlap_active s d \<longleftrightarrow>
     s_overlap_policy s = ''skip'' \<and>
     list_ex (\<lambda>t. t_installation t = s_installation s \<and> t_identity_kind t = Some ''scheduled'' \<and>
       json_text (jget (t_identity_payload t) ''schedule_id'') = Some (uuid_str (s_id s)) \<and>
       t_status t \<in> {Pending, Running, Waiting_Approval}) (db_tasks d)"

definition missed_window :: "schedule \<Rightarrow> timestamp \<Rightarrow> timestamp \<Rightarrow> bool" where
  "missed_window s due_at now =
     (let window = (case s_catchup_window s of None \<Rightarrow> default_catchup_window_seconds | Some n \<Rightarrow> n)
      in s_catchup_policy s = ''skip'' \<and> 0 \<le> window \<and> due_at < now - seconds window)"

text \<open>The row after a run, or after a run that was skipped: both move it on the same way.\<close>

definition advance_schedule :: "zone_table \<Rightarrow> schedule \<Rightarrow> timestamp \<Rightarrow> timestamp \<Rightarrow> (db, unit) op" where
  "advance_schedule zones s due_at now =
     seq (lifting
       (if s_spec_kind s = ''oneoff'' then Inr None
        else if s_spec_kind s = ''interval'' then map_sum id Some (next_interval_after due_at s now)
        else if s_spec_kind s = ''cron'' then map_sum id Some (next_cron_after zones s now)
        else Inr (s_next_run_at s))) (\<lambda>next.
     put_schedule (s_id s) (\<lambda>r. r\<lparr>s_last_run_at := Some due_at, s_next_run_at := next,
       s_status := (if s_spec_kind s = ''oneoff'' then ''completed'' else s_status r),
       s_updated_at := now\<rparr>))"

definition pause_unsupported :: "timestamp \<Rightarrow> schedule \<Rightarrow> schedule" where
  "pause_unsupported now s = s\<lparr>s_status := ''paused'',
     s_metadata := jmerge (s_metadata s)
       [(''last_scheduler_error'', JStr ''unsupported_cron_expression''),
        (''paused_at'', JStr (isoformat now))],
     s_updated_at := now\<rparr>"

definition pause_for_budget :: "timestamp \<Rightarrow> schedule \<Rightarrow> schedule" where
  "pause_for_budget now s = s\<lparr>s_metadata := jmerge (s_metadata s)
       [(''last_scheduler_error'', JStr ''missing_planned_cost_ceiling''),
        (''last_budget_status'', JStr ''admission_failed''),
        (''last_budget_admission_failed_at'', JStr (isoformat now))],
     s_status := ''paused'', s_updated_at := now\<rparr>"

definition schedule_identity_payload :: "schedule \<Rightarrow> delivery \<Rightarrow> jobj" where
  "schedule_identity_payload s dl =
     [(''schedule_title'', JStr (s_title s)), (''owner_type'', JStr (s_owner_type s)),
      (''owner_slack_user_id'', jopt_str (s_owner_user s)), (''spec_kind'', JStr (s_spec_kind s)),
      (''delivery_kind'', JStr (dl_kind dl)), (''delivery_slack_user_id'', JStr (dl_user dl)),
      (''delivery_slack_channel_id'', JStr (dl_channel dl)),
      (''delivery_slack_thread_ts'', jopt_str (dl_thread_ts dl)),
      (''artifact_delivery_policy'', JStr (dl_policy dl))] @
     (case s_cost_ceiling s of
        None \<Rightarrow> []
      | Some c \<Rightarrow> [(''planned_cost_ceiling_usd'', JStr (dec_str (ceiling_decimal c))),
                   (''runtime_cost_ceiling_usd'', JStr (dec_str (ceiling_decimal c)))])"

definition schedule_request ::
  "(string \<Rightarrow> string) \<Rightarrow> schedule \<Rightarrow> string \<Rightarrow> delivery \<Rightarrow> timestamp \<Rightarrow> task_request" where
  "schedule_request sha s input dl fire_time =
     \<lparr>rq_installation = s_installation s, rq_slack_event_id = None, rq_channel = dl_channel dl,
      rq_thread_ts = dl_thread_ts dl,
      rq_message_ts = optional_template_string (s_task_template s) ''slack_message_ts'',
      rq_user = dl_user dl, rq_input = input, rq_source_surface = Some ''schedule'', rq_parent = None,
      rq_identity = Some (scheduled_identity sha (uuid_str (s_id s)) (isoformat fire_time) input
        (schedule_identity_payload s dl))\<rparr>"

definition ceiling_string :: "schedule \<Rightarrow> json" where
  "ceiling_string s = jopt_str (map_option (\<lambda>c. dec_str (ceiling_decimal c)) (s_cost_ceiling s))"

text \<open>What follows the creation of the task: it is due at once, and its log says why it exists.\<close>

definition admit_materialized_task ::
  "schedule \<Rightarrow> delivery \<Rightarrow> timestamp \<Rightarrow> timestamp \<Rightarrow> task \<Rightarrow> (db, task) op" where
  "admit_materialized_task s dl fire_time now t =
     seq (reading db_now) (\<lambda>clock.
     seq (update_task (t_id t) (\<lambda>r. if t_available_at r = now then r
            else r\<lparr>t_available_at := now, t_updated_at := clock\<rparr>)) (\<lambda>_.
     seq (append_event (t_id t) Log
       [(''message'', JStr ''scheduled_task_budget_admitted''),
        (''schedule_id'', JStr (uuid_str (s_id s))), (''cost_ceiling_usd'', ceiling_string s),
        (''behavior'', JStr ''admit_with_per_run_ceiling'')]) (\<lambda>_.
     seq (append_event (t_id t) Log
       [(''message'', JStr ''scheduled_task_materialized''),
        (''schedule_id'', JStr (uuid_str (s_id s))), (''schedule_title'', JStr (s_title s)),
        (''fire_time'', JStr (isoformat fire_time)), (''planned_cost_ceiling_usd'', ceiling_string s),
        (''delivery_kind'', JStr (dl_kind dl)),
        (''delivery_slack_channel_id'', JStr (dl_channel dl)),
        (''delivery_slack_thread_ts'', jopt_str (dl_thread_ts dl)),
        (''artifact_delivery_policy'', JStr (dl_policy dl))]) (\<lambda>_.
     returning t))))"

definition create_materialized_task ::
  "(string \<Rightarrow> string) \<Rightarrow> (db \<Rightarrow> db) \<Rightarrow> (uuid \<Rightarrow> uuid) \<Rightarrow> schedule \<Rightarrow> timestamp \<Rightarrow> timestamp \<Rightarrow> (db, task) op" where
  "create_materialized_task sha race fresh s fire_time now =
     seq (lifting (required_template_string s ''input'')) (\<lambda>input.
     seq (lifting (schedule_delivery s)) (\<lambda>dl.
     seq (create_task sha race (fresh (s_id s)) (schedule_request sha s input dl fire_time))
       (admit_materialized_task s dl fire_time now)))"

definition schedule_outcome :: "schedule \<Rightarrow> string \<Rightarrow> timestamp \<Rightarrow> string \<Rightarrow> materialization" where
  "schedule_outcome s action due_at reason =
     \<lparr>mz_schedule = s_id s, mz_action = action, mz_fire_time = Some due_at, mz_task = None,
      mz_reason = Some reason\<rparr>"

definition materialize_schedule ::
  "zone_table \<Rightarrow> (string \<Rightarrow> string) \<Rightarrow> (db \<Rightarrow> db) \<Rightarrow> (uuid \<Rightarrow> uuid) \<Rightarrow> timestamp \<Rightarrow> schedule \<Rightarrow>
   (db, materialization) op" where
  "materialize_schedule zones sha race fresh now s =
     (let due_at = (case s_next_run_at s of Some at \<Rightarrow> at | None \<Rightarrow> now) in
      seq (reading (overlap_active s)) (\<lambda>overlap.
      if overlap then returning (schedule_outcome s ''skipped'' due_at ''active_materialized_task_exists'')
      else if s_spec_kind s = ''cron'' \<and> \<not> cron_supported s then
        seq (put_schedule (s_id s) (pause_unsupported now)) (\<lambda>_.
        returning (schedule_outcome s ''paused'' due_at ''unsupported_cron_expression''))
      else if missed_window s due_at now then
        seq (advance_schedule zones s due_at now) (\<lambda>_.
        returning (schedule_outcome s ''skipped'' due_at ''missed_catchup_window''))
      else if \<not> has_valid_run_budget s then
        seq (put_schedule (s_id s) (pause_for_budget now)) (\<lambda>_.
        returning (schedule_outcome s ''paused'' due_at ''missing_planned_cost_ceiling''))
      else
        seq (create_materialized_task sha race fresh s due_at now) (\<lambda>t.
        seq (advance_schedule zones s due_at now) (\<lambda>_.
        returning \<lparr>mz_schedule = s_id s, mz_action = ''materialized'', mz_fire_time = Some due_at,
          mz_task = Some (t_id t), mz_reason = None\<rparr>))))"

section \<open>A tick\<close>

definition due_schedules :: "timestamp \<Rightarrow> nat \<Rightarrow> db \<Rightarrow> schedule list" where
  "due_schedules now limit d =
     take limit (sort_key (\<lambda>s. (the (s_next_run_at s), s_created_at s))
       (filter (\<lambda>s. s_status s = ''active'' \<and>
          (case s_next_run_at s of None \<Rightarrow> False | Some at \<Rightarrow> at \<le> now) \<and>
          map_of (s_metadata s) system_drive_metadata_key = None \<and>
          s_id s \<notin> set (db_row_locks d)) (db_schedules d)))"

fun collect :: "('a \<Rightarrow> ('s, 'b) op) \<Rightarrow> 'a list \<Rightarrow> ('s, 'b list) op" where
  "collect f [] = returning []"
| "collect f (x # xs) = seq (f x) (\<lambda>y. seq (collect f xs) (\<lambda>ys. returning (y # ys)))"

definition materialize_due_schedules ::
  "zone_table \<Rightarrow> (string \<Rightarrow> string) \<Rightarrow> (db \<Rightarrow> db) \<Rightarrow> (uuid \<Rightarrow> uuid) \<Rightarrow> py_datetime option \<Rightarrow> int \<Rightarrow> bool \<Rightarrow>
   (db, materialization list) op" where
  "materialize_due_schedules zones sha race fresh now limit lock_acquired =
     (if limit < 1 then raising (ValueError ''limit must be positive'')
      else
        seq (reading (coerce_utc now)) (\<lambda>at.
        if \<not> lock_acquired then returning []
        else
          seq (reading (due_schedules at (nat limit))) (\<lambda>rows.
          collect (materialize_schedule zones sha race fresh at) rows)))"

text \<open>The tick is one transaction.\<close>

definition scheduler_run_once ::
  "zone_table \<Rightarrow> (string \<Rightarrow> string) \<Rightarrow> (db \<Rightarrow> db) \<Rightarrow> (db \<Rightarrow> db) \<Rightarrow> (uuid \<Rightarrow> uuid) \<Rightarrow> py_datetime option \<Rightarrow> int \<Rightarrow>
   bool \<Rightarrow> (db, string \<times> materialization list) op" where
  "scheduler_run_once zones sha race others fresh now limit lock_acquired =
     seq (transaction others (materialize_due_schedules zones sha race fresh now limit lock_acquired)) (\<lambda>ms.
     returning (if ms = [] then ''idle'' else ''processed'', ms))"

end
