(* ===== verification/Task_Rows.thy ===== *)
theory Task_Rows
  imports Task_System
begin

text \<open>
  What the moves of the task tables keep of a row: its identifier and its identity, the
  installation included.
\<close>

lemma identity_move:
  "move d d' \<Longrightarrow> core_ok d \<Longrightarrow> t \<in> set (db_tasks d) \<Longrightarrow>
   \<exists>t' \<in> set (db_tasks d'). t_id t' = t_id t \<and> identity_of t' = identity_of t"
proof -
  have upd: "\<exists>t' \<in> set (db_tasks (upd_task k f d)). t_id t' = t_id t \<and> identity_of t' = identity_of t"
    if "keeps_keys f" "t \<in> set (db_tasks d)" for k f d
    using that
    by (intro bexI [of _ "if t_id t = k then f t else t"])
      (simp_all add: upd_task_def row_upd_def keeps_keys_def)
  assume move: "move d d'" and t: "t \<in> set (db_tasks d)"
  show ?thesis
    by (rule move.cases [OF move]) (use t in \<open>auto simp: tameD billed_def Let_def intro!: upd\<close>)
qed

lemma identity_moves:
  "moves d d' \<Longrightarrow> core_ok d \<Longrightarrow> t \<in> set (db_tasks d) \<Longrightarrow>
   \<exists>t' \<in> set (db_tasks d'). t_id t' = t_id t \<and> identity_of t' = identity_of t"
proof (induction rule: rtranclp_induct)
  case (step d1 d2)
  then obtain t1 where "t1 \<in> set (db_tasks d1)" "t_id t1 = t_id t" "identity_of t1 = identity_of t"
    by blast
  with identity_move [OF step(2)] core_ok_moves [OF step(1,4)] show ?case by metis
qed blast

lemma task_row_moves:
  assumes "moves d d'" and "core_ok d" and "task_get tid d = Some t"
  shows "\<exists>t'. task_get tid d' = Some t' \<and> t_installation t' = t_installation t"
proof -
  note t = task_get_in [OF assms(3)]
  obtain t' where t': "t' \<in> set (db_tasks d')" "t_id t' = t_id t" "identity_of t' = identity_of t"
    using identity_moves [OF assms(1,2) t] by blast
  have "t_identity_key t \<noteq> None"
    using core_okD(4) [OF assms(2)] t by (simp add: rows_ok_def row_ok_def)
  then have "t_installation t' = t_installation t" using t'(3) by (auto simp: identity_of_def)
  moreover have "task_get (t_id t') d' = Some t'"
    by (rule task_get_member [OF core_okD(2) [OF core_ok_moves [OF assms(1,2)]] t'(1)])
  ultimately show ?thesis using t'(2) task_get_id [OF assms(3)] by auto
qed

end
