(* ===== verification/Scheduler_Properties.thy ===== *)
theory Scheduler_Properties
  imports Task_Properties Scheduler Task_Rows
begin

text \<open>
  The properties of the scheduler: when a schedule runs next, that a fire time yields one task,
  that a tick keeps the invariants of the task core, and how one malformed schedule stops the
  others.
\<close>

section \<open>The next run of an interval\<close>

lemma interval_loop_grid:
  assumes "0 < step"
  shows "\<exists>k \<ge> 0. interval_loop start step after = start + k * step \<and> after < start + k * step \<and>
    (k = 0 \<or> start + (k - 1) * step \<le> after)"
  using assms
proof (induction start step after rule: interval_loop.induct)
  case (1 start step after)
  show ?case
  proof (cases "start \<le> after")
    case True
    then obtain k where k: "k \<ge> 0" "interval_loop (start + step) step after = start + step + k * step"
      "after < start + step + k * step" "k = 0 \<or> start + step + (k - 1) * step \<le> after"
      using 1 by blast
    then have "interval_loop start step after = start + (k + 1) * step"
      using True 1(2) by (simp add: interval_loop.simps [of start] algebra_simps)
    with k True show ?thesis
      by (intro exI [of _ "k + 1"]) (auto simp: algebra_simps)
  next
    case False
    then show ?thesis by (intro exI [of _ 0]) (simp add: interval_loop.simps [of start])
  qed
qed

text \<open>The next run of an interval schedule is the first instant after now on the grid that
  its due time and its interval span, so missed runs are never made up.\<close>

theorem next_interval_on_grid:
  assumes "s_interval_seconds s = Some n" and "0 < n"
  shows "\<exists>k \<ge> 0. next_interval_after due_at s now = Inr (due_at + k * seconds n) \<and>
    now < due_at + k * seconds n \<and> (k = 0 \<or> due_at + (k - 1) * seconds n \<le> now)"
  using assms interval_loop_grid [of "seconds n" due_at now]
  by (simp add: next_interval_after_def seconds_def)

section \<open>The next run of a cron expression\<close>

lemma cron_search_first:
  "case cron_search la ws cur left of
     Some c \<Rightarrow> \<exists>k < left. c = cur + int k * day_span \<and> la < c \<and> runs_on ws c \<and>
       (\<forall>j < k. \<not> (la < cur + int j * day_span \<and> runs_on ws (cur + int j * day_span)))
   | None \<Rightarrow> \<forall>j < left. \<not> (la < cur + int j * day_span \<and> runs_on ws (cur + int j * day_span))"
proof (induction la ws cur left rule: cron_search.induct)
  case (2 la ws cur left)
  show ?case
  proof (cases "la < cur \<and> runs_on ws cur")
    case True
    then show ?thesis by auto
  next
    case False
    then have IH: "case cron_search la ws (cur + day_span) left of
        Some c \<Rightarrow> \<exists>k < left. c = cur + day_span + int k * day_span \<and> la < c \<and> runs_on ws c \<and>
          (\<forall>j < k. \<not> (la < cur + day_span + int j * day_span \<and> runs_on ws (cur + day_span + int j * day_span)))
      | None \<Rightarrow> \<forall>j < left. \<not> (la < cur + day_span + int j * day_span \<and>
          runs_on ws (cur + day_span + int j * day_span))"
      using 2 by simp
    have shift: "cur + day_span + int j * day_span = cur + int (Suc j) * day_span" for j
      by (simp add: algebra_simps)
    have less: "(\<forall>j < Suc n. P j) \<longleftrightarrow> P 0 \<and> (\<forall>j < n. P (Suc j))" for P and n :: nat
      by (metis less_Suc_eq_0_disj)
    show ?thesis
    proof (cases "cron_search la ws (cur + day_span) left")
      case None
      with IH False show ?thesis by (auto simp: shift less)
    next
      case (Some c)
      with IH obtain k where k: "k < left" "c = cur + int (Suc k) * day_span" "la < c" "runs_on ws c"
        "\<forall>j < k. \<not> (la < cur + int (Suc j) * day_span \<and> runs_on ws (cur + int (Suc j) * day_span))"
        by (auto simp: shift)
      have "\<forall>j < Suc k. \<not> (la < cur + int j * day_span \<and> runs_on ws (cur + int j * day_span))"
        using k(5) False by (subst less) simp
      moreover have "cron_search la ws cur (Suc left) = Some c" using False Some by auto
      ultimately show ?thesis
        using k(1-4) by (simp only: option.case) (intro exI [of _ "Suc k"], simp)
    qed
  qed
qed simp

lemma weekday_range: "cron_weekday_to_python s v = Inr w \<Longrightarrow> 0 \<le> w \<and> w \<le> 6"
  by (auto simp: cron_weekday_to_python_def split: option.splits if_splits)

lemma map_sum_Inr: "map_sum id f x = Inr y \<longleftrightarrow> (\<exists>z. x = Inr z \<and> y = f z)"
  by (cases x) auto

lemma weekday_part_range:
  "weekday_part s p = Inr ws \<Longrightarrow> ws \<noteq> [] \<and> set ws \<subseteq> {0..6}"
  by (auto simp: weekday_part_def Let_def map_sum_Inr split: if_splits sum.splits
      dest!: weekday_range)

lemma weekday_parts_range:
  "weekday_parts s ps = Inr ws \<Longrightarrow> ps \<noteq> [] \<Longrightarrow> ws \<noteq> [] \<and> set ws \<subseteq> {0..6}"
proof (induction ps arbitrary: ws)
  case (Cons p ps)
  then obtain vs us where "weekday_part s p = Inr vs" "weekday_parts s ps = Inr us" "ws = vs @ us"
    by (auto simp: map_sum_Inr split: sum.splits)
  then show ?case
    using Cons.IH weekday_part_range by (cases ps) fastforce+
qed simp

lemma split_on_not_Nil: "split_on c s \<noteq> []"
  by (induction s) (auto split: list.splits)

lemma parse_simple_cron_range:
  assumes "parse_simple_cron s = Inr (m, h, ws)"
  shows "0 \<le> m \<and> m \<le> 59 \<and> 0 \<le> h \<and> h \<le> 23 \<and> (\<forall>vs. ws = Some vs \<longrightarrow> vs \<noteq> [] \<and> set vs \<subseteq> {0..6})"
proof -
  have field: "vs \<noteq> [] \<and> set vs \<subseteq> {0..6}" if "parse_weekday_field s v = Inr (Some vs)" for v vs
    using that weekday_parts_range [OF _ split_on_not_Nil]
    by (auto simp: parse_weekday_field_def map_sum_Inr split: if_splits)
  show ?thesis
    using assms field
    by (auto simp: parse_simple_cron_def map_sum_Inr split: list.splits if_splits option.splits)
qed

text \<open>In any seven days in a row there is one of every weekday.\<close>

lemma weekday_within_week:
  assumes "0 \<le> w" and "w \<le> (6 :: int)"
  shows "\<exists>k < 7. weekday_of (cur + int k * day_span) = w"
proof -
  define k where "k = nat ((w - weekday_of cur) mod 7)"
  have "weekday_of (cur + int k * day_span) = (weekday_of cur + int k) mod 7"
    by (simp add: weekday_of_def day_span_def seconds_def mod_simps algebra_simps)
  also have "\<dots> = w" using assms by (simp add: k_def mod_simps)
  finally show ?thesis using assms by (intro exI [of _ k]) (simp add: k_def)
qed

lemma runs_within_week:
  assumes "\<And>vs. ws = Some vs \<Longrightarrow> vs \<noteq> [] \<and> set vs \<subseteq> {0..6}"
  shows "\<exists>k < 7. runs_on ws (cur + int k * day_span)"
proof (cases ws)
  case None
  then show ?thesis by (intro exI [of _ 0]) (simp add: runs_on_def)
next
  case (Some vs)
  then have "hd vs \<in> set vs" "0 \<le> hd vs" "hd vs \<le> 6" using assms [OF Some] by (cases vs; auto)+
  with weekday_within_week [of "hd vs" cur] Some show ?thesis by (auto simp: runs_on_def)
qed

text \<open>The first wall clock of a time of day and a set of weekdays after a given one.\<close>

definition first_run_after :: "int \<Rightarrow> int \<Rightarrow> int list option \<Rightarrow> int \<Rightarrow> bool" where
  "first_run_after wall tod weekdays c \<longleftrightarrow>
     wall < c \<and> c mod day_span = tod \<and> runs_on weekdays c \<and>
     (\<forall>x. wall < x \<and> x < c \<and> x mod day_span = tod \<longrightarrow> \<not> runs_on weekdays x)"

lemma cron_search_within_week:
  assumes ws: "\<And>vs. ws = Some vs \<Longrightarrow> vs \<noteq> [] \<and> set vs \<subseteq> {0..6}"
    and tod: "0 \<le> tod" "tod < day_span"
  shows "\<exists>c. cron_search wall ws (wall div day_span * day_span + tod) 370 = Some c \<and>
    first_run_after wall tod ws c \<and> c \<le> wall + 7 * day_span"
proof -
  let ?cur = "wall div day_span * day_span + tod"
  have pos: "0 < day_span" by (simp add: day_span_def seconds_def)
  have wall: "wall = wall div day_span * day_span + wall mod day_span" by simp
  have rest: "0 \<le> wall mod day_span" "wall mod day_span < day_span" using pos by simp_all
  have fl: "wall div day_span * day_span \<le> wall" "wall < wall div day_span * day_span + day_span"
    using wall rest by linarith+
  define skip :: nat where "skip = (if wall < ?cur then 0 else 1)"
  obtain k0 where k0: "k0 < 7" "runs_on ws (?cur + int skip * day_span + int k0 * day_span)"
    using runs_within_week [OF ws] by blast
  have base: "wall < ?cur + int skip * day_span" "?cur + int skip * day_span \<le> wall + day_span"
    using fl tod by (cases "wall < ?cur"; simp add: skip_def; linarith)+
  have nonneg: "0 \<le> int k0 * day_span" using pos by simp
  have two: "int (skip + k0) * day_span = int skip * day_span + int k0 * day_span"
    by (simp add: distrib_right)
  have late: "wall < ?cur + int (skip + k0) * day_span"
    unfolding two using base(1) nonneg by linarith
  have there: "runs_on ws (?cur + int (skip + k0) * day_span)" using k0(2) by (simp add: algebra_simps)
  have less: "skip + k0 < 370" using k0(1) by (simp add: skip_def)
  note search = cron_search_first [where la = wall and ws = ws and cur = ?cur and left = 370]
  show ?thesis
  proof (cases "cron_search wall ws ?cur 370")
    case None
    with search late there less show ?thesis by auto
  next
    case (Some c)
    with search obtain k where k: "c = ?cur + int k * day_span" "wall < c" "runs_on ws c"
      "\<forall>j < k. \<not> (wall < ?cur + int j * day_span \<and> runs_on ws (?cur + int j * day_span))"
      by auto
    have "k \<le> skip + k0" using k(4) late there by (meson not_less)
    then have "c \<le> ?cur + int (skip + k0) * day_span" using k(1) pos by simp
    also have "\<dots> \<le> wall + 7 * day_span"
    proof -
      have "int k0 * day_span \<le> 6 * day_span" using k0(1) pos by (intro mult_right_mono) auto
      then show ?thesis unfolding two using base(2) by linarith
    qed
    finally have week: "c \<le> wall + 7 * day_span" .
    have "\<not> runs_on ws x" if x: "wall < x" "x < c" "x mod day_span = tod" for x
    proof -
      have "x = x div day_span * day_span + tod" using x(3) by (metis div_mult_mod_eq)
      then have eq: "x = ?cur + (x div day_span - wall div day_span) * day_span"
        by (simp add: algebra_simps)
      have "wall div day_span \<le> x div day_span" using x(1) pos by (simp add: zdiv_mono1)
      then obtain j :: nat where j: "x div day_span - wall div day_span = int j"
        by (metis diff_ge_0_iff_ge nonneg_int_cases)
      have "int j * day_span < int k * day_span" using x(2) eq j k(1) by simp
      then have "j < k" using pos by simp
      with k(4) x(1) eq j show ?thesis by auto
    qed
    moreover have "c mod day_span = tod" using k(1) tod by simp
    ultimately show ?thesis using Some k(2,3) week by (auto simp: first_run_after_def)
  qed
qed

text \<open>C17. Every cron expression the scheduler accepts has a next run within a week, so its search
  never ends without one: it is the first wall clock after now with the hour and minute on one
  of the weekdays.\<close>

theorem next_cron_correct:
  assumes "parse_simple_cron s = Inr (m, h, ws)" and "schedule_tzinfo zones s = Inr z"
  shows "\<exists>c. next_cron_after zones s now = Inr (zn_instant z c) \<and>
    first_run_after (zn_wall z now) (seconds (h * 3600 + m * 60)) ws c \<and>
    c \<le> zn_wall z now + 7 * day_span"
proof -
  note range = parse_simple_cron_range [OF assms(1)]
  have "0 \<le> seconds (h * 3600 + m * 60)" "seconds (h * 3600 + m * 60) < day_span"
    using range by (auto simp: seconds_def day_span_def)
  with cron_search_within_week [of ws _ "zn_wall z now"] range assms
  show ?thesis by (fastforce simp: next_cron_after_def Let_def)
qed

section \<open>A tick keeps the task core\<close>

lemma tracks_put_schedule [intro]: "core.tracks (put_schedule sid f)"
  by (rule core.tracksI) (auto simp: put_schedule_def intro: reschedule)

lemma tracks_advance [intro]: "core.tracks (advance_schedule zones s due_at now)"
  unfolding advance_schedule_def by (intro core.tracks_seq) auto

lemma tame_available:
  "tame t (\<lambda>r. if t_available_at r = now then r else r\<lparr>t_available_at := now, t_updated_at := clock\<rparr>)"
  by (auto simp: tame_def keeps_keys_def totals_def row_ok_def lease_whole_def
      identity_of_def)

lemma tracks_admit [intro]: "core.tracks (admit_materialized_task s dl fire_time now t)"
  unfolding admit_materialized_task_def
  by (intro core.tracks_seq tracks_update tame_available tracks_append) auto

lemma tracks_create_materialized:
  assumes race: "\<And>d. core_ok d \<Longrightarrow> moves d (race d)"
  shows "core.tracks (create_materialized_task sha race fresh s fire_time now)"
proof -
  have "core.tracks (create_task sha race tid rq)" for tid rq
    by (rule core.tracksI) (rule create_task_moves [OF _ _ race])
  then show ?thesis
    unfolding create_materialized_task_def by (intro core.tracks_seq) auto
qed

lemma tracks_materialize_schedule:
  assumes "\<And>d. core_ok d \<Longrightarrow> moves d (race d)"
  shows "core.tracks (materialize_schedule zones sha race fresh now s)"
  unfolding materialize_schedule_def Let_def
  by (intro core.tracks_seq core.tracks_if tracks_create_materialized assms) auto

lemma tracks_collect: "(\<And>x. core.tracks (f x)) \<Longrightarrow> core.tracks (collect f xs)"
  by (induction xs) (simp_all add: core.tracks_seq)

lemma tracks_transaction:
  assumes m: "core.tracks m" and others: "\<And>d. core_ok d \<Longrightarrow> moves d (others d)"
  shows "core.tracks (transaction others m)"
proof (rule core.tracksI)
  fix d r d' assume ok: "core_ok d" and run: "transaction others m d = (r, d')"
  obtain x d1 where one: "m d = (x, d1)" by (cases "m d")
  show "moves d d'"
    using run one others [OF ok] core.tracksD [OF m ok one]
    by (auto simp: transaction_def split: sum.splits)
qed

text \<open>C13. A tick of the scheduler changes the task tables only by moves and keeps every invariant
  of them, whatever schedules are due and whatever other transactions commit between the lookup
  and the insert of a task; a tick that raises leaves nothing of its own: the tables are as the
  transactions that committed while it ran have left them, the same as before if there were none.\<close>

theorem scheduler_tick_refines:
  assumes "core_ok d" and "\<And>d. core_ok d \<Longrightarrow> moves d (race d)"
    and "\<And>d. core_ok d \<Longrightarrow> moves d (others d)"
    and "scheduler_run_once zones sha race others fresh now limit lock_acquired d = (r, d')"
  shows "moves d d' \<and> core_ok d' \<and> ((\<exists>e. r = Inl e) \<longrightarrow> d' = others d)"
proof -
  have "core.tracks (materialize_due_schedules zones sha race fresh now limit lock_acquired)"
    unfolding materialize_due_schedules_def
    by (intro core.tracks_seq core.tracks_if tracks_collect tracks_materialize_schedule assms(2)) auto
  then have tr: "core.tracks (scheduler_run_once zones sha race others fresh now limit lock_acquired)"
    unfolding scheduler_run_once_def by (intro core.tracks_seq tracks_transaction assms(3)) auto
  have "d' = others d" if "r = Inl e" for e
    using assms(4) that
    by (auto simp: scheduler_run_once_def transaction_def seq_apply split: sum.splits prod.splits)
  with core.tracksD [OF tr assms(1,4)] core_ok_moves [OF _ assms(1)] show ?thesis by blast
qed

section \<open>One task per fire time\<close>

lemma create_task_row:
  assumes run: "create_task sha race fresh rq d = (Inr t, d')" and ok: "core_ok d"
    and race: "\<And>d. core_ok d \<Longrightarrow> moves d (race d)" and ev: "rq_slack_event_id rq = None"
  shows "t \<in> set (db_tasks d') \<and>
    identity_of t = Some (rq_installation rq, ident_key (request_identity sha rq))"
proof -
  let ?ident = "request_identity sha rq"
  have found: "t \<in> set (db_tasks d1) \<and> identity_of t = Some (rq_installation rq, ident_key ?ident)"
    if "existing_row (rq_installation rq) ?ident None d1 = Some t" for t d1
    using that by (auto simp: existing_row_def identity_of_def split: option.splits
        dest: get_by_identity_key_Some)
  obtain x d1 where look: "lookup_existing (rq_installation rq) ?ident None d = (x, d1)"
    by (cases "lookup_existing (rq_installation rq) ?ident None d")
  have x: "x = Inr (existing_row (rq_installation rq) ?ident None d)"
    by (rule lookup_existing_result [OF look core_okD(2) [OF ok]])
  note same = lookup_existing_tasks [OF look core_okD(2) [OF ok]]
  show ?thesis
  proof (cases "existing_row (rq_installation rq) ?ident None d")
    case (Some r)
    with run look x ev have "t = r" "d' = d1" by (auto simp: create_task_def seq_apply)
    with found [OF Some] same show ?thesis by simp
  next
    case None
    with run look x ev have ins: "create_insert sha fresh rq (race d1) = (Inr t, d')"
      by (auto simp: create_task_def seq_apply)
    have ok1: "core_ok (race d1)"
      using lookup_existing_moves [OF look core_okD(2) [OF ok]] core_ok_moves ok race by blast
    obtain y d2 where look2: "lookup_existing (rq_installation rq) ?ident None (race d1) = (y, d2)"
      by (cases "lookup_existing (rq_installation rq) ?ident None (race d1)")
    have y: "y = Inr (existing_row (rq_installation rq) ?ident None (race d1))"
      by (rule lookup_existing_result [OF look2 core_okD(2) [OF ok1]])
    note same2 = lookup_existing_tasks [OF look2 core_okD(2) [OF ok1]]
    from ins look2 y ev show ?thesis
      using found [where ?d1.0 = "race d1"] same2
      by (auto simp: create_insert_eq split: option.splits)
  qed
qed

lemma create_task_known:
  assumes un: "tasks_unique d" and row: "t \<in> set (db_tasks d)"
    "identity_of t = Some (rq_installation rq, ident_key (request_identity sha rq))"
    and run: "create_task sha race fresh rq d = (r, d')"
  shows "r = Inr t \<and> db_tasks d' = db_tasks d"
proof -
  let ?look = "lookup_existing (rq_installation rq) (request_identity sha rq) (rq_slack_event_id rq)"
  obtain x d1 where look: "?look d = (x, d1)" by (cases "?look d")
  have "x = Inr (Some t)"
    using lookup_existing_result [OF look un] existing_row_identity [OF un row] by simp
  with run look lookup_existing_tasks [OF look un] show ?thesis
    by (simp add: create_task_def seq_apply)
qed

lemma create_materialized_row:
  assumes run: "create_materialized_task sha race fresh s fire_time now d = (Inr t, d')"
    and ok: "core_ok d" and race: "\<And>d. core_ok d \<Longrightarrow> moves d (race d)"
  shows "\<exists>input dl d1. create_task sha race (fresh (s_id s)) (schedule_request sha s input dl fire_time) d =
    (Inr t, d1) \<and> moves d1 d' \<and> length (db_tasks d') = length (db_tasks d1) \<and> core_ok d1"
proof -
  obtain input dl t0 d1 where create:
    "create_task sha race (fresh (s_id s)) (schedule_request sha s input dl fire_time) d = (Inr t0, d1)"
    and rest: "admit_materialized_task s dl fire_time now t0 d1 = (Inr t, d')"
    using run unfolding create_materialized_task_def by (blast elim: seq_InrE)
  have t: "t0 = t" and len: "length (db_tasks d') = length (db_tasks d1)"
    using rest by (auto simp: admit_materialized_task_def seq_apply update_task_simp
        append_event_def upd_task_def row_upd_def resolve_task_def
        split: sum.splits prod.splits option.splits)
  have "moves d d1" by (rule create_task_moves [OF create ok race])
  then have ok1: "core_ok d1" using core_ok_moves ok by blast
  have "moves d1 d'" by (rule core.tracksD [OF tracks_admit ok1 rest])
  with create t len ok1 show ?thesis by blast
qed

text \<open>C14. A fire time of a schedule yields one task: once it has one, materialising the same fire
  time again, after any moves of the task core and with whatever the row of the schedule says by
  then, returns that task and adds none.\<close>

theorem fire_time_yields_one_task:
  assumes "core_ok d" and "\<And>d. core_ok d \<Longrightarrow> moves d (race d)"
    and "create_materialized_task sha race fresh s fire_time now d = (Inr t, d1)"
    and "moves d1 d2" and "s_id s' = s_id s" and "s_installation s' = s_installation s"
    and "create_materialized_task sha race fresh' s' fire_time now' d2 = (Inr t', d3)"
  shows "t_id t' = t_id t \<and> length (db_tasks d3) = length (db_tasks d2)"
proof -
  let ?key = "''scheduled:'' @ uuid_str (s_id s) @ '':'' @ isoformat fire_time"
  have key: "rq_slack_event_id (schedule_request sha s'' input dl fire_time) = None"
    "ident_key (request_identity sha (schedule_request sha s'' input dl fire_time)) =
      ''scheduled:'' @ uuid_str (s_id s'') @ '':'' @ isoformat fire_time"
    "rq_installation (schedule_request sha s'' input dl fire_time) = s_installation s''" for s'' input dl
    by (simp_all add: schedule_request_def request_identity_def scheduled_identity_def Let_def)
  obtain input dl d0 where one:
    "create_task sha race (fresh (s_id s)) (schedule_request sha s input dl fire_time) d = (Inr t, d0)"
    "moves d0 d1" "core_ok d0"
    using create_materialized_row [OF assms(3,1,2)] by blast
  have row: "t \<in> set (db_tasks d0)" "identity_of t = Some (s_installation s, ?key)"
    using create_task_row [OF one(1) assms(1,2)] by (simp_all only: key)
  have far: "moves d0 d2" using one(2) assms(4) moves_trans by blast
  then have ok2: "core_ok d2" using core_ok_moves one(3) by blast
  obtain t2 where t2: "t2 \<in> set (db_tasks d2)" "t_id t2 = t_id t"
    "identity_of t2 = Some (s_installation s, ?key)"
    using identity_moves [OF far one(3) row(1)] row(2) by auto
  obtain input' dl' d4 where again:
    "create_task sha race (fresh' (s_id s')) (schedule_request sha s' input' dl' fire_time) d2 = (Inr t', d4)"
    "length (db_tasks d3) = length (db_tasks d4)"
    using create_materialized_row [OF assms(7) ok2 assms(2)] by blast
  have "Inr t' = (Inr t2 :: task res) \<and> db_tasks d4 = db_tasks d2"
    by (rule create_task_known [OF core_okD(2) [OF ok2] t2(1) _ again(1)])
      (simp add: t2(3) key assms(5,6))
  with again t2(2) show ?thesis by simp
qed

end
