(* ===== verification/Scheduler_Progress.thy ===== *)
theory Scheduler_Progress
  imports Scheduler_Properties
begin

text \<open>
  What a tick of the scheduler does to the queue of due schedules: a schedule it has handled leaves
  it, one whose previous task is still open stays in it, and a malformed one at its head stops every
  tick. With the sample runs of the scheduler's properties.
\<close>

section \<open>The head of the queue\<close>

lemma sort_key_ConsD: "sort_key f xs = x # ys \<Longrightarrow> x \<in> set xs"
  using set_sort [of f xs] by (metis list.set_intros(1))

lemma sort_key_head:
  fixes f :: "'a \<Rightarrow> 'k :: linorder"
  assumes less: "sort_key f (filter P xs) = x # rest" and sub: "\<And>y. P y \<Longrightarrow> Q y"
    and late: "\<And>y. Q y \<Longrightarrow> \<not> P y \<Longrightarrow> f x < f y"
  shows "\<exists>rest'. sort_key f (filter Q xs) = x # rest'"
proof -
  let ?ys = "sort_key f (filter Q xs)"
  have "filter P ?ys = sort_key f (filter P (filter Q xs))" by (rule filter_sort)
  also have "filter P (filter Q xs) = filter P xs" using sub by (auto simp: filter_filter intro: filter_cong)
  finally have P: "filter P ?ys = x # rest" using less by simp
  then obtain y ys where ys: "?ys = y # ys" by (cases ?ys) auto
  have "x \<in> set ?ys" using P by (metis filter_is_subset list.set_intros(1) subsetD)
  moreover have "sorted (map f ?ys)" by simp
  ultimately have le: "f y \<le> f x" unfolding ys by auto
  have "y \<in> set (filter Q xs)" by (rule sort_key_ConsD [OF ys])
  then have "P y" using late le by fastforce
  with P ys show ?thesis by simp
qed

lemma due_head_stays:
  assumes "due_schedules at (nat limit) d = s # rest" and "at \<le> later_at"
  shows "\<exists>rest'. due_schedules later_at (nat limit) d = s # rest'"
proof -
  let ?open = "\<lambda>t s. s_status s = ''active'' \<and>
    (case s_next_run_at s of None \<Rightarrow> False | Some at \<Rightarrow> at \<le> t) \<and>
    map_of (s_metadata s) system_drive_metadata_key = None \<and> s_id s \<notin> set (db_row_locks d)"
  let ?f = "\<lambda>s. (the (s_next_run_at s), s_created_at s)"
  have lim: "nat limit \<noteq> 0" using assms(1) by (auto simp: due_schedules_def)
  then obtain rest1 where one: "sort_key ?f (filter (?open at) (db_schedules d)) = s # rest1"
    using assms(1) by (cases "sort_key ?f (filter (?open at) (db_schedules d))")
      (auto simp: due_schedules_def take_Cons split: nat.splits)
  from sort_key_ConsD [OF this] have s: "the (s_next_run_at s) \<le> at" by (auto split: option.splits)
  have "\<exists>rest'. sort_key ?f (filter (?open later_at) (db_schedules d)) = s # rest'"
  proof (rule sort_key_head [OF one])
    fix y
    show "?open later_at y" if "?open at y"
      using that assms(2) by (cases "s_next_run_at y") simp_all
    show "?f s < ?f y" if "?open later_at y" "\<not> ?open at y"
      using that s by (cases "s_next_run_at y") (simp_all add: less_prod_def)
  qed
  with lim show ?thesis by (auto simp: due_schedules_def take_Cons split: nat.splits)
qed

section \<open>A schedule that cannot be materialised\<close>

text \<open>C15. A schedule whose template has no input stops the scheduler once it is the first in the queue, if
  it does not skip missed times, its budget is valid, its last task is not open any more and it is no
  cron schedule of a form that is not supported: while the tables stay so, the tick of every later
  time raises and rolls back all it did, so neither this schedule nor any other moves on.\<close>

theorem malformed_schedule_stops_all:
  assumes "due_schedules at (nat limit) d = s # rest" and "1 \<le> limit"
    and "optional_template_string (s_task_template s) ''input'' = None"
    and "\<not> overlap_active s d" and "s_catchup_policy s \<noteq> ''skip''" and "has_valid_run_budget s"
    and "s_spec_kind s = ''cron'' \<longrightarrow> cron_supported s" and "at \<le> coerce_utc now d"
  shows "scheduler_run_once zones sha race others fresh now limit True d =
    (Inl (schedule_error s (''task_template is missing '' @ repr_text ''input'')), others d)"
proof -
  obtain rest' where due: "due_schedules (coerce_utc now d) (nat limit) d = s # rest'"
    using due_head_stays [OF assms(1,8)] by blast
  have supported: "(s_spec_kind s = ''cron'' \<and> \<not> cron_supported s) = False"
    using assms(7) by blast
  have "materialize_schedule zones sha race fresh (coerce_utc now d) s d =
      (Inl (schedule_error s (''task_template is missing '' @ repr_text ''input'')), d)"
    using assms(3-6) supported
    by (simp add: materialize_schedule_def Let_def seq_apply missed_window_def
        create_materialized_task_def required_template_string_def del: de_Morgan_conj)
  then show ?thesis
    using assms(2) due
    by (simp add: scheduler_run_once_def transaction_def materialize_due_schedules_def seq_apply)
qed

section \<open>A schedule whose last task is still open\<close>

lemma collect_overlaps:
  assumes "\<forall>s \<in> set rows. overlap_active s d"
  shows "collect (materialize_schedule zones sha race fresh now) rows d =
    (Inr (map (\<lambda>s. schedule_outcome s ''skipped''
       (case s_next_run_at s of Some at \<Rightarrow> at | None \<Rightarrow> now) ''active_materialized_task_exists'') rows), d)"
  using assms
  by (induction rows) (simp_all add: seq_apply materialize_schedule_def Let_def)

text \<open>C16. A schedule that is skipped because its last task is still open keeps its place in the
  queue. When as many of those as the limit come first, the tick changes nothing and no later
  schedule is looked at.\<close>

theorem open_tasks_hold_the_queue:
  assumes "\<forall>s \<in> set (due_schedules (coerce_utc now d) (nat limit) d). overlap_active s d"
    and "1 \<le> limit"
  shows "\<exists>st ms. scheduler_run_once zones sha race others fresh now limit True d = (Inr (st, ms), d) \<and>
    map mz_schedule ms = map s_id (due_schedules (coerce_utc now d) (nat limit) d) \<and>
    (\<forall>m \<in> set ms. mz_action m = ''skipped'' \<and> mz_task m = None)"
  using assms(2) collect_overlaps [OF assms(1)]
  by (simp add: scheduler_run_once_def transaction_def materialize_due_schedules_def seq_apply
      schedule_outcome_def o_def)

section \<open>A handled schedule leaves the queue\<close>

text \<open>A time zone whose wall clock does not show later what it showed before now.\<close>

definition runs_forward :: "zone_table \<Rightarrow> schedule \<Rightarrow> timestamp \<Rightarrow> bool" where
  "runs_forward zones s now \<longleftrightarrow>
     (\<forall>z c. schedule_tzinfo zones s = Inr z \<longrightarrow> zn_wall z now < c \<longrightarrow> now < zn_instant z c)"

definition not_due :: "timestamp \<Rightarrow> schedule \<Rightarrow> bool" where
  "not_due now r \<longleftrightarrow> s_status r \<noteq> ''active'' \<or>
     (case s_next_run_at r of None \<Rightarrow> True | Some at \<Rightarrow> now < at)"

lemma next_interval_late:
  "next_interval_after due_at s now = Inr at \<Longrightarrow> now < at"
  using interval_loop_grid [of "seconds n" due_at now for n]
  by (auto simp: next_interval_after_def seconds_def split: option.splits if_splits)
    (smt (verit, best))

lemma next_cron_late:
  assumes "next_cron_after zones s now = Inr at" and "runs_forward zones s now"
  shows "now < at"
proof -
  obtain m h ws z where p: "parse_simple_cron s = Inr (m, h, ws)" "schedule_tzinfo zones s = Inr z"
    using assms(1) by (auto simp: next_cron_after_def split: sum.splits)
  let ?cand = "zn_wall z now div day_span * day_span + seconds (h * 3600 + m * 60)"
  obtain c where c: "cron_search (zn_wall z now) ws ?cand 370 = Some c" "at = zn_instant z c"
    using assms(1) p by (auto simp: next_cron_after_def Let_def split: option.splits)
  have "zn_wall z now < c"
    using cron_search_first [where la = "zn_wall z now" and ws = ws and cur = ?cand and left = 370] c(1)
    by auto
  with assms(2) p(2) c(2) show ?thesis by (simp add: runs_forward_def)
qed

lemma advance_schedule_result:
  assumes "advance_schedule zones s due_at now d = (Inr u, d')"
    and "s_spec_kind s \<in> {''oneoff'', ''interval'', ''cron''}"
    and "s_spec_kind s = ''cron'' \<Longrightarrow> runs_forward zones s now"
  shows "\<exists>f. d' = d\<lparr>db_schedules := row_upd s_id (s_id s) f (db_schedules d)\<rparr> \<and>
    (\<forall>r. s_id (f r) = s_id r \<and> not_due now (f r))"
proof -
  let ?f = "\<lambda>next r. r\<lparr>s_last_run_at := Some due_at, s_next_run_at := next,
       s_status := (if s_spec_kind s = ''oneoff'' then ''completed'' else s_status r),
       s_updated_at := now\<rparr>"
  obtain nxt where "d' = d\<lparr>db_schedules := row_upd s_id (s_id s) (?f nxt) (db_schedules d)\<rparr>"
    and "s_spec_kind s = ''oneoff'' \<or> (\<exists>at. nxt = Some at \<and> now < at)"
    using assms next_interval_late next_cron_late
    by (fastforce simp: advance_schedule_def put_schedule_def seq_apply map_sum_Inr
        split: sum.splits if_splits)
  then show ?thesis by (intro exI [of _ "?f nxt"]) (auto simp: not_due_def)
qed

lemma row_upd_not_due:
  assumes "\<And>r. s_id (f r) = s_id r \<and> not_due now (f r)"
  shows "\<forall>r \<in> set (row_upd s_id k f rows). s_id r = k \<longrightarrow> not_due now r"
  using assms by (auto simp: row_upd_def)

lemma seq_returning_InrE:
  assumes "seq m (\<lambda>x. returning (f x)) d = (Inr y, d')"
  obtains x where "m d = (Inr x, d')"
  using assms by (auto elim!: seq_InrE)

lemma materialize_schedule_cases:
  assumes "materialize_schedule zones sha race fresh now s d = (Inr m, d')" and "\<not> overlap_active s d"
  obtains (paused) f u where "put_schedule (s_id s) f d = (Inr u, d')"
      "f = pause_unsupported now \<or> f = pause_for_budget now"
    | (moved) d1 due_at u where "advance_schedule zones s due_at now d1 = (Inr u, d')"
proof -
  have look: "seq (reading (overlap_active s)) k d = k False d" for k :: "bool \<Rightarrow> (db, materialization) op"
    using assms(2) by (simp add: seq_apply)
  note run = assms(1) [unfolded materialize_schedule_def Let_def look if_False]
  consider "s_spec_kind s = ''cron'' \<and> \<not> cron_supported s"
    | "\<not> (s_spec_kind s = ''cron'' \<and> \<not> cron_supported s)"
      "missed_window s (case s_next_run_at s of None \<Rightarrow> now | Some at \<Rightarrow> at) now"
    | "\<not> (s_spec_kind s = ''cron'' \<and> \<not> cron_supported s)"
      "\<not> missed_window s (case s_next_run_at s of None \<Rightarrow> now | Some at \<Rightarrow> at) now"
      "\<not> has_valid_run_budget s"
    | "\<not> (s_spec_kind s = ''cron'' \<and> \<not> cron_supported s)"
      "\<not> missed_window s (case s_next_run_at s of None \<Rightarrow> now | Some at \<Rightarrow> at) now"
      "has_valid_run_budget s"
    by blast
  then show thesis
  proof cases
    case 1
    from run [unfolded if_P [OF 1]] show thesis
      by (rule seq_returning_InrE) (rule paused, assumption, simp)
  next
    case 2
    from run [unfolded if_not_P [OF 2(1)] if_P [OF 2(2)]] show thesis
      by (rule seq_returning_InrE) (rule moved)
  next
    case 3
    then have "(\<not> has_valid_run_budget s) = True" by simp
    from run [unfolded if_not_P [OF 3(1)] if_not_P [OF 3(2)] this if_True] show thesis
      by (rule seq_returning_InrE) (rule paused, assumption, simp)
  next
    case 4
    then have "(\<not> has_valid_run_budget s) = False" by simp
    from run [unfolded if_not_P [OF 4(1)] if_not_P [OF 4(2)] this if_False] show thesis
      by (elim seq_InrE seq_returning_InrE) (rule moved)
  qed
qed

lemma due_schedulesD:
  assumes "r \<in> set (due_schedules now limit d)"
  shows "r \<in> set (db_schedules d) \<and> \<not> not_due now r"
proof -
  note mem = in_set_takeD [OF assms [unfolded due_schedules_def], unfolded set_sort set_filter mem_Collect_eq]
  then have "s_status r = ''active''" "case s_next_run_at r of None \<Rightarrow> False | Some at \<Rightarrow> at \<le> now"
    by blast+
  then have "\<not> not_due now r" by (cases "s_next_run_at r") (simp_all add: not_due_def)
  with mem show ?thesis by blast
qed

text \<open>A schedule that a tick has handled, whether it ran, missed its window or was paused, is
  not due at that time any more, unless its last task was still open: each fire time is handled
  once. For a cron schedule the zone's clock must not be set back over the next run.\<close>

theorem handled_schedule_leaves_queue:
  assumes "materialize_schedule zones sha race fresh now s d = (Inr m, d')"
    and "\<not> overlap_active s d"
    and "s_spec_kind s \<in> {''oneoff'', ''interval'', ''cron''}"
    and "s_spec_kind s = ''cron'' \<longrightarrow> runs_forward zones s now"
  shows "s_id s \<notin> s_id ` set (due_schedules now limit d')"
proof -
  let ?gone = "\<lambda>d'. \<forall>r \<in> set (db_schedules d'). s_id r = s_id s \<longrightarrow> not_due now r"
  have adv: "?gone d2" if run: "advance_schedule zones s due_at now d1 = (Inr u, d2)" for due_at u d1 d2
  proof -
    obtain f where "d2 = d1\<lparr>db_schedules := row_upd s_id (s_id s) f (db_schedules d1)\<rparr>"
      "\<forall>r. s_id (f r) = s_id r \<and> not_due now (f r)"
      using advance_schedule_result [OF run assms(3)] assms(4) by blast
    then show ?thesis using row_upd_not_due [of f now "s_id s"] by simp
  qed
  have pause: "?gone d2" if "put_schedule (s_id s) f d = (Inr u, d2)"
    "f = pause_unsupported now \<or> f = pause_for_budget now" for f u d2
    using that row_upd_not_due [of f now "s_id s"]
    by (auto simp: put_schedule_def not_due_def pause_unsupported_def pause_for_budget_def)
  have "?gone d'"
  proof (cases rule: materialize_schedule_cases [OF assms(1,2)])
    case (1 f u)
    then show ?thesis by (rule pause)
  next
    case (2 d1 due_at u)
    then show ?thesis by (rule adv)
  qed
  then show ?thesis by (auto dest: due_schedulesD)
qed

section \<open>Sample runs\<close>

definition digest_schedule :: schedule where
  "digest_schedule = budget_schedule\<lparr>s_next_run_at := Some 0, s_catchup_policy := ''run_once'',
     s_delivery_user := Some ''U1'', s_task_template := [(''input'', JStr ''write the digest'')]\<rparr>"

definition weekly_schedule :: schedule where
  "weekly_schedule = digest_schedule\<lparr>s_spec_kind := ''cron'', s_cron_expr := Some ''30 9 * * 1-5''\<rparr>"

definition utc_zones :: zone_table where
  "utc_zones name = Inr \<lparr>zn_wall = \<lambda>t. t, zn_instant = \<lambda>t. t\<rparr>"

definition plan_db :: "schedule list \<Rightarrow> db" where
  "plan_db ss = empty_db\<lparr>db_schedules := ss\<rparr>"

lemma plan_core_ok: "core_ok (plan_db ss)"
  by (rule core_ok_frame [OF core_ok_empty]) (simp_all add: plan_db_def)

lemma plan_due: "due_schedules 0 10 (plan_db [s]) = [s]"
  if "s_status s = ''active''" "s_next_run_at s = Some 0" "s_metadata s = []"
  using that by (simp add: due_schedules_def plan_db_def empty_db_def)

lemma next_interval_on_grid_witness:
  "\<exists>k \<ge> 0. next_interval_after 0 digest_schedule (seconds 7200) = Inr (k * seconds 3600) \<and>
    seconds 7200 < k * seconds 3600"
proof -
  have "s_interval_seconds digest_schedule = Some 3600" "0 < (3600 :: int)"
    by (simp_all add: digest_schedule_def budget_schedule_def)
  from next_interval_on_grid [OF this, of 0 "seconds 7200"] show ?thesis by auto
qed

lemma next_cron_correct_witness:
  "\<exists>c. next_cron_after utc_zones weekly_schedule 0 = Inr c \<and>
    first_run_after 0 (seconds 34200) (Some [0, 1, 2, 3, 4]) c \<and> c \<le> 7 * day_span"
proof -
  have "parse_simple_cron weekly_schedule = Inr (30, 9, Some [0, 1, 2, 3, 4])" by code_simp
  moreover have "schedule_tzinfo utc_zones weekly_schedule = Inr \<lparr>zn_wall = \<lambda>t. t, zn_instant = \<lambda>t. t\<rparr>"
    by (simp add: schedule_tzinfo_def utc_zones_def)
  ultimately show ?thesis
    using next_cron_correct [of weekly_schedule 30 9 "Some [0, 1, 2, 3, 4]" utc_zones
        "\<lparr>zn_wall = \<lambda>t. t, zn_instant = \<lambda>t. t\<rparr>" 0] by simp
qed

lemma scheduler_tick_refines_witness:
  "core_ok (snd (scheduler_run_once utc_zones sample_sha id id (\<lambda>_. 7) None 10 True
     (plan_db [digest_schedule])))"
proof -
  obtain r d' where run: "scheduler_run_once utc_zones sample_sha id id (\<lambda>_. 7) None 10 True
      (plan_db [digest_schedule]) = (r, d')"
    by (cases "scheduler_run_once utc_zones sample_sha id id (\<lambda>_. 7) None 10 True (plan_db [digest_schedule])")
  have "moves d (id d)" for d by simp
  from scheduler_tick_refines [OF plan_core_ok this this run] run show ?thesis by simp
qed

lemma append_event_succeeds:
  assumes "task_get tid d \<noteq> None"
  shows "\<exists>e d'. append_event tid ty p d = (Inr e, d') \<and> task_get tid d' \<noteq> None"
proof -
  obtain t where "task_get tid d = Some t" using assms by blast
  from append_event_simp [OF this, of ty p] assms show ?thesis by simp
qed

lemma admit_succeeds:
  assumes "task_get (t_id t) d = Some t"
  shows "\<exists>d'. admit_materialized_task s dl fire_time now t d = (Inr t, d')"
proof -
  define f :: "task \<Rightarrow> task" where "f r = (if t_available_at r = now then r
            else r\<lparr>t_available_at := now, t_updated_at := db_now d\<rparr>)" for r
  have "task_get (t_id t) (upd_task (t_id t) f d) \<noteq> None"
    using assms by (simp add: task_get_upd f_def del: task_get_id)
  from append_event_succeeds [OF this] obtain e1 d1 where one: "append_event (t_id t) Log
       [(''message'', JStr ''scheduled_task_budget_admitted''),
        (''schedule_id'', JStr (uuid_str (s_id s))), (''cost_ceiling_usd'', ceiling_string s),
        (''behavior'', JStr ''admit_with_per_run_ceiling'')] (upd_task (t_id t) f d) = (Inr e1, d1)"
    and "task_get (t_id t) d1 \<noteq> None"
    by blast
  from append_event_succeeds [OF this(2)] obtain d2 where
    "\<exists>e2. append_event (t_id t) Log
       [(''message'', JStr ''scheduled_task_materialized''),
        (''schedule_id'', JStr (uuid_str (s_id s))), (''schedule_title'', JStr (s_title s)),
        (''fire_time'', JStr (isoformat fire_time)), (''planned_cost_ceiling_usd'', ceiling_string s),
        (''delivery_kind'', JStr (dl_kind dl)),
        (''delivery_slack_channel_id'', JStr (dl_channel dl)),
        (''delivery_slack_thread_ts'', jopt_str (dl_thread_ts dl)),
        (''artifact_delivery_policy'', JStr (dl_policy dl))] d1 = (Inr e2, d2)"
    by blast
  then have "admit_materialized_task s dl fire_time now t d = (Inr t, d2)"
    using one by (auto simp: admit_materialized_task_def seq_apply update_task_simp f_def [abs_def])
  then show ?thesis by blast
qed

lemma create_materialized_succeeds:
  assumes "db_tasks d = []" and "required_template_string s ''input'' = Inr input"
    and "schedule_delivery s = Inr dl"
  shows "\<exists>t d'. create_materialized_task sha id fresh s fire_time now d = (Inr t, d')"
proof -
  define rq where "rq = schedule_request sha s input dl fire_time"
  define row where "row = new_task (fresh (s_id s)) rq (request_identity sha rq) (db_now d)"
  have rq: "rq_slack_event_id rq = None" "rq_parent rq = None"
    "ident_kind (request_identity sha rq) = ''scheduled''"
    by (simp_all add: rq_def schedule_request_def request_identity_def scheduled_identity_def Let_def)
  have v: "insert_violation row d = None"
    using assms(1) rq by (simp add: row_def insert_violation_def identity_kinds_def)
  have look: "lookup_existing inst ident None d = (Inr None, d)" for inst ident
    using assms(1) by (simp add: lookup_existing_def seq_apply get_by_identity_key_def)
  obtain d1 where ins: "create_insert sha (fresh (s_id s)) rq d = (Inr row, d1)"
    and d1: "db_tasks d1 = [row]"
    using v assms(1) unfolding create_insert_eq row_def [symmetric] by simp
  have "create_task sha id (fresh (s_id s)) rq d = (Inr row, d1)"
    by (simp add: create_task_def seq_apply rq look ins)
  moreover have "task_get (t_id row) d1 = Some row"
    by (simp add: task_get_def row_get_def d1 del: task_get_id)
  ultimately show ?thesis
    using admit_succeeds [of row d1 s dl fire_time now] assms(2,3)
    unfolding create_materialized_task_def rq_def by (auto simp: seq_apply simp del: task_get_id)
qed

lemma digest_texts:
  "required_template_string digest_schedule ''input'' = Inr ''write the digest''"
  "\<exists>dl. schedule_delivery digest_schedule = Inr dl"
proof -
  show "required_template_string digest_schedule ''input'' = Inr ''write the digest''" by code_simp
  have "case schedule_delivery digest_schedule of Inr _ \<Rightarrow> True | _ \<Rightarrow> False" by code_simp
  then show "\<exists>dl. schedule_delivery digest_schedule = Inr dl" by (auto split: sum.splits)
qed

lemma digest_materialized:
  "\<exists>t d'. create_materialized_task sample_sha id (\<lambda>_. 7) digest_schedule 0 0
     (plan_db [digest_schedule]) = (Inr t, d')"
  using digest_texts create_materialized_succeeds [of "plan_db [digest_schedule]"]
  by (auto simp: plan_db_def empty_db_def)

lemma advance_interval_succeeds:
  "s_spec_kind s = ''interval'' \<Longrightarrow> s_interval_seconds s = Some n \<Longrightarrow> 0 < n \<Longrightarrow>
   \<exists>d'. advance_schedule zones s due_at now d = (Inr (), d')"
  by (simp add: advance_schedule_def put_schedule_def seq_apply next_interval_after_def)

lemma fire_time_yields_one_task_witness:
  "\<exists>t d1. create_materialized_task sample_sha id (\<lambda>_. 7) digest_schedule 0 0
     (plan_db [digest_schedule]) = (Inr t, d1) \<and>
   (\<forall>t' d3. create_materialized_task sample_sha id (\<lambda>_. 8) weekly_schedule 0 5 d1 = (Inr t', d3) \<longrightarrow>
     t_id t' = t_id t \<and> length (db_tasks d3) = length (db_tasks d1))"
proof -
  obtain t d1 where run: "create_materialized_task sample_sha id (\<lambda>_. 7) digest_schedule 0 0
     (plan_db [digest_schedule]) = (Inr t, d1)" using digest_materialized by blast
  have same: "s_id weekly_schedule = s_id digest_schedule"
    "s_installation weekly_schedule = s_installation digest_schedule"
    by (simp_all add: weekly_schedule_def)
  have race: "moves d (id d)" for d by simp
  show ?thesis
    using run fire_time_yields_one_task [OF plan_core_ok race run moves_refl same] by blast
qed

lemma malformed_schedule_stops_all_witness:
  "\<exists>e. scheduler_run_once utc_zones sample_sha id id (\<lambda>_. 7) (Some (Aware 99)) 10 True
     (plan_db [digest_schedule\<lparr>s_task_template := []\<rparr>]) =
     (Inl e, plan_db [digest_schedule\<lparr>s_task_template := []\<rparr>])"
proof -
  let ?s = "digest_schedule\<lparr>s_task_template := []\<rparr>" and ?d = "plan_db [digest_schedule\<lparr>s_task_template := []\<rparr>]"
  have "due_schedules 0 (nat 10) ?d = ?s # []"
    using plan_due [of ?s] by (simp add: digest_schedule_def budget_schedule_def)
  moreover have "optional_template_string (s_task_template ?s) ''input'' = None"
    by (simp add: optional_template_string_def)
  moreover have "\<not> overlap_active ?s ?d" by (simp add: overlap_active_def plan_db_def empty_db_def)
  moreover have "s_catchup_policy ?s \<noteq> ''skip''" "has_valid_run_budget ?s"
    "s_spec_kind ?s = ''cron'' \<longrightarrow> cron_supported ?s"
    by (simp_all add: digest_schedule_def budget_schedule_def has_valid_run_budget_def)
  ultimately show ?thesis
    using malformed_schedule_stops_all [of 0 10 ?d ?s "[]" "Some (Aware 99)" utc_zones sample_sha id id]
    by (simp add: coerce_utc_def)
qed

definition open_db :: db where
  "open_db = (plan_db [digest_schedule])
     \<lparr>db_tasks := [sample_row\<lparr>t_identity_kind := Some ''scheduled'',
        t_identity_payload := [(''schedule_id'', JStr (uuid_str 42))]\<rparr>]\<rparr>"

lemma open_tasks_hold_the_queue_witness:
  "\<exists>st ms. scheduler_run_once utc_zones sample_sha id id (\<lambda>_. 7) None 10 True open_db =
     (Inr (st, ms), open_db) \<and> map mz_schedule ms = [42]"
proof -
  have due: "due_schedules (coerce_utc None open_db) (nat 10) open_db = [digest_schedule]"
    by (simp add: due_schedules_def open_db_def plan_db_def empty_db_def coerce_utc_def
        digest_schedule_def budget_schedule_def)
  have "overlap_active digest_schedule open_db" by code_simp
  with due have "\<forall>s \<in> set (due_schedules (coerce_utc None open_db) (nat 10) open_db). overlap_active s open_db"
    by simp
  from open_tasks_hold_the_queue [OF this, of utc_zones sample_sha id id "\<lambda>_. 7"] show ?thesis
    unfolding due by (auto simp: digest_schedule_def budget_schedule_def)
qed

lemma digest_handled:
  "\<exists>m d'. materialize_schedule utc_zones sample_sha id (\<lambda>_. 7) 0 digest_schedule
     (plan_db [digest_schedule]) = (Inr m, d')"
proof -
  obtain t d1 where one: "create_materialized_task sample_sha id (\<lambda>_. 7) digest_schedule 0 0
     (plan_db [digest_schedule]) = (Inr t, d1)" using digest_materialized by blast
  have s: "s_spec_kind digest_schedule = ''interval''" "s_interval_seconds digest_schedule = Some 3600"
    "s_next_run_at digest_schedule = Some 0" "s_catchup_policy digest_schedule = ''run_once''"
    "s_cost_ceiling digest_schedule = Some 12500"
    by (simp_all add: digest_schedule_def budget_schedule_def)
  obtain d2 where two: "advance_schedule utc_zones digest_schedule 0 0 d1 = (Inr (), d2)"
    using advance_interval_succeeds [OF s(1,2)] by fastforce
  have "\<not> overlap_active digest_schedule (plan_db [digest_schedule])"
    by (simp add: overlap_active_def plan_db_def empty_db_def)
  then show ?thesis
    using one two s
    by (simp add: materialize_schedule_def seq_apply missed_window_def has_valid_run_budget_def)
qed

lemma handled_schedule_leaves_queue_witness:
  "\<exists>m d'. materialize_schedule utc_zones sample_sha id (\<lambda>_. 7) 0 digest_schedule
     (plan_db [digest_schedule]) = (Inr m, d') \<and> 42 \<notin> s_id ` set (due_schedules 0 10 d')"
proof -
  obtain m d' where run: "materialize_schedule utc_zones sample_sha id (\<lambda>_. 7) 0 digest_schedule
     (plan_db [digest_schedule]) = (Inr m, d')" using digest_handled by blast
  have "\<not> overlap_active digest_schedule (plan_db [digest_schedule])"
    by (simp add: overlap_active_def plan_db_def empty_db_def)
  moreover have "s_spec_kind digest_schedule \<in> {''oneoff'', ''interval'', ''cron''}"
    "s_spec_kind digest_schedule = ''cron'' \<longrightarrow> runs_forward utc_zones digest_schedule 0"
    by (simp_all add: digest_schedule_def budget_schedule_def)
  ultimately have "s_id digest_schedule \<notin> s_id ` set (due_schedules 0 10 d')"
    by (rule handled_schedule_leaves_queue [OF run])
  then show ?thesis using run by (auto simp: digest_schedule_def budget_schedule_def)
qed

end
