(* ===== verification/Slack_Outbox.thy ===== *)
theory Slack_Outbox
  imports Task_Queue
begin

text \<open>
  \<open>kortny/slack/outbox.py\<close>: the record of a Slack side effect under an idempotency key, its delivery
  and the recovery of records left in progress.

  The table lives in a state that other components extend. The Slack call is an operation of that
  state: it may let time pass and raise, and what it answers is external, a mapping or an object
  that yields one. The name and text of an exception and the error code a \<open>SlackApiError\<close> carries
  are parameters; \<open>race\<close> is what other transactions commit between the lookup and the insert.
\<close>

record effect =
  fx_id :: uuid
  fx_installation :: uuid
  fx_task :: "uuid option"
  fx_key :: string
  fx_operation :: string
  fx_purpose :: "string option"
  fx_channel :: "string option"
  fx_thread_ts :: "string option"
  fx_message_ts :: "string option"
  fx_request :: jobj
  fx_response :: "jobj option"
  fx_status :: string
  fx_attempts :: int
  fx_last_error :: "jobj option"
  fx_available_at :: timestamp
  fx_started_at :: "timestamp option"
  fx_delivered_at :: "timestamp option"
  fx_created_at :: timestamp
  fx_updated_at :: timestamp

record outbox_db =
  ob_effects :: "effect list"
  ob_now :: timestamp
  ob_locks :: "uuid list"

record effect_request =
  er_installation :: uuid
  er_key :: string
  er_operation :: string
  er_request :: jobj
  er_channel :: "string option"
  er_thread_ts :: "string option"
  er_message_ts :: "string option"
  er_task :: "uuid option"
  er_purpose :: "string option"

definition effect_operations :: "string list" where
  "effect_operations = [''chat_postMessage'', ''files_upload_v2'', ''reactions_add'',
     ''reactions_remove'', ''pins_add'', ''bookmarks_add'', ''conversations_canvases_create'',
     ''canvases_edit'', ''chat_stopStream'']"

definition effect_statuses :: "string list" where
  "effect_statuses = [''pending'', ''in_progress'', ''succeeded'', ''failed'']"

section \<open>Answers of Slack\<close>

text \<open>What a call answers: a mapping, an object whose \<open>data\<close> or \<open>to_dict()\<close> is one, or else.\<close>

datatype slack_answer = Mapping_Answer jobj | Data_Answer jobj | Dict_Answer jobj | Other_Answer json

fun coerce_mapping :: "slack_answer \<Rightarrow> jobj option" where
  "coerce_mapping (Mapping_Answer p) = Some p"
| "coerce_mapping (Data_Answer p) = Some p"
| "coerce_mapping (Dict_Answer p) = Some p"
| "coerce_mapping (Other_Answer v) = None"

definition jsonable_mapping :: "slack_answer \<Rightarrow> jobj" where
  "jsonable_mapping a =
     (case coerce_mapping a of Some p \<Rightarrow> p
      | None \<Rightarrow> [(''value'', case a of Other_Answer v \<Rightarrow> v | _ \<Rightarrow> JNull)])"

definition idempotent_success_response ::
  "(py_error \<Rightarrow> string option) \<Rightarrow> string \<Rightarrow> py_error \<Rightarrow> jobj option" where
  "idempotent_success_response api_error operation e =
     (case api_error e of
        None \<Rightarrow> None
      | Some code \<Rightarrow>
          if (operation = ''reactions_add'' \<and> code = ''already_reacted'') \<or>
             (operation = ''reactions_remove'' \<and> code \<in> {''no_reaction'', ''not_reacted''}) \<or>
             (operation = ''pins_add'' \<and> code = ''already_pinned'')
          then Some [(''ok'', JBool True), (''deduped_by_slack'', JBool True), (''error'', JStr code)]
          else None)"

section \<open>Keys\<close>

definition slack_message_key :: "uuid \<Rightarrow> string \<Rightarrow> string" where
  "slack_message_key tid purpose = ''slack:message:'' @ uuid_str tid @ '':'' @ purpose"

definition slack_file_upload_key :: "uuid \<Rightarrow> string" where
  "slack_file_upload_key aid = ''slack:file_upload:'' @ uuid_str aid"

definition slack_reaction_key :: "uuid \<Rightarrow> string \<Rightarrow> string \<Rightarrow> string \<Rightarrow> string \<Rightarrow> string" where
  "slack_reaction_key tid operation ch ts reaction =
     ''slack:'' @ operation @ '':'' @ uuid_str tid @ '':'' @ ch @ '':'' @ ts @ '':'' @ reaction"

definition slack_pin_key :: "uuid \<Rightarrow> string \<Rightarrow> string \<Rightarrow> string" where
  "slack_pin_key tid ch ts = ''slack:pins_add:'' @ uuid_str tid @ '':'' @ ch @ '':'' @ ts"

definition slack_bookmark_key :: "uuid \<Rightarrow> string \<Rightarrow> string \<Rightarrow> string" where
  "slack_bookmark_key tid ch digest =
     ''slack:bookmarks_add:'' @ uuid_str tid @ '':'' @ ch @ '':'' @ digest"

definition slack_channel_canvas_key :: "uuid \<Rightarrow> string \<Rightarrow> string \<Rightarrow> string" where
  "slack_channel_canvas_key tid ch digest =
     ''slack:conversations_canvases_create:'' @ uuid_str tid @ '':'' @ ch @ '':'' @ digest"

definition slack_canvas_edit_key :: "uuid \<Rightarrow> string \<Rightarrow> string \<Rightarrow> string" where
  "slack_canvas_edit_key tid canvas digest =
     ''slack:canvases_edit:'' @ uuid_str tid @ '':'' @ canvas @ '':'' @ digest"

definition slack_channel_intro_key :: "uuid \<Rightarrow> string \<Rightarrow> string" where
  "slack_channel_intro_key inst ch = ''slack:channel_intro:'' @ uuid_str inst @ '':'' @ ch"

definition slack_install_intro_key :: "uuid \<Rightarrow> string" where
  "slack_install_intro_key inst = ''install-intro:'' @ uuid_str inst"

section \<open>Records\<close>

definition effect_get :: "uuid \<Rightarrow> 'z outbox_db_scheme \<Rightarrow> effect option" where
  "effect_get fid d = row_get fx_id fid (ob_effects d)"

definition put_effect :: "uuid \<Rightarrow> (effect \<Rightarrow> effect) \<Rightarrow> 'z outbox_db_scheme \<Rightarrow> 'z outbox_db_scheme" where
  "put_effect fid f d = d\<lparr>ob_effects := row_upd fx_id fid f (ob_effects d)\<rparr>"

definition find_by_key :: "uuid \<Rightarrow> string \<Rightarrow> 'z outbox_db_scheme \<Rightarrow> effect option" where
  "find_by_key inst key d =
     find (\<lambda>r. fx_installation r = inst \<and> fx_key r = key) (ob_effects d)"

definition new_effect :: "uuid \<Rightarrow> effect_request \<Rightarrow> timestamp \<Rightarrow> effect" where
  "new_effect fid rq now =
     \<lparr>fx_id = fid, fx_installation = er_installation rq, fx_task = er_task rq, fx_key = er_key rq,
      fx_operation = er_operation rq, fx_purpose = er_purpose rq, fx_channel = er_channel rq,
      fx_thread_ts = er_thread_ts rq, fx_message_ts = er_message_ts rq, fx_request = er_request rq,
      fx_response = None, fx_status = ''pending'', fx_attempts = 0, fx_last_error = None,
      fx_available_at = now, fx_started_at = None, fx_delivered_at = None, fx_created_at = now,
      fx_updated_at = now\<rparr>"

text \<open>The constraints of the table.\<close>

definition effect_violation :: "effect \<Rightarrow> 'z outbox_db_scheme \<Rightarrow> string option" where
  "effect_violation r d =
     (if fx_operation r \<notin> set effect_operations then Some ''ck_slack_side_effects_operation''
      else if fx_id r \<in> fx_id ` set (ob_effects d) then Some ''slack_side_effects_pkey''
      else if find_by_key (fx_installation r) (fx_key r) d \<noteq> None
      then Some ''idx_slack_side_effects_idempotency''
      else None)"

definition insert_effect :: "uuid \<Rightarrow> effect_request \<Rightarrow> ('z outbox_db_scheme, effect) op" where
  "insert_effect fid rq =
     seq (reading (\<lambda>d. new_effect fid rq (ob_now d))) (\<lambda>row.
     seq (reading (effect_violation row)) (\<lambda>v.
     case v of
       None \<Rightarrow> seq (writing (\<lambda>d. d\<lparr>ob_effects := ob_effects d @ [row]\<rparr>)) (\<lambda>_. returning row)
     | Some c \<Rightarrow>
         seq (reading (find_by_key (er_installation rq) (er_key rq))) (\<lambda>existing.
         case existing of
           Some r \<Rightarrow> returning r
         | None \<Rightarrow> raising (IntegrityError c))))"

definition get_or_create ::
  "('z outbox_db_scheme \<Rightarrow> 'z outbox_db_scheme) \<Rightarrow> uuid \<Rightarrow> effect_request \<Rightarrow> ('z outbox_db_scheme, effect) op" where
  "get_or_create race fid rq =
     seq (reading (find_by_key (er_installation rq) (er_key rq))) (\<lambda>existing.
     case existing of
       Some r \<Rightarrow> returning r
     | None \<Rightarrow> seq (writing race) (\<lambda>_. insert_effect fid rq))"

section \<open>Delivery\<close>

record effect_result =
  fr_effect :: uuid
  fr_response :: jobj
  fr_delivered :: bool
  fr_deduped :: bool

definition start_effect :: "timestamp \<Rightarrow> effect \<Rightarrow> effect" where
  "start_effect now r = r\<lparr>fx_status := ''in_progress'', fx_attempts := fx_attempts r + 1,
     fx_started_at := Some now, fx_updated_at := now, fx_last_error := None\<rparr>"

definition fail_effect :: "timestamp \<Rightarrow> string \<times> string \<Rightarrow> effect \<Rightarrow> effect" where
  "fail_effect now desc r = r\<lparr>fx_status := ''failed'',
     fx_last_error := Some [(''type'', JStr (fst desc)), (''message'', JStr (snd desc))],
     fx_updated_at := now\<rparr>"

definition finish_effect :: "timestamp \<Rightarrow> jobj \<Rightarrow> effect \<Rightarrow> effect" where
  "finish_effect now payload r = r\<lparr>fx_response := Some payload, fx_status := ''succeeded'',
     fx_delivered_at := Some now, fx_updated_at := now\<rparr>"

definition known_response :: "effect \<Rightarrow> jobj" where
  "known_response r =
     (case fx_response r of Some p \<Rightarrow> if p = [] then [(''ok'', JBool True)] else p
      | None \<Rightarrow> [(''ok'', JBool True)])"

text \<open>The Slack call and what its outcome does to the record.\<close>

definition attempt_call ::
  "(py_error \<Rightarrow> string \<times> string) \<Rightarrow> (py_error \<Rightarrow> string option) \<Rightarrow> string \<Rightarrow> uuid \<Rightarrow>
   ('z outbox_db_scheme, slack_answer) op \<Rightarrow> ('z outbox_db_scheme, effect_result) op" where
  "attempt_call describe api_error operation fid call =
     seq (catching (seq call (\<lambda>a. returning (jsonable_mapping a))) (\<lambda>e.
       case idempotent_success_response api_error operation e of
         Some p \<Rightarrow> returning p
       | None \<Rightarrow> seq (writing (\<lambda>d. put_effect fid (fail_effect (ob_now d) (describe e)) d)) (\<lambda>_.
           raising e))) (\<lambda>payload.
     seq (writing (\<lambda>d. put_effect fid (finish_effect (ob_now d) payload) d)) (\<lambda>_.
     returning \<lparr>fr_effect = fid, fr_response = payload, fr_delivered = True, fr_deduped = False\<rparr>))"

definition deliver ::
  "(py_error \<Rightarrow> string \<times> string) \<Rightarrow> (py_error \<Rightarrow> string option) \<Rightarrow>
   ('z outbox_db_scheme \<Rightarrow> 'z outbox_db_scheme) \<Rightarrow> uuid \<Rightarrow> effect_request \<Rightarrow>
   ('z outbox_db_scheme, slack_answer) op \<Rightarrow> ('z outbox_db_scheme, effect_result) op" where
  "deliver describe api_error race fid rq call =
     seq (get_or_create race fid rq) (\<lambda>r.
     if fx_status r = ''succeeded''
     then returning \<lparr>fr_effect = fx_id r, fr_response = known_response r, fr_delivered = False,
            fr_deduped = True\<rparr>
     else
       seq (writing (\<lambda>d. put_effect (fx_id r) (start_effect (ob_now d)) d)) (\<lambda>_.
       attempt_call describe api_error (er_operation rq) (fx_id r) call))"

section \<open>Recovery\<close>

definition default_stale_after :: int where
  "default_stale_after = seconds 300"

definition default_stale_limit :: int where
  "default_stale_limit = 100"

definition stale_effects :: "timestamp \<Rightarrow> nat \<Rightarrow> 'z outbox_db_scheme \<Rightarrow> effect list" where
  "stale_effects cutoff limit d =
     take limit (sort_key (\<lambda>r. case fx_started_at r of None \<Rightarrow> (0 :: int, 0) | Some at \<Rightarrow> (1, at))
       (filter (\<lambda>r. fx_status r = ''in_progress'' \<and>
          (case fx_started_at r of None \<Rightarrow> True | Some at \<Rightarrow> at \<le> cutoff) \<and>
          fx_id r \<notin> set (ob_locks d)) (ob_effects d)))"

definition recover_effect :: "timestamp \<Rightarrow> int \<Rightarrow> effect \<Rightarrow> effect" where
  "recover_effect now stale_after r = r\<lparr>fx_status := ''failed'',
     fx_last_error := Some
       [(''type'', JStr ''StaleSideEffectLease''),
        (''message'', JStr ''Slack side effect was left in progress past its lease window.''),
        (''delivery_state'', JStr ''unknown''), (''recovered_at'', JStr (isoformat now)),
        (''started_at'', jopt_str (map_option isoformat (fx_started_at r))),
        (''stale_after_seconds'', JInt (stale_after div 1000000))],
     fx_available_at := now, fx_updated_at := now\<rparr>"

definition recover_stale_in_progress ::
  "timestamp option \<Rightarrow> int \<Rightarrow> int \<Rightarrow> ('z outbox_db_scheme, uuid list) op" where
  "recover_stale_in_progress now stale_after limit =
     (if stale_after \<le> 0 then raising (ValueError ''stale_after must be positive'')
      else if limit < 1 then raising (ValueError ''limit must be at least 1'')
      else
        seq (reading (\<lambda>d. case now of Some t \<Rightarrow> t | None \<Rightarrow> ob_now d)) (\<lambda>recovered_at.
        seq (reading (stale_effects (recovered_at - stale_after) (nat limit))) (\<lambda>rows.
        seq (for_each (\<lambda>fid. writing (put_effect fid (recover_effect recovered_at stale_after)))
               (map fx_id rows)) (\<lambda>_.
        returning (map fx_id rows)))))"

end
