(* ===== verification/Witness_Lifecycle.thy ===== *)
theory Witness_Lifecycle
  imports Slack_Outbox
begin

text \<open>
  \<open>kortny/witness/lifecycle.py\<close> with the event log of \<open>kortny/witness/ledger/service.py\<close>: what a user
  or an operator does to a suggestion of the Witness, and its private delivery through the outbox.

  The state extends the one of the outbox by the candidates and their transition events. Whether
  the event log is enabled, the Slack call and the mrkdwn normalisation of \<open>kortny/slack_mrkdwn.py\<close>,
  which is made of regular expressions, are parameters.
\<close>

record candidate =
  wc_id :: uuid
  wc_installation :: uuid
  wc_channel :: "string option"
  wc_target_user :: "string option"
  wc_scope_type :: string
  wc_scope_id :: "string option"
  wc_type :: string
  wc_title :: string
  wc_summary :: string
  wc_suggested_action :: "string option"
  wc_suggested_message :: "string option"
  wc_evidence :: "json list"
  wc_source_type :: string
  wc_source_id :: "string option"
  wc_source_task :: "uuid option"
  wc_dedupe_key :: string
  wc_confidence :: int
  wc_status :: string
  wc_cooldown_until :: "timestamp option"
  wc_last_suggested_at :: "timestamp option"
  wc_reinforcement :: int
  wc_first_observed_at :: "timestamp option"
  wc_feedback :: jobj
  wc_metadata :: jobj
  wc_created_at :: timestamp
  wc_updated_at :: timestamp

record proactive_event =
  pe_candidate :: uuid
  pe_installation :: "uuid option"
  pe_from :: "string option"
  pe_to :: string
  pe_type :: string
  pe_reason :: "string option"
  pe_actor :: "string option"
  pe_policy_decision :: "string option"
  pe_task :: "uuid option"
  pe_detail :: "jobj option"
  pe_created_at :: timestamp

record witness_db = outbox_db +
  wt_candidates :: "candidate list"
  wt_events :: "proactive_event list"

definition candidate_statuses :: "string list" where
  "candidate_statuses = [''candidate'', ''sent'', ''accepted'', ''automated'', ''dismissed'',
     ''cooldown'', ''superseded'', ''archived'']"

definition witness_suggestion_purpose :: string where
  "witness_suggestion_purpose = ''witness_suggestion''"

definition default_witness_snooze :: int where
  "default_witness_snooze = seconds 604800"

definition max_witness_audit_history :: nat where
  "max_witness_audit_history = 25"

section \<open>Rows and events\<close>

definition candidate_get :: "uuid \<Rightarrow> witness_db \<Rightarrow> candidate option" where
  "candidate_get cid d = row_get wc_id cid (wt_candidates d)"

definition put_candidate :: "uuid \<Rightarrow> (candidate \<Rightarrow> candidate) \<Rightarrow> witness_db \<Rightarrow> witness_db" where
  "put_candidate cid f d = d\<lparr>wt_candidates := row_upd wc_id cid f (wt_candidates d)\<rparr>"

definition candidate_for_update :: "uuid \<Rightarrow> uuid \<Rightarrow> (witness_db, candidate) op" where
  "candidate_for_update cid inst =
     seq (reading (\<lambda>d. find (\<lambda>c. wc_id c = cid \<and> wc_installation c = inst) (wt_candidates d))) (\<lambda>found.
     case found of
       Some c \<Rightarrow> returning c
     | None \<Rightarrow> raising (LookupErr (''Witness candidate not found: '' @ uuid_str cid)))"

definition ensure_not_archived :: "candidate \<Rightarrow> (witness_db, unit) op" where
  "ensure_not_archived c =
     guarding (wc_status c \<noteq> ''archived'') (ValueError ''This Witness candidate is archived.'')"

definition ensure_not_automated :: "candidate \<Rightarrow> (witness_db, unit) op" where
  "ensure_not_automated c = guarding (wc_status c \<noteq> ''automated'')
     (ValueError ''This Witness candidate already became a standing automation.'')"

text \<open>\<open>record_transition\<close>; the event is written only when the log is enabled.\<close>

definition record_transition ::
  "bool \<Rightarrow> candidate \<Rightarrow> string \<Rightarrow> string \<Rightarrow> string option \<Rightarrow> string option \<Rightarrow> string option \<Rightarrow> timestamp \<Rightarrow>
   (witness_db, unit) op" where
  "record_transition enabled c to_state event_type from_state reason actor now =
     (if \<not> enabled then returning ()
      else writing (\<lambda>d. d\<lparr>wt_events := wt_events d @
        [\<lparr>pe_candidate = wc_id c, pe_installation = Some (wc_installation c),
          pe_from = Some (case from_state of Some s \<Rightarrow> s | None \<Rightarrow> wc_status c), pe_to = to_state,
          pe_type = event_type, pe_reason = reason, pe_actor = actor, pe_policy_decision = None,
          pe_task = None, pe_detail = None, pe_created_at = now\<rparr>]\<rparr>))"

definition bounded_text :: "string \<Rightarrow> nat \<Rightarrow> string" where
  "bounded_text v max_chars = strip (take max_chars (strip (join '' '' (split_ws v))))"

definition take_last :: "nat \<Rightarrow> 'a list \<Rightarrow> 'a list" where
  "take_last n xs = drop (length xs - n) xs"

definition feedback_history :: "jobj \<Rightarrow> json list" where
  "feedback_history feedback = (case jget feedback ''history'' of JArr xs \<Rightarrow> xs | _ \<Rightarrow> [])"

definition feedback_entry :: "string \<Rightarrow> string \<Rightarrow> timestamp \<Rightarrow> jobj \<Rightarrow> json" where
  "feedback_entry action user now details =
     JObj (jmerge [(''action'', JStr action), (''by_user_id'', JStr user), (''at'', JStr (isoformat now))]
       (filter (\<lambda>kv. snd kv \<noteq> JNull) details))"

definition record_feedback :: "string \<Rightarrow> string \<Rightarrow> timestamp \<Rightarrow> jobj \<Rightarrow> candidate \<Rightarrow> candidate" where
  "record_feedback action user now details c =
     (let entry = feedback_entry action user now details;
          history = feedback_history (wc_feedback c) @ [entry]
      in c\<lparr>wc_feedback := jmerge (wc_feedback c)
             [(''history'', JArr (take_last max_witness_audit_history history)), (''last_action'', entry)]\<rparr>)"

text \<open>The part the actions share: the new status, the feedback entry and the event.\<close>

definition set_status ::
  "bool \<Rightarrow> candidate \<Rightarrow> string \<Rightarrow> string \<Rightarrow> timestamp option \<Rightarrow> string \<Rightarrow> jobj \<Rightarrow> string option \<Rightarrow> timestamp \<Rightarrow>
   (witness_db, candidate) op" where
  "set_status enabled c status action cooldown user details reason now =
     seq (writing (put_candidate (wc_id c) (\<lambda>r. record_feedback action user now details
       (r\<lparr>wc_status := status, wc_cooldown_until := cooldown, wc_updated_at := now\<rparr>)))) (\<lambda>_.
     seq (record_transition enabled c status action (Some (wc_status c)) reason (Some user) now) (\<lambda>_.
     returning (record_feedback action user now details
       (c\<lparr>wc_status := status, wc_cooldown_until := cooldown, wc_updated_at := now\<rparr>))))"

section \<open>Actions\<close>

definition dismiss_candidate ::
  "bool \<Rightarrow> uuid \<Rightarrow> uuid \<Rightarrow> string \<Rightarrow> string option \<Rightarrow> timestamp option \<Rightarrow> (witness_db, candidate) op" where
  "dismiss_candidate enabled cid inst user reason now =
     seq (candidate_for_update cid inst) (\<lambda>c.
     seq (ensure_not_archived c) (\<lambda>_.
     seq (ensure_not_automated c) (\<lambda>_.
     seq (reading (\<lambda>d. case now of Some t \<Rightarrow> t | None \<Rightarrow> ob_now d)) (\<lambda>at.
     set_status enabled c ''dismissed'' ''dismissed'' None user
       [(''reason'', jopt_str (case truthy reason of Some r \<Rightarrow> Some (bounded_text r 240) | None \<Rightarrow> None))]
       None at))))"

definition snooze_candidate ::
  "bool \<Rightarrow> uuid \<Rightarrow> uuid \<Rightarrow> string \<Rightarrow> int \<Rightarrow> (witness_db, candidate) op" where
  "snooze_candidate enabled cid inst user duration =
     (if duration \<le> 0 then raising (ValueError ''Snooze duration must be positive.'')
      else
        seq (candidate_for_update cid inst) (\<lambda>c.
        seq (ensure_not_archived c) (\<lambda>_.
        seq (ensure_not_automated c) (\<lambda>_.
        seq (reading ob_now) (\<lambda>now.
        set_status enabled c ''cooldown'' ''snoozed'' (Some (now + duration)) user
          [(''cooldown_until'', JStr (isoformat (now + duration))),
           (''duration_seconds'', JInt (duration div 1000000))] (Some ''snoozed'') now)))))"

definition accept_candidate :: "bool \<Rightarrow> uuid \<Rightarrow> uuid \<Rightarrow> string \<Rightarrow> (witness_db, candidate) op" where
  "accept_candidate enabled cid inst user =
     seq (candidate_for_update cid inst) (\<lambda>c.
     seq (ensure_not_archived c) (\<lambda>_.
     seq (ensure_not_automated c) (\<lambda>_.
     seq (reading ob_now) (\<lambda>now.
     set_status enabled c ''accepted'' ''accepted'' None user [] None now))))"

definition reactivate_candidate :: "bool \<Rightarrow> uuid \<Rightarrow> uuid \<Rightarrow> string \<Rightarrow> (witness_db, candidate) op" where
  "reactivate_candidate enabled cid inst user =
     seq (candidate_for_update cid inst) (\<lambda>c.
     seq (guarding (wc_status c \<noteq> ''archived'')
            (ValueError ''Archived Witness candidates cannot be reactivated.'')) (\<lambda>_.
     seq (ensure_not_automated c) (\<lambda>_.
     seq (reading ob_now) (\<lambda>now.
     set_status enabled c ''candidate'' ''reactivated'' None user [] None now))))"

definition archive_candidate :: "bool \<Rightarrow> uuid \<Rightarrow> uuid \<Rightarrow> string \<Rightarrow> (witness_db, candidate) op" where
  "archive_candidate enabled cid inst user =
     seq (candidate_for_update cid inst) (\<lambda>c.
     seq (reading ob_now) (\<lambda>now.
     set_status enabled c ''archived'' ''archived'' None user [] None now))"

section \<open>Private delivery\<close>

definition ensure_private_deliverable :: "candidate \<Rightarrow> timestamp \<Rightarrow> (witness_db, string) op" where
  "ensure_private_deliverable c now =
     (if wc_status c \<noteq> ''candidate''
      then raising (ValueError ''Only active Witness candidates can be sent.'')
      else if (case wc_cooldown_until c of None \<Rightarrow> False | Some t \<Rightarrow> now < t)
      then raising (ValueError ''This Witness candidate is still cooling down.'')
      else if wc_scope_type c \<noteq> ''dm''
      then raising (ValueError ''Only DM-scoped Witness candidates can be sent right now.'')
      else case truthy (wc_channel c) of
        None \<Rightarrow> raising (ValueError ''Witness candidate does not have a Slack DM channel.'')
      | Some ch \<Rightarrow>
          if hd ch \<noteq> CHR ''D''
          then raising (ValueError ''Witness candidate does not have a Slack DM channel.'')
          else if truthy (wc_target_user c) = None
          then raising (ValueError ''Witness candidate does not have a target Slack user.'')
          else returning ch)"

definition suggestion_text :: "(string \<Rightarrow> string) \<Rightarrow> candidate \<Rightarrow> string" where
  "suggestion_text mrkdwn c =
     mrkdwn (bounded_text (case truthy (wc_suggested_message c) of
         Some m \<Rightarrow> m
       | None \<Rightarrow> ''I noticed something that might be worth keeping an eye on: '' @ wc_summary c) 1800)"

definition response_ts :: "jobj \<Rightarrow> string option" where
  "response_ts p =
     (case truthy (json_str (jget p ''ts'')) of
        Some ts \<Rightarrow> Some ts
      | None \<Rightarrow> (case jget p ''message'' of
          JObj m \<Rightarrow> truthy (json_str (jget m ''ts''))
        | _ \<Rightarrow> None))"

definition suggestion_key :: "uuid \<Rightarrow> string" where
  "suggestion_key cid = ''witness_suggestion:'' @ uuid_str cid"

definition suggestion_request :: "(string \<Rightarrow> string) \<Rightarrow> candidate \<Rightarrow> string \<Rightarrow> effect_request" where
  "suggestion_request mrkdwn c ch =
     \<lparr>er_installation = wc_installation c, er_key = suggestion_key (wc_id c),
      er_operation = ''chat_postMessage'',
      er_request = [(''channel'', JStr ch), (''text'', JStr (suggestion_text mrkdwn c)),
        (''thread_ts'', JNull)],
      er_channel = Some ch, er_thread_ts = None, er_message_ts = None, er_task = wc_source_task c,
      er_purpose = Some witness_suggestion_purpose\<rparr>"

record witness_delivery =
  wd_candidate :: uuid
  wd_channel :: string
  wd_message_ts :: string
  wd_effect :: uuid
  wd_deduped :: bool

definition missing_ts_error :: "timestamp \<Rightarrow> effect \<Rightarrow> effect" where
  "missing_ts_error now r = r\<lparr>fx_status := ''failed'',
     fx_last_error := Some [(''type'', JStr ''WitnessDeliveryError''),
       (''message'', JStr ''Slack response did not include a message timestamp.'')],
     fx_updated_at := now\<rparr>"

definition mark_sent :: "bool \<Rightarrow> candidate \<Rightarrow> string \<Rightarrow> string \<Rightarrow> effect_result \<Rightarrow> string \<Rightarrow> timestamp \<Rightarrow> (witness_db, unit) op" where
  "mark_sent enabled c ch ts x user now =
     seq (writing (put_candidate (wc_id c) (\<lambda>r. record_feedback ''sent'' user now
       [(''channel_id'', JStr ch), (''message_ts'', JStr ts),
        (''side_effect_id'', JStr (uuid_str (fr_effect x))), (''deduped'', JBool (fr_deduped x)),
        (''delivery_policy'', JStr ''explicit_dm_only'')]
       (r\<lparr>wc_status := ''sent'', wc_cooldown_until := None, wc_last_suggested_at := Some now,
          wc_updated_at := now\<rparr>)))) (\<lambda>_.
     record_transition enabled c ''sent'' ''sent'' (Some (wc_status c)) None (Some user) now)"

definition send_private_suggestion ::
  "bool \<Rightarrow> (py_error \<Rightarrow> string \<times> string) \<Rightarrow> (py_error \<Rightarrow> string option) \<Rightarrow> (string \<Rightarrow> string) \<Rightarrow> uuid \<Rightarrow>
   (string \<Rightarrow> string \<Rightarrow> (witness_db, slack_answer) op) \<Rightarrow> uuid \<Rightarrow> uuid \<Rightarrow> string \<Rightarrow> timestamp option \<Rightarrow>
   (witness_db, witness_delivery) op" where
  "send_private_suggestion enabled describe api_error mrkdwn fid post cid inst user now =
     seq (candidate_for_update cid inst) (\<lambda>c.
     seq (reading (\<lambda>d. case now of Some t \<Rightarrow> t | None \<Rightarrow> ob_now d)) (\<lambda>at.
     seq (ensure_private_deliverable c at) (\<lambda>ch.
     seq (deliver describe api_error id fid (suggestion_request mrkdwn c ch)
            (post ch (suggestion_text mrkdwn c))) (\<lambda>x.
     case response_ts (fr_response x) of
       None \<Rightarrow>
         seq (writing (\<lambda>d. put_effect (fr_effect x) (missing_ts_error (ob_now d)) d)) (\<lambda>_.
         raising (ValueError ''Slack response did not include a message timestamp.''))
     | Some ts \<Rightarrow>
         seq (mark_sent enabled c ch ts x user at) (\<lambda>_.
         returning \<lparr>wd_candidate = wc_id c, wd_channel = ch, wd_message_ts = ts,
           wd_effect = fr_effect x, wd_deduped = fr_deduped x\<rparr>)))))"

end
