(* ===== verification/Outbox_Properties.thy ===== *)
theory Outbox_Properties
  imports Slack_Outbox
begin

text \<open>
  What the outbox promises. Its operations are sequences of moves of the effect table that keep its
  keys unique and never touch a record that succeeded; the contract the callers rely on is the
  locale \<open>at_most_once\<close>, interpreted on \<open>deliver\<close>.
\<close>

section \<open>Moves of the effect table\<close>

definition effect_key :: "effect \<Rightarrow> uuid \<times> string" where
  "effect_key r = (fx_installation r, fx_key r)"

definition outbox_ok :: "'z outbox_db_scheme \<Rightarrow> bool" where
  "outbox_ok d \<longleftrightarrow> distinct (map fx_id (ob_effects d)) \<and> distinct (map effect_key (ob_effects d)) \<and>
     (\<forall>r \<in> set (ob_effects d). fx_status r \<in> set effect_statuses \<and>
        fx_operation r \<in> set effect_operations \<and> 0 \<le> fx_attempts r)"

text \<open>The changes to a record: its keys and its operation stay, its attempts never shrink.\<close>

definition effect_change :: "effect \<Rightarrow> (effect \<Rightarrow> effect) \<Rightarrow> bool" where
  "effect_change r f \<longleftrightarrow> (\<forall>x. fx_id (f x) = fx_id x \<and> effect_key (f x) = effect_key x) \<and>
     fx_operation (f r) = fx_operation r \<and> fx_status (f r) \<in> set effect_statuses \<and>
     fx_attempts r \<le> fx_attempts (f r)"

inductive effect_move :: "'z outbox_db_scheme \<Rightarrow> 'z outbox_db_scheme \<Rightarrow> bool" where
  record_effect: "effect_violation r d = None \<Longrightarrow> fx_status r = ''pending'' \<Longrightarrow> fx_attempts r = 0 \<Longrightarrow>
    effect_move d (d\<lparr>ob_effects := ob_effects d @ [r]\<rparr>)"
| change_effect: "r \<in> set (ob_effects d) \<Longrightarrow> fx_status r \<noteq> ''succeeded'' \<Longrightarrow> effect_change r f \<Longrightarrow>
    effect_move d (put_effect (fx_id r) f d)"
| other_tables: "ob_effects d' = ob_effects d \<Longrightarrow> effect_move d d'"

abbreviation effect_moves :: "'z outbox_db_scheme \<Rightarrow> 'z outbox_db_scheme \<Rightarrow> bool" where
  "effect_moves \<equiv> effect_move\<^sup>*\<^sup>*"

lemma effects_put [simp]: "ob_effects (put_effect fid f d) = row_upd fx_id fid f (ob_effects d)"
  by (simp add: put_effect_def)

lemma find_by_key_Some:
  "find_by_key inst key d = Some r \<Longrightarrow> r \<in> set (ob_effects d) \<and> effect_key r = (inst, key)"
  by (auto simp: find_by_key_def find_Some_iff effect_key_def)

lemma find_by_key_None:
  "find_by_key inst key d = None \<longleftrightarrow> (inst, key) \<notin> effect_key ` set (ob_effects d)"
  by (auto simp: find_by_key_def find_None_iff effect_key_def)

lemma distinct_map_eq: "distinct (map f xs) \<Longrightarrow> x \<in> set xs \<Longrightarrow> y \<in> set xs \<Longrightarrow> f x = f y \<Longrightarrow> x = y"
  by (auto simp: distinct_map inj_on_def)

lemma find_by_key_in:
  assumes "outbox_ok d" and "r \<in> set (ob_effects d)"
  shows "find_by_key (fx_installation r) (fx_key r) d = Some r"
proof (cases "find_by_key (fx_installation r) (fx_key r) d")
  case None
  with assms(2) show ?thesis by (force simp: find_by_key_None effect_key_def)
next
  case (Some x)
  with find_by_key_Some [OF Some] assms show ?thesis
    using distinct_map_eq [of effect_key "ob_effects d" x r] by (simp add: outbox_ok_def effect_key_def)
qed

text \<open>A change rewrites exactly the record with the id.\<close>

lemma set_put_effect:
  assumes "outbox_ok d" and "r \<in> set (ob_effects d)"
  shows "set (ob_effects (put_effect (fx_id r) f d)) =
    insert (f r) {x \<in> set (ob_effects d). fx_id x \<noteq> fx_id r}"
proof -
  have "x = r" if "x \<in> set (ob_effects d)" "fx_id x = fx_id r" for x
    using that assms distinct_map_eq [of fx_id "ob_effects d" x r] by (simp add: outbox_ok_def)
  with assms(2) show ?thesis by (auto simp: row_upd_def split: if_splits)
qed

lemma map_effect_key_put:
  "(\<And>x. effect_key (f x) = effect_key x) \<Longrightarrow>
   map effect_key (row_upd fx_id fid f rows) = map effect_key rows"
  by (induction rows) (auto simp: row_upd_def)

lemma outbox_ok_put:
  assumes "outbox_ok d" and "r \<in> set (ob_effects d)" and "effect_change r f"
  shows "outbox_ok (put_effect (fx_id r) f d)"
proof -
  have "map fx_id (row_upd fx_id (fx_id r) f (ob_effects d)) = map fx_id (ob_effects d)"
    "map effect_key (row_upd fx_id (fx_id r) f (ob_effects d)) = map effect_key (ob_effects d)"
    using assms(3) by (simp_all add: effect_change_def map_effect_key_put)
  moreover have "0 \<le> fx_attempts (f r)" "fx_operation (f r) \<in> set effect_operations"
    using assms by (force simp: effect_change_def outbox_ok_def)+
  moreover note set_put_effect [OF assms(1,2), of f]
  ultimately show ?thesis
    using assms(1,3) by (simp add: outbox_ok_def effect_change_def)
qed

lemma outbox_ok_move: "effect_move d d' \<Longrightarrow> outbox_ok d \<Longrightarrow> outbox_ok d'"
proof (induction rule: effect_move.induct)
  case (record_effect r d)
  then have "fx_id r \<notin> fx_id ` set (ob_effects d)" "fx_operation r \<in> set effect_operations"
    "effect_key r \<notin> effect_key ` set (ob_effects d)"
    by (auto simp: effect_violation_def find_by_key_None effect_key_def split: if_splits)
  with record_effect show ?case by (auto simp: outbox_ok_def effect_statuses_def)
next
  case (change_effect r d f)
  then show ?case by (simp add: outbox_ok_put)
qed (simp add: outbox_ok_def)

lemma outbox_ok_moves: "effect_moves d d' \<Longrightarrow> outbox_ok d \<Longrightarrow> outbox_ok d'"
  by (induction rule: rtranclp_induct) (auto dest: outbox_ok_move)

lemma succeeded_kept_move:
  "effect_move d d' \<Longrightarrow> outbox_ok d \<Longrightarrow> r \<in> set (ob_effects d) \<Longrightarrow> fx_status r = ''succeeded'' \<Longrightarrow>
   r \<in> set (ob_effects d')"
proof (induction rule: effect_move.induct)
  case (change_effect x d f)
  then have "fx_id r \<noteq> fx_id x"
    using distinct_map_eq [of fx_id "ob_effects d" r x] by (auto simp: outbox_ok_def)
  with set_put_effect [OF change_effect(4,1), of f] change_effect(5) show ?case by blast
qed auto

lemma succeeded_kept:
  "effect_moves d d' \<Longrightarrow> outbox_ok d \<Longrightarrow> r \<in> set (ob_effects d) \<Longrightarrow> fx_status r = ''succeeded'' \<Longrightarrow>
   r \<in> set (ob_effects d')"
proof (induction rule: rtranclp_induct)
  case (step d1 d2)
  then show ?case using succeeded_kept_move [OF step(2) outbox_ok_moves [OF step(1)]] by blast
qed

interpretation outbox: frame outbox_ok effect_moves
  by unfold_locales (auto intro: outbox_ok_moves)

section \<open>The operations are moves\<close>

text \<open>A call of Slack does not write the effect table.\<close>

definition quiet :: "('z outbox_db_scheme, 'a) op \<Rightarrow> bool" where
  "quiet call \<longleftrightarrow> (\<forall>d r d'. call d = (r, d') \<longrightarrow> ob_effects d' = ob_effects d)"

lemma quietD: "quiet call \<Longrightarrow> call d = (r, d') \<Longrightarrow> ob_effects d' = ob_effects d"
  by (simp add: quiet_def)

lemma change_effect':
  "r \<in> set (ob_effects d) \<Longrightarrow> fx_status r \<noteq> ''succeeded'' \<Longrightarrow> effect_change r f \<Longrightarrow>
   effect_moves d (put_effect (fx_id r) f d)"
  by (intro r_into_rtranclp change_effect)

lemma effect_changes:
  "effect_change r (start_effect now)" "effect_change r (fail_effect now desc)"
  "effect_change r (finish_effect now payload)" "effect_change r (recover_effect now stale_after)"
  by (simp_all add: effect_change_def effect_key_def effect_statuses_def start_effect_def
      fail_effect_def finish_effect_def recover_effect_def)

text \<open>What the record is after the attempt, and that it is there.\<close>

lemma attempt_call_moves:
  assumes ok: "outbox_ok d" and r: "r \<in> set (ob_effects d)" "fx_status r \<noteq> ''succeeded''"
    and call: "quiet call"
    and run: "attempt_call describe api_error operation (fx_id r) call d = (res, d')"
  shows "effect_moves d d' \<and>
    (case res of
       Inl e \<Rightarrow> \<exists>now. fail_effect now (describe e) r \<in> set (ob_effects d')
     | Inr x \<Rightarrow> fr_effect x = fx_id r \<and> fr_delivered x \<and>
         (\<exists>now. finish_effect now (fr_response x) r \<in> set (ob_effects d'))) \<and>
    (\<forall>x \<in> set (ob_effects d'). fx_id x = fx_id r \<longrightarrow> fx_status x \<in> {''succeeded'', ''failed''}) \<and>
    {x \<in> set (ob_effects d'). fx_id x \<noteq> fx_id r} = {x \<in> set (ob_effects d). fx_id x \<noteq> fx_id r}"
proof -
  obtain a d1 where one: "call d = (a, d1)" by (cases "call d")
  have same: "ob_effects d1 = ob_effects d" by (rule quietD [OF call one])
  have m: "effect_moves d d1" by (rule r_into_rtranclp, rule other_tables, rule same)
  have ok1: "outbox_ok d1" using ok same by (simp add: outbox_ok_def)
  have r1: "r \<in> set (ob_effects d1)" using r same by simp
  have change: "effect_moves d (put_effect (fx_id r) f d1)" if "effect_change r f" for f
    using m change_effect' [OF r1 r(2) that] by (rule rtranclp_trans)
  note rows = set_put_effect [OF ok1 r1]
  have fail: "res = Inl e" "d' = put_effect (fx_id r) (fail_effect (ob_now d1) (describe e)) d1"
    if "a = Inl e" "idempotent_success_response api_error operation e = None" for e
    using run one that by (simp_all add: attempt_call_def catching_def seq_apply)
  have finish: "\<exists>x. res = Inr x \<and> fr_effect x = fx_id r \<and> fr_delivered x \<and>
      d' = put_effect (fx_id r) (finish_effect (ob_now d1) (fr_response x)) d1"
    if "(\<exists>y. a = Inr y) \<or> (\<exists>e p. a = Inl e \<and> idempotent_success_response api_error operation e = Some p)"
    using run one that by (auto simp: attempt_call_def catching_def seq_apply)
  have ids: "fx_id (f r) = fx_id r" if "effect_change r f" for f using that by (simp add: effect_change_def)
  consider e where "a = Inl e" "idempotent_success_response api_error operation e = None"
    | "(\<exists>y. a = Inr y) \<or> (\<exists>e p. a = Inl e \<and> idempotent_success_response api_error operation e = Some p)"
    by (cases a; cases "idempotent_success_response api_error operation (projl a)") auto
  then show ?thesis
  proof cases
    case 1
    let ?f = "fail_effect (ob_now d1) (describe e)"
    have "effect_moves d d'" unfolding fail(2) [OF 1] by (rule change [OF effect_changes(2)])
    moreover have "set (ob_effects d') = insert (?f r) {x \<in> set (ob_effects d). fx_id x \<noteq> fx_id r}"
      unfolding fail(2) [OF 1] rows same ..
    moreover have "fx_id (?f r) = fx_id r" "fx_status (?f r) = ''failed''" by (simp_all add: fail_effect_def)
    ultimately show ?thesis unfolding fail(1) [OF 1] by (auto simp del: effects_put)
  next
    case 2
    then obtain x where x: "res = Inr x" "fr_effect x = fx_id r" "fr_delivered x"
      "d' = put_effect (fx_id r) (finish_effect (ob_now d1) (fr_response x)) d1"
      using finish by blast
    let ?f = "finish_effect (ob_now d1) (fr_response x)"
    have "effect_moves d d'" unfolding x(4) by (rule change [OF effect_changes(3)])
    moreover have "set (ob_effects d') = insert (?f r) {y \<in> set (ob_effects d). fx_id y \<noteq> fx_id r}"
      unfolding x(4) rows same ..
    moreover have "fx_id (?f r) = fx_id r" "fx_status (?f r) = ''succeeded''" by (simp_all add: finish_effect_def)
    ultimately show ?thesis unfolding x(1) using x(2,3) by (auto simp del: effects_put)
  qed
qed

lemma get_or_create_moves:
  assumes ok: "outbox_ok d" and race: "\<And>d. outbox_ok d \<Longrightarrow> effect_moves d (race d)"
    and run: "get_or_create race fid rq d = (res, d')"
  shows "effect_moves d d' \<and>
    (case res of Inl e \<Rightarrow> True
     | Inr r \<Rightarrow> r \<in> set (ob_effects d') \<and> effect_key r = (er_installation rq, er_key rq))"
proof (cases "find_by_key (er_installation rq) (er_key rq) d")
  case (Some r)
  with run find_by_key_Some [OF Some] show ?thesis by (auto simp: get_or_create_def seq_apply)
next
  case None
  let ?row = "new_effect fid rq (ob_now (race d))"
  have ins: "insert_effect fid rq (race d) = (res, d')"
    using run None by (simp add: get_or_create_def seq_apply)
  show ?thesis
  proof (cases "effect_violation ?row (race d)")
    case None
    then have "res = Inr ?row" "d' = (race d)\<lparr>ob_effects := ob_effects (race d) @ [?row]\<rparr>"
      using ins by (simp_all add: insert_effect_def seq_apply)
    moreover have "effect_move (race d) ((race d)\<lparr>ob_effects := ob_effects (race d) @ [?row]\<rparr>)"
      by (rule record_effect [OF None]) (simp_all add: new_effect_def)
    ultimately show ?thesis
      using race [OF ok] by (auto simp: effect_key_def new_effect_def intro: rtranclp.rtrancl_into_rtrancl)
  next
    case (Some c)
    then show ?thesis
      using ins race [OF ok] find_by_key_Some [of "er_installation rq" "er_key rq" "race d"]
      by (auto simp: insert_effect_def seq_apply split: option.splits)
  qed
qed

lemma start_effect_rows:
  assumes "outbox_ok d" and "r \<in> set (ob_effects d)" and "fx_status r \<noteq> ''succeeded''"
  defines "d' \<equiv> put_effect (fx_id r) (start_effect (ob_now d)) d"
  shows "effect_moves d d'" "outbox_ok d'" "start_effect (ob_now d) r \<in> set (ob_effects d')"
    "{x \<in> set (ob_effects d'). fx_id x \<noteq> fx_id r} = {x \<in> set (ob_effects d). fx_id x \<noteq> fx_id r}"
proof -
  show m: "effect_moves d d'"
    unfolding d'_def by (rule change_effect' [OF assms(2,3) effect_changes(1)])
  show "outbox_ok d'" by (rule outbox_ok_moves [OF m assms(1)])
  have "fx_id (start_effect (ob_now d) r) = fx_id r" by (simp add: start_effect_def)
  with set_put_effect [OF assms(1,2), of "start_effect (ob_now d)"]
  show "start_effect (ob_now d) r \<in> set (ob_effects d')"
    "{x \<in> set (ob_effects d'). fx_id x \<noteq> fx_id r} = {x \<in> set (ob_effects d). fx_id x \<noteq> fx_id r}"
    unfolding d'_def by auto
qed

text \<open>
  What one delivery does: it moves the table, ends with the record of its key succeeded or failed,
  and when it returns the record has succeeded with the response it returns.
\<close>

lemma deliver_result:
  assumes ok: "outbox_ok d" and race: "\<And>d. outbox_ok d \<Longrightarrow> effect_moves d (race d)"
    and call: "quiet call" and run: "deliver describe api_error race fid rq call d = (res, d')"
  shows "effect_moves d d' \<and>
    (case res of Inl e \<Rightarrow> True
     | Inr x \<Rightarrow> \<exists>r \<in> set (ob_effects d'). effect_key r = (er_installation rq, er_key rq) \<and>
         fx_status r = ''succeeded'' \<and> fr_effect x = fx_id r \<and>
         known_response r = (if fr_response x = [] then [(''ok'', JBool True)] else fr_response x)) \<and>
    (\<forall>x \<in> set (ob_effects d'). effect_key x = (er_installation rq, er_key rq) \<longrightarrow>
       fx_status x \<in> {''succeeded'', ''failed''})"
proof -
  obtain g d1 where one: "get_or_create race fid rq d = (g, d1)" by (cases "get_or_create race fid rq d")
  note got = get_or_create_moves [OF ok race one]
  show ?thesis
  proof (cases g)
    case (Inl e)
    have "find_by_key (er_installation rq) (er_key rq) d1 = None"
      using one Inl by (auto simp: get_or_create_def insert_effect_def seq_apply split: option.splits)
    then have "effect_key x \<noteq> (er_installation rq, er_key rq)" if "x \<in> set (ob_effects d1)" for x
      using that by (auto simp: find_by_key_None intro: rev_image_eqI)
    moreover have "res = Inl e" "d' = d1" using run one Inl by (simp_all add: deliver_def)
    ultimately show ?thesis using got by auto
  next
    case (Inr r)
    then have r: "effect_moves d d1" "r \<in> set (ob_effects d1)" "effect_key r = (er_installation rq, er_key rq)"
      using got by auto
    have ok1: "outbox_ok d1" by (rule outbox_ok_moves [OF r(1) ok])
    have mine: "effect_key x = (er_installation rq, er_key rq) \<Longrightarrow> x \<in> set (ob_effects d1) \<Longrightarrow> x = r" for x
      using distinct_map_eq [of effect_key "ob_effects d1" x r] ok1 r by (simp add: outbox_ok_def)
    show ?thesis
    proof (cases "fx_status r = ''succeeded''")
      case True
      then have "res = Inr \<lparr>fr_effect = fx_id r, fr_response = known_response r, fr_delivered = False,
          fr_deduped = True\<rparr>" "d' = d1"
        using run one Inr by (simp_all add: deliver_def seq_apply)
      moreover have "known_response r \<noteq> []"
        by (simp add: known_response_def split: option.split)
      moreover have "\<exists>y \<in> set (ob_effects d1). effect_key y = (er_installation rq, er_key rq) \<and>
          fx_status y = ''succeeded'' \<and> fx_id r = fx_id y \<and>
          known_response y = (if known_response r = [] then [(''ok'', JBool True)] else known_response r)"
        by (rule bexI [OF _ r(2)]) (use r(3) True \<open>known_response r \<noteq> []\<close> in simp)
      moreover have "fx_status x \<in> {''succeeded'', ''failed''}"
        if "x \<in> set (ob_effects d1)" "effect_key x = (er_installation rq, er_key rq)" for x
        using mine [OF that(2,1)] True by simp
      ultimately show ?thesis using r(1) by (simp only: sum.case effect_result.select_convs) blast
    next
      case False
      let ?r = "start_effect (ob_now d1) r"
      note start = start_effect_rows [OF ok1 r(2) False]
      have id: "fx_id ?r = fx_id r" "fx_status ?r \<noteq> ''succeeded''" by (simp_all add: start_effect_def)
      have att: "attempt_call describe api_error (er_operation rq) (fx_id ?r) call
          (put_effect (fx_id r) (start_effect (ob_now d1)) d1) = (res, d')"
        using run one Inr False id by (simp add: deliver_def seq_apply)
      note tried = attempt_call_moves [OF start(2,3) id(2) call att]
      have m: "effect_moves d d'" using r(1) start(1) tried by (meson rtranclp_trans)
      have key: "effect_key ?r = (er_installation rq, er_key rq)"
        using r(3) by (simp add: start_effect_def effect_key_def)
      have others: "fx_id x = fx_id r" if "x \<in> set (ob_effects d')" "effect_key x = (er_installation rq, er_key rq)" for x
      proof (rule ccontr)
        assume "fx_id x \<noteq> fx_id r"
        with that(1) tried start(4) id(1) have "x \<in> set (ob_effects d1)" by auto
        with mine that(2) \<open>fx_id x \<noteq> fx_id r\<close> show False by blast
      qed
      have fin: "effect_key (finish_effect t p ?r) = (er_installation rq, er_key rq)"
        "fx_status (finish_effect t p ?r) = ''succeeded''" "fx_id (finish_effect t p ?r) = fx_id r"
        "known_response (finish_effect t p ?r) = (if p = [] then [(''ok'', JBool True)] else p)" for t p
        using key id(1) by (simp_all add: finish_effect_def effect_key_def known_response_def)
      have val: "case res of Inl e \<Rightarrow> True
       | Inr x \<Rightarrow> \<exists>r \<in> set (ob_effects d'). effect_key r = (er_installation rq, er_key rq) \<and>
         fx_status r = ''succeeded'' \<and> fr_effect x = fx_id r \<and>
         known_response r = (if fr_response x = [] then [(''ok'', JBool True)] else fr_response x)"
      proof (cases res)
        case (Inr x)
        with tried obtain t where "finish_effect t (fr_response x) ?r \<in> set (ob_effects d')"
          and "fr_effect x = fx_id ?r" by auto
        then show ?thesis
          using fin [of t "fr_response x"] id(1) Inr by (simp only: sum.case) (rule bexI, simp_all)
      qed simp
      have "fx_status x \<in> {''succeeded'', ''failed''}"
        if "x \<in> set (ob_effects d')" "effect_key x = (er_installation rq, er_key rq)" for x
      proof -
        have "\<forall>x \<in> set (ob_effects d'). fx_id x = fx_id ?r \<longrightarrow> fx_status x \<in> {''succeeded'', ''failed''}"
          using tried by blast
        with that(1) others [OF that] id(1) show ?thesis by metis
      qed
      with m val show ?thesis by blast
    qed
  qed
qed

lemma deliver_settled:
  assumes "outbox_ok d" and "r \<in> set (ob_effects d)" and "effect_key r = (er_installation rq, er_key rq)"
    and "fx_status r = ''succeeded''"
  shows "deliver describe api_error race fid rq call d =
    (Inr \<lparr>fr_effect = fx_id r, fr_response = known_response r, fr_delivered = False, fr_deduped = True\<rparr>, d)"
  using find_by_key_in [OF assms(1,2)] assms(3,4)
  by (simp add: deliver_def get_or_create_def seq_apply effect_key_def)

section \<open>The contract of the outbox\<close>

text \<open>
  Sending under a key: once a key is settled it stays so with its answer, a successful send settles
  its key, and sending under a settled key gives the answer and does nothing else, the call included.
\<close>

locale at_most_once = frame ok later
  for ok :: "'s \<Rightarrow> bool" and later :: "'s \<Rightarrow> 's \<Rightarrow> bool" +
  fixes settled :: "'s \<Rightarrow> 'k \<Rightarrow> 'v \<Rightarrow> bool" and key :: "'q \<Rightarrow> 'k"
    and send :: "'q \<Rightarrow> ('s, 'a) op \<Rightarrow> ('s, 'v) op"
    and fine :: "'q \<Rightarrow> bool" and tame_call :: "('s, 'a) op \<Rightarrow> bool"
  assumes settled_kept: "ok s \<Longrightarrow> later s s' \<Longrightarrow> settled s k v \<Longrightarrow> settled s' k v"
    and send_tracks: "fine q \<Longrightarrow> tame_call c \<Longrightarrow> tracks (send q c)"
    and send_settles: "ok s \<Longrightarrow> fine q \<Longrightarrow> tame_call c \<Longrightarrow> send q c s = (Inr v, s') \<Longrightarrow> settled s' (key q) v"
    and send_settled: "ok s \<Longrightarrow> settled s (key q) v \<Longrightarrow> send q c s = (Inr v, s)"
begin

lemma resend:
  assumes "ok s" "fine q" "tame_call c" "send q c s = (Inr v, s1)" and "later s1 s2" "key q' = key q"
  shows "send q' c' s2 = (Inr v, s2)"
proof -
  have ok1: "ok s1" using send_tracks [OF assms(2,3)] assms(1,4) by (rule tracks_ok)
  have "settled s2 (key q') v"
    using settled_kept [OF ok1 assms(5) send_settles [OF assms(1-4)]] assms(6) by simp
  then show ?thesis by (rule send_settled [OF rel_ok [OF ok1 assms(5)]])
qed

lemma same_answer:
  assumes "ok s" "fine q" "tame_call c" "send q c s = (Inr v, s1)" and "later s1 s2" "key q' = key q"
    and "send q' c' s2 = (r, s3)"
  shows "r = Inr v \<and> s3 = s2"
  using resend [OF assms(1-6), of c'] assms(7) by simp

end

definition answer_of :: "effect_result \<Rightarrow> uuid \<times> jobj" where
  "answer_of x = (fr_effect x, if fr_response x = [] then [(''ok'', JBool True)] else fr_response x)"

definition settled_effect :: "'z outbox_db_scheme \<Rightarrow> uuid \<times> string \<Rightarrow> uuid \<times> jobj \<Rightarrow> bool" where
  "settled_effect d k v \<longleftrightarrow> (\<exists>r \<in> set (ob_effects d). effect_key r = k \<and> fx_status r = ''succeeded'' \<and>
     v = (fx_id r, known_response r))"

definition request_key :: "effect_request \<Rightarrow> uuid \<times> string" where
  "request_key rq = (er_installation rq, er_key rq)"

definition send_effect ::
  "(py_error \<Rightarrow> string \<times> string) \<Rightarrow> (py_error \<Rightarrow> string option) \<Rightarrow>
   uuid \<times> effect_request \<times> ('z outbox_db_scheme \<Rightarrow> 'z outbox_db_scheme) \<Rightarrow>
   ('z outbox_db_scheme, slack_answer) op \<Rightarrow> ('z outbox_db_scheme, uuid \<times> jobj) op" where
  "send_effect describe api_error q call =
     (case q of (fid, rq, race) \<Rightarrow>
        seq (deliver describe api_error race fid rq call) (\<lambda>x. returning (answer_of x)))"

interpretation slack: at_most_once outbox_ok effect_moves settled_effect "\<lambda>(fid, rq, race). request_key rq"
  "send_effect describe api_error" "\<lambda>(fid, rq, race). \<forall>d. outbox_ok d \<longrightarrow> effect_moves d (race d)" quiet
  for describe api_error
proof unfold_locales
  fix d d' :: "'z outbox_db_scheme" and k v
  assume "outbox_ok d" "effect_moves d d'" "settled_effect d k v"
  then show "settled_effect d' k v" using succeeded_kept unfolding settled_effect_def by blast
next
  fix q :: "uuid \<times> effect_request \<times> ('z outbox_db_scheme \<Rightarrow> 'z outbox_db_scheme)"
    and c :: "('z outbox_db_scheme, slack_answer) op"
  assume q: "case q of (fid, rq, race) \<Rightarrow> \<forall>d. outbox_ok d \<longrightarrow> effect_moves d (race d)" and c: "quiet c"
  obtain fid rq race where [simp]: "q = (fid, rq, race)" by (cases q)
  have race: "effect_moves d (race d)" if "outbox_ok d" for d using q that by simp
  have "outbox.tracks (deliver describe api_error race fid rq c)"
    using deliver_result [OF _ race c] by (intro outbox.tracksI) blast
  then show "outbox.tracks (send_effect describe api_error q c)"
    by (simp add: send_effect_def outbox.tracks_seq)
next
  fix d d' :: "'z outbox_db_scheme" and v and q :: "uuid \<times> effect_request \<times> ('z outbox_db_scheme \<Rightarrow> 'z outbox_db_scheme)"
    and c :: "('z outbox_db_scheme, slack_answer) op"
  assume ok: "outbox_ok d" and q: "case q of (fid, rq, race) \<Rightarrow> \<forall>d. outbox_ok d \<longrightarrow> effect_moves d (race d)"
    and c: "quiet c" and run: "send_effect describe api_error q c d = (Inr v, d')"
  obtain fid rq race where [simp]: "q = (fid, rq, race)" by (cases q)
  have race: "effect_moves d (race d)" if "outbox_ok d" for d using q that by simp
  obtain x where x: "deliver describe api_error race fid rq c d = (Inr x, d')" "v = answer_of x"
    using run by (auto simp: send_effect_def seq_apply split: prod.splits sum.splits)
  from deliver_result [OF ok race c x(1)] x(2)
  show "settled_effect d' (case q of (fid, rq, race) \<Rightarrow> request_key rq) v"
    by (auto simp: settled_effect_def request_key_def answer_of_def)
next
  fix d :: "'z outbox_db_scheme" and v and q :: "uuid \<times> effect_request \<times> ('z outbox_db_scheme \<Rightarrow> 'z outbox_db_scheme)"
    and c :: "('z outbox_db_scheme, slack_answer) op"
  assume ok: "outbox_ok d" and s: "settled_effect d (case q of (fid, rq, race) \<Rightarrow> request_key rq) v"
  obtain fid rq race where [simp]: "q = (fid, rq, race)" by (cases q)
  obtain r where r: "r \<in> set (ob_effects d)" "effect_key r = request_key rq" "fx_status r = ''succeeded''"
    "v = (fx_id r, known_response r)" using s by (auto simp: settled_effect_def)
  have "known_response r \<noteq> []" by (simp add: known_response_def split: option.split)
  then show "send_effect describe api_error q c d = (Inr v, d)"
    using deliver_settled [OF ok r(1) _ r(3), of rq describe api_error race fid c] r(2,4)
    by (simp add: send_effect_def request_key_def answer_of_def)
qed

text \<open>C18. Once a delivery under a key has returned, every later delivery under it, whatever happened to
  the table since, answers with the same record and the same response and makes no call: its outcome
  does not depend on the call it is given.\<close>

theorem delivered_at_most_once:
  assumes "outbox_ok d" and "\<And>d. outbox_ok d \<Longrightarrow> effect_moves d (race d)" and "quiet call"
    and "deliver describe api_error race fid rq call d = (Inr x, d1)" and "effect_moves d1 d2"
    and "er_installation rq' = er_installation rq" and "er_key rq' = er_key rq"
  shows "\<exists>y. answer_of y = answer_of x \<and> \<not> fr_delivered y \<and>
    (\<forall>call'. deliver describe api_error race' fid' rq' call' d2 = (Inr y, d2))"
proof -
  obtain r where r: "r \<in> set (ob_effects d1)" "effect_key r = (er_installation rq', er_key rq')"
    "fx_status r = ''succeeded''" "fr_effect x = fx_id r"
    "known_response r = (if fr_response x = [] then [(''ok'', JBool True)] else fr_response x)"
    and m: "effect_moves d d1"
    using deliver_result [OF assms(1-4)] assms(6,7) by auto
  have ok1: "outbox_ok d1" by (rule outbox_ok_moves [OF m assms(1)])
  have r2: "r \<in> set (ob_effects d2)" by (rule succeeded_kept [OF assms(5) ok1 r(1,3)])
  have ok2: "outbox_ok d2" by (rule outbox_ok_moves [OF assms(5) ok1])
  let ?y = "\<lparr>fr_effect = fx_id r, fr_response = known_response r, fr_delivered = False, fr_deduped = True\<rparr>"
  have "known_response r \<noteq> []" by (simp add: known_response_def split: option.split)
  then have "answer_of ?y = answer_of x" using r(4,5) by (simp add: answer_of_def)
  with deliver_settled [OF ok2 r2 r(2,3)] show ?thesis by (intro exI [of _ ?y]) simp
qed

section \<open>Nothing is left in progress\<close>

lemma get_or_create_others:
  "get_or_create id fid rq d = (res, d') \<Longrightarrow> x \<in> set (ob_effects d') \<Longrightarrow>
   effect_key x \<noteq> (er_installation rq, er_key rq) \<Longrightarrow> x \<in> set (ob_effects d)"
  by (auto simp: get_or_create_def insert_effect_def seq_apply new_effect_def effect_key_def
      split: option.splits)

text \<open>A delivery leaves the records of the other keys as they were.\<close>

lemma deliver_others:
  assumes ok: "outbox_ok d" and call: "quiet call"
    and run: "deliver describe api_error id fid rq call d = (res, d')"
    and x: "x \<in> set (ob_effects d')" "effect_key x \<noteq> (er_installation rq, er_key rq)"
  shows "x \<in> set (ob_effects d)"
proof -
  obtain g d1 where one: "get_or_create id fid rq d = (g, d1)" by (cases "get_or_create id fid rq d")
  have race: "effect_moves d (id d)" for d :: "'a outbox_db_scheme" by simp
  note got = get_or_create_moves [OF ok race one]
  show ?thesis
  proof (cases "\<exists>r. g = Inr r \<and> fx_status r \<noteq> ''succeeded''")
    case False
    then have "d' = d1" using run one by (cases g) (auto simp: deliver_def)
    with get_or_create_others [OF one _ x(2)] x(1) show ?thesis by simp
  next
    case True
    then obtain r where g: "g = Inr r" "fx_status r \<noteq> ''succeeded''" by blast
    then have r: "r \<in> set (ob_effects d1)" "effect_key r = (er_installation rq, er_key rq)"
      and ok1: "outbox_ok d1" using got outbox_ok_moves [OF _ ok] by auto
    let ?r = "start_effect (ob_now d1) r" and ?d2 = "put_effect (fx_id r) (start_effect (ob_now d1)) d1"
    note start = start_effect_rows [OF ok1 r(1) g(2)]
    have id: "fx_id ?r = fx_id r" "fx_status ?r \<noteq> ''succeeded''" "effect_key ?r = effect_key r"
      by (simp_all add: start_effect_def effect_key_def)
    have att: "attempt_call describe api_error (er_operation rq) (fx_id ?r) call ?d2 = (res, d')"
      using run one g id by (simp add: deliver_def seq_apply)
    note tried = attempt_call_moves [OF start(2,3) id(2) call att]
    have ok': "outbox_ok d'" using outbox_ok_moves [OF _ start(2)] tried by blast
    obtain y where y: "y \<in> set (ob_effects d')" "fx_id y = fx_id r" "effect_key y = effect_key r"
    proof (cases res)
      case (Inl e)
      with tried obtain t where "fail_effect t (describe e) ?r \<in> set (ob_effects d')" by auto
      then show thesis by (rule that) (simp_all add: fail_effect_def start_effect_def effect_key_def)
    next
      case (Inr x)
      with tried obtain t where "finish_effect t (fr_response x) ?r \<in> set (ob_effects d')" by auto
      then show thesis by (rule that) (simp_all add: finish_effect_def start_effect_def effect_key_def)
    qed
    have "fx_id x \<noteq> fx_id r"
      using distinct_map_eq [of fx_id "ob_effects d'" x y] ok' x y r(2) by (auto simp: outbox_ok_def)
    then have "x \<in> set (ob_effects d1)" using tried start(4) id(1) x(1) by auto
    with get_or_create_others [OF one _ x(2)] show ?thesis by simp
  qed
qed

text \<open>What the processes can have committed: whole deliveries and recoveries, one after the other.\<close>

inductive outbox_reach ::
  "(py_error \<Rightarrow> string \<times> string) \<Rightarrow> (py_error \<Rightarrow> string option) \<Rightarrow> 'z outbox_db_scheme \<Rightarrow> bool"
  for describe api_error where
  reach_empty: "ob_effects d = [] \<Longrightarrow> outbox_reach describe api_error d"
| reach_deliver: "outbox_reach describe api_error d \<Longrightarrow> quiet call \<Longrightarrow>
    deliver describe api_error id fid rq call d = (r, d') \<Longrightarrow> outbox_reach describe api_error d'"
| reach_recover: "outbox_reach describe api_error d \<Longrightarrow>
    recover_stale_in_progress now stale_after limit d = (res, d') \<Longrightarrow> outbox_reach describe api_error d'"
| reach_other: "outbox_reach describe api_error d \<Longrightarrow> ob_effects d' = ob_effects d \<Longrightarrow>
    outbox_reach describe api_error d'"

definition all_closed :: "'z outbox_db_scheme \<Rightarrow> bool" where
  "all_closed d \<longleftrightarrow> (\<forall>r \<in> set (ob_effects d). fx_status r \<in> {''succeeded'', ''failed''})"

lemma stale_effects_closed: "all_closed d \<Longrightarrow> stale_effects cutoff limit d = []"
proof -
  assume "all_closed d"
  then have "filter (\<lambda>r. fx_status r = ''in_progress'' \<and>
      (case fx_started_at r of None \<Rightarrow> True | Some at \<Rightarrow> at \<le> cutoff) \<and>
      fx_id r \<notin> set (ob_locks d)) (ob_effects d) = []"
    by (auto simp: all_closed_def filter_empty_conv)
  then show ?thesis unfolding stale_effects_def by simp
qed

lemma recover_closed:
  assumes "all_closed d"
  shows "snd (recover_stale_in_progress now stale_after limit d) = d"
    and "0 < stale_after \<Longrightarrow> 1 \<le> limit \<Longrightarrow> recover_stale_in_progress now stale_after limit d = (Inr [], d)"
  using stale_effects_closed [OF assms]
  by (simp_all add: recover_stale_in_progress_def seq_apply)

lemma outbox_reach_closed: "outbox_reach describe api_error d \<Longrightarrow> outbox_ok d \<and> all_closed d"
proof (induction rule: outbox_reach.induct)
  case (reach_deliver d call fid rq r d')
  then have ok: "outbox_ok d" and closed: "all_closed d" by blast+
  have race: "effect_moves d (id d)" for d :: "'a outbox_db_scheme" by simp
  note res = deliver_result [OF ok race reach_deliver(2,3)]
  have "fx_status x \<in> {''succeeded'', ''failed''}" if "x \<in> set (ob_effects d')" for x
  proof (cases "effect_key x = (er_installation rq, er_key rq)")
    case True
    with res that show ?thesis by blast
  next
    case False
    with deliver_others [OF ok reach_deliver(2,3) that] closed show ?thesis by (simp add: all_closed_def)
  qed
  moreover have "outbox_ok d'" using res outbox_ok_moves [OF _ ok] by blast
  ultimately show ?case unfolding all_closed_def by blast
next
  case (reach_recover d now stale_after limit res d')
  then show ?case using recover_closed(1) [of d now stale_after limit] by simp
qed (auto simp: outbox_ok_def all_closed_def)

text \<open>The mark that a call is in progress is written and erased in one transaction: in every state
  the processes can have committed each record has succeeded or failed, so the recovery of records
  left in progress, which is to keep an interrupted call from being made again, finds none.\<close>

theorem recovery_finds_nothing:
  assumes "outbox_reach describe api_error d" and "0 < stale_after" and "1 \<le> limit"
  shows "(\<forall>r \<in> set (ob_effects d). fx_status r \<in> {''succeeded'', ''failed''}) \<and>
    recover_stale_in_progress now stale_after limit d = (Inr [], d)"
  using outbox_reach_closed [OF assms(1)] recover_closed(2) [OF _ assms(2,3)]
  by (auto simp: all_closed_def)

text \<open>A record the recovery has marked failed, because what became of its call is unknown, is not
  spared: the next delivery under its key makes the call again and reports what it answers.\<close>

theorem recovered_effect_is_replayed:
  assumes "outbox_ok d" and "r \<in> set (ob_effects d)" and "er_installation rq = fx_installation r"
    and "er_key rq = fx_key r" and "r = recover_effect at stale_after r0"
    and "call (put_effect (fx_id r) (start_effect (ob_now d)) d) = (Inr answer, d1)"
  shows "\<exists>d'. deliver describe api_error race fid rq call d =
    (Inr \<lparr>fr_effect = fx_id r, fr_response = jsonable_mapping answer, fr_delivered = True,
      fr_deduped = False\<rparr>, d')"
  using find_by_key_in [OF assms(1,2)] assms(3,4,6) arg_cong [OF assms(5), of fx_status]
  by (simp add: recover_effect_def) (simp add: deliver_def get_or_create_def seq_apply attempt_call_def catching_def)

section \<open>Sample deliveries\<close>

definition reply_request :: effect_request where
  "reply_request = \<lparr>er_installation = 1, er_key = ''slack:message:7:final'',
     er_operation = ''chat_postMessage'', er_request = [(''channel'', JStr ''C1'')],
     er_channel = Some ''C1'', er_thread_ts = None, er_message_ts = None, er_task = Some 7,
     er_purpose = Some ''final''\<rparr>"

definition empty_outbox :: outbox_db where
  "empty_outbox = \<lparr>ob_effects = [], ob_now = 0, ob_locks = []\<rparr>"

definition sample_describe :: "py_error \<Rightarrow> string \<times> string" where
  "sample_describe e = (''SlackApiError'', [])"

definition post_answers :: "(outbox_db, slack_answer) op" where
  "post_answers = returning (Mapping_Answer [(''ts'', JStr ''10.5'')])"

lemma quiet_post: "quiet post_answers"
  by (simp add: quiet_def post_answers_def)

lemma empty_outbox_ok: "outbox_ok empty_outbox"
  by (simp add: outbox_ok_def empty_outbox_def)

lemma reply_delivered:
  "\<exists>x d1. deliver sample_describe (\<lambda>_. None) id 5 reply_request post_answers empty_outbox = (Inr x, d1)"
  by (simp add: deliver_def get_or_create_def insert_effect_def attempt_call_def catching_def seq_apply
      find_by_key_def effect_violation_def new_effect_def reply_request_def empty_outbox_def
      effect_operations_def post_answers_def)

lemma delivered_at_most_once_witness:
  "\<exists>x d1. deliver sample_describe (\<lambda>_. None) id 5 reply_request post_answers empty_outbox = (Inr x, d1) \<and>
    (\<exists>y. answer_of y = answer_of x \<and>
      deliver sample_describe (\<lambda>_. None) id 6 reply_request (raising (ValueError ''again'')) d1 = (Inr y, d1))"
proof -
  obtain x d1 where run: "deliver sample_describe (\<lambda>_. None) id 5 reply_request post_answers empty_outbox = (Inr x, d1)"
    using reply_delivered by blast
  have race: "effect_moves d (id d)" for d :: outbox_db by simp
  from delivered_at_most_once [OF empty_outbox_ok race quiet_post run rtranclp.rtrancl_refl refl refl] run
  show ?thesis by blast
qed

lemma recovery_finds_nothing_witness:
  "\<exists>x d1. deliver sample_describe (\<lambda>_. None) id 5 reply_request post_answers empty_outbox = (Inr x, d1) \<and>
    recover_stale_in_progress (Some 999) default_stale_after default_stale_limit d1 = (Inr [], d1)"
proof -
  obtain x d1 where run: "deliver sample_describe (\<lambda>_. None) id 5 reply_request post_answers empty_outbox = (Inr x, d1)"
    using reply_delivered by blast
  have "outbox_reach sample_describe (\<lambda>_. None) empty_outbox" by (rule reach_empty) (simp add: empty_outbox_def)
  then have "outbox_reach sample_describe (\<lambda>_. None) d1" by (rule reach_deliver [OF _ quiet_post run])
  moreover have "0 < default_stale_after" "1 \<le> default_stale_limit"
    by (simp_all add: default_stale_after_def default_stale_limit_def seconds_def)
  ultimately show ?thesis using recovery_finds_nothing run by blast
qed

definition lost_effect :: effect where
  "lost_effect = recover_effect 400 default_stale_after (start_effect 0 (new_effect 5 reply_request 0))"

lemma recovered_effect_is_replayed_witness:
  "\<exists>x d'. deliver sample_describe (\<lambda>_. None) id 6 reply_request post_answers
     (empty_outbox\<lparr>ob_effects := [lost_effect]\<rparr>) = (Inr x, d') \<and> fr_delivered x"
proof -
  let ?d = "empty_outbox\<lparr>ob_effects := [lost_effect]\<rparr>"
  have ok: "outbox_ok ?d" and r: "lost_effect \<in> set (ob_effects ?d)"
    by (simp_all add: outbox_ok_def lost_effect_def recover_effect_def start_effect_def new_effect_def
        reply_request_def effect_operations_def effect_statuses_def)
  have "er_installation reply_request = fx_installation lost_effect" "er_key reply_request = fx_key lost_effect"
    by (simp_all add: lost_effect_def recover_effect_def start_effect_def new_effect_def)
  moreover have "post_answers d = (Inr (Mapping_Answer [(''ts'', JStr ''10.5'')]), d)" for d
    by (simp add: post_answers_def)
  ultimately show ?thesis
    using recovered_effect_is_replayed [OF ok r, of reply_request 400 default_stale_after] lost_effect_def
    by fastforce
qed

end
