(* ===== verification/Witness_Properties.thy ===== *)
theory Witness_Properties
  imports Witness_Lifecycle Outbox_Properties
begin

text \<open>
  What holds of the suggestions of the Witness under the actions of the lifecycle: their events
  tell their status, an archived one is out of reach, and a suggestion reaches its user at most once.
\<close>

section \<open>Transitions and their events\<close>

definition candidate_events :: "uuid \<Rightarrow> witness_db \<Rightarrow> proactive_event list" where
  "candidate_events cid d = filter (\<lambda>e. pe_candidate e = cid) (wt_events d)"

text \<open>The status the events lead to from a status, if each starts where the one before ended.\<close>

fun status_chain :: "string \<Rightarrow> proactive_event list \<Rightarrow> string option" where
  "status_chain s [] = Some s"
| "status_chain s (e # es) = (if pe_from e = Some s then status_chain (pe_to e) es else None)"

lemma status_chain_snoc:
  "status_chain s (es @ [e]) =
    (case status_chain s es of Some t \<Rightarrow> if pe_from e = Some t then Some (pe_to e) else None | None \<Rightarrow> None)"
  by (induction s es rule: status_chain.induct) auto

definition audit_ok :: "witness_db \<Rightarrow> bool" where
  "audit_ok d \<longleftrightarrow> distinct (map wc_id (wt_candidates d)) \<and>
     pe_candidate ` set (wt_events d) \<subseteq> wc_id ` set (wt_candidates d) \<and>
     (\<forall>c \<in> set (wt_candidates d). wc_status c \<in> set candidate_statuses \<and>
        status_chain ''candidate'' (candidate_events (wc_id c) d) = Some (wc_status c))"

definition same_candidate :: "(candidate \<Rightarrow> candidate) \<Rightarrow> bool" where
  "same_candidate f \<longleftrightarrow> (\<forall>c. wc_id (f c) = wc_id c \<and> wc_installation (f c) = wc_installation c)"

inductive witness_move :: "witness_db \<Rightarrow> witness_db \<Rightarrow> bool" where
  transit: "c \<in> set (wt_candidates d) \<Longrightarrow> same_candidate f \<Longrightarrow> wc_status (f c) \<in> set candidate_statuses \<Longrightarrow>
    wc_status c = ''archived'' \<longrightarrow> wc_status (f c) = ''archived'' \<Longrightarrow>
    pe_candidate e = wc_id c \<Longrightarrow> pe_from e = Some (wc_status c) \<Longrightarrow> pe_to e = wc_status (f c) \<Longrightarrow>
    witness_move d ((put_candidate (wc_id c) f d)\<lparr>wt_events := wt_events d @ [e]\<rparr>)"
| elsewhere: "wt_candidates d' = wt_candidates d \<Longrightarrow> wt_events d' = wt_events d \<Longrightarrow> witness_move d d'"

abbreviation witness_moves :: "witness_db \<Rightarrow> witness_db \<Rightarrow> bool" where
  "witness_moves \<equiv> witness_move\<^sup>*\<^sup>*"

lemma candidates_put [simp]:
  "wt_candidates (put_candidate cid f d) = row_upd wc_id cid f (wt_candidates d)"
  "wt_events (put_candidate cid f d) = wt_events d" "ob_effects (put_candidate cid f d) = ob_effects d"
  "ob_now (put_candidate cid f d) = ob_now d"
  by (simp_all add: put_candidate_def)

lemma set_put_candidate:
  assumes "distinct (map wc_id (wt_candidates d))" and "c \<in> set (wt_candidates d)"
  shows "set (row_upd wc_id (wc_id c) f (wt_candidates d)) =
    insert (f c) {x \<in> set (wt_candidates d). wc_id x \<noteq> wc_id c}"
proof -
  have "x = c" if "x \<in> set (wt_candidates d)" "wc_id x = wc_id c" for x
    using distinct_map_eq [OF assms(1) that(1) assms(2) that(2)] .
  with assms(2) show ?thesis by (auto simp: row_upd_def split: if_splits)
qed

lemma audit_ok_move: "witness_move d d' \<Longrightarrow> audit_ok d \<Longrightarrow> audit_ok d'"
proof (induction rule: witness_move.induct)
  case (transit c d f e)
  let ?d' = "(put_candidate (wc_id c) f d)\<lparr>wt_events := wt_events d @ [e]\<rparr>"
  have ok: "distinct (map wc_id (wt_candidates d))" using transit(8) by (simp add: audit_ok_def)
  have same: "wc_id (f x) = wc_id x" for x using transit(2) by (simp add: same_candidate_def)
  note rows = set_put_candidate [OF ok transit(1), of f]
  have ids: "map wc_id (wt_candidates ?d') = map wc_id (wt_candidates d)" by (simp add: same)
  have "status_chain ''candidate'' (candidate_events (wc_id x) ?d') = Some (wc_status x) \<and>
      wc_status x \<in> set candidate_statuses" if x: "x \<in> set (wt_candidates ?d')" for x
  proof -
    from x rows consider "x = f c" | "x \<in> set (wt_candidates d)" "wc_id x \<noteq> wc_id c" by auto
    then show ?thesis
    proof cases
      case 1
      have "candidate_events (wc_id x) ?d' = candidate_events (wc_id c) d @ [e]"
        using transit(5) by (simp add: candidate_events_def 1 same)
      moreover have "status_chain ''candidate'' (candidate_events (wc_id c) d) = Some (wc_status c)"
        using transit(1,8) by (simp add: audit_ok_def)
      ultimately show ?thesis using transit(3,6,7) 1 by (simp add: status_chain_snoc)
    next
      case 2
      have "candidate_events (wc_id x) ?d' = candidate_events (wc_id x) d"
        using transit(5) 2(2) by (simp add: candidate_events_def)
      with 2(1) transit(8) show ?thesis by (simp add: audit_ok_def)
    qed
  qed
  moreover have "wc_id ` set (wt_candidates ?d') = wc_id ` set (wt_candidates d)"
    using ids by (metis set_map)
  moreover have "pe_candidate ` set (wt_events ?d') \<subseteq> wc_id ` set (wt_candidates d)"
    using transit(1,5,8) by (auto simp: audit_ok_def)
  ultimately show ?case using ok ids unfolding audit_ok_def by metis
next
  case (elsewhere d' d)
  then show ?case by (simp add: audit_ok_def candidate_events_def)
qed

lemma archived_move:
  "witness_move d d' \<Longrightarrow> audit_ok d \<Longrightarrow> candidate_get cid d = Some c \<Longrightarrow> wc_status c = ''archived'' \<Longrightarrow>
   \<exists>c'. candidate_get cid d' = Some c' \<and> wc_status c' = ''archived''"
proof (induction rule: witness_move.induct)
  case (transit x d f e)
  have same: "wc_id (f y) = wc_id y" for y using transit(2) by (simp add: same_candidate_def)
  have "x = c" if "wc_id x = cid"
    using that transit(1,8,9) distinct_map_eq [of wc_id "wt_candidates d" x c] row_get_Some [of wc_id cid "wt_candidates d" c]
    by (auto simp: audit_ok_def candidate_get_def)
  with transit(4,9,10) show ?case
    by (auto simp: candidate_get_def row_get_upd same)
qed (auto simp: candidate_get_def)

lemma audit_ok_moves: "witness_moves d d' \<Longrightarrow> audit_ok d \<Longrightarrow> audit_ok d'"
  by (induction rule: rtranclp_induct) (auto dest: audit_ok_move)

lemma archived_moves:
  assumes "witness_moves d d'" and "audit_ok d" and "candidate_get cid d = Some c" "wc_status c = ''archived''"
  shows "\<exists>c'. candidate_get cid d' = Some c' \<and> wc_status c' = ''archived''"
  using assms(1)
proof (induction rule: rtranclp_induct)
  case base
  with assms(3,4) show ?case by blast
next
  case (step d1 d2)
  with archived_move [OF step(2) audit_ok_moves [OF step(1) assms(2)]] show ?case by blast
qed

interpretation witness: frame audit_ok witness_moves
  by unfold_locales (auto intro: audit_ok_moves)

section \<open>The actions\<close>

text \<open>The Slack call of a delivery writes none of the tables.\<close>

definition silent :: "(witness_db, 'a) op \<Rightarrow> bool" where
  "silent call \<longleftrightarrow> (\<forall>d r d'. call d = (r, d') \<longrightarrow> ob_effects d' = ob_effects d \<and>
     wt_candidates d' = wt_candidates d \<and> wt_events d' = wt_events d)"

lemma silent_quiet: "silent call \<Longrightarrow> quiet call"
  by (simp add: silent_def quiet_def)

datatype action =
    Dismiss string "string option" "timestamp option"
  | Snooze string int
  | Accept string
  | Reactivate string
  | Archive string
  | Send uuid "string \<Rightarrow> string \<Rightarrow> (witness_db, slack_answer) op" string "timestamp option"

definition ignoring :: "('s, 'a) op \<Rightarrow> ('s, unit) op" where
  "ignoring m = (\<lambda>s. case m s of (Inl e, s') \<Rightarrow> (Inl e, s') | (Inr _, s') \<Rightarrow> (Inr (), s'))"

fun act ::
  "(py_error \<Rightarrow> string \<times> string) \<Rightarrow> (py_error \<Rightarrow> string option) \<Rightarrow> (string \<Rightarrow> string) \<Rightarrow> uuid \<Rightarrow> uuid \<Rightarrow>
   action \<Rightarrow> (witness_db, unit) op" where
  "act describe api_error mrkdwn cid inst (Dismiss user reason now) =
     ignoring (dismiss_candidate True cid inst user reason now)"
| "act describe api_error mrkdwn cid inst (Snooze user duration) =
     ignoring (snooze_candidate True cid inst user duration)"
| "act describe api_error mrkdwn cid inst (Accept user) = ignoring (accept_candidate True cid inst user)"
| "act describe api_error mrkdwn cid inst (Reactivate user) =
     ignoring (reactivate_candidate True cid inst user)"
| "act describe api_error mrkdwn cid inst (Archive user) = ignoring (archive_candidate True cid inst user)"
| "act describe api_error mrkdwn cid inst (Send fid post user now) =
     ignoring (send_private_suggestion True describe api_error mrkdwn fid post cid inst user now)"

fun well_behaved :: "action \<Rightarrow> bool" where
  "well_behaved (Send fid post user now) = (\<forall>ch msg. silent (post ch msg))"
| "well_behaved _ = True"

inductive witness_step ::
  "(py_error \<Rightarrow> string \<times> string) \<Rightarrow> (py_error \<Rightarrow> string option) \<Rightarrow> (string \<Rightarrow> string) \<Rightarrow>
   witness_db \<Rightarrow> witness_db \<Rightarrow> bool" for describe api_error mrkdwn where
  by_action: "well_behaved a \<Longrightarrow> act describe api_error mrkdwn cid inst a d = (r, d') \<Longrightarrow>
    witness_step describe api_error mrkdwn d d'"

lemma ignoringD: "ignoring m d = (r, d') \<Longrightarrow> \<exists>x. m d = (x, d') \<and> (r = Inr () \<longleftrightarrow> (\<exists>y. x = Inr y))"
  by (auto simp: ignoring_def split: prod.splits sum.splits)

lemma candidate_for_update_Some:
  "candidate_for_update cid inst d = (Inr c, d') \<Longrightarrow>
   d' = d \<and> c \<in> set (wt_candidates d) \<and> wc_id c = cid \<and> wc_installation c = inst"
  by (auto simp: candidate_for_update_def seq_apply find_Some_iff split: option.splits)

lemma record_feedback_simps [simp]:
  "wc_id (record_feedback a u t det c) = wc_id c" "wc_status (record_feedback a u t det c) = wc_status c"
  "wc_installation (record_feedback a u t det c) = wc_installation c"
  by (simp_all add: record_feedback_def Let_def)

lemma set_status_moves:
  assumes "set_status True c st action cooldown user det reason now d = (r, d')"
    and "c \<in> set (wt_candidates d)" and "st \<in> set candidate_statuses"
    and "wc_status c = ''archived'' \<longrightarrow> st = ''archived''"
  shows "witness_moves d d'"
proof -
  let ?f = "\<lambda>r. record_feedback action user now det
    (r\<lparr>wc_status := st, wc_cooldown_until := cooldown, wc_updated_at := now\<rparr>)"
  obtain e where "d' = (put_candidate (wc_id c) ?f d)\<lparr>wt_events := wt_events d @ [e]\<rparr>"
    "pe_candidate e = wc_id c" "pe_from e = Some (wc_status c)" "pe_to e = st"
    using assms(1) by (auto simp: set_status_def record_transition_def seq_apply)
  moreover have "same_candidate ?f" by (simp add: same_candidate_def)
  ultimately show ?thesis
    using transit [of c d ?f e] assms(2-4) by auto
qed

lemmas guarded_ops = ensure_not_archived_def ensure_not_automated_def

text \<open>The actions without a delivery: a move of the witness tables, the outbox untouched.\<close>

lemma set_status_effects:
  "set_status en c st action cooldown user det reason now d = (r, d') \<Longrightarrow> ob_effects d' = ob_effects d"
  by (auto simp: set_status_def record_transition_def seq_apply split: if_splits)

lemma settle_moves:
  assumes "seq (candidate_for_update cid inst) (\<lambda>c. seq (guard c) (\<lambda>_. seq (reading clock) (\<lambda>now.
      set_status True c st action (cooldown now) user (det now) reason now))) d = (r, d')"
    and "\<And>c d x d'. guard c d = (x, d') \<Longrightarrow> d' = d"
    and "st \<in> set candidate_statuses"
    and "\<And>c d. wc_status c = ''archived'' \<Longrightarrow> st = ''archived'' \<or> (\<exists>e. guard c d = (Inl e, d))"
  shows "witness_moves d d' \<and> ob_effects d' = ob_effects d"
proof -
  obtain g d1 where one: "candidate_for_update cid inst d = (g, d1)" by (cases "candidate_for_update cid inst d")
  show ?thesis
  proof (cases g)
    case (Inl e)
    with one assms(1) show ?thesis
      by (auto simp: candidate_for_update_def seq_apply split: option.splits)
  next
    case (Inr c)
    note c = candidate_for_update_Some [OF one [unfolded Inr]]
    obtain x d2 where two: "guard c d = (x, d2)" by (cases "guard c d")
    have d2: "d2 = d" by (rule assms(2) [OF two])
    show ?thesis
    proof (cases x)
      case (Inl e)
      with one Inr two d2 c assms(1) show ?thesis by simp
    next
      case (Inr u)
      then have run: "set_status True c st action (cooldown (clock d)) user (det (clock d)) reason (clock d) d = (r, d')"
        using one \<open>g = Inr c\<close> two d2 c assms(1) by (simp add: seq_apply)
      have "wc_status c = ''archived'' \<longrightarrow> st = ''archived''" using assms(4) [of c d] two Inr by auto
      with set_status_moves [OF run _ assms(3)] set_status_effects [OF run] c show ?thesis by blast
    qed
  qed
qed

lemma seq_assoc: "seq (seq m k) l = seq m (\<lambda>x. seq (k x) l)"
  by (rule ext) (simp add: seq_apply split: prod.split sum.split)

lemma seq_returning: "seq (returning x) k = k x"
  by (rule ext) (simp add: seq_apply)

definition both_guards :: "candidate \<Rightarrow> (witness_db, unit) op" where
  "both_guards c = seq (ensure_not_archived c) (\<lambda>_. ensure_not_automated c)"

lemma both_guards_facts:
  "both_guards c d = (x, d') \<Longrightarrow> d' = d"
  "wc_status c = ''archived'' \<Longrightarrow> \<exists>e. both_guards c d = (Inl e, d)"
  by (auto simp: both_guards_def guarded_ops seq_apply split: if_splits)

definition no_guard :: "candidate \<Rightarrow> (witness_db, unit) op" where
  "no_guard c = returning ()"

definition reactivate_guards :: "candidate \<Rightarrow> (witness_db, unit) op" where
  "reactivate_guards c = seq (guarding (wc_status c \<noteq> ''archived'')
     (ValueError ''Archived Witness candidates cannot be reactivated.'')) (\<lambda>_. ensure_not_automated c)"

lemma reactivate_guards_facts:
  "reactivate_guards c d = (x, d') \<Longrightarrow> d' = d"
  "wc_status c = ''archived'' \<Longrightarrow> \<exists>e. reactivate_guards c d = (Inl e, d)"
  by (auto simp: reactivate_guards_def guarded_ops seq_apply split: if_splits)

lemma status_names:
  "''dismissed'' \<in> set candidate_statuses" "''cooldown'' \<in> set candidate_statuses"
  "''accepted'' \<in> set candidate_statuses" "''candidate'' \<in> set candidate_statuses"
  "''archived'' \<in> set candidate_statuses" "''sent'' \<in> set candidate_statuses"
  by (simp_all add: candidate_statuses_def)

lemma dismiss_moves:
  "dismiss_candidate True cid inst user why now d = (r, d') \<Longrightarrow>
   witness_moves d d' \<and> ob_effects d' = ob_effects d"
  unfolding dismiss_candidate_def
  by (rule settle_moves [where guard = both_guards, OF _ both_guards_facts(1) status_names(1)])
     (simp_all add: both_guards_def seq_assoc both_guards_facts(2) [unfolded both_guards_def])

lemma accept_moves:
  "accept_candidate True cid inst user d = (r, d') \<Longrightarrow> witness_moves d d' \<and> ob_effects d' = ob_effects d"
  unfolding accept_candidate_def
  by (rule settle_moves [where guard = both_guards, OF _ both_guards_facts(1) status_names(3)])
     (simp_all add: both_guards_def seq_assoc both_guards_facts(2) [unfolded both_guards_def])

lemma reactivate_moves:
  "reactivate_candidate True cid inst user d = (r, d') \<Longrightarrow> witness_moves d d' \<and> ob_effects d' = ob_effects d"
  unfolding reactivate_candidate_def
  by (rule settle_moves [where guard = reactivate_guards, OF _ reactivate_guards_facts(1) status_names(4)])
     (simp_all add: reactivate_guards_def seq_assoc reactivate_guards_facts(2) [unfolded reactivate_guards_def])

lemma archive_moves:
  assumes "archive_candidate True cid inst user d = (r, d')"
  shows "witness_moves d d' \<and> ob_effects d' = ob_effects d"
proof -
  have "archive_candidate True cid inst user = seq (candidate_for_update cid inst) (\<lambda>c. seq (no_guard c) (\<lambda>_.
      seq (reading ob_now) (\<lambda>now. set_status True c ''archived'' ''archived'' None user [] None now)))"
    unfolding archive_candidate_def no_guard_def seq_returning by (rule refl)
  from assms [unfolded this] show ?thesis
    by (rule settle_moves [where guard = no_guard, OF _ _ status_names(5)]) (simp_all add: no_guard_def)
qed

lemma snooze_moves:
  assumes "snooze_candidate True cid inst user duration d = (r, d')"
  shows "witness_moves d d' \<and> ob_effects d' = ob_effects d"
proof (cases "duration \<le> 0")
  case True
  with assms show ?thesis by (simp add: snooze_candidate_def)
next
  case False
  then show ?thesis
    using assms unfolding snooze_candidate_def if_not_P [OF False]
    by (intro settle_moves [where guard = both_guards, OF _ both_guards_facts(1) status_names(2)])
       (simp_all add: both_guards_def seq_assoc both_guards_facts(2) [unfolded both_guards_def])
qed

section \<open>A delivery\<close>

interpretation tables: frame "\<lambda>_ :: witness_db. True"
  "\<lambda>d d'. wt_candidates d' = wt_candidates d \<and> wt_events d' = wt_events d"
  by unfold_locales simp_all

lemma put_effect_tables [simp]:
  "wt_candidates (put_effect fid f d) = wt_candidates d" "wt_events (put_effect fid f d) = wt_events d"
  by (simp_all add: put_effect_def)

lemma tables_writing: "(\<And>d. wt_candidates (f d) = wt_candidates d \<and> wt_events (f d) = wt_events d) \<Longrightarrow>
   tables.tracks (writing f)"
  by (rule tables.tracksI) auto

lemma deliver_tables:
  assumes "silent call"
  shows "tables.tracks (deliver describe api_error id fid rq call)"
proof -
  have call: "tables.tracks call" using assms by (auto simp: silent_def intro!: tables.tracksI)
  have ins: "tables.tracks (insert_effect fid rq)"
    unfolding insert_effect_def
    by (intro tables.tracks_seq) (auto intro!: tables.tracks_seq tables_writing split: option.splits)
  have get: "tables.tracks (get_or_create id fid rq)"
    unfolding get_or_create_def
    by (intro tables.tracks_seq) (auto intro!: tables.tracks_seq tables_writing ins split: option.splits)
  have att: "tables.tracks (attempt_call describe api_error op eid call)" for op eid
    unfolding attempt_call_def
    by (intro tables.tracks_seq tables.tracks_catching call)
      (auto intro!: tables.tracks_seq tables_writing split: option.splits)
  show ?thesis
    unfolding deliver_def
    by (intro tables.tracks_seq get tables.tracks_if att) (auto intro!: tables_writing)
qed

text \<open>What an attempt to send a suggestion does, by where it ends.\<close>

lemma send_cases:
  assumes run: "send_private_suggestion en describe api_error mrkdwn fid post cid inst user now d = (r, d')"
  obtains (refused) e where "r = Inl e" "d' = d"
  | (undelivered) c ch e d1 where "c \<in> set (wt_candidates d)" "wc_id c = cid" "wc_installation c = inst"
      "deliver describe api_error id fid (suggestion_request mrkdwn c ch) (post ch (suggestion_text mrkdwn c)) d =
         (Inl e, d1)" "r = Inl e" "d' = d1"
  | (no_ts) c ch x d1 e where "c \<in> set (wt_candidates d)" "wc_id c = cid" "wc_installation c = inst"
      "deliver describe api_error id fid (suggestion_request mrkdwn c ch) (post ch (suggestion_text mrkdwn c)) d =
         (Inr x, d1)" "response_ts (fr_response x) = None" "r = Inl e"
      "d' = put_effect (fr_effect x) (missing_ts_error (ob_now d1)) d1"
  | (sent) c ch x d1 ts at where "c \<in> set (wt_candidates d)" "wc_id c = cid" "wc_installation c = inst"
      "wc_status c = ''candidate''"
      "deliver describe api_error id fid (suggestion_request mrkdwn c ch) (post ch (suggestion_text mrkdwn c)) d =
         (Inr x, d1)" "response_ts (fr_response x) = Some ts"
      "mark_sent en c ch ts x user at d1 = (Inr (), d')"
      "r = Inr \<lparr>wd_candidate = wc_id c, wd_channel = ch, wd_message_ts = ts, wd_effect = fr_effect x,
         wd_deduped = fr_deduped x\<rparr>"
proof -
  obtain g d0 where one: "candidate_for_update cid inst d = (g, d0)" by (cases "candidate_for_update cid inst d")
  show thesis
  proof (cases g)
    case (Inl e)
    with one have "d0 = d" by (auto simp: candidate_for_update_def seq_apply split: option.splits)
    with one Inl run show thesis by (intro refused [of e]) (simp_all add: send_private_suggestion_def)
  next
    case (Inr c)
    note c = candidate_for_update_Some [OF one [unfolded Inr]]
    let ?at = "case now of Some t \<Rightarrow> t | None \<Rightarrow> ob_now d"
    obtain h d2 where two: "ensure_private_deliverable c ?at d = (h, d2)"
      by (cases "ensure_private_deliverable c ?at d")
    have d2: "d2 = d" and st: "\<And>ch. h = Inr ch \<Longrightarrow> wc_status c = ''candidate''"
      using two by (auto simp: ensure_private_deliverable_def split: if_splits option.splits)
    show thesis
    proof (cases h)
      case (Inl e)
      with one two d2 c \<open>g = Inr c\<close> run show thesis
        by (intro refused [of e]) (simp_all add: send_private_suggestion_def seq_apply)
    next
      case (Inr ch)
      let ?call = "post ch (suggestion_text mrkdwn c)"
      obtain x d1 where del: "deliver describe api_error id fid (suggestion_request mrkdwn c ch) ?call d = (x, d1)"
        by (cases "deliver describe api_error id fid (suggestion_request mrkdwn c ch) ?call d")
      have rest: "(case x of Inl e \<Rightarrow> (Inl e, d1)
        | Inr y \<Rightarrow> (case response_ts (fr_response y) of
            None \<Rightarrow> seq (writing (\<lambda>d. put_effect (fr_effect y) (missing_ts_error (ob_now d)) d)) (\<lambda>_.
              raising (ValueError ''Slack response did not include a message timestamp.''))
          | Some ts \<Rightarrow> seq (mark_sent en c ch ts y user ?at) (\<lambda>_.
              returning \<lparr>wd_candidate = wc_id c, wd_channel = ch, wd_message_ts = ts,
                wd_effect = fr_effect y, wd_deduped = fr_deduped y\<rparr>)) d1) = (r, d')"
        using run one \<open>g = Inr c\<close> two d2 Inr c del
        by (simp add: send_private_suggestion_def seq_apply)
      show thesis
      proof (cases x)
        case (Inl e)
        with rest have "r = Inl e" "d' = d1" by simp_all
        with undelivered [of c ch e d1] c del Inl show thesis by simp
      next
        case y: (Inr y)
        show thesis
        proof (cases "response_ts (fr_response y)")
          case None
          with rest y have "r = Inl (ValueError ''Slack response did not include a message timestamp.'')"
            "d' = put_effect (fr_effect y) (missing_ts_error (ob_now d1)) d1"
            by simp_all
          with no_ts [of c ch y d1] c del y None show thesis by auto
        next
          case (Some ts)
          have "\<exists>d3. mark_sent en c ch ts y user ?at d1 = (Inr (), d3)"
            by (simp add: mark_sent_def record_transition_def seq_apply)
          then obtain d3 where d3: "mark_sent en c ch ts y user ?at d1 = (Inr (), d3)" by blast
          with rest y Some have "r = Inr \<lparr>wd_candidate = wc_id c, wd_channel = ch, wd_message_ts = ts,
              wd_effect = fr_effect y, wd_deduped = fr_deduped y\<rparr>" "d' = d3" by simp_all
          with sent [of c ch y d1 ts ?at] c st [OF Inr] del y Some d3 show thesis by simp
        qed
      qed
    qed
  qed
qed

lemma mark_sent_moves:
  assumes "mark_sent True c ch ts x user at d = (r, d')" and "c \<in> set (wt_candidates d)"
    and "wc_status c = ''candidate''"
  shows "witness_moves d d'"
proof -
  let ?f = "\<lambda>r. record_feedback ''sent'' user at
       [(''channel_id'', JStr ch), (''message_ts'', JStr ts),
        (''side_effect_id'', JStr (uuid_str (fr_effect x))), (''deduped'', JBool (fr_deduped x)),
        (''delivery_policy'', JStr ''explicit_dm_only'')]
       (r\<lparr>wc_status := ''sent'', wc_cooldown_until := None, wc_last_suggested_at := Some at,
          wc_updated_at := at\<rparr>)"
  obtain e where "d' = (put_candidate (wc_id c) ?f d)\<lparr>wt_events := wt_events d @ [e]\<rparr>"
    "pe_candidate e = wc_id c" "pe_from e = Some (wc_status c)" "pe_to e = ''sent''"
    using assms(1) by (auto simp: mark_sent_def record_transition_def seq_apply)
  moreover have "same_candidate ?f" by (simp add: same_candidate_def)
  ultimately show ?thesis
    using transit [of c d ?f e] assms(2,3) status_names(6) by auto
qed

lemma mark_sent_effects: "mark_sent en c ch ts x user at d = (r, d') \<Longrightarrow> ob_effects d' = ob_effects d"
  by (auto simp: mark_sent_def record_transition_def seq_apply split: if_splits)

lemma send_moves:
  assumes run: "send_private_suggestion True describe api_error mrkdwn fid post cid inst user now d = (r, d')"
    and post: "\<And>ch msg. silent (post ch msg)"
  shows "witness_moves d d'"
proof -
  have same: "witness_moves d d1 \<and> wt_candidates d1 = wt_candidates d"
    if "deliver describe api_error id fid rq (post ch msg) d = (x, d1)" for rq ch msg x d1
    using tables.tracksD [OF deliver_tables [OF post] TrueI that] by (blast intro: elsewhere)
  show ?thesis
    using run
  proof (cases rule: send_cases)
    case (no_ts c ch x d1 e)
    then show ?thesis
      using same [OF no_ts(4)] elsewhere [of "put_effect (fr_effect x) (missing_ts_error (ob_now d1)) d1" d1]
      by (auto intro: rtranclp.rtrancl_into_rtrancl)
  next
    case (sent c ch x d1 ts at)
    then show ?thesis
      using same [OF sent(5)] mark_sent_moves [OF sent(7) _ sent(4)] by (auto intro: rtranclp_trans)
  qed (use same in auto)
qed

lemma act_moves:
  assumes "well_behaved a" and "act describe api_error mrkdwn cid inst a d = (r, d')"
  shows "witness_moves d d'"
  using assms
  by (cases a) (auto dest!: ignoringD dest: dismiss_moves snooze_moves accept_moves reactivate_moves
      archive_moves send_moves)

text \<open>The event log tells the status of every suggestion: whatever actions users and operators
  take, in any order, the events of a suggestion form an unbroken path from its creation to its
  present status.\<close>

theorem suggestion_log_is_path:
  assumes "audit_ok d" and "(witness_step describe api_error mrkdwn)\<^sup>*\<^sup>* d d'"
    and "candidate_get cid d' = Some c"
  shows "status_chain ''candidate'' (candidate_events cid d') = Some (wc_status c)"
proof -
  have "witness_moves d d'"
    using assms(2)
  proof (induction rule: rtranclp_induct)
    case (step d1 d2)
    then show ?case by (auto elim!: witness_step.cases dest: act_moves intro: rtranclp_trans)
  qed simp
  then have "audit_ok d'" by (rule audit_ok_moves [OF _ assms(1)])
  moreover have "c \<in> set (wt_candidates d')" "wc_id c = cid"
    using assms(3) row_get_Some by (fastforce simp: candidate_get_def)+
  ultimately show ?thesis by (auto simp: audit_ok_def)
qed

section \<open>A suggestion is posted once\<close>

definition posted :: "uuid \<Rightarrow> uuid \<Rightarrow> string \<Rightarrow> witness_db \<Rightarrow> bool" where
  "posted inst cid ts d \<longleftrightarrow> (\<exists>r \<in> set (ob_effects d). effect_key r = (inst, suggestion_key cid) \<and>
     fx_status r = ''succeeded'' \<and> response_ts (known_response r) = Some ts)"

lemma posted_moves: "effect_moves d d' \<Longrightarrow> outbox_ok d \<Longrightarrow> posted inst cid ts d \<Longrightarrow> posted inst cid ts d'"
  using succeeded_kept unfolding posted_def by blast

lemma posted_effects: "ob_effects d' = ob_effects d \<Longrightarrow> posted inst cid ts d' = posted inst cid ts d"
  by (simp add: posted_def)

lemma outbox_ok_effects: "ob_effects d' = ob_effects d \<Longrightarrow> outbox_ok d' = outbox_ok d"
  by (simp add: outbox_ok_def)

lemma ok_response_ts [simp]: "response_ts [(''ok'', JBool True)] = None"
  by (simp add: response_ts_def truthy_def)

lemma suggestion_request_key:
  "(er_installation (suggestion_request mrkdwn c ch), er_key (suggestion_request mrkdwn c ch)) =
   (wc_installation c, suggestion_key (wc_id c))"
  by (simp add: suggestion_request_def)

lemma send_keeps_posted:
  assumes run: "send_private_suggestion True describe api_error mrkdwn fid post cid inst user now d = (r, d')"
    and post: "\<And>ch msg. silent (post ch msg)" and ok: "outbox_ok d"
  shows "outbox_ok d' \<and> (posted inst0 cid0 ts0 d \<longrightarrow> posted inst0 cid0 ts0 d')"
proof -
  have race: "effect_moves d (id d)" for d :: witness_db by simp
  note del = deliver_result [OF ok race silent_quiet [OF post]]
  have moved: "outbox_ok d1 \<and> (posted inst0 cid0 ts0 d \<longrightarrow> posted inst0 cid0 ts0 d1)"
    if "deliver describe api_error id fid rq (post ch msg) d = (x, d1)" for rq ch msg x d1
    using del [OF that] outbox_ok_moves [OF _ ok] posted_moves [OF _ ok] by blast
  show ?thesis
    using run
  proof (cases rule: send_cases)
    case (no_ts c ch x d1 e)
    note kept = moved [OF no_ts(4)]
    obtain r1 where r1: "r1 \<in> set (ob_effects d1)" "fr_effect x = fx_id r1"
      "known_response r1 = (if fr_response x = [] then [(''ok'', JBool True)] else fr_response x)"
      using del [OF no_ts(4)] by auto
    have none: "response_ts (known_response r1) = None" using r1(3) no_ts(5) by simp
    have ok1: "outbox_ok d1" using kept by blast
    have change: "effect_change r1 (missing_ts_error (ob_now d1))"
      by (simp add: effect_change_def missing_ts_error_def effect_key_def effect_statuses_def)
    have "posted inst0 cid0 ts0 d'" if before: "posted inst0 cid0 ts0 d1"
    proof -
      obtain r0 where r0: "r0 \<in> set (ob_effects d1)" "effect_key r0 = (inst0, suggestion_key cid0)"
        "fx_status r0 = ''succeeded''" "response_ts (known_response r0) = Some ts0"
        using before by (auto simp: posted_def)
      have "fx_id r0 \<noteq> fx_id r1"
        using distinct_map_eq [of fx_id "ob_effects d1" r0 r1] ok1 r0(1,4) r1(1) none by (auto simp: outbox_ok_def)
      then have "r0 \<in> set (ob_effects d')"
        unfolding no_ts(7) r1(2) set_put_effect [OF ok1 r1(1)] using r0(1) by blast
      with r0 show ?thesis by (auto simp: posted_def)
    qed
    moreover have "outbox_ok d'" unfolding no_ts(7) r1(2) by (rule outbox_ok_put [OF ok1 r1(1) change])
    ultimately show ?thesis using kept by blast
  next
    case (sent c ch x d1 ts at)
    with moved [OF sent(5)] show ?thesis
      using posted_effects [OF mark_sent_effects [OF sent(7)]] outbox_ok_effects [OF mark_sent_effects [OF sent(7)]]
      by blast
  next
    case (undelivered c ch e d1)
    with moved [OF undelivered(4)] show ?thesis by blast
  next
    case (refused e)
    with ok show ?thesis by simp
  qed
qed

lemmas action_effects = dismiss_moves [THEN conjunct2] snooze_moves [THEN conjunct2]
  accept_moves [THEN conjunct2] reactivate_moves [THEN conjunct2] archive_moves [THEN conjunct2]

lemma act_keeps_posted:
  assumes "well_behaved a" and "act describe api_error mrkdwn cid inst a d = (r, d')" and "outbox_ok d"
  shows "outbox_ok d' \<and> (posted inst0 cid0 ts0 d \<longrightarrow> posted inst0 cid0 ts0 d')"
proof (cases "\<exists>fid post user now. a = Send fid post user now")
  case True
  then obtain fid post user now where a: "a = Send fid post user now" by blast
  obtain x where "send_private_suggestion True describe api_error mrkdwn fid post cid inst user now d = (x, d')"
    using assms(2) a by (auto dest: ignoringD)
  from send_keeps_posted [OF this _ assms(3)] assms(1) a show ?thesis by simp
next
  case False
  have same: "ob_effects d' = ob_effects d"
    using assms(2) False by (cases a) (auto dest!: ignoringD dest: action_effects)
  from assms(3) show ?thesis
    unfolding outbox_ok_effects [OF same] posted_effects [OF same] by blast
qed

lemma steps_keep_posted:
  assumes "(witness_step describe api_error mrkdwn)\<^sup>*\<^sup>* d d'" and "outbox_ok d"
  shows "outbox_ok d' \<and> (posted inst cid ts d \<longrightarrow> posted inst cid ts d')"
  using assms(1)
proof (induction rule: rtranclp_induct)
  case (step d1 d2)
  from step(2) obtain a cid' inst' r where "well_behaved a" "act describe api_error mrkdwn cid' inst' a d1 = (r, d2)"
    by (cases rule: witness_step.cases)
  with act_keeps_posted step(3) show ?case by blast
qed (use assms(2) in blast)

text \<open>Sending a posted suggestion: the outbox answers, so the call given makes no difference.\<close>

lemma send_posted:
  assumes ok: "outbox_ok d" and p: "posted inst cid ts d"
  shows "send_private_suggestion en describe api_error mrkdwn fid post cid inst user now d =
    send_private_suggestion en describe api_error mrkdwn fid' post' cid inst user now d"
    and "send_private_suggestion en describe api_error mrkdwn fid post cid inst user now d = (Inr w, d') \<Longrightarrow>
      wd_message_ts w = ts \<and> wd_deduped w"
proof -
  obtain r where r: "r \<in> set (ob_effects d)" "effect_key r = (inst, suggestion_key cid)"
    "fx_status r = ''succeeded''" "response_ts (known_response r) = Some ts"
    using p by (auto simp: posted_def)
  have del: "deliver describe api_error id fid (suggestion_request mrkdwn c ch) call d =
      (Inr \<lparr>fr_effect = fx_id r, fr_response = known_response r, fr_delivered = False, fr_deduped = True\<rparr>, d)"
    if "wc_id c = cid" "wc_installation c = inst" for c ch call fid
    using deliver_settled [OF ok r(1) _ r(3)] r(2) that by (simp add: suggestion_request_def)
  show "send_private_suggestion en describe api_error mrkdwn fid post cid inst user now d =
    send_private_suggestion en describe api_error mrkdwn fid' post' cid inst user now d"
  proof (cases "find (\<lambda>c. wc_id c = cid \<and> wc_installation c = inst) (wt_candidates d)")
    case None
    then show ?thesis by (simp add: send_private_suggestion_def candidate_for_update_def seq_apply)
  next
    case (Some c)
    then have c: "wc_id c = cid" "wc_installation c = inst" by (auto simp: find_Some_iff)
    obtain h d2 where two: "ensure_private_deliverable c (case now of Some t \<Rightarrow> t | None \<Rightarrow> ob_now d) d = (h, d2)"
      by (cases "ensure_private_deliverable c (case now of Some t \<Rightarrow> t | None \<Rightarrow> ob_now d) d")
    then have "d2 = d" by (auto simp: ensure_private_deliverable_def split: if_splits option.splits)
    with two Some del [OF c] show ?thesis
      by (simp add: send_private_suggestion_def candidate_for_update_def seq_apply split: sum.split)
  qed
  assume "send_private_suggestion en describe api_error mrkdwn fid post cid inst user now d = (Inr w, d')"
  then show "wd_message_ts w = ts \<and> wd_deduped w"
  proof (cases rule: send_cases)
    case (sent c ch x d1 ts' at)
    with del [OF sent(2,3)] r(4) show ?thesis by auto
  qed simp_all
qed

text \<open>C19. A suggestion reaches Slack once. After it was sent, whatever is done to it and to the others,
  reactivating it included, sending it again answers with the timestamp of the first message, flagged
  as a duplicate, and does not depend on the call it is given: nothing is posted.\<close>

theorem suggestion_posted_once:
  assumes "outbox_ok d" and "\<And>ch msg. silent (post ch msg)"
    and "send_private_suggestion True describe api_error mrkdwn fid post cid inst user now d = (Inr w, d1)"
    and "(witness_step describe api_error mrkdwn)\<^sup>*\<^sup>* d1 d2"
    and "send_private_suggestion True describe api_error mrkdwn fid' post' cid inst user' now' d2 = (Inr w', d3)"
  shows "wd_message_ts w' = wd_message_ts w \<and> wd_deduped w' \<and>
    (\<forall>post''. send_private_suggestion True describe api_error mrkdwn fid' post'' cid inst user' now' d2 = (Inr w', d3))"
proof -
  have race: "effect_moves d (id d)" for d :: witness_db by simp
  have "outbox_ok d1" using send_keeps_posted [OF assms(3,2,1)] by blast
  moreover have "posted inst cid (wd_message_ts w) d1"
    using assms(3)
  proof (cases rule: send_cases)
    case (sent c ch x d0 ts at)
    have "\<exists>r \<in> set (ob_effects d0). effect_key r = (inst, suggestion_key cid) \<and> fx_status r = ''succeeded'' \<and>
        known_response r = (if fr_response x = [] then [(''ok'', JBool True)] else fr_response x)"
      using deliver_result [OF assms(1) race silent_quiet [OF assms(2)] sent(5)] sent(2,3)
      by (auto simp: suggestion_request_def)
    moreover have "fr_response x \<noteq> []" using sent(6) by (auto simp: response_ts_def truthy_def)
    ultimately show ?thesis
      using sent(6,8) mark_sent_effects [OF sent(7)] by (auto simp: posted_def)
  qed simp_all
  ultimately have two: "outbox_ok d2" "posted inst cid (wd_message_ts w) d2"
    using steps_keep_posted [OF assms(4)] by blast+
  from send_posted(2) [OF two assms(5)] send_posted(1) [OF two, of True describe api_error mrkdwn fid' _ user' now' fid' post']
    assms(5) show ?thesis by metis
qed

section \<open>Archived and dismissed suggestions\<close>

lemma find_candidate:
  assumes "audit_ok d" and "candidate_get cid d = Some c"
  shows "find (\<lambda>c. wc_id c = cid \<and> wc_installation c = inst) (wt_candidates d) =
    (if wc_installation c = inst then Some c else None)"
proof -
  have c: "c \<in> set (wt_candidates d)" "wc_id c = cid"
    using assms(2) row_get_Some by (fastforce simp: candidate_get_def)+
  have unique: "x = c" if "x \<in> set (wt_candidates d)" "wc_id x = cid" for x
    using distinct_map_eq [of wc_id "wt_candidates d" x c] assms(1) c that by (simp add: audit_ok_def)
  show ?thesis
  proof (cases "find (\<lambda>c. wc_id c = cid \<and> wc_installation c = inst) (wt_candidates d)")
    case None
    with c show ?thesis by (auto simp: find_None_iff)
  next
    case (Some x)
    then have "x \<in> set (wt_candidates d)" "wc_id x = cid" "wc_installation x = inst"
      by (auto simp: find_Some_iff)
    with unique Some show ?thesis by auto
  qed
qed

lemma archived_refuses:
  assumes "audit_ok d" and "candidate_get cid d = Some c" and "wc_status c = ''archived''"
    and "\<forall>user. a \<noteq> Archive user"
  shows "\<exists>e. act describe api_error mrkdwn cid inst a d = (Inl e, d)"
proof -
  note found = find_candidate [OF assms(1,2), of inst]
  show ?thesis
    using assms(3,4) found
    by (cases a)
      (auto simp: ignoring_def dismiss_candidate_def snooze_candidate_def accept_candidate_def
        reactivate_candidate_def send_private_suggestion_def candidate_for_update_def guarded_ops
        ensure_private_deliverable_def seq_apply)
qed

text \<open>An archived suggestion stays archived through every action on it or on others, and every
  action on it but archiving it again raises and changes nothing; it is never sent.\<close>

theorem archived_is_final:
  assumes "audit_ok d" and "candidate_get cid d = Some c" and "wc_status c = ''archived''"
    and "(witness_step describe api_error mrkdwn)\<^sup>*\<^sup>* d d'"
  shows "(\<exists>c'. candidate_get cid d' = Some c' \<and> wc_status c' = ''archived'') \<and>
    (\<forall>a inst. (\<forall>user. a \<noteq> Archive user) \<longrightarrow>
      (\<exists>e. act describe api_error mrkdwn cid inst a d' = (Inl e, d')))"
proof -
  have m: "witness_moves d d'"
    using assms(4)
  proof (induction rule: rtranclp_induct)
    case (step d1 d2)
    then show ?case by (auto elim!: witness_step.cases dest: act_moves intro: rtranclp_trans)
  qed simp
  obtain c' where "candidate_get cid d' = Some c'" "wc_status c' = ''archived''"
    using archived_moves [OF m assms(1-3)] by blast
  with archived_refuses [OF audit_ok_moves [OF m assms(1)]] show ?thesis by blast
qed

text \<open>A dismissal is not a no-op on a suggestion that was dismissed before: it adds another entry to the
  history that the receptivity score counts.\<close>

lemma dismiss_counts_every_click:
  assumes "audit_ok d" and "candidate_get cid d = Some c" and "wc_installation c = inst"
    and "wc_status c = ''dismissed''" and "length (feedback_history (wc_feedback c)) < 25"
  shows "\<exists>c' d'. dismiss_candidate en cid inst user None (Some at) d = (Inr c', d') \<and>
    feedback_history (wc_feedback c') =
      feedback_history (wc_feedback c) @ [feedback_entry ''dismissed'' user at [(''reason'', JNull)]]"
proof -
  have "length (feedback_history (wc_feedback c) @ [x]) - 25 = 0" for x using assms(5) by simp
  then have "feedback_history (wc_feedback (record_feedback ''dismissed'' user at [(''reason'', JNull)]
      (c\<lparr>wc_status := ''dismissed'', wc_cooldown_until := None, wc_updated_at := at\<rparr>))) =
    feedback_history (wc_feedback c) @ [feedback_entry ''dismissed'' user at [(''reason'', JNull)]]"
    by (simp add: record_feedback_def Let_def feedback_history_def jmerge_def jget_def update_conv'
        take_last_def max_witness_audit_history_def)
  then show ?thesis
    using find_candidate [OF assms(1,2), of inst] assms(3,4)
    by (simp add: dismiss_candidate_def candidate_for_update_def guarded_ops seq_apply set_status_def
        record_transition_def truthy_def jopt_str_def)
qed

section \<open>A sample suggestion\<close>

definition sample_candidate :: candidate where
  "sample_candidate = \<lparr>wc_id = 9, wc_installation = 1, wc_channel = Some ''D1'', wc_target_user = Some ''U1'',
     wc_scope_type = ''dm'', wc_scope_id = Some ''D1'', wc_type = ''recurring_check'', wc_title = ''t'',
     wc_summary = ''s'', wc_suggested_action = None, wc_suggested_message = Some ''hello'',
     wc_evidence = [], wc_source_type = ''manual'', wc_source_id = None, wc_source_task = None,
     wc_dedupe_key = ''k'', wc_confidence = 500, wc_status = ''candidate'', wc_cooldown_until = None,
     wc_last_suggested_at = None, wc_reinforcement = 1, wc_first_observed_at = None, wc_feedback = [],
     wc_metadata = [], wc_created_at = 0, wc_updated_at = 0\<rparr>"

definition witness_sample :: "candidate \<Rightarrow> witness_db" where
  "witness_sample c = \<lparr>ob_effects = [], ob_now = 5, ob_locks = [], wt_candidates = [c], wt_events = []\<rparr>"

definition answer_post :: "string \<Rightarrow> string \<Rightarrow> (witness_db, slack_answer) op" where
  "answer_post ch msg = returning (Mapping_Answer [(''ts'', JStr ''10.5'')])"

lemma answer_post_silent: "silent (answer_post ch msg)"
  by (simp add: silent_def answer_post_def)

lemma sample_audit_ok: "audit_ok (witness_sample sample_candidate)"
  by (simp add: audit_ok_def witness_sample_def sample_candidate_def candidate_statuses_def
      candidate_events_def)

lemma suggestion_log_is_path_witness:
  "\<exists>d'. act sample_describe (\<lambda>_. None) id 9 1 (Accept ''U1'') (witness_sample sample_candidate) = (Inr (), d') \<and>
    (\<forall>c. candidate_get 9 d' = Some c \<longrightarrow>
      status_chain ''candidate'' (candidate_events 9 d') = Some (wc_status c))"
proof -
  have "\<exists>d'. act sample_describe (\<lambda>_. None) id 9 1 (Accept ''U1'') (witness_sample sample_candidate) = (Inr (), d')"
    by (simp add: accept_candidate_def candidate_for_update_def guarded_ops seq_apply set_status_def
        record_transition_def witness_sample_def sample_candidate_def ignoring_def)
  then obtain d' where run: "act sample_describe (\<lambda>_. None) id 9 1 (Accept ''U1'')
      (witness_sample sample_candidate) = (Inr (), d')" by blast
  have "(witness_step sample_describe (\<lambda>_. None) id)\<^sup>*\<^sup>* (witness_sample sample_candidate) d'"
    by (rule r_into_rtranclp, rule by_action [OF _ run]) simp
  from suggestion_log_is_path [OF sample_audit_ok this] run show ?thesis by blast
qed

lemmas send_defs = send_private_suggestion_def candidate_for_update_def guarded_ops seq_apply
  ensure_private_deliverable_def witness_sample_def sample_candidate_def truthy_def deliver_def
  get_or_create_def insert_effect_def attempt_call_def catching_def find_by_key_def effect_violation_def
  new_effect_def suggestion_request_def effect_operations_def answer_post_def jsonable_mapping_def
  response_ts_def mark_sent_def record_transition_def put_candidate_def row_upd_def
  reactivate_candidate_def set_status_def ignoring_def record_feedback_def Let_def put_effect_def

lemma sample_sent:
  "\<exists>w d1 d2 w' d3. send_private_suggestion True sample_describe (\<lambda>_. None) id 5 answer_post 9 1 ''U2'' None
     (witness_sample sample_candidate) = (Inr w, d1) \<and>
   act sample_describe (\<lambda>_. None) id 9 1 (Reactivate ''U2'') d1 = (Inr (), d2) \<and>
   send_private_suggestion True sample_describe (\<lambda>_. None) id 6 answer_post 9 1 ''U2'' None d2 = (Inr w', d3)"
  by (simp add: send_defs start_effect_def finish_effect_def known_response_def)

lemma suggestion_posted_once_witness:
  "\<exists>w d1 d2 w' d3. send_private_suggestion True sample_describe (\<lambda>_. None) id 5 answer_post 9 1 ''U2'' None
     (witness_sample sample_candidate) = (Inr w, d1) \<and>
   act sample_describe (\<lambda>_. None) id 9 1 (Reactivate ''U2'') d1 = (Inr (), d2) \<and>
   send_private_suggestion True sample_describe (\<lambda>_. None) id 6
     (\<lambda>_ _. raising (ValueError ''posted again'')) 9 1 ''U2'' None d2 = (Inr w', d3) \<and>
   wd_message_ts w' = wd_message_ts w"
proof -
  obtain w d1 d2 w' d3 where
    one: "send_private_suggestion True sample_describe (\<lambda>_. None) id 5 answer_post 9 1 ''U2'' None
      (witness_sample sample_candidate) = (Inr w, d1)"
    and two: "act sample_describe (\<lambda>_. None) id 9 1 (Reactivate ''U2'') d1 = (Inr (), d2)"
    and three: "send_private_suggestion True sample_describe (\<lambda>_. None) id 6 answer_post 9 1 ''U2'' None d2 = (Inr w', d3)"
    using sample_sent by blast
  have "(witness_step sample_describe (\<lambda>_. None) id)\<^sup>*\<^sup>* d1 d2"
    by (rule r_into_rtranclp, rule by_action [OF _ two]) simp
  moreover have "outbox_ok (witness_sample sample_candidate)"
    by (simp add: outbox_ok_def witness_sample_def)
  ultimately show ?thesis
    using suggestion_posted_once [OF _ answer_post_silent one _ three] one two by blast
qed

definition archived_sample :: witness_db where
  "archived_sample = (witness_sample (sample_candidate\<lparr>wc_status := ''archived''\<rparr>))
     \<lparr>wt_events := [\<lparr>pe_candidate = 9, pe_installation = Some 1, pe_from = Some ''candidate'',
        pe_to = ''archived'', pe_type = ''archived'', pe_reason = None, pe_actor = Some ''U1'',
        pe_policy_decision = None, pe_task = None, pe_detail = None, pe_created_at = 4\<rparr>]\<rparr>"

lemma archived_is_final_witness:
  "\<exists>e. act sample_describe (\<lambda>_. None) id 9 1 (Accept ''U1'') archived_sample = (Inl e, archived_sample)"
proof -
  have "audit_ok archived_sample"
    by (simp add: audit_ok_def archived_sample_def witness_sample_def sample_candidate_def
        candidate_statuses_def candidate_events_def)
  moreover have "candidate_get 9 archived_sample = Some (sample_candidate\<lparr>wc_status := ''archived''\<rparr>)"
    "wc_status (sample_candidate\<lparr>wc_status := ''archived''\<rparr>) = ''archived''"
    by (simp_all add: candidate_get_def archived_sample_def witness_sample_def sample_candidate_def)
  ultimately show ?thesis
    using archived_is_final [OF _ _ _ rtranclp.rtrancl_refl, of archived_sample 9] by blast
qed

end
