(* ===== verification/Slack_Posting.thy ===== *)
theory Slack_Posting
  imports Slack_Outbox
begin

text \<open>
  \<open>kortny/slack/posting.py\<close> and \<open>kortny/slack/egress.py\<close>: the messages and files a task posts, the
  scan of outgoing text for suspicious links, and the rows of \<open>artifacts\<close>.

  The state is the outbox with the task tables and the artifacts. The environment is what the
  code does not define: Slack's client, the file system, fresh identifiers, the check Python makes
  of a host name with brackets or non-ASCII characters, the text of exceptions. The mrkdwn
  normaliser, a chain of regular expressions over the text, is a parameter as well, so that the
  theorems hold whatever it does. Tracing is left out.
\<close>

record artifact =
  ar_id :: uuid
  ar_task :: uuid
  ar_filename :: string
  ar_mime_type :: "string option"
  ar_size :: "int option"
  ar_storage_path :: "string option"
  ar_slack_file_id :: "string option"
  ar_posted_at :: "timestamp option"
  ar_doc_group :: "uuid option"
  ar_doc_version :: "int option"
  ar_spec :: "jobj option"
  ar_created_at :: timestamp

record post_db = outbox_db +
  pw_db :: db
  pw_artifacts :: "artifact list"

record post_env =
  pe_normalize :: "string \<Rightarrow> string"
  pe_host_check :: "string \<Rightarrow> py_error option"
  pe_allowlist :: "string list"
  pe_describe :: "py_error \<Rightarrow> string \<times> string"
  pe_api_error :: "py_error \<Rightarrow> string option"
  pe_race :: "post_db \<Rightarrow> post_db"
  pe_fresh :: "post_db \<Rightarrow> uuid"
  pe_playground_ts :: "post_db \<Rightarrow> string"
  pe_playground_file :: "post_db \<Rightarrow> string"
  pe_chat_post :: "string \<Rightarrow> string \<Rightarrow> string option \<Rightarrow> json list option \<Rightarrow> (post_db, slack_answer) op"
  pe_upload :: "string \<Rightarrow> string \<Rightarrow> string \<Rightarrow> string \<Rightarrow> string option \<Rightarrow> string option \<Rightarrow> (post_db, slack_answer) op"
  pe_set_status :: "(string \<Rightarrow> string \<Rightarrow> string \<Rightarrow> (post_db, unit) op) option"
  pe_file_size :: "string \<Rightarrow> int option"
  pe_guess_type :: "string \<Rightarrow> string option"

definition on_task_db :: "(db, 'a) op \<Rightarrow> (post_db, 'a) op" where
  "on_task_db m = (\<lambda>w. case m (pw_db w) of (r, d) \<Rightarrow> (r, w\<lparr>pw_db := d\<rparr>))"

definition post_event :: "uuid \<Rightarrow> event_type \<Rightarrow> jobj \<Rightarrow> (post_db, unit) op" where
  "post_event tid ty p = seq (on_task_db (append_event tid ty p)) (\<lambda>_. returning ())"

section \<open>Outgoing links\<close>

record flagged_url =
  fu_url :: string
  fu_host :: string
  fu_longest :: nat

definition suspicious_value_min_len :: nat where
  "suspicious_value_min_len = 64"

definition before :: "char \<Rightarrow> string \<Rightarrow> string" where
  "before c s = takeWhile (\<lambda>x. x \<noteq> c) s"

definition after_first :: "char \<Rightarrow> string \<Rightarrow> string" where
  "after_first c s = drop 1 (dropWhile (\<lambda>x. x \<noteq> c) s)"

definition after_last :: "char \<Rightarrow> string \<Rightarrow> string" where
  "after_last c s = rev (takeWhile (\<lambda>x. x \<noteq> c) (rev s))"

definition rstrip_chars :: "string \<Rightarrow> string \<Rightarrow> string" where
  "rstrip_chars cs s = rev (dropWhile (\<lambda>c. c \<in> set cs) (rev s))"

text \<open>\<open>parse_egress_allowlist\<close>: a list of host names separated by commas.\<close>

definition parse_egress_allowlist :: "string option \<Rightarrow> string list" where
  "parse_egress_allowlist raw =
     (case raw of None \<Rightarrow> []
      | Some s \<Rightarrow> map (\<lambda>part. casefold (strip part)) (filter non_blank (split_on (CHR '','') s)))"

text \<open>\<open>_URL_RE.finditer\<close>: the scheme, in either case, and the characters after it up to a blank, an
  angle bracket or a bar, at least one of them.\<close>

definition url_char :: "char \<Rightarrow> bool" where
  "url_char c \<longleftrightarrow> \<not> is_space c \<and> c \<notin> set ''<>|''"

definition url_scheme :: "string \<Rightarrow> nat option" where
  "url_scheme s =
     (if starts_with ''http://'' (casefold (take 8 s)) then Some 7
      else if starts_with ''https://'' (casefold (take 8 s)) then Some 8
      else None)"

fun find_urls :: "string \<Rightarrow> string list" where
  "find_urls [] = []"
| "find_urls (c # s) =
     (case url_scheme (c # s) of
        None \<Rightarrow> find_urls s
      | Some n \<Rightarrow>
          (case takeWhile url_char (drop n (c # s)) of
             [] \<Rightarrow> find_urls s
           | b # bs \<Rightarrow> (take n (c # s) @ b # bs) # find_urls (drop (n + length bs) s)))"

text \<open>\<open>urlsplit\<close> on such a link: the network location and the query. A location with one kind of
  bracket only is refused.\<close>

definition split_url :: "(string \<Rightarrow> py_error option) \<Rightarrow> string \<Rightarrow> (string \<times> string) res" where
  "split_url host_check url =
     (let rest = (case url_scheme url of Some n \<Rightarrow> drop n url | None \<Rightarrow> url);
          netloc = takeWhile (\<lambda>c. c \<notin> set ''/?#'') rest;
          tail = dropWhile (\<lambda>c. c \<notin> set ''/?#'') rest
      in if (CHR ''['' \<in> set netloc) \<noteq> (CHR '']'' \<in> set netloc)
         then Inl (ValueError ''Invalid IPv6 URL'')
         else (case host_check netloc of
                 Some e \<Rightarrow> Inl e
               | None \<Rightarrow> Inr (netloc, after_first (CHR ''?'') (before (CHR ''#'') tail))))"

definition url_host :: "string \<Rightarrow> string" where
  "url_host netloc =
     (let info = after_last (CHR ''@'') netloc
      in casefold (if CHR ''['' \<in> set info then before (CHR '']'') (after_first (CHR ''['') info)
                   else before (CHR '':'') info))"

definition longest_query_value_len :: "string \<Rightarrow> nat" where
  "longest_query_value_len query =
     fold (\<lambda>pair n. max n (length (after_first (CHR ''='') pair))) (split_on (CHR ''&'') query) 0"

definition scan_url ::
  "(string \<Rightarrow> py_error option) \<Rightarrow> string list \<Rightarrow> string \<Rightarrow> flagged_url option res" where
  "scan_url host_check allowlist url =
     (case split_url host_check url of
        Inl e \<Rightarrow> Inl e
      | Inr (netloc, query) \<Rightarrow>
          (let host = url_host netloc; longest = longest_query_value_len query
           in Inr (if host = [] \<or> host \<in> set allowlist \<or> query = [] \<or> longest < suspicious_value_min_len
                   then None
                   else Some \<lparr>fu_url = url, fu_host = host, fu_longest = longest\<rparr>)))"

definition trailing_punctuation :: string where
  "trailing_punctuation = ''.,;)]>'' @ [CHR 0x22, CHR 0x27]"

fun scan_urls ::
  "(string \<Rightarrow> py_error option) \<Rightarrow> string list \<Rightarrow> string list \<Rightarrow> string list \<Rightarrow> flagged_url list res" where
  "scan_urls host_check allowlist seen [] = Inr []"
| "scan_urls host_check allowlist seen (m # ms) =
     (let url = rstrip_chars trailing_punctuation m
      in if url \<in> set seen then scan_urls host_check allowlist seen ms
         else
           (case scan_url host_check allowlist url of
              Inl e \<Rightarrow> Inl e
            | Inr hit \<Rightarrow>
                (case scan_urls host_check allowlist (url # seen) ms of
                   Inl e \<Rightarrow> Inl e
                 | Inr hits \<Rightarrow> Inr (case hit of None \<Rightarrow> hits | Some x \<Rightarrow> x # hits))))"

definition scan_outbound_urls ::
  "(string \<Rightarrow> py_error option) \<Rightarrow> string list \<Rightarrow> string \<Rightarrow> flagged_url list res" where
  "scan_outbound_urls host_check allowlist text' = scan_urls host_check allowlist [] (find_urls text')"

section \<open>Threads\<close>

record slack_thread =
  th_channel :: string
  th_thread_ts :: "string option"
  th_task :: "uuid option"
  th_assistant :: bool

definition is_assistant_task :: "task \<Rightarrow> bool" where
  "is_assistant_task t = (jget (t_identity_payload t) ''source_surface'' = JStr ''assistant'')"

definition allows_root_delivery :: "task \<Rightarrow> bool" where
  "allows_root_delivery t \<longleftrightarrow> t_identity_kind t = Some ''scheduled'' \<or>
     jget (t_identity_payload t) ''source'' = JStr ''witness_autopilot''"

definition task_thread_ts :: "task \<Rightarrow> string option" where
  "task_thread_ts t = (if t_thread_ts t \<in> {None, Some []} then t_message_ts t else t_thread_ts t)"

definition thread_from_task :: "task \<Rightarrow> slack_thread res" where
  "thread_from_task t =
     (if task_thread_ts t \<in> {None, Some []} \<and> \<not> allows_root_delivery t
      then Inl (ValueError ''Task has no Slack thread timestamp'')
      else Inr \<lparr>th_channel = t_channel t, th_thread_ts = task_thread_ts t, th_task = Some (t_id t),
                th_assistant = is_assistant_task t\<rparr>)"

definition post_thread_ts :: "slack_thread \<Rightarrow> string option" where
  "post_thread_ts th =
     (if th_assistant th then th_thread_ts th
      else if starts_with ''D'' (th_channel th) then None
      else th_thread_ts th)"

section \<open>Answers and blocks\<close>

definition response_mapping :: "slack_answer \<Rightarrow> jobj" where
  "response_mapping a = (case coerce_mapping a of Some p \<Rightarrow> p | None \<Rightarrow> [])"

definition non_empty_str :: "json \<Rightarrow> string option" where
  "non_empty_str v = (case v of JStr s \<Rightarrow> if s = [] then None else Some s | _ \<Rightarrow> None)"

definition posted_ts :: "jobj \<Rightarrow> string option" where
  "posted_ts p =
     (case non_empty_str (jget p ''ts'') of
        Some ts \<Rightarrow> Some ts
      | None \<Rightarrow> (case jget p ''message'' of JObj m \<Rightarrow> non_empty_str (jget m ''ts'') | _ \<Rightarrow> None))"

definition file_field :: "json \<Rightarrow> string option" where
  "file_field v = (case v of JObj f \<Rightarrow> non_empty_str (jget f ''id'') | _ \<Rightarrow> None)"

definition response_file_id :: "jobj \<Rightarrow> string option" where
  "response_file_id p =
     (case file_field (jget p ''file'') of
        Some fid \<Rightarrow> Some fid
      | None \<Rightarrow> (case jget p ''files'' of JArr (f # fs) \<Rightarrow> file_field f | _ \<Rightarrow> None))"

text \<open>Texts inside blocks are normalised under the keys \<open>text\<close> and \<open>alt_text\<close>.\<close>

function normalize_block_value :: "(string \<Rightarrow> string) \<Rightarrow> string option \<Rightarrow> json \<Rightarrow> json" where
  "normalize_block_value norm key (JStr s) =
     (if key \<in> {Some ''text'', Some ''alt_text''} then JStr (norm s) else JStr s)"
| "normalize_block_value norm key (JArr vs) = JArr (map (normalize_block_value norm None) vs)"
| "normalize_block_value norm key (JObj kvs) =
     JObj (map (\<lambda>kv. (fst kv, normalize_block_value norm (Some (fst kv)) (snd kv))) kvs)"
| "normalize_block_value norm key JNull = JNull"
| "normalize_block_value norm key (JBool b) = JBool b"
| "normalize_block_value norm key (JInt n) = JInt n"
| "normalize_block_value norm key (JFloat s) = JFloat s"
  by pat_completeness auto
termination
proof (relation "measure (\<lambda>(norm, key, v). size v)", goal_cases)
  case (2 norm key vs v)
  then show ?case by (induction vs) auto
next
  case (3 norm key kvs kv)
  then show ?case by (induction kvs) (auto simp: size_prod_def split: prod.splits)
qed simp

definition normalize_blocks :: "(string \<Rightarrow> string) \<Rightarrow> json list option \<Rightarrow> json list option" where
  "normalize_blocks norm blocks =
     map_option (\<lambda>bs. filter (\<lambda>b. json_obj b \<noteq> None) (map (normalize_block_value norm None) bs)) blocks"

section \<open>Messages\<close>

definition slack_posting_error :: "string \<Rightarrow> py_error" where
  "slack_posting_error message = Raised ''SlackPostingError'' message"

definition flagged_json :: "flagged_url \<Rightarrow> json" where
  "flagged_json u = JObj [(''host'', JStr (fu_host u)), (''url_chars'', JInt (int (length (fu_url u)))),
     (''longest_query_value_len'', JInt (int (fu_longest u)))]"

definition flag_egress_urls :: "post_env \<Rightarrow> slack_thread \<Rightarrow> string \<Rightarrow> string \<Rightarrow> (post_db, unit) op" where
  "flag_egress_urls env th slack_text purpose =
     seq (lifting (scan_outbound_urls (pe_host_check env) (pe_allowlist env) slack_text)) (\<lambda>flagged.
     case th_task th of
       None \<Rightarrow> returning ()
     | Some tid \<Rightarrow>
         if flagged = [] then returning ()
         else post_event tid Log
                [(''message'', JStr ''egress_url_flagged''), (''purpose'', JStr purpose),
                 (''channel'', JStr (th_channel th)), (''flagged'', JArr (map flagged_json flagged))])"

definition message_event_exists :: "uuid \<Rightarrow> string \<Rightarrow> post_db \<Rightarrow> bool" where
  "message_event_exists tid sid w =
     list_ex (\<lambda>e. e_type e = Message_Posted \<and>
       json_text (jget (e_payload e) ''slack_side_effect_id'') = Some sid)
       (events_of tid (pw_db w))"

definition message_payload ::
  "slack_thread \<Rightarrow> string \<Rightarrow> string \<Rightarrow> string \<Rightarrow> string \<Rightarrow> string \<Rightarrow> json list option \<Rightarrow> jobj" where
  "message_payload th ts slack_text purpose sid key blocks =
     [(''channel'', JStr (th_channel th)), (''thread_ts'', jopt_str (post_thread_ts th)),
      (''message_ts'', JStr ts), (''text'', JStr slack_text), (''purpose'', JStr purpose),
      (''slack_side_effect_id'', JStr sid), (''idempotency_key'', JStr key)] @
     (case blocks of None \<Rightarrow> [] | Some bs \<Rightarrow> [(''blocks'', JArr bs)])"

definition message_request ::
  "task \<Rightarrow> slack_thread \<Rightarrow> string \<Rightarrow> json list option \<Rightarrow> string \<Rightarrow> string \<Rightarrow> effect_request" where
  "message_request t th slack_text blocks purpose key_purpose =
     \<lparr>er_installation = t_installation t, er_key = slack_message_key (t_id t) key_purpose,
      er_operation = ''chat_postMessage'',
      er_request = [(''channel'', JStr (th_channel th)), (''text'', JStr slack_text),
          (''thread_ts'', jopt_str (post_thread_ts th))] @
        (case blocks of None \<Rightarrow> [] | Some bs \<Rightarrow> [(''blocks'', JArr bs)]),
      er_channel = Some (th_channel th), er_thread_ts = post_thread_ts th, er_message_ts = None,
      er_task = Some (t_id t), er_purpose = Some purpose\<rparr>"

text \<open>A delivery with the effect's fresh identifier and what other transactions do meanwhile.\<close>

definition deliver_effect ::
  "post_env \<Rightarrow> effect_request \<Rightarrow> (post_db, slack_answer) op \<Rightarrow> (post_db, effect_result) op" where
  "deliver_effect env rq call =
     seq (reading (pe_fresh env)) (\<lambda>fid.
     deliver (pe_describe env) (pe_api_error env) (pe_race env) fid rq call)"

text \<open>The message a task posts: through the outbox, with one event per side effect.\<close>

definition record_message ::
  "uuid \<Rightarrow> string \<Rightarrow> jobj \<Rightarrow> (post_db, unit) op" where
  "record_message tid sid payload =
     seq (reading (message_event_exists tid sid)) (\<lambda>known.
     if known then returning () else post_event tid Message_Posted payload)"

definition post_task_message ::
  "post_env \<Rightarrow> slack_thread \<Rightarrow> uuid \<Rightarrow> string \<Rightarrow> json list option \<Rightarrow> string \<Rightarrow> string \<Rightarrow> (post_db, string) op" where
  "post_task_message env th tid slack_text blocks purpose key_purpose =
     seq (on_task_db (resolve_task tid)) (\<lambda>t.
     seq (deliver_effect env (message_request t th slack_text blocks purpose key_purpose)
            (pe_chat_post env (th_channel th) slack_text (post_thread_ts th) blocks)) (\<lambda>result.
     case posted_ts (fr_response result) of
       None \<Rightarrow> raising (slack_posting_error ''Slack chat_postMessage response is missing ts'')
     | Some ts \<Rightarrow>
         seq (record_message tid (uuid_str (fr_effect result))
                (message_payload th ts slack_text purpose (uuid_str (fr_effect result))
                   (slack_message_key (t_id t) key_purpose) blocks)) (\<lambda>_.
         returning ts)))"

text \<open>A message without a task goes straight to Slack.\<close>

definition post_plain_message ::
  "post_env \<Rightarrow> slack_thread \<Rightarrow> string \<Rightarrow> json list option \<Rightarrow> (post_db, string) op" where
  "post_plain_message env th slack_text blocks =
     seq (pe_chat_post env (th_channel th) slack_text (post_thread_ts th) blocks) (\<lambda>a.
     case posted_ts (response_mapping a) of
       None \<Rightarrow> raising (slack_posting_error ''Slack chat_postMessage response is missing ts'')
     | Some ts \<Rightarrow> returning ts)"

definition post_playground_message ::
  "post_env \<Rightarrow> slack_thread \<Rightarrow> string \<Rightarrow> string \<Rightarrow> (post_db, string) op" where
  "post_playground_message env th slack_text purpose =
     seq (reading (pe_playground_ts env)) (\<lambda>ts.
     case th_task th of
       None \<Rightarrow> returning ts
     | Some tid \<Rightarrow>
         seq (post_event tid Message_Posted
                (message_payload th ts slack_text purpose ''dummy'' ''dummy'' None)) (\<lambda>_.
         returning ts))"

definition key_name :: "string \<Rightarrow> string option \<Rightarrow> string" where
  "key_name purpose key_purpose = (if key_purpose \<in> {None, Some []} then purpose else the key_purpose)"

definition post_message ::
  "post_env \<Rightarrow> slack_thread \<Rightarrow> string \<Rightarrow> string \<Rightarrow> json list option \<Rightarrow> string option \<Rightarrow> (post_db, string) op" where
  "post_message env th message purpose blocks key_purpose =
     (let slack_text = pe_normalize env message;
          slack_blocks = normalize_blocks (pe_normalize env) blocks
      in seq (flag_egress_urls env th slack_text purpose) (\<lambda>_.
         if th_channel th = ''playground'' then post_playground_message env th slack_text purpose
         else
           (case th_task th of
              None \<Rightarrow> post_plain_message env th slack_text slack_blocks
            | Some tid \<Rightarrow>
                post_task_message env th tid slack_text slack_blocks purpose
                  (key_name purpose key_purpose))))"

definition clear_assistant_status :: "post_env \<Rightarrow> slack_thread \<Rightarrow> (post_db, unit) op" where
  "clear_assistant_status env th =
     (case (th_assistant th, th_thread_ts th, pe_set_status env) of
        (True, Some ts, Some set_status) \<Rightarrow>
          catching (set_status (th_channel th) ts []) (\<lambda>_. returning ())
      | _ \<Rightarrow> returning ())"

section \<open>Files\<close>

text \<open>\<open>str(Path(p))\<close> and \<open>Path(p).name\<close>: empty and dot segments fall away.\<close>

definition path_parts :: "string \<Rightarrow> string list" where
  "path_parts p = filter (\<lambda>s. s \<noteq> [] \<and> s \<noteq> ''.'') (split_on (CHR ''/'') p)"

definition path_root :: "string \<Rightarrow> string" where
  "path_root p =
     (if starts_with ''//'' p \<and> \<not> starts_with ''///'' p then ''//''
      else if starts_with ''/'' p then ''/'' else [])"

definition path_str :: "string \<Rightarrow> string" where
  "path_str p =
     (if path_root p @ join ''/'' (path_parts p) = [] then ''.''
      else path_root p @ join ''/'' (path_parts p))"

definition path_name :: "string \<Rightarrow> string" where
  "path_name p = (if path_parts p = [] then [] else last (path_parts p))"

text \<open>What \<open>upload_file\<close> is given: a row, its identifier or nothing.\<close>

datatype artifact_ref = Artifact_Row artifact | Artifact_Id uuid | No_Artifact

definition put_artifact :: "uuid \<Rightarrow> (artifact \<Rightarrow> artifact) \<Rightarrow> post_db \<Rightarrow> post_db" where
  "put_artifact aid f w = w\<lparr>pw_artifacts := row_upd ar_id aid f (pw_artifacts w)\<rparr>"

definition newest_first :: "artifact list \<Rightarrow> artifact list" where
  "newest_first rows = sort_key (\<lambda>a. - ar_created_at a) rows"

definition first_artifact :: "(artifact \<Rightarrow> bool) \<Rightarrow> post_db \<Rightarrow> artifact option" where
  "first_artifact p w =
     (case newest_first (filter p (pw_artifacts w)) of [] \<Rightarrow> None | a # as \<Rightarrow> Some a)"

definition find_artifact_by_path :: "uuid \<Rightarrow> string \<Rightarrow> post_db \<Rightarrow> artifact option" where
  "find_artifact_by_path tid path w =
     (case first_artifact (\<lambda>a. ar_task a = tid \<and> ar_storage_path a = Some (path_str path)) w of
        Some a \<Rightarrow> Some a
      | None \<Rightarrow> first_artifact (\<lambda>a. ar_task a = tid \<and> ar_filename a = path_name path) w)"

definition new_artifact :: "post_env \<Rightarrow> uuid \<Rightarrow> string \<Rightarrow> post_db \<Rightarrow> artifact" where
  "new_artifact env tid path w =
     \<lparr>ar_id = pe_fresh env w, ar_task = tid, ar_filename = path_name path,
      ar_mime_type = pe_guess_type env (path_name path), ar_size = pe_file_size env path,
      ar_storage_path = Some (path_str path), ar_slack_file_id = None, ar_posted_at = None,
      ar_doc_group = None, ar_doc_version = None, ar_spec = None, ar_created_at = db_now (pw_db w)\<rparr>"

definition artifact_payload :: "artifact \<Rightarrow> jobj" where
  "artifact_payload a =
     [(''artifact_id'', JStr (uuid_str (ar_id a))), (''filename'', JStr (ar_filename a)),
      (''mime_type'', jopt_str (ar_mime_type a)),
      (''size_bytes'', case ar_size a of None \<Rightarrow> JNull | Some n \<Rightarrow> JInt n),
      (''storage_path'', jopt_str (ar_storage_path a))]"

definition resolve_or_create_artifact ::
  "post_env \<Rightarrow> uuid \<Rightarrow> string \<Rightarrow> artifact_ref \<Rightarrow> (post_db, artifact) op" where
  "resolve_or_create_artifact env tid path ref =
     (case ref of
        Artifact_Row a \<Rightarrow> returning a
      | Artifact_Id aid \<Rightarrow>
          seq (reading (\<lambda>w. row_get ar_id aid (pw_artifacts w))) (\<lambda>found.
          case found of
            None \<Rightarrow> raising (LookupErr (''Artifact not found: '' @ uuid_str aid))
          | Some a \<Rightarrow> returning a)
      | No_Artifact \<Rightarrow>
          seq (reading (find_artifact_by_path tid path)) (\<lambda>found.
          case found of
            Some a \<Rightarrow> returning a
          | None \<Rightarrow>
              seq (reading (new_artifact env tid path)) (\<lambda>a.
              seq (writing (\<lambda>w. w\<lparr>pw_artifacts := pw_artifacts w @ [a]\<rparr>)) (\<lambda>_.
              seq (post_event tid Artifact_Created (artifact_payload a)) (\<lambda>_.
              returning a)))))"

definition mark_posted :: "artifact \<Rightarrow> string \<Rightarrow> timestamp option \<Rightarrow> (post_db, unit) op" where
  "mark_posted a file_id now =
     writing (\<lambda>w. put_artifact (ar_id a) (\<lambda>r. r\<lparr>ar_slack_file_id := Some file_id,
       ar_posted_at := Some (case now of Some at \<Rightarrow> at | None \<Rightarrow> ob_now w)\<rparr>) w)"

definition upload_payload :: "slack_thread \<Rightarrow> string \<Rightarrow> artifact \<Rightarrow> string \<Rightarrow> string \<Rightarrow> jobj" where
  "upload_payload th file_id a sid key =
     [(''channel'', JStr (th_channel th)), (''thread_ts'', jopt_str (post_thread_ts th)),
      (''slack_file_id'', JStr file_id), (''artifact_id'', JStr (uuid_str (ar_id a))),
      (''filename'', JStr (ar_filename a)), (''purpose'', JStr ''file_upload''),
      (''slack_side_effect_id'', JStr sid), (''idempotency_key'', JStr key)]"

definition title_or_name :: "string option \<Rightarrow> string \<Rightarrow> string" where
  "title_or_name title path = (if title \<in> {None, Some []} then path_name path else the title)"

definition upload_request ::
  "task \<Rightarrow> slack_thread \<Rightarrow> string \<Rightarrow> artifact \<Rightarrow> string option \<Rightarrow> string option \<Rightarrow> effect_request" where
  "upload_request t th path a note title =
     \<lparr>er_installation = t_installation t, er_key = slack_file_upload_key (ar_id a),
      er_operation = ''files_upload_v2'',
      er_request = [(''file'', JStr (path_str path)), (''filename'', JStr (path_name path)),
        (''title'', JStr (title_or_name title path)), (''channel'', JStr (th_channel th)),
        (''initial_comment'', jopt_str note), (''thread_ts'', jopt_str (post_thread_ts th)),
        (''artifact_id'', JStr (uuid_str (ar_id a)))],
      er_channel = Some (th_channel th), er_thread_ts = post_thread_ts th, er_message_ts = None,
      er_task = Some (t_id t), er_purpose = Some ''file_upload''\<rparr>"

definition upload_artifact ::
  "post_env \<Rightarrow> slack_thread \<Rightarrow> task \<Rightarrow> string \<Rightarrow> artifact \<Rightarrow> string option \<Rightarrow> string option \<Rightarrow>
   timestamp option \<Rightarrow> (post_db, string) op" where
  "upload_artifact env th t path a note title now =
     seq (deliver_effect env (upload_request t th path a note title)
            (pe_upload env (path_str path) (path_name path) (title_or_name title path)
               (th_channel th) note (post_thread_ts th))) (\<lambda>result.
     case response_file_id (fr_response result) of
       None \<Rightarrow> raising (slack_posting_error ''Slack files_upload_v2 response is missing file id'')
     | Some file_id \<Rightarrow>
         seq (mark_posted a file_id now) (\<lambda>_.
         seq (record_message (t_id t) (uuid_str (fr_effect result))
                (upload_payload th file_id a (uuid_str (fr_effect result))
                   (slack_file_upload_key (ar_id a)))) (\<lambda>_.
         returning file_id)))"

definition upload_playground ::
  "post_env \<Rightarrow> slack_thread \<Rightarrow> uuid \<Rightarrow> artifact \<Rightarrow> timestamp option \<Rightarrow> (post_db, string) op" where
  "upload_playground env th tid a now =
     seq (reading (pe_playground_file env)) (\<lambda>file_id.
     seq (mark_posted a file_id now) (\<lambda>_.
     seq (post_event tid Message_Posted (upload_payload th file_id a ''dummy'' ''dummy'')) (\<lambda>_.
     returning file_id)))"

definition upload_file ::
  "post_env \<Rightarrow> slack_thread \<Rightarrow> string \<Rightarrow> artifact_ref \<Rightarrow> string option \<Rightarrow> string option \<Rightarrow>
   timestamp option \<Rightarrow> (post_db, string) op" where
  "upload_file env th path ref note title now =
     (if pe_file_size env path = None then raising (Raised ''FileNotFoundError'' (path_str path))
      else
        (case th_task th of
           None \<Rightarrow> raising (ValueError ''SlackThread.task_id is required for file uploads'')
         | Some tid \<Rightarrow>
             seq (on_task_db (resolve_task tid)) (\<lambda>t.
             seq (resolve_or_create_artifact env tid path ref) (\<lambda>a.
             if th_channel th = ''playground'' then upload_playground env th tid a now
             else if ar_posted_at a \<noteq> None then
               (case ar_slack_file_id a of
                  Some (c # cs) \<Rightarrow> returning (c # cs)
                | _ \<Rightarrow> raising (slack_posting_error ''Artifact is posted but missing slack_file_id''))
             else upload_artifact env th t path a (map_option (pe_normalize env) note) title now))))"

end
