(* ===== verification/Error_Policy.thy ===== *)
theory Error_Policy
  imports Kortny_Prelude
begin

text \<open>
  \<open>kortny/agent/error_policy.py\<close>: the taxonomy of tool failures, read off the words of an error
  code, and the recovery action each category gets.
\<close>

datatype error_category =
    Schema_Argument_Validation
  | Reference_Resolution
  | Auth_Connection
  | Rate_Limited
  | Transient_Transport
  | Empty_Result
  | Permission_Policy
  | Destructive_Action_Risk
  | Budget_Exhausted
  | Unknown_Error

fun category_value :: "error_category \<Rightarrow> string" where
  "category_value Schema_Argument_Validation = ''schema_argument_validation''"
| "category_value Reference_Resolution = ''reference_resolution''"
| "category_value Auth_Connection = ''auth_connection''"
| "category_value Rate_Limited = ''rate_limited''"
| "category_value Transient_Transport = ''transient_transport''"
| "category_value Empty_Result = ''empty_result_or_bad_tool_choice''"
| "category_value Permission_Policy = ''permission_policy''"
| "category_value Destructive_Action_Risk = ''destructive_action_risk''"
| "category_value Budget_Exhausted = ''budget_exhausted''"
| "category_value Unknown_Error = ''unknown''"

datatype recovery_action =
    Patch_Arguments
  | Resolve_Reference
  | Wait_Auth
  | Retry_With_Backoff
  | Switch_Tool
  | Ask_User
  | Stop_Safely
  | Continue

fun recovery_value :: "recovery_action \<Rightarrow> string" where
  "recovery_value Patch_Arguments = ''patch_arguments''"
| "recovery_value Resolve_Reference = ''resolve_reference''"
| "recovery_value Wait_Auth = ''wait_auth''"
| "recovery_value Retry_With_Backoff = ''retry_with_backoff''"
| "recovery_value Switch_Tool = ''switch_tool_or_broaden_query''"
| "recovery_value Ask_User = ''ask_user''"
| "recovery_value Stop_Safely = ''stop_safely''"
| "recovery_value Continue = ''continue''"

record classified_error =
  ce_code :: string
  ce_message :: string
  ce_category :: error_category
  ce_action :: recovery_action
  ce_recoverable :: bool
  ce_retryable :: bool
  ce_user_action :: bool
  ce_hint :: "string option"
  ce_retry_after :: "string option"
  ce_details :: jobj

definition classified_payload :: "classified_error \<Rightarrow> jobj" where
  "classified_payload c =
     filter (\<lambda>kv. snd kv \<noteq> JNull)
       [(''code'', JStr (ce_code c)), (''message'', JStr (ce_message c)),
        (''category'', JStr (category_value (ce_category c))),
        (''recovery_action'', JStr (recovery_value (ce_action c))),
        (''recoverable'', JBool (ce_recoverable c)), (''retryable'', JBool (ce_retryable c)),
        (''user_action_required'', JBool (ce_user_action c)), (''hint'', jopt_str (ce_hint c)),
        (''retry_after'', jopt_str (ce_retry_after c)), (''details'', JObj (ce_details c))]"

definition recoverable_payload :: "recoverable_error \<Rightarrow> jobj" where
  "recoverable_payload e =
     [(''code'', JStr (re_code e)), (''message'', JStr (re_message e)),
      (''recoverable'', JBool True)] @
     (case re_hint e of None \<Rightarrow> []
      | Some h \<Rightarrow> if h = [] then [] else [(''hint'', JStr h)]) @
     (if re_details e = [] then [] else [(''details'', JObj (re_details e))])"

section \<open>The categories\<close>

definition reference_words :: "string list" where
  "reference_words =
     [''file_not_found'', ''channel_not_found'', ''invalid_file_id'', ''invalid_channel'',
      ''not_found'', ''unknown_channel'', ''unknown_file'', ''reference'', ''missing_identifier'']"

definition auth_words :: "string list" where
  "auth_words =
     [''missing_connection'', ''invalid_auth'', ''not_authed'', ''auth'', ''unauthorized'',
      ''expired'', ''account_not_connected'']"

definition transport_words :: "string list" where
  "transport_words =
     [''request_failed'', ''upstream_unavailable'', ''timeout'', ''timed_out'', ''read_timeout'',
      ''connect_timeout'', ''connectionerror'', ''connection_error'', ''connection_reset'',
      ''temporarily_unavailable'', ''service_unavailable'', ''bad_gateway'', ''gateway_timeout'',
      ''http_5'']"

definition permission_words :: "string list" where
  "permission_words =
     [''secret_not_stored'', ''permission'', ''forbidden'', ''access_denied'', ''policy'',
      ''scope_missing'']"

definition normalized_code :: "string \<Rightarrow> string" where
  "normalized_code code =
     replace_char (CHR '' '') (CHR ''_'') (replace_char (CHR ''-'') (CHR ''_'') (casefold code))"

definition category_and_action :: "string \<Rightarrow> error_category \<times> recovery_action" where
  "category_and_action code =
     (let n = normalized_code code in
      if contains_any [''missing_required'', ''invalid_argument''] n
      then (Schema_Argument_Validation, Patch_Arguments)
      else if n \<in> {''min_pages_not_met'', ''output_constraint_not_met''}
      then (Schema_Argument_Validation, Patch_Arguments)
      else if contains_any reference_words n then (Reference_Resolution, Resolve_Reference)
      else if contains_any auth_words n then (Auth_Connection, Wait_Auth)
      else if contains ''rate_limited'' n \<or> contains ''too_many_requests'' n
      then (Rate_Limited, Retry_With_Backoff)
      else if contains_any transport_words n then (Transient_Transport, Retry_With_Backoff)
      else if contains_any [''empty'', ''no_results'', ''low_content'', ''bad_tool_choice''] n
      then (Empty_Result, Switch_Tool)
      else if contains_any permission_words n then (Permission_Policy, Stop_Safely)
      else if contains ''destructive'' n \<or> contains ''approval_required'' n
      then (Destructive_Action_Risk, Ask_User)
      else if contains ''budget'' n \<or> contains ''max_'' n then (Budget_Exhausted, Stop_Safely)
      else (Unknown_Error, Ask_User))"

section \<open>Classification\<close>

definition stripped_string :: "json \<Rightarrow> string option" where
  "stripped_string j =
     (case json_str j of None \<Rightarrow> None
      | Some s \<Rightarrow> if strip s = [] then None else Some (strip s))"

definition json_object_or_empty :: "json \<Rightarrow> jobj" where
  "json_object_or_empty j = (case json_obj j of None \<Rightarrow> [] | Some p \<Rightarrow> p)"

definition needs_user :: "recovery_action \<Rightarrow> bool" where
  "needs_user a \<longleftrightarrow> a \<in> {Ask_User, Wait_Auth, Stop_Safely}"

definition classify_tool_error_payload :: "jobj \<Rightarrow> classified_error" where
  "classify_tool_error_payload payload =
     (let code = (case stripped_string (jget payload ''code'') of
                    None \<Rightarrow> ''unknown_error'' | Some c \<Rightarrow> c);
          message = (case stripped_string (jget payload ''message'') of
                       None \<Rightarrow> code | Some m \<Rightarrow> m);
          (category, action) = category_and_action code
      in \<lparr>ce_code = code, ce_message = message, ce_category = category, ce_action = action,
          ce_recoverable = (jget payload ''recoverable'' = JBool True),
          ce_retryable = (action = Retry_With_Backoff), ce_user_action = needs_user action,
          ce_hint = stripped_string (jget payload ''hint''),
          ce_retry_after = stripped_string (jget payload ''retry_after''),
          ce_details = json_object_or_empty (jget payload ''details'')\<rparr>)"

definition classify_recoverable_tool_error :: "recoverable_error \<Rightarrow> classified_error" where
  "classify_recoverable_tool_error e = classify_tool_error_payload (recoverable_payload e)"

text \<open>An exception is its type's name and its text.\<close>

definition classify_exception :: "string \<Rightarrow> string \<Rightarrow> classified_error" where
  "classify_exception name what =
     (let message = (if what = [] then name else what);
          (category, found) = category_and_action (name @ ''_'' @ message);
          action = (if category = Unknown_Error then Stop_Safely else found)
      in \<lparr>ce_code = name, ce_message = message, ce_category = category, ce_action = action,
          ce_recoverable =
            (action \<in> {Retry_With_Backoff, Switch_Tool, Patch_Arguments, Resolve_Reference}),
          ce_retryable = (action = Retry_With_Backoff), ce_user_action = needs_user action,
          ce_hint = None, ce_retry_after = None, ce_details = []\<rparr>)"

definition enrich_error_payload :: "jobj \<Rightarrow> classified_error option \<Rightarrow> jobj" where
  "enrich_error_payload payload classification =
     (let c = (case classification of Some c \<Rightarrow> c | None \<Rightarrow> classify_tool_error_payload payload)
      in jmerge payload
           [(''category'', JStr (category_value (ce_category c))),
            (''recovery_action'', JStr (recovery_value (ce_action c))),
            (''retryable'', JBool (ce_retryable c)),
            (''user_action_required'', JBool (ce_user_action c))])"

section \<open>Facts\<close>

text \<open>One action per category, except that an unknown exception stops where an unknown code asks.\<close>

fun action_of :: "error_category \<Rightarrow> recovery_action" where
  "action_of Schema_Argument_Validation = Patch_Arguments"
| "action_of Reference_Resolution = Resolve_Reference"
| "action_of Auth_Connection = Wait_Auth"
| "action_of Rate_Limited = Retry_With_Backoff"
| "action_of Transient_Transport = Retry_With_Backoff"
| "action_of Empty_Result = Switch_Tool"
| "action_of Permission_Policy = Stop_Safely"
| "action_of Destructive_Action_Risk = Ask_User"
| "action_of Budget_Exhausted = Stop_Safely"
| "action_of Unknown_Error = Ask_User"

lemma snd_category_and_action: "snd (category_and_action code) = action_of (fst (category_and_action code))"
  by (simp add: category_and_action_def Let_def)

lemma recoverable_payload_get [simp]:
  "jget (recoverable_payload e) ''code'' = JStr (re_code e)"
  "jget (recoverable_payload e) ''message'' = JStr (re_message e)"
  "jget (recoverable_payload e) ''recoverable'' = JBool True"
  by (simp_all add: recoverable_payload_def)

lemma classify_recoverable_facts:
  "ce_recoverable (classify_recoverable_tool_error e)"
  "ce_action (classify_recoverable_tool_error e) =
     action_of (ce_category (classify_recoverable_tool_error e))"
  "ce_retryable (classify_recoverable_tool_error e) \<longleftrightarrow>
     ce_category (classify_recoverable_tool_error e) \<in> {Rate_Limited, Transient_Transport}"
  using snd_category_and_action
  by (simp_all add: classify_recoverable_tool_error_def classify_tool_error_payload_def Let_def
        split_beta)
     (case_tac "fst (category_and_action
        (case stripped_string (JStr (re_code e)) of None \<Rightarrow> ''unknown_error'' | Some c \<Rightarrow> c))"; simp)

end
