(* ===== verification/Tool_Attempts.thy ===== *)
theory Tool_Attempts
  imports Error_Policy Task_Identity
begin

text \<open>
  \<open>kortny/agent/execution.py\<close>: the execution plan of a task run, its guardrail limits and the
  budget counters, and the keys under which tool calls are counted and recognised. A plan is a
  value; its methods return the new plan. \<open>sha\<close> is SHA-256 in hexadecimal digits.
\<close>

datatype execution_mode = Inline | Planned

fun mode_value :: "execution_mode \<Rightarrow> string" where
  "mode_value Inline = ''inline''"
| "mode_value Planned = ''planned''"

datatype plan_status = Plan_Pending | Plan_In_Progress | Plan_Completed | Plan_Failed | Plan_Blocked

fun plan_status_value :: "plan_status \<Rightarrow> string" where
  "plan_status_value Plan_Pending = ''pending''"
| "plan_status_value Plan_In_Progress = ''in_progress''"
| "plan_status_value Plan_Completed = ''completed''"
| "plan_status_value Plan_Failed = ''failed''"
| "plan_status_value Plan_Blocked = ''blocked''"

datatype step_status = Step_Pending | Step_In_Progress | Step_Completed | Step_Failed | Step_Skipped

fun step_status_value :: "step_status \<Rightarrow> string" where
  "step_status_value Step_Pending = ''pending''"
| "step_status_value Step_In_Progress = ''in_progress''"
| "step_status_value Step_Completed = ''completed''"
| "step_status_value Step_Failed = ''failed''"
| "step_status_value Step_Skipped = ''skipped''"

section \<open>Limits\<close>

definition default_soft_tool_call_caps :: "(string \<times> int) list" where
  "default_soft_tool_call_caps = [(''web_search'', 4)]"

definition external_prefixes :: "string list" where
  "external_prefixes = [''composio_'', ''mcp__'']"

record guardrail_limits =
  gl_turns :: int
  gl_tool_calls :: int
  gl_failures :: int
  gl_same_call :: int
  gl_same_error :: int
  gl_soft_caps :: "(string \<times> int) list"
  gl_external_cap :: int

definition default_limits :: guardrail_limits where
  "default_limits =
     \<lparr>gl_turns = 6, gl_tool_calls = 12, gl_failures = 4, gl_same_call = 2, gl_same_error = 2,
      gl_soft_caps = default_soft_tool_call_caps, gl_external_cap = 6\<rparr>"

definition check_guardrails :: "guardrail_limits \<Rightarrow> guardrail_limits res" where
  "check_guardrails l =
     (if gl_turns l < 1 then Inl (ValueError ''max_turns must be at least 1'')
      else if gl_tool_calls l < 1 then Inl (ValueError ''max_tool_calls must be at least 1'')
      else if gl_failures l < 0
      then Inl (ValueError ''max_recoverable_failures cannot be negative'')
      else if gl_same_call l < 1 then Inl (ValueError ''max_same_tool_call must be at least 1'')
      else if gl_same_error l < 1
      then Inl (ValueError ''max_same_recoverable_error must be at least 1'')
      else Inr l)"

definition soft_cap_for :: "guardrail_limits \<Rightarrow> string \<Rightarrow> int option" where
  "soft_cap_for l name =
     (case map_of (gl_soft_caps l) name of
        Some cap \<Rightarrow> Some cap
      | None \<Rightarrow> if list_ex (\<lambda>p. starts_with p name) external_prefixes
                then Some (gl_external_cap l) else None)"

definition limits_for_depth :: "string \<Rightarrow> guardrail_limits res" where
  "limits_for_depth depth = check_guardrails
     (if depth = ''quick_response'' then default_limits\<lparr>gl_turns := 2, gl_tool_calls := 3\<rparr>
      else if depth = ''deep_workflow''
      then default_limits\<lparr>gl_turns := 16, gl_tool_calls := 40, gl_failures := 8\<rparr>
      else default_limits\<lparr>gl_turns := 10, gl_tool_calls := 20\<rparr>)"

section \<open>Keys\<close>

definition normalized_tool_args_hash :: "(string \<Rightarrow> string) \<Rightarrow> jobj \<Rightarrow> string" where
  "normalized_tool_args_hash sha args = sha (json_dumps (JObj args))"

definition tool_signature_key :: "string \<Rightarrow> string \<Rightarrow> string" where
  "tool_signature_key name hash = name @ '':'' @ hash"

definition recoverable_error_key :: "string \<Rightarrow> string \<Rightarrow> string \<Rightarrow> string \<Rightarrow> string" where
  "recoverable_error_key name hash code category =
     name @ '':'' @ category @ '':'' @ code @ '':'' @ hash"

definition build_idempotency_key :: "uuid \<Rightarrow> string \<Rightarrow> string \<Rightarrow> string \<Rightarrow> string" where
  "build_idempotency_key tid step name hash =
     uuid_str tid @ '':'' @ step @ '':'' @ name @ '':'' @ hash"

section \<open>The budget\<close>

record attempt =
  at_tool :: string
  at_hash :: string
  at_no :: int
  at_status :: string
  at_name_no :: int
  at_recoverable :: bool
  at_error_code :: "string option"
  at_error_category :: "string option"
  at_recovery :: "string option"
  at_key :: "string option"

definition attempt_payload :: "attempt \<Rightarrow> jobj" where
  "attempt_payload a =
     [(''tool_name'', JStr (at_tool a)), (''normalized_args_hash'', JStr (at_hash a)),
      (''attempt_no'', JInt (at_no a)), (''status'', JStr (at_status a)),
      (''tool_name_attempt_no'', JInt (at_name_no a)), (''recoverable'', JBool (at_recoverable a)),
      (''error_code'', jopt_str (at_error_code a)),
      (''error_category'', jopt_str (at_error_category a)),
      (''recovery_action'', jopt_str (at_recovery a)), (''idempotency_key'', jopt_str (at_key a))]"

record budget =
  bu_calls :: int
  bu_failures :: int
  bu_signatures :: "(string \<times> int) list"
  bu_names :: "(string \<times> int) list"
  bu_errors :: "(string \<times> int) list"

definition fresh_budget :: budget where
  "fresh_budget = \<lparr>bu_calls = 0, bu_failures = 0, bu_signatures = [], bu_names = [], bu_errors = []\<rparr>"

definition count_of :: "string \<Rightarrow> (string \<times> int) list \<Rightarrow> int" where
  "count_of k counts = (case map_of counts k of None \<Rightarrow> 0 | Some n \<Rightarrow> n)"

definition count_attempt ::
  "(string \<Rightarrow> string) \<Rightarrow> uuid \<Rightarrow> string \<Rightarrow> string \<Rightarrow> jobj \<Rightarrow> budget \<Rightarrow> attempt \<times> budget" where
  "count_attempt sha tid step name args b =
     (let hash = normalized_tool_args_hash sha args;
          signature = tool_signature_key name hash;
          no = count_of signature (bu_signatures b) + 1;
          name_no = count_of name (bu_names b) + 1
      in (\<lparr>at_tool = name, at_hash = hash, at_no = no, at_status = ''started'',
           at_name_no = name_no, at_recoverable = False, at_error_code = None,
           at_error_category = None, at_recovery = None,
           at_key = Some (build_idempotency_key tid step name hash)\<rparr>,
          b\<lparr>bu_signatures := AList.update signature no (bu_signatures b),
            bu_names := AList.update name name_no (bu_names b), bu_calls := bu_calls b + 1\<rparr>))"

definition count_failure :: "string \<Rightarrow> string \<Rightarrow> string \<Rightarrow> string \<Rightarrow> budget \<Rightarrow> int \<times> budget" where
  "count_failure name hash code category b =
     (let key = recoverable_error_key name hash code category;
          n = count_of key (bu_errors b) + 1
      in (n, b\<lparr>bu_errors := AList.update key n (bu_errors b), bu_failures := bu_failures b + 1\<rparr>))"

definition budget_remaining :: "guardrail_limits \<Rightarrow> budget \<Rightarrow> jobj" where
  "budget_remaining l b =
     [(''max_turns'', JInt (gl_turns l)), (''max_tool_calls'', JInt (gl_tool_calls l)),
      (''max_recoverable_failures'', JInt (gl_failures l)),
      (''max_same_tool_call'', JInt (gl_same_call l)),
      (''max_same_recoverable_error'', JInt (gl_same_error l)),
      (''tool_calls_remaining'', JInt (max 0 (gl_tool_calls l - bu_calls b))),
      (''recoverable_failures_remaining'', JInt (max 0 (gl_failures l - bu_failures b)))]"

section \<open>The plan\<close>

record step =
  st_id :: string
  st_description :: string
  st_status :: step_status
  st_tools :: "string list"
  st_depends :: "string list"
  st_calls :: int
  st_failures :: int
  st_observations :: "string list"
  st_errors :: "jobj list"

definition step_payload :: "step \<Rightarrow> jobj" where
  "step_payload s =
     [(''step_id'', JStr (st_id s)), (''description'', JStr (st_description s)),
      (''status'', JStr (step_status_value (st_status s))),
      (''selected_tool_names'', JArr (map JStr (st_tools s))),
      (''depends_on'', JArr (map JStr (st_depends s))), (''tool_call_count'', JInt (st_calls s)),
      (''recoverable_failure_count'', JInt (st_failures s)),
      (''observations'', JArr (map JStr (st_observations s))),
      (''errors'', JArr (map JObj (st_errors s)))]"

record recovery_plan =
  rp_id :: string
  rp_tool :: string
  rp_code :: string
  rp_category :: string
  rp_action :: string
  rp_goal :: string
  rp_next :: string
  rp_tools :: "string list"
  rp_argument_notes :: "string list"
  rp_fallback_notes :: "string list"
  rp_risk_notes :: "string list"
  rp_guidance :: "string option"
  rp_source :: string

definition strs :: "string list \<Rightarrow> json" where
  "strs ws = JArr (map JStr ws)"

definition recovery_payload :: "recovery_plan \<Rightarrow> jobj" where
  "recovery_payload r =
     [(''recovery_id'', JStr (rp_id r)), (''failed_tool_name'', JStr (rp_tool r)),
      (''error_code'', JStr (rp_code r)), (''error_category'', JStr (rp_category r)),
      (''recovery_action'', JStr (rp_action r)), (''recovery_goal'', JStr (rp_goal r)),
      (''next_action'', JStr (rp_next r)), (''suggested_tool_names'', strs (rp_tools r)),
      (''argument_notes'', strs (rp_argument_notes r)),
      (''fallback_notes'', strs (rp_fallback_notes r)), (''risk_notes'', strs (rp_risk_notes r)),
      (''user_message_guidance'', jopt_str (rp_guidance r)),
      (''planner_source'', JStr (rp_source r))]"

record plan =
  pl_id :: string
  pl_task :: string
  pl_summary :: string
  pl_steps :: "step list"
  pl_limits :: guardrail_limits
  pl_version :: int
  pl_mode :: execution_mode
  pl_source :: string
  pl_reason :: "string option"
  pl_missing :: "string list"
  pl_fallback :: "string list"
  pl_risk :: "string list"
  pl_recoveries :: "recovery_plan list"
  pl_status :: plan_status
  pl_current :: "string option"
  pl_budget :: budget

text \<open>The index of the active step: the first with the current id, else the first.\<close>

fun index_of_step :: "string \<Rightarrow> step list \<Rightarrow> nat option" where
  "index_of_step sid [] = None"
| "index_of_step sid (s # ss) =
     (if st_id s = sid then Some 0 else map_option Suc (index_of_step sid ss))"

definition current_index :: "plan \<Rightarrow> nat res" where
  "current_index p =
     (case Option.bind (pl_current p) (\<lambda>sid. index_of_step sid (pl_steps p)) of
        Some i \<Rightarrow> Inr i
      | None \<Rightarrow> if pl_steps p = [] then Inl (ValueError ''execution plan has no steps'') else Inr 0)"

definition current_step :: "plan \<Rightarrow> step res" where
  "current_step p = (case current_index p of Inl e \<Rightarrow> Inl e | Inr i \<Rightarrow> Inr (pl_steps p ! i))"

definition on_current :: "(step \<Rightarrow> step) \<Rightarrow> plan \<Rightarrow> plan res" where
  "on_current f p =
     (case current_index p of
        Inl e \<Rightarrow> Inl e
      | Inr i \<Rightarrow> Inr (p\<lparr>pl_steps := (pl_steps p)[i := f (pl_steps p ! i)]\<rparr>))"

text \<open>\<open>start\<close> writes the plan's status before it looks for the step.\<close>

definition start_plan :: "(plan, step) op" where
  "start_plan =
     seq (writing (\<lambda>p. p\<lparr>pl_status := Plan_In_Progress\<rparr>)) (\<lambda>_.
     seq (\<lambda>p. case on_current (\<lambda>s. s\<lparr>st_status := Step_In_Progress\<rparr>) p of
            Inl e \<Rightarrow> (Inl e, p) | Inr p' \<Rightarrow> (current_step p', p')) (\<lambda>s.
     seq (writing (\<lambda>p. p\<lparr>pl_current := Some (st_id s)\<rparr>)) (\<lambda>_.
     returning s)))"

definition complete_plan :: "(plan, step) op" where
  "complete_plan =
     seq (\<lambda>p. case on_current (\<lambda>s. s\<lparr>st_status := Step_Completed\<rparr>) p of
            Inl e \<Rightarrow> (Inl e, p) | Inr p' \<Rightarrow> (current_step p', p')) (\<lambda>s.
     seq (writing (\<lambda>p. p\<lparr>pl_status := Plan_Completed\<rparr>)) (\<lambda>_.
     returning s))"

definition fail_plan :: "jobj option \<Rightarrow> (plan, step) op" where
  "fail_plan error =
     seq (\<lambda>p. case on_current (\<lambda>s. s\<lparr>st_status := Step_Failed,
                st_errors := st_errors s @ (case error of None \<Rightarrow> [] | Some e \<Rightarrow> [e])\<rparr>) p of
            Inl e \<Rightarrow> (Inl e, p) | Inr p' \<Rightarrow> (current_step p', p')) (\<lambda>s.
     seq (writing (\<lambda>p. p\<lparr>pl_status := Plan_Failed\<rparr>)) (\<lambda>_.
     returning s))"

definition record_recovery_plan :: "recovery_plan \<Rightarrow> plan \<Rightarrow> plan" where
  "record_recovery_plan r p =
     p\<lparr>pl_version := pl_version p + 1, pl_recoveries := pl_recoveries p @ [r]\<rparr>"

definition limits_json :: "guardrail_limits \<Rightarrow> jobj" where
  "limits_json l =
     [(''max_turns'', JInt (gl_turns l)), (''max_tool_calls'', JInt (gl_tool_calls l)),
      (''max_recoverable_failures'', JInt (gl_failures l)),
      (''max_same_tool_call'', JInt (gl_same_call l)),
      (''max_same_recoverable_error'', JInt (gl_same_error l)),
      (''soft_tool_call_caps'', JObj (map (\<lambda>(k, n). (k, JInt n)) (gl_soft_caps l))),
      (''external_tool_soft_cap'', JInt (gl_external_cap l))]"

definition plan_payload :: "plan \<Rightarrow> jobj" where
  "plan_payload p =
     [(''plan_id'', JStr (pl_id p)), (''plan_version'', JInt (pl_version p)),
      (''task_id'', JStr (pl_task p)), (''mode'', JStr (mode_value (pl_mode p))),
      (''status'', JStr (plan_status_value (pl_status p))),
      (''planner_source'', JStr (pl_source p)), (''planner_reason'', jopt_str (pl_reason p)),
      (''user_query_summary'', JStr (pl_summary p)), (''current_step_id'', jopt_str (pl_current p)),
      (''missing_inputs'', strs (pl_missing p)), (''fallback_notes'', strs (pl_fallback p)),
      (''risk_notes'', strs (pl_risk p)),
      (''recovery_plan_count'', JInt (int (length (pl_recoveries p)))),
      (''latest_recovery_plan'',
        if pl_recoveries p = [] then JNull else JObj (recovery_payload (last (pl_recoveries p)))),
      (''limits'', JObj (limits_json (pl_limits p))),
      (''budget'', JObj [(''tool_call_count'', JInt (bu_calls (pl_budget p))),
                       (''recoverable_failure_count'', JInt (bu_failures (pl_budget p)))]),
      (''steps'', JArr (map (\<lambda>s. JObj (step_payload s)) (pl_steps p)))]"

definition summarize_user_input :: "string \<Rightarrow> string" where
  "summarize_user_input text =
     (let n = join '' '' (split_ws text)
      in if length n \<le> 240 then n else take 237 n @ ''...'')"

definition make_default_execution_plan ::
  "string \<Rightarrow> uuid \<Rightarrow> string \<Rightarrow> string list \<Rightarrow> guardrail_limits \<Rightarrow> plan" where
  "make_default_execution_plan fresh tid text tools limits =
     \<lparr>pl_id = fresh, pl_task = uuid_str tid, pl_summary = summarize_user_input text,
      pl_steps =
        [\<lparr>st_id = ''step-1'',
          st_description = ''Handle the Slack request using available context and tools.'',
          st_status = Step_Pending, st_tools = tools, st_depends = [], st_calls = 0,
          st_failures = 0, st_observations = [], st_errors = []\<rparr>],
      pl_limits = limits, pl_version = 1, pl_mode = Inline, pl_source = ''inline_default'',
      pl_reason = None, pl_missing = [], pl_fallback = [], pl_risk = [], pl_recoveries = [],
      pl_status = Plan_Pending, pl_current = None, pl_budget = fresh_budget\<rparr>"

end
