(* ===== verification/Result_Budget.thy ===== *)
theory Result_Budget
  imports Task_Identity
begin

text \<open>
  How a tool result is cut down before the model sees it: \<open>_tool_result_prompt_payload\<close> of
  \<open>kortny/agent/coordinator.py\<close> and its helpers. Search results anywhere in the output are
  collected and kept as a short list; other large outputs become a preview.
\<close>

record tool_artifact =
  ta_filename :: string
  ta_path :: "string option"
  ta_mime :: "string option"
  ta_size :: "int option"

record tool_result =
  tr_output :: jobj
  tr_cost :: decimal
  tr_artifacts :: "tool_artifact list"

definition jopt_int :: "int option \<Rightarrow> json" where
  "jopt_int x = (case x of None \<Rightarrow> JNull | Some i \<Rightarrow> JInt i)"

definition artifact_payload :: "tool_artifact \<Rightarrow> jobj" where
  "artifact_payload a =
     [(''filename'', JStr (ta_filename a)), (''path'', jopt_str (ta_path a)),
      (''mime_type'', jopt_str (ta_mime a)), (''size_bytes'', jopt_int (ta_size a))]"

definition tool_result_payload :: "string \<Rightarrow> tool_result \<Rightarrow> jobj" where
  "tool_result_payload name r =
     [(''tool'', JStr name), (''output'', JObj (tr_output r)), (''cost_usd'', JStr (dec_str (tr_cost r))),
      (''artifacts'', JArr (map (\<lambda>a. JObj (artifact_payload a)) (tr_artifacts r)))]"

text \<open>\<open>json.dumps\<close> with compact separators, members in their order.\<close>

fun json_compact :: "json \<Rightarrow> string" where
  "json_compact JNull = ''null''"
| "json_compact (JBool b) = (if b then ''true'' else ''false'')"
| "json_compact (JInt i) = int_str i"
| "json_compact (JFloat r) = r"
| "json_compact (JStr s) = json_string_text s"
| "json_compact (JArr xs) = ''['' @ join '','' (map json_compact xs) @ '']''"
| "json_compact (JObj kvs) =
     ''{'' @ join '','' (map (\<lambda>kv. json_string_text (fst kv) @ '':'' @ json_compact (snd kv)) kvs) @ ''}''"

definition output_shape :: "jobj \<Rightarrow> jobj" where
  "output_shape out =
     [(''type'', JStr ''object''), (''keys'', JArr (map JStr (sorted_words (map fst out))))]"

definition shorten_text :: "nat \<Rightarrow> string \<Rightarrow> string" where
  "shorten_text n text =
     (if length text \<le> n then text
      else if n \<le> 3 then take n text
      else rstrip (take (n - 3) text) @ ''...'')"

definition optional_string :: "json \<Rightarrow> string option" where
  "optional_string j =
     (case json_str j of None \<Rightarrow> None
      | Some s \<Rightarrow> if strip s = [] then None else Some (strip s))"

definition max_compact_search_results :: nat where
  "max_compact_search_results = 8"

definition max_compact_result_snippet_chars :: nat where
  "max_compact_result_snippet_chars = 260"

record search_hit =
  sh_title :: string
  sh_url :: string
  sh_snippet :: string

definition first_some :: "string option list \<Rightarrow> string" where
  "first_some xs = (case filter (\<lambda>x. x \<noteq> None) xs of Some s # _ \<Rightarrow> s | _ \<Rightarrow> [])"

definition hit_of :: "jobj \<Rightarrow> search_hit list" where
  "hit_of p =
     (case (optional_string (jget p ''title''), optional_string (jget p ''url'')) of
        (Some title, Some url) \<Rightarrow>
          [\<lparr>sh_title = title, sh_url = url, sh_snippet = shorten_text max_compact_result_snippet_chars
             (first_some [optional_string (jget p ''snippet''),
                optional_string (jget p ''description''), optional_string (jget p ''content'')])\<rparr>]
      | _ \<Rightarrow> [])"

text \<open>All hits in the order of the walk, then the first of each title and url.\<close>

fun hits_in :: "json \<Rightarrow> search_hit list" where
  "hits_in (JObj kvs) = hit_of kvs @ concat (map (\<lambda>kv. hits_in (snd kv)) kvs)"
| "hits_in (JArr xs) = concat (map hits_in xs)"
| "hits_in _ = []"

fun first_hits :: "(string \<times> string) list \<Rightarrow> search_hit list \<Rightarrow> search_hit list" where
  "first_hits seen [] = []"
| "first_hits seen (h # hs) =
     (let key = (sh_title h, sh_url h) in
      if key \<in> set seen then first_hits seen hs else h # first_hits (key # seen) hs)"

definition extract_search_results :: "jobj \<Rightarrow> search_hit list" where
  "extract_search_results out = first_hits [] (hits_in (JObj out))"

definition hit_payload :: "search_hit \<Rightarrow> jobj" where
  "hit_payload h =
     [(''title'', JStr (sh_title h)), (''url'', JStr (sh_url h)), (''snippet'', JStr (sh_snippet h))]"

section \<open>Compaction\<close>

text \<open>Python's truth of a JSON value.\<close>

fun json_truth :: "json \<Rightarrow> bool" where
  "json_truth JNull = False"
| "json_truth (JBool b) = b"
| "json_truth (JInt i) = (i \<noteq> 0)"
| "json_truth (JFloat r) = (r \<noteq> ''0.0'' \<and> r \<noteq> ''-0.0'')"
| "json_truth (JStr s) = (s \<noteq> [])"
| "json_truth (JArr xs) = (xs \<noteq> [])"
| "json_truth (JObj p) = (p \<noteq> [])"

definition metadata_keys :: "string list" where
  "metadata_keys =
     [''provider'', ''query'', ''toolkit_slug'', ''tool_slug'', ''successful'', ''error'', ''log_id'',
      ''scope'', ''tool_repair'']"

definition compact_output_metadata :: "jobj \<Rightarrow> jobj" where
  "compact_output_metadata out =
     (let base = concat (map (\<lambda>k. case map_of out k of None \<Rightarrow> [] | Some v \<Rightarrow> [(k, v)]) metadata_keys) in
      case json_obj (jget out ''data'') of
        None \<Rightarrow> base
      | Some data \<Rightarrow>
          (let credits = (if json_truth (jget data ''creditsUsed'') then jget data ''creditsUsed''
                          else jget data ''credits_used'')
           in base @ (if credits = JNull then [] else [(''credits_used'', credits)]) @
              (if jget data ''id'' = JNull then [] else [(''data_id'', jget data ''id'')])))"

definition result_payload_with_output :: "jobj \<Rightarrow> jobj \<Rightarrow> jobj" where
  "result_payload_with_output payload out =
     [(''tool'', jget payload ''tool''), (''output'', JObj out), (''cost_usd'', jget payload ''cost_usd''),
      (''artifacts'', case map_of payload ''artifacts'' of None \<Rightarrow> JArr [] | Some v \<Rightarrow> v)]"

definition search_result_prompt_payload ::
  "jobj \<Rightarrow> jobj \<Rightarrow> search_hit list \<Rightarrow> search_hit list \<Rightarrow> jobj" where
  "search_result_prompt_payload payload compact_output found kept =
     result_payload_with_output payload (jmerge compact_output
       [(''compacted'', JBool True), (''compaction_kind'', JStr ''search_results''),
        (''result_count'', JInt (int (length found))),
        (''omitted_result_count'', JInt (int (length found - length kept))),
        (''results'', JArr (map (\<lambda>h. JObj (hit_payload h)) kept))])"

text \<open>The loop that drops the last kept result while the text is too long and two are left.\<close>

function drop_to_fit :: "nat \<Rightarrow> (search_hit list \<Rightarrow> jobj) \<Rightarrow> search_hit list \<Rightarrow> search_hit list" where
  "drop_to_fit limit payload kept =
     (if limit < length (json_compact (JObj (payload kept))) \<and> 1 < length kept
      then drop_to_fit limit payload (butlast kept) else kept)"
  by pat_completeness auto

termination drop_to_fit
  by (relation "measure (\<lambda>(_, _, kept). length kept)") auto

definition compaction_report ::
  "nat \<Rightarrow> nat \<Rightarrow> nat \<Rightarrow> string \<Rightarrow> (nat \<times> nat) option \<Rightarrow> jobj" where
  "compaction_report raw prompt limit reason counts =
     [(''raw_chars'', JInt (int raw)), (''prompt_chars'', JInt (int prompt)),
      (''max_chars'', JInt (int limit)), (''reason'', JStr reason),
      (''result_count'', jopt_int (map_option (int \<circ> fst) counts)),
      (''omitted_result_count'', jopt_int (map_option (int \<circ> snd) counts))]"

definition tool_result_prompt_payload :: "nat \<Rightarrow> jobj \<Rightarrow> jobj \<times> jobj option" where
  "tool_result_prompt_payload limit payload =
     (let raw = length (json_compact (JObj payload)) in
      case json_obj (jget payload ''output'') of
        None \<Rightarrow> (payload, None)
      | Some out \<Rightarrow>
          (let found = extract_search_results out; compact_output = compact_output_metadata out in
           if found \<noteq> [] then
             (let build = search_result_prompt_payload payload compact_output found;
                  kept = drop_to_fit limit build (take max_compact_search_results found);
                  prompt = build kept
              in (prompt, Some (compaction_report raw (length (json_compact (JObj prompt))) limit
                    ''search_result_compaction'' (Some (length found, length found - length kept)))))
           else if raw \<le> limit then (payload, None)
           else
             (let prompt = result_payload_with_output payload (jmerge compact_output
                    [(''compacted'', JBool True), (''compaction_kind'', JStr ''json_preview''),
                     (''output_shape'', JObj (output_shape out)),
                     (''preview'', JStr (shorten_text (max 400 (limit div 2)) (json_compact (JObj out))))])
              in (prompt, Some (compaction_report raw (length (json_compact (JObj prompt))) limit
                    ''json_preview_compaction'' None)))))"

section \<open>Facts\<close>

declare drop_to_fit.simps [simp del]

lemma drop_to_fit_prefix:
  "\<exists>n. drop_to_fit limit payload kept = take n kept \<and> (kept \<noteq> [] \<longrightarrow> 0 < n)"
proof (induction limit payload kept rule: drop_to_fit.induct)
  case (1 limit payload kept)
  show ?case
  proof (cases "limit < length (json_compact (JObj (payload kept))) \<and> 1 < length kept")
    case True
    then obtain n where n: "drop_to_fit limit payload (butlast kept) = take n (butlast kept)" "0 < n"
      using 1 by (auto simp: butlast_conv_take)
    then have "drop_to_fit limit payload kept = take (min n (length kept - 1)) kept"
      using True by (simp add: drop_to_fit.simps [of limit payload kept] butlast_conv_take min_def)
    moreover have "0 < min n (length kept - 1)" using n(2) True by simp
    ultimately show ?thesis by blast
  next
    case False
    then have "drop_to_fit limit payload kept = take (Suc (length kept)) kept"
      by (subst drop_to_fit.simps) auto
    then show ?thesis by blast
  qed
qed

text \<open>When the loop stopped, the text fits or one result is left.\<close>

lemma drop_to_fit_stops:
  "length (json_compact (JObj (payload (drop_to_fit limit payload kept)))) \<le> limit \<or>
   length (drop_to_fit limit payload kept) \<le> 1"
proof (induction limit payload kept rule: drop_to_fit.induct)
  case (1 limit payload kept)
  then show ?case
    by (cases "limit < length (json_compact (JObj (payload kept))) \<and> 1 < length kept")
       (auto simp: drop_to_fit.simps [of limit payload kept])
qed

lemma first_hits_distinct:
  "distinct (map (\<lambda>h. (sh_title h, sh_url h)) (first_hits seen hs)) \<and>
   set (map (\<lambda>h. (sh_title h, sh_url h)) (first_hits seen hs)) \<inter> set seen = {}"
  by (induction seen hs rule: first_hits.induct) (auto simp: Let_def)

end
