(* ===== verification/Tool_Ledger.thy ===== *)
theory Tool_Ledger
  imports Tool_Gate Tool_Attempts Result_Budget
begin

text \<open>
  The ledger of tool calls: \<open>kortny/agent/idempotency.py\<close>, and the steps of
  \<open>AgentCoordinator._invoke_tool_calls\<close> around one tool call. \<open>prepare_call\<close> is everything before
  the tool runs (cancellation, counting, approval, deduplication, the \<open>tool_call\<close> entry),
  \<open>settle_call\<close> what records its result; between them the tool runs, and a crash there leaves the
  entry without a result.
\<close>

section \<open>Prior attempts\<close>

datatype prior_attempt =
    No_Prior
  | Completed tool_result "string option"
  | Started_Only "string option"

definition ledger_decimal :: "json \<Rightarrow> decimal" where
  "ledger_decimal j =
     (case j of
        JInt i \<Rightarrow> dec_of_int i
      | JBool b \<Rightarrow> dec_of_int (of_bool b)
      | JStr s \<Rightarrow> (case dec_parse s of Some d \<Rightarrow> d | None \<Rightarrow> dec_zero)
      | _ \<Rightarrow> dec_zero)"

text \<open>A boolean is an \<open>int\<close> of Python, so it passes as a size.\<close>

fun json_size :: "json \<Rightarrow> int option" where
  "json_size (JInt i) = Some i"
| "json_size (JBool b) = Some (of_bool b)"
| "json_size _ = None"

definition reconstruct_artifact :: "json \<Rightarrow> tool_artifact list" where
  "reconstruct_artifact item =
     (case json_obj item of
        None \<Rightarrow> []
      | Some p \<Rightarrow>
          (case json_str (jget p ''filename'') of
             None \<Rightarrow> []
           | Some f \<Rightarrow> [\<lparr>ta_filename = f, ta_path = json_str (jget p ''path''),
                         ta_mime = json_str (jget p ''mime_type''),
                         ta_size = json_size (jget p ''size_bytes'')\<rparr>]))"

definition reconstruct_artifacts :: "json \<Rightarrow> tool_artifact list" where
  "reconstruct_artifacts j = (case j of JArr xs \<Rightarrow> concat (map reconstruct_artifact xs) | _ \<Rightarrow> [])"

definition reconstruct_tool_result :: "jobj \<Rightarrow> tool_result option" where
  "reconstruct_tool_result p =
     (case json_obj (jget p ''output'') of
        None \<Rightarrow> None
      | Some out \<Rightarrow> Some \<lparr>tr_output = out, tr_cost = ledger_decimal (jget p ''cost_usd''),
                         tr_artifacts = reconstruct_artifacts (jget p ''artifacts'')\<rparr>)"

definition ledger_events :: "uuid \<Rightarrow> string \<Rightarrow> db \<Rightarrow> event list" where
  "ledger_events tid key d =
     sort_key e_seq (filter (\<lambda>e. e_type e \<in> {Tool_Call, Tool_Result} \<and>
       json_text (jget (e_payload e) ''idempotency_key'') = Some key) (events_of tid d))"

fun scan_ledger :: "string option \<Rightarrow> event list \<Rightarrow> prior_attempt" where
  "scan_ledger started [] = Started_Only started"
| "scan_ledger started (e # es) =
     (if e_type e = Tool_Result then
        (case reconstruct_tool_result (e_payload e) of
           Some r \<Rightarrow> Completed r (json_str (jget (e_payload e) ''tool_call_id''))
         | None \<Rightarrow> scan_ledger started es)
      else scan_ledger (json_str (jget (e_payload e) ''tool_call_id'')) es)"

definition find_prior_attempt :: "uuid \<Rightarrow> string \<Rightarrow> db \<Rightarrow> prior_attempt" where
  "find_prior_attempt tid key d =
     (case ledger_events tid key d of [] \<Rightarrow> No_Prior | evs \<Rightarrow> scan_ledger None evs)"

section \<open>The state of a run\<close>

text \<open>The dash of the messages, as its UTF-8 bytes.\<close>

definition em_dash :: string where
  "em_dash = [CHR 0xE2, CHR 0x80, CHR 0x94]"

text \<open>A tool call of the model: the arguments it sent, and those used after repair.\<close>

record call_request =
  cr_id :: string
  cr_name :: string
  cr_requested :: jobj
  cr_arguments :: jobj

record chat_message =
  cm_role :: string
  cm_content :: "string option"
  cm_call_id :: "string option"
  cm_calls :: "call_request list"

text \<open>The tools registered for the task, by name in registration order, are part of the state, since
  a run may load more. The last two fields count the calls of the model service and the
  invocations of tools; nothing reads them.\<close>

record run_world =
  rw_gate :: gate_world
  rw_plan :: plan
  rw_messages :: "chat_message list"
  rw_tools :: "(string \<times> tool) list"
  rw_model_calls :: nat
  rw_tool_runs :: nat

definition on_gate :: "(gate_world, 'a) op \<Rightarrow> (run_world, 'a) op" where
  "on_gate m = (\<lambda>w. case m (rw_gate w) of (r, g) \<Rightarrow> (r, w\<lparr>rw_gate := g\<rparr>))"

definition on_plan :: "(plan, 'a) op \<Rightarrow> (run_world, 'a) op" where
  "on_plan m = (\<lambda>w. case m (rw_plan w) of (r, p) \<Rightarrow> (r, w\<lparr>rw_plan := p\<rparr>))"

definition log_event :: "task \<Rightarrow> event_type \<Rightarrow> jobj \<Rightarrow> (run_world, unit) op" where
  "log_event t ty p = seq (on_gate (on_db (append_event (t_id t) ty p))) (\<lambda>_. returning ())"

definition say :: "chat_message \<Rightarrow> (run_world, unit) op" where
  "say m = writing (\<lambda>w. w\<lparr>rw_messages := rw_messages w @ [m]\<rparr>)"

definition tool_message :: "string \<Rightarrow> jobj \<Rightarrow> chat_message" where
  "tool_message call_id payload =
     \<lparr>cm_role = ''tool'', cm_content = Some (json_compact (JObj payload)), cm_call_id = Some call_id, cm_calls = []\<rparr>"

definition append_execution_log :: "task \<Rightarrow> string \<Rightarrow> jobj \<Rightarrow> (run_world, unit) op" where
  "append_execution_log t message payload =
     seq (reading rw_plan) (\<lambda>p.
     log_event t Log (jmerge
       [(''message'', JStr message), (''plan_id'', JStr (pl_id p)),
        (''plan_version'', JInt (pl_version p)), (''mode'', JStr (mode_value (pl_mode p))),
        (''plan_status'', JStr (plan_status_value (pl_status p))),
        (''current_step_id'', jopt_str (pl_current p))] payload))"

definition append_error :: "task \<Rightarrow> string \<Rightarrow> string \<Rightarrow> jobj \<Rightarrow> (run_world, unit) op" where
  "append_error t name what payload =
     (let c = classify_exception name what in
      log_event t Error_Event (jmerge
        [(''type'', JStr name), (''message'', JStr what),
         (''error_classification'', JObj (classified_payload c)),
         (''error_category'', JStr (category_value (ce_category c))),
         (''recovery_action'', JStr (recovery_value (ce_action c)))] payload))"

definition fail_execution_plan :: "task \<Rightarrow> string \<Rightarrow> string \<Rightarrow> jobj \<Rightarrow> (run_world, unit) op" where
  "fail_execution_plan t name what payload =
     seq (on_plan (fail_plan (Some (jmerge [(''type'', JStr name), (''message'', JStr what)] payload))))
       (\<lambda>s.
     append_execution_log t ''execution_step_failed''
       (jmerge [(''step'', JObj (step_payload s)), (''error_type'', JStr name),
                (''error_summary'', JStr what)] payload))"

section \<open>Counting an attempt\<close>

definition remaining_json :: "run_world \<Rightarrow> json" where
  "remaining_json w = JObj (budget_remaining (pl_limits (rw_plan w)) (pl_budget (rw_plan w)))"

definition guardrail_name :: string where
  "guardrail_name = ''AgentExecutionGuardrailError''"

text \<open>The entries and the checks after the attempt was counted.\<close>

definition attempt_rest :: "task \<Rightarrow> call_request \<Rightarrow> int \<Rightarrow> step \<Rightarrow> attempt \<Rightarrow> (run_world, attempt) op" where
  "attempt_rest t c turn s a =
     seq (on_plan (\<lambda>p. case on_current (\<lambda>s. s\<lparr>st_calls := st_calls s + 1\<rparr>) p of
            Inl e \<Rightarrow> (Inl e, p) | Inr p' \<Rightarrow> (Inr (), p'))) (\<lambda>_.
     seq (reading remaining_json) (\<lambda>left.
     let common = [(''turn'', JInt turn), (''step_id'', JStr (st_id s)),
                   (''tool_call_id'', JStr (cr_id c)), (''tool'', JStr (cr_name c)),
                   (''attempt'', JObj (attempt_payload a)), (''budget_remaining'', left)] in
     seq (append_execution_log t ''execution_budget_updated'' common) (\<lambda>_.
     seq (reading rw_plan) (\<lambda>p.
     if gl_tool_calls (pl_limits p) < bu_calls (pl_budget p) then
       seq (append_execution_log t ''execution_budget_exceeded''
              ((''reason'', JStr ''max_tool_calls_exceeded'') # common)) (\<lambda>_.
       raising (BudgetExhaustedRun ''max_tool_calls_exceeded''))
     else if gl_same_call (pl_limits p) < at_no a then
       (let what = ''Execution circuit breaker tripped for repeated tool call '' @ cr_name c in
        seq (append_execution_log t ''execution_circuit_breaker_tripped''
               ((''reason'', JStr ''same_tool_call_repeated'') # common)) (\<lambda>_.
        seq (fail_execution_plan t guardrail_name what
               [(''reason'', JStr ''same_tool_call_repeated''), (''tool'', JStr (cr_name c)),
                (''tool_call_id'', JStr (cr_id c)), (''normalized_args_hash'', JStr (at_hash a)),
                (''attempt_no'', JInt (at_no a))]) (\<lambda>_.
        seq (append_error t guardrail_name what
               [(''phase'', JStr ''tool_attempt''), (''tool'', JStr (cr_name c)),
                (''tool_call_id'', JStr (cr_id c)), (''normalized_args_hash'', JStr (at_hash a)),
                (''attempt_no'', JInt (at_no a))]) (\<lambda>_.
        raising (GuardrailErr what)))))
     else returning a))))"

definition record_tool_attempt ::
  "(string \<Rightarrow> string) \<Rightarrow> task \<Rightarrow> call_request \<Rightarrow> int \<Rightarrow> (run_world, attempt) op" where
  "record_tool_attempt sha t c turn =
     seq (on_plan (\<lambda>p. (current_step p, p))) (\<lambda>s.
     seq (on_plan (\<lambda>p. case count_attempt sha (t_id t) (st_id s) (cr_name c) (cr_arguments c) (pl_budget p) of
            (a, b) \<Rightarrow> (Inr a, p\<lparr>pl_budget := b\<rparr>))) (\<lambda>a.
     attempt_rest t c turn s a))"

definition enforce_soft_tool_call_cap :: "call_request \<Rightarrow> attempt \<Rightarrow> (run_world, unit) op" where
  "enforce_soft_tool_call_cap c a =
     seq (reading (\<lambda>w. soft_cap_for (pl_limits (rw_plan w)) (cr_name c))) (\<lambda>cap.
     case cap of
       None \<Rightarrow> returning ()
     | Some n \<Rightarrow>
         if at_name_no a \<le> n then returning ()
         else raising (RecoverableTool \<lparr>re_code = ''tool_call_budget_reached'',
           re_message = ''You have already called '' @ CHR 0x27 # cr_name c @ CHR 0x27 # '' '' @
             int_str n @ '' times for this task. That is enough '' @ em_dash @
             '' do not call it again.'',
           re_hint = Some (''Stop researching. Use the information you have already gathered '' @
             ''to produce and deliver the final result now.''),
           re_details = []\<rparr>))"

section \<open>Deduplication\<close>

definition replay_completed_attempt ::
  "nat \<Rightarrow> task \<Rightarrow> call_request \<Rightarrow> attempt \<Rightarrow> int \<Rightarrow> string \<Rightarrow> tool_result \<Rightarrow> (run_world, nat) op" where
  "replay_completed_attempt limit t c a turn step_id r =
     seq (log_event t Log
       [(''message'', JStr ''tool_call_deduplicated''), (''turn'', JInt turn),
        (''tool_call_id'', JStr (cr_id c)), (''tool'', JStr (cr_name c)), (''step_id'', JStr step_id),
        (''idempotency_key'', jopt_str (at_key a)), (''normalized_args_hash'', JStr (at_hash a)),
        (''attempt_no'', JInt (at_no a)), (''task_attempts'', JInt (t_attempts t)),
        (''artifact_count'', JInt (int (length (tr_artifacts r))))]) (\<lambda>_.
     seq (say (tool_message (cr_id c)
       (fst (tool_result_prompt_payload limit (tool_result_payload (cr_name c) r))))) (\<lambda>_.
     returning (length (tr_artifacts r))))"

definition unknown_outcome_error :: "call_request \<Rightarrow> attempt \<Rightarrow> side_effect \<Rightarrow> recoverable_error" where
  "unknown_outcome_error c a effect =
     \<lparr>re_code = ''tool_prior_attempt_outcome_unknown'',
      re_message = ''A previous run started '' @ cr_name c @ '' but did not record whether '' @
        ''it finished, so its outcome is unknown. Because it can change '' @
        ''external state, I won'' @ CHR 0x27 # ''t run it again automatically. Confirm whether '' @
        ''it already took effect, or ask me to proceed.'',
      re_hint = Some (''Do not blindly retry. Verify the prior outcome (or ask the user) '' @
        ''before running this side-effecting tool again.''),
      re_details = [(''tool'', JStr (cr_name c)), (''side_effect'', JStr (side_effect_value effect)),
        (''idempotency_key'', jopt_str (at_key a))]\<rparr>"

definition recoverable_tool_error_result ::
  "jobj \<Rightarrow> recoverable_error \<Rightarrow> classified_error \<Rightarrow> tool_result" where
  "recoverable_tool_error_result args e c =
     \<lparr>tr_output = [(''successful'', JBool False),
        (''attempted_argument_keys'', JArr (map JStr (sorted_words (map fst args)))),
        (''error'', JObj (enrich_error_payload (recoverable_payload e) (Some c)))],
      tr_cost = dec_zero, tr_artifacts = []\<rparr>"

definition surface_unknown_prior_outcome ::
  "nat \<Rightarrow> task \<Rightarrow> call_request \<Rightarrow> attempt \<Rightarrow> int \<Rightarrow> string \<Rightarrow> side_effect \<Rightarrow> (run_world, nat) op" where
  "surface_unknown_prior_outcome limit t c a turn step_id effect =
     (let e = unknown_outcome_error c a effect;
          r = recoverable_tool_error_result (cr_requested c) e (classify_recoverable_tool_error e) in
      seq (log_event t Log
        [(''message'', JStr ''tool_call_unknown_prior_outcome''), (''turn'', JInt turn),
         (''tool_call_id'', JStr (cr_id c)), (''tool'', JStr (cr_name c)),
         (''step_id'', JStr step_id), (''idempotency_key'', jopt_str (at_key a)),
         (''normalized_args_hash'', JStr (at_hash a)), (''attempt_no'', JInt (at_no a)),
         (''task_attempts'', JInt (t_attempts t)), (''side_effect'', JStr (side_effect_value effect))])
        (\<lambda>_.
      seq (say (tool_message (cr_id c)
        (fst (tool_result_prompt_payload limit (tool_result_payload (cr_name c) r))))) (\<lambda>_.
      returning 0)))"

definition dedup_tool_call ::
  "nat \<Rightarrow> task \<Rightarrow> call_request \<Rightarrow> attempt \<Rightarrow> int \<Rightarrow> string \<Rightarrow> (run_world, nat option) op" where
  "dedup_tool_call limit t c a turn step_id =
     (if t_attempts t \<le> 0 then returning None
      else case at_key a of
        None \<Rightarrow> returning None
      | Some key \<Rightarrow>
          seq (reading (\<lambda>w. find_prior_attempt (t_id t) key (gw_db (rw_gate w)))) (\<lambda>prior.
          case prior of
            Completed r _ \<Rightarrow>
              seq (replay_completed_attempt limit t c a turn step_id r) (\<lambda>n. returning (Some n))
          | Started_Only _ \<Rightarrow>
              (let effect = tm_side_effect (tool_metadata_for (cr_name c)) in
               if effect = Read then returning None
               else seq (surface_unknown_prior_outcome limit t c a turn step_id effect)
                      (\<lambda>n. returning (Some n)))
          | No_Prior \<Rightarrow> returning None))"

section \<open>One tool call\<close>

definition gate_call :: "call_request \<Rightarrow> attempt \<Rightarrow> int \<Rightarrow> string \<Rightarrow> tool_call" where
  "gate_call c a turn step_id =
     \<lparr>tc_id = cr_id c, tc_name = cr_name c, tc_arguments = cr_arguments c, tc_args_hash = at_hash a,
      tc_attempt_no = at_no a, tc_turn = turn, tc_step_id = step_id\<rparr>"

text \<open>The remaining lease is a duration in microseconds.\<close>

definition warn_if_tool_deadline_exceeds_lease ::
  "task \<Rightarrow> call_request \<Rightarrow> int \<Rightarrow> string \<Rightarrow> (run_world, unit) op" where
  "warn_if_tool_deadline_exceeds_lease t c turn step_id =
     (case t_lease_expires_at t of
        None \<Rightarrow> returning ()
      | Some at \<Rightarrow>
          seq (reading (\<lambda>w. at - db_now (gw_db (rw_gate w)))) (\<lambda>left.
          let limit = tool_timeout_seconds (cr_name c) in
          if left \<le> 0 \<or> limit \<le> 0 \<or> 2 * seconds limit \<le> left then returning ()
          else log_event t Log
            [(''message'', JStr ''tool_lease_pressure''), (''turn'', JInt turn),
             (''tool_call_id'', JStr (cr_id c)), (''tool'', JStr (cr_name c)),
             (''step_id'', JStr step_id), (''timeout_seconds'', JInt limit),
             (''lease_remaining_seconds'', JInt (left div seconds 1))]))"

definition tool_call_payload :: "call_request \<Rightarrow> attempt \<Rightarrow> int \<Rightarrow> string \<Rightarrow> jobj" where
  "tool_call_payload c a turn step_id =
     [(''turn'', JInt turn), (''tool_call_id'', JStr (cr_id c)), (''tool'', JStr (cr_name c)),
      (''step_id'', JStr step_id), (''normalized_args_hash'', JStr (at_hash a)),
      (''idempotency_key'', jopt_str (at_key a)), (''attempt_no'', JInt (at_no a)),
      (''argument_keys'', JArr (map JStr (sorted_words (map fst (cr_arguments c))))),
      (''arguments'', JObj (cr_arguments c))]"

datatype call_stage = Ready attempt | Skipped nat | Needs_Approval approval_request

definition prepare_call ::
  "gate_config \<Rightarrow> (string \<Rightarrow> tool option) \<Rightarrow> (string \<Rightarrow> string) \<Rightarrow> nat \<Rightarrow> task \<Rightarrow> call_request \<Rightarrow> int \<Rightarrow>
   (run_world, call_stage) op" where
  "prepare_call cfg registry sha limit t c turn =
     seq (record_tool_attempt sha t c turn) (\<lambda>a.
     seq (on_plan (\<lambda>p. (current_step p, p))) (\<lambda>s.
     seq (on_gate (raise_if_tool_approval_required cfg registry t (gate_call c a turn (st_id s)))) (\<lambda>ok.
     case ok of
       Approval_Required rq \<Rightarrow> returning (Needs_Approval rq)
     | Proceed \<Rightarrow>
         seq (dedup_tool_call limit t c a turn (st_id s)) (\<lambda>replayed.
         case replayed of
           Some n \<Rightarrow> returning (Skipped n)
         | None \<Rightarrow>
             seq (warn_if_tool_deadline_exceeds_lease t c turn (st_id s)) (\<lambda>_.
             seq (log_event t Tool_Call (tool_call_payload c a turn (st_id s))) (\<lambda>_.
             returning (Ready a)))))))"

text \<open>What running the tool gave: its result, or the failure it wants the model to see.\<close>

datatype tool_outcome = Returned tool_result | Recoverable recoverable_error

definition tool_error_payload :: "jobj \<Rightarrow> jobj option" where
  "tool_error_payload out = json_obj (jget out ''error'')"

definition recoverable_tool_result :: "jobj \<Rightarrow> json" where
  "recoverable_tool_result out =
     (case tool_error_payload out of
        None \<Rightarrow> JNull
      | Some e \<Rightarrow> (case jget e ''recoverable'' of JBool b \<Rightarrow> JBool b | _ \<Rightarrow> JNull))"

definition classify_recoverable_result_error :: "jobj \<Rightarrow> classified_error option" where
  "classify_recoverable_result_error out =
     (case tool_error_payload out of
        None \<Rightarrow> None
      | Some e \<Rightarrow> if jget e ''recoverable'' = JBool True
                  then Some (classify_tool_error_payload e) else None)"

definition with_classified_error :: "classified_error \<Rightarrow> tool_result \<Rightarrow> tool_result" where
  "with_classified_error c r =
     (case tool_error_payload (tr_output r) of
        None \<Rightarrow> r
      | Some e \<Rightarrow> r\<lparr>tr_output := AList.update ''error'' (JObj (enrich_error_payload e (Some c))) (tr_output r)\<rparr>)"

definition read_outcome :: "call_request \<Rightarrow> tool_outcome \<Rightarrow> tool_result \<times> classified_error option" where
  "read_outcome c outcome =
     (case outcome of
        Recoverable e \<Rightarrow>
          (let k = classify_recoverable_tool_error e in
           (with_classified_error k (recoverable_tool_error_result (cr_arguments c) e k), Some k))
      | Returned r \<Rightarrow>
          (case classify_recoverable_result_error (tr_output r) of
             None \<Rightarrow> (r, None)
           | Some k \<Rightarrow> (with_classified_error k r, Some k)))"

definition composio_connect_required :: "classified_error \<Rightarrow> string option" where
  "composio_connect_required k =
     (if ce_action k \<noteq> Wait_Auth \<or> ce_code k \<noteq> ''missing_connection'' \<or>
         jget (ce_details k) ''provider'' \<noteq> JStr ''composio''
      then None
      else (case json_str (jget (ce_details k) ''toolkit_slug'') of
              Some s \<Rightarrow> if s = [] then None else Some s | None \<Rightarrow> None))"

definition record_recoverable_failure ::
  "task \<Rightarrow> attempt \<Rightarrow> classified_error \<Rightarrow> int \<Rightarrow> string \<Rightarrow> (run_world, bool) op" where
  "record_recoverable_failure t a k turn call_id =
     seq (on_plan (\<lambda>p. (current_step p, p))) (\<lambda>s.
     seq (on_plan (\<lambda>p. case count_failure (at_tool a) (at_hash a) (ce_code k)
              (category_value (ce_category k)) (pl_budget p) of
            (n, b) \<Rightarrow> (Inr n, p\<lparr>pl_budget := b\<rparr>))) (\<lambda>same.
     seq (on_plan (\<lambda>p. case on_current (\<lambda>s. s\<lparr>st_failures := st_failures s + 1,
                st_observations := st_observations s @ [ce_message k]\<rparr>) p of
            Inl e \<Rightarrow> (Inl e, p) | Inr p' \<Rightarrow> (Inr (), p'))) (\<lambda>_.
     seq (reading (\<lambda>w. (pl_limits (rw_plan w), pl_budget (rw_plan w)))) (\<lambda>(l, b).
     let common = [(''turn'', JInt turn), (''step_id'', JStr (st_id s)),
           (''tool_call_id'', JStr call_id), (''tool'', JStr (at_tool a)),
           (''normalized_args_hash'', JStr (at_hash a)), (''attempt_no'', JInt (at_no a)),
           (''error_code'', JStr (ce_code k)),
           (''error_category'', JStr (category_value (ce_category k))),
           (''recovery_action'', JStr (recovery_value (ce_action k)))];
         counts = [(''same_error_count'', JInt same),
           (''recoverable_failure_count'', JInt (bu_failures b)),
           (''budget_remaining'', JObj (budget_remaining l b))];
         same_exceeded = gl_same_error l < same in
     seq (append_execution_log t ''execution_recoverable_failure_recorded''
            (common @ [(''retryable'', JBool (ce_retryable k)),
              (''user_action_required'', JBool (ce_user_action k)), (''recoverable'', JBool True)]
              @ counts)) (\<lambda>_.
     if gl_failures l < bu_failures b \<or> same_exceeded then
       seq (append_execution_log t ''execution_budget_exceeded''
              ((''reason'', JStr (if same_exceeded then ''same_recoverable_error_exceeded''
                  else ''max_recoverable_failures_exceeded'')) # common @ counts)) (\<lambda>_.
       returning True)
     else returning False)))))"

definition tool_result_event ::
  "call_request \<Rightarrow> attempt \<Rightarrow> int \<Rightarrow> string \<Rightarrow> int \<Rightarrow> tool_result \<Rightarrow> classified_error option \<Rightarrow> jobj" where
  "tool_result_event c a turn step_id latency r k =
     jmerge
       ([(''turn'', JInt turn), (''tool_call_id'', JStr (cr_id c)), (''tool'', JStr (cr_name c)),
         (''step_id'', JStr step_id), (''normalized_args_hash'', JStr (at_hash a)),
         (''idempotency_key'', jopt_str (at_key a)), (''attempt_no'', JInt (at_no a)),
         (''latency_ms'', JInt latency), (''output_shape'', JObj (output_shape (tr_output r))),
         (''artifact_count'', JInt (int (length (tr_artifacts r)))),
         (''recoverable'', recoverable_tool_result (tr_output r))] @
        (case k of None \<Rightarrow> []
         | Some e \<Rightarrow> [(''error_classification'', JObj (classified_payload e)),
             (''error_category'', JStr (category_value (ce_category e))),
             (''recovery_action'', JStr (recovery_value (ce_action e)))]))
       (tool_result_payload (cr_name c) r)"

text \<open>A repair of the arguments, and the note about it in what the model sees.\<close>

record tool_repair =
  rp_phase :: string
  rp_pattern :: string
  rp_arguments :: jobj
  rp_changed :: "string list"
  rp_note :: string
  rp_retry :: bool

definition repair_note :: "tool_repair \<Rightarrow> json" where
  "repair_note p = JObj
     [(''applied'', JBool True), (''phase'', JStr (rp_phase p)), (''pattern'', JStr (rp_pattern p)),
      (''changed_keys'', JArr (map JStr (rp_changed p))), (''note'', JStr (rp_note p))]"

definition with_repair_note :: "tool_repair option \<Rightarrow> jobj \<Rightarrow> jobj" where
  "with_repair_note pre prompt =
     (case pre of
        None \<Rightarrow> prompt
      | Some p \<Rightarrow>
          AList.update ''output'' (JObj (AList.update ''tool_repair'' (repair_note p)
            (case json_obj (jget prompt ''output'') of None \<Rightarrow> [] | Some out \<Rightarrow> out))) prompt)"

text \<open>The entry of the result, what the model sees of it, and the gate.\<close>

definition record_tool_result ::
  "gate_config \<Rightarrow> nat \<Rightarrow> task \<Rightarrow> call_request \<Rightarrow> attempt \<Rightarrow> int \<Rightarrow> string \<Rightarrow> int \<Rightarrow> tool_result \<Rightarrow>
   classified_error option \<Rightarrow> tool_repair option \<Rightarrow> (run_world, unit) op" where
  "record_tool_result cfg limit t c a turn step_id latency r k pre =
     (case tool_result_prompt_payload limit (tool_result_payload (cr_name c) r) of
       (prompt, compaction) \<Rightarrow>
     seq (log_event t Tool_Result (tool_result_event c a turn step_id latency r k)) (\<lambda>_.
     seq (case compaction of None \<Rightarrow> returning ()
          | Some report \<Rightarrow> on_gate (append_log (t_id t) ''tool_result_compacted''
              (jmerge [(''turn'', JInt turn), (''tool_call_id'', JStr (cr_id c)),
                       (''tool'', JStr (cr_name c))] report))) (\<lambda>_.
     seq (say (tool_message (cr_id c) (with_repair_note pre prompt))) (\<lambda>_.
     on_gate (arm_trifecta_if_untrusted cfg t (gate_call c a turn step_id))))))"

definition failure_budget_exceeded ::
  "task \<Rightarrow> call_request \<Rightarrow> attempt \<Rightarrow> classified_error \<Rightarrow> (run_world, nat) op" where
  "failure_budget_exceeded t c a e =
     (let what = ''Recoverable tool failure budget exceeded for '' @ cr_name c @ '':'' @ ce_code e in
      seq (reading remaining_json) (\<lambda>left.
      seq (fail_execution_plan t guardrail_name what
        [(''reason'', JStr ''recoverable_failure_budget_exceeded''), (''tool'', JStr (cr_name c)),
         (''tool_call_id'', JStr (cr_id c)), (''error_code'', JStr (ce_code e)),
         (''error_category'', JStr (category_value (ce_category e))),
         (''recovery_action'', JStr (recovery_value (ce_action e))),
         (''normalized_args_hash'', JStr (at_hash a)), (''attempt_no'', JInt (at_no a)),
         (''budget_remaining'', left)]) (\<lambda>_.
      seq (append_error t guardrail_name what
        [(''phase'', JStr ''tool_invoke''), (''tool'', JStr (cr_name c)),
         (''tool_call_id'', JStr (cr_id c)), (''error_code'', JStr (ce_code e)),
         (''error_category'', JStr (category_value (ce_category e)))]) (\<lambda>_.
      raising (GuardrailErr what)))))"

definition settle_call ::
  "gate_config \<Rightarrow> nat \<Rightarrow> task \<Rightarrow> call_request \<Rightarrow> attempt \<Rightarrow> int \<Rightarrow> int \<Rightarrow> tool_result \<Rightarrow>
   classified_error option \<Rightarrow> tool_repair option \<Rightarrow> (run_world, nat) op" where
  "settle_call cfg limit t c a turn latency r k pre =
     seq (case k of None \<Rightarrow> returning False
          | Some e \<Rightarrow> record_recoverable_failure t a e turn (cr_id c)) (\<lambda>exceeded.
     seq (case Option.bind k composio_connect_required of None \<Rightarrow> returning ()
          | Some slug \<Rightarrow> raising (ConnectionRequired slug (cr_name c))) (\<lambda>_.
     seq (on_gate (on_db (raise_if_cancelled (t_id t) (Some (''after_tool_'' @ cr_name c))))) (\<lambda>_.
     seq (on_plan (\<lambda>p. (current_step p, p))) (\<lambda>s.
     seq (record_tool_result cfg limit t c a turn (st_id s) latency r k pre) (\<lambda>_.
     case k of
       Some e \<Rightarrow> if exceeded then failure_budget_exceeded t c a e
                 else returning (length (tr_artifacts r))
     | None \<Rightarrow> returning (length (tr_artifacts r)))))))"

end
