(* ===== verification/Agent_Planner.thy ===== *)
theory Agent_Planner
  imports Tool_Attempts Model_Routing
begin

text \<open>
  \<open>kortny/agent/planner.py\<close>: when a task gets a plan written by the model, how the model's JSON
  becomes a plan, the recovery plan after a failed call, and what the acting model is shown of
  both. The prompts and the requests to the model are left out; \<open>loads\<close> is \<open>json.loads\<close>.
\<close>

section \<open>Texts\<close>

definition newline :: char where
  "newline = CHR 0x0A"

definition clean_string_list :: "string list \<Rightarrow> string list" where
  "clean_string_list items =
     fold (\<lambda>item cleaned. let n = join '' '' (split_ws item) in
       if n \<noteq> [] \<and> n \<notin> set cleaned then cleaned @ [n] else cleaned) items []"

definition planner_string_list :: "json \<Rightarrow> string list" where
  "planner_string_list j =
     (case j of JArr xs \<Rightarrow> clean_string_list (List.map_filter json_str xs) | _ \<Rightarrow> [])"

definition is_alnum :: "char \<Rightarrow> bool" where
  "is_alnum c \<longleftrightarrow> is_digit c \<or>
     lower_char c \<in> set ''abcdefghijklmnopqrstuvwxyz''"

definition name_tokens :: "string \<Rightarrow> string list" where
  "name_tokens value =
     (let n = replace_char (CHR ''.'') (CHR ''_'') (replace_char (CHR ''/'') (CHR ''_'')
                (replace_char (CHR ''-'') (CHR ''_'') (casefold value)))
      in concat (map (\<lambda>raw. split_ws (map (\<lambda>c. if is_alnum c then c else CHR '' '') raw))
           (split_on (CHR ''_'') n)))"

section \<open>Whether to plan\<close>

definition needs_rich_context :: "jobj \<Rightarrow> bool" where
  "needs_rich_context d = list_ex (\<lambda>k. jget d k = JBool True) context_flags"

definition likely_artifact_or_integration :: "string list \<Rightarrow> bool" where
  "likely_artifact_or_integration names =
     list_ex (\<lambda>n. n = ''pdf_generator'' \<or> starts_with ''composio_'' n \<or> contains ''_execute'' n) names"

definition single_hop_read_tool :: "string \<Rightarrow> bool" where
  "single_hop_read_tool name =
     (let n = casefold name in
      n \<in> {''web_search'', ''recall_fact'', ''inspect_memory''} \<or>
      (starts_with ''composio_'' n \<and>
       contains_any [''find'', ''get'', ''list'', ''query'', ''read'', ''retrieve'', ''search''] n))"

definition toolkit_name_mentioned :: "string \<Rightarrow> string list \<Rightarrow> bool" where
  "toolkit_name_mentioned text names =
     list_ex (\<lambda>n. list_ex (\<lambda>tok. 4 \<le> length tok \<and> tok \<in> set (name_tokens text)) (name_tokens n)) names"

definition external_toolkit_name_mentioned :: "string \<Rightarrow> string list \<Rightarrow> bool" where
  "external_toolkit_name_mentioned text names =
     toolkit_name_mentioned text
       (filter (\<lambda>n. starts_with ''composio_'' n \<or> contains ''_execute'' n) names)"

text \<open>The tool schemas are the names of the registered tools, none of them empty.\<close>

definition legacy_should_plan :: "string \<Rightarrow> string list \<Rightarrow> jobj option \<Rightarrow> bool \<times> string" where
  "legacy_should_plan text names decision =
     (case decision of
        None \<Rightarrow>
          if external_toolkit_name_mentioned text names
          then (True, ''external_toolkit_mentioned_without_intent'')
          else (False, ''no_intent_signal'')
      | Some d \<Rightarrow>
          (let likely = filter (\<lambda>n. n \<in> set names) (planner_string_list (jget d ''likely_tools'')) in
           if 2 \<le> length (remdups likely) then (True, ''intent_likely_multi_tool'')
           else if needs_rich_context d \<and> likely \<noteq> [] then (True, ''intent_context_plus_tool'')
           else if length likely = 1 \<and> single_hop_read_tool (hd likely)
           then (False, ''single_hop_read_tool'')
           else if likely_artifact_or_integration likely
           then (True, ''intent_artifact_or_integration'')
           else if toolkit_name_mentioned text names then (True, ''toolkit_mentioned'')
           else if jget d ''model_tier'' = JStr ''strong'' then (True, ''intent_strong_model'')
           else (False, ''simple_or_single_step'')))"

definition should_plan :: "string \<Rightarrow> string list \<Rightarrow> jobj option \<Rightarrow> bool \<times> string" where
  "should_plan text names decision =
     (if names = [] then (False, ''no_tools_available'')
      else
        (case decision of
           None \<Rightarrow> legacy_should_plan text names None
         | Some d \<Rightarrow>
             (case plain_str (jget d ''response_depth'') of
                Some depth \<Rightarrow>
                  if depth = ''deep_workflow'' then (True, ''unified_depth_deep_workflow'')
                  else if depth \<in> {''quick_response'', ''standard_tool_task''}
                  then (False, ''unified_depth_'' @ depth)
                  else legacy_should_plan text names (Some d)
              | None \<Rightarrow> legacy_should_plan text names (Some d))))"

section \<open>The model's plan\<close>

text \<open>The JSON object in the model's text: all of it, or from its first brace to its last.\<close>

definition extract_json_object :: "(string \<Rightarrow> json option) \<Rightarrow> string \<Rightarrow> string option" where
  "extract_json_object loads content =
     (let s = strip content in
      if s \<noteq> [] \<and> hd s = CHR ''{'' \<and> last s = CHR ''}'' then Some s
      else
        (let candidate = rev (dropWhile (\<lambda>c. c \<noteq> CHR ''}'') (rev (dropWhile (\<lambda>c. c \<noteq> CHR ''{'') s)))
         in if length candidate \<le> 1 then None
            else if loads candidate = None then None else Some candidate))"

text \<open>Validation of a field: a string within its lengths, a list of strings of bounded length.\<close>

definition text_field :: "nat \<Rightarrow> nat \<Rightarrow> json \<Rightarrow> string option" where
  "text_field lo hi j =
     (case json_str j of None \<Rightarrow> None
      | Some s \<Rightarrow> if lo \<le> length s \<and> length s \<le> hi then Some (join '' '' (split_ws s)) else None)"

definition list_field :: "jobj \<Rightarrow> string \<Rightarrow> string list option" where
  "list_field p k =
     (case map_of p k of
        None \<Rightarrow> Some []
      | Some (JArr xs) \<Rightarrow>
          if length xs \<le> 8 \<and> list_all (\<lambda>x. json_str x \<noteq> None) xs
          then Some (clean_string_list (List.map_filter json_str xs)) else None
      | _ \<Rightarrow> None)"

fun all_some :: "'a option list \<Rightarrow> 'a list option" where
  "all_some [] = Some []"
| "all_some (x # xs) =
     (case x of None \<Rightarrow> None | Some a \<Rightarrow>
        (case all_some xs of None \<Rightarrow> None | Some ys \<Rightarrow> Some (a # ys)))"

record planned_step =
  ps_description :: string
  ps_tools :: "string list"
  ps_depends :: "string list"

definition planned_step_of :: "json \<Rightarrow> planned_step option" where
  "planned_step_of j =
     (case json_obj j of None \<Rightarrow> None
      | Some p \<Rightarrow>
          if \<not> set (map fst p) \<subseteq> {''description'', ''selected_tool_names'', ''depends_on''} then None
          else
            (case (text_field 1 240 (jget p ''description''), list_field p ''selected_tool_names'',
                   list_field p ''depends_on'') of
               (Some d, Some ts, Some ds) \<Rightarrow> Some \<lparr>ps_description = d, ps_tools = ts, ps_depends = ds\<rparr>
             | _ \<Rightarrow> None))"

record planned_execution =
  px_objective :: string
  px_steps :: "planned_step list"
  px_missing :: "string list"
  px_fallback :: "string list"
  px_risk :: "string list"

definition planned_execution_of :: "json \<Rightarrow> planned_execution option" where
  "planned_execution_of j =
     (case json_obj j of None \<Rightarrow> None
      | Some p \<Rightarrow>
          if \<not> set (map fst p) \<subseteq>
             {''objective'', ''steps'', ''missing_inputs'', ''fallback_notes'', ''risk_notes''} then None
          else
            (case (text_field 1 300 (jget p ''objective''), jget p ''steps'',
                   list_field p ''missing_inputs'', list_field p ''fallback_notes'',
                   list_field p ''risk_notes'') of
               (Some obj, JArr xs, Some ms, Some fs, Some rs) \<Rightarrow>
                 if xs = [] \<or> 6 < length xs then None
                 else (case all_some (map planned_step_of xs) of
                         None \<Rightarrow> None
                       | Some steps \<Rightarrow> Some \<lparr>px_objective = obj, px_steps = steps, px_missing = ms,
                                            px_fallback = fs, px_risk = rs\<rparr>)
             | _ \<Rightarrow> None))"

definition parse_planned_execution_payload ::
  "(string \<Rightarrow> json option) \<Rightarrow> string option \<Rightarrow> planned_execution res" where
  "parse_planned_execution_payload loads content =
     (case content of
        None \<Rightarrow> Inl (ValueError ''execution planner returned empty content'')
      | Some text \<Rightarrow>
          if strip text = [] then Inl (ValueError ''execution planner returned empty content'')
          else
            (case Option.bind (Option.bind (extract_json_object loads text) loads) planned_execution_of of
               None \<Rightarrow> Inl (ValueError ''execution planner returned invalid JSON'')
             | Some px \<Rightarrow> Inr px))"

definition planned_payload_to_execution_plan ::
  "string \<Rightarrow> uuid \<Rightarrow> planned_execution \<Rightarrow> guardrail_limits \<Rightarrow> string list \<Rightarrow> string \<Rightarrow> plan" where
  "planned_payload_to_execution_plan fresh tid px limits available reason =
     \<lparr>pl_id = fresh, pl_task = uuid_str tid, pl_summary = px_objective px,
      pl_steps = map (\<lambda>(i, s).
        \<lparr>st_id = ''step-'' @ nat_str i, st_description = ps_description s, st_status = Step_Pending,
         st_tools = filter (\<lambda>n. n \<in> set available) (ps_tools s), st_depends = ps_depends s,
         st_calls = 0, st_failures = 0, st_observations = [], st_errors = []\<rparr>)
        (zip [1..<Suc (length (px_steps px))] (px_steps px)),
      pl_limits = limits, pl_version = 1, pl_mode = Planned, pl_source = ''llm_planner'',
      pl_reason = Some reason, pl_missing = px_missing px, pl_fallback = px_fallback px,
      pl_risk = px_risk px, pl_recoveries = [], pl_status = Plan_Pending, pl_current = None,
      pl_budget = fresh_budget\<rparr>"

section \<open>Recovery plans\<close>

definition next_actions :: "string list" where
  "next_actions =
     [''patch_arguments'', ''use_discovery_tool'', ''switch_tool'', ''retry_narrower'', ''ask_user'',
      ''stop_safely'', ''continue_with_available_context'']"

record recovery_answer =
  ra_goal :: string
  ra_next :: string
  ra_tools :: "string list"
  ra_argument_notes :: "string list"
  ra_fallback_notes :: "string list"
  ra_risk_notes :: "string list"
  ra_guidance :: "string option"

definition guidance_of :: "json \<Rightarrow> string option option" where
  "guidance_of j =
     (case j of
        JNull \<Rightarrow> Some None
      | _ \<Rightarrow> (case text_field 0 260 j of None \<Rightarrow> None | Some s \<Rightarrow> Some (truthy (Some s))))"

definition recovery_answer_of :: "json \<Rightarrow> recovery_answer option" where
  "recovery_answer_of j =
     (case json_obj j of None \<Rightarrow> None
      | Some p \<Rightarrow>
          if \<not> set (map fst p) \<subseteq>
             {''recovery_goal'', ''next_action'', ''suggested_tool_names'', ''argument_notes'',
              ''fallback_notes'', ''risk_notes'', ''user_message_guidance''} then None
          else
            (case (text_field 1 260 (jget p ''recovery_goal''), json_str (jget p ''next_action''),
                   list_field p ''suggested_tool_names'', list_field p ''argument_notes'',
                   list_field p ''fallback_notes'', list_field p ''risk_notes'',
                   guidance_of (jget p ''user_message_guidance'')) of
               (Some goal, Some next, Some ts, Some ans, Some fs, Some rs, Some g) \<Rightarrow>
                 if next \<notin> set next_actions then None
                 else Some \<lparr>ra_goal = goal, ra_next = next, ra_tools = ts, ra_argument_notes = ans,
                            ra_fallback_notes = fs, ra_risk_notes = rs, ra_guidance = g\<rparr>
             | _ \<Rightarrow> None))"

definition parse_recovery_plan_payload ::
  "(string \<Rightarrow> json option) \<Rightarrow> string option \<Rightarrow> recovery_answer res" where
  "parse_recovery_plan_payload loads content =
     (case content of
        None \<Rightarrow> Inl (ValueError ''execution recovery planner returned empty content'')
      | Some text \<Rightarrow>
          if strip text = []
          then Inl (ValueError ''execution recovery planner returned empty content'')
          else
            (case Option.bind (Option.bind (extract_json_object loads text) loads) recovery_answer_of of
               None \<Rightarrow> Inl (ValueError ''execution recovery planner returned invalid JSON'')
             | Some ra \<Rightarrow> Inr ra))"

definition recovery_payload_to_recovery_plan ::
  "string \<Rightarrow> recovery_answer \<Rightarrow> string \<Rightarrow> classified_error \<Rightarrow> string list \<Rightarrow> string \<Rightarrow> recovery_plan" where
  "recovery_payload_to_recovery_plan fresh ra tool k available source =
     \<lparr>rp_id = fresh, rp_tool = tool, rp_code = ce_code k,
      rp_category = category_value (ce_category k), rp_action = recovery_value (ce_action k),
      rp_goal = ra_goal ra, rp_next = ra_next ra,
      rp_tools = filter (\<lambda>n. n \<in> set available) (ra_tools ra),
      rp_argument_notes = ra_argument_notes ra, rp_fallback_notes = ra_fallback_notes ra,
      rp_risk_notes = ra_risk_notes ra, rp_guidance = ra_guidance ra, rp_source = source\<rparr>"

fun fallback_next_action :: "recovery_action \<Rightarrow> string" where
  "fallback_next_action Patch_Arguments = ''patch_arguments''"
| "fallback_next_action Resolve_Reference = ''use_discovery_tool''"
| "fallback_next_action Retry_With_Backoff = ''retry_narrower''"
| "fallback_next_action Switch_Tool = ''switch_tool''"
| "fallback_next_action Ask_User = ''ask_user''"
| "fallback_next_action Wait_Auth = ''ask_user''"
| "fallback_next_action Stop_Safely = ''stop_safely''"
| "fallback_next_action Continue = ''continue_with_available_context''"

definition tool_matches_recovery :: "string \<Rightarrow> classified_error \<Rightarrow> bool" where
  "tool_matches_recovery name k =
     (let n = casefold name in
      case ce_action k of
        Resolve_Reference \<Rightarrow>
          contains_any [''search'', ''list'', ''history'', ''read'', ''lookup'', ''find''] n
      | Retry_With_Backoff \<Rightarrow> contains ''search'' n \<or> contains ''composio'' n
      | Switch_Tool \<Rightarrow> True
      | Patch_Arguments \<Rightarrow> jget (ce_details k) ''tool_name'' = JStr n
      | _ \<Rightarrow> False)"

text \<open>The source of a recovery plan that is not the planner's is the record's default.\<close>

definition fallback_source :: string where
  "fallback_source = ''deterministic_fallback''"

definition make_fallback_recovery_plan ::
  "string \<Rightarrow> string \<Rightarrow> classified_error \<Rightarrow> string list \<Rightarrow> recovery_plan" where
  "make_fallback_recovery_plan fresh tool k available =
     \<lparr>rp_id = fresh, rp_tool = tool, rp_code = ce_code k,
      rp_category = category_value (ce_category k), rp_action = recovery_value (ce_action k),
      rp_goal = (case truthy (ce_hint k) of Some h \<Rightarrow> h | None \<Rightarrow> ce_message k),
      rp_next = fallback_next_action (ce_action k),
      rp_tools = take 3 (filter (\<lambda>n. n \<noteq> tool \<and> tool_matches_recovery n k) available),
      rp_argument_notes =
        [''Do not repeat the failed tool call with the same arguments.'',
         ''Follow recovery_action='' @ recovery_value (ce_action k) @ ''.''],
      rp_fallback_notes =
        [''Ask one concise clarification only if available tools cannot infer the missing input.''],
      rp_risk_notes = [],
      rp_guidance = (if ce_user_action k
        then Some ''Explain the blocker briefly and ask for the missing input.'' else None),
      rp_source = fallback_source\<rparr>"

section \<open>What the acting model is shown\<close>

definition note_lines :: "string \<Rightarrow> string list \<Rightarrow> string list" where
  "note_lines title items = (if items = [] then [] else (title @ '':'') # map (\<lambda>i. ''- '' @ i) items)"

definition render_execution_plan_context :: "plan \<Rightarrow> string" where
  "render_execution_plan_context p = join [newline]
     ([''<private_execution_plan>'',
       ''Use this private runtime plan as scaffolding. Do not mention it unless the user asks how you approached the task.'',
       ''objective: '' @ pl_summary p, ''steps:''] @
      map (\<lambda>s. ''- '' @ st_id s @ '': '' @ st_description s @ '' (candidate tools: '' @
        (if join '', '' (st_tools s) = [] then ''none selected yet'' else join '', '' (st_tools s)) @ '')'')
        (pl_steps p) @
      note_lines ''missing_inputs'' (pl_missing p) @ note_lines ''fallback_notes'' (pl_fallback p) @
      note_lines ''risk_notes'' (pl_risk p) @ [''</private_execution_plan>''])"

definition render_recovery_plan_context :: "recovery_plan \<Rightarrow> string" where
  "render_recovery_plan_context r = join [newline]
     ([''<private_recovery_plan>'',
       ''A recoverable tool failure just happened. Use this private guidance before your next action. Do not mention it unless the user asks how you recovered.'',
       ''failed_tool: '' @ rp_tool r, ''error_code: '' @ rp_code r,
       ''error_category: '' @ rp_category r, ''recovery_action: '' @ rp_action r,
       ''next_action: '' @ rp_next r, ''recovery_goal: '' @ rp_goal r] @
      (if rp_tools r = [] then [] else [''suggested_tools: '' @ join '', '' (rp_tools r)]) @
      note_lines ''argument_notes'' (rp_argument_notes r) @
      note_lines ''fallback_notes'' (rp_fallback_notes r) @ note_lines ''risk_notes'' (rp_risk_notes r) @
      (case truthy (rp_guidance r) of None \<Rightarrow> []
       | Some g \<Rightarrow> [''user_message_guidance: '' @ g]) @ [''</private_recovery_plan>''])"

end
