(* ===== verification/Agent_Loop.thy ===== *)
theory Agent_Loop
  imports Tool_Ledger Agent_Planner
begin

text \<open>
  \<open>AgentCoordinator\<close> of \<open>kortny/agent/coordinator.py\<close>: the tool calls of one completion
  (\<open>_invoke_tool_calls\<close>), the turns of a run (\<open>_run_with_context\<close>) and how a run ends.

  The model service, the tools, the argument repair, the context engine and the texts of
  exceptions are the environment; a service or a tool may change the tables in any way. The
  progress display and tracing are left out.
\<close>

section \<open>The environment\<close>

record completion =
  co_content :: "string option"
  co_calls :: "call_request list"
  co_model :: string
  co_response_id :: "string option"

text \<open>What the context engine assembles: the messages, whether one carries an image, and the
  payload of the skill ranking when one was computed.\<close>

record context_package =
  cx_messages :: "chat_message list"
  cx_has_images :: bool
  cx_ranking :: "jobj option"

type_synonym tool_table = "(string \<times> tool) list"

record agent_env =
  ae_gate :: gate_config
  ae_sha :: "string \<Rightarrow> string"
  ae_limit :: nat
  ae_limits :: guardrail_limits
  ae_codeact :: bool
  ae_complete :: "task \<Rightarrow> chat_message list \<Rightarrow> tool_table \<Rightarrow> (db, completion) op"
  ae_invoke :: "string \<Rightarrow> jobj \<Rightarrow> (db \<times> tool_table, tool_result) op"
  ae_run_code :: "call_request \<Rightarrow> (db \<times> tool_table, tool_result) op"
  ae_loader :: "string \<Rightarrow> tool option"
  ae_pre_repair :: "string \<Rightarrow> jobj \<Rightarrow> jobj option \<Rightarrow> tool_repair option"
  ae_post_repair :: "string \<Rightarrow> jobj \<Rightarrow> tool_result \<Rightarrow> recoverable_error \<Rightarrow> tool_repair option"
  ae_min_pages :: "string \<Rightarrow> int option"
  ae_describe :: "py_error \<Rightarrow> string \<times> string"
  ae_latency :: "call_request \<Rightarrow> int"
  ae_uuid :: "nat \<Rightarrow> string"
  ae_loads :: "string \<Rightarrow> json option"
  ae_plan_request :: "task \<Rightarrow> tool_table \<Rightarrow> jobj option \<Rightarrow> chat_message list"
  ae_recovery_request :: "task \<Rightarrow> plan \<Rightarrow> call_request \<Rightarrow> classified_error \<Rightarrow> tool_result \<Rightarrow> tool_table \<Rightarrow> chat_message list"
  ae_humanize :: "string \<Rightarrow> string \<Rightarrow> string"
  ae_personalize :: "string \<Rightarrow> string"
  ae_assemble :: "task \<Rightarrow> (db, context_package) op"
  ae_after_turn :: "task \<Rightarrow> string \<Rightarrow> (db, unit) op"

definition on_tables :: "(db \<times> tool_table, 'a) op \<Rightarrow> (run_world, 'a) op" where
  "on_tables m = (\<lambda>w. case m (gw_db (rw_gate w), rw_tools w) of
     (r, d, ts) \<Rightarrow> (r, w\<lparr>rw_gate := (rw_gate w)\<lparr>gw_db := d\<rparr>, rw_tools := ts\<rparr>))"

definition call_model ::
  "agent_env \<Rightarrow> task \<Rightarrow> chat_message list \<Rightarrow> tool_table \<Rightarrow> (run_world, completion) op" where
  "call_model env t ms ts =
     seq (writing (\<lambda>w. w\<lparr>rw_model_calls := Suc (rw_model_calls w)\<rparr>)) (\<lambda>_.
     on_gate (on_db (ae_complete env t ms ts)))"

definition run_tool :: "(db \<times> tool_table, tool_result) op \<Rightarrow> (run_world, tool_result) op" where
  "run_tool m =
     seq (writing (\<lambda>w. w\<lparr>rw_tool_runs := Suc (rw_tool_runs w)\<rparr>)) (\<lambda>_. on_tables m)"

definition run_log :: "task \<Rightarrow> string \<Rightarrow> jobj \<Rightarrow> (run_world, unit) op" where
  "run_log t message p = on_gate (append_log (t_id t) message p)"

definition append_exception :: "agent_env \<Rightarrow> task \<Rightarrow> py_error \<Rightarrow> jobj \<Rightarrow> (run_world, unit) op" where
  "append_exception env t e p = append_error t (fst (ae_describe env e)) (snd (ae_describe env e)) p"

definition check_cancelled :: "task \<Rightarrow> string \<Rightarrow> (run_world, unit) op" where
  "check_cancelled t phase = on_gate (on_db (raise_if_cancelled (t_id t) (Some phase)))"

section \<open>Running one call\<close>

definition tool_arguments :: "agent_env \<Rightarrow> task \<Rightarrow> call_request \<Rightarrow> jobj" where
  "tool_arguments env t c =
     (if cr_name c = ''pdf_generator'' \<and> map_of (cr_requested c) ''min_pages'' = None
      then (case ae_min_pages env (t_input t) of
              None \<Rightarrow> cr_requested c
            | Some n \<Rightarrow> AList.update ''min_pages'' (JInt n) (cr_requested c))
      else cr_requested c)"

definition repair_payload :: "int \<Rightarrow> call_request \<Rightarrow> tool_repair \<Rightarrow> bool \<Rightarrow> jobj" where
  "repair_payload turn c p retry =
     [(''message'', JStr ''repair_applied''), (''turn'', JInt turn), (''tool'', JStr (cr_name c)),
      (''tool_call_id'', JStr (cr_id c)), (''phase'', JStr (rp_phase p)),
      (''pattern'', JStr (rp_pattern p)), (''changed_keys'', JArr (map JStr (rp_changed p))),
      (''retry'', JBool retry)]"

text \<open>Arguments after the structural repair that precedes counting.\<close>

definition repaired_call ::
  "agent_env \<Rightarrow> task \<Rightarrow> call_request \<Rightarrow> tool_table \<Rightarrow> call_request \<times> tool_repair option" where
  "repaired_call env t c ts =
     (let args = tool_arguments env t c;
          pre = ae_pre_repair env (cr_name c) args (map_option to_parameters (map_of ts (cr_name c)))
      in (c\<lparr>cr_arguments := (case pre of None \<Rightarrow> args | Some p \<Rightarrow> rp_arguments p)\<rparr>, pre))"

definition tool_not_available :: "call_request \<Rightarrow> tool_table \<Rightarrow> recoverable_error" where
  "tool_not_available c ts =
     \<lparr>re_code = ''tool_not_available'',
      re_message = ''Tool '' @ CHR 0x27 # cr_name c @ CHR 0x27 # '' is not available for this task.'',
      re_hint = Some (''Use one of the available tools: '' @ join '', '' (sorted_words (map fst ts)) @
        ''. Call describe_tools if you need details.''),
      re_details = []\<rparr>"

definition schema_loaded_result :: "call_request \<Rightarrow> tool_result" where
  "schema_loaded_result c =
     \<lparr>tr_output = [(''status'', JStr ''schema_loaded_retry_required''),
        (''message'', JStr (''Schema for '' @ CHR 0x27 # cr_name c @ CHR 0x27 # '' has been '' @
           ''loaded into this turn. Please re-examine '' @
           ''the input_schema and construct a valid '' @
           ''call with correct argument names, types, and nesting.''))],
      tr_cost = dec_zero, tr_artifacts = []\<rparr>"

definition register_if_absent :: "tool \<Rightarrow> tool_table \<Rightarrow> tool_table res" where
  "register_if_absent tool ts =
     (if to_name tool = [] then Inl (ValueError ''Tool name is required'')
      else if map_of ts (to_name tool) \<noteq> None then Inr ts
      else Inr (ts @ [(to_name tool, tool)]))"

text \<open>A tool that is not registered is loaded when it can be; its call is not executed.\<close>

definition load_missing_tool :: "agent_env \<Rightarrow> task \<Rightarrow> call_request \<Rightarrow> (run_world, tool_outcome) op" where
  "load_missing_tool env t c =
     catching
       (case ae_loader env (cr_name c) of
          None \<Rightarrow> raising (LookupErr (cr_name c))
        | Some tool \<Rightarrow>
            seq (\<lambda>w. case register_if_absent tool (rw_tools w) of
                   Inl e \<Rightarrow> (Inl e, w) | Inr ts \<Rightarrow> (Inr (), w\<lparr>rw_tools := ts\<rparr>)) (\<lambda>_.
            seq (log_event t Log [(''message'', JStr ''connected_tool_schema_loaded''),
                   (''tool'', JStr (cr_name c))]) (\<lambda>_.
            returning (Returned (schema_loaded_result c)))))
       (\<lambda>_. seq (reading rw_tools) (\<lambda>ts. returning (Recoverable (tool_not_available c ts))))"

definition execute_call :: "agent_env \<Rightarrow> task \<Rightarrow> call_request \<Rightarrow> attempt \<Rightarrow> (run_world, tool_outcome) op" where
  "execute_call env t c a =
     seq (enforce_soft_tool_call_cap c a) (\<lambda>_.
     seq (reading (\<lambda>w. map_of (rw_tools w) (cr_name c))) (\<lambda>registered.
     if cr_name c = ''codeact_exec'' \<and> ae_codeact env
     then seq (run_tool (ae_run_code env c)) (\<lambda>r. returning (Returned r))
     else if registered = None then load_missing_tool env t c
     else seq (run_tool (ae_invoke env (cr_name c) (cr_arguments c))) (\<lambda>r. returning (Returned r))))"

text \<open>What a tool raises on purpose becomes a result; anything else is logged and ends the run.\<close>

definition run_call :: "agent_env \<Rightarrow> task \<Rightarrow> int \<Rightarrow> call_request \<Rightarrow> attempt \<Rightarrow> (run_world, tool_outcome) op" where
  "run_call env t turn c a =
     catching (execute_call env t c a) (\<lambda>e.
       case e of
         RecoverableTool r \<Rightarrow> returning (Recoverable r)
       | _ \<Rightarrow>
           seq (append_exception env t e
             [(''turn'', JInt turn), (''phase'', JStr ''tool_invoke''), (''tool_call_id'', JStr (cr_id c)),
              (''tool'', JStr (cr_name c)), (''latency_ms'', JInt (ae_latency env c))]) (\<lambda>_.
           raising e))"

section \<open>Repair after a failure\<close>

text \<open>One retry per call id, with repaired arguments, straight at the registry.\<close>

definition retry_repaired :: "agent_env \<Rightarrow> call_request \<Rightarrow> tool_repair \<Rightarrow> (run_world, tool_result option) op" where
  "retry_repaired env c p =
     catching
       (seq (reading (\<lambda>w. map_of (rw_tools w) (cr_name c))) (\<lambda>registered.
        if registered = None then raising (LookupErr (cr_name c))
        else seq (run_tool (ae_invoke env (cr_name c) (rp_arguments p))) (\<lambda>r. returning (Some r))))
       (\<lambda>_. returning None)"

definition post_repair ::
  "agent_env \<Rightarrow> task \<Rightarrow> int \<Rightarrow> call_request \<Rightarrow> tool_outcome \<Rightarrow> string list \<Rightarrow>
   (run_world, (tool_result \<times> classified_error option) \<times> string list) op" where
  "post_repair env t turn c outcome retried =
     (let rk = read_outcome c outcome in
      case outcome of
        Returned _ \<Rightarrow> returning (rk, retried)
      | Recoverable e \<Rightarrow>
          if cr_id c \<in> set retried then returning (rk, retried)
          else
            (case ae_post_repair env (cr_name c) (cr_arguments c) (fst rk) e of
               None \<Rightarrow> returning (rk, retried)
             | Some p \<Rightarrow>
                 if \<not> rp_retry p then returning (rk, retried)
                 else
                   seq (retry_repaired env c p) (\<lambda>again. case again of
                     None \<Rightarrow> returning (rk, cr_id c # retried)
                   | Some r \<Rightarrow>
                       seq (catching (log_event t Log (repair_payload turn c p True)) (\<lambda>_. returning ())) (\<lambda>_.
                       returning ((r\<lparr>tr_output := AList.update ''tool_repair'' (repair_note p) (tr_output r)\<rparr>,
                                   None), cr_id c # retried)))))"

section \<open>Replanning\<close>

definition recovery_plan_of ::
  "agent_env \<Rightarrow> task \<Rightarrow> tool_table \<Rightarrow> call_request \<Rightarrow> tool_result \<Rightarrow> classified_error \<Rightarrow>
   (run_world, recovery_plan) op" where
  "recovery_plan_of env t ts c r k =
     seq (reading rw_plan) (\<lambda>p.
     seq (call_model env t (ae_recovery_request env t p c k r ts) []) (\<lambda>co.
     seq (lifting (parse_recovery_plan_payload (ae_loads env) (co_content co))) (\<lambda>answer.
     returning (recovery_payload_to_recovery_plan (ae_uuid env (length (pl_recoveries p))) answer
       (cr_name c) k (map fst ts) ''llm_recovery_planner''))))"

definition replan_after_failure ::
  "agent_env \<Rightarrow> task \<Rightarrow> tool_table \<Rightarrow> int \<Rightarrow> call_request \<Rightarrow> tool_result \<Rightarrow> classified_error \<Rightarrow> (run_world, unit) op" where
  "replan_after_failure env t ts turn c r k =
     seq (reading rw_plan) (\<lambda>p.
     if pl_mode p \<noteq> Planned then returning ()
     else
       seq (reading (\<lambda>w. make_fallback_recovery_plan (ae_uuid env (length (pl_recoveries p)))
              (cr_name c) k (map fst (rw_tools w)))) (\<lambda>fallback.
       seq (if ce_action k = Stop_Safely then returning fallback
            else catching (recovery_plan_of env t ts c r k) (\<lambda>e.
              seq (reading (\<lambda>w. length (rw_messages w))) (\<lambda>n.
              seq (append_execution_log t ''execution_recovery_planner_failed''
                [(''turn'', JInt turn), (''tool_call_id'', JStr (cr_id c)), (''tool'', JStr (cr_name c)),
                 (''error_code'', JStr (ce_code k)),
                 (''error_category'', JStr (category_value (ce_category k))),
                 (''recovery_action'', JStr (recovery_value (ce_action k))),
                 (''error_type'', JStr (fst (ae_describe env e))),
                 (''error'', JStr (snd (ae_describe env e))),
                 (''fallback_source'', JStr (rp_source fallback)),
                 (''message_count'', JInt (int n))]) (\<lambda>_.
              returning fallback)))) (\<lambda>rp.
       seq (on_plan (\<lambda>p. (Inr (), record_recovery_plan rp p))) (\<lambda>_.
       seq (reading remaining_json) (\<lambda>left.
       seq (reading (\<lambda>w. length (rw_messages w))) (\<lambda>n.
       seq (append_execution_log t ''execution_recovery_plan_created''
         [(''turn'', JInt turn), (''tool_call_id'', JStr (cr_id c)), (''tool'', JStr (cr_name c)),
          (''recovery_plan'', JObj (recovery_payload rp)), (''budget_remaining'', left),
          (''message_count'', JInt (int n))]) (\<lambda>_.
       say \<lparr>cm_role = ''system'', cm_content = Some (render_recovery_plan_context rp),
            cm_call_id = None, cm_calls = []\<rparr>)))))))"

section \<open>The calls of a completion\<close>

datatype call_end = Call_Done nat | Call_Stopped approval_request

text \<open>\<open>schemas\<close> are the tools the model was shown at the start of the turn.\<close>

definition invoke_tool_call ::
  "agent_env \<Rightarrow> task \<Rightarrow> tool_table \<Rightarrow> int \<Rightarrow> call_request \<Rightarrow> string list \<Rightarrow>
   (run_world, call_end \<times> string list) op" where
  "invoke_tool_call env t schemas turn c0 retried =
     seq (check_cancelled t (''before_tool_'' @ cr_name c0)) (\<lambda>_.
     seq (reading rw_tools) (\<lambda>ts.
     case repaired_call env t c0 ts of (c, pre) \<Rightarrow>
     seq (case pre of None \<Rightarrow> returning ()
          | Some p \<Rightarrow> log_event t Log (repair_payload turn c p (rp_retry p))) (\<lambda>_.
     seq (prepare_call (ae_gate env) (map_of ts) (ae_sha env) (ae_limit env) t c turn) (\<lambda>stage.
     case stage of
       Needs_Approval rq \<Rightarrow> returning (Call_Stopped rq, retried)
     | Skipped n \<Rightarrow> returning (Call_Done n, retried)
     | Ready a \<Rightarrow>
         seq (run_call env t turn c a) (\<lambda>outcome.
         seq (post_repair env t turn c outcome retried) (\<lambda>((r, k), retried').
         seq (settle_call (ae_gate env) (ae_limit env) t c a turn (ae_latency env c) r k pre) (\<lambda>n.
         seq (case k of None \<Rightarrow> returning ()
              | Some e \<Rightarrow> replan_after_failure env t schemas turn c r e) (\<lambda>_.
         returning (Call_Done n, retried')))))))))"

fun invoke_tool_calls ::
  "agent_env \<Rightarrow> task \<Rightarrow> tool_table \<Rightarrow> int \<Rightarrow> call_request list \<Rightarrow> string list \<Rightarrow> nat \<Rightarrow>
   (run_world, call_end) op" where
  "invoke_tool_calls env t schemas turn [] retried n = returning (Call_Done n)"
| "invoke_tool_calls env t schemas turn (c # cs) retried n =
     seq (invoke_tool_call env t schemas turn c retried) (\<lambda>(e, retried'). case e of
       Call_Stopped rq \<Rightarrow> returning (Call_Stopped rq)
     | Call_Done m \<Rightarrow> invoke_tool_calls env t schemas turn cs retried' (n + m))"

section \<open>One completion\<close>

definition empty_completion_retries :: nat where
  "empty_completion_retries = 2"

definition has_text :: "string option \<Rightarrow> bool" where
  "has_text content = (case content of None \<Rightarrow> False | Some s \<Rightarrow> strip s \<noteq> [])"

text \<open>An empty completion is asked for again, up to twice.\<close>

fun complete_with_empty_retry ::
  "agent_env \<Rightarrow> task \<Rightarrow> tool_table \<Rightarrow> int \<Rightarrow> nat \<Rightarrow> (run_world, completion) op" where
  "complete_with_empty_retry env t schemas turn left =
     seq (reading rw_messages) (\<lambda>ms.
     seq (catching (call_model env t ms schemas) (\<lambda>e.
            seq (append_exception env t e [(''turn'', JInt turn), (''phase'', JStr ''llm_complete'')]) (\<lambda>_.
            raising e))) (\<lambda>co.
     if has_text (co_content co) \<or> co_calls co \<noteq> [] then returning co
     else
       (case left of
          0 \<Rightarrow> returning co
        | Suc n \<Rightarrow>
            seq (run_log t ''agent_empty_completion_retry''
              [(''turn'', JInt turn), (''attempt'', JInt (int (empty_completion_retries - n))),
               (''model'', JStr (co_model co))]) (\<lambda>_.
            complete_with_empty_retry env t schemas turn n))))"

definition complete_turn :: "agent_env \<Rightarrow> task \<Rightarrow> tool_table \<Rightarrow> int \<Rightarrow> (run_world, completion) op" where
  "complete_turn env t schemas turn =
     seq (reading (\<lambda>w. length (rw_messages w))) (\<lambda>n.
     seq (run_log t ''agent_llm_turn_started''
       [(''turn'', JInt turn), (''message_count'', JInt (int n)),
        (''tool_count'', JInt (int (length schemas)))]) (\<lambda>_.
     seq (complete_with_empty_retry env t schemas turn empty_completion_retries) (\<lambda>co.
     seq (run_log t ''agent_llm_turn_completed''
       [(''turn'', JInt turn), (''response_id'', jopt_str (co_response_id co)),
        (''model'', JStr (co_model co)),
        (''has_content'', JBool (truthy (co_content co) \<noteq> None)),
        (''tool_calls'', JArr (map (\<lambda>c. JObj [(''id'', JStr (cr_id c)), (''name'', JStr (cr_name c))])
           (co_calls co)))]) (\<lambda>_.
     returning co))))"

section \<open>How a run ends\<close>

record run_result =
  rr_summary :: string
  rr_turns :: int
  rr_artifacts :: nat
  rr_partial :: bool

text \<open>Texts of the module; its dash is written with the bytes of UTF-8.\<close>

definition empty_final_fallback_message :: string where
  "empty_final_fallback_message =
     ''I hit a hiccup composing a reply just now. Mind trying again, or rephrasing the request?''"

definition partial_fallback_message :: string where
  "partial_fallback_message =
     ''I ran out of room to finish this one. I made progress but couldn'' @ CHR 0x27 # ''t wrap it up '' @
     em_dash @ '' want me to keep going?''"

definition partial_synthesis_prompt :: string where
  "partial_synthesis_prompt =
     ''You have reached this task'' @ CHR 0x27 # ''s execution budget and cannot take any more '' @
     ''steps or call any tools. Using ONLY what you have already gathered above, '' @
     ''write the most useful answer you can right now: give the partial findings, '' @
     ''state briefly what is still missing, and offer to continue if the user '' @
     ''wants. Do not ask to call tools; just summarize what you have.''"

definition empty_response_repair_prompt :: string where
  "empty_response_repair_prompt =
     ''Your previous response was empty. Use the available context and tool '' @
     ''results to either call the next required tool or provide a concise final '' @
     ''answer. Do not return an empty message.''"

definition completion_nudge_prompt :: "string list \<Rightarrow> string" where
  "completion_nudge_prompt missing =
     ''You are about to give a final answer but have not used '' @ join '', '' missing @ '' yet, '' @
     ''which this request needs. Call the relevant tool now (use find_tools '' @
     ''first if its schema is not loaded), or if a required input is missing, '' @
     ''ask one concise question. Do not give a final answer yet.''"

definition system_message :: "string \<Rightarrow> chat_message" where
  "system_message text =
     \<lparr>cm_role = ''system'', cm_content = Some text, cm_call_id = None, cm_calls = []\<rparr>"

definition finish_run ::
  "task \<Rightarrow> string \<Rightarrow> int \<Rightarrow> nat \<Rightarrow> string \<Rightarrow> bool \<Rightarrow> (run_world, run_result) op" where
  "finish_run t summary turn artifacts reason partial =
     seq (on_gate (on_db (update_task (t_id t) (\<lambda>r. r\<lparr>t_result_summary := Some summary\<rparr>)))) (\<lambda>_.
     seq (on_plan complete_plan) (\<lambda>s.
     seq (reading remaining_json) (\<lambda>left.
     seq (append_execution_log t ''execution_step_completed''
       [(''step'', JObj (step_payload s)), (''turns'', JInt turn), (''reason'', JStr reason),
        (''artifact_count'', JInt (int artifacts)), (''partial'', JBool partial),
        (''budget_remaining'', left)]) (\<lambda>_.
     seq (run_log t ''agent_completed''
       [(''turns'', JInt turn), (''reason'', JStr reason), (''artifact_count'', JInt (int artifacts)),
        (''partial'', JBool partial)]) (\<lambda>_.
     returning \<lparr>rr_summary = summary, rr_turns = turn, rr_artifacts = artifacts, rr_partial = partial\<rparr>)))))"

definition final_text :: "agent_env \<Rightarrow> task \<Rightarrow> string option \<Rightarrow> string" where
  "final_text env t content =
     strip (ae_humanize env (t_input t) (case content of None \<Rightarrow> [] | Some s \<Rightarrow> s))"

definition finish_with_text ::
  "agent_env \<Rightarrow> task \<Rightarrow> string option \<Rightarrow> int \<Rightarrow> (run_world, run_result) op" where
  "finish_with_text env t content turn =
     (let summary = final_text env t content in
      if summary = [] then
        seq (run_log t ''agent_empty_final_fallback''
          [(''turn'', JInt turn), (''phase'', JStr ''final_content'')]) (\<lambda>_.
        finish_run t empty_final_fallback_message turn 0 ''empty_final_fallback'' False)
      else finish_run t summary turn 0 ''final_answer'' False)"

definition finish_with_partial ::
  "agent_env \<Rightarrow> task \<Rightarrow> int \<Rightarrow> string \<Rightarrow> (run_world, run_result) op" where
  "finish_with_partial env t turn reason =
     seq (run_log t ''agent_partial_synthesis_started''
       [(''turn'', JInt turn), (''reason'', JStr reason)]) (\<lambda>_.
     seq (reading rw_messages) (\<lambda>ms.
     seq (catching
       (seq (call_model env t (ms @ [system_message partial_synthesis_prompt]) []) (\<lambda>co.
        returning (final_text env t (co_content co))))
       (\<lambda>e. seq (append_exception env t e
              [(''turn'', JInt turn), (''phase'', JStr ''partial_synthesis'')]) (\<lambda>_. returning []))) (\<lambda>summary.
     finish_run t (if summary = [] then partial_fallback_message else summary) turn 0
       (''partial_'' @ reason) True)))"

definition finish_with_artifacts :: "task \<Rightarrow> int \<Rightarrow> nat \<Rightarrow> (run_world, run_result) op" where
  "finish_with_artifacts t turn n =
     finish_run t (''Generated '' @ int_str (int n) @ '' '' @
       (if n = 1 then ''artifact'' else ''artifacts'') @ ''.'') turn n ''artifact'' False"

section \<open>The turns\<close>

definition max_completion_nudges :: nat where
  "max_completion_nudges = 2"

definition missing_required_legs :: "string list \<Rightarrow> string list \<Rightarrow> string list" where
  "missing_required_legs required called =
     sorted_words (filter (\<lambda>leg. \<not> list_ex (contains leg) called) required)"

text \<open>The connected toolkits the intent named.\<close>

definition required_connected_legs :: "uuid \<Rightarrow> db \<Rightarrow> string list" where
  "required_connected_legs tid d =
     (case effective_intent_decision (latest_intent_decision (events_of tid d)) of
        None \<Rightarrow> []
      | Some decision \<Rightarrow>
          (case jget decision ''toolkit_affinity'' of
             JArr xs \<Rightarrow> remdups (map casefold (filter (\<lambda>s. s \<noteq> []) (List.map_filter json_str xs)))
           | _ \<Rightarrow> []))"

datatype turn_end =
    Next_Turn "string list" nat
  | Run_Ended run_result
  | Run_Parked approval_request

definition called_names :: "completion \<Rightarrow> string list" where
  "called_names co = map (\<lambda>c. casefold (cr_name c)) (filter (\<lambda>c. cr_name c \<noteq> []) (co_calls co))"

text \<open>A completion without tool calls: asked again when empty, nudged when a connected toolkit the
  request named was never used, else the final answer.\<close>

definition without_calls ::
  "agent_env \<Rightarrow> task \<Rightarrow> tool_table \<Rightarrow> int \<Rightarrow> string list \<Rightarrow> completion \<Rightarrow> string list \<Rightarrow> nat \<Rightarrow>
   (run_world, turn_end) op" where
  "without_calls env t schemas turn legs co called nudges =
     (let before_last = turn < gl_turns (ae_limits env); missing = missing_required_legs legs called in
      if \<not> has_text (co_content co) \<and> before_last then
        seq (reading (\<lambda>w. length (rw_messages w))) (\<lambda>n.
        seq (run_log t ''agent_empty_response_retry''
          [(''turn'', JInt turn), (''message_count'', JInt (int n)),
           (''tool_count'', JInt (int (length schemas)))]) (\<lambda>_.
        seq (say (system_message empty_response_repair_prompt)) (\<lambda>_.
        returning (Next_Turn called nudges))))
      else if missing \<noteq> [] \<and> before_last \<and> nudges < max_completion_nudges then
        seq (run_log t ''agent_completion_leg_nudge''
          [(''turn'', JInt turn), (''missing_toolkits'', strs missing),
           (''nudge'', JInt (int (Suc nudges)))]) (\<lambda>_.
        seq (say (system_message (completion_nudge_prompt missing))) (\<lambda>_.
        returning (Next_Turn called (Suc nudges))))
      else seq (finish_with_text env t (co_content co) turn) (\<lambda>r. returning (Run_Ended r)))"

text \<open>No artifact was produced in an earlier turn, since producing one ends the run.\<close>

definition with_calls ::
  "agent_env \<Rightarrow> task \<Rightarrow> tool_table \<Rightarrow> int \<Rightarrow> completion \<Rightarrow> string list \<Rightarrow> nat \<Rightarrow> (run_world, turn_end) op" where
  "with_calls env t schemas turn co called nudges =
     seq (catching
       (seq (invoke_tool_calls env t schemas turn (co_calls co) [] 0) (\<lambda>e. returning (Inl e)))
       (\<lambda>e. case e of
          BudgetExhaustedRun reason \<Rightarrow>
            seq (finish_with_partial env t turn reason) (\<lambda>r. returning (Inr r))
        | _ \<Rightarrow> raising e)) (\<lambda>x. case x of
       Inr r \<Rightarrow> returning (Run_Ended r)
     | Inl (Call_Stopped rq) \<Rightarrow> returning (Run_Parked rq)
     | Inl (Call_Done n) \<Rightarrow>
         if n = 0 then returning (Next_Turn called nudges)
         else seq (finish_with_artifacts t turn n) (\<lambda>r. returning (Run_Ended r)))"

definition one_turn ::
  "agent_env \<Rightarrow> task \<Rightarrow> string list \<Rightarrow> int \<Rightarrow> string list \<Rightarrow> nat \<Rightarrow> (run_world, turn_end) op" where
  "one_turn env t legs turn called nudges =
     catching
       (seq (reading rw_tools) (\<lambda>schemas.
        seq (complete_turn env t schemas turn) (\<lambda>co.
        seq (check_cancelled t (''after_turn_'' @ int_str turn @ ''_completion'')) (\<lambda>_.
        seq (say \<lparr>cm_role = ''assistant'', cm_content = co_content co, cm_call_id = None,
                  cm_calls = co_calls co\<rparr>) (\<lambda>_.
        let called' = called @ called_names co in
        if co_calls co = [] then without_calls env t schemas turn legs co called' nudges
        else with_calls env t schemas turn co called' nudges)))))
       (\<lambda>e. case e of
          CostBudgetExceeded ceiling current \<Rightarrow>
            seq (run_log t ''agent_cost_budget_exceeded''
              [(''ceiling_usd'', JStr ceiling), (''current_usd'', JStr current), (''turn'', JInt turn)]) (\<lambda>_.
            seq (finish_run t ''stopped: cost ceiling reached'' turn 0 ''cost_ceiling_exceeded'' True) (\<lambda>r.
            returning (Run_Ended r)))
        | _ \<Rightarrow> raising e)"

text \<open>\<open>left\<close> turns remain; the next one has number \<open>max_turns - left + 1\<close>.\<close>

fun turn_loop ::
  "agent_env \<Rightarrow> task \<Rightarrow> string list \<Rightarrow> nat \<Rightarrow> string list \<Rightarrow> nat \<Rightarrow> (run_world, turn_end) op" where
  "turn_loop env t legs 0 called nudges =
     seq (finish_with_partial env t (gl_turns (ae_limits env)) ''max_turns_exceeded'') (\<lambda>r.
     returning (Run_Ended r))"
| "turn_loop env t legs (Suc left) called nudges =
     (let turn = gl_turns (ae_limits env) - int left in
      seq (check_cancelled t (''before_turn_'' @ int_str turn)) (\<lambda>_.
      seq (one_turn env t legs turn called nudges) (\<lambda>e. case e of
        Next_Turn called' nudges' \<Rightarrow> turn_loop env t legs left called' nudges'
      | _ \<Rightarrow> returning e)))"

section \<open>A run\<close>

definition create_execution_plan :: "agent_env \<Rightarrow> task \<Rightarrow> tool_table \<Rightarrow> (run_world, plan) op" where
  "create_execution_plan env t schemas =
     (let basic = make_default_execution_plan (ae_uuid env 0) (t_id t) (t_input t) (map fst schemas)
            (ae_limits env) in
      seq (reading (\<lambda>w. latest_intent_decision (events_of (t_id t) (gw_db (rw_gate w))))) (\<lambda>decision.
      case should_plan (t_input t) (map fst schemas) decision of (planning, reason) \<Rightarrow>
        if \<not> planning then returning (basic\<lparr>pl_reason := Some reason\<rparr>)
        else
          catching
            (seq (call_model env t (ae_plan_request env t schemas decision) []) (\<lambda>co.
             seq (lifting (parse_planned_execution_payload (ae_loads env) (co_content co))) (\<lambda>px.
             returning (planned_payload_to_execution_plan (ae_uuid env 0) (t_id t) px (ae_limits env)
               (map fst schemas) reason))))
            (\<lambda>e. seq (run_log t ''execution_planner_failed''
               [(''reason'', JStr reason), (''error_type'', JStr (fst (ae_describe env e))),
                (''error'', JStr (snd (ae_describe env e))),
                (''fallback_mode'', JStr (mode_value Inline))]) (\<lambda>_.
             returning (basic\<lparr>pl_source := ''planner_fallback'', pl_reason := Some reason\<rparr>)))))"

text \<open>The plan goes before the last message of the user, or at the end.\<close>

definition messages_with_execution_plan :: "chat_message list \<Rightarrow> plan \<Rightarrow> chat_message list" where
  "messages_with_execution_plan ms p =
     (if pl_mode p \<noteq> Planned then ms
      else
        (let plan_context = system_message (render_execution_plan_context p);
             after = takeWhile (\<lambda>m. cm_role m \<noteq> ''user'') (rev ms);
             until = dropWhile (\<lambda>m. cm_role m \<noteq> ''user'') (rev ms)
         in case until of
              [] \<Rightarrow> ms @ [plan_context]
            | u # before \<Rightarrow> rev before @ [plan_context, u] @ rev after))"

definition run_with_context ::
  "agent_env \<Rightarrow> task \<Rightarrow> chat_message list \<Rightarrow> (run_world, turn_end) op" where
  "run_with_context env t ms =
     seq (reading rw_tools) (\<lambda>schemas.
     seq (create_execution_plan env t schemas) (\<lambda>p.
     seq (on_plan (\<lambda>_. (Inr (), p))) (\<lambda>_.
     seq (append_execution_log t ''execution_plan_created'' [(''plan'', JObj (plan_payload p))]) (\<lambda>_.
     seq (writing (\<lambda>w. w\<lparr>rw_messages := messages_with_execution_plan ms p\<rparr>)) (\<lambda>_.
     seq (on_plan start_plan) (\<lambda>s.
     seq (reading remaining_json) (\<lambda>left.
     seq (append_execution_log t ''execution_step_started''
       [(''step'', JObj (step_payload s)), (''budget_remaining'', left)]) (\<lambda>_.
     seq (reading (\<lambda>w. map fst (rw_tools w))) (\<lambda>names.
     seq (run_log t ''agent_started'' [(''tool_names'', strs names)]) (\<lambda>_.
     seq (reading (\<lambda>w. required_connected_legs (t_id t) (gw_db (rw_gate w)))) (\<lambda>legs.
     turn_loop env t legs (nat (gl_turns (ae_limits env))) [] 0)))))))))))"

definition outcome_name :: "(py_error + turn_end) \<Rightarrow> string" where
  "outcome_name r =
     (case r of
        Inl (ConnectionRequired _ _) \<Rightarrow> ''waiting_approval''
      | Inl _ \<Rightarrow> ''failed''
      | Inr (Run_Parked _) \<Rightarrow> ''waiting_approval''
      | Inr _ \<Rightarrow> ''succeeded'')"

text \<open>The \<open>finally\<close> of a run: the context engine hears the outcome, and its exceptions are dropped.\<close>

definition after_context_turn ::
  "agent_env \<Rightarrow> task \<Rightarrow> (run_world, turn_end) op \<Rightarrow> (run_world, turn_end) op" where
  "after_context_turn env t m =
     (\<lambda>w. case m w of (r, w') \<Rightarrow>
        (r, snd (on_gate (on_db (ae_after_turn env t (outcome_name r))) w')))"

definition run_agent :: "agent_env \<Rightarrow> uuid \<Rightarrow> (run_world, turn_end) op" where
  "run_agent env tid =
     seq (on_gate (on_db (resolve_task tid))) (\<lambda>t.
     seq (on_gate (on_db (ae_assemble env t))) (\<lambda>cx.
     after_context_turn env t
       (seq (on_gate (arm_trifecta_if_images (ae_gate env) t (cx_has_images cx))) (\<lambda>_.
        seq (case cx_ranking cx of None \<Rightarrow> returning ()
             | Some p \<Rightarrow> run_log t ''skill_ranking'' p) (\<lambda>_.
        run_with_context env t
          (map (\<lambda>m. m\<lparr>cm_content := map_option (ae_personalize env) (cm_content m)\<rparr>)
             (cx_messages cx)))))))"

end
