(* ===== verification/Provider_Failure.thy ===== *)
theory Provider_Failure
  imports Py_Numbers
begin

text \<open>
  \<open>kortny/llm/errors.py\<close>: what a failed run tells the user when the model provider rejected the
  request. An exception is its class name, its text and its \<open>status_code\<close> attribute.
\<close>

datatype provider_failure_kind = Billing | Auth | Rate_Limit | Context_Window

datatype status_attr = No_Status | Bool_Status bool | Int_Status int | Str_Status string | Other_Status

fun failure_message :: "provider_failure_kind \<Rightarrow> string" where
  "failure_message Billing =
     ''I couldn'' @ CHR 0x27 # ''t finish that: the language-model provider rejected the request '' @
     ''for billing reasons (out of credits, or over the configured spending '' @
     ''limit). An admin needs to top up the provider account or raise the API '' @
     ''key'' @ CHR 0x27 # ''s limit, then you can retry.''"
| "failure_message Auth =
     ''I couldn'' @ CHR 0x27 # ''t reach the language model: the provider rejected the API key '' @
     ''(authentication failed). An admin needs to check the LLM provider '' @
     ''credentials in the Kortny configuration.''"
| "failure_message Rate_Limit =
     ''The language-model provider is rate-limiting requests right now. Give it a '' @
     ''moment and try again '' @ [CHR 0xE2, CHR 0x80, CHR 0x94] @
     '' if it keeps happening, an admin may need to raise '' @
     ''the account'' @ CHR 0x27 # ''s rate limits.''"
| "failure_message Context_Window =
     ''This request was too large for the configured model'' @ CHR 0x27 # ''s context window. Try '' @
     ''a shorter request, or an admin can switch to a model with a larger context.''"

definition billing_markers :: "string list" where
  "billing_markers =
     [''credit'', ''insufficient_quota'', ''insufficient quota'', ''billing'', ''payment required'',
      ''quota'', ''exceeded your current quota'', ''spending limit'', ''budget'']"

definition auth_markers :: "string list" where
  "auth_markers =
     [''api key'', ''api-key'', ''authentication'', ''unauthorized'', ''invalid_api_key'',
      ''no auth credentials'', ''incorrect api key'']"

definition context_window_markers :: "string list" where
  "context_window_markers =
     [''context window'', ''context_length_exceeded'', ''maximum context length'', ''too many tokens'',
      ''reduce the length'']"

definition status_code :: "status_attr \<Rightarrow> int option" where
  "status_code a =
     (case a of
        Int_Status n \<Rightarrow> Some n
      | Str_Status s \<Rightarrow>
          if s \<noteq> [] \<and> list_all is_digit s then Some (int (digits_value 10 s)) else None
      | _ \<Rightarrow> None)"

definition failure_haystack :: "string \<Rightarrow> string \<Rightarrow> string" where
  "failure_haystack class_name message = casefold (class_name @ '' '' @ message)"

definition classify_provider_failure ::
  "string \<Rightarrow> string \<Rightarrow> status_attr \<Rightarrow> provider_failure_kind option" where
  "classify_provider_failure class_name message attr =
     (let status = status_code attr; haystack = failure_haystack class_name message in
      if status = Some 402 \<or> contains_any billing_markers haystack then Some Billing
      else if status \<in> {Some 401, Some 403} \<or> contains_any auth_markers haystack then Some Auth
      else if contains_any context_window_markers haystack then Some Context_Window
      else if status = Some 429 \<or> contains ''rate limit'' haystack \<or> contains ''ratelimit'' haystack
      then Some Rate_Limit
      else None)"

end
