(* ===== verification/Schedule_Intent.thy ===== *)
theory Schedule_Intent
  imports Task_Store
begin

text \<open>
  \<open>kortny/schedule_intent.py\<close> and \<open>kortny/routing/tier0.py\<close>: the test for a question about existing
  schedules, what it is asked about, and the direct route such a task takes; with
  \<open>kortny/routing/trace.py\<close>, the payload of a routing decision.

  The patterns are alternatives of fixed words between word boundaries; an alternative with a group
  inside is written out, in the order the group has.
\<close>

section \<open>Words between boundaries\<close>

text \<open>The class \<open>\w\<close> on ASCII.\<close>

definition regex_word :: "char \<Rightarrow> bool" where
  "regex_word c \<longleftrightarrow> c \<in> set ''abcdefghijklmnopqrstuvwxyzABCDEFGHIJKLMNOPQRSTUVWXYZ0123456789_''"

definition head_is_word :: "string \<Rightarrow> bool" where
  "head_is_word s = (case s of [] \<Rightarrow> False | c # s' \<Rightarrow> regex_word c)"

text \<open>A match of \<open>\b(w1|w2|...)\b\<close> at the head of a text; \<open>prev\<close> tells whether the character before
  it is one of \<open>\w\<close>. Every alternative starts and ends with one.\<close>

definition word_match :: "string list \<Rightarrow> bool \<Rightarrow> string \<Rightarrow> string option" where
  "word_match alts prev s =
     (if prev \<or> \<not> head_is_word s then None
      else find (\<lambda>w. starts_with w s \<and> \<not> head_is_word (drop (length w) s)) alts)"

fun word_search :: "string list \<Rightarrow> bool \<Rightarrow> string \<Rightarrow> bool" where
  "word_search alts prev [] = False"
| "word_search alts prev (c # s) =
     (word_match alts prev (c # s) \<noteq> None \<or> word_search alts (regex_word c) s)"

text \<open>\<open>re.sub\<close> of the matches by a blank.\<close>

fun word_blank :: "string list \<Rightarrow> bool \<Rightarrow> string \<Rightarrow> string" where
  "word_blank alts prev [] = []"
| "word_blank alts prev (c # s) =
     (case word_match alts prev (c # s) of
        None \<Rightarrow> c # word_blank alts (regex_word c) s
      | Some w \<Rightarrow> CHR '' '' # word_blank alts True (drop (length w - 1) s))"

text \<open>A word with one boundary only.\<close>

fun word_start_search :: "string \<Rightarrow> bool \<Rightarrow> string \<Rightarrow> bool" where
  "word_start_search w prev [] = False"
| "word_start_search w prev (c # s) =
     ((\<not> prev \<and> starts_with w (c # s)) \<or> word_start_search w (regex_word c) s)"

fun word_end_search :: "string \<Rightarrow> string \<Rightarrow> bool" where
  "word_end_search w [] = False"
| "word_end_search w (c # s) =
     ((starts_with w (c # s) \<and> \<not> head_is_word (drop (length w) (c # s))) \<or> word_end_search w s)"

text \<open>\<open>re.sub(r"\s+", " ", text)\<close>: the last blank of a run stands for the run.\<close>

fun collapse_spaces :: "string \<Rightarrow> string" where
  "collapse_spaces [] = []"
| "collapse_spaces (c # s) =
     (if \<not> is_space c then c # collapse_spaces s
      else if s \<noteq> [] \<and> is_space (hd s) then collapse_spaces s
      else CHR '' '' # collapse_spaces s)"

definition strip_chars :: "string \<Rightarrow> string \<Rightarrow> string" where
  "strip_chars cs s =
     rev (dropWhile (\<lambda>c. c \<in> set cs) (rev (dropWhile (\<lambda>c. c \<in> set cs) s)))"

section \<open>Schedule questions\<close>

definition normalize_schedule_intent_text :: "string \<Rightarrow> string" where
  "normalize_schedule_intent_text v = strip (collapse_spaces (casefold v))"

definition schedule_ref_words :: "string list" where
  "schedule_ref_words = [''schedule'', ''scheduled'', ''schedules'', ''recurring'', ''cron'']"

definition schedule_state_words :: "string list" where
  "schedule_state_words =
     [''do i have'', ''have i got'', ''is there'', ''are there'', ''what'' @ CHR 0x27 # ''s'',
      ''what is'', ''which'', ''show'', ''list'', ''tell me'', ''check'', ''active'', ''paused'',
      ''running'', ''enabled'', ''disabled'', ''next run'', ''last run'', ''when does'', ''when will'',
      ''where does'', ''where will'', ''delivery'', ''deliver'', ''delivers'', ''status'']"

definition filler_words :: "string list" where
  "filler_words =
     [''a'', ''an'', ''the'', ''my'', ''me'', ''for'', ''of'', ''about'', ''any'', ''existing'',
      ''currently'', ''right now'', ''please'', ''can you'', ''could you'', ''would you'', ''whether'',
      ''if'']"

definition is_schedule_state_question :: "string \<Rightarrow> bool" where
  "is_schedule_state_question v =
     (let normalized = normalize_schedule_intent_text v
      in word_search schedule_ref_words False normalized \<and>
         word_search schedule_state_words False normalized)"

definition schedule_state_query_text :: "string \<Rightarrow> string option" where
  "schedule_state_query_text v =
     (let cut = word_blank filler_words False (word_blank schedule_ref_words False
            (word_blank schedule_state_words False (normalize_schedule_intent_text v)));
          query = strip_chars '' ?.!,'' (collapse_spaces cut)
      in if query = [] then None else Some query)"

text \<open>Only the first alternative of each pattern starts at a boundary and only the last ends at one.\<close>

definition schedule_state_status_filter :: "string \<Rightarrow> string" where
  "schedule_state_status_filter v =
     (let s = normalize_schedule_intent_text v in
      if word_start_search ''active'' False s \<or> contains ''running'' s \<or> word_end_search ''enabled'' s
      then ''active''
      else if word_start_search ''paused'' False s \<or> contains ''disabled'' s \<or> word_end_search ''stopped'' s
      then ''paused''
      else if word_start_search ''proposed'' False s \<or> contains ''draft'' s \<or> contains ''waiting'' s \<or>
        word_end_search ''unconfirmed'' s
      then ''proposed''
      else if word_start_search ''cancelled'' False s \<or> contains ''canceled'' s \<or> contains ''completed'' s \<or>
        word_end_search ''inactive'' s
      then ''all''
      else ''open'')"

section \<open>Routing decisions\<close>

text \<open>A float field carries the text of its value.\<close>

record routing_trace =
  rt_stage :: string
  rt_route_tier :: string
  rt_source :: string
  rt_runtime_class :: "string option"
  rt_intent :: "string option"
  rt_confidence :: "string option"
  rt_margin :: "string option"
  rt_escalated :: "bool option"
  rt_selected_runtime :: "string option"
  rt_selected_backend :: "string option"
  rt_actual_path :: "string option"
  rt_reason :: "string option"
  rt_reason_codes :: "string list"
  rt_candidate_tools :: "int option"
  rt_selector_candidates :: "int option"
  rt_selected_tools :: "string list"
  rt_suppressed_tools :: "string list"
  rt_shadow_runtime_class :: "string option"
  rt_shadow_route :: "string option"
  rt_shadow_planned :: "bool option"
  rt_shadow_confidence :: "string option"
  rt_response_depth :: "string option"
  rt_time_sensitivity :: "string option"
  rt_toolkit_affinity :: "string list"
  rt_depth_source :: "string option"
  rt_depth_agreement :: "bool option"
  rt_metadata :: jobj

definition new_trace :: "string \<Rightarrow> string \<Rightarrow> string \<Rightarrow> routing_trace" where
  "new_trace stage tier source =
     \<lparr>rt_stage = stage, rt_route_tier = tier, rt_source = source, rt_runtime_class = None,
      rt_intent = None, rt_confidence = None, rt_margin = None, rt_escalated = None,
      rt_selected_runtime = None, rt_selected_backend = None, rt_actual_path = None, rt_reason = None,
      rt_reason_codes = [], rt_candidate_tools = None, rt_selector_candidates = None,
      rt_selected_tools = [], rt_suppressed_tools = [], rt_shadow_runtime_class = None,
      rt_shadow_route = None, rt_shadow_planned = None, rt_shadow_confidence = None,
      rt_response_depth = None, rt_time_sensitivity = None, rt_toolkit_affinity = [],
      rt_depth_source = None, rt_depth_agreement = None, rt_metadata = []\<rparr>"

definition set_if_present :: "string \<Rightarrow> ('a \<Rightarrow> json) \<Rightarrow> 'a option \<Rightarrow> jobj" where
  "set_if_present key f v = (case v of None \<Rightarrow> [] | Some x \<Rightarrow> [(key, f x)])"

definition set_if_some :: "string \<Rightarrow> string list \<Rightarrow> jobj" where
  "set_if_some key vs = (if vs = [] then [] else [(key, JArr (map JStr vs))])"

definition trace_payload :: "routing_trace \<Rightarrow> jobj" where
  "trace_payload rt =
     [(''message'', JStr ''routing_decision_recorded''), (''stage'', JStr (rt_stage rt)),
      (''route_tier'', JStr (rt_route_tier rt)), (''route_tier_resolved'', JStr (rt_route_tier rt)),
      (''source'', JStr (rt_source rt))] @
     set_if_present ''runtime_class'' JStr (rt_runtime_class rt) @
     set_if_present ''intent'' JStr (rt_intent rt) @
     set_if_present ''confidence'' JFloat (rt_confidence rt) @
     set_if_present ''margin'' JFloat (rt_margin rt) @
     set_if_present ''route_escalated'' JBool (rt_escalated rt) @
     set_if_present ''selected_runtime'' JStr (rt_selected_runtime rt) @
     set_if_present ''selected_backend'' JStr (rt_selected_backend rt) @
     set_if_present ''actual_path'' JStr (rt_actual_path rt) @
     set_if_present ''reason'' JStr (rt_reason rt) @
     set_if_some ''reason_codes'' (rt_reason_codes rt) @
     set_if_present ''candidate_tool_count'' JInt (rt_candidate_tools rt) @
     set_if_present ''selector_candidate_count'' JInt (rt_selector_candidates rt) @
     set_if_some ''selected_tool_names'' (rt_selected_tools rt) @
     set_if_some ''suppressed_tool_names'' (rt_suppressed_tools rt) @
     set_if_present ''shadow_runtime_class'' JStr (rt_shadow_runtime_class rt) @
     set_if_present ''shadow_route'' JStr (rt_shadow_route rt) @
     set_if_present ''shadow_planned_candidate'' JBool (rt_shadow_planned rt) @
     set_if_present ''shadow_confidence'' JFloat (rt_shadow_confidence rt) @
     set_if_present ''response_depth'' JStr (rt_response_depth rt) @
     set_if_present ''time_sensitivity'' JStr (rt_time_sensitivity rt) @
     set_if_some ''toolkit_affinity'' (rt_toolkit_affinity rt) @
     set_if_present ''depth_source'' JStr (rt_depth_source rt) @
     set_if_present ''shadow_depth_agreement'' JBool (rt_depth_agreement rt) @
     (if rt_metadata rt = [] then [] else [(''metadata'', JObj (rt_metadata rt))])"

section \<open>The direct route\<close>

datatype tier0_kind = Schedule_State_Query

record tier0_decision =
  td_kind :: tier0_kind
  td_runtime_class :: string
  td_intent :: string
  td_runtime :: string
  td_actual_path :: string
  td_reason :: string
  td_confidence :: string
  td_reason_codes :: "string list"
  td_metadata :: jobj

definition tier0_route :: "task \<Rightarrow> tier0_decision option" where
  "tier0_route t =
     (if t_identity_kind t = Some ''scheduled'' then None
      else if \<not> is_schedule_state_question (t_input t) then None
      else Some
        \<lparr>td_kind = Schedule_State_Query, td_runtime_class = ''inline_tool_task'',
         td_intent = ''scheduler.query'', td_runtime = ''schedule_state_fast_path'',
         td_actual_path = ''schedule_state_fast_path'', td_reason = ''schedule_truth_lookup'',
         td_confidence = ''1.0'', td_reason_codes = [''schedule_state_query''],
         td_metadata = [(''query'', jopt_str (schedule_state_query_text (t_input t))),
           (''status'', JStr (schedule_state_status_filter (t_input t))),
           (''system_of_record'', JStr ''scheduler'')]\<rparr>)"

definition tier0_trace :: "tier0_decision \<Rightarrow> routing_trace" where
  "tier0_trace td =
     (new_trace ''tier0_system_of_record'' ''tier0'' (td_runtime td))
       \<lparr>rt_runtime_class := Some (td_runtime_class td), rt_intent := Some (td_intent td),
        rt_confidence := Some (td_confidence td), rt_escalated := Some False,
        rt_selected_runtime := Some (td_runtime td), rt_selected_backend := Some ''inline'',
        rt_actual_path := Some (td_actual_path td), rt_reason := Some (td_reason td),
        rt_reason_codes := td_reason_codes td, rt_metadata := td_metadata td\<rparr>"

end
