(* ===== verification/Runtime_Handoff.thy ===== *)
theory Runtime_Handoff
  imports Schedule_Intent
begin

text \<open>
  \<open>kortny/workflow/handoff.py\<close>: the execution class of a task and the backend it would run on. The
  groups of a pattern are written out; \<open>using .* and .*\<close> matches when a blank, \<open>and\<close>, a blank and
  some word character follow the word \<open>using\<close>.
\<close>

datatype runtime_class = Quick_Response | Inline_Tool_Task | Durable_Workflow_Task | Scheduled_Workflow_Task

fun runtime_class_value :: "runtime_class \<Rightarrow> string" where
  "runtime_class_value Quick_Response = ''quick_response''"
| "runtime_class_value Inline_Tool_Task = ''inline_tool_task''"
| "runtime_class_value Durable_Workflow_Task = ''durable_workflow_task''"
| "runtime_class_value Scheduled_Workflow_Task = ''scheduled_workflow_task''"

record handoff =
  ho_runtime_class :: runtime_class
  ho_durable :: bool
  ho_recommended :: string
  ho_configured :: string
  ho_selected :: string
  ho_reason_codes :: "string list"
  ho_reason :: string
  ho_fallback :: "string option"

section \<open>Patterns\<close>

definition schedule_patterns :: "string list" where
  "schedule_patterns =
     [''every'', ''daily'', ''weekly'', ''monthly'', ''schedule'', ''scheduled'', ''recurring'', ''cron''] @
     map (\<lambda>d. ''each '' @ d)
       [''day'', ''week'', ''month'', ''monday'', ''tuesday'', ''wednesday'', ''thursday'', ''friday'']"

definition long_running_patterns :: "string list" where
  "long_running_patterns =
     [''long-running'', ''long running'', ''deep research'', ''comprehensive'', ''full report'',
      ''detailed report'', ''monitor'', ''keep checking'', ''when it finishes'', ''when it is done'',
      ''when this finishes'', ''when this is done'', ''over the next'', ''background'']"

definition multi_source_patterns :: "string list" where
  "multi_source_patterns =
     [''compare'', ''synthesize'', ''cross-check'', ''cross check'', ''triangulate'', ''combine'',
      ''from multiple'', ''across multiple'', ''across all'']"

definition integration_patterns :: "string list" where
  "integration_patterns =
     [''linear'', ''notion'', ''firecrawl'', ''serpapi'', ''alpha vantage'', ''github'',
      ''google drive'', ''slack files'', ''slack file'', ''crm'', ''calendar'', ''email'', ''docs'', ''doc'']"

definition crawl_patterns :: "string list" where
  "crawl_patterns = [''crawl'', ''scrape'', ''website'', ''site map'', ''sitemap'', ''all pages'']"

definition quick_phrases :: "string list" where
  "quick_phrases =
     [''yo'', ''hey'', ''hi'', ''hello'', ''sup'', ''what'' @ CHR 0x27 # ''s up'', ''whats up'',
      ''are you up'', ''you up'', ''ping'', ''what can you do'', ''what tools do you have'',
      ''what integrations do you have'']"

fun and_then_word :: "string \<Rightarrow> bool" where
  "and_then_word [] = False"
| "and_then_word (c # s) =
     ((starts_with '' and '' (c # s) \<and> list_ex regex_word (drop 4 s)) \<or> and_then_word s)"

fun using_and_search :: "bool \<Rightarrow> string \<Rightarrow> bool" where
  "using_and_search prev [] = False"
| "using_and_search prev (c # s) =
     ((\<not> prev \<and> starts_with ''using '' (c # s) \<and> and_then_word (drop 5 s)) \<or>
      using_and_search (regex_word c) s)"

section \<open>The decision\<close>

definition handoff_reason_codes :: "task \<Rightarrow> string \<Rightarrow> string list" where
  "handoff_reason_codes t s =
     (let first = (if t_identity_kind t = Some ''scheduled'' then [''scheduled_task_identity''] else [])
      in if is_schedule_state_question s then first @ [''schedule_state_query'']
         else first @
           (if word_search schedule_patterns False s then [''scheduled_or_recurring''] else []) @
           (if word_search long_running_patterns False s then [''long_running_work''] else []) @
           (if word_search multi_source_patterns False s \<or> using_and_search False s
            then [''multi_source_synthesis''] else []) @
           (if word_search integration_patterns False s then [''integration_tool_work''] else []) @
           (if word_search crawl_patterns False s then [''crawl_or_scrape_work''] else []) @
           (if 320 \<le> length s then [''large_request''] else []))"

definition is_quick_response :: "string \<Rightarrow> string list \<Rightarrow> bool" where
  "is_quick_response s codes \<longleftrightarrow>
     codes = [] \<and> length s \<le> 120 \<and> (s \<in> set quick_phrases \<or> s \<in> set (map (\<lambda>p. p @ ''?'') quick_phrases))"

definition handoff_class :: "task \<Rightarrow> string \<Rightarrow> string list \<Rightarrow> runtime_class" where
  "handoff_class t s codes =
     (if ''schedule_state_query'' \<in> set codes then Inline_Tool_Task
      else if t_identity_kind t = Some ''scheduled'' \<or> ''scheduled_or_recurring'' \<in> set codes
      then Scheduled_Workflow_Task
      else if is_quick_response s codes then Quick_Response
      else if codes \<noteq> [] then Durable_Workflow_Task
      else Inline_Tool_Task)"

definition handoff_reason :: "runtime_class \<Rightarrow> string list \<Rightarrow> string" where
  "handoff_reason cls codes =
     (case cls of
        Quick_Response \<Rightarrow> ''Short conversational request with no durable workflow signals.''
      | Inline_Tool_Task \<Rightarrow>
          if ''schedule_state_query'' \<in> set codes
          then ''User is asking about existing scheduler state; keep the scheduler truth lookup inline.''
          else ''No durable workflow signals detected; keep current inline worker path.''
      | Scheduled_Workflow_Task \<Rightarrow>
          ''Scheduled or recurring work should eventually be owned by a durable workflow.''
      | Durable_Workflow_Task \<Rightarrow>
          ''Task has long-running, multi-source, integration, crawl, or synthesis '' @
          ''signals that should eventually move to a durable workflow backend.'')"

definition evaluate_runtime_handoff :: "string \<Rightarrow> task \<Rightarrow> handoff" where
  "evaluate_runtime_handoff backend t =
     (let s = normalize_schedule_intent_text (t_input t);
          codes = handoff_reason_codes t s;
          cls = handoff_class t s codes;
          durable = cls \<in> {Durable_Workflow_Task, Scheduled_Workflow_Task}
      in \<lparr>ho_runtime_class = cls, ho_durable = durable,
          ho_recommended = (if durable then ''temporal'' else ''inline''),
          ho_configured = backend, ho_selected = ''inline'', ho_reason_codes = codes,
          ho_reason = handoff_reason cls codes,
          ho_fallback =
            (if durable \<and> backend = ''temporal'' then Some ''temporal_primary_execution_not_enabled''
             else if durable then Some ''workflow_backend_inline'' else None)\<rparr>)"

definition handoff_payload :: "handoff \<Rightarrow> jobj" where
  "handoff_payload h =
     [(''message'', JStr ''runtime_handoff_evaluated''),
      (''runtime_class'', JStr (runtime_class_value (ho_runtime_class h))),
      (''durable_candidate'', JBool (ho_durable h)),
      (''recommended_backend'', JStr (ho_recommended h)),
      (''configured_backend'', JStr (ho_configured h)),
      (''selected_backend'', JStr (ho_selected h)),
      (''reason_codes'', JArr (map JStr (ho_reason_codes h))), (''reason'', JStr (ho_reason h))] @
     set_if_present ''fallback_reason'' JStr (ho_fallback h)"

end
