(* ===== verification/Approval_Prompt.thy ===== *)
theory Approval_Prompt
  imports Agent_Planner Approvals
begin

text \<open>
  How \<open>kortny/worker/agent_executor.py\<close> words the request for an approval: what the model is told of
  the call, and what of its answer may be shown. The parser of JSON is a parameter.
\<close>

section \<open>What the model is told\<close>

definition sensitive_markers :: "string list" where
  "sensitive_markers = [''api'', ''auth'', ''credential'', ''key'', ''password'', ''secret'', ''token'']"

definition sensitive_argument_key :: "string \<Rightarrow> bool" where
  "sensitive_argument_key key = contains_any sensitive_markers key"

definition argument_summary_value :: "string \<Rightarrow> json \<Rightarrow> string" where
  "argument_summary_value key v =
     (case v of
        JStr s \<Rightarrow>
          if casefold key = ''code'' then ''Python snippet, '' @ int_str (int (length s)) @ '' chars''
          else if sensitive_argument_key (casefold key) then ''redacted''
          else if length s \<le> 80 then s
          else ''present''
      | _ \<Rightarrow>
          if sensitive_argument_key (casefold key) then ''redacted''
          else (case v of JBool b \<Rightarrow> py_str v | JInt i \<Rightarrow> py_str v | JFloat r \<Rightarrow> py_str v
                | _ \<Rightarrow> ''present''))"

definition tool_approval_argument_summary :: "approval_request \<Rightarrow> jobj" where
  "tool_approval_argument_summary r =
     fold (\<lambda>key acc. AList.update key (JStr (argument_summary_value key (jget (rqt_arguments r) key))) acc)
       (rqt_argument_keys r) []"

definition compact_prompt_context :: "string \<Rightarrow> nat \<Rightarrow> string" where
  "compact_prompt_context v max_chars =
     (let s = join '' '' (split_ws v)
      in if length s \<le> max_chars then s else rstrip (take (max_chars - 3) s) @ ''...'')"

definition tool_approval_prompt_payload :: "string \<Rightarrow> approval_request \<Rightarrow> string \<Rightarrow> jobj" where
  "tool_approval_prompt_payload input r fallback =
     [(''user_request'', JStr (compact_prompt_context input 1000)),
      (''approval_scope'', JStr (scope_value (rqt_scope r))), (''risk'', JStr (rqt_risk r)),
      (''reason'', JStr (rqt_reason r)), (''argument_keys'', JArr (map JStr (rqt_argument_keys r))),
      (''argument_summary'', JObj (tool_approval_argument_summary r)),
      (''fallback_prompt'', JStr fallback), (''required_final_line'', JStr reaction_instruction)]"

section \<open>What of its answer is shown\<close>

definition line_breaks :: string where
  "line_breaks = [CHR 0x0A, CHR 0x0B, CHR 0x0C, CHR 0x0D, CHR 0x1C, CHR 0x1D, CHR 0x1E]"

text \<open>\<open>str.splitlines()\<close>; a carriage return and a line feed are one break.\<close>

fun splitlines :: "string \<Rightarrow> string list" where
  "splitlines [] = []"
| "splitlines (c # s) =
     (if c = CHR 0x0D \<and> s \<noteq> [] \<and> hd s = CHR 0x0A then splitlines s
      else if c \<in> set line_breaks then [] # splitlines s
      else (case splitlines s of [] \<Rightarrow> [[c]] | l # ls \<Rightarrow> (c # l) # ls))"

definition strip_quotes :: "string \<Rightarrow> string" where
  "strip_quotes s =
     rev (dropWhile (\<lambda>c. c = CHR 0x22) (rev (dropWhile (\<lambda>c. c = CHR 0x22) s)))"

definition prompt_line :: "string \<Rightarrow> string" where
  "prompt_line raw = join '' '' (split_ws (strip_quotes (strip raw)))"

text \<open>The lines kept; a heading rejects the text.\<close>

fun prompt_lines :: "string list \<Rightarrow> string list option" where
  "prompt_lines [] = Some []"
| "prompt_lines (raw # raws) =
     (let line = prompt_line raw in
      if line = [] then prompt_lines raws
      else if starts_with ''#'' line then None
      else if contains ''React with :white_check_mark:'' line then prompt_lines raws
      else if contains '':no_entry_sign:'' line \<and> contains ''skip'' (casefold line) then prompt_lines raws
      else map_option (\<lambda>ls. line # ls) (prompt_lines raws))"

definition blocked_terms :: "string list" where
  "blocked_terms =
     [''actual tool'', ''agent'', ''approval key'', ''backend'', ''cheap_fast'', ''code_exec'',
      ''guidelines'', ''i should'', ''llm'', ''model'', ''runtime'', ''the user'', ''tool id'',
      ''tool name'', ''tool_approval'']"

definition sanitize_tool_approval_prompt_body :: "string \<Rightarrow> string option" where
  "sanitize_tool_approval_prompt_body s =
     (case prompt_lines (splitlines s) of
        None \<Rightarrow> None
      | Some ls \<Rightarrow>
          (let body = strip (join nl ls) in
           if length body < 20 \<or> 600 < length body then None
           else if contains_any blocked_terms (casefold body) then None
           else Some body))"

text \<open>\<open>_extract_json_object\<close>: a fenced block is opened first; \<open>None\<close> is its \<open>ValueError\<close>.\<close>

definition unfence :: "string \<Rightarrow> string" where
  "unfence s =
     (if starts_with ''```'' s then
        (let ls = (case splitlines s of [] \<Rightarrow> [] | l # ls \<Rightarrow> if starts_with ''```'' l then ls else l # ls);
             ls' = (if ls \<noteq> [] \<and> starts_with ''```'' (strip (last ls)) then butlast ls else ls)
         in strip (join nl ls'))
      else s)"

definition prompt_json_object :: "string \<Rightarrow> string option" where
  "prompt_json_object content =
     (let s = unfence (strip content) in
      if s \<noteq> [] \<and> hd s = CHR ''{'' \<and> last s = CHR ''}'' then Some s
      else
        (let candidate = rev (dropWhile (\<lambda>c. c \<noteq> CHR ''}'') (rev (dropWhile (\<lambda>c. c \<noteq> CHR ''{'') s)))
         in if candidate = [] then None else Some candidate))"

definition tool_approval_prompt_from_completion ::
  "(string \<Rightarrow> json option) \<Rightarrow> string option \<Rightarrow> string option" where
  "tool_approval_prompt_from_completion loads content =
     (case truthy content of
        None \<Rightarrow> None
      | Some s \<Rightarrow>
          (case Option.bind (prompt_json_object s) loads of
             Some (JObj p) \<Rightarrow>
               (case jget p ''text'' of
                  JStr raw \<Rightarrow>
                    map_option (\<lambda>body. body @ nl @ nl @ reaction_instruction)
                      (sanitize_tool_approval_prompt_body raw)
                | _ \<Rightarrow> None)
           | _ \<Rightarrow> None))"

end
