(* ===== verification/Executor_Outputs.thy ===== *)
theory Executor_Outputs
  imports Slack_Posting Agent_Loop Provider_Failure Runtime_Handoff Approval_Prompt
begin

text \<open>
  \<open>AgentTaskExecutor\<close> of \<open>kortny/worker/agent_executor.py\<close>, what it says: the outputs of a run, the
  request for an approval or for a connection, the notice of a failure, the acknowledgement
  reaction, and the pure functions behind them.

  The environment holds what other components do: the agent runtime, the synthesis of the answer,
  the rendering of blocks, the model calls that word a notice, the graph and witness projections.
  The display of progress and the log lines are left out.
\<close>

section \<open>The environment\<close>

text \<open>What the response synthesiser returns; a presentation and a source index are opaque values.\<close>

record synthesis =
  sy_text :: string
  sy_presentation :: "json option"
  sy_sources :: "json option"

record connect_prompt =
  cp_redirect_url :: string
  cp_connection_id :: uuid
  cp_scope_type :: string
  cp_scope_id :: "string option"

text \<open>Blocks with the buttons minted for them, each an action and its route.\<close>

record button_blocks =
  bb_blocks :: "json list"
  bb_minted :: "(uuid \<times> string) list"

text \<open>How an agent run ends: with a result, or stopped by a call that needs an approval.\<close>

datatype agent_end = Agent_Result run_result | Agent_Parked approval_request

text \<open>
  The services of the executor. \<open>xe_seen\<close> is the status that the session's object of a task shows, the one
  of its last refresh: any status, since other sessions may have changed the row after it.
\<close>

record exec_env =
  xe_post :: post_env
  xe_seen :: "task \<Rightarrow> post_db \<Rightarrow> task_status"
  xe_status_attr :: "py_error \<Rightarrow> status_attr"
  xe_agent_runtime :: string
  xe_humanizer_min_chars :: int
  xe_workflow_backend :: string
  xe_has_provider :: bool
  xe_revision_enabled :: bool
  xe_callback_base :: "string option"
  xe_classify_intent :: "task \<Rightarrow> (post_db, jobj) op"
  xe_start_workflow :: "task \<Rightarrow> (post_db, jobj) op"
  xe_runtime :: "task \<Rightarrow> string \<Rightarrow> (post_db, agent_end) op"
  xe_rerender :: "task \<Rightarrow> (post_db, run_result) op"
  xe_graph_refresh :: "task \<Rightarrow> (post_db, run_result) op"
  xe_list_schedules :: "task \<Rightarrow> jobj \<Rightarrow> (post_db, jobj) op"
  xe_latency :: "jobj \<Rightarrow> int"
  xe_strip_preamble :: "string \<Rightarrow> string"
  xe_synthesize :: "task \<Rightarrow> string \<Rightarrow> (post_db, synthesis) op"
  xe_render :: "string \<Rightarrow> json option \<Rightarrow> json option \<Rightarrow> json list option"
  xe_elements :: "json \<Rightarrow> nat"
  xe_sanitize :: "string \<Rightarrow> string"
  xe_comment :: "task \<Rightarrow> artifact \<Rightarrow> (post_db, string option) op"
  xe_deck :: "task \<Rightarrow> artifact \<Rightarrow> (post_db, button_blocks) op"
  xe_mark_sent :: "uuid \<times> string \<Rightarrow> string \<Rightarrow> string \<Rightarrow> json \<Rightarrow> (post_db, unit) op"
  xe_initiate_connect :: "task \<Rightarrow> string \<Rightarrow> string \<Rightarrow> (post_db, connect_prompt) op"
  xe_prompt_completion :: "task \<Rightarrow> jobj \<Rightarrow> (post_db, string option) op"
  xe_loads :: "string \<Rightarrow> json option"
  xe_approval_blocks :: "task \<Rightarrow> approval_request \<Rightarrow> string \<Rightarrow> (post_db, button_blocks) op"
  xe_failure_completion :: "task \<Rightarrow> string \<Rightarrow> (post_db, string option) op"
  xe_reactions_remove :: "(string \<Rightarrow> string \<Rightarrow> string \<Rightarrow> (post_db, slack_answer) op) option"
  xe_fail_assessment :: "task \<Rightarrow> string \<Rightarrow> string \<Rightarrow> (post_db, (string \<times> uuid) option) op"
  xe_semantic_route :: "task \<Rightarrow> (post_db, jobj) op"
  xe_shadow_trace :: "task \<Rightarrow> string option \<Rightarrow> jobj \<Rightarrow> jobj"
  xe_project_witness :: "task \<Rightarrow> string \<Rightarrow> (post_db, int \<times> jobj) op"
  xe_reinforce :: "task \<Rightarrow> (post_db, int \<times> jobj) op"
  xe_project_summary :: "task \<Rightarrow> string \<Rightarrow> (post_db, int \<times> jobj) op"
  xe_revise :: "task \<Rightarrow> (post_db, unit) op"
  xe_complete_assessment :: "task \<Rightarrow> string \<Rightarrow> (post_db, unit) op"

definition xe_describe :: "exec_env \<Rightarrow> py_error \<Rightarrow> string \<times> string" where
  "xe_describe env = pe_describe (xe_post env)"

text \<open>A poster made without an allowlist, as for the notices and the prompts.\<close>

definition plain_post :: "exec_env \<Rightarrow> post_env" where
  "plain_post env = (xe_post env)\<lparr>pe_allowlist := []\<rparr>"

definition log_task :: "task \<Rightarrow> jobj \<Rightarrow> (post_db, unit) op" where
  "log_task t p = post_event (t_id t) Log p"

definition error_fields :: "exec_env \<Rightarrow> py_error \<Rightarrow> jobj" where
  "error_fields env e =
     [(''error_type'', JStr (fst (xe_describe env e))), (''error'', JStr (snd (xe_describe env e)))]"

definition int_result :: "string \<Rightarrow> nat \<Rightarrow> run_result" where
  "int_result summary artifacts =
     \<lparr>rr_summary = summary, rr_turns = 0, rr_artifacts = artifacts, rr_partial = False\<rparr>"

text \<open>A \<open>try\<close> whose handlers are chosen by the exception.\<close>

definition attempting :: "('s, 'a) op \<Rightarrow> ('s, py_error + 'a) op" where
  "attempting m = catching (seq m (\<lambda>x. returning (Inr x))) (\<lambda>e. returning (Inl e))"

section \<open>Reading the log of a task\<close>

definition task_events :: "uuid \<Rightarrow> post_db \<Rightarrow> event list" where
  "task_events tid w = sort_key e_seq (events_of tid (pw_db w))"

definition latest_payload :: "string \<Rightarrow> event list \<Rightarrow> jobj option" where
  "latest_payload message evs =
     map_option e_payload
       (find (\<lambda>e. e_type e = Log \<and> jget (e_payload e) ''message'' = JStr message) (rev evs))"

definition payload_str :: "jobj \<Rightarrow> string \<Rightarrow> string option" where
  "payload_str p key = non_empty_str (jget p key)"

definition channel_assessment_request :: "uuid \<Rightarrow> post_db \<Rightarrow> jobj option" where
  "channel_assessment_request tid w =
     latest_payload ''observe_channel_assessment_requested'' (task_events tid w)"

definition is_dashboard_graph_refresh_task :: "task \<Rightarrow> post_db \<Rightarrow> bool" where
  "is_dashboard_graph_refresh_task t w =
     (case channel_assessment_request (t_id t) w of
        None \<Rightarrow> False | Some p \<Rightarrow> jget p ''source'' = JStr ''dashboard_knowledge_graph_refresh'')"

definition should_suppress_slack_post :: "task \<Rightarrow> post_db \<Rightarrow> bool" where
  "should_suppress_slack_post t w =
     (if t_channel t = ''playground'' \<or> t_identity_kind t = Some ''manual'' then True
      else (case channel_assessment_request (t_id t) w of
              None \<Rightarrow> False | Some p \<Rightarrow> jget p ''suppress_slack_post'' = JBool True))"

definition has_memory_confirmation_prompt :: "task \<Rightarrow> post_db \<Rightarrow> bool" where
  "has_memory_confirmation_prompt t w =
     list_ex (\<lambda>e. e_type e = Message_Posted \<and>
        json_text (jget (e_payload e) ''purpose'') = Some ''memory_confirmation'')
       (events_of (t_id t) (pw_db w))"

definition quick_final_authors :: "string list" where
  "quick_final_authors = [''quick_response_agent'', ''kortny_root_orchestrator'']"

definition is_quick_author :: "json \<Rightarrow> bool" where
  "is_quick_author v = (case json_str v of Some s \<Rightarrow> s \<in> set quick_final_authors | None \<Rightarrow> False)"

definition response_humanizer_skip_reason :: "exec_env \<Rightarrow> task \<Rightarrow> string \<Rightarrow> post_db \<Rightarrow> string option" where
  "response_humanizer_skip_reason env t raw w =
     (let evs = task_events (t_id t) w in
      if xe_agent_runtime env \<noteq> ''adk'' then None
      else if xe_humanizer_min_chars env \<le> int (length (strip raw)) then None
      else if list_ex (\<lambda>e. e_type e \<in> {Tool_Call, Tool_Result}) evs then None
      else (case latest_payload ''model_route_selected'' evs of
              None \<Rightarrow> None
            | Some route \<Rightarrow>
                if jget route ''runtime'' \<noteq> JStr ''adk'' \<or> jget route ''tier'' \<noteq> JStr ''cheap_fast'' then None
                else (case latest_payload ''adk_runtime_completed'' evs of
                        None \<Rightarrow> None
                      | Some c \<Rightarrow> if is_quick_author (jget c ''final_author'')
                                  then Some ''adk_quick_fast_path'' else None)))"

definition is_witness_autopilot_task :: "task \<Rightarrow> bool" where
  "is_witness_autopilot_task t \<longleftrightarrow> t_identity_kind t = Some ''synthetic'' \<and>
     jget (t_identity_payload t) ''source'' = JStr ''witness_autopilot''"

definition should_skip_witness_extraction :: "task \<Rightarrow> post_db \<Rightarrow> bool" where
  "should_skip_witness_extraction t w =
     (let evs = task_events (t_id t) w in
      is_witness_autopilot_task t \<or>
      latest_payload ''schedule_state_fast_path_completed'' evs \<noteq> None \<or>
      latest_payload ''adk_quick_response_selected'' evs \<noteq> None \<or>
      (case latest_payload ''adk_runtime_completed'' evs of
         None \<Rightarrow> False | Some c \<Rightarrow> is_quick_author (jget c ''final_author'')))"

section \<open>The outputs of a run\<close>

text \<open>The artifacts with a file that were not posted, newest first.\<close>

definition unposted_artifacts :: "uuid \<Rightarrow> post_db \<Rightarrow> artifact list" where
  "unposted_artifacts tid w =
     newest_first (filter (\<lambda>a. ar_task a = tid \<and> ar_storage_path a \<noteq> None \<and> ar_posted_at a = None)
       (pw_artifacts w))"

text \<open>Every button minted for a message is marked sent with it.\<close>

definition mark_buttons_sent ::
  "exec_env \<Rightarrow> task \<Rightarrow> button_blocks \<Rightarrow> string \<Rightarrow> (post_db, unit) op" where
  "mark_buttons_sent env t bb ts =
     for_each (\<lambda>action. xe_mark_sent env action (t_channel t) ts
       (case rev (bb_blocks bb) of JObj b # bs \<Rightarrow> jget b ''block_id'' | _ \<Rightarrow> JNull)) (bb_minted bb)"

definition optional_int_str :: "int option \<Rightarrow> string" where
  "optional_int_str v = (case v of None \<Rightarrow> ''None'' | Some n \<Rightarrow> int_str n)"

definition post_document_deck ::
  "exec_env \<Rightarrow> task \<Rightarrow> slack_thread \<Rightarrow> artifact list \<Rightarrow> (post_db, unit) op" where
  "post_document_deck env t th artifacts =
     (case filter (\<lambda>a. ar_doc_group a \<noteq> None) artifacts of
        [] \<Rightarrow> returning ()
      | latest # _ \<Rightarrow>
          seq (xe_deck env t latest) (\<lambda>bb.
          seq (post_message (xe_post env) th ''Refine this document:'' ''document_control_deck''
                 (Some (bb_blocks bb))
                 (Some (''document_control_deck:'' @ uuid_str (the (ar_doc_group latest)) @ '':'' @
                    optional_int_str (ar_doc_version latest)))) (\<lambda>ts.
          mark_buttons_sent env t bb ts)))"

text \<open>One file; the row is read again, and only the first one gets a comment.\<close>

definition post_artifact ::
  "exec_env \<Rightarrow> task \<Rightarrow> slack_thread \<Rightarrow> bool \<Rightarrow> uuid \<Rightarrow> (post_db, unit) op" where
  "post_artifact env t th is_first aid =
     seq (reading (\<lambda>w. row_get ar_id aid (pw_artifacts w))) (\<lambda>found.
     case found of
       None \<Rightarrow> returning ()
     | Some a \<Rightarrow>
         (case ar_storage_path a of
            None \<Rightarrow> returning ()
          | Some path \<Rightarrow>
              seq (if is_first then xe_comment env t a else returning None) (\<lambda>note.
              seq (upload_file (xe_post env) th path (Artifact_Row a) note (Some (ar_filename a)) None) (\<lambda>_.
              returning ()))))"

definition post_artifacts ::
  "exec_env \<Rightarrow> task \<Rightarrow> slack_thread \<Rightarrow> artifact list \<Rightarrow> (post_db, unit) op" where
  "post_artifacts env t th artifacts =
     seq (for_each (\<lambda>(i, a). post_artifact env t th (i = 0) (ar_id a))
            (zip [0..<length artifacts] artifacts)) (\<lambda>_.
     seq (post_document_deck env t th artifacts) (\<lambda>_.
     clear_assistant_status (xe_post env) th))"

text \<open>The answer as text: without the agent's preamble, synthesised unless the run may skip that.\<close>

definition note_sanitized :: "task \<Rightarrow> string \<Rightarrow> string \<Rightarrow> (post_db, unit) op" where
  "note_sanitized t summary source =
     (if source = strip summary then returning ()
      else log_task t
        [(''message'', JStr ''final_response_sanitized''), (''reason'', JStr ''internal_preamble_removed''),
         (''raw_chars'', JInt (int (length summary))), (''output_chars'', JInt (int (length source)))])"

definition response_synthesis ::
  "exec_env \<Rightarrow> task \<Rightarrow> string \<Rightarrow> string \<Rightarrow> (post_db, synthesis) op" where
  "response_synthesis env t summary source =
     seq (reading (response_humanizer_skip_reason env t source)) (\<lambda>skip.
     case skip of
       None \<Rightarrow> xe_synthesize env t source
     | Some reason \<Rightarrow>
         seq (log_task t
                [(''message'', JStr ''response_humanizer_skipped''), (''reason'', JStr reason),
                 (''runtime'', JStr ''adk''), (''raw_chars'', JInt (int (length summary))),
                 (''output_chars'', JInt (int (length source)))]) (\<lambda>_.
         returning \<lparr>sy_text = source, sy_presentation = None, sy_sources = None\<rparr>))"

definition drops_substance :: "exec_env \<Rightarrow> string \<Rightarrow> synthesis \<Rightarrow> bool" where
  "drops_substance env source sy \<longleftrightarrow>
     (case sy_presentation sy of None \<Rightarrow> False | Some p \<Rightarrow> 0 < xe_elements env p) \<and>
     xe_render env (sy_text sy) (sy_presentation sy) (sy_sources sy) = None \<and>
     200 \<le> length (strip source)"

definition final_response ::
  "exec_env \<Rightarrow> task \<Rightarrow> string \<Rightarrow> synthesis \<Rightarrow> (post_db, string \<times> json list option) op" where
  "final_response env t source sy =
     (if drops_substance env source sy then
        seq (log_task t
               [(''message'', JStr ''substance_drop_guard_triggered''),
                (''reason'', JStr ''post_render_zero_blocks''),
                (''presentation_elements'', JInt (int (xe_elements env (the (sy_presentation sy))))),
                (''raw_chars'', JInt (int (length source))),
                (''humanized_chars'', JInt (int (length (sy_text sy))))]) (\<lambda>_.
        returning (xe_sanitize env source, None))
      else returning (sy_text sy, xe_render env (sy_text sy) (sy_presentation sy) (sy_sources sy)))"

definition post_answer :: "exec_env \<Rightarrow> task \<Rightarrow> slack_thread \<Rightarrow> string \<Rightarrow> (post_db, string) op" where
  "post_answer env t th summary =
     (let source = xe_strip_preamble env summary in
      seq (note_sanitized t summary source) (\<lambda>_.
      seq (response_synthesis env t summary source) (\<lambda>sy.
      seq (final_response env t source sy) (\<lambda>(answer, blocks).
      seq (post_message (xe_post env) th answer ''result'' blocks None) (\<lambda>_.
      seq (clear_assistant_status (xe_post env) th) (\<lambda>_.
      returning answer))))))"

text \<open>\<open>_post_outputs\<close>: the text that was posted, when one was.\<close>

definition post_outputs :: "exec_env \<Rightarrow> task \<Rightarrow> string \<Rightarrow> (post_db, string option) op" where
  "post_outputs env t summary =
     seq (reading (should_suppress_slack_post t)) (\<lambda>suppressed.
     if suppressed then
       seq (log_task t [(''message'', JStr ''slack_final_message_suppressed''),
              (''reason'', JStr ''background_channel_assessment'')]) (\<lambda>_.
       returning None)
     else
       seq (lifting (thread_from_task t)) (\<lambda>th.
       seq (reading (unposted_artifacts (t_id t))) (\<lambda>artifacts.
       if artifacts \<noteq> [] then seq (post_artifacts env t th artifacts) (\<lambda>_. returning None)
       else
         seq (reading (has_memory_confirmation_prompt t)) (\<lambda>asked.
         if asked then returning None
         else seq (post_answer env t th summary) (\<lambda>answer. returning (Some answer))))))"

section \<open>Notices of a failure\<close>

definition generic_failure_text :: string where
  "generic_failure_text =
     ''Something went wrong while I was working on this. Please try again soon.''"

definition guardrail_failure_reason :: "string \<Rightarrow> string" where
  "guardrail_failure_reason msg =
     (if contains ''circuit breaker'' (casefold msg) \<or> contains ''same_tool_call_repeated'' msg
      then ''same_tool_call_repeated''
      else if contains ''Recoverable tool failure budget'' msg then ''recoverable_failure_budget_exceeded''
      else ''unknown'')"

definition too_many_errors_text :: string where
  "too_many_errors_text =
     ''I ran into too many errors in a row and had to stop. '' @
     ''Try breaking this into smaller steps, or let me know if you'' @ CHR 0x27 # ''d like '' @
     ''me to try a different approach.''"

definition honest_failure_fallbacks :: "(string \<times> string) list" where
  "honest_failure_fallbacks =
     [(''same_tool_call_repeated'',
        ''I got stuck repeating the same step and couldn'' @ CHR 0x27 # ''t finish. '' @
        ''Try rephrasing, or tell me which specific file or thread to use.''),
      (''recoverable_failure_budget_exceeded'', too_many_errors_text),
      (''max_recoverable_failures_exceeded'', too_many_errors_text),
      (''same_recoverable_error_exceeded'', too_many_errors_text)]"

definition honest_failure_default :: string where
  "honest_failure_default =
     ''I ran into a problem I couldn'' @ CHR 0x27 # ''t work around and had to stop. '' @
     ''Try rephrasing the request or breaking it into smaller steps.''"

definition honest_failure_fallback :: "string \<Rightarrow> string" where
  "honest_failure_fallback reason =
     (case map_of honest_failure_fallbacks reason of Some s \<Rightarrow> s | None \<Rightarrow> honest_failure_default)"

text \<open>Truth of a JSON value, and the summary of the first twenty calls and errors.\<close>

definition json_truthy :: "json \<Rightarrow> bool" where
  "json_truthy v = (v \<notin> {JNull, JBool False, JInt 0, JFloat ''0.0'', JFloat ''-0.0'', JStr [], JArr [], JObj []})"

definition history_line :: "event \<Rightarrow> string" where
  "history_line e =
     (if e_type e = Tool_Call
      then ''- called '' @ (case map_of (e_payload e) ''tool'' of None \<Rightarrow> ''unknown'' | Some v \<Rightarrow> py_str v)
      else ''- error: '' @ take 120
        (if json_truthy (jget (e_payload e) ''error_summary'')
         then py_str (jget (e_payload e) ''error_summary'')
         else (case map_of (e_payload e) ''error'' of None \<Rightarrow> [] | Some v \<Rightarrow> py_str v)))"

definition summarize_tool_history :: "uuid \<Rightarrow> post_db \<Rightarrow> string" where
  "summarize_tool_history tid w =
     (let evs = take 20 (sort_key e_created_at
            (filter (\<lambda>e. e_type e \<in> {Tool_Call, Error_Event}) (events_of tid (pw_db w))))
      in if evs = [] then ''(no tool calls recorded)'' else join nl (map history_line evs))"

definition failure_context :: "task \<Rightarrow> string \<Rightarrow> string \<Rightarrow> string" where
  "failure_context t reason history =
     ''User request: '' @ t_input t @ nl @ nl @ ''What was tried:'' @ nl @ history @ nl @ nl @
     ''Failure reason: '' @ reason"

text \<open>One model call words the notice; when it fails or says nothing, the text of the reason does.\<close>

definition synthesize_honest_failure :: "exec_env \<Rightarrow> task \<Rightarrow> string \<Rightarrow> (post_db, string) op" where
  "synthesize_honest_failure env t reason =
     seq (catching
       (seq (reading (summarize_tool_history (t_id t))) (\<lambda>history.
        seq (xe_failure_completion env t (failure_context t reason history)) (\<lambda>content.
        let summary = strip (case content of None \<Rightarrow> [] | Some s \<Rightarrow> s) in
        if summary = [] then returning None
        else
          seq (log_task t [(''message'', JStr ''honest_failure_synthesized''),
                 (''failure_reason'', JStr reason), (''summary_chars'', JInt (int (length summary)))]) (\<lambda>_.
          returning (Some summary)))))
       (\<lambda>e. returning None)) (\<lambda>found.
     case found of
       Some summary \<Rightarrow> returning summary
     | None \<Rightarrow>
         seq (log_task t [(''message'', JStr ''honest_failure_fallback_used''),
                (''failure_reason'', JStr reason)]) (\<lambda>_.
         returning (honest_failure_fallback reason)))"

text \<open>The post of a notice; whatever goes wrong in it is only logged.\<close>

definition try_post_failure :: "exec_env \<Rightarrow> task \<Rightarrow> string \<Rightarrow> (post_db, unit) op" where
  "try_post_failure env t notice =
     catching
       (seq (lifting (thread_from_task t)) (\<lambda>th.
        seq (post_message (plain_post env) th notice ''failure'' None None) (\<lambda>_.
        returning ())))
       (\<lambda>e. returning ())"

definition post_failure_notice :: "exec_env \<Rightarrow> task \<Rightarrow> string option \<Rightarrow> (post_db, unit) op" where
  "post_failure_notice env t failure_text =
     seq (reading (should_suppress_slack_post t)) (\<lambda>suppressed.
     if suppressed then
       log_task t [(''message'', JStr ''slack_failure_notice_suppressed''),
         (''reason'', JStr ''background_channel_assessment'')]
     else try_post_failure env t
       (case truthy failure_text of Some s \<Rightarrow> s | None \<Rightarrow> generic_failure_text))"

definition post_honest_failure_notice :: "exec_env \<Rightarrow> task \<Rightarrow> py_error \<Rightarrow> (post_db, unit) op" where
  "post_honest_failure_notice env t e =
     seq (reading (should_suppress_slack_post t)) (\<lambda>suppressed.
     if suppressed then
       log_task t [(''message'', JStr ''slack_honest_failure_suppressed''),
         (''reason'', JStr ''background_channel_assessment'')]
     else
       seq (synthesize_honest_failure env t (guardrail_failure_reason (snd (xe_describe env e)))) (\<lambda>notice.
       try_post_failure env t notice))"

definition mark_channel_assessment_failed :: "exec_env \<Rightarrow> task \<Rightarrow> py_error \<Rightarrow> (post_db, unit) op" where
  "mark_channel_assessment_failed env t e =
     seq (xe_fail_assessment env t (fst (xe_describe env e)) (snd (xe_describe env e))) (\<lambda>m.
     case m of
       None \<Rightarrow> returning ()
     | Some (ch, mid) \<Rightarrow>
         log_task t ([(''message'', JStr ''observe_channel_assessment_failed''), (''channel_id'', JStr ch),
           (''membership_id'', JStr (uuid_str mid))] @ error_fields env e))"

section \<open>The acknowledgement reaction\<close>

definition reaction_request ::
  "task \<Rightarrow> string \<Rightarrow> string \<Rightarrow> string \<Rightarrow> effect_request" where
  "reaction_request t ch ts reaction =
     \<lparr>er_installation = t_installation t,
      er_key = slack_reaction_key (t_id t) ''reactions_remove'' ch ts reaction,
      er_operation = ''reactions_remove'',
      er_request = [(''channel'', JStr ch), (''name'', JStr reaction), (''timestamp'', JStr ts)],
      er_channel = Some ch, er_thread_ts = None, er_message_ts = Some ts, er_task = Some (t_id t),
      er_purpose = Some ''acknowledgement_complete''\<rparr>"

definition reaction_payload :: "string \<Rightarrow> string \<Rightarrow> string \<Rightarrow> string \<Rightarrow> jobj" where
  "reaction_payload message ch ts reaction =
     [(''message'', JStr message), (''channel'', JStr ch), (''message_ts'', JStr ts),
      (''reaction'', JStr reaction)]"

definition remove_ack_reaction ::
  "exec_env \<Rightarrow> task \<Rightarrow> string \<Rightarrow> string \<Rightarrow> string \<Rightarrow> (post_db, unit) op" where
  "remove_ack_reaction env t ch ts reaction =
     (case xe_reactions_remove env of
        None \<Rightarrow> returning ()
      | Some remove \<Rightarrow>
          seq (attempting (deliver_effect (xe_post env) (reaction_request t ch ts reaction)
            (remove ch reaction ts))) (\<lambda>outcome.
          case outcome of
            Inl e \<Rightarrow> log_task t
              (reaction_payload ''slack_ack_reaction_remove_failed'' ch ts reaction @ error_fields env e)
          | Inr x \<Rightarrow> log_task t
              (reaction_payload ''slack_ack_reaction_removed'' ch ts reaction @
               [(''slack_side_effect_id'', JStr (uuid_str (fr_effect x))),
                (''idempotency_key'',
                   JStr (slack_reaction_key (t_id t) ''reactions_remove'' ch ts reaction))])))"

definition complete_ack_reaction :: "exec_env \<Rightarrow> task \<Rightarrow> (post_db, unit) op" where
  "complete_ack_reaction env t =
     seq (reading (\<lambda>w. latest_payload ''slack_ack_reaction_added'' (task_events (t_id t) w))) (\<lambda>found.
     case found of
       None \<Rightarrow> returning ()
     | Some p \<Rightarrow>
         (case (payload_str p ''channel'', payload_str p ''message_ts'', payload_str p ''reaction'') of
            (Some ch, Some ts, Some reaction) \<Rightarrow> remove_ack_reaction env t ch ts reaction
          | _ \<Rightarrow> returning ()))"

section \<open>Asking for an approval\<close>

definition prompt_event :: "string \<Rightarrow> approval_request \<Rightarrow> jobj" where
  "prompt_event message r =
     [(''message'', JStr message), (''prompt_name'', JStr ''kortny.tool_approval_prompt''),
      (''tool'', JStr (rqt_tool r)), (''risk'', JStr (rqt_risk r)), (''model_tier'', JStr ''cheap_fast'')]"

text \<open>A model call words the prompt; what cannot be shown, or fails, is replaced by the fixed text.\<close>

definition approval_prompt :: "exec_env \<Rightarrow> task \<Rightarrow> approval_request \<Rightarrow> (post_db, string) op" where
  "approval_prompt env t r =
     (let fallback = approval_prompt_text r in
      catching
        (seq (xe_prompt_completion env t (tool_approval_prompt_payload (t_input t) r fallback)) (\<lambda>content.
         case tool_approval_prompt_from_completion (xe_loads env) content of
           None \<Rightarrow> returning fallback
         | Some s \<Rightarrow>
             seq (log_task t (prompt_event ''tool_approval_prompt_synthesized'' r @
                    [(''text_source'', JStr ''llm'')])) (\<lambda>_.
             returning s)))
        (\<lambda>e.
         seq (post_event (t_id t) Error_Event
                (prompt_event ''tool_approval_prompt_synthesis_failed'' r @ error_fields env e)) (\<lambda>_.
         returning fallback)))"

definition approval_prompt_purpose :: string where
  "approval_prompt_purpose = ''tool_approval_request''"

definition post_approval_request ::
  "exec_env \<Rightarrow> task \<Rightarrow> approval_request \<Rightarrow> (post_db, string) op" where
  "post_approval_request env t r =
     seq (approval_prompt env t r) (\<lambda>statement.
     seq (xe_approval_blocks env t r statement) (\<lambda>bb.
     seq (lifting (thread_from_task t)) (\<lambda>th.
     seq (post_message (plain_post env) th statement approval_prompt_purpose (Some (bb_blocks bb))
            (Some (approval_prompt_purpose @ '':'' @ rqt_key r))) (\<lambda>ts.
     seq (mark_buttons_sent env t bb ts) (\<lambda>_.
     returning ts)))))"

text \<open>The task waits with the request it was parked for.\<close>

definition park_for_approval :: "exec_env \<Rightarrow> task \<Rightarrow> approval_request \<Rightarrow> (post_db, unit) op" where
  "park_for_approval env t r =
     seq (post_approval_request env t r) (\<lambda>ts.
     seq (reading (xe_seen env t)) (\<lambda>seen.
     seq (on_task_db (mark_waiting_for_tool_approval seen (t_id t) (request_payload r) ts None)) (\<lambda>_.
     returning ())))"

section \<open>Asking for a connection\<close>

definition connect_prompt_text :: "string \<Rightarrow> string \<Rightarrow> string" where
  "connect_prompt_text toolkit url =
     ''I need access to your *'' @ toolkit @ ''* account before I can run that. '' @
     ''Connect it here and I'' @ CHR 0x27 # ''ll pick the task back up automatically:'' @ nl @ url"

definition park_payload :: "string \<Rightarrow> string \<Rightarrow> connect_prompt \<Rightarrow> string \<Rightarrow> jobj" where
  "park_payload toolkit tool cp ts =
     [(''recovery_action'', JStr ''wait_auth''), (''toolkit_slug'', JStr toolkit), (''tool'', JStr tool),
      (''approval_key'', JStr (''composio-connect:'' @ toolkit)),
      (''connection_id'', JStr (uuid_str (cp_connection_id cp))),
      (''scope_type'', JStr (cp_scope_type cp)), (''scope_id'', jopt_str (cp_scope_id cp)),
      (''prompt_message_ts'', JStr ts)]"

definition connect_callback_url :: "exec_env \<Rightarrow> string" where
  "connect_callback_url env =
     rstrip_chars ''/'' (case truthy (xe_callback_base env) of Some s \<Rightarrow> s | None \<Rightarrow> ''http://localhost:8080'') @
     ''/composio/callback''"

definition post_connect_prompt :: "exec_env \<Rightarrow> task \<Rightarrow> string \<Rightarrow> string \<Rightarrow> (post_db, string) op" where
  "post_connect_prompt env t toolkit url =
     seq (lifting (thread_from_task t)) (\<lambda>th.
     post_message (plain_post env) th (connect_prompt_text toolkit url) approval_prompt_purpose None
       (Some (approval_prompt_purpose @ '':connect:'' @ toolkit)))"

definition park_for_connect :: "exec_env \<Rightarrow> task \<Rightarrow> string \<Rightarrow> string \<Rightarrow> (post_db, unit) op" where
  "park_for_connect env t toolkit tool =
     seq (xe_initiate_connect env t toolkit (connect_callback_url env)) (\<lambda>cp.
     seq (post_connect_prompt env t toolkit (cp_redirect_url cp)) (\<lambda>ts.
     let request = park_payload toolkit tool cp ts in
     seq (log_task t [(''message'', JStr tool_approval_required_message), (''request'', JObj request)]) (\<lambda>_.
     seq (reading (xe_seen env t)) (\<lambda>seen.
     seq (on_task_db (mark_waiting_for_tool_approval seen (t_id t) request ts None)) (\<lambda>_.
     returning ())))))"

end
