(* ===== verification/Agent_Executor.thy ===== *)
theory Agent_Executor
  imports Executor_Outputs
begin

text \<open>
  \<open>AgentTaskExecutor.execute\<close> of \<open>kortny/worker/agent_executor.py\<close>: the route of a task, the stages
  after it, and what each exception leads to. The directory of a task and the closing of its
  providers have no state here.
\<close>

section \<open>Depth\<close>

record unified_depth =
  ud_response_depth :: string
  ud_time_sensitivity :: string
  ud_toolkit_affinity :: "string list"
  ud_source :: string

definition unified_depth_message :: string where
  "unified_depth_message = ''unified_depth_decision''"

definition is_deep :: "unified_depth \<Rightarrow> bool" where
  "is_deep u = (ud_response_depth u = ''deep_workflow'')"

definition unified_depth_payload :: "unified_depth \<Rightarrow> jobj" where
  "unified_depth_payload u =
     [(''message'', JStr unified_depth_message), (''response_depth'', JStr (ud_response_depth u)),
      (''time_sensitivity'', JStr (ud_time_sensitivity u)),
      (''toolkit_affinity'', JArr (map JStr (ud_toolkit_affinity u))),
      (''depth_source'', JStr (ud_source u))]"

text \<open>The decision of the latest classification only, when it is an object.\<close>

definition worker_intent_decision :: "uuid \<Rightarrow> post_db \<Rightarrow> jobj option" where
  "worker_intent_decision tid w =
     (case latest_payload ''intent_classification_completed'' (task_events tid w) of
        None \<Rightarrow> None | Some p \<Rightarrow> json_obj (jget p ''decision''))"

definition or_else :: "string option \<Rightarrow> string \<Rightarrow> string" where
  "or_else v s = (case v of Some x \<Rightarrow> x | None \<Rightarrow> s)"

definition resolve_unified_depth :: "uuid \<Rightarrow> post_db \<Rightarrow> unified_depth" where
  "resolve_unified_depth tid w =
     (case effective_intent_decision (worker_intent_decision tid w) of
        None \<Rightarrow> \<lparr>ud_response_depth = ''standard_tool_task'', ud_time_sensitivity = ''interactive'',
                 ud_toolkit_affinity = [], ud_source = ''default''\<rparr>
      | Some p \<Rightarrow>
          \<lparr>ud_response_depth = or_else (payload_str p ''response_depth'') ''standard_tool_task'',
           ud_time_sensitivity = or_else (payload_str p ''time_sensitivity'') ''interactive'',
           ud_toolkit_affinity = (case jget p ''toolkit_affinity'' of
               JArr xs \<Rightarrow> List.map_filter non_empty_str xs | _ \<Rightarrow> []),
           ud_source = or_else (payload_str p ''depth_source'') ''default''\<rparr>)"

text \<open>Tasks of the assistant pane arrive without a classification; a failed one leaves none.\<close>

definition ensure_intent_decision :: "exec_env \<Rightarrow> task \<Rightarrow> (post_db, unit) op" where
  "ensure_intent_decision env t =
     (if \<not> is_assistant_task t then returning ()
      else
        seq (reading (worker_intent_decision (t_id t))) (\<lambda>known.
        if known \<noteq> None then returning ()
        else
          seq (attempting (xe_classify_intent env t)) (\<lambda>outcome.
          case outcome of
            Inl e \<Rightarrow> returning ()
          | Inr decision \<Rightarrow>
              log_task t [(''message'', JStr ''intent_classification_completed''),
                (''source'', JStr ''assistant_worker''), (''decision'', JObj decision)])))"

section \<open>The agent\<close>

definition routing_intent_from_handoff :: "string list \<Rightarrow> string" where
  "routing_intent_from_handoff codes =
     (if ''schedule_state_query'' \<in> set codes then ''scheduler.query''
      else if ''scheduled_or_recurring'' \<in> set codes \<or> ''scheduled_task_identity'' \<in> set codes
      then ''scheduler.create_or_run''
      else if ''quick_conversation'' \<in> set codes then ''conversation.quick''
      else if ''write_or_destructive_intent'' \<in> set codes then ''integration.write_or_approval''
      else if ''broad_research'' \<in> set codes \<or> ''research_synthesis_work'' \<in> set codes
      then ''research.synthesis''
      else if ''multi_source_synthesis'' \<in> set codes then ''workspace.multi_source''
      else if ''integration_tool_work'' \<in> set codes \<or> ''integration_scope_present'' \<in> set codes
      then ''integration.read''
      else ''task.general'')"

definition with_depth :: "unified_depth \<Rightarrow> routing_trace \<Rightarrow> routing_trace" where
  "with_depth u rt = rt\<lparr>rt_response_depth := Some (ud_response_depth u),
     rt_time_sensitivity := Some (ud_time_sensitivity u),
     rt_toolkit_affinity := ud_toolkit_affinity u, rt_depth_source := Some (ud_source u)\<rparr>"

definition handoff_trace :: "unified_depth \<Rightarrow> handoff \<Rightarrow> routing_trace" where
  "handoff_trace u h = with_depth u
     ((new_trace ''worker_runtime_handoff'' ''handoff_shadow'' ''runtime_handoff'')
        \<lparr>rt_runtime_class := Some (runtime_class_value (ho_runtime_class h)),
         rt_intent := Some (routing_intent_from_handoff (ho_reason_codes h)),
         rt_escalated := Some (ho_durable h \<or> is_deep u), rt_selected_runtime := Some ''custom'',
         rt_selected_backend := Some (ho_selected h), rt_actual_path := Some ''pending_runtime_selection'',
         rt_reason := Some (ho_reason h), rt_reason_codes := ho_reason_codes h,
         rt_shadow_runtime_class := Some (runtime_class_value (ho_runtime_class h)),
         rt_shadow_planned := Some (is_deep u),
         rt_metadata := [(''recommended_backend'', JStr (ho_recommended h)),
           (''configured_backend'', JStr (ho_configured h)),
           (''fallback_reason'', jopt_str (ho_fallback h))]\<rparr>)"

definition selected_trace :: "unified_depth \<Rightarrow> handoff \<Rightarrow> routing_trace" where
  "selected_trace u h = with_depth u
     ((new_trace ''worker_runtime_selected'' ''custom_runtime'' ''agent_executor'')
        \<lparr>rt_runtime_class := Some (runtime_class_value (ho_runtime_class h)),
         rt_intent := Some (routing_intent_from_handoff (ho_reason_codes h)),
         rt_escalated := Some False, rt_selected_runtime := Some ''custom'',
         rt_selected_backend := Some (ho_selected h), rt_actual_path := Some ''custom'',
         rt_reason := Some ''Worker selected configured agent runtime.'',
         rt_reason_codes := ho_reason_codes h,
         rt_shadow_runtime_class := Some (runtime_class_value (ho_runtime_class h)),
         rt_shadow_planned := Some (is_deep u)\<rparr>)"

definition shadow_start_temporal_workflow :: "exec_env \<Rightarrow> task \<Rightarrow> (post_db, unit) op" where
  "shadow_start_temporal_workflow env t =
     seq (attempting (xe_start_workflow env t)) (\<lambda>outcome.
     case outcome of
       Inl e \<Rightarrow> post_event (t_id t) Error_Event
         ([(''message'', JStr ''temporal_workflow_shadow_start_failed'')] @ error_fields env e @
          [(''mode'', JStr ''shadow'')])
     | Inr launch \<Rightarrow> log_task t
         (jmerge [(''message'', JStr ''temporal_workflow_shadow_started''), (''mode'', JStr ''shadow'')] launch))"

definition run_agent_runtime :: "exec_env \<Rightarrow> task \<Rightarrow> (post_db, agent_end) op" where
  "run_agent_runtime env t =
     seq (ensure_intent_decision env t) (\<lambda>_.
     seq (reading (resolve_unified_depth (t_id t))) (\<lambda>u.
     seq (log_task t (unified_depth_payload u)) (\<lambda>_.
     let h = evaluate_runtime_handoff (xe_workflow_backend env) t in
     seq (log_task t (handoff_payload h)) (\<lambda>_.
     seq (if ho_configured h = ''temporal'' \<and> (ho_durable h \<or> is_deep u)
          then shadow_start_temporal_workflow env t else returning ()) (\<lambda>_.
     seq (log_task t (trace_payload (handoff_trace u h))) (\<lambda>_.
     seq (log_task t [(''message'', JStr ''agent_runtime_selected''), (''runtime'', JStr ''custom'')]) (\<lambda>_.
     seq (log_task t (trace_payload (selected_trace u h))) (\<lambda>_.
     xe_runtime env t (ud_response_depth u)))))))))"

section \<open>Schedule questions\<close>

definition bullet :: string where
  "bullet = [CHR 0xE2, CHR 0x80, CHR 0xA2] @ '' ''"

definition schedule_plain_text :: "json \<Rightarrow> string option" where
  "schedule_plain_text v = (case v of JStr s \<Rightarrow> truthy (Some (join '' '' (split_ws s))) | _ \<Rightarrow> None)"

definition nested_plain :: "jobj \<Rightarrow> string \<Rightarrow> string \<Rightarrow> string option" where
  "nested_plain row key nested_key =
     (case jget row key of JObj p \<Rightarrow> schedule_plain_text (jget p nested_key) | _ \<Rightarrow> None)"

definition schedule_state_row :: "jobj \<Rightarrow> string" where
  "schedule_state_row row =
     (let name = or_else (schedule_plain_text (jget row ''title'')) ''Scheduled task'';
          fragments =
            (case nested_plain row ''cadence'' ''label'' of None \<Rightarrow> [] | Some c \<Rightarrow> [c]) @
            (case schedule_plain_text (jget row ''next_run_human'') of None \<Rightarrow> []
             | Some n \<Rightarrow> [''next run '' @ n]) @
            (case nested_plain row ''delivery'' ''label'' of None \<Rightarrow> [] | Some dl \<Rightarrow> [''delivery: '' @ dl])
      in if fragments = [] then bullet @ ''*'' @ name @ ''*''
         else bullet @ ''*'' @ name @ ''*: '' @ join ''; '' fragments)"

definition status_label :: "string \<Rightarrow> string" where
  "status_label status =
     (case map_of [(''active'', ''active''), (''paused'', ''paused''), (''proposed'', ''draft''),
        (''open'', ''open''), (''all'', [])] status of Some s \<Rightarrow> s | None \<Rightarrow> status)"

definition plural_s :: "nat \<Rightarrow> string" where
  "plural_s n = (if n = 1 then [] else ''s'')"

definition schedule_state_response ::
  "jobj \<Rightarrow> string option \<Rightarrow> string \<Rightarrow> bool \<Rightarrow> string" where
  "schedule_state_response output query status fallback_used =
     (let rows = (case jget output ''schedules'' of JArr xs \<Rightarrow> xs | _ \<Rightarrow> []);
          n = length rows;
          label = status_label status;
          visible = (if label = [] then ''visible'' else label);
          asked = (case query of None \<Rightarrow> [] | Some q \<Rightarrow> if fallback_used then []
                   else '' matching `'' @ q @ ''`'')
      in if rows = [] then
           ''I checked the scheduler and don'' @ CHR 0x27 # ''t see any'' @
           (if label = [] then [] else '' '' @ label) @ '' schedules'' @ asked @ ''.''
         else
           (let lead =
              (case (fallback_used, query) of
                 (True, Some q) \<Rightarrow>
                   ''I didn'' @ CHR 0x27 # ''t find an exact schedule match for `'' @ q @ ''`, but I found '' @
                   int_str (int n) @ '' '' @ visible @ '' schedule'' @ plural_s n @ ''.''
               | _ \<Rightarrow> ''Yes, I found '' @ int_str (int n) @ '' '' @ visible @ '' schedule'' @ plural_s n @
                   asked @ ''.'');
             details = map schedule_state_row (List.map_filter json_obj (take 5 rows)) @
               (if 5 < n then [bullet @ ''Plus '' @ int_str (int n - 5) @ '' more.''] else [])
            in strip (join nl ([lead, []] @ details @ [[], ''Scheduler DB is the source of truth here.'']))))"

definition schedule_query_args :: "string \<Rightarrow> string option \<Rightarrow> jobj" where
  "schedule_query_args status query =
     [(''scope'', JStr ''visible''), (''status'', JStr status)] @
     (case query of None \<Rightarrow> [] | Some q \<Rightarrow> [(''query'', JStr q)]) @ [(''limit'', JInt 10)]"

definition invoke_list_schedules :: "exec_env \<Rightarrow> task \<Rightarrow> jobj \<Rightarrow> (post_db, jobj) op" where
  "invoke_list_schedules env t args =
     seq (post_event (t_id t) Tool_Call
            [(''tool'', JStr ''list_schedules''), (''runtime'', JStr ''schedule_state_fast_path''),
             (''arguments'', JObj args), (''argument_keys'', JArr (map JStr (sorted_words (map fst args))))]) (\<lambda>_.
     seq (xe_list_schedules env t args) (\<lambda>output.
     seq (post_event (t_id t) Tool_Result
            [(''tool'', JStr ''list_schedules''), (''runtime'', JStr ''schedule_state_fast_path''),
             (''output'', JObj output), (''latency_ms'', JInt (xe_latency env output)),
             (''artifact_count'', JInt 0), (''cost_usd'', JStr ''0'')]) (\<lambda>_.
     returning output)))"

definition run_schedule_state_fast_path ::
  "exec_env \<Rightarrow> task \<Rightarrow> tier0_decision \<Rightarrow> (post_db, run_result) op" where
  "run_schedule_state_fast_path env t td =
     (let query = non_empty_str (jget (td_metadata td) ''query'');
          status = or_else (non_empty_str (jget (td_metadata td) ''status'')) ''open'' in
      seq (log_task t (trace_payload (tier0_trace td))) (\<lambda>_.
      seq (log_task t
             [(''message'', JStr ''agent_runtime_selected''), (''runtime'', JStr (td_runtime td)),
              (''reason'', JStr (td_reason td)), (''query'', jopt_str query), (''status'', JStr status)]) (\<lambda>_.
      seq (invoke_list_schedules env t (schedule_query_args status query)) (\<lambda>first.
      let again = query \<noteq> None \<and> jget first ''count'' = JInt 0 in
      seq (if again then invoke_list_schedules env t (schedule_query_args status None)
           else returning first) (\<lambda>output.
      seq (log_task t
             [(''message'', JStr ''schedule_state_fast_path_completed''),
              (''runtime'', JStr ''schedule_state_fast_path''), (''query'', jopt_str query),
              (''status'', JStr status), (''fallback_used'', JBool again),
              (''schedule_count'', jget output ''count'')]) (\<lambda>_.
      returning (int_result (schedule_state_response output query status again) 0)))))))"

section \<open>The route of a task\<close>

definition graph_refresh_trace :: routing_trace where
  "graph_refresh_trace =
     (new_trace ''tier0_system_of_record'' ''tier0'' ''dashboard_graph_refresh'')
       \<lparr>rt_runtime_class := Some ''inline_tool_task'', rt_intent := Some ''knowledge_graph.refresh'',
        rt_confidence := Some ''1.0'', rt_escalated := Some False,
        rt_selected_runtime := Some ''kg_channel_refresh_pipeline'',
        rt_selected_backend := Some ''inline'', rt_actual_path := Some ''kg_channel_refresh_pipeline'',
        rt_reason := Some ''dashboard_knowledge_graph_refresh''\<rparr>"

definition run_graph_refresh :: "exec_env \<Rightarrow> task \<Rightarrow> (post_db, run_result) op" where
  "run_graph_refresh env t =
     seq (log_task t (trace_payload graph_refresh_trace)) (\<lambda>_.
     seq (log_task t [(''message'', JStr ''agent_runtime_selected''),
            (''runtime'', JStr ''kg_channel_refresh_pipeline''),
            (''reason'', JStr ''dashboard_knowledge_graph_refresh'')]) (\<lambda>_.
     xe_graph_refresh env t))"

definition run_route :: "exec_env \<Rightarrow> task \<Rightarrow> (post_db, agent_end) op" where
  "run_route env t =
     (if jget (t_identity_payload t) ''kind'' = JStr ''document_rerender''
      then seq (xe_rerender env t) (\<lambda>r. returning (Agent_Result r))
      else
        (case tier0_route t of
           Some td \<Rightarrow> seq (run_schedule_state_fast_path env t td) (\<lambda>r. returning (Agent_Result r))
         | None \<Rightarrow>
             seq (reading (is_dashboard_graph_refresh_task t)) (\<lambda>refresh.
             if refresh then seq (run_graph_refresh env t) (\<lambda>r. returning (Agent_Result r))
             else run_agent_runtime env t)))"

section \<open>After the run\<close>

text \<open>What the last routing decisions of the log say, with the result in characters.\<close>

definition first_with :: "string \<Rightarrow> jobj list \<Rightarrow> jobj option" where
  "first_with key ps = find (\<lambda>p. jget p key \<noteq> JNull) ps"

definition routing_chain_payload ::
  "event list \<Rightarrow> string \<Rightarrow> string option \<Rightarrow> jobj" where
  "routing_chain_payload evs summary posted =
     (let routes = map e_payload (filter (\<lambda>e. e_type e = Log \<and>
            jget (e_payload e) ''message'' = JStr ''routing_decision_recorded'') evs);
          last_route = (if routes = [] then [] else last routes);
          final = (case first_with ''actual_path'' (rev routes) of Some p \<Rightarrow> p | None \<Rightarrow> last_route);
          intent = (case first_with ''intent'' (rev routes) of Some p \<Rightarrow> p | None \<Rightarrow> final)
      in [(''message'', JStr ''routing_chain_completed''),
          (''route_event_count'', JInt (int (length routes))),
          (''selected_runtime'', case latest_payload ''agent_runtime_selected'' evs of
             None \<Rightarrow> JNull | Some p \<Rightarrow> jget p ''runtime''),
          (''final_actual_path'', jget final ''actual_path''),
          (''final_runtime_class'', jget final ''runtime_class''),
          (''final_intent'', jget intent ''intent''),
          (''result_chars'', JInt (int (length summary))),
          (''posted_response_chars'', JInt (case posted of None \<Rightarrow> 0 | Some s \<Rightarrow> int (length s)))] @
         (case latest_payload ''adk_runtime_completed'' evs of None \<Rightarrow> []
          | Some p \<Rightarrow> [(''adk_mode'', jget p ''mode''), (''adk_final_author'', jget p ''final_author'')]) @
         (case latest_payload ''tool_selection_completed'' evs of None \<Rightarrow> []
          | Some p \<Rightarrow>
              [(''candidate_tool_count'', jget p ''candidate_count''),
               (''selector_candidate_count'', jget p ''selector_candidate_count''),
               (''selected_tool_names'', JArr (case jget p ''selected_tools'' of
                  JArr xs \<Rightarrow> map (\<lambda>x. jget x ''registry_name'') (List.map_filter json_obj xs)
                | _ \<Rightarrow> []))]))"

definition record_routing_chain_completed ::
  "task \<Rightarrow> string \<Rightarrow> string option \<Rightarrow> (post_db, unit) op" where
  "record_routing_chain_completed t summary posted =
     seq (reading (task_events (t_id t))) (\<lambda>evs. log_task t (routing_chain_payload evs summary posted))"

definition record_semantic_router_shadow :: "exec_env \<Rightarrow> task \<Rightarrow> (post_db, unit) op" where
  "record_semantic_router_shadow env t =
     (if xe_has_provider env then returning ()
      else
        seq (reading (\<lambda>w. Option.bind (latest_payload unified_depth_message (task_events (t_id t) w))
               (\<lambda>p. payload_str p ''response_depth''))) (\<lambda>depth.
        seq (attempting (xe_semantic_route env t)) (\<lambda>outcome.
        case outcome of
          Inl e \<Rightarrow> log_task t
            ([(''message'', JStr ''semantic_router_shadow_failed''), (''behavior'', JStr ''observe_only''),
              (''prompt_version'', JStr ''hig_187_slice_2'')] @ error_fields env e @
             [(''fallback_policy'', JStr ''ignore_shadow_router_failure'')])
        | Inr decision \<Rightarrow> log_task t (xe_shadow_trace env t depth decision))))"

text \<open>A projection that is best effort: its failure is an event, and so is a count above zero.\<close>

definition best_effort ::
  "exec_env \<Rightarrow> task \<Rightarrow> jobj \<Rightarrow> (post_db, int \<times> jobj) op \<Rightarrow> (post_db, unit) op" where
  "best_effort env t failed m =
     seq (attempting m) (\<lambda>outcome.
     case outcome of
       Inl e \<Rightarrow> post_event (t_id t) Error_Event (failed @ error_fields env e)
     | Inr (n, p) \<Rightarrow> if n \<le> 0 then returning () else log_task t p)"

definition project_witness_opportunities ::
  "exec_env \<Rightarrow> task \<Rightarrow> string option \<Rightarrow> (post_db, unit) op" where
  "project_witness_opportunities env t posted =
     (case truthy posted of
        None \<Rightarrow> returning ()
      | Some answer \<Rightarrow>
          seq (reading (\<lambda>w. channel_assessment_request (t_id t) w \<noteq> None \<or>
                 should_skip_witness_extraction t w)) (\<lambda>skip.
          if skip then returning ()
          else best_effort env t
            [(''message'', JStr ''witness_opportunity_projection_failed''),
             (''source_type'', JStr ''task_summary'')]
            (seq (xe_project_witness env t answer) (\<lambda>(n, p).
             returning (n, [(''message'', JStr ''witness_opportunity_candidates_projected''),
               (''source_type'', JStr ''task_summary''), (''extractor'', JStr ''llm''),
               (''channel_id'', JStr (t_channel t))] @ p)))))"

definition reinforce_runtime_graph_context :: "exec_env \<Rightarrow> task \<Rightarrow> (post_db, unit) op" where
  "reinforce_runtime_graph_context env t =
     best_effort env t [(''message'', JStr ''kg_runtime_context_reinforcement_failed'')] (xe_reinforce env t)"

definition project_task_summary_graph_context ::
  "exec_env \<Rightarrow> task \<Rightarrow> string \<Rightarrow> (post_db, unit) op" where
  "project_task_summary_graph_context env t summary =
     best_effort env t [(''message'', JStr ''kg_task_summary_projection_failed'')]
       (xe_project_summary env t summary)"

definition maybe_revise_documents :: "exec_env \<Rightarrow> task \<Rightarrow> (post_db, unit) op" where
  "maybe_revise_documents env t =
     (if \<not> xe_revision_enabled env then returning ()
      else
        seq (attempting (xe_revise env t)) (\<lambda>outcome.
        case outcome of
          Inl e \<Rightarrow> log_task t ([(''message'', JStr ''visual_revision_hook_failed'')] @ error_fields env e)
        | Inr _ \<Rightarrow> returning ()))"

text \<open>The stages after a run that returned a result.\<close>

definition after_run :: "exec_env \<Rightarrow> task \<Rightarrow> string \<Rightarrow> (post_db, unit) op" where
  "after_run env t summary =
     seq (on_task_db (raise_if_cancelled (t_id t) (Some ''before_post_outputs''))) (\<lambda>_.
     seq (post_outputs env t summary) (\<lambda>posted.
     seq (record_semantic_router_shadow env t) (\<lambda>_.
     seq (record_routing_chain_completed t summary posted) (\<lambda>_.
     seq (project_witness_opportunities env t posted) (\<lambda>_.
     seq (reinforce_runtime_graph_context env t) (\<lambda>_.
     seq (project_task_summary_graph_context env t summary) (\<lambda>_.
     seq (maybe_revise_documents env t) (\<lambda>_.
     seq (xe_complete_assessment env t summary) (\<lambda>_.
     complete_ack_reaction env t)))))))))"

section \<open>Execution\<close>

definition run_and_deliver :: "exec_env \<Rightarrow> task \<Rightarrow> (post_db, agent_end) op" where
  "run_and_deliver env t =
     seq (run_route env t) (\<lambda>end'.
     case end' of
       Agent_Parked r \<Rightarrow> returning end'
     | Agent_Result r \<Rightarrow> seq (after_run env t (rr_summary r)) (\<lambda>_. returning end'))"

definition settle_failure :: "exec_env \<Rightarrow> task \<Rightarrow> py_error \<Rightarrow> (post_db, 'a) op" where
  "settle_failure env t e =
     seq (mark_channel_assessment_failed env t e) (\<lambda>_.
     seq (complete_ack_reaction env t) (\<lambda>_.
     raising e))"

definition provider_failure_text :: "exec_env \<Rightarrow> py_error \<Rightarrow> string option" where
  "provider_failure_text env e =
     map_option failure_message
       (classify_provider_failure (fst (xe_describe env e)) (snd (xe_describe env e)) (xe_status_attr env e))"

definition execute_task :: "exec_env \<Rightarrow> task \<Rightarrow> (post_db, string) op" where
  "execute_task env t =
     seq (attempting (run_and_deliver env t)) (\<lambda>outcome.
     case outcome of
       Inr (Agent_Result r) \<Rightarrow> returning (rr_summary r)
     | Inr (Agent_Parked r) \<Rightarrow>
         seq (park_for_approval env t r) (\<lambda>_.
         seq (complete_ack_reaction env t) (\<lambda>_.
         returning (''Waiting for approval to run '' @ rqt_tool r @ ''.'')))
     | Inl (ConnectionRequired toolkit tool) \<Rightarrow>
         seq (park_for_connect env t toolkit tool) (\<lambda>_.
         seq (complete_ack_reaction env t) (\<lambda>_.
         returning (''Waiting for you to connect '' @ toolkit @ '' before I continue.'')))
     | Inl (GuardrailErr m) \<Rightarrow>
         seq (post_honest_failure_notice env t (GuardrailErr m)) (\<lambda>_.
         settle_failure env t (GuardrailErr m))
     | Inl (TaskCancelled m) \<Rightarrow> raising (TaskCancelled m)
     | Inl e \<Rightarrow>
         seq (post_failure_notice env t (provider_failure_text env e)) (\<lambda>_.
         settle_failure env t e))"

section \<open>The coordinator as the runtime\<close>

text \<open>
  The runtime the executor builds for a task: a coordinator of its own, with the tools registered for
  the task, the policies of the workspace and the limits of the depth.
\<close>

definition fresh_run :: "policy_db \<Rightarrow> tool_table \<Rightarrow> guardrail_limits \<Rightarrow> task \<Rightarrow> post_db \<Rightarrow> run_world" where
  "fresh_run policies tools limits t w =
     \<lparr>rw_gate = \<lparr>gw_db = pw_db w, gw_policies = policies, gw_gates = [], gw_levels = []\<rparr>,
      rw_plan = make_default_execution_plan [] (t_id t) (t_input t) (map fst tools) limits,
      rw_messages = [], rw_tools = tools, rw_model_calls = 0, rw_tool_runs = 0\<rparr>"

definition agent_end_of :: "turn_end \<Rightarrow> agent_end" where
  "agent_end_of e =
     (case e of Run_Parked r \<Rightarrow> Agent_Parked r | Run_Ended r \<Rightarrow> Agent_Result r
      | Next_Turn _ _ \<Rightarrow> Agent_Result (int_result [] 0))"

definition custom_runtime ::
  "(task \<Rightarrow> agent_env) \<Rightarrow> (task \<Rightarrow> post_db \<Rightarrow> policy_db) \<Rightarrow> (task \<Rightarrow> post_db \<Rightarrow> tool_table) \<Rightarrow>
   task \<Rightarrow> string \<Rightarrow> (post_db, agent_end) op" where
  "custom_runtime agent policies registry t depth =
     seq (lifting (limits_for_depth depth)) (\<lambda>limits.
     (\<lambda>w. case run_agent ((agent t)\<lparr>ae_limits := limits\<rparr>) (t_id t)
              (fresh_run (policies t w) (registry t w) limits t w) of
        (r, rw) \<Rightarrow>
          (case r of Inl e \<Rightarrow> Inl e | Inr e \<Rightarrow> Inr (agent_end_of e), w\<lparr>pw_db := gw_db (rw_gate rw)\<rparr>)))"

text \<open>The executor as the worker calls it, on the tables of the tasks; the outbox and the artifacts are
  those of \<open>outside\<close>.\<close>

definition execute_on :: "exec_env \<Rightarrow> post_db \<Rightarrow> uuid \<Rightarrow> (db, string) op" where
  "execute_on env outside tid =
     seq (resolve_task tid) (\<lambda>t.
     (\<lambda>d. case execute_task env t (outside\<lparr>pw_db := d\<rparr>) of (r, w) \<Rightarrow> (r, pw_db w)))"

end
