(* ===== verification/Interactive_Actions.thy ===== *)
theory Interactive_Actions
  imports Agent_Executor
begin

text \<open>
  \<open>kortny/slack/interactions.py\<close>: the rows behind the buttons of a Slack message. A button carries a
  key of which only the hash is stored; a click is honoured when its key is known, the button was
  sent, has not expired, and the person, the workspace, the channel and the route are those it was
  made for.

  The hash with the signing key and the random tokens are parameters; a row lock has no effect on
  one transaction at a time. The state holds the task tables as well, which the transition behind a
  click changes.
\<close>

datatype action_status =
  Pending_Send | Action_Sent | Consuming | Consumed | Superseded | Action_Expired | Send_Failed

fun action_status_value :: "action_status \<Rightarrow> string" where
  "action_status_value Pending_Send = ''pending_send''"
| "action_status_value Action_Sent = ''sent''"
| "action_status_value Consuming = ''consuming''"
| "action_status_value Consumed = ''consumed''"
| "action_status_value Superseded = ''superseded''"
| "action_status_value Action_Expired = ''expired''"
| "action_status_value Send_Failed = ''send_failed''"

record interactive_action =
  ia_id :: uuid
  ia_installation :: uuid
  ia_task :: "uuid option"
  ia_result_task :: "uuid option"
  ia_key_hash :: string
  ia_kind :: string
  ia_route :: string
  ia_status :: action_status
  ia_target_type :: string
  ia_target_id :: string
  ia_payload :: jobj
  ia_team :: "string option"
  ia_channel :: "string option"
  ia_message_ts :: "string option"
  ia_block_id :: "string option"
  ia_slack_action_id :: "string option"
  ia_created_for :: "string option"
  ia_allowed_user :: "string option"
  ia_required_role :: "string option"
  ia_allowed_channel :: "string option"
  ia_expires_at :: timestamp
  ia_sent_at :: "timestamp option"
  ia_consumed_at :: "timestamp option"
  ia_consumed_by :: "string option"
  ia_last_denied_at :: "timestamp option"
  ia_denied_count :: nat

datatype claim_status =
  Claim_Ok | Claim_Not_Found | Claim_Expired | Claim_Denied | Claim_Handled | Claim_Wrong_Status

record click_world =
  cw_db :: db
  cw_actions :: "interactive_action list"
  cw_artifacts :: "artifact list"

text \<open>The hash, the tokens, the identifiers of new rows, and what other transactions commit meanwhile.\<close>

record click_env =
  ce_hash :: "string \<Rightarrow> string"
  ce_token :: "click_world \<Rightarrow> string"
  ce_fresh_action :: "click_world \<Rightarrow> uuid"
  ce_sha :: "string \<Rightarrow> string"
  ce_race :: "db \<Rightarrow> db"
  ce_fresh_task :: "click_world \<Rightarrow> uuid"
  ce_others :: "click_world \<Rightarrow> click_world"

definition on_click_db :: "(db, 'a) op \<Rightarrow> (click_world, 'a) op" where
  "on_click_db m = (\<lambda>w. case m (cw_db w) of (r, d) \<Rightarrow> (r, w\<lparr>cw_db := d\<rparr>))"

definition action_get :: "uuid \<Rightarrow> click_world \<Rightarrow> interactive_action option" where
  "action_get aid w = row_get ia_id aid (cw_actions w)"

definition update_action ::
  "uuid \<Rightarrow> (interactive_action \<Rightarrow> interactive_action) \<Rightarrow> (click_world, unit) op" where
  "update_action aid f = writing (\<lambda>w. w\<lparr>cw_actions := row_upd ia_id aid f (cw_actions w)\<rparr>)"

definition click_now :: "click_world \<Rightarrow> timestamp" where
  "click_now w = db_now (cw_db w)"

section \<open>Minting\<close>

definition key_prefix :: string where
  "key_prefix = ''iact_v1_''"

definition default_ttl :: int where
  "default_ttl = seconds (24 * 3600)"

text \<open>What a button is made for.\<close>

record mint_request =
  mr_installation :: uuid
  mr_kind :: string
  mr_route :: string
  mr_target_type :: string
  mr_target_id :: string
  mr_task :: "uuid option"
  mr_payload :: jobj
  mr_created_for :: "string option"
  mr_allowed_user :: "string option"
  mr_required_role :: "string option"
  mr_allowed_channel :: "string option"
  mr_team :: "string option"
  mr_ttl :: int

definition new_action :: "uuid \<Rightarrow> string \<Rightarrow> timestamp \<Rightarrow> mint_request \<Rightarrow> interactive_action" where
  "new_action aid key_hash now rq =
     \<lparr>ia_id = aid, ia_installation = mr_installation rq, ia_task = mr_task rq, ia_result_task = None,
      ia_key_hash = key_hash, ia_kind = mr_kind rq, ia_route = mr_route rq,
      ia_status = Pending_Send, ia_target_type = mr_target_type rq, ia_target_id = mr_target_id rq,
      ia_payload = mr_payload rq, ia_team = mr_team rq, ia_channel = None, ia_message_ts = None,
      ia_block_id = None, ia_slack_action_id = None, ia_created_for = mr_created_for rq,
      ia_allowed_user = mr_allowed_user rq, ia_required_role = mr_required_role rq,
      ia_allowed_channel = mr_allowed_channel rq, ia_expires_at = now + mr_ttl rq, ia_sent_at = None,
      ia_consumed_at = None, ia_consumed_by = None, ia_last_denied_at = None, ia_denied_count = 0\<rparr>"

text \<open>The key goes into the button; the column of the hash is unique.\<close>

definition mint :: "click_env \<Rightarrow> mint_request \<Rightarrow> (click_world, string \<times> uuid) op" where
  "mint env rq =
     seq (reading (\<lambda>w. (key_prefix @ ce_token env w, ce_fresh_action env w))) (\<lambda>(raw_key, aid).
     seq (reading (\<lambda>w. ce_hash env raw_key \<in> set (map ia_key_hash (cw_actions w)))) (\<lambda>taken.
     if taken then raising (IntegrityError ''interactive_actions_action_key_hash_key'')
     else
       seq (writing (\<lambda>w. w\<lparr>cw_actions := cw_actions w @
              [new_action aid (ce_hash env raw_key) (click_now w) rq]\<rparr>)) (\<lambda>_.
       returning (raw_key, aid))))"

definition sent_action ::
  "string \<Rightarrow> string option \<Rightarrow> string option \<Rightarrow> string option \<Rightarrow> timestamp \<Rightarrow>
   interactive_action \<Rightarrow> interactive_action" where
  "sent_action ch ts block slack_action now a =
     a\<lparr>ia_status := Action_Sent, ia_channel := Some ch, ia_message_ts := ts, ia_block_id := block,
       ia_slack_action_id := slack_action, ia_sent_at := Some now\<rparr>"

definition mark_action_sent ::
  "uuid \<Rightarrow> string \<Rightarrow> string option \<Rightarrow> string option \<Rightarrow> string option \<Rightarrow> (click_world, unit) op" where
  "mark_action_sent aid ch ts block slack_action =
     seq (reading click_now) (\<lambda>now. update_action aid (sent_action ch ts block slack_action now))"

definition mark_send_failed :: "uuid \<Rightarrow> (click_world, unit) op" where
  "mark_send_failed aid = update_action aid (\<lambda>a. a\<lparr>ia_status := Send_Failed\<rparr>)"

section \<open>Claiming a click\<close>

record click =
  ck_key :: string
  ck_actor :: string
  ck_team :: "string option"
  ck_channel :: "string option"
  ck_route :: "string option"
  ck_role :: "string option"

text \<open>Two optional texts differ when both are set, not empty, and different.\<close>

definition both_differ :: "string option \<Rightarrow> string option \<Rightarrow> bool" where
  "both_differ x y \<longleftrightarrow> truthy x \<noteq> None \<and> truthy y \<noteq> None \<and> x \<noteq> y"

definition actor_allowed :: "interactive_action \<Rightarrow> click \<Rightarrow> bool" where
  "actor_allowed a ck \<longleftrightarrow> \<not> both_differ (ia_team a) (ck_team ck) \<and>
     \<not> both_differ (ia_allowed_channel a) (ck_channel ck) \<and>
     ia_allowed_user a \<in> {None, Some (ck_actor ck)} \<and>
     (ia_required_role a = None \<or> ia_required_role a = ck_role ck)"

definition denied_action :: "timestamp \<Rightarrow> interactive_action \<Rightarrow> interactive_action" where
  "denied_action now a = a\<lparr>ia_denied_count := ia_denied_count a + 1, ia_last_denied_at := Some now\<rparr>"

definition find_by_hash :: "string \<Rightarrow> click_world \<Rightarrow> interactive_action option" where
  "find_by_hash h w = find (\<lambda>a. ia_key_hash a = h) (cw_actions w)"

text \<open>The claim of a row: the outcome, and what happens to the row.\<close>

definition claim_row_outcome :: "timestamp \<Rightarrow> click \<Rightarrow> interactive_action \<Rightarrow> claim_status" where
  "claim_row_outcome now ck a =
     (if ia_status a \<in> {Consumed, Superseded} then Claim_Handled
      else if ia_status a \<notin> {Action_Sent, Consuming} then Claim_Wrong_Status
      else if ia_expires_at a \<le> now then Claim_Expired
      else if \<not> actor_allowed a ck \<or> ck_route ck \<noteq> None \<and> ck_route ck \<noteq> Some (ia_route a)
      then Claim_Denied else Claim_Ok)"

definition claim_change ::
  "timestamp \<Rightarrow> claim_status \<Rightarrow> interactive_action \<Rightarrow> interactive_action" where
  "claim_change now st =
     (case st of Claim_Expired \<Rightarrow> (\<lambda>a. a\<lparr>ia_status := Action_Expired\<rparr>)
      | Claim_Denied \<Rightarrow> denied_action now
      | Claim_Ok \<Rightarrow> (\<lambda>a. a\<lparr>ia_status := Consuming\<rparr>)
      | _ \<Rightarrow> id)"

definition claim ::
  "click_env \<Rightarrow> click \<Rightarrow> (click_world, claim_status \<times> interactive_action option) op" where
  "claim env ck =
     seq (reading (find_by_hash (ce_hash env (ck_key ck)))) (\<lambda>found.
     case found of
       None \<Rightarrow> returning (Claim_Not_Found, None)
     | Some a \<Rightarrow>
         seq (reading click_now) (\<lambda>now.
         let st = claim_row_outcome now ck a in
         seq (update_action (ia_id a) (claim_change now st)) (\<lambda>_.
         returning (st, Some (claim_change now st a)))))"

section \<open>After the transition\<close>

definition consumed_action ::
  "string \<Rightarrow> uuid option \<Rightarrow> timestamp \<Rightarrow> interactive_action \<Rightarrow> interactive_action" where
  "consumed_action who result now a =
     a\<lparr>ia_status := Consumed, ia_consumed_at := Some now, ia_consumed_by := Some who,
       ia_result_task := (if result = None then ia_result_task a else result)\<rparr>"

definition complete_action :: "uuid \<Rightarrow> string \<Rightarrow> uuid option \<Rightarrow> (click_world, unit) op" where
  "complete_action aid who result =
     seq (reading click_now) (\<lambda>now. update_action aid (consumed_action who result now))"

definition is_sibling :: "interactive_action \<Rightarrow> interactive_action \<Rightarrow> bool" where
  "is_sibling a b \<longleftrightarrow> ia_installation b = ia_installation a \<and>
     ia_target_type b = ia_target_type a \<and> ia_target_id b = ia_target_id a \<and>
     ia_status b \<in> {Pending_Send, Action_Sent, Consuming} \<and> ia_id b \<noteq> ia_id a"

text \<open>The other open buttons of the same target, without the one that was clicked.\<close>

definition supersede_siblings :: "interactive_action \<Rightarrow> (click_world, nat) op" where
  "supersede_siblings a =
     seq (reading (\<lambda>w. length (filter (is_sibling a) (cw_actions w)))) (\<lambda>n.
     seq (writing (\<lambda>w. w\<lparr>cw_actions :=
            map (\<lambda>b. if is_sibling a b then b\<lparr>ia_status := Superseded\<rparr> else b) (cw_actions w)\<rparr>)) (\<lambda>_.
     returning n))"

end
