(* ===== verification/Slack_Decisions.thy ===== *)
theory Slack_Decisions
  imports Interactive_Actions Scheduler
begin

text \<open>
  \<open>kortny/slack/decisions.py\<close> and \<open>kortny/slack/document_decisions.py\<close>: the buttons of an approval
  and of a document, and what a click on one does. The message that is updated after a click is
  left out; its failure is swallowed by the code.
\<close>

section \<open>Blocks\<close>

definition max_section_text_chars :: nat where "max_section_text_chars = 3000"
definition max_actions_elements :: nat where "max_actions_elements = 25"
definition max_button_text_chars :: nat where "max_button_text_chars = 75"
definition max_button_value_chars :: nat where "max_button_value_chars = 2000"

definition section_block :: "string \<Rightarrow> json res" where
  "section_block s =
     (if max_section_text_chars < length s
      then Inl (ValueError (''section text exceeds 3000 chars (got '' @ int_str (int (length s)) @ '')''))
      else Inr (JObj [(''type'', JStr ''section''),
             (''text'', JObj [(''type'', JStr ''mrkdwn''), (''text'', JStr s)])]))"

definition button_element ::
  "string \<Rightarrow> string \<Rightarrow> string \<Rightarrow> string option \<Rightarrow> json res" where
  "button_element label action_id value style =
     (if max_button_text_chars < length label
      then Inl (ValueError (''button text exceeds 75 chars (got '' @ int_str (int (length label)) @ '')''))
      else if max_button_value_chars < length value
      then Inl (ValueError (''button value exceeds 2000 chars (got '' @ int_str (int (length value)) @ '')''))
      else Inr (JObj ([(''type'', JStr ''button''),
             (''text'', JObj [(''type'', JStr ''plain_text''), (''text'', JStr label)]),
             (''action_id'', JStr action_id)] @
             (if value = [] then [] else [(''value'', JStr value)]) @
             (case style of None \<Rightarrow> [] | Some s \<Rightarrow> [(''style'', JStr s)]))))"

definition actions_block :: "json list \<Rightarrow> string \<Rightarrow> json res" where
  "actions_block elements block_id =
     (if elements = [] then Inl (ValueError ''actions requires at least one element'')
      else if max_actions_elements < length elements
      then Inl (ValueError (''actions allows at most 25 elements (got '' @
             int_str (int (length elements)) @ '')''))
      else Inr (JObj [(''type'', JStr ''actions''), (''elements'', JArr elements),
             (''block_id'', JStr block_id)]))"

section \<open>Decisions\<close>

definition route_approve :: string where "route_approve = ''kortny:v1:approval.approve''"
definition route_reject :: string where "route_reject = ''kortny:v1:approval.reject''"
definition route_doc_rerender :: string where "route_doc_rerender = ''kortny:v1:document.rerender''"
definition route_doc_edit :: string where "route_doc_edit = ''kortny:v1:document.edit''"

record decision_option =
  do_label :: string
  do_route :: string
  do_kind :: string
  do_style :: "string option"

record decision_spec =
  ds_statement :: string
  ds_fallback :: string
  ds_target_type :: string
  ds_target_id :: string
  ds_options :: "decision_option list"
  ds_payload :: jobj

definition approval_decision :: "string \<Rightarrow> string \<Rightarrow> string \<Rightarrow> string \<Rightarrow> decision_spec" where
  "approval_decision key tool statement fallback =
     \<lparr>ds_statement = statement, ds_fallback = fallback, ds_target_type = ''approval'',
      ds_target_id = key,
      ds_options =
        [\<lparr>do_label = ''Approve'', do_route = route_approve, do_kind = ''approve'', do_style = Some ''primary''\<rparr>,
         \<lparr>do_label = ''Reject'', do_route = route_reject, do_kind = ''reject'', do_style = Some ''danger''\<rparr>],
      ds_payload = [(''approval_key'', JStr key), (''tool_name'', JStr tool),
        (''summary'', JStr statement)]\<rparr>"

text \<open>Whom a message's buttons are made for: its installation, task, user, channel and workspace.\<close>

record audience =
  au_installation :: uuid
  au_task :: "uuid option"
  au_user :: "string option"
  au_channel :: "string option"
  au_team :: "string option"

definition option_mint :: "audience \<Rightarrow> decision_spec \<Rightarrow> decision_option \<Rightarrow> mint_request" where
  "option_mint au spec opt =
     \<lparr>mr_installation = au_installation au, mr_kind = do_kind opt, mr_route = do_route opt,
      mr_target_type = ds_target_type spec, mr_target_id = ds_target_id spec, mr_task = au_task au,
      mr_payload = ds_payload spec, mr_created_for = au_user au, mr_allowed_user = au_user au,
      mr_required_role = None, mr_allowed_channel = au_channel au, mr_team = au_team au,
      mr_ttl = default_ttl\<rparr>"

text \<open>Each option is minted and becomes a button.\<close>

fun mint_options ::
  "click_env \<Rightarrow> audience \<Rightarrow> decision_spec \<Rightarrow> decision_option list \<Rightarrow>
   (click_world, (json \<times> uuid) list) op" where
  "mint_options env au spec [] = returning []"
| "mint_options env au spec (opt # opts) =
     seq (mint env (option_mint au spec opt)) (\<lambda>(raw_key, aid).
     seq (lifting (button_element (take max_button_text_chars (do_label opt)) (do_route opt) raw_key
            (do_style opt))) (\<lambda>b.
     seq (mint_options env au spec opts) (\<lambda>rest.
     returning ((b, aid) # rest))))"

definition render_decision ::
  "click_env \<Rightarrow> audience \<Rightarrow> decision_spec \<Rightarrow> (click_world, json list \<times> uuid list) op" where
  "render_decision env au spec =
     (let block_id = take 255 (''kortny:decision:'' @ ds_target_type spec @ '':'' @ ds_target_id spec) in
      seq (mint_options env au spec (ds_options spec)) (\<lambda>minted.
      seq (lifting (section_block (take max_section_text_chars (ds_statement spec)))) (\<lambda>s.
      seq (lifting (actions_block (map fst minted) block_id)) (\<lambda>a.
      returning ([s, a], map snd minted)))))"

text \<open>The buttons of an approval as \<open>_post_approval_request\<close> has them: minted, and marked sent with the
  message they were posted in.\<close>

definition block_id_of :: "json list \<Rightarrow> string option" where
  "block_id_of blocks =
     (case rev blocks of JObj b # bs \<Rightarrow> json_str (jget b ''block_id'') | _ \<Rightarrow> None)"

definition mark_sent_button ::
  "string \<Rightarrow> string \<Rightarrow> json list \<Rightarrow> uuid \<Rightarrow> (click_world, unit) op" where
  "mark_sent_button ch ts blocks aid =
     seq (reading (action_get aid)) (\<lambda>a.
     mark_action_sent aid ch (Some ts) (block_id_of blocks) (map_option ia_route a))"

definition ask_approval ::
  "click_env \<Rightarrow> audience \<Rightarrow> string \<Rightarrow> string \<Rightarrow> string \<Rightarrow> string \<Rightarrow> string \<Rightarrow> (click_world, json list) op" where
  "ask_approval env au key tool statement ch ts =
     seq (render_decision env au (approval_decision key tool statement statement)) (\<lambda>(blocks, aids).
     seq (for_each (mark_sent_button ch ts blocks) aids) (\<lambda>_.
     returning blocks))"

section \<open>The buttons of a document\<close>

definition edit_instructions :: "(string \<times> string) list" where
  "edit_instructions =
     [(''shorten'', ''make it noticeably more concise without dropping key points.''),
      (''lengthen'', ''expand it with more depth, detail, and supporting context.''),
      (''regenerate'', ''regenerate it with a fresh take, keeping the same topic and title.'')]"

definition edit_instruction :: "string \<Rightarrow> string" where
  "edit_instruction kind =
     (case map_of edit_instructions kind of Some s \<Rightarrow> s
      | None \<Rightarrow> ''regenerate it with a fresh take, keeping the same topic and title.'')"

definition mime_formats :: "(string \<times> string) list" where
  "mime_formats =
     [(''application/pdf'', ''pdf''),
      (''application/vnd.openxmlformats-officedocument.presentationml.presentation'', ''pptx''),
      (''application/vnd.openxmlformats-officedocument.wordprocessingml.document'', ''docx''),
      (''application/vnd.openxmlformats-officedocument.spreadsheetml.sheet'', ''xlsx'')]"

definition mime_format :: "string option \<Rightarrow> string" where
  "mime_format m = (case map_of mime_formats (or_else m []) of Some s \<Rightarrow> s | None \<Rightarrow> ''pdf'')"

text \<open>\<open>json.dumps\<close> with its own separators.\<close>

fun json_plain :: "json \<Rightarrow> string" where
  "json_plain JNull = ''null''"
| "json_plain (JBool b) = (if b then ''true'' else ''false'')"
| "json_plain (JInt i) = int_str i"
| "json_plain (JFloat r) = r"
| "json_plain (JStr s) = json_string_text s"
| "json_plain (JArr xs) = ''['' @ join '', '' (map json_plain xs) @ '']''"
| "json_plain (JObj kvs) =
     ''{'' @ join '', '' (map (\<lambda>kv. json_string_text (fst kv) @ '': '' @ json_plain (snd kv)) kvs) @ ''}''"

text \<open>\<open>str(payload.get(key) or fallback)\<close>.\<close>

definition payload_or :: "jobj \<Rightarrow> string \<Rightarrow> string \<Rightarrow> string" where
  "payload_or p key fallback = (if json_truthy (jget p key) then py_str (jget p key) else fallback)"

text \<open>The latest version of a document; a row without a version comes first, as it does in SQL.\<close>

definition version_rank :: "artifact \<Rightarrow> int \<times> int" where
  "version_rank a = (case ar_doc_version a of None \<Rightarrow> (0, 0) | Some v \<Rightarrow> (1, - v))"

definition latest_document :: "uuid \<Rightarrow> click_world \<Rightarrow> artifact option" where
  "latest_document grp w =
     first_by version_rank (filter (\<lambda>a. ar_doc_group a = Some grp) (cw_artifacts w))"

definition quoted :: "string \<Rightarrow> string" where
  "quoted s = CHR 0x22 # s @ [CHR 0x22]"

definition edit_text :: "string \<Rightarrow> string \<Rightarrow> int option \<Rightarrow> string \<Rightarrow> jobj \<Rightarrow> string" where
  "edit_text kind fmt version grp spec =
     ''Revise the document below: '' @ edit_instruction kind @ '' Keep everything else '' @
     ''intact. Then re-render it with the document_studio tool in '' @ quoted fmt @
     '' format (set format='' @ quoted fmt @ ''), passing doc_group_id='' @ quoted grp @ '' and '' @
     ''base_version='' @ optional_int_str version @ '' so it stays this document'' @ CHR 0x27 # ''s next '' @
     ''version in the SAME format (do not start a new document or change '' @
     ''the format).'' @ nl @ nl @ ''Current document spec (JSON):'' @ nl @ json_plain (JObj spec)"

text \<open>The input and the identity payload of the child task, and its source.\<close>

definition edit_child ::
  "string \<Rightarrow> jobj \<Rightarrow> artifact \<Rightarrow> jobj \<Rightarrow> string \<times> jobj \<times> string" where
  "edit_child grp p latest spec =
     (let kind = payload_or p ''value'' ''regenerate''
      in (edit_text kind (mime_format (ar_mime_type latest)) (ar_doc_version latest) grp spec,
          [(''kind'', JStr ''document_edit''), (''doc_group_id'', JStr grp), (''edit_kind'', JStr kind),
           (''base_version'', jopt_int (ar_doc_version latest))],
          ''document_edit''))"

definition rerender_child :: "string \<Rightarrow> jobj \<Rightarrow> string \<times> jobj \<times> string" where
  "rerender_child grp p =
     (let mode = payload_or p ''mode'' []; value = payload_or p ''value'' []
      in (''Re-render document ('' @ mode @ ''='' @ value @ '').'',
          [(''kind'', JStr ''document_rerender''), (''doc_group_id'', JStr grp), (''mode'', JStr mode),
           (''value'', JStr value), (''base_version'', jget p ''base_version'')],
          ''document_rerender''))"

definition action_parent :: "interactive_action \<Rightarrow> click_world \<Rightarrow> task option" where
  "action_parent a w = Option.bind (ia_task a) (\<lambda>tid. task_get tid (cw_db w))"

definition child_request ::
  "click_env \<Rightarrow> interactive_action \<Rightarrow> string \<Rightarrow> string \<Rightarrow> string \<Rightarrow> task option \<Rightarrow>
   string \<times> jobj \<times> string \<Rightarrow> task_request" where
  "child_request env a actor grp ch parent child = (case child of (input, p, source) \<Rightarrow>
     \<lparr>rq_installation = ia_installation a, rq_slack_event_id = None, rq_channel = ch,
      rq_thread_ts = Option.bind parent task_thread_ts, rq_message_ts = None,
      rq_user = actor, rq_input = input, rq_source_surface = None, rq_parent = ia_task a,
      rq_identity = Some (synthetic_identity (ce_sha env) source
        (grp @ '':'' @ uuid_str (ia_id a)) input p)\<rparr>)"

definition create_child ::
  "click_env \<Rightarrow> interactive_action \<Rightarrow> string \<Rightarrow> string \<Rightarrow> string \<Rightarrow> task option \<Rightarrow>
   string \<times> jobj \<times> string \<Rightarrow> (click_world, uuid option) op" where
  "create_child env a actor grp ch parent child =
     seq (reading (ce_fresh_task env)) (\<lambda>fresh.
     seq (on_click_db (create_task (ce_sha env) (ce_race env) fresh
            (child_request env a actor grp ch parent child))) (\<lambda>t.
     returning (Some (t_id t))))"

definition process_document_action ::
  "click_env \<Rightarrow> interactive_action \<Rightarrow> string \<Rightarrow> (click_world, uuid option) op" where
  "process_document_action env a actor =
     (let p = ia_payload a; grp = payload_or p ''doc_group_id'' (ia_target_id a) in
      if grp = [] then returning None
      else
        seq (reading (action_parent a)) (\<lambda>parent.
        case (case truthy (map_option t_channel parent) of
                Some ch \<Rightarrow> Some ch | None \<Rightarrow> truthy (ia_channel a)) of
          None \<Rightarrow> returning None
        | Some ch \<Rightarrow>
            if ia_route a = route_doc_edit then
              (case uuid_parse grp of
                 None \<Rightarrow> raising (ValueError ''badly formed hexadecimal UUID string'')
               | Some gid \<Rightarrow>
                   seq (reading (latest_document gid)) (\<lambda>latest.
                   case latest of
                     None \<Rightarrow> returning None
                   | Some doc \<Rightarrow>
                       (case ar_spec doc of
                          None \<Rightarrow> returning None
                        | Some spec \<Rightarrow> create_child env a actor grp ch parent (edit_child grp p doc spec))))
            else create_child env a actor grp ch parent (rerender_child grp p)))"

section \<open>A click on a button\<close>

datatype decision_outcome =
  Applied | Already_Handled | Click_Denied | Click_Expired | Click_Not_Found | Click_Error

definition known_routes :: "string list" where
  "known_routes = [route_approve, route_reject, route_doc_rerender, route_doc_edit]"

text \<open>The longest known route the identifier is or extends with a dot, else the identifier.\<close>

definition longer_route :: "string \<Rightarrow> string option \<Rightarrow> string option" where
  "longer_route r best =
     (case best of None \<Rightarrow> Some r | Some b \<Rightarrow> if length b < length r then Some r else Some b)"

definition canonical_route :: "string \<Rightarrow> string" where
  "canonical_route action_id =
     or_else (fold longer_route
       (filter (\<lambda>r. action_id = r \<or> starts_with (r @ ''.'') action_id) known_routes) None) action_id"

definition apply_document_action ::
  "click_env \<Rightarrow> interactive_action \<Rightarrow> string \<Rightarrow> (click_world, decision_outcome) op" where
  "apply_document_action env a actor =
     seq (process_document_action env a actor) (\<lambda>child.
     seq (complete_action (ia_id a) actor child) (\<lambda>_.
     seq (supersede_siblings a) (\<lambda>_.
     returning (if child \<noteq> None then Applied else Click_Error))))"

text \<open>The transition of the task; an action without a task has none.\<close>

definition approval_transition ::
  "interactive_action \<Rightarrow> string \<Rightarrow> string \<Rightarrow> (click_world, task option) op" where
  "approval_transition a route actor =
     (case ia_task a of
        None \<Rightarrow> returning None
      | Some tid \<Rightarrow>
          on_click_db
            (if route = route_approve
             then approve_tool_approval tid (payload_or (ia_payload a) ''approval_key'' []) actor None
             else reject_tool_approval tid (payload_or (ia_payload a) ''approval_key'' []) actor))"

definition apply_approval_action ::
  "interactive_action \<Rightarrow> string \<Rightarrow> string \<Rightarrow> (click_world, decision_outcome) op" where
  "apply_approval_action a route actor =
     seq (approval_transition a route actor) (\<lambda>transitioned.
     seq (complete_action (ia_id a) actor None) (\<lambda>_.
     seq (supersede_siblings a) (\<lambda>_.
     returning (if transitioned \<noteq> None then Applied else Already_Handled))))"

definition apply_claimed ::
  "click_env \<Rightarrow> interactive_action \<Rightarrow> string \<Rightarrow> string \<Rightarrow> (click_world, decision_outcome) op" where
  "apply_claimed env a route actor =
     (if route \<in> {route_doc_rerender, route_doc_edit} then apply_document_action env a actor
      else if route \<in> {route_approve, route_reject} then apply_approval_action a route actor
      else returning Click_Error)"

definition refused_outcome :: "claim_status \<Rightarrow> decision_outcome" where
  "refused_outcome st =
     (case st of Claim_Not_Found \<Rightarrow> Click_Not_Found | Claim_Expired \<Rightarrow> Click_Expired
      | Claim_Denied \<Rightarrow> Click_Denied | Claim_Handled \<Rightarrow> Already_Handled | _ \<Rightarrow> Click_Error)"

definition decision_click ::
  "string \<Rightarrow> string \<Rightarrow> string \<Rightarrow> string option \<Rightarrow> string option \<Rightarrow> click" where
  "decision_click route raw_key actor team ch =
     \<lparr>ck_key = raw_key, ck_actor = actor, ck_team = team, ck_channel = ch, ck_route = Some route,
      ck_role = None\<rparr>"

definition process_decision_action ::
  "click_env \<Rightarrow> string \<Rightarrow> string \<Rightarrow> string \<Rightarrow> string option \<Rightarrow> string option \<Rightarrow>
   (click_world, decision_outcome) op" where
  "process_decision_action env action_id raw_key actor team ch =
     (let route = canonical_route action_id in
      seq (claim env (decision_click route raw_key actor team ch)) (\<lambda>(st, found).
      case found of
        Some a \<Rightarrow> if st = Claim_Ok then apply_claimed env a route actor else returning (refused_outcome st)
      | None \<Rightarrow> returning (refused_outcome st)))"

text \<open>The handler of the buttons: one transaction, whose error is only logged.\<close>

definition handle_decision_action ::
  "click_env \<Rightarrow> string \<Rightarrow> string \<Rightarrow> string \<Rightarrow> string option \<Rightarrow> string option \<Rightarrow> (click_world, unit) op" where
  "handle_decision_action env action_id raw_key actor team ch =
     (if action_id = [] \<or> raw_key = [] \<or> actor = [] then returning ()
      else
        catching (seq (transaction (ce_others env) (process_decision_action env action_id raw_key actor team ch)) (\<lambda>_.
          returning ())) (\<lambda>e. returning ()))"

end
