(* ===== verification/Posting_Properties.thy ===== *)
theory Posting_Properties
  imports Slack_Posting Outbox_Properties Task_Rows Task_Properties
begin

text \<open>
  What posting promises: it moves the outbox and the task tables only in ways that keep their
  invariants, a purpose of a task is posted once, and a text with a malformed link is not posted
  at all.
\<close>

section \<open>Posting is moves\<close>

definition tables_later :: "'z post_db_scheme \<Rightarrow> 'z post_db_scheme \<Rightarrow> bool" where
  "tables_later w w' \<longleftrightarrow> moves (pw_db w) (pw_db w')"

definition post_ok :: "'z post_db_scheme \<Rightarrow> bool" where
  "post_ok w \<longleftrightarrow> outbox_ok w \<and> core_ok (pw_db w)"

definition post_later :: "'z post_db_scheme \<Rightarrow> 'z post_db_scheme \<Rightarrow> bool" where
  "post_later w w' \<longleftrightarrow> effect_moves w w' \<and> tables_later w w'"

interpretation post_tables: frame "\<lambda>w :: 'z post_db_scheme. core_ok (pw_db w)" tables_later
  by unfold_locales (auto simp: tables_later_def intro: moves_refl moves_trans core_ok_moves)

interpretation post: frame post_ok post_later
proof unfold_locales
  fix s s' :: "'z post_db_scheme"
  assume "post_ok s" "post_later s s'"
  then show "post_ok s'"
    by (auto simp: post_ok_def post_later_def tables_later_def intro: core_ok_moves outbox_ok_moves)
qed (auto simp: post_later_def intro: post_tables.rel_refl post_tables.rel_trans rtranclp_trans)

lemma post_tracks: "outbox.tracks m \<Longrightarrow> post_tables.tracks m \<Longrightarrow> post.tracks m"
  by (auto simp: post.tracks_def outbox.tracks_def post_tables.tracks_def post_ok_def post_later_def)

text \<open>A client whose calls leave the outbox alone and only move the task post_tables.\<close>

definition calls_ok :: "(post_db, 'a) op \<Rightarrow> bool" where
  "calls_ok c \<longleftrightarrow> quiet c \<and> post_tables.tracks c"

definition client_ok :: "post_env \<Rightarrow> bool" where
  "client_ok env \<longleftrightarrow> (\<forall>ch tx ts bs. calls_ok (pe_chat_post env ch tx ts bs)) \<and>
     (\<forall>f n ti ch note ts. calls_ok (pe_upload env f n ti ch note ts)) \<and>
     (\<forall>f ch ts st. pe_set_status env = Some f \<longrightarrow> calls_ok (f ch ts st)) \<and>
     (\<forall>w. outbox_ok w \<longrightarrow> effect_moves w (pe_race env w)) \<and>
     (\<forall>w. core_ok (pw_db w) \<longrightarrow> tables_later w (pe_race env w))"

lemma quiet_tracks: "quiet m \<Longrightarrow> outbox.tracks m"
  by (auto simp: outbox.tracks_def quiet_def intro!: r_into_rtranclp other_tables)

lemma calls_track: "calls_ok c \<Longrightarrow> post.tracks c"
  by (simp add: calls_ok_def post_tracks quiet_tracks)

lemma tables_same: "pw_db w' = pw_db w \<Longrightarrow> tables_later w w'"
  by (simp add: tables_later_def moves_refl)

lemma tables_tracks_writing: "(\<And>w. pw_db (f w) = pw_db w) \<Longrightarrow> post_tables.tracks (writing f)"
  by (auto simp: post_tables.tracks_def intro: tables_same)

lemma tables_tracks_deliver:
  fixes call :: "('z post_db_scheme, slack_answer) op"
  assumes "post_tables.tracks call" and "\<And>w. core_ok (pw_db w) \<Longrightarrow> tables_later w (race w)"
  shows "post_tables.tracks (deliver describe api_error race fid rq call)"
proof -
  have "post_tables.tracks (writing race)" by (auto simp: post_tables.tracks_def assms(2))
  moreover have "post_tables.tracks (insert_effect fid rq :: ('z post_db_scheme, effect) op)"
    unfolding insert_effect_def
    by (intro post_tables.tracks_seq)
      (auto split: option.splits intro!: post_tables.tracks_seq tables_tracks_writing)
  ultimately have "post_tables.tracks (get_or_create race fid rq)"
    unfolding get_or_create_def
    by (intro post_tables.tracks_seq) (auto split: option.splits intro!: post_tables.tracks_seq)
  moreover have "post_tables.tracks (attempt_call describe api_error operation k call)" for operation k
    unfolding attempt_call_def
    by (intro post_tables.tracks_seq post_tables.tracks_catching assms(1))
      (auto split: option.splits intro!: post_tables.tracks_seq tables_tracks_writing simp: put_effect_def)
  ultimately show ?thesis
    unfolding deliver_def
    by (intro post_tables.tracks_seq)
      (auto intro!: post_tables.tracks_seq tables_tracks_writing simp: put_effect_def)
qed

lemma tracks_deliver_effect:
  assumes "client_ok env" and "calls_ok call"
  shows "post.tracks (deliver_effect env rq call)"
proof -
  have race: "effect_moves w (pe_race env w)" if "outbox_ok w" for w
    using assms(1) that by (simp add: client_ok_def)
  have "outbox.tracks (deliver (pe_describe env) (pe_api_error env) (pe_race env) fid rq call)" for fid
    using deliver_result [OF _ race] assms(2) by (auto simp: calls_ok_def intro!: outbox.tracksI)
  moreover have "post_tables.tracks (deliver (pe_describe env) (pe_api_error env) (pe_race env) fid rq call)" for fid
    using assms by (intro tables_tracks_deliver) (auto simp: calls_ok_def client_ok_def)
  ultimately show ?thesis
    unfolding deliver_effect_def by (intro post.tracks_seq) (auto intro: post_tracks)
qed

lemma tracks_on_task_db: "core.tracks m \<Longrightarrow> post.tracks (on_task_db m)"
  by (rule post_tracks)
    (auto simp: on_task_db_def core.tracks_def post_tables.tracks_def tables_later_def quiet_def
      intro!: quiet_tracks split: prod.splits)

lemma tracks_post_event: "ty \<noteq> Status_Changed \<Longrightarrow> post.tracks (post_event tid ty p)"
  unfolding post_event_def by (intro post.tracks_seq tracks_on_task_db) auto

lemma tracks_artifacts: "(\<And>w. ob_effects (f w) = ob_effects w \<and> pw_db (f w) = pw_db w) \<Longrightarrow> post.tracks (writing f)"
  by (auto simp: quiet_def intro!: post_tracks quiet_tracks tables_tracks_writing)

lemma tracks_record_message: "post.tracks (record_message tid sid p)"
  unfolding record_message_def by (intro post.tracks_seq post.tracks_if tracks_post_event) auto

lemma tracks_flag: "post.tracks (flag_egress_urls env th slack_text purpose)"
  unfolding flag_egress_urls_def
  by (intro post.tracks_seq) (auto split: option.splits intro!: tracks_post_event post.tracks_if)

lemma tracks_post_message:
  assumes "client_ok env"
  shows "post.tracks (post_message env th message purpose blocks key_purpose)"
proof -
  have c: "calls_ok (pe_chat_post env ch tx ts bs)" for ch tx ts bs
    using assms by (simp add: client_ok_def)
  have task: "post.tracks (post_task_message env th tid tx bs p k)" for tid tx bs p k
    unfolding post_task_message_def
    by (intro post.tracks_seq tracks_on_task_db tracks_deliver_effect [OF assms c])
      (auto split: option.splits intro!: post.tracks_seq tracks_record_message)
  have plain: "post.tracks (post_plain_message env th tx bs)" for tx bs
    unfolding post_plain_message_def
    by (intro post.tracks_seq calls_track [OF c]) (auto split: option.splits)
  have play: "post.tracks (post_playground_message env th tx p)" for tx p
    unfolding post_playground_message_def
    by (intro post.tracks_seq) (auto split: option.splits intro!: post.tracks_seq tracks_post_event)
  show ?thesis
    unfolding post_message_def Let_def
    by (intro post.tracks_seq tracks_flag post.tracks_if play)
      (auto split: option.splits simp: plain task)
qed

lemma tracks_clear_status:
  assumes "client_ok env"
  shows "post.tracks (clear_assistant_status env th)"
proof -
  have "post.tracks (catching (f ch ts st) (\<lambda>_. returning ()))" if "pe_set_status env = Some f" for f ch ts st
    using assms that
    by (intro post.tracks_catching [OF calls_track post.tracks_pure(1)]) (auto simp: client_ok_def)
  then show ?thesis by (simp add: clear_assistant_status_def split: option.split bool.split)
qed

lemma tracks_mark_posted: "post.tracks (mark_posted a file_id now)"
  unfolding mark_posted_def by (rule tracks_artifacts) (simp add: put_artifact_def)

lemma tracks_upload_file:
  assumes "client_ok env"
  shows "post.tracks (upload_file env th path ref note title now)"
proof -
  have c: "calls_ok (pe_upload env f n ti ch tx ts)" for f n ti ch tx ts
    using assms by (simp add: client_ok_def)
  have find: "post.tracks (resolve_or_create_artifact env tid path ref)" for tid
    unfolding resolve_or_create_artifact_def
    by (auto split: artifact_ref.splits option.splits
        intro!: post.tracks_seq tracks_artifacts tracks_post_event)
  have up: "post.tracks (upload_artifact env th t path a n ti now)" for t a n ti
    unfolding upload_artifact_def
    by (intro post.tracks_seq tracks_deliver_effect [OF assms c])
      (auto split: option.splits intro!: post.tracks_seq tracks_record_message tracks_mark_posted)
  have play: "post.tracks (upload_playground env th tid a now)" for tid a
    unfolding upload_playground_def
    by (intro post.tracks_seq tracks_mark_posted tracks_post_event) auto
  show ?thesis
    unfolding upload_file_def
    by (auto split: option.splits list.splits
        intro!: post.tracks_seq tracks_on_task_db find up play)
qed

section \<open>A purpose is posted once\<close>

lemma post_event_apply:
  "task_get tid (pw_db w) = Some t \<Longrightarrow>
   post_event tid ty p w = (Inr (), w\<lparr>pw_db := add_event tid ty p (pw_db w)\<rparr>)"
  by (simp add: post_event_def on_task_db_def seq_apply append_event_simp)

lemma on_resolve_apply:
  "task_get tid (pw_db w) = Some t \<Longrightarrow> on_task_db (resolve_task tid) w = (Inr t, w)"
  by (simp add: on_task_db_def resolve_task_simp)

lemma on_resolve_InrD:
  "on_task_db (resolve_task tid) w = (Inr t, w') \<Longrightarrow> task_get tid (pw_db w) = Some t \<and> w' = w"
  by (auto simp: on_task_db_def resolve_task_def split: option.splits)

lemma message_event_mono:
  assumes "moves (pw_db w) (pw_db w')" and "message_event_exists tid sid w"
  shows "message_event_exists tid sid w'"
proof -
  obtain es where "events_of tid (pw_db w') = events_of tid (pw_db w) @ es"
    using log_grows_moves [OF assms(1)] by (auto simp: event_log.grows_def)
  with assms(2) show ?thesis by (simp add: message_event_exists_def)
qed

text \<open>The message of a key has been sent: its effect has succeeded with a time stamp and is in the log.\<close>

definition message_sent :: "post_db \<Rightarrow> uuid \<times> string \<Rightarrow> string \<Rightarrow> bool" where
  "message_sent w k ts \<longleftrightarrow>
     (\<exists>t r. task_get (fst k) (pw_db w) = Some t \<and> r \<in> set (ob_effects w) \<and>
        effect_key r = (t_installation t, slack_message_key (fst k) (snd k)) \<and>
        fx_status r = ''succeeded'' \<and> posted_ts (known_response r) = Some ts \<and>
        message_event_exists (fst k) (uuid_str (fx_id r)) w)"

lemma message_sent_kept:
  assumes "post_ok w" "post_later w w'" "message_sent w k ts"
  shows "message_sent w' k ts"
proof -
  have m: "effect_moves w w'" "moves (pw_db w) (pw_db w')" and ok: "outbox_ok w" "core_ok (pw_db w)"
    using assms(1,2) by (simp_all add: post_ok_def post_later_def tables_later_def)
  obtain t r where r: "task_get (fst k) (pw_db w) = Some t" "r \<in> set (ob_effects w)"
    "effect_key r = (t_installation t, slack_message_key (fst k) (snd k))" "fx_status r = ''succeeded''"
    "posted_ts (known_response r) = Some ts" "message_event_exists (fst k) (uuid_str (fx_id r)) w"
    using assms(3) unfolding message_sent_def by blast
  obtain t' where "task_get (fst k) (pw_db w') = Some t'" "t_installation t' = t_installation t"
    using task_row_moves [OF m(2) ok(2) r(1)] by blast
  with r(3,4,5) succeeded_kept [OF m(1) ok(1) r(2,4)] message_event_mono [OF m(2) r(6)]
  show ?thesis unfolding message_sent_def by metis
qed

lemma record_message_done:
  assumes "task_get tid (pw_db w) = Some t" and "jget p ''slack_side_effect_id'' = JStr sid"
  shows "\<exists>w'. record_message tid sid p w = (Inr (), w') \<and> ob_effects w' = ob_effects w \<and>
    task_get tid (pw_db w') = Some t \<and> message_event_exists tid sid w'"
proof (cases "message_event_exists tid sid w")
  case True
  then show ?thesis using assms(1) by (simp add: record_message_def seq_apply)
next
  case False
  have "message_event_exists tid sid (w\<lparr>pw_db := add_event tid Message_Posted p (pw_db w)\<rparr>)"
    using assms(2) by (simp add: message_event_exists_def events_of_add)
  with False assms(1) show ?thesis
    by (simp add: record_message_def seq_apply post_event_apply)
qed

lemma message_payload_sid [simp]:
  "jget (message_payload th ts tx p sid key bs) ''slack_side_effect_id'' = JStr sid"
  by (simp add: message_payload_def)

lemma post_task_message_sends:
  assumes env: "client_ok env" and ok: "post_ok w"
    and run: "post_task_message env th tid tx bs purpose key_purpose w = (Inr ts, w')"
  shows "message_sent w' (tid, key_purpose) ts"
proof -
  obtain t where t: "task_get tid (pw_db w) = Some t" "on_task_db (resolve_task tid) w = (Inr t, w)"
    using run by (cases "on_task_db (resolve_task tid) w"; cases "fst (on_task_db (resolve_task tid) w)")
      (auto simp: post_task_message_def on_resolve_InrD dest: on_resolve_InrD)
  let ?rq = "message_request t th tx bs purpose key_purpose"
  let ?call = "pe_chat_post env (th_channel th) tx (post_thread_ts th) bs"
  have call: "calls_ok ?call" using env by (simp add: client_ok_def)
  obtain x wd where d: "deliver_effect env ?rq ?call w = (Inr x, wd)"
    using run t(2) by (cases "deliver_effect env ?rq ?call w"; cases "fst (deliver_effect env ?rq ?call w)")
      (auto simp: post_task_message_def)
  have later: "post_later w wd" by (rule post.tracksD [OF tracks_deliver_effect [OF env call] ok d])
  have race: "effect_moves w (pe_race env w)" if "outbox_ok w" for w
    using env that by (simp add: client_ok_def)
  have ob: "outbox_ok w" "core_ok (pw_db w)" "quiet ?call"
    using ok call by (simp_all add: post_ok_def calls_ok_def)
  have dl: "deliver (pe_describe env) (pe_api_error env) (pe_race env) (pe_fresh env w) ?rq ?call w = (Inr x, wd)"
    using d by (simp add: deliver_effect_def)
  obtain r where r: "r \<in> set (ob_effects wd)" "effect_key r = (t_installation t, slack_message_key tid key_purpose)"
    "fx_status r = ''succeeded''" "fr_effect x = fx_id r"
    "known_response r = (if fr_response x = [] then [(''ok'', JBool True)] else fr_response x)"
    using deliver_result [OF ob(1) race ob(3) dl] task_get_id [OF t(1)]
    by (auto simp: message_request_def)
  have ts: "posted_ts (fr_response x) = Some ts"
    using run t(2) d by (auto simp: post_task_message_def seq_apply split: option.splits prod.splits sum.splits)
  then have "fr_response x \<noteq> []" by (auto simp: posted_ts_def non_empty_str_def)
  then have known: "posted_ts (known_response r) = Some ts" using ts r(5) by simp
  obtain t' where t': "task_get tid (pw_db wd) = Some t'" "t_installation t' = t_installation t"
    using task_row_moves [OF _ ob(2) t(1)] later by (auto simp: post_later_def tables_later_def)
  let ?p = "message_payload th ts tx purpose (uuid_str (fr_effect x)) (slack_message_key (t_id t) key_purpose) bs"
  obtain w2 where w2: "record_message tid (uuid_str (fr_effect x)) ?p wd = (Inr (), w2)"
    "ob_effects w2 = ob_effects wd" "task_get tid (pw_db w2) = Some t'"
    "message_event_exists tid (uuid_str (fr_effect x)) w2"
    using record_message_done [OF t'(1) message_payload_sid] by blast
  have "w' = w2" using run t(2) d ts w2(1) by (simp add: post_task_message_def)
  then show ?thesis
    using w2(2-4) r known t'(2) unfolding message_sent_def by auto
qed

lemma post_task_message_sent:
  assumes ok: "post_ok w" and sent: "message_sent w (tid, key_purpose) ts"
  shows "post_task_message env th tid tx bs purpose key_purpose w = (Inr ts, w)"
proof -
  obtain t r where r: "task_get tid (pw_db w) = Some t" "r \<in> set (ob_effects w)"
    "effect_key r = (t_installation t, slack_message_key tid key_purpose)" "fx_status r = ''succeeded''"
    "posted_ts (known_response r) = Some ts" "message_event_exists tid (uuid_str (fx_id r)) w"
    using sent unfolding message_sent_def by auto
  let ?rq = "message_request t th tx bs purpose key_purpose"
  have "effect_key r = (er_installation ?rq, er_key ?rq)"
    using r(3) task_get_id [OF r(1)] by (simp add: message_request_def)
  then show ?thesis
    using deliver_settled [OF _ r(2) _ r(4), of ?rq] ok r(5,6) on_resolve_apply [OF r(1)]
    by (simp add: post_task_message_def deliver_effect_def post_ok_def record_message_def)
qed

text \<open>The contract of the outbox holds one level up, for the messages of a task.\<close>

type_synonym message_send =
  "post_env \<times> slack_thread \<times> uuid \<times> string \<times> json list option \<times> string \<times> string"

definition send_message :: "message_send \<Rightarrow> (post_db, slack_answer) op \<Rightarrow> (post_db, string) op" where
  "send_message q call = (case q of (env, th, tid, tx, bs, purpose, key_purpose) \<Rightarrow>
     post_task_message (env\<lparr>pe_chat_post := \<lambda>ch tx ts bs. call\<rparr>) th tid tx bs purpose key_purpose)"

definition message_key :: "message_send \<Rightarrow> uuid \<times> string" where
  "message_key q = (case q of (env, th, tid, tx, bs, purpose, key_purpose) \<Rightarrow> (tid, key_purpose))"

lemma client_ok_call:
  "client_ok env \<Longrightarrow> calls_ok call \<Longrightarrow> client_ok (env\<lparr>pe_chat_post := \<lambda>ch tx ts bs. call\<rparr>)"
  by (simp add: client_ok_def)

lemma tracks_post_task_message:
  assumes "client_ok env"
  shows "post.tracks (post_task_message env th tid tx bs purpose key_purpose)"
proof -
  have "calls_ok (pe_chat_post env ch tx ts bs)" for ch tx ts bs using assms by (simp add: client_ok_def)
  then show ?thesis
    unfolding post_task_message_def
    by (intro post.tracks_seq tracks_on_task_db tracks_deliver_effect [OF assms])
      (auto split: option.splits intro!: post.tracks_seq tracks_record_message)
qed

interpretation messages: at_most_once post_ok post_later message_sent message_key send_message
  "\<lambda>q. client_ok (fst q)" calls_ok
proof unfold_locales
  fix w w' k ts assume "post_ok w" "post_later w w'" "message_sent w k ts"
  then show "message_sent w' k ts" by (rule message_sent_kept)
next
  fix q :: message_send and c :: "(post_db, slack_answer) op" assume "client_ok (fst q)" "calls_ok c"
  then show "post.tracks (send_message q c)"
    unfolding send_message_def
    by (cases q) (simp add: tracks_post_task_message [OF client_ok_call])
next
  fix w w' ts and c :: "(post_db, slack_answer) op" and q :: message_send
  assume "post_ok w" "client_ok (fst q)" "calls_ok c" "send_message q c w = (Inr ts, w')"
  then show "message_sent w' (message_key q) ts"
    by (auto simp: send_message_def message_key_def
        dest: post_task_message_sends [OF client_ok_call] split: prod.splits)
next
  fix w ts and c :: "(post_db, slack_answer) op" and q :: message_send
  assume "post_ok w" "message_sent w (message_key q) ts"
  then show "send_message q c w = (Inr ts, w)"
    by (auto simp: send_message_def message_key_def post_task_message_sent split: prod.splits)
qed

lemma post_task_message_send:
  "post_task_message env th tid tx bs purpose key_purpose =
   send_message (env, th, tid, tx, bs, purpose, key_purpose)
     (pe_chat_post env (th_channel th) tx (post_thread_ts th) bs)"
  by (simp add: send_message_def post_task_message_def deliver_effect_def)

abbreviation scan_text :: "post_env \<Rightarrow> string \<Rightarrow> flagged_url list res" where
  "scan_text env message \<equiv>
     scan_outbound_urls (pe_host_check env) (pe_allowlist env) (pe_normalize env message)"

definition posted_events :: "post_db \<Rightarrow> event list" where
  "posted_events w = filter (\<lambda>e. e_type e = Message_Posted) (db_events (pw_db w))"

lemma posted_events_log [simp]:
  "posted_events (w\<lparr>pw_db := add_event tid Log p d\<rparr>) = posted_events (w\<lparr>pw_db := d\<rparr>)"
  by (simp add: posted_events_def add_event_def)

lemma flag_cases:
  assumes "th_task th = Some tid" and "task_get tid (pw_db w) = Some t"
  shows "(\<exists>e. scan_text env message = Inl e \<and>
      flag_egress_urls env th (pe_normalize env message) purpose w = (Inl e, w)) \<or>
    (\<exists>w'. flag_egress_urls env th (pe_normalize env message) purpose w = (Inr (), w') \<and>
      ob_effects w' = ob_effects w \<and> posted_events w' = posted_events w)"
  using assms by (auto simp: flag_egress_urls_def seq_apply post_event_apply split: sum.split)

text \<open>C22. A purpose of a task is posted once. Once a message has been posted for it, every later attempt,
  with any text, in any thread and whatever happened in between, returns the time stamp of the first
  message or stops at the scan of the text; it does not call Slack, leaves the outbox as it is and
  reports no message.\<close>

theorem message_posted_once:
  assumes "client_ok env" and "post_ok w" and "th_task th = Some tid" and "th_channel th \<noteq> ''playground''"
    and "post_message env th message purpose blocks kp w = (Inr ts, w1)" and "post_later w1 w2"
    and "th_task th' = Some tid" and "th_channel th' \<noteq> ''playground''"
    and "key_name purpose' kp' = key_name purpose kp"
  shows "\<exists>r w3. (\<forall>call. post_message (env'\<lparr>pe_chat_post := call\<rparr>) th' message' purpose' blocks' kp' w2 = (r, w3)) \<and>
    (r = Inr ts \<or> (\<exists>e. r = Inl e \<and> scan_text env' message' = Inl e)) \<and>
    ob_effects w3 = ob_effects w2 \<and> posted_events w3 = posted_events w2"
proof -
  let ?tx = "pe_normalize env message" and ?bs = "normalize_blocks (pe_normalize env) blocks"
  obtain w0 where w0: "flag_egress_urls env th ?tx purpose w = (Inr (), w0)"
    and first: "post_task_message env th tid ?tx ?bs purpose (key_name purpose kp) w0 = (Inr ts, w1)"
    using assms(3-5) by (auto simp: post_message_def Let_def seq_apply split: prod.splits sum.splits)
  have ok0: "post_ok w0" by (rule post.tracks_ok [OF tracks_flag assms(2) w0])
  have call: "calls_ok (pe_chat_post env (th_channel th) ?tx (post_thread_ts th) ?bs)"
    using assms(1) by (simp add: client_ok_def)
  have sent1: "message_sent w1 (tid, key_name purpose kp) ts"
    by (rule post_task_message_sends [OF assms(1) ok0 first])
  have ok1: "post_ok w1" by (rule post.tracks_ok [OF tracks_post_task_message [OF assms(1)] ok0 first])
  obtain t where t: "task_get tid (pw_db w2) = Some t"
    using message_sent_kept [OF ok1 assms(6) sent1] by (auto simp: message_sent_def)
  let ?tx' = "pe_normalize env' message'" and ?bs' = "normalize_blocks (pe_normalize env') blocks'"
  have flag: "flag_egress_urls (env'\<lparr>pe_chat_post := call\<rparr>) th' tx p = flag_egress_urls env' th' tx p" for call tx p
    by (simp add: flag_egress_urls_def)
  have second: "post_message (env'\<lparr>pe_chat_post := call\<rparr>) th' message' purpose' blocks' kp' =
      seq (flag_egress_urls env' th' ?tx' purpose') (\<lambda>_.
        send_message (env', th', tid, ?tx', ?bs', purpose', key_name purpose kp)
          (call (th_channel th') ?tx' (post_thread_ts th') ?bs'))" for call
    using assms(7-9) by (simp add: post_message_def flag post_task_message_send Let_def) (simp add: send_message_def)
  from flag_cases [OF assms(7) t, of env' message' purpose'] show ?thesis
  proof (elim disjE exE conjE)
    fix e assume "scan_text env' message' = Inl e"
      and "flag_egress_urls env' th' ?tx' purpose' w2 = (Inl e, w2)"
    then show ?thesis unfolding second by (intro exI [of _ "Inl e"] exI [of _ w2]) simp
  next
    fix w3 assume w3: "flag_egress_urls env' th' ?tx' purpose' w2 = (Inr (), w3)"
      "ob_effects w3 = ob_effects w2" "posted_events w3 = posted_events w2"
    have "post_later w1 w3"
      using assms(6) post.tracksD [OF tracks_flag post.rel_ok [OF ok1 assms(6)] w3(1)] by (rule post.rel_trans)
    then have "send_message (env', th', tid, ?tx', ?bs', purpose', key_name purpose kp) c w3 = (Inr ts, w3)" for c
      using messages.resend [OF ok0 _ call first [unfolded post_task_message_send]] assms(1)
      by (simp add: message_key_def)
    with w3 show ?thesis unfolding second by (intro exI [of _ "Inr ts"] exI [of _ w3]) simp
  qed
qed

section \<open>A malformed link stops the post\<close>

definition one_bracket :: "string \<Rightarrow> bool" where
  "one_bracket url \<longleftrightarrow>
     (let netloc = takeWhile (\<lambda>c. c \<notin> set ''/?#'') (drop (the (url_scheme url)) url)
      in url_scheme url \<noteq> None \<and> (CHR ''['' \<in> set netloc) \<noteq> (CHR '']'' \<in> set netloc))"

lemma scan_one_bracket: "one_bracket url \<Longrightarrow> scan_url check allow url = Inl (ValueError ''Invalid IPv6 URL'')"
  by (auto simp: one_bracket_def scan_url_def split_url_def Let_def split: option.splits)

lemma scan_urls_fail:
  "m \<in> set ms \<Longrightarrow> one_bracket (rstrip_chars trailing_punctuation m) \<Longrightarrow>
   rstrip_chars trailing_punctuation m \<notin> set seen \<Longrightarrow>
   \<exists>e. scan_urls check allow seen ms = Inl e"
proof (induction ms arbitrary: seen)
  case (Cons x xs)
  let ?u = "rstrip_chars trailing_punctuation"
  show ?case
  proof (cases "?u m = ?u x")
    case True
    then show ?thesis using Cons.prems scan_one_bracket [of "?u x" check allow]
      by (simp add: Let_def)
  next
    case False
    then have "m \<in> set xs" using Cons.prems(1) by auto
    then have "\<exists>e. scan_urls check allow seen' xs = Inl e" if "?u m \<notin> set seen'" for seen'
      using Cons.IH [OF _ Cons.prems(2) that] by blast
    from this [of seen] this [of "?u x # seen"] Cons.prems(3) False
    show ?thesis by (auto simp: Let_def split: sum.splits)
  qed
qed simp

text \<open>The scan that is only to observe stops the post: a text with a link whose host keeps one
  bracket of a pair once the closing punctuation is cut off is never posted, for any purpose and by
  any client, and nothing is recorded.\<close>

theorem bracketed_link_stops_post:
  assumes "m \<in> set (find_urls (pe_normalize env message))"
    and "one_bracket (rstrip_chars trailing_punctuation m)"
  shows "\<exists>e. post_message env th message purpose blocks kp w = (Inl e, w)"
proof -
  obtain e where "scan_text env message = Inl e"
    using scan_urls_fail [OF assms, of "[]"] by (auto simp: scan_outbound_urls_def)
  then show ?thesis by (simp add: post_message_def flag_egress_urls_def Let_def)
qed

section \<open>Sample posts\<close>

definition sample_post_env :: post_env where
  "sample_post_env = \<lparr>pe_normalize = id, pe_host_check = \<lambda>n. None, pe_allowlist = [],
     pe_describe = \<lambda>e. (''E'', ''m''), pe_api_error = \<lambda>e. None, pe_race = id, pe_fresh = \<lambda>w. 50,
     pe_playground_ts = \<lambda>w. ''1.0'', pe_playground_file = \<lambda>w. ''F0'',
     pe_chat_post = \<lambda>ch tx ts bs. returning (Mapping_Answer [(''ts'', JStr ''12.5'')]),
     pe_upload = \<lambda>f n ti ch note ts. returning (Mapping_Answer []), pe_set_status = None,
     pe_file_size = \<lambda>p. None, pe_guess_type = \<lambda>n. None\<rparr>"

definition post_world :: post_db where
  "post_world = \<lparr>ob_effects = [], ob_now = 0, ob_locks = [], pw_db = claimed_db, pw_artifacts = []\<rparr>"

definition reply_thread :: slack_thread where
  "reply_thread = \<lparr>th_channel = ''C1'', th_thread_ts = Some ''10.5'', th_task = Some 7, th_assistant = False\<rparr>"

lemma sample_client_ok: "client_ok sample_post_env"
  by (simp add: client_ok_def sample_post_env_def calls_ok_def quiet_def tables_same)

lemma post_world_ok: "post_ok post_world"
  using claimed_core_ok by (simp add: post_ok_def outbox_ok_def post_world_def)

lemma sample_scan: "scan_text sample_post_env ''Done.'' = Inr []"
  by (simp add: scan_outbound_urls_def sample_post_env_def url_scheme_def)

lemma sample_post:
  "fst (post_message sample_post_env reply_thread ''Done.'' ''result'' None None post_world) = Inr ''12.5''"
proof -
  obtain t where t: "task_get 7 claimed_db = Some t" using claimed_get by blast
  have scan: "scan_outbound_urls (\<lambda>n. None) [] ''Done.'' = Inr []"
    using sample_scan by (simp add: sample_post_env_def)
  show ?thesis
    using t scan
    by (simp add: post_message_def flag_egress_urls_def Let_def sample_post_env_def reply_thread_def
        post_world_def post_task_message_def on_task_db_def resolve_task_simp deliver_effect_def
        message_request_def key_name_def deliver_def get_or_create_def find_by_key_def insert_effect_def
        effect_violation_def effect_operations_def new_effect_def seq_apply attempt_call_def catching_def
        jsonable_mapping_def posted_ts_def non_empty_str_def record_message_def put_effect_def
        post_event_def append_event_simp)
qed

lemma message_posted_once_witness:
  "\<exists>r w3. (\<forall>call. post_message (sample_post_env\<lparr>pe_chat_post := call\<rparr>) reply_thread ''Other.''
      ''result'' None None
      (snd (post_message sample_post_env reply_thread ''Done.'' ''result'' None None post_world)) = (r, w3)) \<and>
    (r = Inr ''12.5'' \<or> (\<exists>e. r = Inl e \<and> scan_text sample_post_env ''Other.'' = Inl e)) \<and>
    ob_effects w3 =
      ob_effects (snd (post_message sample_post_env reply_thread ''Done.'' ''result'' None None post_world)) \<and>
    posted_events w3 =
      posted_events (snd (post_message sample_post_env reply_thread ''Done.'' ''result'' None None post_world))"
proof -
  let ?w = "snd (post_message sample_post_env reply_thread ''Done.'' ''result'' None None post_world)"
  have run: "post_message sample_post_env reply_thread ''Done.'' ''result'' None None post_world =
      (Inr ''12.5'', ?w)"
    using sample_post by (metis prod.collapse)
  have th: "th_task reply_thread = Some 7" "th_channel reply_thread \<noteq> ''playground''"
    by (simp_all add: reply_thread_def)
  show ?thesis
    by (rule message_posted_once [OF sample_client_ok post_world_ok th run post.rel_refl th refl])
qed

lemma bracketed_link_stops_post_witness:
  "\<exists>e. post_message sample_post_env reply_thread ''Call https://[host].'' ''failure'' None None post_world =
    (Inl e, post_world)"
  by (rule bracketed_link_stops_post [of "''https://[host].''"])
    (simp_all add: sample_post_env_def one_bracket_def url_scheme_def url_char_def rstrip_chars_def
      trailing_punctuation_def is_space_def whitespace_chars_def)

end
