(* ===== verification/Ledger_Run.thy ===== *)
theory Ledger_Run
  imports Tool_Ledger Gate_Run
begin

text \<open>
  What the steps around a tool call do to the database: all of them are moves of the task
  core, and all but the two entries of the ledger leave the ledger as it was. Both are frames
  on the state of a run.
\<close>

abbreviation run_db :: "run_world \<Rightarrow> db" where
  "run_db w \<equiv> gw_db (rw_gate w)"

definition tool_entries :: "uuid \<Rightarrow> db \<Rightarrow> event list" where
  "tool_entries k d = filter (\<lambda>e. e_type e \<in> {Tool_Call, Tool_Result}) (events_of k d)"

definition quiet_moves :: "db \<Rightarrow> db \<Rightarrow> bool" where
  "quiet_moves d d' \<longleftrightarrow> moves d d' \<and> (\<forall>k. tool_entries k d' = tool_entries k d)"

interpretation gate: frame "\<lambda>w. core_ok (gw_db w)" "\<lambda>w w'. quiet_moves (gw_db w) (gw_db w')"
  by unfold_locales (auto simp: quiet_moves_def intro: core_ok_moves moves_trans)

interpretation quiet: frame "\<lambda>w. core_ok (run_db w)" "\<lambda>w w'. quiet_moves (run_db w) (run_db w')"
  by unfold_locales (auto simp: quiet_moves_def intro: core_ok_moves moves_trans)

interpretation run: frame "\<lambda>w. core_ok (run_db w)" "\<lambda>w w'. moves (run_db w) (run_db w')"
  by unfold_locales (auto intro: core_ok_moves moves_trans)

lemma run_quiet: "quiet.tracks m \<Longrightarrow> run.tracks m"
proof (rule run.tracksI)
  fix s r s' assume "quiet.tracks m" "core_ok (run_db s)" "m s = (r, s')"
  then have "quiet_moves (run_db s) (run_db s')" by (rule quiet.tracksD)
  then show "moves (run_db s) (run_db s')" by (simp add: quiet_moves_def)
qed

section \<open>The gate\<close>

lemma quiet_append:
  "ty \<in> {Log, Error_Event} \<Longrightarrow> append_event tid ty p d = (r, d') \<Longrightarrow> quiet_moves d d'"
proof -
  assume ty: "ty \<in> {Log, Error_Event}" and run: "append_event tid ty p d = (r, d')"
  have "moves d d'" using append_event_moves [OF run] ty by auto
  moreover have "tool_entries k d' = tool_entries k d" for k
  proof (cases "task_get tid d")
    case None
    with run show ?thesis by (simp add: append_event_missing)
  next
    case (Some t)
    with run ty show ?thesis by (auto simp: append_event_simp tool_entries_def events_of_add)
  qed
  ultimately show ?thesis by (simp add: quiet_moves_def)
qed

lemma gate_append [intro]: "gate.tracks (on_db (append_event tid Log p))"
  by (rule gate.tracksI) (auto simp: on_db_apply intro: quiet_append [OF _ surjective_pairing])

lemma gate_append_log [intro]: "gate.tracks (append_log tid message p)"
  unfolding append_log_def by (intro gate.tracks_seq) auto

lemma gate_memory [intro]:
  "gate.tracks (put_gate tid g)" "gate.tracks (writing (\<lambda>w. w\<lparr>gw_levels := f w\<rparr>))"
  by (auto simp: gate.tracks_def put_gate_def gate.rel_refl)

lemma gate_trifecta_state [intro]: "gate.tracks (trifecta_state cfg t)"
  unfolding trifecta_state_def Let_def
  by (intro gate.tracks_seq) (auto split: option.split intro!: gate.tracks_seq)

lemma gate_arm [intro]: "gate.tracks (arm_trifecta_if_untrusted cfg t tc)"
  unfolding arm_trifecta_if_untrusted_def
  by (intro gate.tracks_seq) (auto split: prod.split intro!: gate.tracks_seq)

lemma gate_apply [intro]: "gate.tracks (apply_trifecta_gate cfg t tc r)"
  unfolding apply_trifecta_gate_def
  by (intro gate.tracks_seq gate.tracks_if) auto

lemma gate_level [intro]: "gate.tracks (resolve_task_level cfg t)"
  unfolding resolve_task_level_def
  by (intro gate.tracks_seq) (auto split: option.split intro!: gate.tracks_seq)

lemma gate_decision [intro]: "gate.tracks (record_autonomy_decision t tc r)"
  unfolding record_autonomy_decision_def by (intro gate.tracks_seq) auto

lemma gate_raise_if [intro]: "gate.tracks (raise_if_tool_approval_required cfg registry t tc)"
  unfolding raise_if_tool_approval_required_def Let_def
  by (auto split: option.split intro!: gate.tracks_seq gate.tracks_if)

section \<open>The run\<close>

lemma quiet_gate [intro]: "gate.tracks m \<Longrightarrow> quiet.tracks (on_gate m)"
  by (rule quiet.tracksI) (auto simp: on_gate_def dest: gate.tracksD split: prod.splits)

lemma quiet_plan [intro]: "quiet.tracks (on_plan m)"
  by (rule quiet.tracksI) (auto simp: on_plan_def quiet.rel_refl split: prod.splits)

lemma quiet_say [intro]: "quiet.tracks (say m)"
  by (rule quiet.tracksI) (auto simp: say_def quiet.rel_refl)

lemma quiet_log [intro]:
  assumes "ty \<in> {Log, Error_Event}"
  shows "quiet.tracks (log_event t ty p)"
proof -
  have "gate.tracks (on_db (append_event (t_id t) ty p))"
    by (rule gate.tracksI) (use assms in \<open>auto simp: on_db_apply intro: quiet_append [OF _ surjective_pairing]\<close>)
  then show ?thesis unfolding log_event_def by (intro quiet.tracks_seq) auto
qed

lemma run_log: "ty \<noteq> Status_Changed \<Longrightarrow> run.tracks (log_event t ty p)"
  unfolding log_event_def
  by (intro run.tracks_seq run.tracksI)
     (auto simp: on_gate_def on_db_apply intro: append_event_moves [OF surjective_pairing]
        split: prod.splits)

lemma quiet_execution_log [intro]: "quiet.tracks (append_execution_log t message p)"
  unfolding append_execution_log_def by (intro quiet.tracks_seq) auto

lemma quiet_error [intro]: "quiet.tracks (append_error t name what p)"
  unfolding append_error_def Let_def by auto

lemma quiet_fail [intro]: "quiet.tracks (fail_execution_plan t name what p)"
  unfolding fail_execution_plan_def by (intro quiet.tracks_seq) auto

lemma quiet_attempt [intro]: "quiet.tracks (record_tool_attempt sha t c turn)"
  unfolding record_tool_attempt_def attempt_rest_def Let_def
  by (intro quiet.tracks_seq quiet.tracks_if) auto

lemma quiet_failure [intro]: "quiet.tracks (record_recoverable_failure t a k turn call_id)"
  unfolding record_recoverable_failure_def Let_def
  by (intro quiet.tracks_seq) (auto split: prod.split intro!: quiet.tracks_seq)

lemma quiet_replay [intro]: "quiet.tracks (replay_completed_attempt limit t c a turn sid r)"
  unfolding replay_completed_attempt_def by (intro quiet.tracks_seq) auto

lemma quiet_surface [intro]:
  "quiet.tracks (surface_unknown_prior_outcome limit t c a turn sid effect)"
  unfolding surface_unknown_prior_outcome_def Let_def by (intro quiet.tracks_seq) auto

lemma quiet_dedup [intro]: "quiet.tracks (dedup_tool_call limit t c a turn sid)"
  unfolding dedup_tool_call_def Let_def
  by (auto split: option.split prior_attempt.split intro!: quiet.tracks_seq)

lemma quiet_warn [intro]: "quiet.tracks (warn_if_tool_deadline_exceeds_lease t c turn sid)"
  unfolding warn_if_tool_deadline_exceeds_lease_def Let_def
  by (auto split: option.split intro!: quiet.tracks_seq)

lemma quiet_cancelled [intro]: "quiet.tracks (on_gate (on_db (raise_if_cancelled tid ph)))"
  by (rule quiet.tracksI)
     (auto simp: on_gate_def on_db_apply raise_if_cancelled_def seq_apply resolve_task_def
        quiet.rel_refl quiet_moves_def split: option.splits if_splits prod.splits)

lemmas run_steps [intro] =
  quiet_gate [THEN run_quiet] quiet_plan [THEN run_quiet] quiet_say [THEN run_quiet]
  quiet_attempt [THEN run_quiet] quiet_failure [THEN run_quiet] quiet_dedup [THEN run_quiet]
  quiet_warn [THEN run_quiet] quiet_cancelled [THEN run_quiet] quiet_fail [THEN run_quiet]
  quiet_error [THEN run_quiet] run_log

lemma run_prepare: "run.tracks (prepare_call cfg registry sha limit t c turn)"
  unfolding prepare_call_def
  by (intro run.tracks_seq)
     (auto split: gate_outcome.split option.split intro!: run.tracks_seq)

lemma run_record: "run.tracks (record_tool_result cfg limit t c a turn sid latency r k pre)"
  unfolding record_tool_result_def
  by (cases "tool_result_prompt_payload limit (tool_result_payload (cr_name c) r)";
      cases "snd (tool_result_prompt_payload limit (tool_result_payload (cr_name c) r))";
      simp; intro run.tracks_seq run.tracks_pure run_steps gate_append_log gate_arm; simp)

lemma quiet_exceeded: "quiet.tracks (failure_budget_exceeded t c a e)"
  unfolding failure_budget_exceeded_def Let_def
  by (intro quiet.tracks_seq quiet.tracks_pure quiet_fail quiet_error)

text \<open>What \<open>settle_call\<close> does before it records the result leaves the ledger alone.\<close>

lemma quiet_connect:
  "quiet.tracks (case x of None \<Rightarrow> returning () | Some slug \<Rightarrow> raising (ConnectionRequired slug name))"
  by (cases x) auto

lemma quiet_failure_opt:
  "quiet.tracks (case k of None \<Rightarrow> returning False
     | Some e \<Rightarrow> record_recoverable_failure t a e turn call_id)"
  by (cases k) auto

lemma quiet_last:
  "quiet.tracks (case k of None \<Rightarrow> returning n
     | Some e \<Rightarrow> if b then failure_budget_exceeded t c a e else returning n)"
  by (cases k) (auto intro: quiet_exceeded)

lemma run_settle: "run.tracks (settle_call cfg limit t c a turn latency r k pre)"
  unfolding settle_call_def
  by (intro run.tracks_seq run_record quiet_connect [THEN run_quiet]
      quiet_failure_opt [THEN run_quiet] quiet_last [THEN run_quiet]
      quiet_cancelled [THEN run_quiet] quiet_plan [THEN run_quiet])

text \<open>A settled call that returned is a quiet part, the recording of its result, and a part
  that touches neither the ledger nor anything else.\<close>

lemma settle_records:
  assumes run: "settle_call cfg limit t c a turn ms r k pre w = (Inr n, w1)"
    and ok: "core_ok (run_db w)"
  shows "\<exists>w0 sid. quiet_moves (run_db w) (run_db w0) \<and> core_ok (run_db w0) \<and>
    record_tool_result cfg limit t c a turn sid ms r k pre w0 = (Inr (), w1) \<and>
    n = length (tr_artifacts r)"
proof -
  obtain b wa u1 wb u2 wc s w0 u3 w2 where
    one: "(case k of None \<Rightarrow> returning False
        | Some e \<Rightarrow> record_recoverable_failure t a e turn (cr_id c)) w = (Inr b, wa)"
    and two: "(case Option.bind k composio_connect_required of None \<Rightarrow> returning ()
        | Some slug \<Rightarrow> raising (ConnectionRequired slug (cr_name c))) wa = (Inr u1, wb)"
    and three: "on_gate (on_db (raise_if_cancelled (t_id t) (Some (''after_tool_'' @ cr_name c)))) wb
        = (Inr u2, wc)"
    and four: "on_plan (\<lambda>p. (current_step p, p)) wc = (Inr s, w0)"
    and five: "record_tool_result cfg limit t c a turn (st_id s) ms r k pre w0 = (Inr u3, w2)"
    and six: "(case k of Some e \<Rightarrow> if b then failure_budget_exceeded t c a e
                else returning (length (tr_artifacts r))
     | None \<Rightarrow> returning (length (tr_artifacts r))) w2 = (Inr n, w1)"
    using run unfolding settle_call_def
    by (elim seq_InrE)
  have no: "failure_budget_exceeded t c a e w2 \<noteq> (Inr n, w1)" for e
    by (auto simp: failure_budget_exceeded_def Let_def elim!: seq_InrE)
  from six no have last: "w1 = w2" "n = length (tr_artifacts r)"
    by (auto split: option.splits if_splits)
  have a: "quiet_moves (run_db w) (run_db wa)" by (rule quiet.tracksD [OF quiet_failure_opt ok one])
  note oka = quiet.tracks_ok [OF quiet_failure_opt ok one]
  have b: "quiet_moves (run_db wa) (run_db wb)" by (rule quiet.tracksD [OF quiet_connect oka two])
  note okb = quiet.tracks_ok [OF quiet_connect oka two]
  have c: "quiet_moves (run_db wb) (run_db wc)" by (rule quiet.tracksD [OF quiet_cancelled okb three])
  note okc = quiet.tracks_ok [OF quiet_cancelled okb three]
  have d: "quiet_moves (run_db wc) (run_db w0)" by (rule quiet.tracksD [OF quiet_plan okc four])
  have "quiet_moves (run_db w) (run_db w0)"
    using quiet.rel_trans [OF a] quiet.rel_trans [OF b] quiet.rel_trans [OF c] d by blast
  moreover have "core_ok (run_db w0)" by (rule quiet.tracks_ok [OF quiet_plan okc four])
  ultimately show ?thesis using five last by auto
qed

section \<open>Reading the ledger\<close>

lemma sorted_events:
  assumes "log_numbered d"
  shows "sort_key e_seq (filter P (events_of tid d)) = filter P (events_of tid d)"
proof -
  have "sorted (map e_seq (events_of tid d))"
    using assms by (simp add: log_numbered_def del: upt_Suc)
  then have "sorted (map e_seq (filter P (events_of tid d)))" by (rule sorted_filter)
  then show ?thesis by (rule sort_key_id_if_sorted)
qed

text \<open>The entries of one key, and the results among them.\<close>

definition has_key :: "string \<Rightarrow> event \<Rightarrow> bool" where
  "has_key key e \<longleftrightarrow> json_text (jget (e_payload e) ''idempotency_key'') = Some key"

definition results_in :: "event list \<Rightarrow> (tool_result \<times> string option) list" where
  "results_in es =
     concat (map (\<lambda>e. if e_type e \<noteq> Tool_Result then []
        else (case reconstruct_tool_result (e_payload e) of None \<Rightarrow> []
              | Some r \<Rightarrow> [(r, json_str (jget (e_payload e) ''tool_call_id''))])) es)"

lemma results_in_simps [simp]:
  "results_in [] = []"
  "results_in (es @ fs) = results_in es @ results_in fs"
  by (simp_all add: results_in_def)

lemma ledger_events_entries:
  assumes "log_numbered d"
  shows "ledger_events tid key d = filter (has_key key) (tool_entries tid d)"
proof -
  have "filter (\<lambda>e. e_type e \<in> {Tool_Call, Tool_Result} \<and>
      json_text (jget (e_payload e) ''idempotency_key'') = Some key) (events_of tid d) =
    filter (has_key key) (tool_entries tid d)"
    by (simp add: tool_entries_def has_key_def conj_commute)
  then show ?thesis unfolding ledger_events_def sorted_events [OF assms] .
qed

lemma scan_ledger_completed:
  "results_in es = (r, cid) # rest \<Longrightarrow> scan_ledger s es = Completed r cid"
proof (induction s es rule: scan_ledger.induct)
  case (2 s e es)
  then show ?case
    by (cases "e_type e = Tool_Result"; cases "reconstruct_tool_result (e_payload e)")
       (simp_all add: results_in_def)
qed simp

lemma scan_ledger_started: "results_in es = [] \<Longrightarrow> \<exists>cid. scan_ledger s es = Started_Only cid"
proof (induction s es rule: scan_ledger.induct)
  case (2 s e es)
  then show ?case
    by (cases "e_type e = Tool_Result"; cases "reconstruct_tool_result (e_payload e)")
       (simp_all add: results_in_def)
qed simp

text \<open>The prior attempt, by what the ledger holds under the key.\<close>

lemma find_prior_attempt_eq:
  assumes "log_numbered d"
  shows "find_prior_attempt tid key d =
    (if filter (has_key key) (tool_entries tid d) = [] then No_Prior
     else scan_ledger None (filter (has_key key) (tool_entries tid d)))"
  unfolding find_prior_attempt_def ledger_events_entries [OF assms]
  by (cases "filter (has_key key) (tool_entries tid d)") (simp_all only: list.case if_True if_False
      list.distinct simp_thms)

lemma find_prior_completed:
  assumes "log_numbered d"
  shows "find_prior_attempt tid key d = Completed r cid \<longleftrightarrow>
    (\<exists>rest. results_in (filter (has_key key) (tool_entries tid d)) = (r, cid) # rest)"
proof -
  define es where "es = filter (has_key key) (tool_entries tid d)"
  have "find_prior_attempt tid key d = (if es = [] then No_Prior else scan_ledger None es)"
    unfolding es_def by (rule find_prior_attempt_eq [OF assms])
  then show ?thesis unfolding es_def [symmetric]
    using scan_ledger_completed scan_ledger_started [of es None]
    by (cases "results_in es") force+
qed

lemma find_prior_started:
  assumes "log_numbered d" and "filter (has_key key) (tool_entries tid d) \<noteq> []"
    and "results_in (filter (has_key key) (tool_entries tid d)) = []"
  shows "\<exists>cid. find_prior_attempt tid key d = Started_Only cid"
  unfolding find_prior_attempt_eq [OF assms(1)]
  using assms(2) scan_ledger_started [OF assms(3)] by (simp only: if_False)

lemma tool_entries_grow:
  assumes "moves d d'"
  shows "\<exists>es. tool_entries tid d' = tool_entries tid d @ es"
proof -
  obtain es where "events_of tid d' = events_of tid d @ es"
    using log_grows_moves [OF assms] unfolding event_log.grows_def by blast
  then show ?thesis by (auto simp: tool_entries_def)
qed

text \<open>A recorded result stays the answer to its key.\<close>

lemma completed_forever:
  assumes "core_ok d" and "moves d d'" and "find_prior_attempt tid key d = Completed r cid"
  shows "find_prior_attempt tid key d' = Completed r cid"
proof -
  have num: "log_numbered d" "log_numbered d'"
    using core_okD(8) core_ok_moves [OF assms(2,1)] assms(1) by auto
  obtain es where "tool_entries tid d' = tool_entries tid d @ es"
    using tool_entries_grow [OF assms(2)] by blast
  with assms(3) show ?thesis by (auto simp: find_prior_completed num)
qed

lemma reconstruct_artifact_payload [simp]:
  "reconstruct_artifact (JObj (artifact_payload a)) = [a]"
  by (cases a) (auto simp: reconstruct_artifact_def artifact_payload_def jopt_str_def jopt_int_def
      split: option.splits)

lemma jget_jmerge_same: "k \<in> fst ` set q \<Longrightarrow> distinct (map fst q) \<Longrightarrow> jget (jmerge p q) k = jget q k"
proof (induction q arbitrary: p)
  case (Cons kv q)
  obtain a b where kv: "kv = (a, b)" by (cases kv)
  have step: "jmerge p (kv # q) = jmerge (AList.update a b p) q"
    by (simp add: jmerge_def kv)
  show ?case
  proof (cases "k = a")
    case True
    with Cons.prems(2) have "k \<notin> fst ` set q" by (auto simp: kv)
    with True show ?thesis by (simp add: step jget_jmerge_other) (simp add: kv)
  next
    case False
    with Cons show ?thesis by (simp add: step) (simp add: kv)
  qed
qed simp

lemma tool_result_event_get:
  "jget (tool_result_event c a turn sid ms r k) ''output'' = JObj (tr_output r)"
  "jget (tool_result_event c a turn sid ms r k) ''artifacts'' =
     JArr (map (\<lambda>x. JObj (artifact_payload x)) (tr_artifacts r))"
  "jget (tool_result_event c a turn sid ms r k) ''idempotency_key'' = jopt_str (at_key a)"
  by (simp_all add: tool_result_event_def jget_jmerge_same jget_jmerge_other tool_result_payload_def)

lemma reconstruct_event:
  "\<exists>r'. reconstruct_tool_result (tool_result_event c a turn sid ms r k) = Some r' \<and>
     tr_output r' = tr_output r \<and> tr_artifacts r' = tr_artifacts r"
proof -
  have "concat (map (\<lambda>x. reconstruct_artifact (JObj (artifact_payload x))) xs) = xs" for xs
    by (induction xs) simp_all
  then show ?thesis
    by (simp add: reconstruct_tool_result_def tool_result_event_get reconstruct_artifacts_def comp_def)
qed

end
