(* ===== verification/Agent_Run.thy ===== *)
theory Agent_Run
  imports Agent_Loop Ledger_Run
begin

text \<open>
  What a run of the agent spends, and what it does to the tables. Spending is bounded by
  triples over the counters of the run: a tool runs at most twice per counted call, and the
  model is asked once per failure that did not end the run, beside its turns.
\<close>

section \<open>Steps that spend nothing\<close>

type_synonym run_stats = "nat \<times> nat \<times> int \<times> int \<times> guardrail_limits"

definition stats :: "run_world \<Rightarrow> run_stats" where
  "stats w = (rw_tool_runs w, rw_model_calls w, bu_calls (pl_budget (rw_plan w)),
     bu_failures (pl_budget (rw_plan w)), pl_limits (rw_plan w))"

interpretation still: frame "\<lambda>_. True" "\<lambda>w w'. stats w' = stats w"
  by unfold_locales auto

lemma still_lifts [intro]:
  "still.tracks (on_gate m)" "still.tracks (on_tables n)" "still.tracks (say x)"
  "still.tracks (writing (rw_messages_update f))"
  by (rule still.tracksI; auto simp: on_gate_def on_tables_def say_def stats_def split: prod.splits)+

lemma still_plan:
  assumes "\<And>p r p'. m p = (r, p') \<Longrightarrow> pl_budget p' = pl_budget p \<and> pl_limits p' = pl_limits p"
  shows "still.tracks (on_plan m)"
  by (rule still.tracksI) (use assms in \<open>fastforce simp: on_plan_def stats_def split: prod.splits\<close>)

lemma on_current_keeps:
  "on_current f p = Inr p' \<Longrightarrow> pl_budget p' = pl_budget p \<and> pl_limits p' = pl_limits p"
  by (auto simp: on_current_def split: sum.splits)

lemma still_plan_steps [intro]:
  "still.tracks (on_plan (\<lambda>p. (current_step p, p)))"
  "still.tracks (on_plan (\<lambda>p. case on_current f p of Inl e \<Rightarrow> (Inl e, p) | Inr p' \<Rightarrow> (Inr (), p')))"
  "still.tracks (on_plan (fail_plan x))" "still.tracks (on_plan complete_plan)"
  "still.tracks (on_plan start_plan)"
  "still.tracks (on_plan (\<lambda>p. (Inr (), record_recovery_plan rp p)))"
  by (rule still_plan;
      auto simp: fail_plan_def complete_plan_def start_plan_def seq_apply record_recovery_plan_def
        split: sum.splits prod.splits dest!: on_current_keeps)+

lemma still_log [intro]: "still.tracks (log_event t ty p)"
  unfolding log_event_def by (intro still.tracks_seq) auto

lemma still_logs [intro]:
  "still.tracks (append_execution_log t m p)" "still.tracks (append_error t n x q)"
  "still.tracks (run_log t m p)" "still.tracks (append_exception env t e p)"
  "still.tracks (check_cancelled t ph)"
proof -
  show "still.tracks (append_execution_log t m p)"
    unfolding append_execution_log_def by (intro still.tracks_seq) auto
  show error: "still.tracks (append_error t n x q)" for n x q
    unfolding append_error_def Let_def by (rule still_log)
  show "still.tracks (run_log t m p)" "still.tracks (check_cancelled t ph)"
    unfolding run_log_def check_cancelled_def by (rule still_lifts)+
  show "still.tracks (append_exception env t e p)"
    unfolding append_exception_def by (rule error)
qed

lemma still_fail [intro]: "still.tracks (fail_execution_plan t n x p)"
  unfolding fail_execution_plan_def by (intro still.tracks_seq) auto

lemma still_dedup [intro]: "still.tracks (dedup_tool_call limit t c a turn sid)"
  unfolding dedup_tool_call_def replay_completed_attempt_def surface_unknown_prior_outcome_def Let_def
  by (auto split: option.split prior_attempt.split intro!: still.tracks_seq)

lemma still_warn [intro]: "still.tracks (warn_if_tool_deadline_exceeds_lease t c turn sid)"
  unfolding warn_if_tool_deadline_exceeds_lease_def Let_def
  by (auto split: option.split intro!: still.tracks_seq)

lemma still_record: "still.tracks (record_tool_result cfg limit t c a turn sid ms r k pre)"
  unfolding record_tool_result_def
  by (cases "tool_result_prompt_payload limit (tool_result_payload (cr_name c) r)";
      cases "snd (tool_result_prompt_payload limit (tool_result_payload (cr_name c) r))";
      simp; intro still.tracks_seq still.tracks_pure still_lifts still_log)

lemma still_finish: "still.tracks (finish_run t x turn n reason b)"
  unfolding finish_run_def by (intro still.tracks_seq) auto

lemma still_triple:
  assumes "still.tracks m"
  shows "triple (\<lambda>w. P (stats w)) m (\<lambda>_ w. P (stats w)) (\<lambda>w. P (stats w))"
proof (rule tripleI)
  fix s e s' assume "P (stats s)" "m s = (Inl e, s')"
  with still.tracksD [OF assms TrueI] show "P (stats s')" by metis
next
  fix s x s' assume "P (stats s)" "m s = (Inr x, s')"
  with still.tracksD [OF assms TrueI] show "P (stats s')" by metis
qed

section \<open>The budget of a run\<close>

text \<open>\<open>within l r a\<close>: tools ran at most \<open>r\<close> times more than twice per counted call inside the limit,
  and the model was asked at most \<open>a\<close> times more than once per failure inside the limit.\<close>

fun within :: "guardrail_limits \<Rightarrow> int \<Rightarrow> int \<Rightarrow> run_stats \<Rightarrow> bool" where
  "within l r a (used, asked, calls, fails, limits) \<longleftrightarrow>
     limits = l \<and> 0 \<le> calls \<and> 0 \<le> fails \<and> int used \<le> r + 2 * min calls (gl_tool_calls l) \<and>
     int asked \<le> a + min fails (gl_failures l)"

lemma within_mono: "within l r a s \<Longrightarrow> r \<le> r' \<Longrightarrow> a \<le> a' \<Longrightarrow> within l r' a' s"
  by (cases s) auto

abbreviation keeps :: "guardrail_limits \<Rightarrow> int \<Rightarrow> int \<Rightarrow> int \<Rightarrow> int \<Rightarrow> (run_world, 'a) op \<Rightarrow> bool" where
  "keeps l r a r' a' m \<equiv> triple (\<lambda>w. within l r a (stats w)) m
     (\<lambda>_ w. within l r' a' (stats w)) (\<lambda>w. within l r' a' (stats w))"

lemma keeps_still: "still.tracks m \<Longrightarrow> keeps l r a r a m"
  by (rule still_triple)

lemma keeps_seq:
  assumes "keeps l r a rm am m" and "\<And>x. keeps l rm am r' a' (k x)" and "rm \<le> r'" "am \<le> a'"
  shows "keeps l r a r' a' (seq m k)"
  by (rule triple_seq [OF triple_weaken [OF assms(1)] assms(2)])
     (use assms(3,4) within_mono in blast)+

lemma keeps_first:
  assumes "still.tracks m" and "r \<le> r'" "a \<le> a'" and "\<And>x. keeps l r a r' a' (k x)"
  shows "keeps l r a r' a' (seq m k)"
  using keeps_seq [OF keeps_still [OF assms(1)] assms(4,2,3)] .

lemma keeps_last:
  assumes "keeps l r a r' a' m" and "\<And>x. still.tracks (k x)"
  shows "keeps l r a r' a' (seq m k)"
  by (rule keeps_seq [OF assms(1) keeps_still [OF assms(2)]]) simp_all

lemma keeps_more:
  "keeps l r a rm am m \<Longrightarrow> rm \<le> r' \<Longrightarrow> am \<le> a' \<Longrightarrow> keeps l r a r' a' m"
  by (erule triple_weaken) (auto intro: within_mono)

lemma keeps_catching:
  assumes "keeps l r a rm am m" and "\<And>x. keeps l rm am r' a' (h x)" and "rm \<le> r'" "am \<le> a'"
  shows "keeps l r a r' a' (catching m h)"
  by (rule triple_catching [OF triple_weaken [OF assms(1)] assms(2)])
     (use assms(3,4) within_mono in blast)+

lemma keeps_model: "keeps l r a r (a + 1) (call_model env t ms ts)"
proof -
  have "triple (\<lambda>w. within l r a (stats w)) (writing (\<lambda>w. w\<lparr>rw_model_calls := Suc (rw_model_calls w)\<rparr>))
    (\<lambda>_ w. within l r (a + 1) (stats w)) (\<lambda>w. within l r (a + 1) (stats w))"
    by (rule triple_writing) (simp add: stats_def)
  then show ?thesis
    unfolding call_model_def by (rule keeps_seq) (auto intro!: keeps_still)
qed

lemma keeps_tool: "keeps l r a (r + 1) a (run_tool m)"
proof -
  have "triple (\<lambda>w. within l r a (stats w)) (writing (\<lambda>w. w\<lparr>rw_tool_runs := Suc (rw_tool_runs w)\<rparr>))
    (\<lambda>_ w. within l (r + 1) a (stats w)) (\<lambda>w. within l (r + 1) a (stats w))"
    by (rule triple_writing) (simp add: stats_def)
  then show ?thesis
    unfolding run_tool_def by (rule keeps_seq) (auto intro!: keeps_still)
qed

section \<open>One call\<close>

text \<open>An attempt that is let through is counted inside the limit, which pays for two runs of its
  tool.\<close>

lemma attempt_budget:
  assumes "0 \<le> gl_tool_calls l"
  shows "triple (\<lambda>w. within l r a (stats w)) (record_tool_attempt sha t c turn)
    (\<lambda>_ w. within l (r - 2) a (stats w)) (\<lambda>w. within l r a (stats w))"
proof -
  define counted where "counted s \<longleftrightarrow> (case s of (used, asked, n, fails, limits) \<Rightarrow>
    within l r a (used, asked, n - 1, fails, limits))" for s :: run_stats
  have mono: "within l r a s" if "counted s" for s
    using that by (cases s) (auto simp: counted_def min_def split: if_splits)
  have let_through: "within l (r - 2) a (stats w)"
    if "counted (stats w)" "\<not> gl_tool_calls (pl_limits (rw_plan w)) < bu_calls (pl_budget (rw_plan w))" for w
    using that by (auto simp: counted_def stats_def min_def)
  have count: "triple (\<lambda>w. within l r a (stats w))
      (on_plan (\<lambda>p. case count_attempt sha (t_id t) (st_id s) (cr_name c) (cr_arguments c) (pl_budget p) of
            (a, b) \<Rightarrow> (Inr a, p\<lparr>pl_budget := b\<rparr>)))
      (\<lambda>_ w. counted (stats w)) (\<lambda>w. within l r a (stats w))" for s
    by (simp add: triple_def on_plan_def count_attempt_def Let_def stats_def counted_def)
  have stays: "triple (\<lambda>w. counted (stats w)) m (\<lambda>_ w. counted (stats w)) (\<lambda>w. within l r a (stats w))"
    if "still.tracks m" for m :: "(run_world, 'x) op"
    by (rule triple_weaken [OF still_triple [OF that, of counted]]) (auto intro: mono)
  have raises: "triple (\<lambda>w. counted (stats w)) (seq m (\<lambda>_. raising e)) Q (\<lambda>w. within l r a (stats w))"
    if "still.tracks m" for m :: "(run_world, unit) op" and e and Q :: "attempt \<Rightarrow> run_world \<Rightarrow> bool"
    by (rule triple_seq [OF stays [OF that]]) (rule triple_raising, rule mono)
  have broken: "triple (\<lambda>w. counted (stats w)) (seq m1 (\<lambda>_. seq m2 (\<lambda>_. seq m3 (\<lambda>_. raising e)))) Q
      (\<lambda>w. within l r a (stats w))"
    if "still.tracks m1" "still.tracks m2" "still.tracks m3"
    for m1 m2 m3 :: "(run_world, unit) op" and e and Q :: "attempt \<Rightarrow> run_world \<Rightarrow> bool"
    by (rule triple_seq [OF stays [OF that(1)] triple_seq [OF stays [OF that(2)] raises [OF that(3)]]])
  have rest: "triple (\<lambda>w. counted (stats w)) (attempt_rest t c turn s x)
      (\<lambda>_ w. within l (r - 2) a (stats w)) (\<lambda>w. within l r a (stats w))" for s x
    unfolding attempt_rest_def Let_def
    apply (rule triple_seq [OF stays], blast)
    apply (rule triple_seq [OF stays], blast)
    apply (rule triple_seq [OF stays], blast)
    apply (rule triple_reading)
    apply (rule triple_pre)
    subgoal for _ _ _ p w
      apply (rule triple_if)
       apply (rule triple_weaken [OF raises], blast, simp, assumption, assumption)
      apply (rule triple_if)
       apply (rule triple_weaken [OF broken], blast, blast, blast, simp, assumption, assumption)
      apply (rule triple_returning)
      using let_through by blast
    done
  show ?thesis
    unfolding record_tool_attempt_def
    by (rule triple_seq [OF keeps_still triple_seq [OF count rest]]) blast
qed

text \<open>What a prepared call may still spend: two runs when it is ready, nothing otherwise.\<close>

fun allowance :: "call_stage \<Rightarrow> int" where
  "allowance (Ready a) = 2"
| "allowance _ = 0"

lemma prepare_budget:
  assumes "0 \<le> gl_tool_calls l"
  shows "triple (\<lambda>w. within l r a (stats w)) (prepare_call cfg registry sha limit t c turn)
    (\<lambda>stage w. within l (r - allowance stage) a (stats w)) (\<lambda>w. within l r a (stats w))"
proof -
  have stays: "triple (\<lambda>w. within l (r - 2) a (stats w)) m
      (\<lambda>_ w. within l (r - 2) a (stats w)) (\<lambda>w. within l r a (stats w))"
    if "still.tracks m" for m :: "(run_world, 'x) op"
    by (rule triple_weaken [OF keeps_still [OF that, of l "r - 2" a]]) (auto intro: within_mono)
  have gone: "triple (\<lambda>w. within l (r - 2) a (stats w)) (returning stage)
      (\<lambda>stage w. within l (r - allowance stage) a (stats w)) (\<lambda>w. within l r a (stats w))" for stage
    by (rule triple_returning) (cases stage; auto intro: within_mono)
  show ?thesis
    unfolding prepare_call_def
    apply (rule triple_seq [OF attempt_budget [OF assms]])
    apply (rule triple_seq [OF stays], blast)
    apply (rule triple_seq [OF stays], blast)
    subgoal for _ _ outcome
      apply (cases outcome)
       apply simp
       apply (rule triple_seq [OF stays], blast)
      subgoal for found
        by (cases found) (simp_all, rule triple_seq [OF stays triple_seq [OF stays gone]], auto intro: gone)
      apply (simp add: gone)
      done
    done
qed

lemma still_enforce: "still.tracks (enforce_soft_tool_call_cap c a)"
  unfolding enforce_soft_tool_call_cap_def
  by (intro still.tracks_seq) (auto split: option.split)

lemma still_load: "still.tracks (load_missing_tool env t c)"
proof -
  have "still.tracks (\<lambda>w. case register_if_absent tool (rw_tools w) of
      Inl e \<Rightarrow> (Inl e, w) | Inr ts \<Rightarrow> (Inr (), w\<lparr>rw_tools := ts\<rparr>))" for tool
    by (rule still.tracksI) (auto simp: stats_def split: sum.splits)
  then show ?thesis
    unfolding load_missing_tool_def
    by (intro still.tracks_catching still.tracks_seq) (auto split: option.split intro!: still.tracks_seq)
qed

lemma run_call_budget: "keeps l r a (r + 1) a (run_call env t turn c x)"
proof -
  have "keeps l r a (r + 1) a (execute_call env t c x)"
    unfolding execute_call_def
    apply (rule keeps_first [OF still_enforce], simp, simp)
    apply (rule keeps_first, blast, simp, simp)
    apply (rule triple_if)
     apply (rule keeps_last [OF keeps_tool], simp)
    apply (rule triple_if)
     apply (rule keeps_more [OF keeps_still [OF still_load]]; simp)
    apply (rule keeps_last [OF keeps_tool], simp)
    done
  moreover have "keeps l (r + 1) a (r + 1) a
    (case e of RecoverableTool x \<Rightarrow> returning (Recoverable x)
     | _ \<Rightarrow> seq (append_exception env t e p) (\<lambda>_. raising e))" for e p
    by (rule keeps_still) (cases e; auto intro!: still.tracks_seq)
  ultimately show ?thesis
    unfolding run_call_def by (rule keeps_catching) auto
qed

lemma post_repair_budget: "keeps l r a (r + 1) a (post_repair env t turn c outcome retried)"
proof -
  have again: "keeps l r a (r + 1) a (retry_repaired env c p)" for p
    unfolding retry_repaired_def
    apply (rule keeps_catching [where rm = "r + 1" and am = a])
       apply (rule keeps_first, blast, simp, simp)
       apply (rule triple_if)
        apply (rule keeps_more [OF keeps_still]; simp)
       apply (rule keeps_last [OF keeps_tool], simp)
      apply (simp_all add: keeps_still)
    done
  have unspent: "keeps l r a (r + 1) a (returning x)" for x :: "(tool_result \<times> classified_error option) \<times> string list"
    by (rule keeps_more [OF keeps_still]) auto
  have after: "keeps l (r + 1) a (r + 1) a (case x of
      None \<Rightarrow> returning (rk, ids)
    | Some r \<Rightarrow> seq (catching (log_event t Log q) (\<lambda>_. returning ())) (\<lambda>_. returning ((f r, None), ids)))"
    for x and rk :: "tool_result \<times> classified_error option" and ids :: "string list" and q f
    by (rule keeps_still) (auto split: option.split intro!: still.tracks_seq still.tracks_catching)
  show ?thesis
    unfolding post_repair_def Let_def
    by (auto split: tool_outcome.split option.split intro!: unspent keeps_seq [OF again after])
qed

text \<open>A recorded failure that did not exceed the budget pays for one question to the model.\<close>

lemma failure_budget:
  assumes "0 \<le> gl_failures l"
  shows "triple (\<lambda>w. within l r a (stats w)) (record_recoverable_failure t x k turn call_id)
    (\<lambda>exceeded w. within l r (if exceeded then a else a - 1) (stats w)) (\<lambda>w. within l r a (stats w))"
proof -
  define failed where "failed s \<longleftrightarrow> (case s of (used, asked, n, fails, limits) \<Rightarrow>
    within l r a (used, asked, n, fails - 1, limits))" for s :: run_stats
  have mono: "within l r a s" if "failed s" for s
    using that by (cases s) (auto simp: failed_def min_def split: if_splits)
  have paid: "within l r (a - 1) (stats w)"
    if "failed (stats w)" "\<not> gl_failures (pl_limits (rw_plan w)) < bu_failures (pl_budget (rw_plan w))" for w
    using that by (auto simp: failed_def stats_def min_def)
  have count: "triple (\<lambda>w. within l r a (stats w))
      (on_plan (\<lambda>p. case count_failure (at_tool x) (at_hash x) (ce_code k)
              (category_value (ce_category k)) (pl_budget p) of
            (n, b) \<Rightarrow> (Inr n, p\<lparr>pl_budget := b\<rparr>)))
      (\<lambda>_ w. failed (stats w)) (\<lambda>w. within l r a (stats w))"
    by (simp add: triple_def on_plan_def count_failure_def Let_def stats_def failed_def)
  have stays: "triple (\<lambda>w. failed (stats w)) m (\<lambda>_ w. failed (stats w)) (\<lambda>w. within l r a (stats w))"
    if "still.tracks m" for m :: "(run_world, 'x) op"
    by (rule triple_weaken [OF still_triple [OF that, of failed]]) (auto intro: mono)
  have over: "triple (\<lambda>w. failed (stats w)) (seq m (\<lambda>_. seq m' (\<lambda>_. returning True)))
      (\<lambda>exceeded w. within l r (if exceeded then a else a - 1) (stats w)) (\<lambda>w. within l r a (stats w))"
    if "still.tracks m" "still.tracks m'" for m m' :: "(run_world, unit) op"
    by (rule triple_seq [OF stays [OF that(1)] triple_seq [OF stays [OF that(2)] triple_returning]])
       (simp add: mono)
  have under: "triple (\<lambda>w. within l r (a - 1) (stats w)) (seq m (\<lambda>_. returning False))
      (\<lambda>exceeded w. within l r (if exceeded then a else a - 1) (stats w)) (\<lambda>w. within l r a (stats w))"
    if "still.tracks m" for m :: "(run_world, unit) op"
    by (rule triple_seq [OF triple_weaken [OF keeps_still [OF that, of l r "a - 1"]] triple_returning])
       (auto intro: within_mono)
  show ?thesis
    unfolding record_recoverable_failure_def
    apply (rule triple_seq [OF keeps_still], blast)
    apply (rule triple_seq [OF count])
    apply (rule triple_seq [OF stays], blast)
    apply (rule triple_reading)
    apply (rule triple_pre)
    subgoal for _ same _ lb w
      apply (cases "gl_failures (fst lb) < bu_failures (snd lb) \<or> gl_same_error (fst lb) < same")
       apply (simp only: prod.case_eq_if Let_def if_True)
       apply (rule triple_weaken [OF over [OF still_logs(1) still_logs(1)]], simp, assumption, assumption)
      apply (simp only: prod.case_eq_if Let_def if_False)
      apply (rule triple_weaken [OF under [OF still_logs(1)]])
        apply (simp add: paid)
       apply assumption+
      done
    done
qed

lemma settle_budget:
  assumes "0 \<le> gl_failures l"
  shows "triple (\<lambda>w. within l r a (stats w)) (settle_call cfg limit t c x turn ms res k pre)
    (\<lambda>_ w. within l r (if k = None then a else a - 1) (stats w)) (\<lambda>w. within l r a (stats w))"
proof -
  define left where "left exceeded = (if k = None \<or> exceeded then a else a - 1)" for exceeded
  have le: "left b \<le> a" for b by (simp add: left_def)
  have one: "triple (\<lambda>w. within l r a (stats w))
      (case k of None \<Rightarrow> returning False | Some e \<Rightarrow> record_recoverable_failure t x e turn (cr_id c))
      (\<lambda>b w. within l r (left b) (stats w)) (\<lambda>w. within l r a (stats w))"
    using failure_budget [OF assms] by (cases k) (simp_all add: left_def triple_returning)
  have stays: "triple (\<lambda>w. within l r (left b) (stats w)) m
      (\<lambda>_ w. within l r (left b) (stats w)) (\<lambda>w. within l r a (stats w))"
    if "still.tracks m" for m :: "(run_world, 'x) op" and b
    by (rule triple_weaken [OF keeps_still [OF that, of l r "left b"]]) (use le within_mono in blast)+
  have connect: "still.tracks (case y of None \<Rightarrow> returning () | Some slug \<Rightarrow> raising (ConnectionRequired slug n))"
    for y n by (cases y) auto
  have last: "triple (\<lambda>w. within l r (left b) (stats w))
      (case k of Some e \<Rightarrow> if b then failure_budget_exceeded t c x e else returning n | None \<Rightarrow> returning n)
      (\<lambda>_ w. within l r (if k = None then a else a - 1) (stats w)) (\<lambda>w. within l r a (stats w))" for b n
  proof (cases "k \<noteq> None \<and> b")
    case True
    have "keeps l r a r a (reading remaining_json)" "keeps l r a r a (fail_execution_plan t n' v p)"
      "keeps l r a r a (append_error t n' v p)" for n' v p
      by (rule keeps_still, blast)+
    then have "triple (\<lambda>w. within l r a (stats w)) (failure_budget_exceeded t c x e) Q
        (\<lambda>w. within l r a (stats w))" for e and Q :: "nat \<Rightarrow> run_world \<Rightarrow> bool"
      unfolding failure_budget_exceeded_def Let_def
      by (intro triple_seq [where R = "\<lambda>_ w. within l r a (stats w)"] triple_raising)
    with True show ?thesis by (auto simp: left_def)
  next
    case False
    then show ?thesis by (cases k) (auto simp: left_def intro!: triple_returning)
  qed
  show ?thesis
    unfolding settle_call_def
    by (rule triple_seq [OF one triple_seq [OF stays [OF connect] triple_seq [OF stays triple_seq [OF stays
        triple_seq [OF stays [OF still_record] last]]]]]) blast+
qed

lemma replan_budget: "keeps l r (a - 1) r a (replan_after_failure env t ts turn c res e)"
proof -
  have asked: "keeps l r (a - 1) r a (recovery_plan_of env t ts c res e)"
    unfolding recovery_plan_of_def
    apply (rule keeps_first, blast, simp, simp)
    apply (rule keeps_last [OF keeps_model [of l r "a - 1", simplified]])
    apply (intro still.tracks_seq)
     apply auto
    done
  have planner: "keeps l r (a - 1) r a (if b then returning x else catching (recovery_plan_of env t ts c res e) h)"
    if "\<And>e. still.tracks (h e)" for b x h
    by (rule triple_if, rule keeps_more [OF keeps_still], simp_all)
       (rule keeps_catching [OF asked keeps_still [OF that]]; simp)
  show ?thesis
    unfolding replan_after_failure_def
    apply (rule keeps_first, blast, simp, simp)
    apply (rule triple_if)
     apply (rule keeps_more [OF keeps_still], simp, simp, simp)
    apply (rule keeps_first, blast, simp, simp)
    apply (rule keeps_last [OF planner])
     apply (intro still.tracks_seq; auto)
    apply (intro still.tracks_seq; auto)
    done
qed

lemma invoke_call_budget:
  assumes "0 \<le> gl_tool_calls l" and "0 \<le> gl_failures l"
  shows "keeps l r a r a (invoke_tool_call env t ts turn c retried)"
proof -
  have done_call: "triple (\<lambda>w. within l (r - 2) a (stats w))
      (seq (run_call env t turn c' x) (\<lambda>outcome.
       seq (post_repair env t turn c' outcome retried) (\<lambda>((res, k), retried').
       seq (settle_call (ae_gate env) (ae_limit env) t c' x turn (ae_latency env c') res k pre) (\<lambda>n.
       seq (case k of None \<Rightarrow> returning ()
            | Some e \<Rightarrow> replan_after_failure env t ts turn c' res e) (\<lambda>_.
       returning (Call_Done n, retried'))))))
      (\<lambda>_ w. within l r a (stats w)) (\<lambda>w. within l r a (stats w))" for c' x pre
  proof -
    have settled: "keeps l r a r a
      (seq (settle_call (ae_gate env) (ae_limit env) t c' x turn (ae_latency env c') res k pre) (\<lambda>n.
       seq (case k of None \<Rightarrow> returning ()
            | Some e \<Rightarrow> replan_after_failure env t ts turn c' res e) (\<lambda>_.
       returning (Call_Done n, retried'))))" for res k retried'
      by (rule triple_seq [OF settle_budget [OF assms(2)]], cases k)
         (auto simp: keeps_still intro!: keeps_last replan_budget)
    show ?thesis
      apply (rule keeps_seq [where rm = "r - 1" and am = a])
         apply (rule keeps_more [OF run_call_budget]; simp)
        apply (rule keeps_seq [where rm = r and am = a])
           apply (rule keeps_more [OF post_repair_budget]; simp)
          apply (auto simp: settled)
      done
  qed
  have logged: "still.tracks (case pre of None \<Rightarrow> returning () | Some p \<Rightarrow> log_event t Log (f p))" for pre f
    by (cases pre) auto
  show ?thesis
    unfolding invoke_tool_call_def
    apply (rule keeps_first, blast, simp, simp)
    apply (rule keeps_first, blast, simp, simp)
    subgoal for _ tools
      apply (cases "repaired_call env t c tools")
      subgoal for c' pre
        apply (simp only: prod.case)
        apply (rule keeps_first [OF logged], simp, simp)
        apply (rule triple_seq [OF prepare_budget [OF assms(1)]])
        subgoal for _ stage
          using done_call by (cases stage) (auto intro: keeps_still)
        done
      done
    done
qed

lemma invoke_calls_budget:
  assumes "0 \<le> gl_tool_calls l" and "0 \<le> gl_failures l"
  shows "keeps l r a r a (invoke_tool_calls env t ts turn cs retried n)"
proof (induction cs arbitrary: retried n)
  case Nil
  show ?case unfolding invoke_tool_calls.simps by (rule keeps_still) blast
next
  case (Cons c cs)
  show ?case
    unfolding invoke_tool_calls.simps
  proof (rule keeps_seq [OF invoke_call_budget [OF assms]])
    fix x :: "call_end \<times> string list"
    obtain e ids where x: "x = (e, ids)" by (cases x)
    show "keeps l r a r a (case x of (e, retried') \<Rightarrow> case e of
       Call_Stopped rq \<Rightarrow> returning (Call_Stopped rq)
     | Call_Done m \<Rightarrow> invoke_tool_calls env t ts turn cs retried' (n + m))"
      by (cases e) (simp_all only: x prod.case call_end.case Cons keeps_still [OF still.tracks_pure(1)])
  qed simp_all
qed

section \<open>The turns\<close>

lemma model_once:
  "keeps l r a r (a + 1) (catching (call_model env t ms ts) (\<lambda>e.
     seq (append_exception env t e p) (\<lambda>_. raising e)))"
  by (rule keeps_catching [OF keeps_model]) (auto intro!: keeps_still still.tracks_seq)

lemma completion_budget: "keeps l r a r (a + int (Suc left)) (complete_with_empty_retry env t ts turn left)"
proof (induction left arbitrary: a)
  case 0
  show ?case
    apply (subst complete_with_empty_retry.simps)
    apply (rule keeps_first, blast, simp, simp)
    apply (rule keeps_last)
     apply (rule keeps_more [OF model_once]; simp)
    apply simp
    done
next
  case (Suc left)
  show ?case
    apply (subst complete_with_empty_retry.simps)
    apply (rule keeps_first, blast, simp, simp)
    apply (rule keeps_seq [OF model_once])
      apply (rule triple_if)
       apply (rule keeps_more [OF keeps_still]; simp)
      apply (simp only: nat.case)
      apply (rule keeps_first, blast, simp, simp)
      apply (rule keeps_more [OF Suc]; simp)
     apply simp_all
    done
qed

lemma still_finish_text: "still.tracks (finish_with_text env t content turn)"
  unfolding finish_with_text_def Let_def
  by (intro still.tracks_if still.tracks_seq still_finish) auto

lemma partial_budget: "keeps l r a r (a + 1) (finish_with_partial env t turn reason)"
proof -
  have asked: "keeps l r a r (a + 1) (catching
       (seq (call_model env t ms []) (\<lambda>co. returning (f co))) (\<lambda>e. seq (append_exception env t e p) (\<lambda>_. returning [])))"
    for ms f p
    by (rule keeps_catching [OF keeps_last [OF keeps_model]]) (auto intro!: keeps_still still.tracks_seq)
  show ?thesis
    unfolding finish_with_partial_def
    apply (rule keeps_first, blast, simp, simp)
    apply (rule keeps_first, blast, simp, simp)
    apply (rule keeps_last [OF asked])
    apply (rule still_finish)
    done
qed

text \<open>A turn asks at most three times, and once more when it ends the run.\<close>

fun turn_allowance :: "turn_end \<Rightarrow> int" where
  "turn_allowance (Next_Turn called nudges) = 3"
| "turn_allowance _ = 4"

lemma still_without_calls: "still.tracks (without_calls env t ts turn legs co called nudges)"
  unfolding without_calls_def Let_def
  by (intro still.tracks_if still.tracks_seq still_finish_text) auto

lemma with_calls_budget:
  assumes "0 \<le> gl_tool_calls l" and "0 \<le> gl_failures l"
  shows "triple (\<lambda>w. within l r (a + 3) (stats w)) (with_calls env t ts turn co called nudges)
    (\<lambda>e w. within l r (a + turn_allowance e) (stats w)) (\<lambda>w. within l r (a + 4) (stats w))"
proof -
  have handler: "triple (\<lambda>w. within l r (a + 3) (stats w))
      (case e of BudgetExhaustedRun reason \<Rightarrow>
            seq (finish_with_partial env t turn reason) (\<lambda>x. returning (Inr x))
        | _ \<Rightarrow> raising e)
      (\<lambda>(x :: call_end + run_result) w. within l r (a + (if isl x then 3 else 4)) (stats w)) (\<lambda>w. within l r (a + 4) (stats w))"
    for e :: py_error
  proof (cases "\<exists>reason. e = BudgetExhaustedRun reason")
    case True
    then obtain reason where e: "e = BudgetExhaustedRun reason" by blast
    have "keeps l r (a + 3) r (a + 4) (finish_with_partial env t turn reason)"
      using partial_budget [of l r "a + 3"] by (simp add: add.assoc)
    then show ?thesis
      unfolding e py_error.case by (rule triple_seq) (rule triple_returning, simp)
  next
    case False
    have "triple (\<lambda>w. within l r (a + 3) (stats w)) (raising e')
      (\<lambda>(x :: call_end + run_result) w. within l r (a + (if isl x then 3 else 4)) (stats w))
      (\<lambda>w. within l r (a + 4) (stats w))" for e'
      by (rule triple_raising, erule within_mono) simp_all
    with False show ?thesis by (cases e) (simp_all only: py_error.case, simp_all)
  qed
  have caught: "triple (\<lambda>w. within l r (a + 3) (stats w))
      (catching (seq (invoke_tool_calls env t ts turn (co_calls co) [] 0) (\<lambda>e. returning (Inl e)))
        (\<lambda>e. case e of BudgetExhaustedRun reason \<Rightarrow>
            seq (finish_with_partial env t turn reason) (\<lambda>x. returning (Inr x))
        | _ \<Rightarrow> raising e))
      (\<lambda>(x :: call_end + run_result) w. within l r (a + (if isl x then 3 else 4)) (stats w)) (\<lambda>w. within l r (a + 4) (stats w))"
    by (rule triple_catching [OF triple_seq [OF invoke_calls_budget [OF assms] triple_returning] handler]) simp
  have ends: "triple (\<lambda>w. within l r b (stats w)) (returning e)
      (\<lambda>e w. within l r (a + turn_allowance e) (stats w)) (\<lambda>w. within l r (a + 4) (stats w))"
    if "b \<le> a + turn_allowance e" for b e
    by (rule triple_returning) (erule within_mono, simp, rule that)
  have artifacts: "triple (\<lambda>w. within l r (a + 3) (stats w))
      (seq (finish_with_artifacts t turn n) (\<lambda>x. returning (Run_Ended x)))
      (\<lambda>e w. within l r (a + turn_allowance e) (stats w)) (\<lambda>w. within l r (a + 4) (stats w))" for n
    unfolding finish_with_artifacts_def
    by (rule triple_seq [OF keeps_more [OF keeps_still [OF still_finish], of _ r _ "a + 4"] ends]) simp_all
  show ?thesis
    unfolding with_calls_def
  proof (rule triple_seq [OF caught])
    fix x :: "call_end + run_result"
    show "triple (\<lambda>w. within l r (a + (if isl x then 3 else 4)) (stats w))
      (case x of
       Inr r \<Rightarrow> returning (Run_Ended r)
     | Inl (Call_Stopped rq) \<Rightarrow> returning (Run_Parked rq)
     | Inl (Call_Done n) \<Rightarrow>
         if n = 0 then returning (Next_Turn called nudges)
         else seq (finish_with_artifacts t turn n) (\<lambda>r. returning (Run_Ended r)))
      (\<lambda>e w. within l r (a + turn_allowance e) (stats w)) (\<lambda>w. within l r (a + 4) (stats w))"
    proof (cases x)
      case (Inr res)
      then show ?thesis by (simp only: sum.case sum.disc if_False ends) (rule ends, simp)
    next
      case (Inl e)
      then show ?thesis
        by (cases e) (auto simp only: sum.case sum.disc call_end.case if_True split: if_split
            intro!: ends artifacts, simp_all)
    qed
  qed
qed

lemma triple_read: "(\<And>x. triple P (k x) Q X) \<Longrightarrow> triple P (seq (reading f) k) Q X"
  by (simp add: triple_def seq_apply)

lemma one_turn_budget:
  assumes "0 \<le> gl_tool_calls l" and "0 \<le> gl_failures l"
  shows "triple (\<lambda>w. within l r a (stats w)) (one_turn env t legs turn called nudges)
    (\<lambda>e w. within l r (a + turn_allowance e) (stats w)) (\<lambda>w. within l r (a + 4) (stats w))"
proof -
  let ?Q = "\<lambda>e w. within l r (a + turn_allowance e) (stats w)"
  let ?X = "\<lambda>w. within l r (a + 4) (stats w)"
  have up: "within l r b s \<Longrightarrow> b \<le> c \<Longrightarrow> within l r c s" for b c s
    by (erule within_mono) simp_all
  have at_least: "3 \<le> turn_allowance e" for e by (cases e) simp_all
  have complete: "keeps l r a r (a + 3) (complete_turn env t ts turn)" for ts
    unfolding complete_turn_def
    apply (rule keeps_first, blast, simp, simp)
    apply (rule keeps_first, blast, simp, simp)
    apply (rule keeps_last)
     apply (rule keeps_more [OF completion_budget]; simp add: empty_completion_retries_def)
    apply (intro still.tracks_seq)
     apply auto
    done
  have lift: "triple (\<lambda>w. within l r (a + 3) (stats w)) m (\<lambda>_ w. within l r (a + 3) (stats w)) ?X"
    if "still.tracks m" for m :: "(run_world, 'x) op"
    by (rule triple_weaken [OF keeps_still [OF that, of l r "a + 3"]]) (auto intro: up)
  have without: "triple (\<lambda>w. within l r (a + 3) (stats w))
      (without_calls env t ts turn legs co called' nudges) ?Q ?X" for ts co called'
    by (rule triple_weaken [OF lift [OF still_without_calls]])
       (use at_least up in \<open>auto simp: add.commute\<close>)
  have body: "triple (\<lambda>w. within l r a (stats w))
      (seq (reading rw_tools) (\<lambda>schemas.
        seq (complete_turn env t schemas turn) (\<lambda>co.
        seq (check_cancelled t (''after_turn_'' @ int_str turn @ ''_completion'')) (\<lambda>_.
        seq (say \<lparr>cm_role = ''assistant'', cm_content = co_content co, cm_call_id = None,
                  cm_calls = co_calls co\<rparr>) (\<lambda>_.
        let called' = called @ called_names co in
        if co_calls co = [] then without_calls env t schemas turn legs co called' nudges
        else with_calls env t schemas turn co called' nudges))))) ?Q ?X"
    apply (rule triple_read)
    apply (rule triple_seq [OF triple_weaken [OF complete]], assumption, assumption, erule up, simp)
    apply (rule triple_seq [OF lift], blast)
    apply (rule triple_seq [OF lift], blast)
    unfolding Let_def
    apply (rule triple_if)
     apply (rule without)
    apply (rule with_calls_budget [OF assms])
    done
  have ended: "triple ?X (seq (run_log t m p) (\<lambda>_. seq (finish_run t x turn 0 reason b) (\<lambda>r.
      returning (Run_Ended r)))) ?Q ?X" for m p x reason b
    by (rule triple_seq [OF keeps_still triple_seq [OF keeps_still [OF still_finish] triple_returning]])
       auto
  have raised: "triple ?X (raising e') ?Q ?X" for e'
    by (rule triple_raising)
  show ?thesis
    unfolding one_turn_def
  proof (rule triple_catching [OF body])
    fix e :: py_error
    show "triple ?X (case e of
          CostBudgetExceeded ceiling current \<Rightarrow>
            seq (run_log t ''agent_cost_budget_exceeded''
              [(''ceiling_usd'', JStr ceiling), (''current_usd'', JStr current), (''turn'', JInt turn)]) (\<lambda>_.
            seq (finish_run t ''stopped: cost ceiling reached'' turn 0 ''cost_ceiling_exceeded'' True) (\<lambda>r.
            returning (Run_Ended r)))
        | _ \<Rightarrow> raising e) ?Q ?X"
      using raised ended by (cases e) (simp_all only: py_error.case)
  qed
qed

lemma turn_loop_budget:
  assumes "0 \<le> gl_tool_calls l" and "0 \<le> gl_failures l"
  shows "keeps l r a r (a + 3 * int left + 1) (turn_loop env t legs left called nudges)"
proof (induction left arbitrary: a called nudges)
  case 0
  show ?case
    unfolding turn_loop.simps
    by (rule keeps_last) (use partial_budget in \<open>auto\<close>)
next
  case (Suc left)
  have up: "within l r b s \<Longrightarrow> b \<le> c \<Longrightarrow> within l r c s" for b c s
    by (erule within_mono) simp_all
  show ?case
    unfolding turn_loop.simps Let_def
    apply (rule keeps_first, blast, simp, simp)
    apply (rule triple_seq [OF triple_weaken [OF one_turn_budget [OF assms]]], assumption, assumption)
     apply (erule up, simp)
    subgoal for _ e
    proof (cases e)
      case (Next_Turn called' nudges')
      have "a + int 3 + 3 * int left + 1 = a + 3 * int (Suc left) + 1" by simp
      with Suc [of "a + 3" called' nudges'] Next_Turn show ?thesis by (simp add: algebra_simps)
    next
      case (Run_Ended x)
      then show ?thesis by (simp only: turn_end.case) (rule triple_returning, erule up, simp)
    next
      case (Run_Parked x)
      then show ?thesis by (simp only: turn_end.case) (rule triple_returning, erule up, simp)
    qed
    done
qed

section \<open>A run\<close>

text \<open>Before the plan is set only the two counters matter.\<close>

fun spent :: "int \<Rightarrow> int \<Rightarrow> run_stats \<Rightarrow> bool" where
  "spent r a (used, asked, calls, fails, limits) \<longleftrightarrow> int used \<le> r \<and> int asked \<le> a"

lemma spent_mono: "spent r a s \<Longrightarrow> a \<le> a' \<Longrightarrow> spent r a' s"
  by (cases s) auto

lemma within_spent:
  assumes "within l r a s"
  shows "spent (r + 2 * gl_tool_calls l) (a + gl_failures l) s"
  using assms by (cases s) auto

lemma create_plan_budget:
  "triple (\<lambda>w. spent r a (stats w)) (create_execution_plan env t ts)
    (\<lambda>p w. pl_budget p = fresh_budget \<and> pl_limits p = ae_limits env \<and> spent r (a + 1) (stats w))
    (\<lambda>w. spent r (a + 1) (stats w))"
proof -
  let ?Q = "\<lambda>p w. pl_budget p = fresh_budget \<and> pl_limits p = ae_limits env \<and> spent r (a + 1) (stats w)"
  let ?X = "\<lambda>w. spent r (a + 1) (stats w)"
  define basic where "basic = make_default_execution_plan (ae_uuid env 0) (t_id t) (t_input t)
    (map fst ts) (ae_limits env)"
  have basic: "pl_budget basic = fresh_budget" "pl_limits basic = ae_limits env"
    by (simp_all add: basic_def make_default_execution_plan_def)
  have up: "spent r a s \<Longrightarrow> spent r (a + 1) s" for s by (erule spent_mono) simp
  have ask: "triple (\<lambda>w. spent r a (stats w)) (call_model env t ms []) (\<lambda>_. ?X) ?X" for ms
    unfolding call_model_def
    by (rule triple_seq [where R = "\<lambda>_. ?X"], rule triple_writing, simp add: stats_def)
       (rule still_triple, blast)
  have planned: "triple ?X (seq (lifting x) (\<lambda>px. returning
      (planned_payload_to_execution_plan i (t_id t) px (ae_limits env) ns reason))) ?Q ?X" for x i ns reason
    by (rule triple_seq [OF still_triple triple_returning], blast)
       (simp add: planned_payload_to_execution_plan_def)
  have fallback: "triple ?X (seq (run_log t m p) (\<lambda>_. returning
      (basic\<lparr>pl_source := src, pl_reason := reason\<rparr>))) ?Q ?X" for m p src reason
    by (rule triple_seq [OF still_triple triple_returning], blast) (simp add: basic)
  show ?thesis
    unfolding create_execution_plan_def Let_def basic_def [symmetric] prod.case_eq_if
    apply (rule triple_read)
    apply (rule triple_if)
     apply (rule triple_returning, simp add: basic up)
    apply (rule triple_catching [OF triple_seq [OF ask planned] fallback])
    done
qed

lemma run_budget:
  fixes r a :: int
  assumes "0 \<le> gl_tool_calls (ae_limits env)" and "0 \<le> gl_failures (ae_limits env)"
  defines "r' \<equiv> r + 2 * gl_tool_calls (ae_limits env)"
    and "a' \<equiv> a + 3 * max 0 (gl_turns (ae_limits env)) + 2 + gl_failures (ae_limits env)"
  shows "triple (\<lambda>w. spent r a (stats w)) (run_with_context env t ms)
    (\<lambda>_ w. spent r' a' (stats w)) (\<lambda>w. spent r' a' (stats w))"
proof -
  let ?l = "ae_limits env" and ?X = "\<lambda>w. spent r' a' (stats w)"
  have done_run: "spent r' a' s" if "within ?l r (a + 1 + 3 * int (nat (gl_turns ?l)) + 1) s" for s
  proof -
    have "int (nat (gl_turns ?l)) = max 0 (gl_turns ?l)" by simp
    with within_spent [OF that] show ?thesis by (simp add: r'_def a'_def algebra_simps)
  qed
  have early: "spent r' a' s" if "spent r (a + 1) s" for s
    using that assms(1,2) by (cases s) (auto simp: r'_def a'_def)
  have stays: "triple (\<lambda>w. within ?l r (a + 1) (stats w)) m (\<lambda>_ w. within ?l r (a + 1) (stats w)) ?X"
    if "still.tracks m" for m :: "(run_world, 'x) op"
    by (rule triple_weaken [OF keeps_still [OF that, of ?l r "a + 1"]], assumption, assumption)
       (rule done_run, erule within_mono, simp_all)
  have loop: "triple (\<lambda>w. within ?l r (a + 1) (stats w))
      (turn_loop env t legs (nat (gl_turns ?l)) [] 0) (\<lambda>_. ?X) ?X" for legs
    by (rule triple_weaken [OF turn_loop_budget [OF assms(1,2)]]) (auto intro: done_run)
  have set_plan: "triple (\<lambda>w. pl_budget p = fresh_budget \<and> pl_limits p = ?l \<and> spent r (a + 1) (stats w))
      (on_plan (\<lambda>_. (Inr (), p))) (\<lambda>_ w. within ?l r (a + 1) (stats w)) ?X" for p
    using assms(1,2) by (simp add: triple_def on_plan_def stats_def fresh_budget_def)
  show ?thesis
    unfolding run_with_context_def
    apply (rule triple_read)
    apply (rule triple_seq [OF triple_weaken [OF create_plan_budget]], assumption, assumption, erule early)
    apply (rule triple_seq [OF set_plan])
    apply (rule triple_seq [OF stays], blast)+
    apply (rule loop)
    done
qed

lemma agent_budget:
  assumes "0 \<le> gl_tool_calls (ae_limits env)" and "0 \<le> gl_failures (ae_limits env)"
    and run: "run_agent env tid w = (r, w')"
  shows "int (rw_tool_runs w') \<le> int (rw_tool_runs w) + 2 * gl_tool_calls (ae_limits env) \<and>
    int (rw_model_calls w') \<le> int (rw_model_calls w) + 3 * max 0 (gl_turns (ae_limits env)) + 2 +
      gl_failures (ae_limits env)"
proof -
  define r0 where "r0 = int (rw_tool_runs w)"
  define a0 where "a0 = int (rw_model_calls w)"
  let ?r = "r0 + 2 * gl_tool_calls (ae_limits env)"
  let ?a = "a0 + 3 * max 0 (gl_turns (ae_limits env)) + 2 + gl_failures (ae_limits env)"
  let ?X = "\<lambda>w. spent ?r ?a (stats w)"
  have early: "spent ?r ?a s" if "spent r0 a0 s" for s
    using that assms(1,2) by (cases s) auto
  have stays: "triple (\<lambda>w. spent r0 a0 (stats w)) m (\<lambda>_ w. spent r0 a0 (stats w)) ?X"
    if "still.tracks m" for m :: "(run_world, 'x) op"
    by (rule triple_weaken [OF still_triple [OF that, of "spent r0 a0"]]) (auto intro: early)
  have ranking: "still.tracks (case x of None \<Rightarrow> returning () | Some p \<Rightarrow> run_log t m p)" for x t m
    by (cases x) auto
  have after: "triple (\<lambda>w. spent r0 a0 (stats w)) (after_context_turn env t m) (\<lambda>_. ?X) ?X"
    if body: "triple (\<lambda>w. spent r0 a0 (stats w)) m (\<lambda>_. ?X) ?X" for t m
    unfolding triple_def
  proof (intro allI impI)
    fix s assume ok: "spent r0 a0 (stats s)"
    obtain x s1 where m: "m s = (x, s1)" by (cases "m s")
    have "?X s1" using tripleD [OF body ok] m by (cases x) auto
    moreover have "stats (snd (on_gate (on_db (ae_after_turn env t (outcome_name x))) s1)) = stats s1"
      by (rule still.tracksD [OF still_lifts(1) TrueI surjective_pairing])
    ultimately show "case after_context_turn env t m s of (Inl e, s') \<Rightarrow> ?X s' | (Inr x, s') \<Rightarrow> ?X s'"
      by (cases x) (simp_all add: after_context_turn_def m)
  qed
  have whole: "triple (\<lambda>w. spent r0 a0 (stats w)) (run_agent env tid) (\<lambda>_. ?X) ?X"
    unfolding run_agent_def
    apply (rule triple_seq [OF stays], blast)
    apply (rule triple_seq [OF stays], blast)
    apply (rule after)
    apply (rule triple_seq [OF stays], blast)
    apply (rule triple_seq [OF stays [OF ranking]])
    apply (rule run_budget [OF assms(1,2)])
    done
  have start: "spent r0 a0 (stats w)" by (simp add: stats_def r0_def a0_def)
  have "?X w'" using tripleD [OF whole start] run by (cases r) auto
  then show ?thesis by (simp add: stats_def r0_def a0_def)
qed

section \<open>What a run does to the tables\<close>

interpretation tables: frame "\<lambda>s. core_ok (fst s)" "\<lambda>s s'. moves (fst s) (fst s')"
  by unfold_locales (auto intro: core_ok_moves moves_trans)

text \<open>An environment whose services and tools change the tables only by moves of the task core.\<close>

definition env_moves :: "agent_env \<Rightarrow> bool" where
  "env_moves env \<longleftrightarrow>
     (\<forall>t ms ts. core.tracks (ae_complete env t ms ts)) \<and>
     (\<forall>name args. tables.tracks (ae_invoke env name args)) \<and>
     (\<forall>c. tables.tracks (ae_run_code env c)) \<and>
     (\<forall>t. core.tracks (ae_assemble env t)) \<and> (\<forall>t out. core.tracks (ae_after_turn env t out))"

lemma run_on_db: "core.tracks m \<Longrightarrow> run.tracks (on_gate (on_db m))"
  by (rule run.tracksI)
     (auto simp: on_gate_def on_db_apply dest: core.tracksD [OF _ _ surjective_pairing] split: prod.splits)

lemma run_on_tables: "tables.tracks m \<Longrightarrow> run.tracks (on_tables m)"
proof (rule run.tracksI)
  fix s r s' assume m: "tables.tracks m" "core_ok (run_db s)" "on_tables m s = (r, s')"
  obtain x d ts where one: "m (run_db s, rw_tools s) = (x, d, ts)" by (cases "m (run_db s, rw_tools s)")
  have "moves (run_db s) d" using tables.tracksD [OF m(1) _ one] m(2) by simp
  with one m(3) show "moves (run_db s) (run_db s')" by (auto simp: on_tables_def)
qed

lemma run_memory [intro]:
  "run.tracks (writing (rw_messages_update f))" "run.tracks (writing (\<lambda>w. w\<lparr>rw_model_calls := g w\<rparr>))"
  "run.tracks (writing (\<lambda>w. w\<lparr>rw_tool_runs := h w\<rparr>))"
  by (rule run.tracksI; simp add: run.rel_refl)+

lemma quiet_run_log [intro]: "quiet.tracks (run_log t m p)"
  unfolding run_log_def by auto

lemma quiet_exception [intro]: "quiet.tracks (append_exception env t e p)"
  unfolding append_exception_def by auto

lemma quiet_check [intro]: "quiet.tracks (check_cancelled t ph)"
  unfolding check_cancelled_def by (rule quiet_cancelled)

lemma gate_images [intro]: "gate.tracks (arm_trifecta_if_images cfg t b)"
  unfolding arm_trifecta_if_images_def
  by (intro gate.tracks_if gate.tracks_seq) (auto split: prod.split intro!: gate.tracks_seq)

lemmas run_more_steps [intro] =
  quiet_run_log [THEN run_quiet] quiet_exception [THEN run_quiet] quiet_check [THEN run_quiet]
  quiet_execution_log [THEN run_quiet]

lemma run_finish [intro]: "run.tracks (finish_run t x turn n reason b)"
  unfolding finish_run_def
  by (intro run.tracks_seq run_on_db tracks_update)
     (auto simp: tame_def keeps_keys_def identity_of_def totals_def row_ok_def lease_whole_def)

lemma run_model: "env_moves env \<Longrightarrow> run.tracks (call_model env t ms ts)"
  unfolding call_model_def by (intro run.tracks_seq run_on_db) (auto simp: env_moves_def)

lemma run_enforce: "run.tracks (enforce_soft_tool_call_cap c a)"
  unfolding enforce_soft_tool_call_cap_def
  by (intro run.tracks_seq) (auto split: option.split)

lemma run_load: "run.tracks (load_missing_tool env t c)"
proof -
  have "run.tracks (\<lambda>w. case register_if_absent tool (rw_tools w) of
      Inl e \<Rightarrow> (Inl e, w) | Inr ts \<Rightarrow> (Inr (), w\<lparr>rw_tools := ts\<rparr>))" for tool
    by (rule run.tracksI) (auto simp: run.rel_refl split: sum.splits)
  then show ?thesis
    unfolding load_missing_tool_def
    by (intro run.tracks_catching run.tracks_seq)
       (auto split: option.split intro!: run.tracks_seq run_log)
qed

lemma run_tool_moves:
  "tables.tracks m \<Longrightarrow> run.tracks (run_tool m)"
  unfolding run_tool_def by (intro run.tracks_seq run_on_tables) auto

lemma run_run_call: "env_moves env \<Longrightarrow> run.tracks (run_call env t turn c a)"
proof -
  assume ok: "env_moves env"
  have "run.tracks (run_tool (ae_run_code env c))"
    "run.tracks (run_tool (ae_invoke env (cr_name c) (cr_arguments c)))"
    using ok by (auto simp: env_moves_def intro: run_tool_moves)
  moreover have "run.tracks (case e of RecoverableTool x \<Rightarrow> returning (Recoverable x)
     | _ \<Rightarrow> seq (append_exception env t e p) (\<lambda>_. raising e))" for e p
    by (cases e; auto intro!: run.tracks_seq)
  ultimately show ?thesis
    unfolding run_call_def execute_call_def
    by (intro run.tracks_catching run.tracks_seq run.tracks_if run_enforce run_load run.tracks_pure)
qed

lemma run_post_repair: "env_moves env \<Longrightarrow> run.tracks (post_repair env t turn c outcome retried)"
proof -
  assume ok: "env_moves env"
  have "run.tracks (run_tool (ae_invoke env (cr_name c) (rp_arguments p)))" for p
    using ok by (auto simp: env_moves_def intro: run_tool_moves)
  then have again: "run.tracks (retry_repaired env c p)" for p
    unfolding retry_repaired_def
    by (intro run.tracks_catching run.tracks_seq run.tracks_if run.tracks_pure)
  have after: "run.tracks (case x of
      None \<Rightarrow> returning (rk, ids)
    | Some r \<Rightarrow> seq (catching (log_event t Log q) (\<lambda>_. returning ())) (\<lambda>_. returning ((f r, None), ids)))"
    for x and rk :: "tool_result \<times> classified_error option" and ids :: "string list" and q f
    by (auto split: option.split intro!: run.tracks_seq run.tracks_catching run_log)
  show ?thesis
    unfolding post_repair_def Let_def
    by (auto split: tool_outcome.split option.split intro!: run.tracks_seq [OF again after])
qed

lemma run_replan: "env_moves env \<Longrightarrow> run.tracks (replan_after_failure env t ts turn c res e)"
  unfolding replan_after_failure_def recovery_plan_of_def
  by (intro run.tracks_seq run.tracks_if run.tracks_catching run_model run.tracks_pure) auto

lemma run_invoke_call: "env_moves env \<Longrightarrow> run.tracks (invoke_tool_call env t ts turn c retried)"
proof -
  assume ok: "env_moves env"
  have settled: "run.tracks ((\<lambda>((r, k), retried').
         seq (settle_call (ae_gate env) (ae_limit env) t c' a turn (ae_latency env c') r k pre) (\<lambda>n.
         seq (case k of None \<Rightarrow> returning ()
              | Some e \<Rightarrow> replan_after_failure env t ts turn c' r e) (\<lambda>_.
         returning (Call_Done n, retried')))) rk)" for rk c' a pre
    using run_replan [OF ok]
    by (auto split: prod.split option.split intro!: run.tracks_seq run_settle)
  have logged: "run.tracks (case pre of None \<Rightarrow> returning () | Some p \<Rightarrow> log_event t Log (f p))" for pre f
    by (cases pre) (auto intro: run_log)
  have staged: "run.tracks (case stage of
       Needs_Approval rq \<Rightarrow> returning (Call_Stopped rq, retried)
     | Skipped n \<Rightarrow> returning (Call_Done n, retried)
     | Ready a \<Rightarrow>
         seq (run_call env t turn c' a) (\<lambda>outcome.
         seq (post_repair env t turn c' outcome retried) (\<lambda>((r, k), retried').
         seq (settle_call (ae_gate env) (ae_limit env) t c' a turn (ae_latency env c') r k pre) (\<lambda>n.
         seq (case k of None \<Rightarrow> returning ()
              | Some e \<Rightarrow> replan_after_failure env t ts turn c' r e) (\<lambda>_.
         returning (Call_Done n, retried'))))))" for stage c' pre
    using run.tracks_seq [OF run_run_call [OF ok] run.tracks_seq [OF run_post_repair [OF ok] settled]]
    by (cases stage) auto
  show ?thesis
    unfolding invoke_tool_call_def
    by (auto split: prod.split intro!: run.tracks_seq run_prepare logged staged)
qed

lemma run_invoke_calls: "env_moves env \<Longrightarrow> run.tracks (invoke_tool_calls env t ts turn cs retried n)"
proof (induction cs arbitrary: retried n)
  case Nil
  show ?case unfolding invoke_tool_calls.simps by blast
next
  case (Cons c cs)
  have "run.tracks (case x of (e, retried') \<Rightarrow> case e of
       Call_Stopped rq \<Rightarrow> returning (Call_Stopped rq)
     | Call_Done m \<Rightarrow> invoke_tool_calls env t ts turn cs retried' (n + m))" for x
    by (cases x; cases "fst x") (auto intro: Cons)
  then show ?case
    unfolding invoke_tool_calls.simps by (intro run.tracks_seq run_invoke_call [OF Cons.prems])
qed

lemma run_model_once:
  "env_moves env \<Longrightarrow> run.tracks (catching (call_model env t ms ts)
     (\<lambda>e. seq (append_exception env t e p) (\<lambda>_. raising e)))"
  by (intro run.tracks_catching run.tracks_seq run_model) auto

lemma run_completion: "env_moves env \<Longrightarrow> run.tracks (complete_with_empty_retry env t ts turn left)"
proof (induction left)
  case 0
  have "run.tracks (complete_with_empty_retry env t ts turn 0)"
    apply (subst complete_with_empty_retry.simps)
    apply (rule run.tracks_seq, blast)
    apply (rule run.tracks_seq [OF run_model_once [OF 0]])
    apply (rule run.tracks_if, blast)
    apply (simp only: nat.case)
    apply blast
    done
  then show ?case .
next
  case (Suc left)
  show ?case
    apply (subst complete_with_empty_retry.simps)
    apply (rule run.tracks_seq, blast)
    apply (rule run.tracks_seq [OF run_model_once [OF Suc.prems]])
    apply (rule run.tracks_if, blast)
    apply (simp only: nat.case)
    apply (rule run.tracks_seq, blast)
    apply (rule Suc.IH [OF Suc.prems])
    done
qed

lemma run_complete_turn: "env_moves env \<Longrightarrow> run.tracks (complete_turn env t ts turn)"
  unfolding complete_turn_def by (intro run.tracks_seq run_completion) auto

lemma run_partial: "env_moves env \<Longrightarrow> run.tracks (finish_with_partial env t turn reason)"
  unfolding finish_with_partial_def
  by (intro run.tracks_seq run.tracks_catching run_model run_finish) auto

lemma run_without_calls: "run.tracks (without_calls env t ts turn legs co called nudges)"
  unfolding without_calls_def finish_with_text_def Let_def
  by (intro run.tracks_if run.tracks_seq run_finish) auto

lemma run_with_calls: "env_moves env \<Longrightarrow> run.tracks (with_calls env t ts turn co called nudges)"
proof -
  assume ok: "env_moves env"
  have handler: "run.tracks (case e of
          BudgetExhaustedRun reason \<Rightarrow>
            seq (finish_with_partial env t turn reason) (\<lambda>r. returning (Inr r))
        | _ \<Rightarrow> raising e)" for e
    by (cases e) (auto intro!: run.tracks_seq run_partial [OF ok])
  have ends: "run.tracks (case x of
       Inr r \<Rightarrow> returning (Run_Ended r)
     | Inl (Call_Stopped rq) \<Rightarrow> returning (Run_Parked rq)
     | Inl (Call_Done n) \<Rightarrow>
         if n = 0 then returning (Next_Turn called nudges)
         else seq (finish_with_artifacts t turn n) (\<lambda>r. returning (Run_Ended r)))" for x
    by (auto split: sum.split call_end.split simp: finish_with_artifacts_def intro!: run.tracks_seq)
  show ?thesis
    unfolding with_calls_def
    by (intro run.tracks_seq run.tracks_catching run_invoke_calls [OF ok] handler ends) auto
qed

lemma run_one_turn: "env_moves env \<Longrightarrow> run.tracks (one_turn env t legs turn called nudges)"
proof -
  assume ok: "env_moves env"
  have handler: "run.tracks (case e of
          CostBudgetExceeded ceiling current \<Rightarrow>
            seq (run_log t ''agent_cost_budget_exceeded''
              [(''ceiling_usd'', JStr ceiling), (''current_usd'', JStr current), (''turn'', JInt turn)]) (\<lambda>_.
            seq (finish_run t ''stopped: cost ceiling reached'' turn 0 ''cost_ceiling_exceeded'' True) (\<lambda>r.
            returning (Run_Ended r)))
        | _ \<Rightarrow> raising e)" for e
    by (cases e) (auto intro!: run.tracks_seq)
  show ?thesis
    unfolding one_turn_def Let_def
    by (intro run.tracks_catching run.tracks_seq run.tracks_if run_complete_turn [OF ok]
        run_without_calls run_with_calls [OF ok] handler) auto
qed

lemma run_turn_loop: "env_moves env \<Longrightarrow> run.tracks (turn_loop env t legs left called nudges)"
proof (induction left arbitrary: called nudges)
  case 0
  then show ?case
    unfolding turn_loop.simps by (intro run.tracks_seq run_partial) auto
next
  case (Suc left)
  have "run.tracks (case e of
        Next_Turn called' nudges' \<Rightarrow> turn_loop env t legs left called' nudges'
      | _ \<Rightarrow> returning e)" for e
    by (cases e) (auto intro: Suc)
  then show ?case
    unfolding turn_loop.simps Let_def
    by (intro run.tracks_seq run_one_turn [OF Suc.prems]) auto
qed

lemma run_create_plan: "env_moves env \<Longrightarrow> run.tracks (create_execution_plan env t ts)"
  unfolding create_execution_plan_def Let_def prod.case_eq_if
  by (intro run.tracks_seq run.tracks_if run.tracks_catching run_model) auto

lemma run_run_with_context: "env_moves env \<Longrightarrow> run.tracks (run_with_context env t ms)"
  unfolding run_with_context_def
  by (intro run.tracks_seq run_create_plan run_turn_loop) auto

lemma run_agent_moves: "env_moves env \<Longrightarrow> run.tracks (run_agent env tid)"
proof -
  assume ok: "env_moves env"
  have after: "run.tracks (after_context_turn env t m)" if m: "run.tracks m" for t m
  proof (rule run.tracksI)
    fix s r s' assume good: "core_ok (run_db s)" and run: "after_context_turn env t m s = (r, s')"
    obtain x s1 where one: "m s = (x, s1)" by (cases "m s")
    have two: "run.tracks (on_gate (on_db (ae_after_turn env t (outcome_name x))))"
      using ok by (intro run_on_db) (simp add: env_moves_def)
    have "moves (run_db s) (run_db s1)" by (rule run.tracksD [OF m good one])
    moreover have "moves (run_db s1) (run_db (snd (on_gate (on_db (ae_after_turn env t (outcome_name x))) s1)))"
      by (rule run.tracksD [OF two run.tracks_ok [OF m good one] surjective_pairing])
    ultimately show "moves (run_db s) (run_db s')"
      using run by (auto simp: after_context_turn_def one intro: moves_trans)
  qed
  have assembled: "core.tracks (ae_assemble env t)" for t
    using ok by (simp add: env_moves_def)
  have ranking: "run.tracks (case x of None \<Rightarrow> returning () | Some p \<Rightarrow> run_log t m p)" for x t m
    by (cases x) auto
  show ?thesis
    unfolding run_agent_def
    by (intro run.tracks_seq run_on_db tracks_resolve assembled after ranking run_run_with_context [OF ok])
       auto
qed

end
