(* ===== verification/Ledger_Progress.thy ===== *)
theory Ledger_Progress
  imports Ledger_Run Gate_Properties
begin

text \<open>
  The steps around a tool call go through: with the task in the store and a plan with steps,
  preparing a call fails only when its budget is spent, and settling one only when the task was
  cancelled, a service must be connected, or it failed too often.
\<close>

section \<open>Errors an operation may raise\<close>

text \<open>\<open>safe P E m\<close>: from \<open>P\<close> the operation returns or raises an error in \<open>E\<close>, and keeps \<open>P\<close>.\<close>

definition safe :: "('s \<Rightarrow> bool) \<Rightarrow> (py_error \<Rightarrow> bool) \<Rightarrow> ('s, 'a) op \<Rightarrow> bool" where
  "safe P E m \<longleftrightarrow> (\<forall>s. P s \<longrightarrow> (case m s of (Inl e, s') \<Rightarrow> E e \<and> P s' | (Inr x, s') \<Rightarrow> P s'))"

lemma safeD:
  "safe P E m \<Longrightarrow> P s \<Longrightarrow> m s = (Inl e, s') \<Longrightarrow> E e \<and> P s'"
  "safe P E m \<Longrightarrow> P s \<Longrightarrow> m s = (Inr x, s') \<Longrightarrow> P s'"
  by (force simp: safe_def)+

lemma safe_seq:
  assumes m: "safe P E m" and k: "\<And>x. safe P E (k x)"
  shows "safe P E (seq m k)"
  unfolding safe_def
proof (intro allI impI)
  fix s assume "P s"
  obtain r s' where run: "m s = (r, s')" by (cases "m s")
  show "case seq m k s of (Inl e, s') \<Rightarrow> E e \<and> P s' | (Inr x, s') \<Rightarrow> P s'"
  proof (cases r)
    case (Inl e)
    then show ?thesis using run safeD(1) [OF m \<open>P s\<close>] by (simp add: seq_apply)
  next
    case (Inr x)
    then have "P s'" using run safeD(2) [OF m \<open>P s\<close>] by simp
    then show ?thesis using run Inr k [of x] by (simp add: seq_apply safe_def)
  qed
qed

lemma safe_more: "safe P E m \<Longrightarrow> (\<And>e. E e \<Longrightarrow> E' e) \<Longrightarrow> safe P E' m"
  unfolding safe_def by (fastforce split: prod.splits sum.splits)

lemma safe_pure [intro]: "safe P E (returning x)" "safe P E (reading f)" "E e \<Longrightarrow> safe P E (raising e)"
  by (simp_all add: safe_def)

lemma safe_if: "(b \<Longrightarrow> safe P E m) \<Longrightarrow> (\<not> b \<Longrightarrow> safe P E m') \<Longrightarrow> safe P E (if b then m else m')"
  by simp

lemma safe_option:
  "safe P E m \<Longrightarrow> (\<And>x. safe P E (k x)) \<Longrightarrow> safe P E (case y of None \<Rightarrow> m | Some x \<Rightarrow> k x)"
  by (cases y) auto

lemma safe_returns:
  assumes "safe P (\<lambda>_. False) m" and "P s"
  obtains x s' where "m s = (Inr x, s')" and "P s'"
proof -
  obtain r s' where run: "m s = (r, s')" by (cases "m s")
  show ?thesis
  proof (cases r)
    case (Inl e)
    then show ?thesis using safeD(1) [OF assms, of e s'] run by simp
  next
    case (Inr x)
    then show ?thesis using safeD(2) [OF assms, of x s'] run that by blast
  qed
qed

section \<open>A run whose task is there\<close>

definition present :: "task \<Rightarrow> task \<Rightarrow> gate_world \<Rightarrow> bool" where
  "present row t g \<longleftrightarrow> task_get (t_id t) (gw_db g) = Some row"

definition alive :: "task \<Rightarrow> task \<Rightarrow> run_world \<Rightarrow> bool" where
  "alive row t w \<longleftrightarrow> present row t (rw_gate w) \<and> pl_steps (rw_plan w) \<noteq> []"

abbreviation never :: "py_error \<Rightarrow> bool" where
  "never \<equiv> \<lambda>_. False"

lemma safe_on_gate: "safe (present row t) E m \<Longrightarrow> safe (alive row t) E (on_gate m)"
  unfolding safe_def alive_def on_gate_def by (fastforce split: prod.splits sum.splits)

lemma present_append [intro]: "safe (present row t) E (on_db (append_event (t_id t) ty p))"
  by (simp add: safe_def present_def on_db_apply append_event_simp)

lemma present_log [intro]: "safe (present row t) E (append_log (t_id t) message p)"
  unfolding append_log_def by (intro safe_seq) auto

lemma present_memory [intro]:
  "safe (present row t) E (put_gate tid g)"
  "safe (present row t) E (writing (\<lambda>w. w\<lparr>gw_levels := f w\<rparr>))"
  by (simp_all add: safe_def present_def put_gate_def)

lemma present_state [intro]: "safe (present row t) E (trifecta_state cfg t)"
  unfolding trifecta_state_def Let_def by (intro safe_seq safe_option safe_if) auto

lemma present_level [intro]: "safe (present row t) E (resolve_task_level cfg t)"
  unfolding resolve_task_level_def by (intro safe_seq safe_option) auto

lemma present_apply [intro]: "safe (present row t) E (apply_trifecta_gate cfg t tc r)"
  unfolding apply_trifecta_gate_def by (intro safe_seq safe_if) auto

lemma present_decision [intro]: "safe (present row t) E (record_autonomy_decision t tc r)"
  unfolding record_autonomy_decision_def by (intro safe_seq) auto

lemma present_approval [intro]:
  "safe (present row t) E (raise_if_tool_approval_required cfg registry t tc)"
  unfolding raise_if_tool_approval_required_def Let_def
  by (intro safe_option safe_seq safe_if) auto

lemma present_arm [intro]: "safe (present row t) E (arm_trifecta_if_untrusted cfg t tc)"
  unfolding arm_trifecta_if_untrusted_def prod.case_eq_if by (intro safe_seq safe_if) auto

lemma live_log [intro]: "safe (alive row t) E (log_event t ty p)"
  unfolding log_event_def by (intro safe_seq safe_on_gate) auto

lemma live_say [intro]: "safe (alive row t) E (say m)"
  by (simp add: safe_def alive_def say_def)

lemma live_execution_log [intro]: "safe (alive row t) E (append_execution_log t message p)"
  unfolding append_execution_log_def by (intro safe_seq) auto

section \<open>The plan\<close>

lemma index_of_step_less: "index_of_step sid ss = Some i \<Longrightarrow> i < length ss"
  by (induction sid ss arbitrary: i rule: index_of_step.induct) (auto split: if_splits)

lemma current_index_there: "pl_steps p \<noteq> [] \<Longrightarrow> \<exists>i. current_index p = Inr i \<and> i < length (pl_steps p)"
  unfolding current_index_def
  by (auto split: option.splits dest!: index_of_step_less simp: bind_eq_Some_conv)

lemma current_step_there: "pl_steps p \<noteq> [] \<Longrightarrow> \<exists>s. current_step p = Inr s"
  using current_index_there by (fastforce simp: current_step_def)

lemma on_current_there:
  "pl_steps p \<noteq> [] \<Longrightarrow> \<exists>p'. on_current f p = Inr p' \<and> pl_steps p' \<noteq> []"
  using current_index_there by (fastforce simp: on_current_def)

lemma on_current_same:
  assumes "on_current f p = Inr p'"
  shows "pl_budget p' = pl_budget p" and "pl_limits p' = pl_limits p"
proof -
  obtain i where "Inr (p\<lparr>pl_steps := (pl_steps p)[i := f (pl_steps p ! i)]\<rparr>) = (Inr p' :: plan res)"
    using assms by (cases "current_index p") (simp_all only: on_current_def sum.case, blast)
  then have "p' = p\<lparr>pl_steps := (pl_steps p)[i := f (pl_steps p ! i)]\<rparr>" by (rule sum.inject(2) [THEN iffD1, symmetric])
  then show "pl_budget p' = pl_budget p" and "pl_limits p' = pl_limits p" by (hypsubst, simp)+
qed

definition planned :: "plan \<Rightarrow> bool" where
  "planned p \<longleftrightarrow> pl_steps p \<noteq> []"

lemma safe_on_plan: "safe planned E m \<Longrightarrow> safe (alive row t) E (on_plan m)"
  unfolding safe_def alive_def planned_def on_plan_def by (fastforce split: prod.splits sum.splits)

lemma planned_steps [intro]:
  "safe planned E (\<lambda>p. (current_step p, p))"
  "safe planned E (\<lambda>p. case on_current f p of Inl e \<Rightarrow> (Inl e, p) | Inr p' \<Rightarrow> (Inr (), p'))"
  "safe planned E (\<lambda>p. case on_current f p of Inl e \<Rightarrow> (Inl e, p) | Inr p' \<Rightarrow> (current_step p', p'))"
  "safe planned E (writing (\<lambda>p. p\<lparr>pl_status := st\<rparr>))"
  using current_step_there on_current_there [of _ f]
  by (fastforce simp: safe_def planned_def)+

lemma planned_fail [intro]: "safe planned E (fail_plan x)"
  unfolding fail_plan_def by (intro safe_seq) auto

lemma planned_count [intro]:
  "safe planned E (\<lambda>p. case count_attempt sha tid sid name args (pl_budget p) of
     (a, b) \<Rightarrow> (Inr a, p\<lparr>pl_budget := b\<rparr>))"
  "safe planned E (\<lambda>p. case count_failure name hash code cat (pl_budget p) of
     (n, b) \<Rightarrow> (Inr n, p\<lparr>pl_budget := b\<rparr>))"
  by (auto simp: safe_def planned_def split: prod.splits)

lemmas planned_counts [intro] = planned_count [unfolded prod.case_eq_if]

lemma live_fail [intro]: "safe (alive row t) E (fail_execution_plan t name what p)"
  unfolding fail_execution_plan_def by (intro safe_seq safe_on_plan) auto

lemma live_error [intro]: "safe (alive row t) E (append_error t name what p)"
  unfolding append_error_def Let_def by auto

section \<open>Preparing a call\<close>

text \<open>How often a tool was called, this call included, and with these arguments.\<close>

definition counted :: "(string \<Rightarrow> string) \<Rightarrow> call_request \<Rightarrow> plan \<Rightarrow> int \<times> int" where
  "counted sha c p =
     (bu_calls (pl_budget p) + 1,
      count_of (tool_signature_key (cr_name c) (normalized_tool_args_hash sha (cr_arguments c)))
        (bu_signatures (pl_budget p)) + 1)"

definition repeated_call_message :: "call_request \<Rightarrow> string" where
  "repeated_call_message c = ''Execution circuit breaker tripped for repeated tool call '' @ cr_name c"

text \<open>What counting an attempt gives, by the two limits.\<close>

definition attempt_verdict :: "guardrail_limits \<Rightarrow> call_request \<Rightarrow> int \<times> int \<Rightarrow> py_error option" where
  "attempt_verdict l c n =
     (if gl_tool_calls l < fst n then Some (BudgetExhaustedRun ''max_tool_calls_exceeded'')
      else if gl_same_call l < snd n then Some (GuardrailErr (repeated_call_message c)) else None)"

lemma bump_budget:
  assumes "alive row t w"
    and "on_plan (\<lambda>p. case on_current (\<lambda>s. s\<lparr>st_calls := st_calls s + 1\<rparr>) p of
            Inl e \<Rightarrow> (Inl e, p) | Inr p' \<Rightarrow> (Inr (), p')) w = (x, w')"
  shows "x = Inr () \<and> alive row t w' \<and> pl_budget (rw_plan w') = pl_budget (rw_plan w) \<and>
    pl_limits (rw_plan w') = pl_limits (rw_plan w)"
proof -
  obtain p' where p': "on_current (\<lambda>s. s\<lparr>st_calls := st_calls s + 1\<rparr>) (rw_plan w) = Inr p'" "pl_steps p' \<noteq> []"
    using assms(1) on_current_there [of "rw_plan w" "\<lambda>s. s\<lparr>st_calls := st_calls s + 1\<rparr>"]
    unfolding alive_def by blast
  have "(x, w') = (Inr (), w\<lparr>rw_plan := p'\<rparr>)"
    by (rule trans [OF assms(2) [symmetric]]) (simp only: on_plan_def p'(1) sum.case prod.case)
  then have "x = Inr ()" and "w' = w\<lparr>rw_plan := p'\<rparr>" by (blast elim: Pair_inject)+
  then show ?thesis using assms(1) p'(2) on_current_same [OF p'(1)] by (simp add: alive_def)
qed

interpretation unplanned: frame "\<lambda>_. True" "\<lambda>w w'. rw_plan w' = rw_plan w"
  by unfold_locales auto

lemma unplanned_log: "unplanned.tracks (append_execution_log t message p)"
proof -
  have "unplanned.tracks (on_gate m)" for m :: "(gate_world, 'x) op"
    by (rule unplanned.tracksI) (auto simp: on_gate_def split: prod.splits)
  then show ?thesis
    unfolding append_execution_log_def log_event_def by (intro unplanned.tracks_seq) auto
qed

lemmas log_keeps_plan = unplanned.tracksD [OF unplanned_log TrueI]

lemma attempt_rest_result:
  assumes live: "alive row t w"
  shows "fst (attempt_rest t c turn s a w) =
      (let l = pl_limits (rw_plan w) in
       if gl_tool_calls l < bu_calls (pl_budget (rw_plan w))
       then Inl (BudgetExhaustedRun ''max_tool_calls_exceeded'')
       else if gl_same_call l < at_no a then Inl (GuardrailErr (repeated_call_message c)) else Inr a) \<and>
    alive row t (snd (attempt_rest t c turn s a w))"
proof -
  define bump where "bump = on_plan (\<lambda>p. case on_current (\<lambda>s. s\<lparr>st_calls := st_calls s + 1\<rparr>) p of
            Inl e \<Rightarrow> (Inl e, p) | Inr p' \<Rightarrow> (Inr (), p'))"
  obtain w1 where w1: "bump w = (Inr (), w1)" "alive row t w1"
    and same: "pl_budget (rw_plan w1) = pl_budget (rw_plan w)" "pl_limits (rw_plan w1) = pl_limits (rw_plan w)"
    using bump_budget [OF live] unfolding bump_def [symmetric] by (cases "bump w") auto
  have step: "\<exists>w'. m u = (Inr (), w') \<and> alive row t w'" if "alive row t u" "safe (alive row t) never m"
    for m :: "(run_world, unit) op" and u
    using safe_returns [OF that(2,1)] by (metis old.unit.exhaust)
  define common where "common = [(''turn'', JInt turn), (''step_id'', JStr (st_id s)),
                   (''tool_call_id'', JStr (cr_id c)), (''tool'', JStr (cr_name c)),
                   (''attempt'', JObj (attempt_payload a)), (''budget_remaining'', remaining_json w1)]"
  obtain w2 where w2: "append_execution_log t ''execution_budget_updated'' common w1 = (Inr (), w2)" "alive row t w2"
    using step [OF w1(2) live_execution_log] by blast
  have p2: "rw_plan w2 = rw_plan w1" using log_keeps_plan [OF w2(1)] .
  define stop where "stop = append_execution_log t ''execution_budget_exceeded''
              ((''reason'', JStr ''max_tool_calls_exceeded'') # common)"
  define trip where "trip = append_execution_log t ''execution_circuit_breaker_tripped''
               ((''reason'', JStr ''same_tool_call_repeated'') # common)"
  define what where "what = repeated_call_message c"
  define fail where "fail = fail_execution_plan t guardrail_name what
               [(''reason'', JStr ''same_tool_call_repeated''), (''tool'', JStr (cr_name c)),
                (''tool_call_id'', JStr (cr_id c)), (''normalized_args_hash'', JStr (at_hash a)),
                (''attempt_no'', JInt (at_no a))]"
  define err where "err = append_error t guardrail_name what
               [(''phase'', JStr ''tool_attempt''), (''tool'', JStr (cr_name c)),
                (''tool_call_id'', JStr (cr_id c)), (''normalized_args_hash'', JStr (at_hash a)),
                (''attempt_no'', JInt (at_no a))]"
  have "attempt_rest t c turn s a w =
      (if gl_tool_calls (pl_limits (rw_plan w)) < bu_calls (pl_budget (rw_plan w)) then
         seq stop (\<lambda>_. raising (BudgetExhaustedRun ''max_tool_calls_exceeded'')) w2
       else if gl_same_call (pl_limits (rw_plan w)) < at_no a then
         seq trip (\<lambda>_. seq fail (\<lambda>_. seq err (\<lambda>_. raising (GuardrailErr what)))) w2
       else (Inr a, w2))"
    using w1(1) w2(1)
    by (simp add: attempt_rest_def seq_apply bump_def [symmetric] Let_def common_def p2 same
        stop_def trip_def fail_def err_def what_def repeated_call_message_def)
  moreover obtain w3 where "stop w2 = (Inr (), w3)" "alive row t w3"
    using step [OF w2(2)] unfolding stop_def by blast
  moreover obtain w4 where w4: "trip w2 = (Inr (), w4)" "alive row t w4"
    using step [OF w2(2) live_execution_log] unfolding trip_def by blast
  moreover obtain w5 where w5: "fail w4 = (Inr (), w5)" "alive row t w5"
    using step [OF w4(2) live_fail] unfolding fail_def by blast
  moreover obtain w6 where "err w5 = (Inr (), w6)" "alive row t w6"
    using step [OF w5(2) live_error] unfolding err_def by blast
  ultimately show ?thesis using w2(2) by (simp add: seq_apply what_def Let_def)
qed

lemma attempt_result:
  assumes live: "alive row t w"
  shows "(case attempt_verdict (pl_limits (rw_plan w)) c (counted sha c (rw_plan w)) of
      Some e \<Rightarrow> fst (record_tool_attempt sha t c turn w) = Inl e
    | None \<Rightarrow> \<exists>a. fst (record_tool_attempt sha t c turn w) = Inr a) \<and>
    alive row t (snd (record_tool_attempt sha t c turn w))"
proof -
  obtain s where s: "current_step (rw_plan w) = Inr s"
    using current_step_there live by (metis alive_def)
  obtain a b where ab: "count_attempt sha (t_id t) (st_id s) (cr_name c) (cr_arguments c) (pl_budget (rw_plan w)) = (a, b)"
    by fastforce
  let ?w = "w\<lparr>rw_plan := (rw_plan w)\<lparr>pl_budget := b\<rparr>\<rparr>"
  have "record_tool_attempt sha t c turn w = attempt_rest t c turn s a ?w"
    by (simp add: record_tool_attempt_def seq_apply on_plan_def s ab)
  moreover have "alive row t ?w" using live by (simp add: alive_def)
  moreover have "bu_calls b = fst (counted sha c (rw_plan w))" "at_no a = snd (counted sha c (rw_plan w))"
    using ab by (auto simp: count_attempt_def counted_def Let_def)
  ultimately show ?thesis
    using attempt_rest_result [of row t ?w c turn s a] by (auto simp: attempt_verdict_def Let_def)
qed

lemma live_replay: "safe (alive row t) E (replay_completed_attempt limit t c a turn sid r)"
  unfolding replay_completed_attempt_def by (intro safe_seq) auto

lemma live_surface: "safe (alive row t) E (surface_unknown_prior_outcome limit t c a turn sid effect)"
  unfolding surface_unknown_prior_outcome_def Let_def by (intro safe_seq) auto

lemma live_dedup [intro]: "safe (alive row t) E (dedup_tool_call limit t c a turn sid)"
proof -
  have "safe (alive row t) E (case prior of
            Completed r y \<Rightarrow>
              seq (replay_completed_attempt limit t c a turn sid r) (\<lambda>n. returning (Some n))
          | Started_Only z \<Rightarrow>
              (let effect = tm_side_effect (tool_metadata_for (cr_name c)) in
               if effect = Read then returning None
               else seq (surface_unknown_prior_outcome limit t c a turn sid effect)
                      (\<lambda>n. returning (Some n)))
          | No_Prior \<Rightarrow> returning None)" for prior
    unfolding Let_def
    by (cases prior; simp only: prior_attempt.case; intro safe_if safe_seq live_replay live_surface safe_pure)
  then show ?thesis
    unfolding dedup_tool_call_def by (intro safe_if safe_option safe_seq) auto
qed

lemma live_warn [intro]: "safe (alive row t) E (warn_if_tool_deadline_exceeds_lease t c turn sid)"
  unfolding warn_if_tool_deadline_exceeds_lease_def Let_def
  by (intro safe_option safe_seq safe_if) auto

lemma live_decided:
  "safe (alive row t) E (seq (on_plan (\<lambda>p. (current_step p, p))) (\<lambda>s.
     seq (on_gate (raise_if_tool_approval_required cfg registry t (gate_call c a turn (st_id s)))) (\<lambda>ok.
     case ok of
       Approval_Required rq \<Rightarrow> returning (Needs_Approval rq)
     | Proceed \<Rightarrow>
         seq (dedup_tool_call limit t c a turn (st_id s)) (\<lambda>replayed.
         case replayed of
           Some n \<Rightarrow> returning (Skipped n)
         | None \<Rightarrow>
             seq (warn_if_tool_deadline_exceeds_lease t c turn (st_id s)) (\<lambda>_.
             seq (log_event t Tool_Call (tool_call_payload c a turn (st_id s))) (\<lambda>_.
             returning (Ready a)))))))"
proof -
  have "safe (alive row t) E (case ok of
       Approval_Required rq \<Rightarrow> returning (Needs_Approval rq)
     | Proceed \<Rightarrow>
         seq (dedup_tool_call limit t c a turn sid) (\<lambda>replayed.
         case replayed of
           Some n \<Rightarrow> returning (Skipped n)
         | None \<Rightarrow>
             seq (warn_if_tool_deadline_exceeds_lease t c turn sid) (\<lambda>_.
             seq (log_event t Tool_Call (tool_call_payload c a turn sid)) (\<lambda>_.
             returning (Ready a)))))" for ok sid
    by (cases ok) (auto intro!: safe_seq safe_option)
  then show ?thesis by (intro safe_seq safe_on_plan safe_on_gate) auto
qed

lemma live_prepare: "safe (alive row t) (\<lambda>_. True) (prepare_call cfg registry sha limit t c turn)"
proof -
  have "safe (alive row t) (\<lambda>_. True) (record_tool_attempt sha t c turn)"
    using attempt_result unfolding safe_def by (fastforce split: prod.split sum.split dest!: arg_cong [where f = snd])
  then show ?thesis unfolding prepare_call_def by (rule safe_seq) (rule live_decided)
qed

text \<open>Before a tool runs the only obstacles are the budget and the breaker; a call within both is
  sent on, skipped or stopped for an approval.\<close>

lemma prepare_result:
  assumes live: "alive row t w"
  shows "case attempt_verdict (pl_limits (rw_plan w)) c (counted sha c (rw_plan w)) of
      Some e \<Rightarrow> fst (prepare_call cfg registry sha limit t c turn w) = Inl e
    | None \<Rightarrow> \<exists>stage. fst (prepare_call cfg registry sha limit t c turn w) = Inr stage"
proof -
  obtain x w1 where one: "record_tool_attempt sha t c turn w = (x, w1)" by fastforce
  note verdict = attempt_result [OF live, where c = c and sha = sha and turn = turn, unfolded one fst_conv snd_conv]
  show ?thesis
  proof (cases "attempt_verdict (pl_limits (rw_plan w)) c (counted sha c (rw_plan w))")
    case (Some e)
    then show ?thesis using verdict one by (simp add: prepare_call_def seq_apply)
  next
    case None
    then obtain a where x: "x = Inr a" and "alive row t w1" using verdict by auto
    have "seq (record_tool_attempt sha t c turn) k w = k a w1"
      for k :: "attempt \<Rightarrow> (run_world, call_stage) op"
      using one x by (simp add: seq_apply)
    note after = this
    obtain stage w2 where "prepare_call cfg registry sha limit t c turn w = (Inr stage, w2)"
      unfolding prepare_call_def after
      by (rule safe_returns [OF live_decided \<open>alive row t w1\<close>])
    then show ?thesis using None by simp
  qed
qed

section \<open>Settling a call\<close>

lemma live_failure [intro]: "safe (alive row t) E (record_recoverable_failure t a k turn cid)"
  unfolding record_recoverable_failure_def Let_def prod.case_eq_if
  by (intro safe_seq safe_on_plan safe_if) auto

lemma live_record [intro]: "safe (alive row t) E (record_tool_result cfg limit t c a turn sid ms r k pre)"
  unfolding record_tool_result_def prod.case_eq_if
  by (intro safe_seq safe_on_gate safe_option) auto

lemma live_cancelled:
  "t_status row \<noteq> Cancelled \<or> (\<forall>m. E (TaskCancelled m)) \<Longrightarrow>
   safe (alive row t) E (on_gate (on_db (raise_if_cancelled (t_id t) ph)))"
  by (rule safe_on_gate)
     (auto simp: safe_def present_def on_db_apply raise_if_cancelled_def resolve_task_def seq_apply)

lemma live_exceeded:
  assumes "\<And>m. E (GuardrailErr m)"
  shows "safe (alive row t) E (failure_budget_exceeded t c a e)"
  unfolding failure_budget_exceeded_def Let_def by (intro safe_seq) (auto intro: assms)

lemma live_settle:
  assumes "t_status row \<noteq> Cancelled \<or> (\<forall>m. E (TaskCancelled m))"
    and "\<And>e. k = Some e \<Longrightarrow> (\<forall>m. E (GuardrailErr m)) \<and> (\<forall>s n. E (ConnectionRequired s n))"
  shows "safe (alive row t) E (settle_call cfg limit t c a turn ms r k pre)"
proof -
  have connect: "safe (alive row t) E (case Option.bind k composio_connect_required of None \<Rightarrow> returning ()
          | Some slug \<Rightarrow> raising (ConnectionRequired slug (cr_name c)))"
    using assms(2) by (cases k) (auto intro!: safe_option)
  have out: "safe (alive row t) E (case k of
       Some e \<Rightarrow> if b then failure_budget_exceeded t c a e else returning (length (tr_artifacts r))
     | None \<Rightarrow> returning (length (tr_artifacts r)))" for b
    using assms(2) by (cases k) (auto intro!: safe_if live_exceeded)
  show ?thesis
    unfolding settle_call_def
    by (intro safe_seq connect live_cancelled [OF assms(1)] safe_on_plan out live_record)
       (auto intro!: safe_option)
qed

section \<open>The key of an attempt\<close>

definition call_ledger_key :: "(string \<Rightarrow> string) \<Rightarrow> task \<Rightarrow> call_request \<Rightarrow> step \<Rightarrow> string" where
  "call_ledger_key sha t c s =
     build_idempotency_key (t_id t) (st_id s) (cr_name c)
       (normalized_tool_args_hash sha (cr_arguments c))"

lemma on_plan_InrE:
  assumes "on_plan m w = (Inr x, w')"
  obtains p where "m (rw_plan w) = (Inr x, p)" and "w' = w\<lparr>rw_plan := p\<rparr>"
  using assms by (auto simp: on_plan_def split: prod.splits)

text \<open>\<open>gives P m\<close>: every value \<open>m\<close> returns satisfies \<open>P\<close>.\<close>

definition gives :: "('a \<Rightarrow> bool) \<Rightarrow> ('s, 'a) op \<Rightarrow> bool" where
  "gives P m \<longleftrightarrow> (\<forall>s x s'. m s = (Inr x, s') \<longrightarrow> P x)"

lemma givesD: "gives P m \<Longrightarrow> m s = (Inr x, s') \<Longrightarrow> P x"
  by (auto simp: gives_def)

lemma gives_seq: "(\<And>x. gives P (k x)) \<Longrightarrow> gives P (seq m k)"
  unfolding gives_def by (auto elim!: seq_InrE)

lemma gives_pure: "P x \<Longrightarrow> gives P (returning x)" "gives P (raising e)"
  by (simp_all add: gives_def)

lemma gives_if: "gives P m \<Longrightarrow> gives P m' \<Longrightarrow> gives P (if b then m else m')"
  by simp

lemma attempt_key:
  assumes "record_tool_attempt sha t c turn w = (Inr a, w')"
  obtains s where "current_step (rw_plan w) = Inr s" and "at_key a = Some (call_ledger_key sha t c s)"
proof -
  have unfolded: "record_tool_attempt sha t c turn w =
    seq (on_plan (\<lambda>p. (current_step p, p))) (\<lambda>s.
     seq (on_plan (\<lambda>p. case count_attempt sha (t_id t) (st_id s) (cr_name c) (cr_arguments c) (pl_budget p) of
            (a, b) \<Rightarrow> (Inr a, p\<lparr>pl_budget := b\<rparr>))) (\<lambda>a. attempt_rest t c turn s a)) w"
    by (simp only: record_tool_attempt_def)
  obtain s w1 b w2 where cur: "on_plan (\<lambda>p. (current_step p, p)) w = (Inr s, w1)"
    and cnt: "on_plan (\<lambda>p. case count_attempt sha (t_id t) (st_id s) (cr_name c) (cr_arguments c) (pl_budget p) of
            (a, b) \<Rightarrow> (Inr a, p\<lparr>pl_budget := b\<rparr>)) w1 = (Inr b, w2)"
    and rest: "attempt_rest t c turn s b w2 = (Inr a, w')"
    using assms unfolding unfolded by (elim seq_InrE)
  have only: "gives (\<lambda>x. x = b) (attempt_rest t c turn s b)"
    unfolding attempt_rest_def Let_def by (intro gives_seq gives_if gives_pure refl)
  have "a = b" by (rule givesD [OF only rest])
  moreover have "at_key b = Some (call_ledger_key sha t c s)"
    using cnt
    by (simp add: on_plan_def count_attempt_def Let_def call_ledger_key_def prod.case_eq_if) (elim conjE, hypsubst, simp)
  moreover have "current_step (rw_plan w) = Inr s" using cur by (auto simp: on_plan_def)
  ultimately show ?thesis using that by blast
qed

end
