(* ===== verification/Ledger_Sample.thy ===== *)
theory Ledger_Sample
  imports Ledger_Progress
begin

text \<open>
  A concrete run, on which the properties of the ledger and of the agent are witnessed: the
  sample task of the task core, claimed by a worker, at the start of an inline plan.
\<close>

definition sample_plan :: plan where
  "sample_plan = (make_default_execution_plan ''plan-1'' 7 ''hello'' [] default_limits)
     \<lparr>pl_status := Plan_In_Progress, pl_current := Some ''step-1''\<rparr>"

definition run_start :: run_world where
  "run_start = \<lparr>rw_gate = \<lparr>gw_db = claimed_db, gw_policies = \<lparr>pd_policies = [], pd_now = 0\<rparr>,
       gw_gates = [(7, new_gate False False)], gw_levels = [(7, Autonomous)]\<rparr>,
     rw_plan = sample_plan, rw_messages = [], rw_tools = [], rw_model_calls = 0, rw_tool_runs = 0\<rparr>"

definition mail_request :: call_request where
  "mail_request = \<lparr>cr_id = ''call-1'', cr_name = ''composio_gmail_send_email'', cr_requested = [],
     cr_arguments = []\<rparr>"

text \<open>A call of a native tool that writes and asks for no approval.\<close>

definition plan_request :: call_request where
  "plan_request = mail_request\<lparr>cr_name := ''create_schedule''\<rparr>"

text \<open>The task as the second attempt of the worker sees it.\<close>

definition retried_row :: task where
  "retried_row = sample_row\<lparr>t_attempts := 1\<rparr>"

abbreviation sample_hash :: "string \<Rightarrow> string" where
  "sample_hash \<equiv> \<lambda>_. ''h''"

definition sample_step :: step where
  "sample_step = (case current_step sample_plan of Inr s \<Rightarrow> s | Inl _ \<Rightarrow> hd (pl_steps sample_plan))"

definition sample_key_of :: "call_request \<Rightarrow> string" where
  "sample_key_of c = build_idempotency_key 7 (st_id sample_step) (cr_name c)
     (normalized_tool_args_hash sample_hash (cr_arguments c))"

abbreviation sample_key :: string where
  "sample_key \<equiv> sample_key_of mail_request"

definition sample_result :: tool_result where
  "sample_result = \<lparr>tr_output = [(''successful'', JBool True)], tr_cost = dec_zero, tr_artifacts = []\<rparr>"

abbreviation prepare_of :: "call_request \<Rightarrow> task \<Rightarrow> (run_world, call_stage) op" where
  "prepare_of c t \<equiv> prepare_call quiet_config (\<lambda>_. None) sample_hash 4000 t c 1"

abbreviation prepare_sample :: "task \<Rightarrow> (run_world, call_stage) op" where
  "prepare_sample t \<equiv> prepare_of mail_request t"

abbreviation settle_sample :: "attempt \<Rightarrow> (run_world, nat) op" where
  "settle_sample a \<equiv> settle_call quiet_config 4000 sample_row mail_request a 1 5 sample_result None None"

lemma sample_id [simp]: "t_id sample_row = 7" "t_id retried_row = 7"
  by (simp_all add: sample_row_def retried_row_def)

lemma sample_plan_facts:
  "current_step sample_plan = Inr sample_step" "pl_steps sample_plan \<noteq> []"
  by (simp_all add: sample_step_def sample_plan_def make_default_execution_plan_def current_step_def
      current_index_def)

lemma sample_ledger_key: "t_id t = 7 \<Longrightarrow> call_ledger_key sample_hash t c sample_step = sample_key_of c"
  by (simp add: call_ledger_key_def sample_key_of_def)

lemma sample_verdict:
  "attempt_verdict (pl_limits sample_plan) c (counted sha c sample_plan) = None"
  by (simp add: attempt_verdict_def counted_def sample_plan_def make_default_execution_plan_def
      default_limits_def fresh_budget_def count_of_def)

lemma start_core_ok: "core_ok (run_db run_start)"
  using claimed_core_ok by (simp add: run_start_def)

text \<open>The task as the store holds it during the run.\<close>

definition claimed_row :: task where
  "claimed_row = claim_row ''w1'' 0 (seconds 300) sample_row"

lemma start_alive: "alive claimed_row sample_row run_start"
  using claimed_get sample_plan_facts(2)
  by (simp add: alive_def present_def run_start_def claimed_row_def)

lemma claimed_running: "t_status claimed_row = Running"
  by (simp add: claimed_row_def claim_row_def)

text \<open>With no tool registered nothing asks for an approval; a first attempt is not looked up.\<close>

lemma prepare_unregistered:
  assumes "prepare_of c t w = (Inr stage, w')"
  shows "\<nexists>rq. stage = Needs_Approval rq"
  using assms unfolding prepare_call_def raise_if_tool_approval_required_def option.case
  by (elim seq_InrE) (auto simp: on_gate_def elim!: seq_InrE split: option.splits)

lemma prepare_first:
  assumes "prepare_of c sample_row w = (Inr stage, w')"
  obtains a where "stage = Ready a"
proof -
  have "t_attempts sample_row = 0" by (simp add: sample_row_def new_task_def)
  then have "\<And>n. stage \<noteq> Skipped n"
    using assms unfolding prepare_call_def raise_if_tool_approval_required_def option.case
    by (elim seq_InrE) (auto simp: on_gate_def dedup_tool_call_def elim!: seq_InrE split: option.splits)
  with prepare_unregistered [OF assms] that show ?thesis by (cases stage) auto
qed

end
