(* ===== verification/Ledger_Properties.thy ===== *)
theory Ledger_Properties
  imports Ledger_Sample
begin

text \<open>
  The properties of the ledger of tool calls: a recorded result answers every later call with
  its key, an unfinished call is decided by the effect the catalog knows, and the calls of a run
  stay within its budget.
\<close>

section \<open>Recording a result\<close>

lemma log_event_run:
  assumes "log_event t ty p w = (Inr (), w')"
  obtains row where "task_get (t_id t) (run_db w) = Some row"
    and "run_db w' = add_event (t_id t) ty p (run_db w)"
proof (cases "task_get (t_id t) (run_db w)")
  case None
  then show ?thesis
    using assms by (simp add: log_event_def seq_apply on_gate_def on_db_apply append_event_missing)
next
  case (Some row)
  with assms have "run_db w' = add_event (t_id t) ty p (run_db w)"
    by (auto simp: log_event_def seq_apply on_gate_def on_db_apply append_event_simp)
  with Some that show ?thesis by blast
qed

lemma record_tool_result_logs:
  assumes run: "record_tool_result cfg limit t c a turn sid ms r k pre w0 = (Inr (), w1)"
    and ok: "core_ok (run_db w0)"
  shows "core_ok (add_event (t_id t) Tool_Result (tool_result_event c a turn sid ms r k) (run_db w0)) \<and>
    quiet_moves (add_event (t_id t) Tool_Result (tool_result_event c a turn sid ms r k) (run_db w0))
      (run_db w1)"
proof -
  define p where "p = tool_result_prompt_payload limit (tool_result_payload (cr_name c) r)"
  define rest where "rest =
     seq (case snd p of None \<Rightarrow> returning ()
          | Some report \<Rightarrow> on_gate (append_log (t_id t) ''tool_result_compacted''
              (jmerge [(''turn'', JInt turn), (''tool_call_id'', JStr (cr_id c)),
                       (''tool'', JStr (cr_name c))] report))) (\<lambda>_.
     seq (say (tool_message (cr_id c) (with_repair_note pre (fst p)))) (\<lambda>_.
     on_gate (arm_trifecta_if_untrusted cfg t (gate_call c a turn sid))))"
  have "record_tool_result cfg limit t c a turn sid ms r k pre =
      seq (log_event t Tool_Result (tool_result_event c a turn sid ms r k)) (\<lambda>_. rest)"
    by (simp add: record_tool_result_def rest_def p_def split_beta)
  then obtain w2 where one: "log_event t Tool_Result (tool_result_event c a turn sid ms r k) w0 = (Inr (), w2)"
    and two: "rest w2 = (Inr (), w1)"
    using run by (auto elim: seq_InrE)
  obtain row where row: "task_get (t_id t) (run_db w0) = Some row"
    and db: "run_db w2 = add_event (t_id t) Tool_Result (tool_result_event c a turn sid ms r k) (run_db w0)"
    using log_event_run [OF one] by blast
  have "core_ok (run_db w2)"
    unfolding db by (rule core_ok_note [OF ok row]) simp
  moreover have "quiet.tracks rest"
    unfolding rest_def
    by (cases "snd p"; simp; intro quiet.tracks_seq quiet.tracks_pure quiet_gate gate_append_log
        gate_arm quiet_say)
  ultimately show ?thesis using quiet.tracksD two db by metis
qed

text \<open>A settled call has its result in the ledger, and no later move takes it away.\<close>

lemma settled_call_recorded:
  assumes run: "settle_call cfg limit t c a turn ms r0 k pre w = (Inr n, w1)"
    and key: "at_key a = Some key" and ok: "core_ok (run_db w)"
    and first: "\<And>r cid. find_prior_attempt (t_id t) key (run_db w) \<noteq> Completed r cid"
    and later: "moves (run_db w1) d"
  obtains r cid where "find_prior_attempt (t_id t) key d = Completed r cid"
    and "tr_output r = tr_output r0"
    and "tr_artifacts r = tr_artifacts r0"
    and "n = length (tr_artifacts r)"
proof -
  obtain w0 sid where q: "quiet_moves (run_db w) (run_db w0)" and ok0: "core_ok (run_db w0)"
    and rec: "record_tool_result cfg limit t c a turn sid ms r0 k pre w0 = (Inr (), w1)"
    and n: "n = length (tr_artifacts r0)"
    using settle_records [OF run ok] by blast
  define p where "p = tool_result_event c a turn sid ms r0 k"
  define d1 where "d1 = add_event (t_id t) Tool_Result p (run_db w0)"
  have ok1: "core_ok d1" and q1: "quiet_moves d1 (run_db w1)"
    using record_tool_result_logs [OF rec ok0] by (simp_all add: d1_def p_def)
  obtain r where r: "reconstruct_tool_result p = Some r" "tr_output r = tr_output r0"
    "tr_artifacts r = tr_artifacts r0"
    using reconstruct_event unfolding p_def by metis
  define e where "e = new_event (t_id t) Tool_Result p (run_db w0)"
  have "tool_entries (t_id t) d1 = tool_entries (t_id t) (run_db w0) @ [e]"
    by (simp add: d1_def e_def tool_entries_def events_of_add)
  moreover have "has_key key e"
    by (simp add: has_key_def e_def p_def tool_result_event_get key jopt_str_def)
  moreover have "results_in [e] = [(r, json_str (jget p ''tool_call_id''))]"
    by (simp add: results_in_def e_def r(1))
  moreover have "results_in (filter (has_key key) (tool_entries (t_id t) (run_db w0))) = []"
  proof -
    have "results_in (filter (has_key key) (tool_entries (t_id t) (run_db w))) = []"
      using first find_prior_completed [OF core_okD(8) [OF ok]]
      by (cases "results_in (filter (has_key key) (tool_entries (t_id t) (run_db w)))") fastforce+
    then show ?thesis using q by (simp add: quiet_moves_def)
  qed
  ultimately have "find_prior_attempt (t_id t) key d1 =
      Completed r (json_str (jget p ''tool_call_id''))"
    by (simp add: find_prior_completed [OF core_okD(8) [OF ok1]])
  moreover have "moves d1 d" using q1 later by (auto simp: quiet_moves_def)
  ultimately have "find_prior_attempt (t_id t) key d = Completed r (json_str (jget p ''tool_call_id''))"
    using completed_forever [OF ok1] by blast
  then show ?thesis using that r n by simp
qed

section \<open>What the steps say to the model\<close>

interpretation mute: frame "\<lambda>_. True" "\<lambda>w w'. rw_messages w' = rw_messages w"
  by unfold_locales auto

lemma mute_steps [intro]:
  "mute.tracks (on_gate m)" "mute.tracks (on_plan n)"
  by (auto simp: mute.tracks_def on_gate_def on_plan_def split: prod.splits)

lemma mute_log [intro]: "mute.tracks (log_event t ty p)"
  unfolding log_event_def by (intro mute.tracks_seq) auto

lemma mute_attempt: "mute.tracks (record_tool_attempt sha t c turn)"
  unfolding record_tool_attempt_def attempt_rest_def Let_def append_execution_log_def fail_execution_plan_def
    append_error_def
  by (intro mute.tracks_seq mute.tracks_if) auto

section \<open>The stages of a prepared call\<close>

text \<open>A prepared call was counted, passed the approval check, and was looked up in the ledger,
  which held what it held before.\<close>

lemma prepare_stages:
  assumes run: "prepare_call cfg registry sha limit t c turn v = (Inr stage, v')"
    and ok: "core_ok (run_db v)"
  obtains (asked) rq where "stage = Needs_Approval rq"
  | (looked) a s sid u found u' where
      "current_step (rw_plan v) = Inr s" "at_key a = Some (call_ledger_key sha t c s)"
      "quiet_moves (run_db v) (run_db u)" "core_ok (run_db u)" "rw_messages u = rw_messages v"
      "dedup_tool_call limit t c a turn sid u = (Inr found, u')"
      "case found of Some n \<Rightarrow> stage = Skipped n \<and> v' = u' | None \<Rightarrow> stage = Ready a"
proof -
  obtain a w1 s1 w2 out u where
    one: "record_tool_attempt sha t c turn v = (Inr a, w1)"
    and two: "on_plan (\<lambda>p. (current_step p, p)) w1 = (Inr s1, w2)"
    and three: "on_gate (raise_if_tool_approval_required cfg registry t
        (gate_call c a turn (st_id s1))) w2 = (Inr out, u)"
    and four: "(case out of
       Approval_Required rq \<Rightarrow> returning (Needs_Approval rq)
     | Proceed \<Rightarrow>
         seq (dedup_tool_call limit t c a turn (st_id s1)) (\<lambda>replayed.
         case replayed of
           Some n \<Rightarrow> returning (Skipped n)
         | None \<Rightarrow>
             seq (warn_if_tool_deadline_exceeds_lease t c turn (st_id s1)) (\<lambda>_.
             seq (log_event t Tool_Call (tool_call_payload c a turn (st_id s1))) (\<lambda>_.
             returning (Ready a))))) u = (Inr stage, v')"
    using run unfolding prepare_call_def by (elim seq_InrE)
  obtain s where s: "current_step (rw_plan v) = Inr s" "at_key a = Some (call_ledger_key sha t c s)"
    using attempt_key [OF one] .
  note ok1 = quiet.tracks_ok [OF quiet_attempt ok one]
  note ok2 = quiet.tracks_ok [OF quiet_plan ok1 two]
  note oku = quiet.tracks_ok [OF quiet_gate [OF gate_raise_if] ok2 three]
  have q: "quiet_moves (run_db v) (run_db u)"
    using quiet.rel_trans [OF quiet.rel_trans [OF quiet.tracksD [OF quiet_attempt ok one]
        quiet.tracksD [OF quiet_plan ok1 two]]
      quiet.tracksD [OF quiet_gate [OF gate_raise_if] ok2 three]] .
  have m: "rw_messages u = rw_messages v"
    using mute.tracksD [OF mute_attempt TrueI one] mute.tracksD [OF mute_steps(2) TrueI two]
      mute.tracksD [OF mute_steps(1) TrueI three] by simp
  show ?thesis
  proof (cases out)
    case (Approval_Required rq)
    with four have "stage = Needs_Approval rq" by simp
    then show ?thesis by (rule asked)
  next
    case Proceed
    with four obtain found u' where look: "dedup_tool_call limit t c a turn (st_id s1) u = (Inr found, u')"
      and rest: "(case found of
           Some n \<Rightarrow> returning (Skipped n)
         | None \<Rightarrow>
             seq (warn_if_tool_deadline_exceeds_lease t c turn (st_id s1)) (\<lambda>_.
             seq (log_event t Tool_Call (tool_call_payload c a turn (st_id s1))) (\<lambda>_.
             returning (Ready a)))) u' = (Inr stage, v')"
      by (auto elim: seq_InrE)
    from rest have "case found of Some n \<Rightarrow> stage = Skipped n \<and> v' = u' | None \<Rightarrow> stage = Ready a"
      by (auto elim!: seq_InrE split: option.split)
    with looked [OF s q oku m look] show ?thesis .
  qed
qed

text \<open>On a retried task a recorded result is replayed, and nothing is run.\<close>

lemma dedup_completed:
  assumes run: "dedup_tool_call limit t c a turn sid u = (Inr found, u')"
    and key: "at_key a = Some key" and again: "0 < t_attempts t"
    and prior: "find_prior_attempt (t_id t) key (run_db u) = Completed r cid"
  shows "found = Some (length (tr_artifacts r)) \<and>
    rw_messages u' = rw_messages u @ [tool_message (cr_id c)
      (fst (tool_result_prompt_payload limit (tool_result_payload (cr_name c) r)))]"
proof -
  obtain w1 u1 w2 where logged: "log_event t Log
       [(''message'', JStr ''tool_call_deduplicated''), (''turn'', JInt turn),
        (''tool_call_id'', JStr (cr_id c)), (''tool'', JStr (cr_name c)), (''step_id'', JStr sid),
        (''idempotency_key'', jopt_str (at_key a)), (''normalized_args_hash'', JStr (at_hash a)),
        (''attempt_no'', JInt (at_no a)), (''task_attempts'', JInt (t_attempts t)),
        (''artifact_count'', JInt (int (length (tr_artifacts r))))] u = (Inr u1, w1)"
    and said: "say (tool_message (cr_id c)
       (fst (tool_result_prompt_payload limit (tool_result_payload (cr_name c) r)))) w1 = (Inr (), w2)"
    and out: "found = Some (length (tr_artifacts r))" "u' = w2"
    using run key again prior
    by (auto simp: dedup_tool_call_def replay_completed_attempt_def elim!: seq_InrE)
  have "rw_messages w1 = rw_messages u" using mute.tracksD [OF mute_log TrueI logged] .
  then show ?thesis using said out by (simp add: say_def) auto
qed

lemma dedup_first_attempt:
  "t_attempts t \<le> 0 \<Longrightarrow> dedup_tool_call limit t c a turn sid u = (Inr found, u') \<Longrightarrow> found = None"
  by (simp add: dedup_tool_call_def)

text \<open>C36. A tool call that ran and was recorded is not run again when its task is run again after a lost
  lease, which is when its attempts count more than none, whether it succeeded or failed and whatever
  happened to the tables in between: a call with the same step, tool and arguments is stopped for an
  approval or answered with the recorded output and artifacts. A task that was approved or that a user
  retried starts with no attempts: then the ledger is not read, and the call is stopped for an approval
  or runs again.\<close>

theorem recorded_call_never_reruns:
  assumes "settle_call cfg limit t c a turn ms r0 k pre w = (Inr n, w1)"
    and "at_key a = Some (call_ledger_key sha t' c' s)" and "core_ok (run_db w)"
    and "\<And>r cid. find_prior_attempt (t_id t) (call_ledger_key sha t' c' s) (run_db w) \<noteq> Completed r cid"
    and "moves (run_db w1) (run_db v)"
    and "t_id t' = t_id t" and "current_step (rw_plan v) = Inr s"
    and "prepare_call cfg' registry sha limit' t' c' turn' v = (Inr stage, v')"
  shows "(\<exists>rq. stage = Needs_Approval rq) \<or>
    (if 0 < t_attempts t' then stage = Skipped n \<and>
       (\<exists>r. tr_output r = tr_output r0 \<and>
         tr_artifacts r = tr_artifacts r0 \<and>
         rw_messages v' = rw_messages v @ [tool_message (cr_id c')
           (fst (tool_result_prompt_payload limit' (tool_result_payload (cr_name c') r)))])
     else \<exists>a'. stage = Ready a')"
proof -
  have "core_ok (run_db w1)" using run.tracks_ok [OF run_settle assms(3,1)] .
  then have ok: "core_ok (run_db v)" using core_ok_moves assms(5) by blast
  from assms(8) ok show ?thesis
  proof (cases rule: prepare_stages)
    case (looked a' s' sid u found u')
    have key: "at_key a' = Some (call_ledger_key sha t' c' s)" using looked(1,2) assms(7) by simp
    have "moves (run_db w1) (run_db u)"
      using assms(5) looked(3) by (auto simp: quiet_moves_def)
    then obtain r cid where
      prior: "find_prior_attempt (t_id t) (call_ledger_key sha t' c' s) (run_db u) = Completed r cid"
      and r: "tr_output r = tr_output r0"
        "tr_artifacts r = tr_artifacts r0" "n = length (tr_artifacts r)"
      using settled_call_recorded [OF assms(1-4)] by blast
    have answered: "found = Some n \<and> rw_messages u' = rw_messages u @ [tool_message (cr_id c')
      (fst (tool_result_prompt_payload limit' (tool_result_payload (cr_name c') r)))]"
      if "0 < t_attempts t'"
      using dedup_completed [OF looked(6) key that] prior assms(6) r(3) by simp
    show ?thesis
    proof (cases "0 < t_attempts t'")
      case True
      with answered looked(5,7) r show ?thesis by auto
    next
      case False
      with dedup_first_attempt [OF _ looked(6)] looked(7) show ?thesis by simp
    qed
  qed simp
qed

text \<open>Preparing a call records no result.\<close>

definition recorded :: "uuid \<Rightarrow> string \<Rightarrow> db \<Rightarrow> (tool_result \<times> string option) list" where
  "recorded k key d = results_in (filter (has_key key) (tool_entries k d))"

interpretation unanswered: frame "\<lambda>w. core_ok (run_db w)"
  "\<lambda>w w'. moves (run_db w) (run_db w') \<and> (\<forall>k key. recorded k key (run_db w') = recorded k key (run_db w))"
  by unfold_locales (auto intro: core_ok_moves moves_trans)

lemma unanswered_quiet: "quiet.tracks m \<Longrightarrow> unanswered.tracks m"
  by (rule unanswered.tracksI, drule quiet.tracksD) (auto simp: quiet_moves_def recorded_def)

lemma unanswered_call: "unanswered.tracks (log_event t Tool_Call p)"
proof (rule unanswered.tracksI)
  fix s r s' assume ok: "core_ok (run_db s)" and run: "log_event t Tool_Call p s = (r, s')"
  have "run_db s' = run_db s \<or> run_db s' = add_event (t_id t) Tool_Call p (run_db s)"
    using run by (cases "task_get (t_id t) (run_db s)")
      (auto simp: log_event_def seq_apply on_gate_def on_db_apply append_event_missing append_event_simp)
  moreover have "moves (run_db s) (run_db s')"
    using run.tracksD [OF run_log ok run] by simp
  ultimately show "moves (run_db s) (run_db s') \<and>
      (\<forall>k key. recorded k key (run_db s') = recorded k key (run_db s))"
    by (auto simp: recorded_def tool_entries_def events_of_add results_in_def)
qed

lemmas unanswered_steps =
  quiet_gate [THEN unanswered_quiet] quiet_plan [THEN unanswered_quiet]
  quiet_attempt [THEN unanswered_quiet] quiet_dedup [THEN unanswered_quiet]
  quiet_warn [THEN unanswered_quiet]

lemma unanswered_prepare: "unanswered.tracks (prepare_call cfg registry sha limit t c turn)"
  unfolding prepare_call_def
  by (intro unanswered.tracks_seq)
     (auto split: gate_outcome.split option.split
        intro!: unanswered.tracks_seq unanswered_call unanswered_steps)

lemma sample_prepares:
  obtains a w1 where "prepare_of c sample_row run_start = (Inr (Ready a), w1)"
    and "at_key a = Some (sample_key_of c)" and "core_ok (run_db w1)" and "alive claimed_row sample_row w1"
    and "\<And>r cid. find_prior_attempt 7 (sample_key_of c) (run_db w1) \<noteq> Completed r cid"
proof -
  have plan: "rw_plan run_start = sample_plan" by (simp add: run_start_def)
  obtain stage w1 where run: "prepare_of c sample_row run_start = (Inr stage, w1)"
    using prepare_result [OF start_alive, where c = c and sha = sample_hash and turn = 1
        and cfg = quiet_config and registry = "\<lambda>_. None" and limit = 4000]
    unfolding plan sample_verdict by (auto simp: prod_eq_iff)
  obtain a where a: "stage = Ready a" by (rule prepare_first [OF run])
  have "at_key a = Some (call_ledger_key sample_hash sample_row c sample_step)"
    using run start_core_ok
  proof (cases rule: prepare_stages)
    case (asked rq)
    with a show ?thesis by simp
  next
    case (looked a' s sid u found u')
    then show ?thesis using a plan sample_plan_facts(1) by (simp split: option.splits)
  qed
  moreover have ok: "core_ok (run_db w1)" using run.tracks_ok [OF run_prepare start_core_ok run] .
  moreover have "recorded 7 (sample_key_of c) (run_db w1) = []"
  proof -
    have "tool_entries 7 (run_db run_start) = []"
      by (simp add: run_start_def tool_entries_def claimed_db_eq sample_db_eq events_of_add)
    then show ?thesis
      using unanswered.tracksD [OF unanswered_prepare start_core_ok run]
      by (simp add: recorded_def)
  qed
  ultimately show ?thesis
    using that run a safeD(2) [OF live_prepare start_alive run] sample_ledger_key [OF sample_id(1)]
    by (simp add: find_prior_completed [OF core_okD(8) [OF ok]] recorded_def)
qed

text \<open>The next attempt starts with a fresh plan.\<close>

lemma sample_retries:
  fixes w :: run_world
  assumes "alive claimed_row sample_row w"
  obtains stage v' where "prepare_of c retried_row (w\<lparr>rw_plan := sample_plan\<rparr>) = (Inr stage, v')"
    and "\<nexists>rq. stage = Needs_Approval rq"
proof -
  let ?v = "w\<lparr>rw_plan := sample_plan\<rparr>"
  have "alive claimed_row retried_row ?v"
    using assms sample_plan_facts(2) by (simp add: alive_def present_def)
  from prepare_result [OF this, where c = c and sha = sample_hash and turn = 1
        and cfg = quiet_config and registry = "\<lambda>_. None" and limit = 4000]
  obtain stage v' where run: "prepare_of c retried_row ?v = (Inr stage, v')"
    using sample_verdict [of c] by (auto simp: prod_eq_iff)
  show ?thesis by (rule that [OF run prepare_unregistered [OF run]])
qed

lemma recorded_call_never_reruns_witness:
  "\<exists>a w1 w2 v'. prepare_sample sample_row run_start = (Inr (Ready a), w1) \<and>
     settle_sample a w1 = (Inr 0, w2) \<and>
     prepare_sample retried_row (w2\<lparr>rw_plan := sample_plan\<rparr>) = (Inr (Skipped 0), v')"
proof -
  obtain a w1 where one: "prepare_sample sample_row run_start = (Inr (Ready a), w1)"
    and key: "at_key a = Some sample_key" and ok: "core_ok (run_db w1)"
    and live: "alive claimed_row sample_row w1"
    and new: "\<And>r cid. find_prior_attempt 7 sample_key (run_db w1) \<noteq> Completed r cid"
    by (rule sample_prepares, blast)
  have safe: "safe (alive claimed_row sample_row) never (settle_sample a)"
    by (rule live_settle) (simp_all add: claimed_running)
  obtain n w2 where two: "settle_sample a w1 = (Inr n, w2)" and live2: "alive claimed_row sample_row w2"
    by (rule safe_returns [OF safe live])
  obtain stage v' where three: "prepare_sample retried_row (w2\<lparr>rw_plan := sample_plan\<rparr>) = (Inr stage, v')"
    and free: "\<nexists>rq. stage = Needs_Approval rq"
    by (rule sample_retries [OF live2])
  have again: "0 < t_attempts retried_row" by (simp add: retried_row_def)
  have still: "moves (run_db w2) (run_db (w2\<lparr>rw_plan := sample_plan\<rparr>))" by (simp add: moves_refl)
  from recorded_call_never_reruns [OF two _ ok _ still _ _ three, of sample_step]
  have "stage = Skipped n"
    using key new free again sample_ledger_key [of retried_row] sample_plan_facts(1) by simp
  moreover have "n = 0" using settle_records [OF two ok] by (auto simp: sample_result_def)
  ultimately show ?thesis using one two three by blast
qed

section \<open>Interrupted calls\<close>

text \<open>A call that is ready to run has its entry in the ledger.\<close>

lemma prepare_ready_entry:
  assumes "prepare_call cfg registry sha limit t c turn w = (Inr (Ready a), w1)"
    and key: "at_key a = Some key"
  shows "filter (has_key key) (tool_entries (t_id t) (run_db w1)) \<noteq> []"
proof -
  obtain sid u v where one: "log_event t Tool_Call (tool_call_payload c a turn sid) u = (Inr (), v)"
    and "v = w1"
    using assms(1) unfolding prepare_call_def
    by (elim seq_InrE) (auto elim!: seq_InrE split: gate_outcome.splits option.splits)
  then have "run_db w1 = add_event (t_id t) Tool_Call (tool_call_payload c a turn sid) (run_db u)"
    using log_event_run [OF one] by metis
  then show ?thesis
    using key
    by (simp add: tool_entries_def events_of_add has_key_def tool_call_payload_def jopt_str_def)
qed

text \<open>What the model is told about a call whose fate is unknown.\<close>

definition unknown_outcome_message ::
  "nat \<Rightarrow> call_request \<Rightarrow> attempt \<Rightarrow> chat_message" where
  "unknown_outcome_message limit c a =
     (let e = unknown_outcome_error c a (tm_side_effect (tool_metadata_for (cr_name c))) in
      tool_message (cr_id c) (fst (tool_result_prompt_payload limit (tool_result_payload (cr_name c)
        (recoverable_tool_error_result (cr_requested c) e (classify_recoverable_tool_error e))))))"

lemma dedup_started:
  assumes run: "dedup_tool_call limit t c a turn sid u = (Inr found, u')"
    and key: "at_key a = Some key" and again: "0 < t_attempts t"
    and prior: "find_prior_attempt (t_id t) key (run_db u) = Started_Only cid"
  shows "if tm_side_effect (tool_metadata_for (cr_name c)) = Read then found = None
    else found = Some 0 \<and> rw_messages u' = rw_messages u @ [unknown_outcome_message limit c a]"
proof (cases "tm_side_effect (tool_metadata_for (cr_name c)) = Read")
  case True
  then show ?thesis using run key again prior by (auto simp: dedup_tool_call_def)
next
  case False
  obtain p w1 u1 w2 where logged: "log_event t Log p u = (Inr u1, w1)"
    and said: "say (unknown_outcome_message limit c a) w1 = (Inr (), w2)"
    and out: "found = Some 0" "u' = w2"
    using run key again prior False
    by (auto simp: dedup_tool_call_def surface_unknown_prior_outcome_def Let_def
        unknown_outcome_message_def elim!: seq_InrE)
  have "rw_messages w1 = rw_messages u" using mute.tracksD [OF mute_log TrueI logged] .
  then show ?thesis using said out False by (simp add: say_def) auto
qed

lemma unknown_tool_reads:
  "native_metadata name = None \<Longrightarrow> tm_side_effect (tool_metadata_for name) = Read"
  by (simp add: tool_metadata_for_def tool_metadata_of_def)

text \<open>C37. A call that started and whose result was never recorded, because the worker died while it
  ran, and that needs no approval is decided by the effect of its tool when its task is run again
  after a lost lease, which is when its attempts count more than none. A tool the catalog says writes is
  not run again, and the model is told the outcome is unknown; any other tool is run again, and to
  the catalog every tool that is not native only reads, also one that sends mail. A task that was
  approved or that a user retried starts with no attempts: then every such call runs again.\<close>

theorem interrupted_call_decided:
  assumes "prepare_call cfg registry sha limit t c turn w = (Inr (Ready a), w1)"
    and "at_key a = Some (call_ledger_key sha t' c' s)" and "core_ok (run_db w)"
    and "moves (run_db w1) (run_db v)"
    and "\<And>r cid. find_prior_attempt (t_id t) (call_ledger_key sha t' c' s) (run_db v) \<noteq> Completed r cid"
    and "t_id t' = t_id t" and "current_step (rw_plan v) = Inr s"
    and "prepare_call cfg' registry' sha limit' t' c' turn' v = (Inr stage, v')"
    and "\<And>rq. stage \<noteq> Needs_Approval rq"
  shows "(if t_attempts t' \<le> 0 \<or> tm_side_effect (tool_metadata_for (cr_name c')) = Read
      then \<exists>a'. stage = Ready a'
      else stage = Skipped 0 \<and>
        (\<exists>a'. at_key a' = at_key a \<and>
          rw_messages v' = rw_messages v @ [unknown_outcome_message limit' c' a'])) \<and>
    (native_metadata (cr_name c') = None \<longrightarrow> (\<exists>a'. stage = Ready a'))"
proof -
  let ?key = "call_ledger_key sha t' c' s"
  have ok1: "core_ok (run_db w1)" using run.tracks_ok [OF run_prepare assms(3,1)] .
  then have ok: "core_ok (run_db v)" using core_ok_moves assms(4) by blast
  obtain es where "tool_entries (t_id t) (run_db v) = tool_entries (t_id t) (run_db w1) @ es"
    using tool_entries_grow [OF assms(4)] by blast
  then have entry: "filter (has_key ?key) (tool_entries (t_id t) (run_db v)) \<noteq> []"
    using prepare_ready_entry [OF assms(1,2)] by simp
  have none: "results_in (filter (has_key ?key) (tool_entries (t_id t) (run_db v))) = []"
    using assms(5) find_prior_completed [OF core_okD(8) [OF ok]]
    by (cases "results_in (filter (has_key ?key) (tool_entries (t_id t) (run_db v)))") fastforce+
  from assms(8) ok show ?thesis
  proof (cases rule: prepare_stages)
    case (asked rq)
    with assms(9) show ?thesis by blast
  next
    case (looked a' s' sid u found u')
    have key: "at_key a' = Some ?key" using looked(1,2) assms(7) by simp
    have same: "tool_entries (t_id t) (run_db u) = tool_entries (t_id t) (run_db v)"
      using looked(3) by (simp add: quiet_moves_def)
    obtain cid where "find_prior_attempt (t_id t) ?key (run_db u) = Started_Only cid"
      using find_prior_started [OF core_okD(8) [OF looked(4)], where key = ?key and tid = "t_id t"]
        entry none by (auto simp: same)
    then have prior: "find_prior_attempt (t_id t') ?key (run_db u) = Started_Only cid"
      using assms(6) by simp
    show ?thesis
    proof (cases "0 < t_attempts t'")
      case True
      from dedup_started [OF looked(6) key True prior] True looked(5,7) key assms(2)
      show ?thesis using unknown_tool_reads by (auto split: if_splits)
    next
      case False
      with dedup_first_attempt [OF _ looked(6)] looked(7) show ?thesis by simp
    qed
  qed
qed

lemma sample_interrupted:
  obtains a w1 stage v' where "prepare_of c sample_row run_start = (Inr (Ready a), w1)"
    and "at_key a = Some (sample_key_of c)" and "moves (run_db w1) (run_db (w1\<lparr>rw_plan := sample_plan\<rparr>))"
    and "\<And>r cid. find_prior_attempt 7 (sample_key_of c) (run_db (w1\<lparr>rw_plan := sample_plan\<rparr>)) \<noteq> Completed r cid"
    and "prepare_of c retried_row (w1\<lparr>rw_plan := sample_plan\<rparr>) = (Inr stage, v')" "\<And>rq. stage \<noteq> Needs_Approval rq"
proof -
  obtain a w1 where one: "prepare_of c sample_row run_start = (Inr (Ready a), w1)"
    "at_key a = Some (sample_key_of c)" "alive claimed_row sample_row w1"
    "\<And>r cid. find_prior_attempt 7 (sample_key_of c) (run_db w1) \<noteq> Completed r cid"
    by (rule sample_prepares, blast)
  obtain stage v' where two: "prepare_of c retried_row (w1\<lparr>rw_plan := sample_plan\<rparr>) = (Inr stage, v')"
    "\<nexists>rq. stage = Needs_Approval rq"
    by (rule sample_retries [OF one(3)])
  show ?thesis by (rule that [OF one(1,2) _ _ two(1)]) (use one(4) two(2) in \<open>auto simp: moves_refl\<close>)
qed

text \<open>The mail is sent again; the schedule is not made again.\<close>

lemma interrupted_call_decided_witness:
  "(\<exists>a w1 b v'. prepare_sample sample_row run_start = (Inr (Ready a), w1) \<and>
     prepare_sample retried_row (w1\<lparr>rw_plan := sample_plan\<rparr>) = (Inr (Ready b), v')) \<and>
   (\<exists>a w1 v'. prepare_of plan_request sample_row run_start = (Inr (Ready a), w1) \<and>
     prepare_of plan_request retried_row (w1\<lparr>rw_plan := sample_plan\<rparr>) = (Inr (Skipped 0), v'))"
proof
  have mail: "native_metadata (cr_name mail_request) = None" by (simp add: mail_request_def) code_simp
  have again: "0 < t_attempts retried_row" by (simp add: retried_row_def)
  obtain a w1 stage v' where m: "prepare_sample sample_row run_start = (Inr (Ready a), w1)"
    "at_key a = Some sample_key" "moves (run_db w1) (run_db (w1\<lparr>rw_plan := sample_plan\<rparr>))"
    "\<And>r cid. find_prior_attempt 7 sample_key (run_db (w1\<lparr>rw_plan := sample_plan\<rparr>)) \<noteq> Completed r cid"
    "prepare_sample retried_row (w1\<lparr>rw_plan := sample_plan\<rparr>) = (Inr stage, v')" "\<And>rq. stage \<noteq> Needs_Approval rq"
    by (rule sample_interrupted [where c = mail_request], blast)
  have "\<exists>b. stage = Ready b"
    using interrupted_call_decided [OF m(1) _ start_core_ok m(3) _ _ _ m(5,6), of sample_step]
      m(2,4) mail sample_ledger_key [of retried_row] sample_plan_facts(1) by simp
  with m show "\<exists>a w1 b v'. prepare_sample sample_row run_start = (Inr (Ready a), w1) \<and>
     prepare_sample retried_row (w1\<lparr>rw_plan := sample_plan\<rparr>) = (Inr (Ready b), v')" by blast
  have plan: "tm_side_effect (tool_metadata_for (cr_name plan_request)) \<noteq> Read"
    by (simp add: plan_request_def) code_simp
  obtain a w1 stage v' where p: "prepare_of plan_request sample_row run_start = (Inr (Ready a), w1)"
    "at_key a = Some (sample_key_of plan_request)" "moves (run_db w1) (run_db (w1\<lparr>rw_plan := sample_plan\<rparr>))"
    "\<And>r cid. find_prior_attempt 7 (sample_key_of plan_request) (run_db (w1\<lparr>rw_plan := sample_plan\<rparr>)) \<noteq> Completed r cid"
    "prepare_of plan_request retried_row (w1\<lparr>rw_plan := sample_plan\<rparr>) = (Inr stage, v')"
    "\<And>rq. stage \<noteq> Needs_Approval rq"
    by (rule sample_interrupted [where c = plan_request], blast)
  have "stage = Skipped 0"
    using interrupted_call_decided [OF p(1) _ start_core_ok p(3) _ _ _ p(5,6), of sample_step]
      p(2,4) plan again sample_ledger_key [of retried_row] sample_plan_facts(1) by simp
  with p show "\<exists>a w1 v'. prepare_of plan_request sample_row run_start = (Inr (Ready a), w1) \<and>
     prepare_of plan_request retried_row (w1\<lparr>rw_plan := sample_plan\<rparr>) = (Inr (Skipped 0), v')" by blast
qed

end
