(* ===== verification/Agent_Properties.thy ===== *)
theory Agent_Properties
  imports Agent_Run Ledger_Properties
begin

text \<open>
  The properties of a run of the agent: it ends within bounds on tool runs and model calls, it
  changes the tables only by moves of the task core, the steps around a call fail only in the
  ways the run expects, and what the model sees of a search result is cut to fit.
\<close>

section \<open>A sample environment\<close>

text \<open>A model that sends one mail, then answers; a tool that always succeeds.\<close>

definition sample_model :: "chat_message list \<Rightarrow> completion" where
  "sample_model ms =
     (if list_ex (\<lambda>m. cm_role m = ''tool'') ms
      then \<lparr>co_content = Some ''Sent.'', co_calls = [], co_model = ''m'', co_response_id = None\<rparr>
      else \<lparr>co_content = None, co_calls = [mail_request], co_model = ''m'', co_response_id = None\<rparr>)"

definition sample_env :: agent_env where
  "sample_env = \<lparr>ae_gate = quiet_config, ae_sha = sample_hash, ae_limit = 4000,
     ae_limits = default_limits, ae_codeact = False,
     ae_complete = (\<lambda>t ms ts. returning (sample_model ms)),
     ae_invoke = (\<lambda>_ _. returning sample_result), ae_run_code = (\<lambda>_. returning sample_result),
     ae_loader = (\<lambda>_. None), ae_pre_repair = (\<lambda>_ _ _. None), ae_post_repair = (\<lambda>_ _ _ _. None),
     ae_min_pages = (\<lambda>_. None), ae_describe = (\<lambda>_. (''E'', [])), ae_latency = (\<lambda>_. 1),
     ae_uuid = int_str \<circ> int, ae_loads = (\<lambda>_. None), ae_plan_request = (\<lambda>_ _ _. []),
     ae_recovery_request = (\<lambda>_ _ _ _ _ _. []), ae_humanize = (\<lambda>_ s. s), ae_personalize = id,
     ae_assemble = (\<lambda>_. returning \<lparr>cx_messages = [system_message ''hi''], cx_has_images = False,
       cx_ranking = None\<rparr>),
     ae_after_turn = (\<lambda>_ _. returning ())\<rparr>"

lemma sample_env_moves: "env_moves sample_env"
  unfolding env_moves_def sample_env_def by auto

section \<open>Bounds and refinement\<close>

text \<open>C35. A run of the agent ends, whatever the model, the tools and the services do, and it
  runs at most twice as many tools as its call budget and calls the model at most three times
  per turn, plus twice, plus once per recoverable failure allowed.\<close>

theorem agent_run_bounded:
  assumes "check_guardrails (ae_limits env) = Inr l"
  shows "int (rw_tool_runs (snd (run_agent env tid w))) \<le>
      int (rw_tool_runs w) + 2 * gl_tool_calls l \<and>
    int (rw_model_calls (snd (run_agent env tid w))) \<le>
      int (rw_model_calls w) + 3 * gl_turns l + 2 + gl_failures l"
proof -
  have l: "l = ae_limits env" "0 \<le> gl_tool_calls l" "0 \<le> gl_failures l" "0 \<le> gl_turns l"
    using assms by (auto simp: check_guardrails_def split: if_splits)
  obtain r w' where "run_agent env tid w = (r, w')" by (cases "run_agent env tid w")
  with agent_budget [OF _ _ this] l show ?thesis by simp
qed

lemma agent_run_bounded_witness:
  "int (rw_tool_runs (snd (run_agent sample_env 7 run_start))) \<le> 24 \<and>
   int (rw_model_calls (snd (run_agent sample_env 7 run_start))) \<le> 24"
proof -
  have "check_guardrails (ae_limits sample_env) = Inr default_limits"
    unfolding sample_env_def by (simp add: check_guardrails_def default_limits_def)
  from agent_run_bounded [OF this, of 7 run_start] show ?thesis
    by (simp add: default_limits_def run_start_def)
qed

text \<open>However a run of the agent ends, it has changed the tables only by moves of the task
  core and kept every invariant of them, as long as its services and tools do.\<close>

theorem agent_run_refines:
  assumes "env_moves env" and "core_ok (run_db w)" and "run_agent env tid w = (r, w')"
  shows "moves (run_db w) (run_db w') \<and> core_ok (run_db w')"
  using run.tracksD [OF run_agent_moves [OF assms(1)] assms(2,3)] core_ok_moves assms(2) by blast

lemma agent_run_refines_witness: "core_ok (run_db (snd (run_agent sample_env 7 run_start)))"
  using agent_run_refines [OF sample_env_moves start_core_ok surjective_pairing] by blast

section \<open>Progress\<close>

lemma settle_gives: "gives (\<lambda>n. n = length (tr_artifacts r)) (settle_call cfg limit t c a turn ms r k pre)"
proof -
  have "gives P (failure_budget_exceeded t c a e)" for P e
    unfolding failure_budget_exceeded_def Let_def by (intro gives_seq gives_pure)
  then show ?thesis
    unfolding settle_call_def by (cases k) (auto intro!: gives_seq gives_pure)
qed

text \<open>C38. With the task in the store and a plan with steps, preparing a call fails exactly when
  the call is one too many, of all calls or of calls with its arguments, and settling one fails
  only for a cancelled task, a service to connect or a tool that failed too often.\<close>

theorem call_steps_progress:
  assumes "task_get (t_id t) (run_db w) = Some row" and "pl_steps (rw_plan w) \<noteq> []"
  shows "(case attempt_verdict (pl_limits (rw_plan w)) c (counted sha c (rw_plan w)) of
      Some e \<Rightarrow> fst (prepare_call cfg registry sha limit t c turn w) = Inl e
    | None \<Rightarrow> \<exists>stage. fst (prepare_call cfg registry sha limit t c turn w) = Inr stage) \<and>
    (case fst (settle_call cfg limit t c a turn ms r k pre w) of
      Inr n \<Rightarrow> n = length (tr_artifacts r)
    | Inl e \<Rightarrow> (\<exists>m. e = TaskCancelled m \<and> t_status row = Cancelled) \<or>
        k \<noteq> None \<and> ((\<exists>m. e = GuardrailErr m) \<or> (\<exists>slug n. e = ConnectionRequired slug n)))"
    (is "?prepare \<and> ?settle")
proof
  have live: "alive row t w" using assms by (simp add: alive_def present_def)
  show ?prepare by (rule prepare_result [OF live])
  define E where "E = (\<lambda>e. (\<exists>m. e = TaskCancelled m \<and> t_status row = Cancelled) \<or>
      k \<noteq> None \<and> ((\<exists>m. e = GuardrailErr m) \<or> (\<exists>slug n. e = ConnectionRequired slug n)))"
  have safe: "safe (alive row t) E (settle_call cfg limit t c a turn ms r k pre)"
    by (rule live_settle) (auto simp: E_def)
  obtain x w' where run: "settle_call cfg limit t c a turn ms r k pre w = (x, w')"
    by (cases "settle_call cfg limit t c a turn ms r k pre w")
  have "case x of Inr n \<Rightarrow> n = length (tr_artifacts r) | Inl e \<Rightarrow> E e"
    using givesD [OF settle_gives, of _ _ _ _ _ _ _ r k pre w] safeD(1) [OF safe live] run
    by (cases x) auto
  then show ?settle unfolding run fst_conv E_def .
qed

lemma call_steps_progress_witness:
  "\<exists>stage. fst (prepare_sample sample_row run_start) = Inr stage"
proof -
  have "task_get (t_id sample_row) (run_db run_start) = Some claimed_row"
    "pl_steps (rw_plan run_start) \<noteq> []"
    using start_alive by (simp_all add: alive_def present_def)
  from call_steps_progress [OF this, where c = mail_request and sha = sample_hash and cfg = quiet_config
      and registry = "\<lambda>_. None" and limit = 4000 and turn = 1]
  show ?thesis using sample_verdict [of mail_request] by (simp add: run_start_def)
qed

section \<open>What the model sees\<close>

text \<open>C40. A search result is cut for the model: it sees a prefix of the hits, no two with the
  same title and address, as many as fit the limit, but always one, even when that does not
  fit; the count of hits it does not see is reported.\<close>

theorem search_result_cut:
  assumes "json_obj (jget payload ''output'') = Some out" and "extract_search_results out \<noteq> []"
  shows "\<exists>n. 0 < n \<and> n \<le> max_compact_search_results \<and>
    (let hits = extract_search_results out; kept = take n hits;
         prompt = search_result_prompt_payload payload (compact_output_metadata out) hits kept
     in fst (tool_result_prompt_payload limit payload) = prompt \<and>
        distinct (map (\<lambda>h. (sh_title h, sh_url h)) hits) \<and>
        jget (case json_obj (jget prompt ''output'') of Some p \<Rightarrow> p | None \<Rightarrow> [])
          ''omitted_result_count'' = JInt (int (length hits - n)) \<and>
        (length (json_compact (JObj prompt)) \<le> limit \<or> length kept = 1))"
proof -
  define hits where "hits = extract_search_results out"
  define build where "build = search_result_prompt_payload payload (compact_output_metadata out) hits"
  define kept where "kept = drop_to_fit limit build (take max_compact_search_results hits)"
  have some: "take max_compact_search_results hits \<noteq> []"
    using assms(2) by (simp add: hits_def max_compact_search_results_def)
  obtain m where "kept = take m (take max_compact_search_results hits)" "0 < m"
    using drop_to_fit_prefix [of limit build "take max_compact_search_results hits"] some
    by (auto simp: kept_def)
  moreover define n where "n = min (min m max_compact_search_results) (length hits)"
  ultimately have kept: "kept = take n hits" and n: "0 < n" "n \<le> max_compact_search_results" "n = length kept"
    using assms(2) by (auto simp: hits_def max_compact_search_results_def min_def)
  have "fst (tool_result_prompt_payload limit payload) = build kept"
    using assms by (simp add: tool_result_prompt_payload_def Let_def hits_def build_def kept_def)
  moreover have "distinct (map (\<lambda>h. (sh_title h, sh_url h)) hits)"
    using first_hits_distinct [of "[]"] by (simp add: hits_def extract_search_results_def)
  moreover have "length (json_compact (JObj (build kept))) \<le> limit \<or> length kept = 1"
    using drop_to_fit_stops [of build limit "take max_compact_search_results hits"] n(1,3)
    unfolding kept_def [symmetric] by linarith
  moreover have "jget (case json_obj (jget (build kept) ''output'') of Some p \<Rightarrow> p | None \<Rightarrow> [])
      ''omitted_result_count'' = JInt (int (length hits - n))"
    using n(3)
    by (simp add: build_def search_result_prompt_payload_def result_payload_with_output_def jget_jmerge_same)
  ultimately show ?thesis
    using n(1,2) by (intro exI [of _ n]) (simp add: Let_def kept build_def hits_def)
qed

definition sample_hits :: jobj where
  "sample_hits = [(''results'', JArr [JObj [(''title'', JStr ''A''), (''url'', JStr ''u'')],
     JObj [(''title'', JStr ''A''), (''url'', JStr ''u'')]])]"

lemma search_result_cut_witness:
  "length (extract_search_results sample_hits) = 1 \<and>
   (\<exists>h. jget (fst (tool_result_prompt_payload 10 [(''output'', JObj sample_hits)])) ''output'' =
      JObj [(''compacted'', JBool True), (''compaction_kind'', JStr ''search_results''),
        (''result_count'', JInt 1), (''omitted_result_count'', JInt 0),
        (''results'', JArr [JObj (hit_payload h)])])"
proof -
  have one: "extract_search_results sample_hits = [\<lparr>sh_title = ''A'', sh_url = ''u'', sh_snippet = []\<rparr>]"
    by code_simp
  have plain: "compact_output_metadata sample_hits = []" by code_simp
  have "json_obj (jget [(''output'', JObj sample_hits)] ''output'') = Some sample_hits" by simp
  from search_result_cut [OF this, of 10] one plain
  obtain n where "0 < n" "fst (tool_result_prompt_payload 10 [(''output'', JObj sample_hits)]) =
      search_result_prompt_payload [(''output'', JObj sample_hits)] []
        [\<lparr>sh_title = ''A'', sh_url = ''u'', sh_snippet = []\<rparr>]
        (take n [\<lparr>sh_title = ''A'', sh_url = ''u'', sh_snippet = []\<rparr>])"
    by (auto simp: Let_def)
  then show ?thesis
    using one
    by (cases n) (auto simp: search_result_prompt_payload_def result_payload_with_output_def jmerge_def)
qed

end
