(* ===== verification/Executor_Properties.thy ===== *)
theory Executor_Properties
  imports Agent_Executor Posting_Properties Agent_Properties
begin

text \<open>
  What the executor promises: with the agent loop of this development as its runtime it moves the
  tables of the tasks and the outbox only in ways that keep their invariants, as long as the services
  around it do. The rest is about what the user hears of a run, and when the user hears nothing.
\<close>

section \<open>Execution is moves\<close>

definition services_ok :: "exec_env \<Rightarrow> bool" where
  "services_ok env \<longleftrightarrow> client_ok (xe_post env) \<and>
     (\<forall>t. post.tracks (xe_classify_intent env t)) \<and> (\<forall>t. post.tracks (xe_start_workflow env t)) \<and>
     (\<forall>t d. post.tracks (xe_runtime env t d)) \<and> (\<forall>t. post.tracks (xe_rerender env t)) \<and>
     (\<forall>t. post.tracks (xe_graph_refresh env t)) \<and> (\<forall>t p. post.tracks (xe_list_schedules env t p)) \<and>
     (\<forall>t s. post.tracks (xe_synthesize env t s)) \<and> (\<forall>t a. post.tracks (xe_comment env t a)) \<and>
     (\<forall>t a. post.tracks (xe_deck env t a)) \<and>
     (\<forall>x ch ts b. post.tracks (xe_mark_sent env x ch ts b)) \<and>
     (\<forall>t s u. post.tracks (xe_initiate_connect env t s u)) \<and>
     (\<forall>t p. post.tracks (xe_prompt_completion env t p)) \<and>
     (\<forall>t r s. post.tracks (xe_approval_blocks env t r s)) \<and>
     (\<forall>t s. post.tracks (xe_failure_completion env t s)) \<and>
     (\<forall>f ch r ts. xe_reactions_remove env = Some f \<longrightarrow> calls_ok (f ch r ts)) \<and>
     (\<forall>t a b. post.tracks (xe_fail_assessment env t a b)) \<and>
     (\<forall>t. post.tracks (xe_semantic_route env t)) \<and>
     (\<forall>t s. post.tracks (xe_project_witness env t s)) \<and> (\<forall>t. post.tracks (xe_reinforce env t)) \<and>
     (\<forall>t s. post.tracks (xe_project_summary env t s)) \<and> (\<forall>t. post.tracks (xe_revise env t)) \<and>
     (\<forall>t s. post.tracks (xe_complete_assessment env t s))"

lemma services_okD:
  assumes "services_ok env"
  shows "client_ok (xe_post env)" "post.tracks (xe_classify_intent env t)"
    "post.tracks (xe_start_workflow env t)" "post.tracks (xe_runtime env t d)"
    "post.tracks (xe_rerender env t)" "post.tracks (xe_graph_refresh env t)"
    "post.tracks (xe_list_schedules env t p)" "post.tracks (xe_synthesize env t s)"
    "post.tracks (xe_comment env t a)" "post.tracks (xe_deck env t a)"
    "post.tracks (xe_mark_sent env x ch ts b)" "post.tracks (xe_initiate_connect env t s u)"
    "post.tracks (xe_prompt_completion env t p)" "post.tracks (xe_approval_blocks env t r s)"
    "post.tracks (xe_failure_completion env t s)" "post.tracks (xe_fail_assessment env t s u)"
    "post.tracks (xe_semantic_route env t)" "post.tracks (xe_project_witness env t s)"
    "post.tracks (xe_reinforce env t)" "post.tracks (xe_project_summary env t s)"
    "post.tracks (xe_revise env t)" "post.tracks (xe_complete_assessment env t s)"
  using assms unfolding services_ok_def by (simp_all del: split_paired_All)

lemma tracks_attempting: "post.tracks m \<Longrightarrow> post.tracks (attempting m)"
  unfolding attempting_def by (intro post.tracks_catching post.tracks_seq) auto

lemma tracks_log_task: "post.tracks (log_task t p)"
  unfolding log_task_def by (rule tracks_post_event) simp

lemma tracks_error_event: "post.tracks (post_event tid Error_Event p)"
  by (rule tracks_post_event) simp

lemma tracks_for_each: "(\<And>x. x \<in> set xs \<Longrightarrow> post.tracks (f x)) \<Longrightarrow> post.tracks (for_each f xs)"
  by (induction xs) (auto intro: post.tracks_seq)

lemma plain_client_ok: "client_ok (xe_post env) \<Longrightarrow> client_ok (plain_post env)"
  by (simp add: client_ok_def plain_post_def)

lemmas step_tracks = post.tracks_pure post.tracks_seq post.tracks_if tracks_attempting tracks_log_task
  tracks_error_event tracks_on_task_db

lemma tracks_best_effort: "post.tracks m \<Longrightarrow> post.tracks (best_effort env t failed m)"
  unfolding best_effort_def by (auto intro!: step_tracks split: sum.splits prod.splits)

lemma tracks_post_artifact:
  assumes ok: "services_ok env"
  shows "post.tracks (post_artifact env t th is_first aid)"
  unfolding post_artifact_def
  by (auto intro!: step_tracks services_okD [OF ok] tracks_upload_file split: option.splits)

lemma tracks_mark_buttons:
  assumes ok: "services_ok env"
  shows "post.tracks (mark_buttons_sent env t bb ts)"
  unfolding mark_buttons_sent_def
  by (auto intro!: step_tracks services_okD [OF ok] tracks_for_each split: option.splits)

lemma tracks_deck:
  assumes ok: "services_ok env"
  shows "post.tracks (post_document_deck env t th as)"
  unfolding post_document_deck_def
  by (auto intro!: step_tracks services_okD [OF ok] tracks_post_message tracks_mark_buttons [OF ok] split: list.splits)

lemma tracks_post_artifacts:
  assumes ok: "services_ok env"
  shows "post.tracks (post_artifacts env t th as)"
  unfolding post_artifacts_def
  by (auto intro!: step_tracks services_okD [OF ok] tracks_for_each tracks_post_artifact [OF ok] tracks_deck [OF ok] tracks_clear_status split: prod.splits)

lemma tracks_post_answer:
  assumes ok: "services_ok env"
  shows "post.tracks (post_answer env t th s)"
  unfolding post_answer_def Let_def note_sanitized_def response_synthesis_def final_response_def
  by (auto intro!: step_tracks services_okD [OF ok] tracks_post_message tracks_clear_status split: option.splits prod.splits)

lemma tracks_post_outputs:
  assumes ok: "services_ok env"
  shows "post.tracks (post_outputs env t s)"
  unfolding post_outputs_def
  by (auto intro!: step_tracks services_okD [OF ok] tracks_post_artifacts [OF ok] tracks_post_answer [OF ok] split: option.splits)

lemma tracks_try_post:
  assumes ok: "services_ok env"
  shows "post.tracks (try_post_failure env t s)"
  unfolding try_post_failure_def
  by (auto intro!: step_tracks services_okD [OF ok] post.tracks_catching tracks_post_message plain_client_ok split: option.splits)

lemma tracks_failure_notice:
  assumes ok: "services_ok env"
  shows "post.tracks (post_failure_notice env t s)"
  unfolding post_failure_notice_def
  by (auto intro!: step_tracks services_okD [OF ok] tracks_try_post [OF ok] split: option.splits)

lemma tracks_synthesize_failure:
  assumes ok: "services_ok env"
  shows "post.tracks (synthesize_honest_failure env t s)"
  unfolding synthesize_honest_failure_def Let_def
  by (auto intro!: step_tracks services_okD [OF ok] post.tracks_catching split: option.splits)

lemma tracks_honest_notice:
  assumes ok: "services_ok env"
  shows "post.tracks (post_honest_failure_notice env t e)"
  unfolding post_honest_failure_notice_def
  by (auto intro!: step_tracks services_okD [OF ok] tracks_try_post [OF ok] tracks_synthesize_failure [OF ok] split: option.splits)

lemma tracks_mark_failed:
  assumes ok: "services_ok env"
  shows "post.tracks (mark_channel_assessment_failed env t e)"
  unfolding mark_channel_assessment_failed_def
  by (auto intro!: step_tracks services_okD [OF ok]  split: option.splits prod.splits)

lemma tracks_ack:
  assumes ok: "services_ok env"
  shows "post.tracks (complete_ack_reaction env t)"
proof -
  have "calls_ok (f ch r ts)" if "xe_reactions_remove env = Some f" for f ch r ts
    using ok that unfolding services_ok_def by blast
  then have "post.tracks (remove_ack_reaction env t ch ts r)" for ch ts r
    unfolding remove_ack_reaction_def
    by (auto intro!: step_tracks tracks_deliver_effect services_okD [OF ok] split: option.splits sum.splits)
  then show ?thesis
    unfolding complete_ack_reaction_def by (auto intro!: step_tracks split: option.splits prod.splits)
qed

lemma tracks_approval_prompt:
  assumes ok: "services_ok env"
  shows "post.tracks (approval_prompt env t r)"
  unfolding approval_prompt_def Let_def
  by (auto intro!: step_tracks services_okD [OF ok] post.tracks_catching split: option.splits)

lemma tracks_runtime:
  assumes ok: "services_ok env"
  shows "post.tracks (run_agent_runtime env t)"
  unfolding run_agent_runtime_def ensure_intent_decision_def shadow_start_temporal_workflow_def Let_def
  by (auto intro!: step_tracks services_okD [OF ok]  split: option.splits sum.splits)

lemma tracks_fast_path:
  assumes ok: "services_ok env"
  shows "post.tracks (run_schedule_state_fast_path env t td)"
  unfolding run_schedule_state_fast_path_def invoke_list_schedules_def Let_def
  by (auto intro!: step_tracks services_okD [OF ok] tracks_post_event split: option.splits)

lemma tracks_route:
  assumes ok: "services_ok env"
  shows "post.tracks (run_route env t)"
  unfolding run_route_def run_graph_refresh_def
  by (auto intro!: step_tracks services_okD [OF ok] tracks_fast_path [OF ok] tracks_runtime [OF ok] split: option.splits)

lemma tracks_after_run:
  assumes ok: "services_ok env"
  shows "post.tracks (after_run env t s)"
  unfolding after_run_def record_semantic_router_shadow_def record_routing_chain_completed_def project_witness_opportunities_def reinforce_runtime_graph_context_def project_task_summary_graph_context_def maybe_revise_documents_def
  by (auto intro!: step_tracks services_okD [OF ok] tracks_post_outputs [OF ok] tracks_ack [OF ok] tracks_best_effort split: option.splits sum.splits prod.splits)

lemma tracks_settle_failure:
  assumes ok: "services_ok env"
  shows "post.tracks (settle_failure env t e)"
  unfolding settle_failure_def
  by (auto intro!: step_tracks services_okD [OF ok] tracks_mark_failed [OF ok] tracks_ack [OF ok] split: option.splits)

lemma tracks_park_approval:
  assumes ok: "services_ok env"
  shows "post.tracks (park_for_approval env t r)"
  unfolding park_for_approval_def post_approval_request_def
  by (auto intro!: step_tracks services_okD [OF ok] tracks_approval_prompt [OF ok] tracks_post_message
      plain_client_ok tracks_mark_buttons [OF ok] tracks_mark_waiting)

lemma tracks_park_connect:
  assumes ok: "services_ok env"
  shows "post.tracks (park_for_connect env t toolkit tool)"
  unfolding park_for_connect_def Let_def post_connect_prompt_def
  by (auto intro!: step_tracks services_okD [OF ok] tracks_post_message plain_client_ok tracks_mark_waiting)

lemma tracks_run_and_deliver: "services_ok env \<Longrightarrow> post.tracks (run_and_deliver env t)"
  unfolding run_and_deliver_def
  by (auto intro!: step_tracks tracks_route tracks_after_run split: agent_end.splits)

lemma tracks_execute:
  assumes ok: "services_ok env"
  shows "post.tracks (execute_task env t)"
  unfolding execute_task_def
  by (auto intro!: step_tracks tracks_run_and_deliver [OF ok] tracks_ack [OF ok] tracks_failure_notice [OF ok]
      tracks_honest_notice [OF ok] tracks_settle_failure [OF ok] tracks_park_approval [OF ok]
      tracks_park_connect [OF ok] split: sum.splits agent_end.splits py_error.splits)

section \<open>The agent loop as the runtime\<close>

lemma tracks_custom_runtime:
  assumes agent: "\<And>t. env_moves (agent t)"
  shows "post.tracks (custom_runtime agent policies registry t depth)"
  unfolding custom_runtime_def
proof (intro post.tracks_seq, goal_cases)
  case (2 limits)
  let ?env = "(agent t)\<lparr>ae_limits := limits\<rparr>"
  have env: "env_moves ?env" using agent [of t] by (simp add: env_moves_def)
  show ?case
  proof (rule post.tracksI)
    fix w r w' assume ok: "post_ok w" and run: "(case run_agent ?env (t_id t)
        (fresh_run (policies t w) (registry t w) limits t w) of (r, rw) \<Rightarrow>
        (case r of Inl e \<Rightarrow> Inl e | Inr e \<Rightarrow> Inr (agent_end_of e), w\<lparr>pw_db := gw_db (rw_gate rw)\<rparr>)) = (r, w')"
    let ?s = "fresh_run (policies t w) (registry t w) limits t w"
    obtain x rw where a: "run_agent ?env (t_id t) ?s = (x, rw)" by (cases "run_agent ?env (t_id t) ?s")
    have db: "run_db ?s = pw_db w" by (simp add: fresh_run_def)
    then have "moves (pw_db w) (gw_db (rw_gate rw))"
      using run.tracksD [OF run_agent_moves [OF env] _ a] ok by (simp add: post_ok_def)
    moreover have "w' = w\<lparr>pw_db := gw_db (rw_gate rw)\<rparr>" using run a by simp
    ultimately show "post_later w w'"
      by (auto simp: post_later_def tables_later_def intro!: r_into_rtranclp other_tables)
  qed
qed simp

text \<open>C20. Executing a task with the agent loop of this development as its runtime, however it ends,
  changes the tables of the tasks and the outbox only by the moves of both, as long as the services
  around it do, whatever status the session shows of the task. The agent, its tools, the delivery, the
  notices and the parking are all covered, also the parking of a task that was cancelled meanwhile.\<close>

theorem execution_refines:
  assumes "services_ok env" and "\<And>t. env_moves (agent t)" and "post_ok w"
    and "execute_task (env\<lparr>xe_runtime := custom_runtime agent policies registry\<rparr>) t w = (r, w')"
  shows "post_later w w' \<and> post_ok w'"
proof -
  let ?env = "env\<lparr>xe_runtime := custom_runtime agent policies registry\<rparr>"
  have "services_ok ?env"
    using assms(1) tracks_custom_runtime [OF assms(2)] by (simp add: services_ok_def del: split_paired_All)
  from post.tracksD [OF tracks_execute [OF this] assms(3,4)] assms(3)
  show ?thesis by (auto intro: post.rel_ok)
qed

section \<open>What the user hears\<close>

lemma cancelled_raises:
  assumes "task_get tid (pw_db w) = Some row" and "t_status row = Cancelled"
  shows "on_task_db (raise_if_cancelled tid (Some ''before_post_outputs'')) w =
    (Inl (TaskCancelled (''Task '' @ uuid_str tid @ '' was cancelled during before_post_outputs'')), w)"
  using assms task_get_id [OF assms(1)]
  by (simp add: on_task_db_def raise_if_cancelled_def seq_apply resolve_task_def truthy_def)

text \<open>C21. A task that was cancelled while its agent ran delivers nothing when the run returns an answer
  or ends with the cancellation itself: execution ends with a cancellation and changes nothing
  more, so that no answer, file, notice or projection follows. (A run that parks posts its prompt, and
  one that raises anything else its notice.)\<close>

theorem cancelled_run_delivers_nothing:
  assumes "run_route env t w = (outcome, w1)"
    and "case outcome of Inr (Agent_Result res) \<Rightarrow> True | Inl (TaskCancelled m) \<Rightarrow> True | _ \<Rightarrow> False"
    and "task_get (t_id t) (pw_db w1) = Some row" and "t_status row = Cancelled"
  shows "execute_task env t w =
    (Inl (TaskCancelled (case outcome of Inl (TaskCancelled m) \<Rightarrow> m
       | _ \<Rightarrow> ''Task '' @ uuid_str (t_id t) @ '' was cancelled during before_post_outputs'')), w1)"
  using assms(1,2) cancelled_raises [OF assms(3,4)]
  by (auto simp: execute_task_def run_and_deliver_def after_run_def attempting_def seq_apply catching_def
      split: sum.splits agent_end.splits py_error.splits)

text \<open>A run in the background says nothing on Slack, whether it succeeds or fails: delivering its
  answer and sending either notice only add one line to its log. That holds for the tasks of the
  playground, manual ones and assessments that ask for it.\<close>

theorem suppressed_task_is_silent:
  assumes "should_suppress_slack_post t w" and "task_get (t_id t) (pw_db w) = Some row"
  shows "\<exists>p q q'. post_outputs env t s w = (Inr None, w\<lparr>pw_db := add_event (t_id t) Log p (pw_db w)\<rparr>) \<and>
    post_failure_notice env t ft w = (Inr (), w\<lparr>pw_db := add_event (t_id t) Log q (pw_db w)\<rparr>) \<and>
    post_honest_failure_notice env t e w = (Inr (), w\<lparr>pw_db := add_event (t_id t) Log q' (pw_db w)\<rparr>)"
  using assms
  by (simp add: post_outputs_def post_failure_notice_def post_honest_failure_notice_def log_task_def
      seq_apply post_event_apply) blast

text \<open>C24. Parking looks at no status. When the request was asked and the wait recorded, the task waits
  for its approval whatever it was before: the model call that words the prompt and the post on
  Slack lie between the agent's last check and the parking, and a cancellation in between is undone.\<close>

theorem parking_undoes_cancellation:
  assumes "post_approval_request env t r w = (Inr ts, w1)"
    and "task_get (t_id t) (pw_db w1) = Some row" and "t_status row = Cancelled"
  shows "\<exists>w' row'. park_for_approval env t r w = (Inr (), w') \<and>
    task_get (t_id t) (pw_db w') = Some row' \<and> t_status row' = Waiting_Approval"
  using assms
  by (auto simp: park_for_approval_def seq_apply on_task_db_def mark_waiting_eq task_get_upd waiting_row_def)

lemma invoke_runtime: "invoke_list_schedules (env\<lparr>xe_runtime := agent\<rparr>) = invoke_list_schedules env"
  by (intro ext) (simp add: invoke_list_schedules_def)

lemma fast_path_runtime:
  "run_schedule_state_fast_path (env\<lparr>xe_runtime := agent\<rparr>) t td = run_schedule_state_fast_path env t td"
  by (simp only: run_schedule_state_fast_path_def invoke_runtime)

text \<open>C23. The agent never sees a request that has the words of a question about the schedules: unless
  the task was made by a schedule or re-renders a document, its route is the same whatever the
  agent would do.\<close>

theorem schedule_words_bypass_agent:
  assumes "is_schedule_state_question (t_input t)" and "t_identity_kind t \<noteq> Some ''scheduled''"
    and "jget (t_identity_payload t) ''kind'' \<noteq> JStr ''document_rerender''"
  shows "run_route (env\<lparr>xe_runtime := agent\<rparr>) t = run_route env t"
  using assms by (simp add: run_route_def tier0_route_def fast_path_runtime)

text \<open>When the request for an approval cannot be posted, the error leaves the execution as it is:
  no notice tells the user, the acknowledgement stays, and nothing is changed after the failed post.\<close>

theorem failed_request_is_silent:
  assumes "run_and_deliver env t w = (Inr (Agent_Parked r), w1)"
    and "post_approval_request env t r w1 = (Inl e, w2)"
  shows "execute_task env t w = (Inl e, w2)"
  using assms
  by (simp add: execute_task_def attempting_def seq_apply catching_def park_for_approval_def)

section \<open>Sample executions\<close>

definition mail_approval :: approval_request where
  "mail_approval = \<lparr>rqt_key = ''k1'', rqt_tool = ''send_mail'', rqt_call_id = ''c1'', rqt_args_hash = ''h'',
     rqt_argument_keys = [''to''], rqt_scope = Scope_User, rqt_reason = ''writes'', rqt_risk = ''write'',
     rqt_arguments = [(''to'', JStr ''team'')]\<rparr>"

text \<open>Services that answer at once; the one that renders the blocks of an approval is left open.\<close>

definition sample_exec :: "(post_db, button_blocks) op \<Rightarrow> exec_env" where
  "sample_exec blocks = \<lparr>xe_post = sample_post_env, xe_seen = \<lambda>t w. Running, xe_status_attr = \<lambda>e. No_Status,
     xe_agent_runtime = ''custom'', xe_humanizer_min_chars = 0, xe_workflow_backend = ''inline'',
     xe_has_provider = True, xe_revision_enabled = False, xe_callback_base = None,
     xe_classify_intent = \<lambda>t. returning [], xe_start_workflow = \<lambda>t. returning [],
     xe_runtime = \<lambda>t d. returning (Agent_Parked mail_approval),
     xe_rerender = \<lambda>t. returning (int_result ''Done.'' 0),
     xe_graph_refresh = \<lambda>t. returning (int_result ''Done.'' 0), xe_list_schedules = \<lambda>t p. returning [],
     xe_latency = \<lambda>p. 0, xe_strip_preamble = id,
     xe_synthesize = \<lambda>t s. returning \<lparr>sy_text = s, sy_presentation = None, sy_sources = None\<rparr>,
     xe_render = \<lambda>s p q. None, xe_elements = \<lambda>j. 0, xe_sanitize = id,
     xe_comment = \<lambda>t a. returning None, xe_deck = \<lambda>t a. returning \<lparr>bb_blocks = [], bb_minted = []\<rparr>,
     xe_mark_sent = \<lambda>x ch ts b. returning (),
     xe_initiate_connect = \<lambda>t s u. raising (ValueError ''no provider''),
     xe_prompt_completion = \<lambda>t p. returning (Some ''{}''),
     xe_loads = \<lambda>s. Some (JObj [(''text'', JStr ''May I mail the weekly report to the team?'')]),
     xe_approval_blocks = \<lambda>t r s. blocks, xe_failure_completion = \<lambda>t s. returning None,
     xe_reactions_remove = None, xe_fail_assessment = \<lambda>t a b. returning None,
     xe_semantic_route = \<lambda>t. returning [], xe_shadow_trace = \<lambda>t d p. p,
     xe_project_witness = \<lambda>t s. returning (0, []), xe_reinforce = \<lambda>t. returning (0, []),
     xe_project_summary = \<lambda>t s. returning (0, []), xe_revise = \<lambda>t. returning (),
     xe_complete_assessment = \<lambda>t s. returning ()\<rparr>"

abbreviation plain_exec :: exec_env where
  "plain_exec \<equiv> sample_exec (returning \<lparr>bb_blocks = [], bb_minted = []\<rparr>)"

lemma sample_services_ok: "services_ok plain_exec"
  unfolding services_ok_def sample_exec_def using sample_client_ok by simp

lemma execution_refines_witness:
  "post_later post_world (snd (execute_task (plain_exec\<lparr>xe_runtime :=
      custom_runtime (\<lambda>t. sample_env) (\<lambda>t w. (\<lparr>pd_policies = [], pd_now = 0\<rparr>)) (\<lambda>t w. []) \<rparr>) sample_row post_world)) \<and>
   post_ok (snd (execute_task (plain_exec\<lparr>xe_runtime :=
      custom_runtime (\<lambda>t. sample_env) (\<lambda>t w. (\<lparr>pd_policies = [], pd_now = 0\<rparr>)) (\<lambda>t w. []) \<rparr>) sample_row post_world))"
  by (rule execution_refines [OF sample_services_ok sample_env_moves post_world_ok surjective_pairing])

text \<open>The task of the sample history, cancelled while it runs, and one that re-renders a document.\<close>

definition cancelled_world :: post_db where
  "cancelled_world = post_world\<lparr>pw_db := upd_task 7 (cancel_row 0) claimed_db\<rparr>"

definition rerender_row :: task where
  "rerender_row = sample_row\<lparr>t_identity_payload := [(''kind'', JStr ''document_rerender'')]\<rparr>"

lemma cancelled_world_get:
  "\<exists>row. task_get 7 (pw_db cancelled_world) = Some row \<and> t_status row = Cancelled"
  using claimed_get by (simp add: cancelled_world_def task_get_upd cancel_row_def)

lemma sample_row_id [simp]: "t_id sample_row = 7" "t_id rerender_row = 7"
  by (simp_all add: sample_row_def rerender_row_def)

lemma cancelled_run_delivers_nothing_witness:
  "snd (execute_task plain_exec rerender_row cancelled_world) = cancelled_world"
proof -
  obtain row where row: "task_get (t_id rerender_row) (pw_db cancelled_world) = Some row"
      "t_status row = Cancelled"
    using cancelled_world_get by auto
  have "run_route plain_exec rerender_row cancelled_world =
      (Inr (Agent_Result (int_result ''Done.'' 0)), cancelled_world)"
    by (simp add: run_route_def rerender_row_def sample_exec_def seq_apply)
  from cancelled_run_delivers_nothing [OF this _ row] show ?thesis by simp
qed

lemma suppressed_task_is_silent_witness:
  "fst (post_outputs plain_exec (sample_row\<lparr>t_identity_kind := Some ''manual''\<rparr>) ''Done.'' post_world) = Inr None"
proof -
  have "task_get (t_id (sample_row\<lparr>t_identity_kind := Some ''manual''\<rparr>)) (pw_db post_world) =
      Some (claim_row ''w1'' 0 (seconds 300) sample_row)"
    using claimed_get by (simp add: post_world_def)
  moreover have "should_suppress_slack_post (sample_row\<lparr>t_identity_kind := Some ''manual''\<rparr>) post_world"
    by (simp add: should_suppress_slack_post_def)
  ultimately show ?thesis
    using suppressed_task_is_silent [where ?s = "''Done.''" and ?env = plain_exec] by fastforce
qed

lemma schedule_words_bypass_agent_witness:
  "run_route (plain_exec\<lparr>xe_runtime := \<lambda>t depth. raising (ValueError ''never called'')\<rparr>)
     (sample_row\<lparr>t_input := ''Schedule a weekly report and deliver it to the team''\<rparr>) =
   run_route plain_exec
     (sample_row\<lparr>t_input := ''Schedule a weekly report and deliver it to the team''\<rparr>)"
proof -
  let ?t = "sample_row\<lparr>t_input := ''Schedule a weekly report and deliver it to the team''\<rparr>"
  have "is_schedule_state_question (t_input ?t)" by simp code_simp
  moreover have "t_identity_kind ?t \<noteq> Some ''scheduled''"
    and "jget (t_identity_payload ?t) ''kind'' \<noteq> JStr ''document_rerender''"
    by (simp_all add: sample_row_def new_task_def request_identity_def sample_request_def)
  ultimately show ?thesis by (rule schedule_words_bypass_agent)
qed

lemma sample_prompt:
  assumes "task_get 7 (pw_db w) = Some row"
  shows "\<exists>s w'. approval_prompt (sample_exec blocks) sample_row mail_approval w = (Inr s, w') \<and>
    scan_text sample_post_env s = Inr [] \<and> ob_effects w' = ob_effects w \<and> task_get 7 (pw_db w') = Some row"
proof -
  have body: "tool_approval_prompt_from_completion (xe_loads (sample_exec blocks)) (Some ''{}'') =
      Some (''May I mail the weekly report to the team?'' @ nl @ nl @ reaction_instruction)"
    unfolding sample_exec_def by code_simp
  have scan: "scan_outbound_urls (\<lambda>n. None) []
      (''May I mail the weekly report to the team?'' @ nl @ nl @ reaction_instruction) = Inr []"
    by code_simp
  show ?thesis
    using assms body scan
    by (simp add: approval_prompt_def Let_def catching_def seq_apply log_task_def post_event_apply)
      (simp add: sample_exec_def sample_post_env_def catching_def seq_apply log_task_def post_event_apply)
qed

lemma log_task_apply:
  "task_get (t_id t) (pw_db w) = Some row \<Longrightarrow>
   log_task t p w = (Inr (), w\<lparr>pw_db := add_event (t_id t) Log p (pw_db w)\<rparr>)"
  by (simp add: log_task_def post_event_apply)

lemma sample_run:
  assumes "task_get 7 (pw_db w) = Some row" and "channel_assessment_request 7 w = None"
  shows "\<exists>w'. run_and_deliver (sample_exec blocks) sample_row w = (Inr (Agent_Parked mail_approval), w') \<and>
    ob_effects w' = ob_effects w \<and> task_get 7 (pw_db w') = Some row"
proof -
  have kind: "jget (t_identity_payload sample_row) ''kind'' = JStr ''slack_message''"
    "jget (t_identity_payload sample_row) ''source_surface'' = JNull" "t_input sample_row = ''hello''"
    by (simp_all add: sample_row_def new_task_def request_identity_def sample_request_def)
  have route: "tier0_route sample_row = None"
    using kind(3) by (simp add: tier0_route_def) code_simp
  have inline: "ho_configured (evaluate_runtime_handoff ''inline'' sample_row) = ''inline''"
    by (simp add: evaluate_runtime_handoff_def Let_def)
  have refresh: "\<not> is_dashboard_graph_refresh_task sample_row w"
    using assms(2) by (simp add: is_dashboard_graph_refresh_task_def)
  have runtime: "xe_runtime (sample_exec blocks) t d = returning (Agent_Parked mail_approval)"
    "xe_workflow_backend (sample_exec blocks) = ''inline''" for t d
    by (simp_all add: sample_exec_def)
  have steps: "run_agent_runtime (sample_exec blocks) sample_row w = (Inr (Agent_Parked mail_approval), w')"
    if "w' = snd (run_agent_runtime (sample_exec blocks) sample_row w)" for w'
    using assms(1) kind(2) inline unfolding that
    by (simp add: run_agent_runtime_def ensure_intent_decision_def is_assistant_task_def Let_def
        seq_apply log_task_apply runtime)
  have world: "ob_effects (snd (run_agent_runtime (sample_exec blocks) sample_row w)) = ob_effects w"
    "task_get 7 (pw_db (snd (run_agent_runtime (sample_exec blocks) sample_row w))) = Some row"
    using assms(1) kind(2) inline
    by (simp_all add: run_agent_runtime_def ensure_intent_decision_def is_assistant_task_def Let_def
        seq_apply log_task_apply runtime)
  obtain w' where w': "w' = snd (run_agent_runtime (sample_exec blocks) sample_row w)" by blast
  have "run_and_deliver (sample_exec blocks) sample_row w = (Inr (Agent_Parked mail_approval), w')"
    unfolding run_and_deliver_def run_route_def
    using kind(1) route refresh by (simp add: seq_apply steps [OF w'])
  with world w' show ?thesis by blast
qed

lemma post_world_request: "channel_assessment_request 7 post_world = None"
  by (simp add: channel_assessment_request_def task_events_def latest_payload_def post_world_def
      claimed_db_eq sample_db_eq events_of_add find_None_iff) (auto simp: new_event_def)

lemma failed_request_is_silent_witness:
  "\<exists>w2. execute_task (sample_exec (raising (ValueError ''blocks''))) sample_row post_world =
     (Inl (ValueError ''blocks''), w2)"
proof -
  let ?env = "sample_exec (raising (ValueError ''blocks''))"
  have "task_get 7 (pw_db post_world) = Some (claim_row ''w1'' 0 (seconds 300) sample_row)"
    using claimed_get by (simp add: post_world_def)
  then obtain w1 where w1: "run_and_deliver ?env sample_row post_world = (Inr (Agent_Parked mail_approval), w1)"
      "task_get 7 (pw_db w1) = Some (claim_row ''w1'' 0 (seconds 300) sample_row)"
    using sample_run [OF _ post_world_request] by blast
  obtain s w2 where "approval_prompt ?env sample_row mail_approval w1 = (Inr s, w2)"
    using sample_prompt [OF w1(2)] by blast
  then have "post_approval_request ?env sample_row mail_approval w1 = (Inl (ValueError ''blocks''), w2)"
    by (simp add: post_approval_request_def seq_apply) (simp add: sample_exec_def)
  from failed_request_is_silent [OF w1(1) this] show ?thesis by blast
qed

text \<open>The first post of a sample client, in any world with an empty outbox.\<close>

lemma sample_first_post:
  assumes "task_get 7 (pw_db w) = Some row" and "ob_effects w = []" and "scan_text sample_post_env s = Inr []"
    and "th_task th = Some 7" and "th_channel th \<noteq> ''playground''"
  shows "\<exists>w'. post_message sample_post_env th s purpose blocks kp w = (Inr ''12.5'', w') \<and>
    task_get 7 (pw_db w') = Some row"
proof -
  have scan: "scan_outbound_urls (\<lambda>n. None) [] s = Inr []"
    using assms(3) by (simp add: sample_post_env_def)
  show ?thesis
    using assms(1,2,4,5) scan
    by (simp add: post_message_def flag_egress_urls_def Let_def sample_post_env_def
        post_task_message_def on_task_db_def resolve_task_simp deliver_effect_def
        message_request_def deliver_def get_or_create_def find_by_key_def insert_effect_def
        effect_violation_def effect_operations_def new_effect_def seq_apply attempt_call_def catching_def
        jsonable_mapping_def posted_ts_def non_empty_str_def record_message_def put_effect_def
        post_event_def append_event_simp)
qed

lemma parking_undoes_cancellation_witness:
  "\<exists>w' row'. park_for_approval plain_exec sample_row mail_approval cancelled_world = (Inr (), w') \<and>
    task_get (t_id sample_row) (pw_db w') = Some row' \<and> t_status row' = Waiting_Approval"
proof -
  obtain row where row: "task_get 7 (pw_db cancelled_world) = Some row" "t_status row = Cancelled"
    using cancelled_world_get by blast
  obtain s w1 where s: "approval_prompt plain_exec sample_row mail_approval cancelled_world = (Inr s, w1)"
      "scan_text sample_post_env s = Inr []" "ob_effects w1 = ob_effects cancelled_world"
      "task_get 7 (pw_db w1) = Some row"
    using sample_prompt [OF row(1)] by blast
  have empty: "ob_effects w1 = []" using s(3) by (simp add: cancelled_world_def post_world_def)
  obtain th where th: "thread_from_task sample_row = Inr th" "th_task th = Some 7" "th_channel th = ''C1''"
    by (simp add: thread_from_task_def allows_root_delivery_def is_assistant_task_def task_thread_ts_def
        sample_row_def new_task_def request_identity_def sample_request_def)
  have chan: "th_channel th \<noteq> ''playground''" by (simp add: th(3))
  have post: "plain_post plain_exec = sample_post_env"
    by (simp add: plain_post_def sample_exec_def) (simp add: sample_post_env_def)
  obtain w2 where w2: "post_message sample_post_env th s approval_prompt_purpose (Some [])
        (Some (approval_prompt_purpose @ '':k1'')) w1 = (Inr ''12.5'', w2)"
      "task_get 7 (pw_db w2) = Some row"
    using sample_first_post [OF s(4) empty s(2) th(2) chan] by blast
  have "post_approval_request plain_exec sample_row mail_approval cancelled_world = (Inr ''12.5'', w2)"
    using s(1) th(1) w2(1)
    by (simp add: post_approval_request_def seq_apply post mail_approval_def [THEN arg_cong, of rqt_key])
      (simp add: sample_exec_def seq_apply mark_buttons_sent_def)
  from parking_undoes_cancellation [OF this] w2(2) row(2) show ?thesis by simp
qed

end
