(* ===== verification/Decision_Properties.thy ===== *)
theory Decision_Properties
  imports Slack_Decisions Executor_Properties
begin

text \<open>
  What the buttons promise: only the person they were made for decides, a refused click leaves the
  button usable, a decision is taken once whatever is clicked afterwards, and the button of an
  approval takes the parked task back into the queue.
\<close>

section \<open>Claims in closed form\<close>

lemma row_upd_same: "(\<And>r. r \<in> set rows \<Longrightarrow> key r = k \<Longrightarrow> f r = r) \<Longrightarrow> row_upd key k f rows = rows"
  by (induction rows) (auto simp: row_upd_def)

lemma claim_eq:
  "claim env ck w =
     (case find_by_hash (ce_hash env (ck_key ck)) w of
        None \<Rightarrow> (Inr (Claim_Not_Found, None), w)
      | Some a \<Rightarrow>
          (let st = claim_row_outcome (click_now w) ck a; f = claim_change (click_now w) st
           in (Inr (st, Some (f a)), w\<lparr>cw_actions := row_upd ia_id (ia_id a) f (cw_actions w)\<rparr>)))"
  by (auto simp: claim_def seq_apply update_action_def Let_def split: option.splits)

lemma find_by_hash_Some: "find_by_hash h w = Some a \<Longrightarrow> a \<in> set (cw_actions w) \<and> ia_key_hash a = h"
  by (auto simp: find_by_hash_def find_Some_iff)

definition actions_ok :: "click_world \<Rightarrow> bool" where
  "actions_ok w \<longleftrightarrow> distinct (map ia_id (cw_actions w)) \<and> distinct (map ia_key_hash (cw_actions w))"

lemma find_by_hash_in:
  "actions_ok w \<Longrightarrow> a \<in> set (cw_actions w) \<Longrightarrow> find_by_hash (ia_key_hash a) w = Some a"
  using row_get_in [of ia_key_hash] by (auto simp: actions_ok_def find_by_hash_def row_get_def)

lemma claim_change_keeps [simp]:
  "ia_id (claim_change now st a) = ia_id a" "ia_key_hash (claim_change now st a) = ia_key_hash a"
  "ia_installation (claim_change now st a) = ia_installation a"
  "ia_target_type (claim_change now st a) = ia_target_type a"
  "ia_target_id (claim_change now st a) = ia_target_id a"
  "ia_task (claim_change now st a) = ia_task a" "ia_payload (claim_change now st a) = ia_payload a"
  "ia_route (claim_change now st a) = ia_route a" "ia_channel (claim_change now st a) = ia_channel a"
  by (cases st; simp add: claim_change_def denied_action_def)+

section \<open>Settled buttons stay settled\<close>

definition is_settled :: "interactive_action \<Rightarrow> bool" where
  "is_settled a \<longleftrightarrow> ia_status a \<in> {Consumed, Superseded}"

text \<open>Every settled row keeps its key and stays settled; the others may change in any way.\<close>

definition settled_kept :: "click_world \<Rightarrow> click_world \<Rightarrow> bool" where
  "settled_kept w w' \<longleftrightarrow> (actions_ok w \<longrightarrow> actions_ok w') \<and>
     (\<forall>a \<in> set (cw_actions w). is_settled a \<longrightarrow>
        (\<exists>b \<in> set (cw_actions w'). ia_id b = ia_id a \<and> ia_key_hash b = ia_key_hash a \<and> is_settled b))"

interpretation buttons: frame actions_ok settled_kept
proof unfold_locales
  fix w w' w'' :: click_world assume "settled_kept w w'" "settled_kept w' w''"
  then show "settled_kept w w''" unfolding settled_kept_def by metis
qed (auto simp: settled_kept_def)

lemma settled_kept_same: "cw_actions w' = cw_actions w \<Longrightarrow> settled_kept w w'"
  by (auto simp: settled_kept_def actions_ok_def)

lemma buttons_on_db: "buttons.tracks (on_click_db m)"
  by (rule buttons.tracksI) (auto simp: on_click_db_def intro!: settled_kept_same split: prod.splits)

lemma settled_kept_map:
  assumes "\<And>a. a \<in> set (cw_actions w) \<Longrightarrow> ia_id (f a) = ia_id a \<and> ia_key_hash (f a) = ia_key_hash a \<and>
      (is_settled a \<longrightarrow> is_settled (f a))"
  shows "settled_kept w (w\<lparr>cw_actions := map f (cw_actions w)\<rparr>)"
proof -
  have keys: "map (ia_id \<circ> f) (cw_actions w) = map ia_id (cw_actions w)"
    "map (ia_key_hash \<circ> f) (cw_actions w) = map ia_key_hash (cw_actions w)"
    using assms by simp_all
  show ?thesis using assms by (auto simp: settled_kept_def actions_ok_def keys)
qed

lemma settled_kept_upd:
  assumes "\<And>a. a \<in> set (cw_actions w) \<Longrightarrow> ia_id a = aid \<Longrightarrow>
      ia_id (f a) = ia_id a \<and> ia_key_hash (f a) = ia_key_hash a \<and> (is_settled a \<longrightarrow> is_settled (f a))"
  shows "settled_kept w (w\<lparr>cw_actions := row_upd ia_id aid f (cw_actions w)\<rparr>)"
  unfolding row_upd_def by (rule settled_kept_map) (use assms in auto)

lemma buttons_claim: "buttons.tracks (claim env ck)"
proof (rule buttons.tracksI)
  fix w r w' assume ok: "actions_ok w" and run: "claim env ck w = (r, w')"
  show "settled_kept w w'"
  proof (cases "find_by_hash (ce_hash env (ck_key ck)) w")
    case None
    then show ?thesis using run by (simp add: claim_eq buttons.rel_refl)
  next
    case (Some a)
    let ?f = "claim_change (click_now w) (claim_row_outcome (click_now w) ck a)"
    have a: "a \<in> set (cw_actions w)" using find_by_hash_Some [OF Some] by simp
    have one: "b = a" if "b \<in> set (cw_actions w)" "ia_id b = ia_id a" for b
      using ok a that by (auto simp: actions_ok_def distinct_map dest: inj_onD)
    have "?f a = a" if "is_settled a"
      using that by (simp add: claim_row_outcome_def is_settled_def claim_change_def)
    then have "settled_kept w (w\<lparr>cw_actions := row_upd ia_id (ia_id a) ?f (cw_actions w)\<rparr>)"
      by (intro settled_kept_upd) (metis claim_change_keeps(1,2) one)
    then show ?thesis using run Some by (simp add: claim_eq Let_def)
  qed
qed

lemma buttons_complete: "buttons.tracks (complete_action aid who result)"
  unfolding complete_action_def update_action_def
  by (intro buttons.tracks_seq buttons.tracks_pure, rule buttons.tracksI)
    (auto simp: consumed_action_def is_settled_def intro!: settled_kept_upd)

lemma buttons_supersede: "buttons.tracks (supersede_siblings a)"
  unfolding supersede_siblings_def
  by (intro buttons.tracks_seq buttons.tracks_pure, rule buttons.tracksI)
    (auto simp: is_settled_def is_sibling_def intro!: settled_kept_map)

lemma buttons_create: "buttons.tracks (create_child env a actor g ch parent child)"
  unfolding create_child_def by (intro buttons.tracks_seq buttons_on_db) auto

lemma buttons_document: "buttons.tracks (process_document_action env a actor)"
  unfolding process_document_action_def Let_def
  by (auto intro!: buttons.tracks_seq buttons_create split: option.splits)

lemma buttons_click: "buttons.tracks (process_decision_action env action_id raw_key actor team ch)"
proof -
  have "buttons.tracks (apply_document_action env a actor)" for a
    unfolding apply_document_action_def
    by (intro buttons.tracks_seq buttons_document buttons_complete buttons_supersede) auto
  moreover have "buttons.tracks (apply_approval_action a route actor)" for a route
    unfolding apply_approval_action_def approval_transition_def
    by (auto intro!: buttons.tracks_seq buttons_complete buttons_supersede buttons_on_db split: option.splits)
  ultimately show ?thesis
    unfolding process_decision_action_def Let_def apply_claimed_def
    by (auto intro!: buttons.tracks_seq buttons_claim buttons.tracks_if split: option.splits)
qed

section \<open>Who decides\<close>

lemma apply_claimed_keeps_db:
  "claim env ck w = (Inr (st, found), w') \<Longrightarrow> cw_db w' = cw_db w \<and> cw_artifacts w' = cw_artifacts w"
  by (auto simp: claim_eq Let_def split: option.splits)

text \<open>C25. Nobody but the person a button was made for moves a task with it. Whatever a click leads to, an
  outcome or an error: if it changed the task tables at all, then its key belongs to a button that was
  sent and has not expired, for the route of the button, and the person who clicked is the one the
  button allows, in its workspace and channel.\<close>

theorem only_the_bound_actor_decides:
  assumes "process_decision_action env action_id raw_key actor team ch w = (r, w')"
    and "cw_db w' \<noteq> cw_db w"
  shows "\<exists>a \<in> set (cw_actions w). ia_key_hash a = ce_hash env raw_key \<and>
    ia_status a \<in> {Action_Sent, Consuming} \<and> click_now w < ia_expires_at a \<and>
    ia_route a = canonical_route action_id \<and> ia_allowed_user a \<in> {None, Some actor} \<and>
    \<not> both_differ (ia_team a) team \<and> \<not> both_differ (ia_allowed_channel a) ch \<and>
    ia_required_role a = None"
proof -
  let ?ck = "decision_click (canonical_route action_id) raw_key actor team ch"
  obtain a where a: "find_by_hash (ce_hash env raw_key) w = Some a"
      "claim_row_outcome (click_now w) ?ck a = Claim_Ok"
    using assms by (auto simp: process_decision_action_def Let_def seq_apply claim_eq decision_click_def
        split: option.splits if_splits)
  then show ?thesis
    using find_by_hash_Some [OF a(1)]
    by (auto simp: claim_row_outcome_def actor_allowed_def decision_click_def split: if_splits)
qed

text \<open>What a click would be answered.\<close>

definition claim_outcome :: "click_env \<Rightarrow> click \<Rightarrow> click_world \<Rightarrow> claim_status option" where
  "claim_outcome env ck w = (case fst (claim env ck w) of Inl e \<Rightarrow> None | Inr (st, found) \<Rightarrow> Some st)"

lemma claim_outcome_eq:
  "claim_outcome env ck w =
     Some (case find_by_hash (ce_hash env (ck_key ck)) w of
             None \<Rightarrow> Claim_Not_Found | Some a \<Rightarrow> claim_row_outcome (click_now w) ck a)"
  by (simp add: claim_outcome_def claim_eq Let_def split: option.split)

lemma denied_outcome [simp]: "claim_row_outcome now ck (denied_action now' a) = claim_row_outcome now ck a"
  by (simp add: claim_row_outcome_def denied_action_def actor_allowed_def)

lemma find_by_hash_upd:
  assumes "\<And>a. ia_key_hash (f a) = ia_key_hash a"
  shows "find_by_hash h (w\<lparr>cw_actions := row_upd ia_id aid f (cw_actions w)\<rparr>) =
    map_option (\<lambda>a. if ia_id a = aid then f a else a) (find_by_hash h w)"
proof -
  have "find (\<lambda>a. ia_key_hash a = h) (row_upd ia_id aid f rows) =
      map_option (\<lambda>a. if ia_id a = aid then f a else a) (find (\<lambda>a. ia_key_hash a = h) rows)" for rows
    using assms by (induction rows) (auto simp: row_upd_def)
  then show ?thesis by (simp add: find_by_hash_def)
qed

text \<open>A refused click changes nothing that counts: after a click by somebody else the tasks are as
  before, the denial is counted on the button, and every click, also that of the right person, would
  be answered as it would have been before.\<close>

theorem refused_click_leaves_button_usable:
  assumes "process_decision_action env action_id raw_key actor team ch w = (Inr Click_Denied, w')"
  shows "cw_db w' = cw_db w \<and> cw_artifacts w' = cw_artifacts w \<and>
    (\<exists>a. find_by_hash (ce_hash env raw_key) w = Some a \<and>
       cw_actions w' = row_upd ia_id (ia_id a) (denied_action (click_now w)) (cw_actions w)) \<and>
    (\<forall>ck. claim_outcome env ck w' = claim_outcome env ck w)"
proof -
  let ?ck = "decision_click (canonical_route action_id) raw_key actor team ch"
  obtain a where a: "find_by_hash (ce_hash env raw_key) w = Some a"
      "claim_row_outcome (click_now w) ?ck a = Claim_Denied"
      "w' = w\<lparr>cw_actions := row_upd ia_id (ia_id a) (denied_action (click_now w)) (cw_actions w)\<rparr>"
    using assms
    by (auto simp: process_decision_action_def Let_def seq_apply claim_eq decision_click_def refused_outcome_def
        claim_change_def apply_claimed_def apply_document_action_def apply_approval_action_def
        split: option.splits if_splits claim_status.splits prod.splits sum.splits)
  have "find_by_hash h w' = map_option (\<lambda>b. if ia_id b = ia_id a then denied_action (click_now w) b else b)
      (find_by_hash h w)" for h
    unfolding a(3) by (rule find_by_hash_upd) (simp add: denied_action_def)
  then show ?thesis
    using a by (auto simp: claim_outcome_eq click_now_def split: option.split)
qed

section \<open>A decision is taken once\<close>

text \<open>
  What happens to the buttons between two clicks: other clicks, new buttons with fresh rows, a button
  marked as sent, and anything that leaves the buttons alone, the whole task core among it and a click
  whose transaction was rolled back. The second part of the state are the buttons whose message is being
  posted: minted, and not marked yet. \<open>mark_sent\<close> is called once for each of them, by the run that minted
  it, and looks at no status.
\<close>

inductive button_step ::
  "click_env \<Rightarrow> click_world \<times> uuid set \<Rightarrow> click_world \<times> uuid set \<Rightarrow> bool" for env where
  clicked: "process_decision_action env action_id raw_key actor team ch w = (r, w') \<Longrightarrow>
    button_step env (w, posting) (w', posting)"
| minted: "mint env rq w = (r, w') \<Longrightarrow> ce_fresh_action env w \<notin> ia_id ` set (cw_actions w) \<Longrightarrow>
    button_step env (w, posting) (w', insert (ce_fresh_action env w) posting)"
| sent: "aid \<in> posting \<Longrightarrow> mark_action_sent aid ch ts block slack_action w = (r, w') \<Longrightarrow>
    button_step env (w, posting) (w', posting - {aid})"
| elsewhere: "cw_actions w' = cw_actions w \<Longrightarrow> button_step env (w, posting) (w', posting)"

text \<open>A settled button whose message is not being posted stays as it is.\<close>

definition settled_safe :: "click_world \<times> uuid set \<Rightarrow> click_world \<times> uuid set \<Rightarrow> bool" where
  "settled_safe s s' \<longleftrightarrow> (actions_ok (fst s) \<longrightarrow> actions_ok (fst s')) \<and>
     (\<forall>a \<in> set (cw_actions (fst s)). is_settled a \<longrightarrow> ia_id a \<notin> snd s \<longrightarrow>
        (\<exists>b \<in> set (cw_actions (fst s')). ia_id b = ia_id a \<and> ia_key_hash b = ia_key_hash a \<and>
           is_settled b \<and> ia_id b \<notin> snd s'))"

interpretation safe: frame "\<lambda>s. actions_ok (fst s)" settled_safe
proof unfold_locales
  fix s s' s'' assume "settled_safe s s'" "settled_safe s' s''"
  then show "settled_safe s s''" unfolding settled_safe_def by metis
qed (auto simp: settled_safe_def)

lemma settled_kept_safe: "settled_kept w w' \<Longrightarrow> settled_safe (w, posting) (w', posting)"
  unfolding settled_safe_def settled_kept_def fst_conv snd_conv by metis

lemma mint_eq:
  "mint env rq w =
     (let key = key_prefix @ ce_token env w in
      if ce_hash env key \<in> ia_key_hash ` set (cw_actions w)
      then (Inl (IntegrityError ''interactive_actions_action_key_hash_key''), w)
      else (Inr (key, ce_fresh_action env w), w\<lparr>cw_actions := cw_actions w @
             [new_action (ce_fresh_action env w) (ce_hash env key) (click_now w) rq]\<rparr>))"
  by (simp add: mint_def seq_apply Let_def)

lemma sent_safe:
  assumes "aid \<in> posting"
  shows "settled_safe (w, posting) (w\<lparr>cw_actions := row_upd ia_id aid
    (sent_action ch ts block slack_action now) (cw_actions w)\<rparr>, posting - {aid})"
proof -
  let ?f = "\<lambda>a. if ia_id a = aid then sent_action ch ts block slack_action now a else a"
  have keep: "map (ia_id \<circ> ?f) (cw_actions w) = map ia_id (cw_actions w)"
    "map (ia_key_hash \<circ> ?f) (cw_actions w) = map ia_key_hash (cw_actions w)"
    by (simp_all add: sent_action_def)
  have "a \<in> ?f ` set (cw_actions w)" if "a \<in> set (cw_actions w)" "ia_id a \<notin> posting" for a
    by (rule image_eqI [where x = a]) (use that assms in auto)
  then show ?thesis by (auto simp: settled_safe_def row_upd_def actions_ok_def keep)
qed

lemma settled_safe_step: "button_step env s s' \<Longrightarrow> actions_ok (fst s) \<Longrightarrow> settled_safe s s'"
proof (induction rule: button_step.induct)
  case (clicked action_id raw_key actor team ch w r w' posting)
  then show ?case using buttons.tracksD [OF buttons_click] settled_kept_safe by auto
next
  case (minted rq w r w' posting)
  then show ?case
    by (auto simp: mint_eq Let_def new_action_def settled_safe_def actions_ok_def split: if_splits)
next
  case (sent aid posting ch ts block slack_action w r w')
  then show ?case
    using sent_safe [OF sent(1)] by (auto simp: mark_action_sent_def update_action_def seq_apply)
qed (auto intro: settled_kept_same settled_kept_safe)

lemma settled_safe_steps: "(button_step env)\<^sup>*\<^sup>* s s' \<Longrightarrow> actions_ok (fst s) \<Longrightarrow> settled_safe s s'"
proof (induction rule: rtranclp_induct)
  case (step y z)
  then show ?case using settled_safe_step safe.rel_trans safe.rel_ok by blast
qed (simp add: safe.rel_refl)

lemma click_on_settled:
  assumes "actions_ok w" "a \<in> set (cw_actions w)" "is_settled a" "ce_hash env raw_key = ia_key_hash a"
  shows "process_decision_action env action_id raw_key actor team ch w = (Inr Already_Handled, w)"
proof -
  have "find_by_hash (ce_hash env raw_key) w = Some a"
    using find_by_hash_in [OF assms(1,2)] assms(4) by simp
  moreover have "claim_row_outcome (click_now w) ck a = Claim_Handled" for ck
    using assms(3) by (simp add: claim_row_outcome_def is_settled_def)
  moreover have "row_upd ia_id (ia_id a) id (cw_actions w) = cw_actions w"
    by (rule row_upd_same) simp
  ultimately show ?thesis
    by (simp add: process_decision_action_def Let_def seq_apply claim_eq decision_click_def
        claim_change_def refused_outcome_def id_def)
qed

text \<open>The buttons after a click that was carried out: the one that was clicked is consumed, and its
  siblings are superseded.\<close>

definition after_decision :: "interactive_action \<Rightarrow> string \<Rightarrow> uuid option \<Rightarrow> timestamp \<Rightarrow>
    interactive_action \<Rightarrow> interactive_action" where
  "after_decision a actor result now b =
     (if ia_id b = ia_id a then consumed_action actor result now (b\<lparr>ia_status := Consuming\<rparr>)
      else if is_sibling a b then b\<lparr>ia_status := Superseded\<rparr> else b)"

lemma on_click_db_keeps: "on_click_db m w = (r, w') \<Longrightarrow> cw_actions w' = cw_actions w"
  by (auto simp: on_click_db_def split: prod.splits)

lemma create_child_keeps: "create_child env a actor g ch parent child w = (r, w') \<Longrightarrow> cw_actions w' = cw_actions w"
  by (auto simp: create_child_def seq_apply dest!: on_click_db_keeps split: prod.splits sum.splits)

lemma document_keeps: "process_document_action env a actor w = (r, w') \<Longrightarrow> cw_actions w' = cw_actions w"
  by (auto simp: process_document_action_def Let_def seq_apply dest: create_child_keeps
      split: option.splits if_splits)

lemma transition_keeps: "approval_transition a route actor w = (r, w') \<Longrightarrow> cw_actions w' = cw_actions w"
  by (auto simp: approval_transition_def dest: on_click_db_keeps split: option.splits)

lemma retired_buttons:
  assumes "seq (complete_action (ia_id a) actor result) (\<lambda>_. seq (supersede_siblings a) (\<lambda>_. returning x)) w = (r, w')"
  shows "r = Inr x \<and> cw_db w' = cw_db w \<and> cw_actions w' =
    map (\<lambda>b. if ia_id b = ia_id a then consumed_action actor result (click_now w) b
             else if is_sibling a b then b\<lparr>ia_status := Superseded\<rparr> else b) (cw_actions w)"
  using assms
  by (auto simp: complete_action_def supersede_siblings_def update_action_def seq_apply row_upd_def
      consumed_action_def is_sibling_def)

lemma applied_buttons:
  assumes "process_decision_action env action_id raw_key actor team ch w = (Inr Applied, w')"
  shows "\<exists>a result now. find_by_hash (ce_hash env raw_key) w = Some a \<and>
    ia_status a \<in> {Action_Sent, Consuming} \<and> cw_actions w' = map (after_decision a actor result now) (cw_actions w)"
proof -
  let ?ck = "decision_click (canonical_route action_id) raw_key actor team ch"
  obtain a where a: "find_by_hash (ce_hash env raw_key) w = Some a"
      "claim_row_outcome (click_now w) ?ck a = Claim_Ok"
    using assms by (auto simp: process_decision_action_def Let_def seq_apply claim_eq decision_click_def
        refused_outcome_def split: option.splits if_splits claim_status.splits)
  let ?f = "claim_change (click_now w) Claim_Ok"
  let ?w1 = "w\<lparr>cw_actions := row_upd ia_id (ia_id a) ?f (cw_actions w)\<rparr>"
  have run: "apply_claimed env (?f a) (canonical_route action_id) actor ?w1 = (Inr Applied, w')"
    using assms a by (simp add: process_decision_action_def Let_def seq_apply claim_eq decision_click_def)
  obtain w2 result x where w2: "cw_actions w2 = cw_actions ?w1" and
    last: "seq (complete_action (ia_id (?f a)) actor result) (\<lambda>_. seq (supersede_siblings (?f a)) (\<lambda>_. returning x)) w2 = (Inr Applied, w')"
    using run
    by (auto simp: apply_claimed_def apply_document_action_def apply_approval_action_def seq_apply [of "process_document_action _ _ _"]
        seq_apply [of "approval_transition _ _ _"] split: if_splits prod.splits sum.splits
        dest!: document_keeps transition_keeps)
  have "cw_actions w' = map (\<lambda>b. if ia_id b = ia_id (?f a) then consumed_action actor result (click_now w2) b
             else if is_sibling (?f a) b then b\<lparr>ia_status := Superseded\<rparr> else b) (cw_actions w2)"
    using retired_buttons [OF last] by blast
  also have "\<dots> = map (after_decision a actor result (click_now w2)) (cw_actions w)"
    unfolding w2 by (auto simp: after_decision_def row_upd_def claim_change_def is_sibling_def)
  finally show ?thesis using a by (auto simp: claim_row_outcome_def split: if_splits)
qed

text \<open>C26. A decision is taken once. After a click that was carried out, whatever happens to tasks and
  buttons, a click on the same button or on any other that was open for the same target, by anybody,
  is answered as already handled and changes nothing at all. The buttons whose message was just being
  posted when the decision was taken are left out: marking them as sent opens them again.\<close>

theorem decision_taken_once:
  assumes "actions_ok w" and "process_decision_action env action_id raw_key actor team ch w = (Inr Applied, w1)"
    and "\<And>a. a \<in> set (cw_actions w) \<Longrightarrow> ia_status a \<in> {Action_Sent, Consuming} \<Longrightarrow> ia_id a \<notin> posting"
    and "(button_step env)\<^sup>*\<^sup>* (w1, posting) (w2, posting')"
  shows "\<exists>a. find_by_hash (ce_hash env raw_key) w = Some a \<and>
    (\<forall>raw' action_id' actor' team' ch'.
       ce_hash env raw' = ia_key_hash a \<or>
       (\<exists>b \<in> set (cw_actions w). is_sibling a b \<and> ia_id b \<notin> posting \<and> ce_hash env raw' = ia_key_hash b) \<longrightarrow>
       process_decision_action env action_id' raw' actor' team' ch' w2 = (Inr Already_Handled, w2))"
proof -
  obtain a result now where a: "find_by_hash (ce_hash env raw_key) w = Some a"
      "ia_status a \<in> {Action_Sent, Consuming}"
      "cw_actions w1 = map (after_decision a actor result now) (cw_actions w)"
    using applied_buttons [OF assms(2)] by blast
  have "a \<in> set (cw_actions w)" using find_by_hash_Some [OF a(1)] by simp
  then have "ia_id a \<notin> posting" using assms(3) a(2) by blast
  have ok1: "actions_ok w1" by (rule buttons.tracks_ok [OF buttons_click assms(1,2)])
  have kept: "settled_safe (w1, posting) (w2, posting')" using settled_safe_steps [OF assms(4)] ok1 by simp
  then have ok2: "actions_ok w2" using ok1 by (simp add: settled_safe_def)
  have settled: "\<exists>c \<in> set (cw_actions w2). ia_key_hash c = ia_key_hash b \<and> is_settled c"
    if "b \<in> set (cw_actions w)" "b = a \<or> is_sibling a b" "ia_id b \<notin> posting" for b
  proof -
    let ?b = "after_decision a actor result now b"
    have "?b \<in> set (cw_actions w1)" "ia_key_hash ?b = ia_key_hash b" "is_settled ?b" "ia_id ?b = ia_id b"
      using that a(3) by (auto simp: after_decision_def consumed_action_def is_settled_def is_sibling_def)
    then show ?thesis using kept that(3) unfolding settled_safe_def fst_conv snd_conv by metis
  qed
  have "process_decision_action env action_id' raw' actor' team' ch' w2 = (Inr Already_Handled, w2)"
    if "ce_hash env raw' = ia_key_hash b" "b \<in> set (cw_actions w)" "b = a \<or> is_sibling a b" "ia_id b \<notin> posting"
    for b raw' action_id' actor' team' ch'
    using settled [OF that(2-4)] click_on_settled [OF ok2] that(1) by metis
  then show ?thesis using a(1) find_by_hash_Some [OF a(1)] \<open>ia_id a \<notin> posting\<close> by blast
qed

section \<open>From the buttons back into the queue\<close>

text \<open>The values of the buttons in a list of blocks, what Slack sends back on a click.\<close>

fun button_value :: "json \<Rightarrow> string option" where
  "button_value (JObj p) = json_str (jget p ''value'')"
| "button_value _ = None"

fun block_values :: "json \<Rightarrow> string option list" where
  "block_values (JObj p) = (case jget p ''elements'' of JArr xs \<Rightarrow> map button_value xs | _ \<Rightarrow> [])"
| "block_values _ = []"

definition fresh_ids :: "click_env \<Rightarrow> bool" where
  "fresh_ids env \<longleftrightarrow> (\<forall>w. ce_fresh_action env w \<notin> ia_id ` set (cw_actions w))"

lemma mint_InrD:
  assumes "mint env rq w = (Inr (key, aid), w')"
  shows "w' = w\<lparr>cw_actions := cw_actions w @ [new_action aid (ce_hash env key) (click_now w) rq]\<rparr> \<and>
    ce_hash env key \<notin> ia_key_hash ` set (cw_actions w) \<and> aid = ce_fresh_action env w \<and> key \<noteq> []"
  using assms by (auto simp: mint_eq Let_def key_prefix_def split: if_splits)

lemma new_action_simps [simp]:
  "ia_id (new_action aid h now rq) = aid" "ia_key_hash (new_action aid h now rq) = h"
  by (simp_all add: new_action_def)

lemma sent_action_simps [simp]:
  "ia_id (sent_action ch ts b s now a) = ia_id a" "ia_key_hash (sent_action ch ts b s now a) = ia_key_hash a"
  by (simp_all add: sent_action_def)

text \<open>A button of an approval that is out: who may click it, until when, and what it is for.\<close>

definition approval_button ::
  "click_env \<Rightarrow> audience \<Rightarrow> string \<Rightarrow> string \<Rightarrow> timestamp \<Rightarrow> string \<Rightarrow> interactive_action \<Rightarrow> bool" where
  "approval_button env au key route until k a \<longleftrightarrow>
     ia_key_hash a = ce_hash env k \<and> ia_status a = Action_Sent \<and> ia_route a = route \<and>
     ia_expires_at a = until \<and> ia_task a = au_task au \<and> ia_installation a = au_installation au \<and>
     ia_target_type a = ''approval'' \<and> ia_target_id a = key \<and>
     payload_or (ia_payload a) ''approval_key'' [] = key \<and> ia_allowed_user a = au_user au \<and>
     ia_allowed_channel a = au_channel au \<and> ia_team a = au_team au \<and> ia_required_role a = None"

lemma mark_sent_button_eq:
  "mark_sent_button ch ts blocks aid w =
     (Inr (), w\<lparr>cw_actions := row_upd ia_id aid
        (sent_action ch (Some ts) (block_id_of blocks) (map_option ia_route (action_get aid w)) (click_now w))
        (cw_actions w)\<rparr>)"
  by (simp add: mark_sent_button_def mark_action_sent_def update_action_def seq_apply)

lemma hashes_row_upd [simp]:
  "(\<And>a. ia_key_hash (f a) = ia_key_hash a) \<Longrightarrow>
   map ia_key_hash (row_upd ia_id aid f rows) = map ia_key_hash rows"
  by (induction rows) (auto simp: row_upd_def)

text \<open>After asking, the approve button is the first of the two, and it is out.\<close>

lemma ask_approval_button:
  assumes run: "ask_approval env au key tool statement ch ts w = (Inr blocks, w')" and ids: "fresh_ids env"
    and ok: "actions_ok w" and key: "key \<noteq> []"
  shows "\<exists>k v a. block_values (last blocks) = [Some k, v] \<and> actions_ok w' \<and> cw_db w' = cw_db w \<and>
    a \<in> set (cw_actions w') \<and> approval_button env au key route_approve (click_now w + default_ttl) k a"
proof -
  let ?spec = "approval_decision key tool statement statement"
  let ?m1 = "option_mint au ?spec (hd (ds_options ?spec))"
  let ?m2 = "option_mint au ?spec (last (ds_options ?spec))"
  obtain k1 a1 w1 k2 a2 w2 e1 e2 s where
    m1: "mint env ?m1 w = (Inr (k1, a1), w1)" and m2: "mint env ?m2 w1 = (Inr (k2, a2), w2)" and
    e: "button_element (take max_button_text_chars ''Approve'') route_approve k1 (Some ''primary'') = Inr e1"
      "button_element (take max_button_text_chars ''Reject'') route_reject k2 (Some ''danger'') = Inr e2" and
    last: "last blocks = JObj [(''type'', JStr ''actions''), (''elements'', JArr [e1, e2]),
       (''block_id'', JStr s)]" and
    sent: "for_each (mark_sent_button ch ts blocks) [a1, a2] w2 = (Inr (), w')"
    using run unfolding ask_approval_def render_decision_def approval_decision_def Let_def
    by (auto elim!: seq_InrE simp: actions_block_def split: if_splits)
  note new = mint_InrD [OF m1] mint_InrD [OF m2]
  let ?r1 = "new_action a1 (ce_hash env k1) (click_now w) ?m1"
  let ?r2 = "new_action a2 (ce_hash env k2) (click_now w1) ?m2"
  have w2: "cw_actions w2 = cw_actions w @ [?r1, ?r2]" "cw_db w2 = cw_db w" using new by simp_all
  have fresh: "a1 \<notin> ia_id ` set (cw_actions w)" "a2 \<notin> insert a1 (ia_id ` set (cw_actions w))"
    using new ids [unfolded fresh_ids_def, rule_format, of w] ids [unfolded fresh_ids_def, rule_format, of w1]
    by auto
  have ok2: "actions_ok w2"
    using ok fresh new by (auto simp: actions_ok_def)
  obtain b1 b2 s1 s2 where w': "w' = w2\<lparr>cw_actions := row_upd ia_id a2 (sent_action ch (Some ts) b2 s2 (click_now w2))
      (row_upd ia_id a1 (sent_action ch (Some ts) b1 s1 (click_now w2)) (cw_actions w2))\<rparr>"
    using sent by (auto simp: mark_sent_button_eq click_now_def)
  let ?a = "sent_action ch (Some ts) b1 s1 (click_now w2) ?r1"
  have keep: "map (\<lambda>r. if ia_id r = a1 then f r else r) (cw_actions w) = cw_actions w" for f
    by (rule map_idI) (use fresh in auto)
  have "row_upd ia_id a1 f (cw_actions w2) = cw_actions w @ [f ?r1, ?r2]" for f
    using fresh by (simp add: row_upd_def w2 keep)
  then have "?a \<in> set (cw_actions w')"
    unfolding w' using fresh by (auto simp: row_upd_def)
  moreover have "approval_button env au key route_approve (click_now w + default_ttl) k1 ?a"
    using key by (simp add: approval_button_def sent_action_def new_action_def option_mint_def approval_decision_def
        payload_or_def json_truthy_def py_str_def)
  moreover have "actions_ok w'"
    using ok2 unfolding w' actions_ok_def by simp
  moreover have "block_values (last blocks) = [Some k1, button_value e2]"
    using e(1) new(1) by (auto simp: last button_element_def split: if_splits)
  ultimately show ?thesis using w' w2 by fastforce
qed

lemma approve_awaited:
  assumes "awaited tid key (cw_db w) = Some rq"
  shows "\<exists>t t' d. task_get tid (cw_db w) = Some t \<and>
    approve_tool_approval tid key u None (cw_db w) = (Inr (Some t'), d) \<and>
    task_get tid d = Some t' \<and> t_status t' = Pending"
proof -
  obtain t where t: "task_get tid (cw_db w) = Some t"
    using assms by (cases "task_get tid (cw_db w)") (auto simp: awaited_def)
  then show ?thesis
    using approve_some [OF t assms, of u None]
    by (simp add: Let_def task_get_upd approve_row_def clear_task_lease_def)
qed

lemma canonical_routes: "canonical_route route_approve = route_approve" "canonical_route route_reject = route_reject"
  by code_simp+

lemma approving_click:
  assumes "find_by_hash (ce_hash env k) w = Some a"
    and "claim_row_outcome (click_now w) (decision_click route_approve k u team ch) a = Claim_Ok"
    and "ia_task a = Some tid" and "payload_or (ia_payload a) ''approval_key'' [] = key"
    and "awaited tid key (cw_db w) = Some rq"
  shows "\<exists>w' row. process_decision_action env route_approve k u team ch w = (Inr Applied, w') \<and>
    task_get tid (cw_db w') = Some row \<and> t_status row = Pending"
proof -
  let ?f = "claim_change (click_now w) Claim_Ok"
  let ?w = "w\<lparr>cw_actions := row_upd ia_id (ia_id a) ?f (cw_actions w)\<rparr>"
  have "awaited tid key (cw_db ?w) = Some rq" using assms(5) by simp
  then obtain t' d where d: "approve_tool_approval tid key u None (cw_db ?w) = (Inr (Some t'), d)"
      "task_get tid d = Some t'" "t_status t' = Pending"
    using approve_awaited by blast
  have "approval_transition (?f a) route_approve u ?w = (Inr (Some t'), ?w\<lparr>cw_db := d\<rparr>)"
    using assms(3,4) d(1) by (simp add: approval_transition_def on_click_db_def)
  then obtain w' where "apply_claimed env (?f a) route_approve u ?w = (Inr Applied, w')" "cw_db w' = d"
    by (simp add: apply_claimed_def apply_approval_action_def route_approve_def route_reject_def
        route_doc_edit_def route_doc_rerender_def seq_apply complete_action_def supersede_siblings_def
        update_action_def)
  then have "process_decision_action env route_approve k u team ch w = (Inr Applied, w')"
    using assms(1,2) by (simp add: process_decision_action_def canonical_routes seq_apply claim_eq
        decision_click_def Let_def)
  then show ?thesis using d(2,3) \<open>cw_db w' = d\<close> by blast
qed

text \<open>C27. The button of an approval takes the task back into the queue. When the buttons of a request are
  posted and the task waits for that request, a click by the person it asks, on the button whose key
  Slack sends back, in the channel and workspace it was made for and within its day, is carried out:
  the task is pending again.\<close>

theorem approve_button_resumes_task:
  assumes "ask_approval env au key tool statement ch ts w = (Inr blocks, w1)"
    and "fresh_ids env" and "actions_ok w" and "key \<noteq> []"
    and "cw_actions w2 = cw_actions w1" and "click_now w2 < click_now w + default_ttl"
    and "au_task au = Some tid" and "awaited tid key (cw_db w2) = Some rq"
    and "au_user au = Some u" and "au_channel au = Some ch" and "au_team au = team"
  shows "\<exists>k v w3 row. block_values (last blocks) = [Some k, v] \<and>
    process_decision_action env route_approve k u team (Some ch) w2 = (Inr Applied, w3) \<and>
    task_get tid (cw_db w3) = Some row \<and> t_status row = Pending"
proof -
  obtain k v a where a: "block_values (last blocks) = [Some k, v]" "a \<in> set (cw_actions w1)" "actions_ok w1"
      and button: "approval_button env au key route_approve (click_now w + default_ttl) k a"
    using ask_approval_button [OF assms(1-4)] by blast
  have found: "find_by_hash (ce_hash env k) w2 = Some a"
    using find_by_hash_in [of w2 a] a(2,3) assms(5) button by (simp add: actions_ok_def approval_button_def)
  have ok: "claim_row_outcome (click_now w2) (decision_click route_approve k u team (Some ch)) a = Claim_Ok"
    using button assms(6,9-11)
    by (simp add: approval_button_def claim_row_outcome_def actor_allowed_def decision_click_def both_differ_def)
  have "ia_task a = Some tid" "payload_or (ia_payload a) ''approval_key'' [] = key"
    using button assms(7) by (simp_all add: approval_button_def)
  then show ?thesis using approving_click [OF found ok _ _ assms(8)] a(1) by blast
qed

section \<open>A document rendered again\<close>

lemma rerender_kind:
  "jget (ident_payload (synthetic_identity sha src sid input
     [(''kind'', JStr ''document_rerender''), (''doc_group_id'', JStr g), (''mode'', JStr m), (''value'', JStr v),
      (''base_version'', b)])) ''kind'' = JStr ''document_rerender''"
  by (simp add: synthetic_identity_def Let_def identity_payload_def jmerge_def)

lemma lookup_new:
  assumes "tasks_unique d" and "lookup_existing inst ident ev d = (Inr None, d')"
  shows "d' = d"
  using lookup_existing_eq [OF assms(1), of inst ident ev] assms(2) by (auto split: option.splits)

lemma lookup_old:
  assumes "tasks_unique d" and "lookup_existing inst ident ev d = (Inr (Some t), d')"
  shows "task_get (t_id t) d \<noteq> None"
proof -
  have "existing_row inst ident ev d = Some t"
    using lookup_existing_eq [OF assms(1), of inst ident ev] assms(2) by (auto split: option.splits)
  then have "t \<in> set (db_tasks d)" by (rule existing_row_in)
  then show ?thesis using task_get_member [OF assms(1)] by simp
qed

text \<open>A creation that nobody races with either finds a row or stores the new one.\<close>

lemma create_task_new:
  assumes run: "create_task sha id fresh rq d = (Inr t, d')" and "tasks_unique d"
    and new: "task_get (t_id t) d = None"
  shows "t = new_task fresh rq (request_identity sha rq) (db_now d) \<and> task_get (t_id t) d' = Some t"
proof -
  let ?ident = "request_identity sha rq"
  let ?row = "new_task fresh rq ?ident (db_now d)"
  obtain found d1 where look: "lookup_existing (rq_installation rq) ?ident (rq_slack_event_id rq) d = (Inr found, d1)"
    using run by (auto simp: create_task_def seq_apply split: prod.splits sum.splits)
  have none: "found = None"
  proof (rule ccontr)
    assume "found \<noteq> None"
    then have "found = Some t" using run look by (auto simp: create_task_def seq_apply)
    then show False using lookup_old [OF assms(2)] new look by blast
  qed
  then have "d1 = d" using lookup_new [OF assms(2)] look by simp
  then have ins: "create_insert sha fresh rq d = (Inr t, d')"
    using run look none by (simp add: create_task_def seq_apply)
  have "insert_violation ?row d = None"
    using ins look none \<open>d1 = d\<close> by (auto simp: create_insert_eq split: option.splits)
  then have row: "t = ?row" and d': "d' = add_event fresh Task_Created (created_payload rq ?ident)
      (d\<lparr>db_tasks := db_tasks d @ [t]\<rparr>)"
    using ins by (auto simp: create_insert_eq)
  have "task_get (t_id t) (d\<lparr>db_tasks := db_tasks d @ [t]\<rparr>) = Some t"
    using new by (simp add: task_get_def row_get_append)
  then have "task_get (t_id t) d' = Some t" by (simp only: d' store_frame)
  with row show ?thesis by blast
qed

text \<open>A click on a format, a theme or an older version of a document runs without the agent: the new
  task it makes is one of the person who clicked, and the executor renders it again whatever the
  agent would do.\<close>

theorem rerender_click_bypasses_agent:
  assumes "process_document_action env a actor w = (Inr (Some cid), w')" and "ia_route a \<noteq> route_doc_edit"
    and "ce_race env = id" and "tasks_unique (cw_db w)" and "task_get cid (cw_db w) = None"
  shows "\<exists>t. task_get cid (cw_db w') = Some t \<and> t_user t = actor \<and> t_status t = Pending \<and>
    (\<forall>xe. run_route xe t = seq (xe_rerender xe t) (\<lambda>r. returning (Agent_Result r)))"
proof -
  let ?p = "ia_payload a"
  let ?grp = "payload_or ?p ''doc_group_id'' (ia_target_id a)"
  obtain ch where "create_child env a actor ?grp ch (action_parent a w) (rerender_child ?grp ?p) w = (Inr (Some cid), w')"
    using assms(1,2) by (auto simp: process_document_action_def Let_def seq_apply split: option.splits if_splits)
  then obtain t d where t: "t_id t = cid" "cw_db w' = d"
    "create_task (ce_sha env) id (ce_fresh_task env w)
       (child_request env a actor ?grp ch (action_parent a w) (rerender_child ?grp ?p)) (cw_db w) = (Inr t, d)"
    using assms(3) by (auto simp: create_child_def seq_apply on_click_db_def split: prod.splits sum.splits)
  note row = create_task_new [OF t(3) assms(4)]
  have "t_user t = actor" "t_status t = Pending" "jget (t_identity_payload t) ''kind'' = JStr ''document_rerender''"
    using row assms(5) t(1)
    by (simp_all add: new_task_def child_request_def rerender_child_def Let_def request_identity_def rerender_kind)
  then show ?thesis using row assms(5) t(1,2) by (auto simp: run_route_def)
qed

section \<open>Witnesses\<close>

text \<open>A world with the two buttons of a request that task 7 waits for, made for \<open>U1\<close>.\<close>

definition sample_clicks :: click_env where
  "sample_clicks =
     \<lparr>ce_hash = id, ce_token = (\<lambda>w. replicate (length (cw_actions w)) CHR ''x''),
      ce_fresh_action = (\<lambda>w. Suc (sum_list (map ia_id (cw_actions w)))), ce_sha = sample_sha,
      ce_race = id, ce_fresh_task = (\<lambda>w. 8), ce_others = id\<rparr>"

definition sample_audience :: audience where
  "sample_audience = \<lparr>au_installation = 1, au_task = Some 7, au_user = Some ''U1'', au_channel = Some ''C1'',
     au_team = Some ''T1''\<rparr>"

definition sample_button :: "uuid \<Rightarrow> string \<Rightarrow> decision_option \<Rightarrow> interactive_action" where
  "sample_button aid key opt = sent_action ''C1'' (Some ''5.0'') None None 0
     (new_action aid key (db_now waiting_db)
        (option_mint sample_audience (approval_decision ''k1'' ''deploy_site'' ''Deploy?'' ''Deploy?'') opt))"

definition sample_buttons :: click_world where
  "sample_buttons =
     \<lparr>cw_db = waiting_db,
      cw_actions =
        [sample_button 1 ''ka'' (hd (ds_options (approval_decision [] [] [] []))),
         sample_button 2 ''kr'' (last (ds_options (approval_decision [] [] [] [])))],
      cw_artifacts = []\<rparr>"

lemma sample_fresh: "fresh_ids sample_clicks"
proof -
  have "ia_id a \<le> sum_list (map ia_id (cw_actions w))" if "a \<in> set (cw_actions w)" for a w
    using that by (simp add: member_le_sum_list)
  then show ?thesis by (force simp: fresh_ids_def sample_clicks_def)
qed

lemmas sample_button_defs = sample_buttons_def sample_button_def sample_audience_def sample_clicks_def
  sent_action_def new_action_def option_mint_def approval_decision_def

lemma sample_buttons_ok: "actions_ok sample_buttons"
  by (simp add: actions_ok_def sample_button_defs)

lemma sample_found:
  "find_by_hash ''ka'' sample_buttons = Some (sample_button 1 ''ka'' (hd (ds_options (approval_decision [] [] [] []))))"
  by (simp add: find_by_hash_def sample_button_defs)

lemma sample_click:
  "\<exists>w'. process_decision_action sample_clicks route_approve ''ka'' ''U1'' None None sample_buttons = (Inr Applied, w') \<and>
    cw_db w' \<noteq> cw_db sample_buttons"
proof -
  let ?a = "sample_button 1 ''ka'' (hd (ds_options (approval_decision [] [] [] [])))"
  have "claim_row_outcome (click_now sample_buttons) (decision_click route_approve ''ka'' ''U1'' None None) ?a = Claim_Ok"
    by (simp add: sample_button_defs claim_row_outcome_def decision_click_def actor_allowed_def both_differ_def
        click_now_def default_ttl_def seconds_def truthy_def)
  moreover have "ia_task ?a = Some 7" "payload_or (ia_payload ?a) ''approval_key'' [] = ''k1''"
    by (simp_all add: sample_button_defs payload_or_def json_truthy_def py_str_def)
  moreover have "awaited 7 ''k1'' (cw_db sample_buttons) = Some sample_tool_request"
    by (simp add: sample_buttons_def waiting_awaited)
  moreover have "find_by_hash (ce_hash sample_clicks ''ka'') sample_buttons = Some ?a"
    by (simp add: sample_found) (simp add: sample_clicks_def sample_found)
  ultimately obtain w' row where w': "process_decision_action sample_clicks route_approve ''ka'' ''U1'' None None sample_buttons
      = (Inr Applied, w')" "task_get 7 (cw_db w') = Some row" "t_status row = Pending"
    using approving_click by blast
  have "awaited 7 ''k1'' (cw_db w') = None" using w'(2,3) by (simp add: awaited_def)
  then have "cw_db w' \<noteq> cw_db sample_buttons"
    using waiting_awaited by (auto simp: sample_buttons_def)
  with w'(1) show ?thesis by blast
qed

lemma only_the_bound_actor_decides_witness:
  "\<exists>a \<in> set (cw_actions sample_buttons). ia_key_hash a = ''ka'' \<and> ia_allowed_user a = Some ''U1'' \<and>
     ia_allowed_user a \<in> {None, Some ''U1''}"
proof -
  obtain w' where "process_decision_action sample_clicks route_approve ''ka'' ''U1'' None None sample_buttons = (Inr Applied, w')"
    "cw_db w' \<noteq> cw_db sample_buttons" using sample_click by blast
  from only_the_bound_actor_decides [OF this] show ?thesis
    by (auto simp: sample_button_defs)
qed

lemma refused_click_leaves_button_usable_witness:
  "claim_outcome sample_clicks (decision_click route_approve ''ka'' ''U1'' None None)
     (snd (process_decision_action sample_clicks route_approve ''ka'' ''U2'' None None sample_buttons)) =
   claim_outcome sample_clicks (decision_click route_approve ''ka'' ''U1'' None None) sample_buttons"
proof -
  have "claim_row_outcome (click_now sample_buttons) (decision_click route_approve ''ka'' ''U2'' None None)
      (sample_button 1 ''ka'' (hd (ds_options (approval_decision [] [] [] [])))) = Claim_Denied"
    by (simp add: sample_button_defs claim_row_outcome_def decision_click_def actor_allowed_def both_differ_def
        click_now_def default_ttl_def seconds_def truthy_def)
  moreover have "find_by_hash (ce_hash sample_clicks ''ka'') sample_buttons =
      Some (sample_button 1 ''ka'' (hd (ds_options (approval_decision [] [] [] []))))"
    using sample_found by (simp add: sample_clicks_def)
  ultimately obtain w' where
    "process_decision_action sample_clicks route_approve ''ka'' ''U2'' None None sample_buttons = (Inr Click_Denied, w')"
    by (simp add: process_decision_action_def canonical_routes seq_apply claim_eq decision_click_def Let_def
        refused_outcome_def)
  from refused_click_leaves_button_usable [OF this] this show ?thesis by simp
qed

lemma decision_taken_once_witness:
  "\<exists>w'. process_decision_action sample_clicks route_approve ''ka'' ''U1'' None None sample_buttons = (Inr Applied, w') \<and>
     process_decision_action sample_clicks route_reject ''kr'' ''U1'' None None w' = (Inr Already_Handled, w')"
proof -
  obtain w' where w': "process_decision_action sample_clicks route_approve ''ka'' ''U1'' None None sample_buttons = (Inr Applied, w')"
    using sample_click by blast
  let ?a = "sample_button 1 ''ka'' (hd (ds_options (approval_decision [] [] [] [])))"
  let ?b = "sample_button 2 ''kr'' (last (ds_options (approval_decision [] [] [] [])))"
  have "is_sibling ?a ?b" "?b \<in> set (cw_actions sample_buttons)" "ia_key_hash ?b = ''kr''"
    by (simp_all add: sample_button_defs is_sibling_def)
  moreover have "find_by_hash (ce_hash sample_clicks ''ka'') sample_buttons = Some ?a"
    using sample_found by (simp add: sample_clicks_def)
  moreover have "ce_hash sample_clicks ''kr'' = ''kr''" by (simp add: sample_clicks_def)
  ultimately show ?thesis
    using decision_taken_once [where posting = "{}", OF sample_buttons_ok w' _ rtranclp.rtrancl_refl] w' by fastforce
qed

lemma approve_button_resumes_task_witness:
  "\<exists>blocks w1 k v w2 row. ask_approval sample_clicks sample_audience ''k1'' ''deploy_site'' ''Deploy?'' ''C1'' ''5.0''
      \<lparr>cw_db = waiting_db, cw_actions = [], cw_artifacts = []\<rparr> = (Inr blocks, w1) \<and>
    block_values (last blocks) = [Some k, v] \<and>
    process_decision_action sample_clicks route_approve k ''U1'' (Some ''T1'') (Some ''C1'') w1 = (Inr Applied, w2) \<and>
    task_get 7 (cw_db w2) = Some row \<and> t_status row = Pending"
proof -
  let ?w = "\<lparr>cw_db = waiting_db, cw_actions = [], cw_artifacts = []\<rparr>"
  obtain blocks w1 where run: "ask_approval sample_clicks sample_audience ''k1'' ''deploy_site'' ''Deploy?'' ''C1'' ''5.0''
      ?w = (Inr blocks, w1)"
    by (simp add: ask_approval_def render_decision_def approval_decision_def mint_eq seq_apply Let_def
        mark_sent_button_eq option_mint_def new_action_def sample_clicks_def key_prefix_def button_element_def
        max_button_text_chars_def max_button_value_chars_def section_block_def max_section_text_chars_def
        actions_block_def max_actions_elements_def)
  have ok: "actions_ok ?w" by (simp add: actions_ok_def)
  have db: "cw_db w1 = waiting_db" using ask_approval_button [OF run sample_fresh ok] by fastforce
  have "click_now w1 < click_now ?w + default_ttl"
    by (simp add: click_now_def db default_ttl_def seconds_def)
  moreover have "awaited 7 ''k1'' (cw_db w1) = Some sample_tool_request" by (simp add: db waiting_awaited)
  ultimately show ?thesis
    using approve_button_resumes_task [OF run sample_fresh ok _ refl, of 7 sample_tool_request "''U1''" "Some ''T1''"] run
    by (fastforce simp: sample_audience_def)
qed

definition sample_rerender :: interactive_action where
  "sample_rerender = new_action 3 ''kd'' 0
     \<lparr>mr_installation = 1, mr_kind = ''format'', mr_route = route_doc_rerender, mr_target_type = ''document'',
      mr_target_id = ''g1'', mr_task = None, mr_payload = [(''mode'', JStr ''format''), (''value'', JStr ''pdf'')],
      mr_created_for = None, mr_allowed_user = None, mr_required_role = None, mr_allowed_channel = Some ''C1'',
      mr_team = None, mr_ttl = default_ttl\<rparr>\<lparr>ia_channel := Some ''C1''\<rparr>"

lemma rerender_click_bypasses_agent_witness:
  "\<exists>t w'. process_document_action sample_clicks sample_rerender ''U1''
       \<lparr>cw_db = empty_db, cw_actions = [], cw_artifacts = []\<rparr> = (Inr (Some 8), w') \<and>
     task_get 8 (cw_db w') = Some t \<and> t_user t = ''U1'' \<and>
     (\<forall>xe. run_route xe t = seq (xe_rerender xe t) (\<lambda>r. returning (Agent_Result r)))"
proof -
  let ?w = "\<lparr>cw_db = empty_db, cw_actions = [], cw_artifacts = []\<rparr>"
  have uniq: "tasks_unique (cw_db ?w)" by (simp add: tasks_unique_def somes_def)
  have look: "lookup_existing i ident None empty_db = (Inr None, empty_db)" for i ident
    by (simp add: lookup_existing_def seq_apply get_by_identity_key_def get_by_slack_event_id_def)
  let ?child = "rerender_child ''g1'' (ia_payload sample_rerender)"
  let ?rq = "child_request sample_clicks sample_rerender ''U1'' ''g1'' ''C1'' None ?child"
  have kind: "ident_kind (synthetic_identity sha src sid input p) = ''synthetic''" for sha src sid input p
    by (simp add: synthetic_identity_def Let_def)
  have made: "\<exists>t d. create_task sample_sha id 8 rq empty_db = (Inr t, d) \<and> t_id t = 8"
    if "rq_identity rq = Some (synthetic_identity sample_sha src sid input p)" "rq_slack_event_id rq = None" "rq_parent rq = None"
    for rq src sid input p
    using that by (simp add: create_task_def seq_apply look create_insert_eq insert_violation_def request_identity_def
        new_task_def kind identity_kinds_def)
  have group_id: "payload_or (ia_payload sample_rerender) ''doc_group_id'' (ia_target_id sample_rerender) = ''g1''"
    by (simp add: sample_rerender_def new_action_def payload_or_def json_truthy_def)
  have parent: "action_parent sample_rerender ?w = None" "ia_channel sample_rerender = Some ''C1''" "ia_task sample_rerender = None"
    by (simp_all add: action_parent_def sample_rerender_def new_action_def)
  have route: "ia_route sample_rerender = route_doc_rerender" by (simp add: sample_rerender_def new_action_def)
  have run: "process_document_action sample_clicks sample_rerender ''U1'' ?w =
      create_child sample_clicks sample_rerender ''U1'' ''g1'' ''C1'' None ?child ?w"
    by (simp add: process_document_action_def group_id seq_apply parent route route_doc_rerender_def route_doc_edit_def
        truthy_def Let_def)
  have child: "\<exists>sid. rq_identity ?rq = Some (synthetic_identity sample_sha ''document_rerender'' sid (fst ?child) (fst (snd ?child)))"
    "rq_slack_event_id ?rq = None" "rq_parent ?rq = None"
    by (auto simp: child_request_def rerender_child_def Let_def sample_clicks_def parent)
  then obtain t d where t: "create_task sample_sha id 8 ?rq empty_db = (Inr t, d)" "t_id t = 8"
    using made by blast
  have fields: "ce_sha sample_clicks = sample_sha" "ce_race sample_clicks = id" "ce_fresh_task sample_clicks ?w = 8"
    by (simp_all add: sample_clicks_def)
  have "create_child sample_clicks sample_rerender ''U1'' ''g1'' ''C1'' None ?child ?w = (Inr (Some 8), ?w\<lparr>cw_db := d\<rparr>)"
    unfolding create_child_def seq_apply reading_def fields on_click_db_def by (simp add: t fields)
  then obtain w' where "process_document_action sample_clicks sample_rerender ''U1'' ?w = (Inr (Some 8), w')"
    unfolding run by blast
  moreover have "ia_route sample_rerender \<noteq> route_doc_edit"
    by (simp add: sample_rerender_def new_action_def route_doc_rerender_def route_doc_edit_def)
  moreover have "ce_race sample_clicks = id" by (simp add: sample_clicks_def)
  moreover have "task_get 8 (cw_db ?w) = None" by (simp add: task_get_def)
  ultimately show ?thesis using rerender_click_bypasses_agent [OF _ _ _ uniq] by blast
qed

end
