(* ===== verification/Py_Regex.thy ===== *)
theory Py_Regex
  imports Py_Numbers
begin

text \<open>
  The part of Python's \<open>re\<close> that the program uses: patterns as a datatype, and the ends of their
  matches in the order in which a backtracking matcher finds them. Characters are ASCII; a pattern
  compiled with \<open>re.I\<close> has its literals compared in lower case.
\<close>

datatype rx =
    Rx_Empty
  | Rx_Char "char \<Rightarrow> bool"
  | Rx_Seq rx rx
  | Rx_Alt rx rx
  | Rx_Star rx
  | Rx_Bound
  | Rx_Start

definition is_word_char :: "char \<Rightarrow> bool" where
  "is_word_char c \<longleftrightarrow> c = CHR ''_'' \<or> c \<in> set (map char_of [48..<58::nat]) \<or>
     lower_char c \<in> set (map char_of [97..<123::nat])"

text \<open>\<open>\b\<close>: exactly one side of the position is a word character.\<close>

definition word_at :: "string \<Rightarrow> nat \<Rightarrow> bool" where
  "word_at s i \<longleftrightarrow> i < length s \<and> is_word_char (s ! i)"

definition at_boundary :: "string \<Rightarrow> nat \<Rightarrow> bool" where
  "at_boundary s i \<longleftrightarrow> word_at s i \<noteq> (0 < i \<and> word_at s (i - 1))"

text \<open>The ends of the matches from a position, the preferred one first. A star is greedy and goes on
  only where its body consumed something.\<close>

function ends :: "rx \<Rightarrow> string \<Rightarrow> nat \<Rightarrow> nat list" where
  "ends Rx_Empty s i = [i]"
| "ends (Rx_Char p) s i = (if i < length s \<and> p (s ! i) then [Suc i] else [])"
| "ends (Rx_Seq a b) s i = concat (map (ends b s) (ends a s i))"
| "ends (Rx_Alt a b) s i = ends a s i @ ends b s i"
| "ends (Rx_Star a) s i =
     concat (map (ends (Rx_Star a) s) (filter (\<lambda>j. i < j \<and> j \<le> length s) (ends a s i))) @ [i]"
| "ends Rx_Bound s i = (if at_boundary s i then [i] else [])"
| "ends Rx_Start s i = (if i = 0 then [i] else [])"
  by pat_completeness auto
termination
  by (relation "measures [\<lambda>(r, s, i). size r, \<lambda>(r, s, i). length s - i]") auto

declare ends.simps(5) [simp del]

text \<open>\<open>search\<close> as a test, and \<open>match\<close>: the end of the match at a position.\<close>

definition rx_search :: "rx \<Rightarrow> string \<Rightarrow> bool" where
  "rx_search r s = list_ex (\<lambda>i. ends r s i \<noteq> []) [0..<Suc (length s)]"

definition rx_match :: "rx \<Rightarrow> string \<Rightarrow> nat \<Rightarrow> nat option" where
  "rx_match r s i = (case ends r s i of [] \<Rightarrow> None | j # js \<Rightarrow> Some j)"

text \<open>\<open>sub\<close> with a fixed text, for patterns whose matches are not empty.\<close>

function rx_sub_from :: "rx \<Rightarrow> string \<Rightarrow> string \<Rightarrow> nat \<Rightarrow> string" where
  "rx_sub_from r repl s i =
     (if length s \<le> i then []
      else (case rx_match r s i of
              Some j \<Rightarrow> if i < j then repl @ rx_sub_from r repl s j else s ! i # rx_sub_from r repl s (Suc i)
            | None \<Rightarrow> s ! i # rx_sub_from r repl s (Suc i)))"
  by pat_completeness auto
termination
  by (relation "measure (\<lambda>(r, repl, s, i). length s - i)") auto

definition rx_sub :: "rx \<Rightarrow> string \<Rightarrow> string \<Rightarrow> string" where
  "rx_sub r repl s = rx_sub_from r repl s 0"

text \<open>\<open>sub\<close> with an empty text and \<open>count=1\<close> of a pattern anchored at the start.\<close>

definition rx_strip_prefix :: "rx \<Rightarrow> string \<Rightarrow> string" where
  "rx_strip_prefix r s = (case rx_match r s 0 of Some j \<Rightarrow> drop j s | None \<Rightarrow> s)"

section \<open>Building patterns\<close>

definition rx_seqs :: "rx list \<Rightarrow> rx" where
  "rx_seqs rs = foldr Rx_Seq rs Rx_Empty"

fun rx_alts :: "rx list \<Rightarrow> rx" where
  "rx_alts [] = Rx_Char (\<lambda>c. False)"
| "rx_alts [r] = r"
| "rx_alts (r # rs) = Rx_Alt r (rx_alts rs)"

definition rx_text :: "string \<Rightarrow> rx" where
  "rx_text s = rx_seqs (map (\<lambda>c. Rx_Char (\<lambda>d. d = c)) s)"

definition rx_itext :: "string \<Rightarrow> rx" where
  "rx_itext s = rx_seqs (map (\<lambda>c. Rx_Char (\<lambda>d. lower_char d = lower_char c)) s)"

definition rx_opt :: "rx \<Rightarrow> rx" where
  "rx_opt r = Rx_Alt r Rx_Empty"

definition rx_plus :: "rx \<Rightarrow> rx" where
  "rx_plus r = Rx_Seq r (Rx_Star r)"

definition rx_at_least :: "nat \<Rightarrow> rx \<Rightarrow> rx" where
  "rx_at_least n r = Rx_Seq (rx_seqs (replicate n r)) (Rx_Star r)"

definition is_alpha :: "char \<Rightarrow> bool" where
  "is_alpha c \<longleftrightarrow> lower_char c \<in> set (map char_of [97..<123::nat])"

definition rx_class :: "string \<Rightarrow> rx" where
  "rx_class cs = Rx_Char (\<lambda>c. c \<in> set cs)"

text \<open>A class of letters, digits and further characters, in either case.\<close>

definition rx_alnum :: "string \<Rightarrow> rx" where
  "rx_alnum cs = Rx_Char (\<lambda>c. is_alpha c \<or> is_digit c \<or> c \<in> set cs)"

definition rx_spaces :: rx where
  "rx_spaces = Rx_Char is_space"

lemma rx_seqs_simps [simp]: "rx_seqs [] = Rx_Empty" "rx_seqs (r # rs) = Rx_Seq r (rx_seqs rs)"
  by (simp_all add: rx_seqs_def)

lemma ends_star:
  "j \<in> set (ends (Rx_Star a) s i) \<longleftrightarrow> j = i \<or>
     (\<exists>k \<in> set (ends a s i). i < k \<and> k \<le> length s \<and> j \<in> set (ends (Rx_Star a) s k))"
  by (subst ends.simps(5)) auto

lemma ends_bounds: "j \<in> set (ends r s i) \<Longrightarrow> i \<le> length s \<Longrightarrow> i \<le> j \<and> j \<le> length s"
proof (induction r s i arbitrary: j rule: ends.induct)
  case (3 a b s i)
  then obtain k where k: "k \<in> set (ends a s i)" "j \<in> set (ends b s k)" by auto
  then show ?case using "3.IH"(1) [OF k(1)] "3.IH"(2) [OF k(1) k(2)] "3.prems" by linarith
next
  case (5 a s i)
  consider "j = i" | k where "k \<in> set (ends a s i)" "i < k" "k \<le> length s" "j \<in> set (ends (Rx_Star a) s k)"
    using "5.prems"(1) unfolding ends_star [of j a s i] by blast
  then show ?case
  proof cases
    case 1
    then show ?thesis using "5.prems" by simp
  next
    case 2
    then show ?thesis using "5.IH"(2) [of k j] by simp
  qed
next
  case (4 a b s i)
  then show ?case by (metis UnE ends.simps(4) set_append)
qed (simp_all split: if_splits)

text \<open>A literal is found where it stands, and nowhere else.\<close>

lemma ends_text:
  "i \<le> length s \<Longrightarrow> ends (rx_text t) s i = (if take (length t) (drop i s) = t then [i + length t] else [])"
proof (induction t arbitrary: i)
  case Nil
  then show ?case by (simp add: rx_text_def)
next
  case (Cons c t)
  show ?case
  proof (cases "i < length s")
    case True
    then have "drop i s = s ! i # drop (Suc i) s" by (rule Cons_nth_drop_Suc [symmetric])
    then show ?thesis using True Cons.IH [of "Suc i"] by (simp add: rx_text_def)
  next
    case False
    then show ?thesis using Cons.prems by (simp add: rx_text_def)
  qed
qed

lemma take_drop_contains: "(\<exists>i \<le> length s. take (length t) (drop i s) = t) \<longleftrightarrow> contains t s"
proof
  assume "\<exists>i \<le> length s. take (length t) (drop i s) = t"
  then obtain i where "take (length t) (drop i s) = t" by blast
  then have "s = take i s @ t @ drop (length t) (drop i s)"
    by (metis append_take_drop_id)
  then show "contains t s" unfolding contains_iff by blast
next
  assume "contains t s"
  then obtain u v where "s = u @ t @ v" unfolding contains_iff by blast
  then show "\<exists>i \<le> length s. take (length t) (drop i s) = t"
    by (intro exI [of _ "length u"]) simp
qed

lemma rx_search_text: "rx_search (rx_text t) s \<longleftrightarrow> contains t s"
proof -
  have "rx_search (rx_text t) s \<longleftrightarrow> (\<exists>i \<le> length s. take (length t) (drop i s) = t)"
    unfolding rx_search_def list_ex_iff set_upt by (auto simp: ends_text less_Suc_eq_le split: if_splits)
  then show ?thesis by (simp add: take_drop_contains)
qed

section \<open>Texts without a match\<close>

text \<open>Every match of the pattern contains a character of the class.\<close>

fun needs :: "(char \<Rightarrow> bool) \<Rightarrow> rx \<Rightarrow> bool" where
  "needs q (Rx_Char p) = (\<forall>c. p c \<longrightarrow> q c)"
| "needs q (Rx_Seq a b) = (needs q a \<or> needs q b)"
| "needs q (Rx_Alt a b) = (needs q a \<and> needs q b)"
| "needs q r = False"

lemma needs_ends: "needs q r \<Longrightarrow> j \<in> set (ends r s i) \<Longrightarrow> \<exists>c \<in> set s. q c"
proof (induction r s i arbitrary: j rule: ends.induct)
  case (3 a b s i)
  then obtain k where "k \<in> set (ends a s i)" "j \<in> set (ends b s k)" by auto
  then show ?case using "3.IH" "3.prems"(1) by auto
qed (auto split: if_splits)

lemma needs_search: "needs q r \<Longrightarrow> list_all (\<lambda>c. \<not> q c) s \<Longrightarrow> \<not> rx_search r s"
proof
  assume n: "needs q r" and none: "list_all (\<lambda>c. \<not> q c) s" and "rx_search r s"
  then obtain i where "ends r s i \<noteq> []" by (auto simp: rx_search_def list_ex_iff)
  then obtain j where "j \<in> set (ends r s i)" by (cases "ends r s i") auto
  then show False using needs_ends [OF n] none by (auto simp: list_all_iff)
qed

lemma needs_seqs: "needs q (rx_seqs rs) \<longleftrightarrow> list_ex (needs q) rs"
  by (induction rs) simp_all

lemma needs_itext: "list_ex (\<lambda>c. lower_char c \<in> cs) s \<Longrightarrow> needs (\<lambda>c. lower_char c \<in> cs) (rx_itext s)"
  by (auto simp: rx_itext_def needs_seqs list_ex_iff)

lemma needs_text: "list_ex q s \<Longrightarrow> needs q (rx_text s)"
  by (auto simp: rx_text_def needs_seqs list_ex_iff)

lemma needs_class: "list_all q cs \<Longrightarrow> needs q (rx_class cs)"
  by (auto simp: rx_class_def list_all_iff)

end
