(* ===== verification/Memory_Facts.thy ===== *)
theory Memory_Facts
  imports Agent_Executor Py_Regex
begin

text \<open>
  \<open>kortny/memory/service.py\<close>: facts about a workspace, a channel or a user, that the agent proposes
  and a person confirms by a reaction to a Slack message; and the tools of
  \<open>kortny/tools/workspace_memory.py\<close>.

  A proposal is an entry in the event log of its task, whose payload is changed when it is decided.
  The rows of the facts are kept with the state the messages are posted in. The embedding index,
  which writes to a table of its own and raises nothing, is left out; a row lock has no effect on
  one transaction at a time. The order of the listings follows the collation of the database and is
  a parameter.
\<close>

section \<open>Rows\<close>

record memory_fact =
  mf_id :: uuid
  mf_installation :: uuid
  mf_scope_type :: string
  mf_scope_id :: "string option"
  mf_key :: string
  mf_value :: jobj
  mf_value_text :: "string option"
  mf_status :: string
  mf_source_kind :: string
  mf_source_task :: "uuid option"
  mf_source_event :: "nat option"
  mf_source_channel :: "string option"
  mf_source_ts :: "string option"
  mf_proposed_by :: string
  mf_proposed_reason :: "string option"
  mf_confidence :: "decimal option"
  mf_confidence_reason :: "string option"
  mf_confirmed_by :: "string option"
  mf_confirmed_at :: "timestamp option"
  mf_superseded_by :: "uuid option"
  mf_superseded_at :: "timestamp option"
  mf_forgotten_by :: "string option"
  mf_forgotten_at :: "timestamp option"
  mf_expires_at :: "timestamp option"
  mf_created_at :: timestamp
  mf_updated_at :: timestamp

text \<open>A proposal that waits for its reaction.\<close>

record pending_fact =
  pf_event :: nat
  pf_task :: uuid
  pf_installation :: uuid
  pf_scope_type :: string
  pf_scope_id :: "string option"
  pf_key :: string
  pf_value :: jobj
  pf_value_text :: "string option"
  pf_prompt_channel :: string
  pf_prompt_ts :: string
  pf_proposed_by :: string
  pf_status :: string

record mem_world =
  mw_post :: post_db
  mw_facts :: "memory_fact list"

record mem_env =
  me_poster :: "(slack_thread \<Rightarrow> string \<Rightarrow> string \<Rightarrow> (post_db, string) op) option"
  me_fresh :: "mem_world \<Rightarrow> uuid"
  me_collate :: "memory_fact list \<Rightarrow> memory_fact list"

definition mem_db :: "mem_world \<Rightarrow> db" where
  "mem_db w = pw_db (mw_post w)"

definition on_mem_post :: "(post_db, 'a) op \<Rightarrow> (mem_world, 'a) op" where
  "on_mem_post m = (\<lambda>w. case m (mw_post w) of (r, p) \<Rightarrow> (r, w\<lparr>mw_post := p\<rparr>))"

definition on_mem_db :: "(db, 'a) op \<Rightarrow> (mem_world, 'a) op" where
  "on_mem_db m = on_mem_post (on_task_db m)"

definition mem_now :: "mem_world \<Rightarrow> timestamp" where
  "mem_now w = db_now (mem_db w)"

definition mem_log :: "uuid \<Rightarrow> jobj \<Rightarrow> (mem_world, event) op" where
  "mem_log tid p = on_mem_db (append_event tid Log p)"

section \<open>Checks of the arguments\<close>

definition scope_types :: "string list" where
  "scope_types = [''workspace'', ''channel'', ''user'']"

definition state_statuses :: "string list" where
  "state_statuses = [''proposed'', ''active'', ''rejected'', ''superseded'', ''forgotten'']"

definition source_kinds :: "string list" where
  "source_kinds =
     [''user_explicit'', ''agent_proposed'', ''summarizer_proposed'', ''observer_proposed'', ''import'']"

definition service_error :: "string \<Rightarrow> py_error" where
  "service_error message = Raised ''WorkspaceStateServiceError'' message"

definition secret_error :: "string \<Rightarrow> py_error" where
  "secret_error reason = Raised ''WorkspaceStateSecretError'' reason"

definition validate_scope :: "string \<Rightarrow> string option \<Rightarrow> unit res" where
  "validate_scope scope_type scope_id =
     (if scope_type \<notin> set scope_types then Inl (ValueError (''Unsupported scope_type: '' @ scope_type))
      else if scope_type = ''workspace'' \<and> scope_id \<noteq> None
      then Inl (ValueError ''workspace scope requires scope_id=None'')
      else if scope_type \<in> {''channel'', ''user''} \<and> truthy scope_id = None
      then Inl (ValueError (scope_type @ '' scope requires scope_id''))
      else Inr ())"

definition validate_source_kind :: "string \<Rightarrow> string res" where
  "validate_source_kind kind =
     (if kind \<in> set source_kinds then Inr kind
      else Inl (ValueError (''Unsupported source_kind: '' @ kind)))"

definition normalize_key :: "string \<Rightarrow> string res" where
  "normalize_key key =
     (let k = replace_char (CHR '' '') (CHR ''_'') (casefold (strip key))
      in if k = [] then Inl (ValueError ''key is required'') else Inr k)"

text \<open>A score that is given is between 0 and 1.\<close>

definition optional_confidence_score :: "json \<Rightarrow> decimal option res" where
  "optional_confidence_score v =
     (if v = JNull then Inr None
      else
        (case dec_parse (py_str v) of
           None \<Rightarrow> Inl InvalidOperation
         | Some score \<Rightarrow>
             (case dec_less score dec_zero of
                Inl e \<Rightarrow> Inl e
              | Inr low \<Rightarrow>
                  (case dec_less (dec_of_int 1) score of
                     Inl e \<Rightarrow> Inl e
                   | Inr high \<Rightarrow>
                       if low \<or> high then Inl (ValueError ''confidence_score must be between 0 and 1'')
                       else Inr (Some score)))))"

section \<open>The text of a value\<close>

text \<open>\<open>json.dumps\<close> with \<open>sort_keys\<close>.\<close>

fun json_sorted :: "json \<Rightarrow> string" where
  "json_sorted JNull = ''null''"
| "json_sorted (JBool b) = (if b then ''true'' else ''false'')"
| "json_sorted (JInt i) = int_str i"
| "json_sorted (JFloat r) = r"
| "json_sorted (JStr s) = json_string_text s"
| "json_sorted (JArr xs) = ''['' @ join '', '' (map json_sorted xs) @ '']''"
| "json_sorted (JObj kvs) =
     ''{'' @ join '', '' (map (\<lambda>(k, t). json_string_text k @ '': '' @ t)
                 (sort_fields (map (\<lambda>kv. (fst kv, json_sorted (snd kv))) kvs))) @ ''}''"

definition value_text_of :: "jobj \<Rightarrow> string" where
  "value_text_of value =
     (case json_str (jget value ''text'') of
        Some s \<Rightarrow> s
      | None \<Rightarrow>
          (case json_str (jget value ''value'') of Some s \<Rightarrow> s | None \<Rightarrow> json_sorted (JObj value)))"

text \<open>The texts inside a value, blanks around them dropped, each with its path.\<close>

definition under :: "string \<Rightarrow> (string list \<times> string) list \<Rightarrow> (string list \<times> string) list" where
  "under k found = map (\<lambda>(path, s). (k # path, s)) found"

fun string_values :: "json \<Rightarrow> (string list \<times> string) list" where
  "string_values (JObj kvs) = concat (map (\<lambda>kv. under (fst kv) (string_values (snd kv))) kvs)"
| "string_values (JArr vs) =
     concat (map2 (\<lambda>i found. under (nat_str i) found) [0..<length vs] (map string_values vs))"
| "string_values (JStr s) = (if strip s = [] then [] else [([], strip s)])"
| "string_values v = []"

fun detail_values :: "json \<Rightarrow> (string list \<times> string) list" where
  "detail_values (JObj kvs) = concat (map (\<lambda>kv. under (fst kv) (detail_values (snd kv))) kvs)"
| "detail_values (JArr vs) = concat (map detail_values vs)"
| "detail_values (JStr s) = (if length (strip s) < 3 then [] else [([], strip s)])"
| "detail_values v = []"

definition generic_detail_keys :: "string list" where
  "generic_detail_keys = [''details'', ''preference'', ''preferences'', ''summary'', ''text'', ''value'']"

definition max_appended_details :: nat where
  "max_appended_details = 6"

definition humanize_key :: "string \<Rightarrow> string" where
  "humanize_key s = strip (replace_char (CHR ''-'') (CHR '' '') (replace_char (CHR ''_'') (CHR '' '') s))"

definition detail_label :: "string list \<Rightarrow> string option" where
  "detail_label path =
     (case map humanize_key (filter (\<lambda>p. p \<noteq> [] \<and> casefold p \<notin> set generic_detail_keys) path) of
        [] \<Rightarrow> None | words \<Rightarrow> Some (join '' '' words))"

definition detail_phrase :: "string list \<times> string \<Rightarrow> string" where
  "detail_phrase d = (case d of (path, s) \<Rightarrow>
     (case detail_label path of None \<Rightarrow> s | Some label \<Rightarrow> label @ '': '' @ s))"

text \<open>The details the text does not mention, at most six.\<close>

fun missing_phrases :: "string \<Rightarrow> string list \<Rightarrow> nat \<Rightarrow> (string list \<times> string) list \<Rightarrow> string list" where
  "missing_phrases s seen n [] = []"
| "missing_phrases s seen n (d # ds) =
     (if n = 0 then []
      else if casefold (snd d) \<in> set seen then missing_phrases s seen n ds
      else if contains (casefold (snd d)) (casefold s)
      then missing_phrases s (casefold (snd d) # seen) n ds
      else detail_phrase d # missing_phrases s (casefold (snd d) # seen) (n - 1) ds)"

definition faithful_value_text :: "string \<Rightarrow> jobj \<Rightarrow> string" where
  "faithful_value_text value_text value =
     (let s = (if strip value_text = [] then value_text_of value else strip value_text)
      in (case missing_phrases s [] max_appended_details (detail_values (JObj value)) of
            [] \<Rightarrow> s | phrases \<Rightarrow> s @ ''; '' @ join ''; '' phrases))"

section \<open>Secrets\<close>

definition secret_key_rx :: rx where
  "secret_key_rx = (let gap = rx_opt (rx_class ''_-'') in rx_alts
     [rx_seqs [rx_itext ''api'', gap, rx_itext ''key''],
      rx_seqs [rx_itext ''access'', gap, rx_itext ''token''],
      rx_seqs [rx_itext ''refresh'', gap, rx_itext ''token''],
      rx_seqs [rx_itext ''bearer'', gap, rx_itext ''token''],
      rx_seqs [rx_itext ''bot'', gap, rx_itext ''token''],
      rx_seqs [rx_itext ''client'', gap, rx_itext ''secret''],
      rx_seqs [rx_itext ''signing'', gap, rx_itext ''secret''],
      rx_seqs [rx_itext ''private'', gap, rx_itext ''key''],
      rx_itext ''password'', rx_itext ''passwd'', rx_itext ''secret'', rx_itext ''token''])"

definition secret_value_rx :: rx where
  "secret_value_rx = rx_alts
     [rx_seqs [rx_itext ''xox'', Rx_Char (\<lambda>c. lower_char c \<in> set ''baprs''), rx_text ''-'',
        rx_plus (rx_alnum ''-'')],
      rx_seqs [rx_itext ''xapp-'', rx_plus (rx_alnum ''-'')],
      rx_seqs [rx_itext ''-----BEGIN '', Rx_Star (Rx_Char (\<lambda>c. is_alpha c \<or> c = CHR '' '')),
        rx_itext ''PRIVATE KEY-----''],
      rx_seqs [rx_itext ''bearer'', rx_plus rx_spaces, rx_plus (rx_alnum ''._~+/-''),
        Rx_Star (rx_text ''='')],
      rx_seqs [Rx_Bound, rx_itext ''sk-'', rx_alnum [], rx_at_least 16 (rx_alnum ''_-''), Rx_Bound],
      rx_seqs [Rx_Bound, rx_plus (rx_alnum ''._%+-''), rx_text '':'', rx_at_least 12 (rx_alnum ''._~+/-''),
        Rx_Bound]]"

definition secret_assignment_rx :: rx where
  "secret_assignment_rx = rx_seqs
     [rx_alts [rx_seqs [rx_itext ''api'', rx_opt (rx_class ''_ -''), rx_itext ''key''], rx_itext ''token'',
        rx_itext ''secret'', rx_itext ''password''],
      Rx_Star rx_spaces, rx_class '':='', Rx_Star rx_spaces, rx_at_least 8 (Rx_Char (\<lambda>c. \<not> is_space c))]"

definition secret_text :: "string \<Rightarrow> bool" where
  "secret_text s \<longleftrightarrow> rx_search secret_value_rx s \<or> rx_search secret_assignment_rx s"

definition secret_in_value :: "string list \<times> string \<Rightarrow> string option" where
  "secret_in_value found = (case found of (path, s) \<Rightarrow>
     (let label = join ''.'' path in
      if label \<noteq> [] \<and> rx_search secret_key_rx label
      then Some (''value field '' @ repr_text label @ '' looks like a secret field'')
      else if secret_text s
      then Some (repr_text (if label = [] then ''value'' else label) @ '' looks like it contains a secret'')
      else None))"

fun first_reason :: "('a \<Rightarrow> string option) \<Rightarrow> 'a list \<Rightarrow> string option" where
  "first_reason f [] = None"
| "first_reason f (x # xs) = (case f x of Some r \<Rightarrow> Some r | None \<Rightarrow> first_reason f xs)"

definition secret_candidate_reason :: "string \<Rightarrow> jobj \<Rightarrow> string option \<Rightarrow> string option" where
  "secret_candidate_reason key value value_text =
     (if rx_search secret_key_rx key
      then Some (''memory key '' @ repr_text key @ '' looks like a secret field'')
      else
        (case first_reason secret_in_value (string_values (JObj value)) of
           Some r \<Rightarrow> Some r
         | None \<Rightarrow>
             (case truthy value_text of
                Some s \<Rightarrow> if secret_text s then Some ''value_text looks like it contains a secret'' else None
              | None \<Rightarrow> None)))"

section \<open>Proposals\<close>

definition pending_proposal_message :: string where
  "pending_proposal_message = ''workspace_state_proposal_created''"

definition scope_label :: "string \<Rightarrow> string" where
  "scope_label scope_type =
     (if scope_type = ''workspace'' then ''for this workspace''
      else if scope_type = ''channel'' then ''for this channel''
      else if scope_type = ''user'' then ''for you'' else ''here'')"

definition confirmation_prompt_text :: "string \<Rightarrow> string \<Rightarrow> string" where
  "confirmation_prompt_text scope_type value_text =
     ''Should I remember this '' @ scope_label scope_type @ ''?'' @ nl @ value_text @ nl @ nl @
     ''React with :white_check_mark: to save it or :no_entry_sign: to skip.''"

definition memory_thread :: "task \<Rightarrow> slack_thread res" where
  "memory_thread t =
     (case truthy (task_thread_ts t) of
        None \<Rightarrow> Inl (ValueError ''Task has no Slack thread timestamp'')
      | Some ts \<Rightarrow> Inr \<lparr>th_channel = t_channel t, th_thread_ts = Some ts, th_task = Some (t_id t),
                     th_assistant = is_assistant_task t\<rparr>)"

definition payload_str_of :: "jobj \<Rightarrow> string \<Rightarrow> string res" where
  "payload_str_of p k =
     (case json_str (jget p k) of
        Some (c # s) \<Rightarrow> Inr (c # s)
      | _ \<Rightarrow> Inl (service_error (''Pending proposal missing '' @ repr_text k)))"

definition payload_optional_str :: "jobj \<Rightarrow> string \<Rightarrow> string option res" where
  "payload_optional_str p k =
     (case jget p k of
        JNull \<Rightarrow> Inr None
      | JStr s \<Rightarrow> Inr (Some s)
      | _ \<Rightarrow> Inl (service_error (''Pending proposal has invalid '' @ repr_text k)))"

definition payload_mapping :: "jobj \<Rightarrow> string \<Rightarrow> jobj res" where
  "payload_mapping p k =
     (case json_obj (jget p k) of
        Some m \<Rightarrow> Inr m | None \<Rightarrow> Inl (service_error (''Pending proposal missing '' @ repr_text k)))"

definition parse_uuid :: "string \<Rightarrow> uuid res" where
  "parse_uuid s =
     (case uuid_parse s of Some u \<Rightarrow> Inr u
      | None \<Rightarrow> Inl (ValueError ''badly formed hexadecimal UUID string''))"

definition pending_from_event :: "event \<Rightarrow> (mem_world, pending_fact) op" where
  "pending_from_event e = (let p = e_payload e in
     seq (lifting (payload_str_of p ''source_task_id'')) (\<lambda>task_text.
     seq (lifting (parse_uuid task_text)) (\<lambda>tid.
     seq (lifting (payload_str_of p ''installation_id'')) (\<lambda>inst_text.
     seq (lifting (parse_uuid inst_text)) (\<lambda>inst.
     seq (lifting (payload_str_of p ''scope_type'')) (\<lambda>scope_type.
     seq (lifting (payload_optional_str p ''scope_id'')) (\<lambda>scope_id.
     seq (lifting (payload_str_of p ''key'')) (\<lambda>key.
     seq (lifting (payload_mapping p ''value_json'')) (\<lambda>value.
     seq (lifting (payload_optional_str p ''value_text'')) (\<lambda>value_text.
     seq (lifting (payload_str_of p ''prompt_channel_id'')) (\<lambda>ch.
     seq (lifting (payload_str_of p ''prompt_message_ts'')) (\<lambda>ts.
     seq (lifting (payload_str_of p ''proposed_by'')) (\<lambda>who.
     seq (lifting (payload_str_of p ''status'')) (\<lambda>status.
     returning \<lparr>pf_event = e_id e, pf_task = tid, pf_installation = inst, pf_scope_type = scope_type,
       pf_scope_id = scope_id, pf_key = key, pf_value = value, pf_value_text = value_text,
       pf_prompt_channel = ch, pf_prompt_ts = ts, pf_proposed_by = who, pf_status = status\<rparr>))))))))))))))"

text \<open>What is proposed.\<close>

record memory_proposal =
  mp_installation :: uuid
  mp_scope_type :: string
  mp_scope_id :: "string option"
  mp_key :: string
  mp_value :: jobj
  mp_task :: uuid
  mp_value_text :: "string option"
  mp_reason :: "string option"
  mp_confidence :: json
  mp_confidence_reason :: "string option"
  mp_source_kind :: string

definition blocked_payload :: "memory_proposal \<Rightarrow> string \<Rightarrow> string \<Rightarrow> jobj" where
  "blocked_payload pr key reason =
     [(''message'', JStr ''workspace_state_secret_blocked''),
      (''installation_id'', JStr (uuid_str (mp_installation pr))), (''scope_type'', JStr (mp_scope_type pr)),
      (''scope_id'', jopt_str (mp_scope_id pr)), (''key'', JStr key), (''reason'', JStr reason)]"

definition proposal_payload ::
  "memory_proposal \<Rightarrow> task \<Rightarrow> string \<Rightarrow> string \<Rightarrow> string \<Rightarrow> decimal option \<Rightarrow> string \<Rightarrow> jobj" where
  "proposal_payload pr t key kind readable confidence ts =
     [(''message'', JStr pending_proposal_message), (''status'', JStr ''pending''),
      (''installation_id'', JStr (uuid_str (mp_installation pr))), (''scope_type'', JStr (mp_scope_type pr)),
      (''scope_id'', jopt_str (mp_scope_id pr)), (''key'', JStr key),
      (''value_json'', JObj (mp_value pr)), (''value_text'', JStr readable), (''source_kind'', JStr kind),
      (''source_task_id'', JStr (uuid_str (mp_task pr))),
      (''source_slack_channel_id'', JStr (t_channel t)),
      (''source_slack_message_ts'', jopt_str (t_message_ts t)),
      (''prompt_channel_id'', JStr (t_channel t)), (''prompt_message_ts'', JStr ts),
      (''proposed_by'', JStr (t_user t)), (''proposed_reason'', jopt_str (mp_reason pr)),
      (''confidence_score'', case confidence of None \<Rightarrow> JNull | Some c \<Rightarrow> JStr (dec_str c)),
      (''confidence_reason'', jopt_str (mp_confidence_reason pr))]"

text \<open>The text shown for a proposal.\<close>

definition readable_text :: "memory_proposal \<Rightarrow> string" where
  "readable_text pr =
     faithful_value_text
       (case truthy (mp_value_text pr) of Some s \<Rightarrow> s | None \<Rightarrow> value_text_of (mp_value pr)) (mp_value pr)"

definition post_proposal ::
  "(slack_thread \<Rightarrow> string \<Rightarrow> string \<Rightarrow> (post_db, string) op) \<Rightarrow> memory_proposal \<Rightarrow> task \<Rightarrow> string \<Rightarrow>
   string \<Rightarrow> (mem_world, pending_fact) op" where
  "post_proposal poster pr t kind key =
     seq (lifting (optional_confidence_score (mp_confidence pr))) (\<lambda>confidence.
     seq (lifting (memory_thread t)) (\<lambda>th.
     seq (on_mem_post (poster th (confirmation_prompt_text (mp_scope_type pr) (readable_text pr))
            ''memory_confirmation'')) (\<lambda>ts.
     seq (mem_log (t_id t) (proposal_payload pr t key kind (readable_text pr) confidence ts)) (\<lambda>e.
     pending_from_event e))))"

definition propose_fact :: "mem_env \<Rightarrow> memory_proposal \<Rightarrow> (mem_world, pending_fact) op" where
  "propose_fact env pr =
     (case me_poster env of
        None \<Rightarrow> raising (service_error ''A poster is required to propose a fact'')
      | Some poster \<Rightarrow>
          seq (reading (\<lambda>w. task_get (mp_task pr) (mem_db w))) (\<lambda>found.
          case found of
            None \<Rightarrow> raising (LookupErr (''Task not found: '' @ uuid_str (mp_task pr)))
          | Some t \<Rightarrow>
              seq (guarding (t_installation t = mp_installation pr)
                     (ValueError ''source_task_id does not belong to installation_id'')) (\<lambda>_.
              seq (lifting (validate_scope (mp_scope_type pr) (mp_scope_id pr))) (\<lambda>_.
              seq (lifting (validate_source_kind (mp_source_kind pr))) (\<lambda>kind.
              seq (lifting (normalize_key (mp_key pr))) (\<lambda>key.
              case secret_candidate_reason key (mp_value pr) (Some (readable_text pr)) of
                Some reason \<Rightarrow>
                  seq (mem_log (t_id t) (blocked_payload pr key reason)) (\<lambda>_.
                  raising (secret_error reason))
              | None \<Rightarrow> post_proposal poster pr t kind key))))))"

section \<open>The open proposal of a message\<close>

definition is_open_proposal :: "string \<Rightarrow> string option \<Rightarrow> event \<Rightarrow> bool" where
  "is_open_proposal ts ch e \<longleftrightarrow> e_type e = Log \<and>
     json_text (jget (e_payload e) ''message'') = Some pending_proposal_message \<and>
     json_text (jget (e_payload e) ''status'') = Some ''pending'' \<and>
     json_text (jget (e_payload e) ''prompt_message_ts'') = Some ts \<and>
     (ch = None \<or> json_text (jget (e_payload e) ''prompt_channel_id'') = ch)"

text \<open>The newest one; a message can have several.\<close>

definition open_proposal :: "string \<Rightarrow> string option \<Rightarrow> db \<Rightarrow> event option" where
  "open_proposal ts ch d =
     first_by (\<lambda>e. (- e_created_at e, - int (e_id e))) (filter (is_open_proposal ts ch) (db_events d))"

definition pending_proposal_event :: "string \<Rightarrow> string option \<Rightarrow> (mem_world, event) op" where
  "pending_proposal_event ts ch =
     seq (reading (\<lambda>w. open_proposal ts ch (mem_db w))) (\<lambda>found.
     case found of
       None \<Rightarrow> raising (LookupErr (''No pending workspace_state proposal for prompt '' @ ts))
     | Some e \<Rightarrow> returning e)"

text \<open>The payload and the task of an entry are overwritten.\<close>

definition rewrite_event :: "nat \<Rightarrow> (event \<Rightarrow> event) \<Rightarrow> (mem_world, unit) op" where
  "rewrite_event eid f =
     on_mem_db (writing (\<lambda>d. d\<lparr>db_events := row_upd e_id eid f (db_events d)\<rparr>))"

section \<open>Facts\<close>

text \<open>The rows of one key in one scope.\<close>

definition in_slot :: "uuid \<Rightarrow> string \<Rightarrow> string option \<Rightarrow> string \<Rightarrow> memory_fact \<Rightarrow> bool" where
  "in_slot inst scope_type scope_id key f \<longleftrightarrow> mf_installation f = inst \<and>
     mf_scope_type f = scope_type \<and> mf_scope_id f = scope_id \<and> mf_key f = key"

definition active_in_slot :: "uuid \<Rightarrow> string \<Rightarrow> string option \<Rightarrow> string \<Rightarrow> memory_fact \<Rightarrow> bool" where
  "active_in_slot inst scope_type scope_id key f \<longleftrightarrow>
     in_slot inst scope_type scope_id key f \<and> mf_status f = ''active''"

definition supersede_fact :: "timestamp \<Rightarrow> memory_fact \<Rightarrow> memory_fact" where
  "supersede_fact now f = f\<lparr>mf_status := ''superseded'', mf_superseded_at := Some now, mf_updated_at := now\<rparr>"

text \<open>The constraints of the table: the values of its columns, and one active fact without an expiry in a
  slot, where a missing scope identifier counts as the empty one.\<close>

definition clashes :: "memory_fact \<Rightarrow> memory_fact \<Rightarrow> bool" where
  "clashes f g \<longleftrightarrow> mf_installation g = mf_installation f \<and> mf_scope_type g = mf_scope_type f \<and>
     or_else (mf_scope_id g) [] = or_else (mf_scope_id f) [] \<and> mf_key g = mf_key f \<and>
     mf_status g = ''active'' \<and> mf_expires_at g = None"

definition fact_violation :: "memory_fact \<Rightarrow> memory_fact list \<Rightarrow> string option" where
  "fact_violation f rows =
     (if mf_scope_type f \<notin> set scope_types then Some ''ck_workspace_state_scope_type''
      else if mf_status f \<notin> set state_statuses then Some ''ck_workspace_state_status''
      else if mf_source_kind f \<notin> set source_kinds then Some ''ck_workspace_state_source_kind''
      else if (mf_scope_type f = ''workspace'') \<noteq> (mf_scope_id f = None)
      then Some ''ck_workspace_state_scope_id''
      else if mf_id f \<in> mf_id ` set rows then Some ''workspace_state_pkey''
      else if mf_status f = ''active'' \<and> mf_expires_at f = None \<and> list_ex (clashes f) rows
      then Some ''idx_workspace_state_active_unique''
      else None)"

definition insert_fact :: "memory_fact \<Rightarrow> (mem_world, unit) op" where
  "insert_fact f =
     seq (reading (\<lambda>w. fact_violation f (mw_facts w))) (\<lambda>bad.
     case bad of
       Some c \<Rightarrow> raising (IntegrityError c)
     | None \<Rightarrow> writing (\<lambda>w. w\<lparr>mw_facts := mw_facts w @ [f]\<rparr>))"

text \<open>A fact takes the place of the active ones of its slot; it is made after they are superseded.\<close>

definition replace_active ::
  "uuid \<Rightarrow> string \<Rightarrow> string option \<Rightarrow> string \<Rightarrow> (mem_world, memory_fact) op \<Rightarrow> (mem_world, memory_fact) op" where
  "replace_active inst scope_type scope_id key build = (let old = active_in_slot inst scope_type scope_id key in
     seq (reading (\<lambda>w. map mf_id (filter old (mw_facts w)))) (\<lambda>previous.
     seq (writing (\<lambda>w. w\<lparr>mw_facts := map (\<lambda>g. if old g then supersede_fact (mem_now w) g else g) (mw_facts w)\<rparr>)) (\<lambda>_.
     seq build (\<lambda>f.
     seq (insert_fact f) (\<lambda>_.
     seq (writing (\<lambda>w. w\<lparr>mw_facts :=
       map (\<lambda>g. if mf_id g \<in> set previous then g\<lparr>mf_superseded_by := Some (mf_id f)\<rparr> else g) (mw_facts w)\<rparr>)) (\<lambda>_.
     returning f))))))"

definition confirmed_fact ::
  "uuid \<Rightarrow> event \<Rightarrow> pending_fact \<Rightarrow> string \<Rightarrow> timestamp \<Rightarrow> (mem_world, memory_fact) op" where
  "confirmed_fact fid e pending who now = (let p = e_payload e in
     seq (lifting (payload_str_of p ''source_kind'')) (\<lambda>kind.
     seq (lifting (payload_optional_str p ''source_slack_channel_id'')) (\<lambda>ch.
     seq (lifting (payload_optional_str p ''source_slack_message_ts'')) (\<lambda>ts.
     seq (lifting (payload_optional_str p ''proposed_reason'')) (\<lambda>reason.
     seq (lifting (optional_confidence_score (jget p ''confidence_score''))) (\<lambda>confidence.
     seq (lifting (payload_optional_str p ''confidence_reason'')) (\<lambda>confidence_reason.
     returning
       \<lparr>mf_id = fid, mf_installation = pf_installation pending, mf_scope_type = pf_scope_type pending,
        mf_scope_id = pf_scope_id pending, mf_key = pf_key pending, mf_value = pf_value pending,
        mf_value_text = pf_value_text pending, mf_status = ''active'', mf_source_kind = kind,
        mf_source_task = Some (pf_task pending), mf_source_event = Some (e_id e), mf_source_channel = ch,
        mf_source_ts = ts, mf_proposed_by = pf_proposed_by pending, mf_proposed_reason = reason,
        mf_confidence = confidence, mf_confidence_reason = confidence_reason, mf_confirmed_by = Some who,
        mf_confirmed_at = Some now, mf_superseded_by = None, mf_superseded_at = None,
        mf_forgotten_by = None, mf_forgotten_at = None, mf_expires_at = None, mf_created_at = now,
        mf_updated_at = now\<rparr>)))))))"

definition decided_payload :: "jobj \<Rightarrow> string \<Rightarrow> string \<Rightarrow> timestamp \<Rightarrow> jobj \<Rightarrow> jobj" where
  "decided_payload p verb who now extra =
     jmerge p ([(''status'', JStr verb), (verb @ ''_by_user_id'', JStr who),
       (verb @ ''_at'', JStr (isoformat now))] @ extra)"

text \<open>Confirming: whoever reacts, the fact is stored and the proposal closed.\<close>

definition confirm_fact :: "mem_env \<Rightarrow> string \<Rightarrow> string \<Rightarrow> string option \<Rightarrow> (mem_world, memory_fact) op" where
  "confirm_fact env ts who ch =
     seq (pending_proposal_event ts ch) (\<lambda>e.
     seq (pending_from_event e) (\<lambda>pending.
     seq (reading (\<lambda>w. (mem_now w, me_fresh env w))) (\<lambda>(now, fid).
     seq (replace_active (pf_installation pending) (pf_scope_type pending) (pf_scope_id pending) (pf_key pending)
            (confirmed_fact fid e pending who now)) (\<lambda>f.
     seq (rewrite_event (e_id e) (\<lambda>r. r\<lparr>e_payload := decided_payload (e_payload e) ''confirmed'' who now
            [(''workspace_state_id'', JStr (uuid_str fid))], e_task := pf_task pending\<rparr>)) (\<lambda>_.
     seq (mem_log (pf_task pending)
            [(''message'', JStr ''workspace_state_proposal_confirmed''), (''prompt_message_ts'', JStr ts),
             (''workspace_state_id'', JStr (uuid_str fid)), (''confirmed_by_user_id'', JStr who)]) (\<lambda>_.
     returning f))))))"

definition reject_fact :: "string \<Rightarrow> string \<Rightarrow> string option \<Rightarrow> (mem_world, pending_fact) op" where
  "reject_fact ts who ch =
     seq (pending_proposal_event ts ch) (\<lambda>e.
     seq (pending_from_event e) (\<lambda>pending.
     seq (reading mem_now) (\<lambda>now. let p = decided_payload (e_payload e) ''rejected'' who now [] in
     seq (rewrite_event (e_id e) (\<lambda>r. r\<lparr>e_payload := p\<rparr>)) (\<lambda>_.
     seq (mem_log (pf_task pending)
            [(''message'', JStr ''workspace_state_proposal_rejected''), (''prompt_message_ts'', JStr ts),
             (''rejected_by_user_id'', JStr who)]) (\<lambda>_.
     pending_from_event (e\<lparr>e_payload := p\<rparr>))))))"

text \<open>A trusted fact is stored without a prompt.\<close>

definition trusted_fact ::
  "uuid \<Rightarrow> memory_proposal \<Rightarrow> string \<Rightarrow> string \<Rightarrow> string \<Rightarrow> timestamp \<Rightarrow> (mem_world, memory_fact) op" where
  "trusted_fact fid pr kind key activated_by now =
     seq (lifting (optional_confidence_score (mp_confidence pr))) (\<lambda>confidence.
     returning
       \<lparr>mf_id = fid, mf_installation = mp_installation pr, mf_scope_type = mp_scope_type pr,
        mf_scope_id = mp_scope_id pr, mf_key = key, mf_value = mp_value pr,
        mf_value_text = Some (readable_text pr), mf_status = ''active'', mf_source_kind = kind,
        mf_source_task = Some (mp_task pr), mf_source_event = None, mf_source_channel = None,
        mf_source_ts = None, mf_proposed_by = activated_by, mf_proposed_reason = None,
        mf_confidence = confidence, mf_confidence_reason = mp_confidence_reason pr,
        mf_confirmed_by = Some activated_by, mf_confirmed_at = Some now, mf_superseded_by = None,
        mf_superseded_at = None, mf_forgotten_by = None, mf_forgotten_at = None, mf_expires_at = None,
        mf_created_at = now, mf_updated_at = now\<rparr>)"

definition set_active_fact :: "mem_env \<Rightarrow> memory_proposal \<Rightarrow> string \<Rightarrow> (mem_world, memory_fact) op" where
  "set_active_fact env pr activated_by =
     seq (lifting (validate_scope (mp_scope_type pr) (mp_scope_id pr))) (\<lambda>_.
     seq (lifting (validate_source_kind (mp_source_kind pr))) (\<lambda>kind.
     seq (lifting (normalize_key (mp_key pr))) (\<lambda>key.
     seq (reading (\<lambda>w. (mem_now w, me_fresh env w))) (\<lambda>(now, fid).
     seq (replace_active (mp_installation pr) (mp_scope_type pr) (mp_scope_id pr) key
            (trusted_fact fid pr kind key activated_by now)) (\<lambda>f.
     seq (mem_log (mp_task pr)
            [(''message'', JStr ''workspace_state_fact_auto_activated''),
             (''installation_id'', JStr (uuid_str (mp_installation pr))),
             (''scope_type'', JStr (mp_scope_type pr)), (''scope_id'', jopt_str (mp_scope_id pr)),
             (''key'', JStr key), (''workspace_state_id'', JStr (uuid_str fid)),
             (''source_kind'', JStr kind)]) (\<lambda>_.
     returning f))))))"

section \<open>Reading and forgetting\<close>

definition is_current :: "uuid \<Rightarrow> timestamp \<Rightarrow> memory_fact \<Rightarrow> bool" where
  "is_current inst now f \<longleftrightarrow> mf_installation f = inst \<and> mf_status f = ''active'' \<and>
     (case mf_expires_at f of None \<Rightarrow> True | Some at \<Rightarrow> now < at)"

definition get_fact ::
  "uuid \<Rightarrow> string \<Rightarrow> string option \<Rightarrow> string \<Rightarrow> (mem_world, memory_fact option) op" where
  "get_fact inst scope_type scope_id key =
     seq (lifting (validate_scope scope_type scope_id)) (\<lambda>_.
     seq (lifting (normalize_key key)) (\<lambda>k.
     reading (\<lambda>w. first_by (\<lambda>f. (- mf_created_at f, - int (mf_id f)))
       (filter (\<lambda>f. is_current inst (mem_now w) f \<and> in_slot inst scope_type scope_id k f) (mw_facts w)))))"

text \<open>A scope identifier without a scope type is refused.\<close>

definition scoped ::
  "string option \<Rightarrow> string option \<Rightarrow> (memory_fact \<Rightarrow> bool) res" where
  "scoped scope_type scope_id =
     (case scope_type of
        Some st \<Rightarrow>
          (case validate_scope st scope_id of
             Inl e \<Rightarrow> Inl e
           | Inr _ \<Rightarrow> Inr (\<lambda>f. mf_scope_type f = st \<and> mf_scope_id f = scope_id))
      | None \<Rightarrow>
          (if scope_id \<noteq> None then Inl (ValueError ''scope_id requires scope_type'') else Inr (\<lambda>f. True)))"

definition list_facts ::
  "mem_env \<Rightarrow> uuid \<Rightarrow> string option \<Rightarrow> string option \<Rightarrow> (mem_world, memory_fact list) op" where
  "list_facts env inst scope_type scope_id =
     seq (lifting (scoped scope_type scope_id)) (\<lambda>here.
     reading (\<lambda>w. me_collate env (filter (\<lambda>f. is_current inst (mem_now w) f \<and> here f) (mw_facts w))))"

text \<open>All rows of a key, also superseded and forgotten ones, in the order of their confirmation; every row
  of the service is confirmed.\<close>

definition fact_history ::
  "uuid \<Rightarrow> string \<Rightarrow> string option \<Rightarrow> string option \<Rightarrow> (mem_world, memory_fact list) op" where
  "fact_history inst key scope_type scope_id =
     seq (lifting (normalize_key key)) (\<lambda>k.
     seq (lifting (scoped scope_type scope_id)) (\<lambda>here.
     reading (\<lambda>w. sort_key (\<lambda>f. (case mf_confirmed_at f of None \<Rightarrow> (1, 0) | Some at \<Rightarrow> (0, at), mf_created_at f,
         int (mf_id f)) :: (int \<times> int) \<times> int \<times> int)
       (filter (\<lambda>f. mf_installation f = inst \<and> mf_key f = k \<and> here f) (mw_facts w)))))"

definition forgotten_fact :: "string \<Rightarrow> timestamp \<Rightarrow> memory_fact \<Rightarrow> memory_fact" where
  "forgotten_fact who now f =
     f\<lparr>mf_status := ''forgotten'', mf_forgotten_by := Some who, mf_forgotten_at := Some now,
       mf_updated_at := now\<rparr>"

definition log_forgotten :: "string \<Rightarrow> memory_fact \<Rightarrow> (mem_world, unit) op" where
  "log_forgotten who f =
     (case mf_source_task f of
        None \<Rightarrow> returning ()
      | Some tid \<Rightarrow>
          seq (mem_log tid
                [(''message'', JStr ''workspace_state_fact_forgotten''),
                 (''workspace_state_id'', JStr (uuid_str (mf_id f))),
                 (''forgotten_by_user_id'', JStr who)]) (\<lambda>_. returning ()))"

definition forget_payload :: "string \<Rightarrow> string option \<Rightarrow> string \<Rightarrow> string \<Rightarrow> memory_fact list \<Rightarrow> jobj" where
  "forget_payload scope_type scope_id key who rows =
     [(''message'', JStr ''workspace_state_forget_requested''), (''scope_type'', JStr scope_type),
      (''scope_id'', jopt_str scope_id), (''key'', JStr key), (''forgotten_by_user_id'', JStr who),
      (''forgotten_count'', JInt (int (length rows))),
      (''workspace_state_ids'', JArr (map (\<lambda>f. JStr (uuid_str (mf_id f))) rows))]"

definition forget_fact ::
  "uuid \<Rightarrow> string \<Rightarrow> string option \<Rightarrow> string \<Rightarrow> string \<Rightarrow> uuid option \<Rightarrow> (mem_world, nat) op" where
  "forget_fact inst scope_type scope_id key who audit =
     seq (lifting (validate_scope scope_type scope_id)) (\<lambda>_.
     seq (lifting (normalize_key key)) (\<lambda>k. let here = active_in_slot inst scope_type scope_id k in
     seq (reading (\<lambda>w. filter here (mw_facts w))) (\<lambda>rows.
     seq (writing (\<lambda>w. w\<lparr>mw_facts := map (\<lambda>f. if here f then forgotten_fact who (mem_now w) f else f) (mw_facts w)\<rparr>)) (\<lambda>_.
     seq (for_each (log_forgotten who) rows) (\<lambda>_.
     seq (case audit of
            None \<Rightarrow> returning ()
          | Some tid \<Rightarrow> seq (mem_log tid (forget_payload scope_type scope_id k who rows)) (\<lambda>_. returning ())) (\<lambda>_.
     returning (length rows)))))))"

definition record_inspection ::
  "uuid \<Rightarrow> string \<Rightarrow> string option \<Rightarrow> string option \<Rightarrow> bool \<Rightarrow> nat \<Rightarrow> (mem_world, unit) op" where
  "record_inspection tid scope_type scope_id key include_history count =
     seq (lifting (validate_scope scope_type scope_id)) (\<lambda>_.
     seq (lifting (case key of None \<Rightarrow> Inr JNull
           | Some k \<Rightarrow> (case normalize_key k of Inl e \<Rightarrow> Inl e | Inr n \<Rightarrow> Inr (JStr n)))) (\<lambda>k.
     seq (mem_log tid
            [(''message'', JStr ''workspace_state_inspected''), (''scope_type'', JStr scope_type),
             (''scope_id'', jopt_str scope_id), (''key'', k), (''include_history'', JBool include_history),
             (''count'', JInt (int count))]) (\<lambda>_.
     returning ())))"

end
