(* ===== verification/Memory_Tools.thy ===== *)
theory Memory_Tools
  imports Memory_Facts
begin

text \<open>
  \<open>kortny/tools/workspace_memory.py\<close>: the tools by which the agent proposes, reads, lists and forgets
  facts in the scopes of its task, and what they answer.
\<close>

definition required_string :: "jobj \<Rightarrow> string \<Rightarrow> string res" where
  "required_string args k =
     (case json_str (jget args k) of
        Some s \<Rightarrow> if strip s = [] then Inl (ValueError (k @ '' is required'')) else Inr (strip s)
      | None \<Rightarrow> Inl (ValueError (k @ '' is required'')))"

definition optional_text :: "json \<Rightarrow> string option res" where
  "optional_text v =
     (case v of
        JNull \<Rightarrow> Inr None
      | JStr s \<Rightarrow> Inr (truthy (Some (strip s)))
      | _ \<Rightarrow> Inl (ValueError ''optional string argument must be a string''))"

definition optional_bool :: "json \<Rightarrow> bool res" where
  "optional_bool v =
     (case v of
        JBool b \<Rightarrow> Inr b
      | JNull \<Rightarrow> Inr False
      | _ \<Rightarrow> Inl (ValueError ''optional boolean argument must be a boolean''))"

definition required_object :: "jobj \<Rightarrow> string \<Rightarrow> jobj res" where
  "required_object args k =
     (case json_obj (jget args k) of
        Some m \<Rightarrow> Inr m | None \<Rightarrow> Inl (ValueError (k @ '' must be a JSON object'')))"

definition scope_id_for_task :: "string \<Rightarrow> task \<Rightarrow> string option res" where
  "scope_id_for_task scope t =
     (if scope = ''workspace'' then Inr None
      else if scope = ''channel'' then Inr (Some (t_channel t))
      else if scope = ''user'' then Inr (Some (t_user t))
      else Inl (ValueError (''Unsupported scope: '' @ scope)))"

section \<open>Proposing\<close>

definition tool_proposal ::
  "task \<Rightarrow> jobj \<Rightarrow> (mem_world, memory_proposal) op" where
  "tool_proposal t args =
     seq (lifting (required_string args ''scope'')) (\<lambda>scope.
     seq (lifting (required_string args ''key'')) (\<lambda>key.
     seq (lifting (required_object args ''value'')) (\<lambda>value.
     seq (lifting (optional_text (jget args ''value_text''))) (\<lambda>value_text.
     seq (lifting (optional_text (jget args ''reason''))) (\<lambda>reason.
     seq (lifting (optional_text (jget args ''confidence_reason''))) (\<lambda>confidence_reason.
     seq (lifting (scope_id_for_task scope t)) (\<lambda>scope_id.
     returning
       \<lparr>mp_installation = t_installation t, mp_scope_type = scope, mp_scope_id = scope_id, mp_key = key,
        mp_value = value, mp_task = t_id t, mp_value_text = value_text, mp_reason = reason,
        mp_confidence = jget args ''confidence_score'', mp_confidence_reason = confidence_reason,
        mp_source_kind = ''agent_proposed''\<rparr>)))))))"

definition pending_output :: "pending_fact \<Rightarrow> jobj" where
  "pending_output p =
     [(''status'', JStr ''pending_confirmation''), (''scope'', JStr (pf_scope_type p)),
      (''scope_id'', jopt_str (pf_scope_id p)), (''key'', JStr (pf_key p)), (''value'', JObj (pf_value p)),
      (''value_text'', jopt_str (pf_value_text p)), (''prompt_channel_id'', JStr (pf_prompt_channel p)),
      (''prompt_message_ts'', JStr (pf_prompt_ts p)),
      (''message'', JStr (''A confirmation prompt was posted. The fact is not saved '' @
         ''until the user reacts with :white_check_mark:.''))]"

definition blocked_output :: "string \<Rightarrow> jobj" where
  "blocked_output reason =
     [(''status'', JStr ''blocked''),
      (''error'', JObj
        [(''code'', JStr ''secret_not_stored''),
         (''message'', JStr (''Kortny must not store API keys, tokens, passwords, '' @
            ''or other secrets in memory. Ask the user to put '' @
            ''secrets in environment variables or a secret manager.'')),
         (''reason'', JStr reason), (''recoverable'', JBool True)])]"

text \<open>Only the refusal of a secret is an answer; every other exception is the tool's.\<close>

definition remember_tool :: "mem_env \<Rightarrow> task \<Rightarrow> jobj \<Rightarrow> (mem_world, jobj) op" where
  "remember_tool env t args =
     seq (tool_proposal t args) (\<lambda>pr.
     catching (seq (propose_fact env pr) (\<lambda>p. returning (pending_output p)))
       (\<lambda>e. case e of
          Raised kind reason \<Rightarrow>
            if kind = ''WorkspaceStateSecretError'' then returning (blocked_output reason) else raising e
        | _ \<Rightarrow> raising e))"

section \<open>Reading\<close>

definition jopt_time :: "timestamp option \<Rightarrow> json" where
  "jopt_time x = (case x of None \<Rightarrow> JNull | Some at \<Rightarrow> JStr (isoformat at))"

definition fact_source :: "memory_fact \<Rightarrow> jobj" where
  "fact_source f =
     [(''source_task_id'', jopt_str (map_option uuid_str (mf_source_task f))),
      (''source_event_id'', jopt_int (map_option int (mf_source_event f))),
      (''source_slack_channel_id'', jopt_str (mf_source_channel f)),
      (''source_slack_message_ts'', jopt_str (mf_source_ts f)), (''proposed_by'', JStr (mf_proposed_by f)),
      (''proposed_reason'', jopt_str (mf_proposed_reason f)),
      (''confidence_reason'', jopt_str (mf_confidence_reason f)),
      (''confirmed_by_user_id'', jopt_str (mf_confirmed_by f)),
      (''confirmed_at'', jopt_time (mf_confirmed_at f))]"

definition fact_head :: "memory_fact \<Rightarrow> jobj" where
  "fact_head f =
     [(''id'', JStr (uuid_str (mf_id f))), (''scope'', JStr (mf_scope_type f)),
      (''scope_id'', jopt_str (mf_scope_id f)), (''key'', JStr (mf_key f)), (''value'', JObj (mf_value f)),
      (''value_text'', jopt_str (mf_value_text f))]"

definition fact_output :: "memory_fact \<Rightarrow> jobj" where
  "fact_output f =
     fact_head f @ [(''status'', JStr (mf_status f)), (''source_kind'', JStr (mf_source_kind f))] @
     fact_source f @
     [(''created_at'', JStr (isoformat (mf_created_at f))), (''updated_at'', JStr (isoformat (mf_updated_at f)))]"

definition recall_tool :: "task \<Rightarrow> jobj \<Rightarrow> (mem_world, jobj) op" where
  "recall_tool t args =
     seq (lifting (required_string args ''scope'')) (\<lambda>scope.
     seq (lifting (required_string args ''key'')) (\<lambda>key.
     seq (lifting (scope_id_for_task scope t)) (\<lambda>scope_id.
     seq (get_fact (t_installation t) scope scope_id key) (\<lambda>found.
     returning
       (case found of
          None \<Rightarrow> [(''found'', JBool False), (''scope'', JStr scope), (''scope_id'', jopt_str scope_id),
                   (''key'', JStr key)]
        | Some f \<Rightarrow> (''found'', JBool True) # fact_head f @ fact_source f)))))"

definition inspected_facts ::
  "mem_env \<Rightarrow> task \<Rightarrow> string \<Rightarrow> string option \<Rightarrow> string option \<Rightarrow> bool \<Rightarrow> (mem_world, memory_fact list) op" where
  "inspected_facts env t scope scope_id key include_history =
     (case key of
        Some k \<Rightarrow>
          if include_history then fact_history (t_installation t) k (Some scope) scope_id
          else seq (get_fact (t_installation t) scope scope_id k) (\<lambda>found.
               returning (case found of None \<Rightarrow> [] | Some f \<Rightarrow> [f]))
      | None \<Rightarrow> list_facts env (t_installation t) (Some scope) scope_id)"

definition inspect_tool :: "mem_env \<Rightarrow> task \<Rightarrow> jobj \<Rightarrow> (mem_world, jobj) op" where
  "inspect_tool env t args =
     seq (lifting (required_string args ''scope'')) (\<lambda>scope.
     seq (lifting (optional_text (jget args ''key''))) (\<lambda>key.
     seq (lifting (optional_bool (jget args ''include_history''))) (\<lambda>include_history.
     seq (lifting (scope_id_for_task scope t)) (\<lambda>scope_id.
     seq (inspected_facts env t scope scope_id key include_history) (\<lambda>facts.
     seq (record_inspection (t_id t) scope scope_id key include_history (length facts)) (\<lambda>_.
     returning
       [(''scope'', JStr scope), (''scope_id'', jopt_str scope_id), (''key'', jopt_str key),
        (''include_history'', JBool include_history), (''count'', JInt (int (length facts))),
        (''facts'', JArr (map (\<lambda>f. JObj (fact_output f)) facts))]))))))"

definition forget_tool :: "task \<Rightarrow> jobj \<Rightarrow> (mem_world, jobj) op" where
  "forget_tool t args =
     seq (lifting (required_string args ''scope'')) (\<lambda>scope.
     seq (lifting (required_string args ''key'')) (\<lambda>key.
     seq (lifting (scope_id_for_task scope t)) (\<lambda>scope_id.
     seq (forget_fact (t_installation t) scope scope_id key (t_user t) (Some (t_id t))) (\<lambda>n.
     returning
       [(''scope'', JStr scope), (''scope_id'', jopt_str scope_id), (''key'', JStr key),
        (''forgotten_count'', JInt (int n)),
        (''message'', JStr (if n = 0 then ''No active memory fact matched that scope and key.''
                          else ''Forgot the active memory fact.''))]))))"

end
