(* ===== verification/Memory_Properties.thy ===== *)
theory Memory_Properties
  imports Memory_Tools Executor_Properties
begin

text \<open>
  What the memory promises: one active fact per key and scope, a confirmed proposal is what is read
  back until it is replaced or forgotten, and what happens when a task proposes twice.
\<close>

section \<open>One active fact\<close>

definition actives :: "uuid \<Rightarrow> string \<Rightarrow> string option \<Rightarrow> string \<Rightarrow> mem_world \<Rightarrow> memory_fact list" where
  "actives inst scope_type scope_id key w = filter (active_in_slot inst scope_type scope_id key) (mw_facts w)"

definition facts_ok :: "mem_world \<Rightarrow> bool" where
  "facts_ok w \<longleftrightarrow> distinct (map mf_id (mw_facts w)) \<and>
     (\<forall>f \<in> set (mw_facts w). (mf_scope_type f = ''workspace'') = (mf_scope_id f = None)) \<and>
     (\<forall>inst st sid key. length (actives inst st sid key w) \<le> 1)"

text \<open>The facts change only so that they stay well formed, no row is removed or changes its slot or its
  value, and an inactive row stays inactive.\<close>

definition same_content :: "memory_fact \<Rightarrow> memory_fact \<Rightarrow> bool" where
  "same_content f g \<longleftrightarrow> mf_id g = mf_id f \<and> mf_installation g = mf_installation f \<and>
     mf_scope_type g = mf_scope_type f \<and> mf_scope_id g = mf_scope_id f \<and> mf_key g = mf_key f \<and>
     mf_value g = mf_value f \<and> mf_value_text g = mf_value_text f \<and>
     (mf_status f \<noteq> ''active'' \<longrightarrow> mf_status g = mf_status f)"

definition facts_kept :: "mem_world \<Rightarrow> mem_world \<Rightarrow> bool" where
  "facts_kept w w' \<longleftrightarrow> (facts_ok w \<longrightarrow> facts_ok w') \<and>
     length (mw_facts w) \<le> length (mw_facts w') \<and>
     (\<forall>i < length (mw_facts w). same_content (mw_facts w ! i) (mw_facts w' ! i))"

lemma same_content_refl: "same_content f f"
  by (simp add: same_content_def)

lemma same_content_trans: "same_content f g \<Longrightarrow> same_content g h \<Longrightarrow> same_content f h"
  by (auto simp: same_content_def)

interpretation facts: frame facts_ok facts_kept
proof unfold_locales
  fix w w' w'' :: mem_world
  show "facts_kept w w" by (simp add: facts_kept_def same_content_refl)
  assume kept: "facts_kept w w'" "facts_kept w' w''"
  have "same_content (mw_facts w ! i) (mw_facts w'' ! i)" if "i < length (mw_facts w)" for i
    using kept that same_content_trans unfolding facts_kept_def by (meson order_less_le_trans)
  then show "facts_kept w w''" using kept unfolding facts_kept_def by auto
qed (simp add: facts_kept_def)

lemma facts_same: "mw_facts w' = mw_facts w \<Longrightarrow> facts_kept w w'"
  by (simp add: facts_kept_def facts_ok_def actives_def same_content_refl)

lemma facts_on_post: "facts.tracks (on_mem_post m)"
  by (rule facts.tracksI) (auto simp: on_mem_post_def intro!: facts_same split: prod.splits)

lemma facts_on_db: "facts.tracks (on_mem_db m)" "facts.tracks (mem_log tid p)" "facts.tracks (rewrite_event eid f)"
  by (simp_all add: on_mem_db_def mem_log_def rewrite_event_def facts_on_post)

lemma facts_proposals: "facts.tracks (pending_from_event e)" "facts.tracks (pending_proposal_event ts ch)"
  unfolding pending_from_event_def pending_proposal_event_def Let_def
  by (auto intro!: facts.tracks_seq split: option.splits)

lemmas facts_steps = facts.tracks_seq facts_on_post facts_on_db facts_proposals facts.tracks_catching

lemma facts_propose: "facts.tracks (propose_fact env pr)"
  unfolding propose_fact_def post_proposal_def by (auto intro!: facts_steps split: option.splits)

lemma facts_reject: "facts.tracks (reject_fact ts who ch)"
  unfolding reject_fact_def Let_def by (auto intro!: facts_steps)

text \<open>A step that rewrites rows in place.\<close>

lemma facts_map:
  assumes "\<And>f. f \<in> set (mw_facts w) \<Longrightarrow> same_content f (g f)"
  shows "facts_kept w (w\<lparr>mw_facts := map g (mw_facts w)\<rparr>)"
proof -
  have ids: "map (mf_id \<circ> g) (mw_facts w) = map mf_id (mw_facts w)"
    using assms by (auto simp: same_content_def)
  have fewer: "length (filter (active_in_slot inst st sid key) (map g xs)) \<le> length (filter (active_in_slot inst st sid key) xs)"
    if "set xs \<subseteq> set (mw_facts w)" for xs inst st sid key
    using that
  proof (induction xs)
    case (Cons f xs)
    then have "same_content f (g f)" using assms by simp
    then have "active_in_slot inst st sid key (g f) \<Longrightarrow> active_in_slot inst st sid key f"
      by (auto simp: same_content_def active_in_slot_def in_slot_def)
    then show ?case using Cons by auto
  qed simp
  have few: "length (actives inst st sid key (w\<lparr>mw_facts := map g (mw_facts w)\<rparr>)) \<le> length (actives inst st sid key w)"
    for inst st sid key
    using fewer [of "mw_facts w"] by (simp add: actives_def)
  have "facts_ok (w\<lparr>mw_facts := map g (mw_facts w)\<rparr>)" if ok: "facts_ok w"
    unfolding facts_ok_def
  proof (intro conjI allI)
    show "distinct (map mf_id (mw_facts (w\<lparr>mw_facts := map g (mw_facts w)\<rparr>)))"
      using ok by (simp add: ids facts_ok_def)
    show "\<forall>f \<in> set (mw_facts (w\<lparr>mw_facts := map g (mw_facts w)\<rparr>)). (mf_scope_type f = ''workspace'') = (mf_scope_id f = None)"
      using ok assms by (auto simp: facts_ok_def same_content_def)
    show "length (actives inst st sid key (w\<lparr>mw_facts := map g (mw_facts w)\<rparr>)) \<le> 1" for inst st sid key
      using ok few le_trans unfolding facts_ok_def by blast
  qed
  then show ?thesis using assms by (auto simp: facts_kept_def)
qed

text \<open>Superseding empties the slot.\<close>

lemma supersede_same: "same_content f (if active_in_slot inst st sid key f then supersede_fact now f else f)"
  by (simp add: same_content_def supersede_fact_def active_in_slot_def)

lemma supersede_empties:
  "actives inst st sid key (w\<lparr>mw_facts := map (\<lambda>g. if active_in_slot inst st sid key g then supersede_fact now g else g)
     (mw_facts w)\<rparr>) = []"
  by (auto simp: actives_def filter_empty_conv active_in_slot_def supersede_fact_def)

text \<open>A row that takes an empty slot.\<close>

lemma facts_insert:
  assumes "actives (mf_installation f) (mf_scope_type f) (mf_scope_id f) (mf_key f) w = []"
    and "mf_id f \<notin> mf_id ` set (mw_facts w)" and "(mf_scope_type f = ''workspace'') = (mf_scope_id f = None)"
  shows "facts_kept w (w\<lparr>mw_facts := mw_facts w @ [f]\<rparr>)"
proof -
  have "length (actives inst st sid key (w\<lparr>mw_facts := mw_facts w @ [f]\<rparr>)) \<le> 1"
    if "length (actives inst st sid key w) \<le> 1" for inst st sid key
    using that assms(1) by (auto simp: actives_def active_in_slot_def in_slot_def)
  then show ?thesis
    using assms(2,3) by (auto simp: facts_kept_def facts_ok_def nth_append same_content_refl)
qed

text \<open>What makes the new row of a slot.\<close>

definition builds :: "uuid \<Rightarrow> string \<Rightarrow> string option \<Rightarrow> string \<Rightarrow> (mem_world, memory_fact) op \<Rightarrow> bool" where
  "builds inst st sid key m \<longleftrightarrow> (\<forall>w r w'. m w = (r, w') \<longrightarrow> w' = w \<and>
     (\<forall>f. r = Inr f \<longrightarrow> active_in_slot inst st sid key f \<and> mf_expires_at f = None))"

lemma builds_confirmed:
  "builds (pf_installation p) (pf_scope_type p) (pf_scope_id p) (pf_key p) (confirmed_fact fid e p who now)"
  by (auto simp: builds_def confirmed_fact_def Let_def seq_apply active_in_slot_def in_slot_def lifting_def
      split: prod.splits sum.splits)

lemma builds_trusted:
  "builds (mp_installation pr) (mp_scope_type pr) (mp_scope_id pr) key (trusted_fact fid pr kind key by_whom now)"
  by (auto simp: builds_def trusted_fact_def seq_apply active_in_slot_def in_slot_def lifting_def
      split: prod.splits sum.splits)

text \<open>The states a replacement goes through.\<close>

definition superseded_in :: "uuid \<Rightarrow> string \<Rightarrow> string option \<Rightarrow> string \<Rightarrow> mem_world \<Rightarrow> mem_world" where
  "superseded_in inst st sid key w = w\<lparr>mw_facts :=
     map (\<lambda>g. if active_in_slot inst st sid key g then supersede_fact (mem_now w) g else g) (mw_facts w)\<rparr>"

definition linked_to :: "uuid \<Rightarrow> uuid list \<Rightarrow> mem_world \<Rightarrow> mem_world" where
  "linked_to fid previous w = w\<lparr>mw_facts :=
     map (\<lambda>g. if mf_id g \<in> set previous then g\<lparr>mf_superseded_by := Some fid\<rparr> else g) (mw_facts w)\<rparr>"

lemma replace_active_cases:
  assumes "builds inst st sid key build" and "replace_active inst st sid key build w = (r, w')"
  shows "(\<exists>e. r = Inl e \<and> w' = superseded_in inst st sid key w) \<or>
    (\<exists>f. r = Inr f \<and> active_in_slot inst st sid key f \<and> mf_expires_at f = None \<and>
       build (superseded_in inst st sid key w) = (Inr f, superseded_in inst st sid key w) \<and>
       fact_violation f (mw_facts (superseded_in inst st sid key w)) = None \<and>
       w' = linked_to (mf_id f) (map mf_id (actives inst st sid key w))
         ((superseded_in inst st sid key w)\<lparr>mw_facts := mw_facts (superseded_in inst st sid key w) @ [f]\<rparr>))"
proof -
  let ?w1 = "superseded_in inst st sid key w"
  obtain x where x: "build ?w1 = (x, ?w1)" "\<And>f. x = Inr f \<Longrightarrow> active_in_slot inst st sid key f \<and> mf_expires_at f = None"
    using assms(1) unfolding builds_def by (cases "build ?w1") metis
  show ?thesis
    using assms(2) x(1) x(2)
    by (cases x) (auto simp: replace_active_def Let_def seq_apply insert_fact_def superseded_in_def linked_to_def
        actives_def split: option.splits)
qed

lemma facts_superseded: "facts_kept w (superseded_in inst st sid key w)"
  unfolding superseded_in_def by (rule facts_map) (rule supersede_same)

lemma facts_linked: "facts_kept w (linked_to fid previous w)"
  unfolding linked_to_def by (rule facts_map) (simp add: same_content_def)

lemma violation_None:
  assumes "fact_violation f rows = None"
  shows "mf_id f \<notin> mf_id ` set rows \<and> (mf_scope_type f = ''workspace'') = (mf_scope_id f = None)"
  using assms by (auto simp: fact_violation_def split: if_splits)

lemma superseded_empty:
  "active_in_slot inst st sid key f \<Longrightarrow>
   actives (mf_installation f) (mf_scope_type f) (mf_scope_id f) (mf_key f) (superseded_in inst st sid key w) = []"
  (is "_ \<Longrightarrow> ?thesis")
proof -
  assume "active_in_slot inst st sid key f"
  then have "mf_installation f = inst" "mf_scope_type f = st" "mf_scope_id f = sid" "mf_key f = key"
    by (simp_all add: active_in_slot_def in_slot_def)
  then show ?thesis by (simp add: superseded_in_def supersede_empties)
qed

lemma facts_replace: "builds inst st sid key build \<Longrightarrow> facts.tracks (replace_active inst st sid key build)"
proof (rule facts.tracksI)
  fix w r w' assume b: "builds inst st sid key build" and run: "replace_active inst st sid key build w = (r, w')"
  from replace_active_cases [OF b run] show "facts_kept w w'"
  proof (elim disjE exE conjE)
    fix f assume f: "active_in_slot inst st sid key f"
      "fact_violation f (mw_facts (superseded_in inst st sid key w)) = None"
      and w': "w' = linked_to (mf_id f) (map mf_id (actives inst st sid key w))
         ((superseded_in inst st sid key w)\<lparr>mw_facts := mw_facts (superseded_in inst st sid key w) @ [f]\<rparr>)"
    let ?w1 = "superseded_in inst st sid key w"
    have "facts_kept ?w1 (?w1\<lparr>mw_facts := mw_facts ?w1 @ [f]\<rparr>)"
      by (rule facts_insert [OF superseded_empty [OF f(1)]]) (use violation_None [OF f(2)] in simp_all)
    then show "facts_kept w w'"
      unfolding w' using facts.rel_trans facts_superseded facts_linked by blast
  qed (simp add: facts_superseded)
qed

lemma facts_confirm: "facts.tracks (confirm_fact env ts who ch)"
  unfolding confirm_fact_def
  by (auto intro!: facts_steps facts_replace builds_confirmed split: prod.splits)

lemma facts_set_active: "facts.tracks (set_active_fact env pr by_whom)"
  unfolding set_active_fact_def
  by (auto intro!: facts_steps facts_replace builds_trusted split: prod.splits)

lemma facts_for_each: "(\<And>x. facts.tracks (g x)) \<Longrightarrow> facts.tracks (for_each g xs)"
  by (induction xs) (auto intro: facts.tracks_seq)

lemma facts_forget: "facts.tracks (forget_fact inst st sid key who audit)"
proof -
  have "facts.tracks (writing (\<lambda>w. w\<lparr>mw_facts := map (\<lambda>f. if active_in_slot inst st sid k f
      then forgotten_fact who (mem_now w) f else f) (mw_facts w)\<rparr>))" for k
    by (rule facts.tracksI)
      (auto intro!: facts_map simp: same_content_def forgotten_fact_def active_in_slot_def)
  then show ?thesis
    unfolding forget_fact_def Let_def log_forgotten_def
    by (auto intro!: facts_steps facts_for_each split: option.splits)
qed

section \<open>History is kept\<close>

inductive mem_step :: "mem_env \<Rightarrow> mem_world \<Rightarrow> mem_world \<Rightarrow> bool" for env where
  proposed: "propose_fact env pr w = (r, w') \<Longrightarrow> mem_step env w w'"
| confirmed: "confirm_fact env ts who ch w = (r, w') \<Longrightarrow> mem_step env w w'"
| rejected: "reject_fact ts who ch w = (r, w') \<Longrightarrow> mem_step env w w'"
| activated: "set_active_fact env pr by_whom w = (r, w') \<Longrightarrow> mem_step env w w'"
| forgotten: "forget_fact inst st sid key who audit w = (r, w') \<Longrightarrow> mem_step env w w'"
| elsewhere: "mw_facts w' = mw_facts w \<Longrightarrow> mem_step env w w'"

lemma facts_mem_step: "mem_step env w w' \<Longrightarrow> facts_ok w \<Longrightarrow> facts_kept w w'"
  by (induction rule: mem_step.induct)
    (auto dest: facts.tracksD [OF facts_propose] facts.tracksD [OF facts_confirm] facts.tracksD [OF facts_reject]
       facts.tracksD [OF facts_set_active] facts.tracksD [OF facts_forget] intro: facts_same)

lemma facts_mem_steps: "(mem_step env)\<^sup>*\<^sup>* w w' \<Longrightarrow> facts_ok w \<Longrightarrow> facts_kept w w'"
proof (induction rule: rtranclp_induct)
  case (step y z)
  then show ?case using facts_mem_step facts.rel_trans facts.rel_ok by blast
qed (simp add: facts.rel_refl)

text \<open>C28. Whatever is proposed, confirmed, rejected, activated and forgotten, also when an operation
  fails half way: a key has one active fact in a scope at most, no fact is ever removed or changed in
  its key, scope or value, and one that is superseded or forgotten stays so.\<close>

theorem memory_keeps_history:
  assumes "facts_ok w" and "(mem_step env)\<^sup>*\<^sup>* w w'"
  shows "length (actives inst st sid key w') \<le> 1 \<and> length (mw_facts w) \<le> length (mw_facts w') \<and>
    (\<forall>i < length (mw_facts w). same_content (mw_facts w ! i) (mw_facts w' ! i))"
  using facts_mem_steps [OF assms(2,1)] assms(1) by (auto simp: facts_kept_def facts_ok_def)

section \<open>From the proposal to the fact\<close>

definition is_pure :: "('s, 'a) op \<Rightarrow> bool" where
  "is_pure m \<longleftrightarrow> (\<exists>r. \<forall>w. m w = (r, w))"

lemma pure_steps: "is_pure (lifting r)" "is_pure (returning x)"
  by (auto simp: is_pure_def lifting_def returning_def raising_def split: sum.split)

lemma pure_seq:
  assumes m: "is_pure m" and k: "\<And>x. is_pure (k x)"
  shows "is_pure (seq m k)"
proof -
  obtain r where r: "\<And>w. m w = (r, w)" using m by (auto simp: is_pure_def)
  show ?thesis
  proof (cases r)
    case (Inl e)
    then show ?thesis by (auto simp: is_pure_def seq_apply r)
  next
    case (Inr x)
    then show ?thesis using k [of x] by (simp add: is_pure_def seq_apply r)
  qed
qed

lemma pending_pure: "pending_from_event e w = (r, w') \<Longrightarrow> w' = w \<and> pending_from_event e v = (r, v)"
proof -
  have "is_pure (pending_from_event e)"
    unfolding pending_from_event_def Let_def by (intro pure_seq pure_steps)
  then show "pending_from_event e w = (r, w') \<Longrightarrow> w' = w \<and> pending_from_event e v = (r, v)"
    unfolding is_pure_def by fastforce
qed

lemma propose_InrD:
  assumes "propose_fact env pr w = (Inr p, w')"
  shows "\<exists>poster t kind key confidence th ts w1 e. me_poster env = Some poster \<and>
    task_get (mp_task pr) (mem_db w) = Some t \<and> t_installation t = mp_installation pr \<and>
    validate_scope (mp_scope_type pr) (mp_scope_id pr) = Inr () \<and>
    validate_source_kind (mp_source_kind pr) = Inr kind \<and> normalize_key (mp_key pr) = Inr key \<and>
    optional_confidence_score (mp_confidence pr) = Inr confidence \<and> memory_thread t = Inr th \<and>
    on_mem_post (poster th (confirmation_prompt_text (mp_scope_type pr) (readable_text pr)) ''memory_confirmation'') w
      = (Inr ts, w1) \<and>
    mem_log (t_id t) (proposal_payload pr t key kind (readable_text pr) confidence ts) w1 = (Inr e, w') \<and>
    pending_from_event e w' = (Inr p, w')"
proof -
  obtain poster where poster: "me_poster env = Some poster"
    using assms by (cases "me_poster env") (auto simp: propose_fact_def)
  obtain t where t: "task_get (mp_task pr) (mem_db w) = Some t"
    using assms poster by (cases "task_get (mp_task pr) (mem_db w)") (auto simp: propose_fact_def seq_apply)
  obtain kind key where checks: "t_installation t = mp_installation pr" "validate_scope (mp_scope_type pr) (mp_scope_id pr) = Inr ()"
    "validate_source_kind (mp_source_kind pr) = Inr kind" "normalize_key (mp_key pr) = Inr key"
    and posted: "post_proposal poster pr t kind key w = (Inr p, w')"
    using assms poster t
    by (auto simp: propose_fact_def seq_apply lifting_def guarding_def
        split: if_splits sum.splits option.splits prod.splits)
  obtain confidence wa where c: "lifting (optional_confidence_score (mp_confidence pr)) w = (Inr confidence, wa)"
    and posted: "seq (lifting (memory_thread t)) (\<lambda>th.
     seq (on_mem_post (poster th (confirmation_prompt_text (mp_scope_type pr) (readable_text pr)) ''memory_confirmation'')) (\<lambda>ts.
     seq (mem_log (t_id t) (proposal_payload pr t key kind (readable_text pr) confidence ts)) pending_from_event)) wa = (Inr p, w')"
    using posted unfolding post_proposal_def by (rule seq_InrE)
  obtain th wb where th: "lifting (memory_thread t) wa = (Inr th, wb)"
    and posted: "seq (on_mem_post (poster th (confirmation_prompt_text (mp_scope_type pr) (readable_text pr)) ''memory_confirmation'')) (\<lambda>ts.
     seq (mem_log (t_id t) (proposal_payload pr t key kind (readable_text pr) confidence ts)) pending_from_event) wb = (Inr p, w')"
    using posted by (rule seq_InrE)
  obtain ts w1 where ts: "on_mem_post (poster th (confirmation_prompt_text (mp_scope_type pr) (readable_text pr)) ''memory_confirmation'') wb
      = (Inr ts, w1)"
    and posted: "seq (mem_log (t_id t) (proposal_payload pr t key kind (readable_text pr) confidence ts)) pending_from_event w1 = (Inr p, w')"
    using posted by (rule seq_InrE)
  obtain e v where e: "mem_log (t_id t) (proposal_payload pr t key kind (readable_text pr) confidence ts) w1 = (Inr e, v)"
    and p: "pending_from_event e v = (Inr p, w')"
    using posted by (rule seq_InrE)
  have "wa = w" "wb = wa" "v = w'"
    using lifting_InrD [OF c] lifting_InrD [OF th] pending_pure [OF p] by blast+
  then show ?thesis
    using poster t checks lifting_InrD [OF c] lifting_InrD [OF th] ts e p by blast
qed

text \<open>What is read back from the payload of a proposal.\<close>

lemma pending_of_proposal:
  assumes "pending_from_event e w = (Inr p, w')" and "e_payload e = proposal_payload pr t key kind readable confidence ts"
  shows "pf_key p = key \<and> pf_value p = mp_value pr \<and> pf_scope_type p = mp_scope_type pr \<and>
    pf_scope_id p = mp_scope_id pr \<and> pf_prompt_ts p = ts \<and> pf_prompt_channel p = t_channel t \<and>
    pf_value_text p = Some readable \<and> uuid_parse (uuid_str (mp_task pr)) = Some (pf_task p) \<and>
    uuid_parse (uuid_str (mp_installation pr)) = Some (pf_installation p) \<and> pf_proposed_by p = t_user t"
  using assms(1) unfolding pending_from_event_def Let_def assms(2) proposal_payload_def
  by (auto elim!: seq_InrE simp: payload_str_of_def payload_optional_str_def payload_mapping_def parse_uuid_def
      jopt_str_def split: option.splits list.splits)

section \<open>Identifiers in texts\<close>

lemma length_digits: "2 \<le> b \<Longrightarrow> n < b ^ k \<Longrightarrow> length (digits_base b n) \<le> max 1 k"
proof (induction b n arbitrary: k rule: digits_base.induct)
  case (1 b n)
  show ?case
  proof (cases "b < 2 \<or> n < b")
    case True
    then show ?thesis using 1 by (subst digits_base.simps) auto
  next
    case False
    then obtain j where k: "k = Suc j" using 1 by (cases k) auto
    have "n div b < b ^ j" using 1(3) False by (simp add: k less_mult_imp_div_less mult.commute)
    moreover have "j \<noteq> 0" using 1(3) False by (cases j) (auto simp: k)
    ultimately show ?thesis using 1(1) [of j] False 1(2) by (subst digits_base.simps) (auto simp: k)
  qed
qed

lemma remove_all_id: "sub \<noteq> [] \<Longrightarrow> hd sub \<notin> set s \<Longrightarrow> remove_all sub 0 s = s"
  by (induction s) (auto simp: starts_with_iff neq_Nil_conv)

lemma uuid_hex_chars: "c \<in> set (uuid_hex u) \<Longrightarrow> \<exists>d < 16. c = digit_char d"
proof -
  assume "c \<in> set (uuid_hex u)"
  then have "c = CHR ''0'' \<or> c \<in> set (digits_base 16 u)" by (auto simp: uuid_hex_def pad_left_def)
  then show ?thesis
  proof
    assume "c = CHR ''0''"
    then show ?thesis by (intro exI [of _ 0]) (simp add: digit_char_def)
  qed (use digits_base_chars [of 16] in auto)
qed

lemma hex_digit_facts:
  "d < 16 \<Longrightarrow> digit_char d \<notin> set ''u{}'' \<and> lower_char (digit_char d) = digit_char d"
proof -
  have "list_all (\<lambda>d. digit_char d \<notin> set ''u{}'' \<and> lower_char (digit_char d) = digit_char d) [0..<16]"
    by code_simp
  then show "d < 16 \<Longrightarrow> digit_char d \<notin> set ''u{}'' \<and> lower_char (digit_char d) = digit_char d"
    by (simp add: list_all_iff)
qed

lemma uuid_str_chars: "c \<in> set (uuid_str u) \<Longrightarrow> c = CHR ''-'' \<or> c \<in> set (uuid_hex u)"
  by (auto simp: uuid_str_def Let_def dest: in_set_takeD in_set_dropD)

lemma uuid_parse_str: "u < 16 ^ 32 \<Longrightarrow> uuid_parse (uuid_str u) = Some u"
proof -
  assume small: "u < 16 ^ 32"
  have plain: "c \<notin> set ''u{}''" if "c \<in> set (uuid_str u)" for c
    using uuid_str_chars [OF that]
  proof
    assume "c \<in> set (uuid_hex u)"
    then obtain d where "d < 16" "c = digit_char d" using uuid_hex_chars by blast
    then show ?thesis using hex_digit_facts [of d] by simp
  qed simp
  have removed: "remove_all ''urn:'' 0 (uuid_str u) = uuid_str u" "remove_all ''uuid:'' 0 (uuid_str u) = uuid_str u"
    using plain [of "CHR ''u''"] by (auto intro!: remove_all_id)
  have keep: "dropWhile (\<lambda>c. c \<in> set ''{}'') s = s" if "\<And>c. c \<in> set s \<Longrightarrow> c \<notin> set ''u{}''" for s :: string
    using that by (cases s) auto
  have inner: "rev (dropWhile (\<lambda>c. c \<in> set ''{}'') (rev (dropWhile (\<lambda>c. c \<in> set ''{}'') (uuid_str u)))) = uuid_str u"
    using plain keep [of "uuid_str u"] keep [of "rev (uuid_str u)"] by simp
  have lower: "casefold (uuid_hex u) = uuid_hex u"
    unfolding casefold_def by (rule map_idI) (use uuid_hex_chars hex_digit_facts in fastforce)
  have digits: "list_all (\<lambda>c. digit_value c \<noteq> None) (uuid_hex u)"
    using uuid_hex_chars by (fastforce simp: list_all_iff)
  have "length (uuid_hex u) = 32"
    using length_digits [of 16 u 32] small by (simp add: uuid_hex_def pad_left_def)
  then show ?thesis
    using digits unfolding uuid_parse_def Let_def removed inner uuid_str_hex lower
    by (simp add: uuid_hex_def digits_value_base)
qed

section \<open>The newest proposal\<close>

definition log_dated :: "db \<Rightarrow> bool" where
  "log_dated d \<longleftrightarrow> distinct (map e_id (db_events d)) \<and>
     (\<forall>e \<in> set (db_events d). e_created_at e \<le> db_now d \<and> e_id e < db_next_event d)"

lemma first_by_last:
  fixes key :: "'r \<Rightarrow> 'k::linorder"
  assumes "\<And>x. x \<in> set xs \<Longrightarrow> key y < key x"
  shows "first_by key (xs @ [y]) = Some y"
proof (cases "sort_key key (xs @ [y])")
  case Nil
  then have "set (sort_key key (xs @ [y])) = {}" by (simp only: list.set)
  then show ?thesis by simp
next
  case (Cons z zs)
  have "sorted (map key (z # zs))" using sorted_sort_key [of key "xs @ [y]"] by (simp only: Cons)
  moreover have "set (z # zs) = set (xs @ [y])" using set_sort [of key "xs @ [y]"] by (simp only: Cons)
  ultimately have "key z \<le> key y" "z = y \<or> z \<in> set xs" by auto
  then have "z = y" using assms [of z] by fastforce
  then show ?thesis by (simp add: first_by_def Cons)
qed

lemma newest_open:
  assumes "log_dated (add_event tid Log p d)" and "is_open_proposal ts ch (new_event tid Log p d)"
  shows "open_proposal ts ch (add_event tid Log p d) = Some (new_event tid Log p d)"
proof -
  have older: "e_created_at e \<le> db_now d \<and> e_id e < db_next_event d" if "e \<in> set (db_events d)" for e
    using assms(1) that by (fastforce simp: log_dated_def add_event_def new_event_def less_Suc_eq image_iff)
  have "(- e_created_at (new_event tid Log p d), - int (e_id (new_event tid Log p d))) < (- e_created_at e, - int (e_id e))"
    if "e \<in> set (filter (is_open_proposal ts ch) (db_events d))" for e
    using older [of e] that by (auto simp: new_event_def less_prod_def')
  then have "first_by (\<lambda>e. (- e_created_at e, - int (e_id e)))
      (filter (is_open_proposal ts ch) (db_events d) @ [new_event tid Log p d]) = Some (new_event tid Log p d)"
    by (rule first_by_last)
  then show ?thesis
    unfolding open_proposal_def using assms(2) by (simp add: add_event_def)
qed

lemma mem_log_InrD:
  assumes "mem_log tid p w = (Inr e, w')"
  shows "e = new_event tid Log p (mem_db w) \<and> mem_db w' = add_event tid Log p (mem_db w) \<and>
    task_get tid (mem_db w) \<noteq> None \<and> mw_facts w' = mw_facts w \<and>
    ob_effects (mw_post w') = ob_effects (mw_post w)"
  using assms
  by (cases "task_get tid (mem_db w)")
    (auto simp: mem_log_def on_mem_db_def on_mem_post_def on_task_db_def mem_db_def append_event_simp
       append_event_missing)

lemma mem_log_apply:
  "task_get tid (mem_db w) \<noteq> None \<Longrightarrow> \<exists>e w'. mem_log tid p w = (Inr e, w')"
  by (auto simp: mem_log_def on_mem_db_def on_mem_post_def on_task_db_def mem_db_def append_event_simp)

section \<open>What is confirmed is read back\<close>

definition fresh_facts :: "mem_env \<Rightarrow> bool" where
  "fresh_facts env \<longleftrightarrow> (\<forall>w. me_fresh env w \<notin> mf_id ` set (mw_facts w))"

lemma valid_scope:
  "validate_scope st sid = Inr () \<Longrightarrow> st \<in> set scope_types \<and> (st = ''workspace'') = (sid = None)"
  by (auto simp: validate_scope_def scope_types_def truthy_def split: if_splits option.splits)

lemma no_clash:
  assumes ok: "facts_ok w" and f: "active_in_slot inst st sid key f"
    and scope: "validate_scope st sid = Inr ()"
  shows "\<not> list_ex (clashes f) (mw_facts (superseded_in inst st sid key w))"
proof
  let ?w = "superseded_in inst st sid key w"
  assume "list_ex (clashes f) (mw_facts ?w)"
  then obtain g where g: "g \<in> set (mw_facts ?w)" "clashes f g" by (auto simp: list_ex_iff)
  have "facts_ok ?w" using facts.rel_ok [OF ok facts_superseded] .
  then have "(mf_scope_type g = ''workspace'') = (mf_scope_id g = None)" using g(1) by (auto simp: facts_ok_def)
  moreover have "mf_scope_type g = st" "or_else (mf_scope_id g) [] = or_else sid []"
    using g(2) f by (auto simp: clashes_def active_in_slot_def in_slot_def)
  ultimately have "mf_scope_id g = sid"
    using scope by (auto simp: validate_scope_def scope_types_def or_else_def truthy_def split: if_splits option.splits)
  then have "g \<in> set (actives inst st sid key ?w)"
    using g f by (auto simp: actives_def clashes_def active_in_slot_def in_slot_def)
  then show False by (simp add: superseded_in_def supersede_empties)
qed

text \<open>A score that was accepted is printed into the proposal and accepted again.\<close>

lemma score_in_range:
  assumes "optional_confidence_score v = Inr (Some score)"
  shows "\<exists>s c x. score = Dec s c x \<and> dec_less score dec_zero = Inr False \<and> dec_less (dec_of_int 1) score = Inr False"
  using assms
  by (cases score) (auto simp: optional_confidence_score_def dec_zero_def dec_of_int_def
      split: if_splits option.splits sum.splits)

lemma score_again:
  assumes "optional_confidence_score v = Inr confidence"
  shows "optional_confidence_score (case confidence of None \<Rightarrow> JNull | Some c \<Rightarrow> JStr (dec_str c)) = Inr confidence"
proof (cases confidence)
  case (Some score)
  then obtain s c x where parts: "score = Dec s c x" "dec_less score dec_zero = Inr False"
    "dec_less (dec_of_int 1) score = Inr False"
    using score_in_range assms by blast
  have "dec_parse (dec_str score) = Some score" unfolding parts(1) by (rule dec_parse_str)
  then show ?thesis using parts(2,3) by (simp add: optional_confidence_score_def py_str_def Some del: dec_str.simps)
qed (simp add: optional_confidence_score_def)

lemma confirmed_fact_of_proposal:
  assumes "e_payload e = proposal_payload pr t key kind readable confidence ts"
    and "validate_source_kind (mp_source_kind pr) = Inr kind"
    and "optional_confidence_score (mp_confidence pr) = Inr confidence"
  shows "\<exists>f. confirmed_fact fid e p who now w = (Inr f, w) \<and> mf_id f = fid \<and> mf_value f = pf_value p \<and>
    mf_value_text f = pf_value_text p \<and> mf_confirmed_by f = Some who \<and> mf_created_at f = now \<and>
    mf_source_kind f = kind \<and> mf_expires_at f = None \<and>
    active_in_slot (pf_installation p) (pf_scope_type p) (pf_scope_id p) (pf_key p) f"
proof -
  have "kind \<noteq> []" using assms(2) by (auto simp: validate_source_kind_def source_kinds_def split: if_splits)
  then obtain c k where "kind = c # k" by (cases kind) auto
  then show ?thesis
    using score_again [OF assms(3)]
    by (simp add: confirmed_fact_def assms(1) proposal_payload_def Let_def payload_str_of_def
        payload_optional_str_def jopt_str_def seq_apply active_in_slot_def in_slot_def
        split: option.split)
qed

text \<open>Confirming an open proposal of a task that exists.\<close>

lemma confirm_proposal:
  assumes "facts_ok w" and "fresh_facts env"
    and e: "open_proposal ts' ch (mem_db w) = Some e" "e_payload e = proposal_payload pr t key kind readable confidence ts"
    and score: "optional_confidence_score (mp_confidence pr) = Inr confidence"
    and p: "pending_from_event e w = (Inr p, w)" and there: "task_get (pf_task p) (mem_db w) \<noteq> None"
    and kind_ok: "validate_source_kind (mp_source_kind pr) = Inr kind"
    and scope_ok: "validate_scope (pf_scope_type p) (pf_scope_id p) = Inr ()"
  shows "\<exists>f w'. confirm_fact env ts' who ch w = (Inr f, w') \<and> facts_ok w' \<and> f \<in> set (mw_facts w') \<and>
    mf_value f = pf_value p \<and> mf_value_text f = pf_value_text p \<and> mf_confirmed_by f = Some who \<and>
    mf_expires_at f = None \<and> active_in_slot (pf_installation p) (pf_scope_type p) (pf_scope_id p) (pf_key p) f"
proof -
  let ?w1 = "superseded_in (pf_installation p) (pf_scope_type p) (pf_scope_id p) (pf_key p) w"
  let ?fid = "me_fresh env w"
  obtain f where f: "confirmed_fact ?fid e p who (mem_now w) ?w1 = (Inr f, ?w1)" "mf_id f = ?fid"
    "mf_value f = pf_value p" "mf_value_text f = pf_value_text p" "mf_confirmed_by f = Some who"
    "mf_source_kind f = kind" "mf_expires_at f = None"
    "active_in_slot (pf_installation p) (pf_scope_type p) (pf_scope_id p) (pf_key p) f"
    using confirmed_fact_of_proposal [OF e(2) kind_ok score] by metis
  have "map mf_id (mw_facts ?w1) = map mf_id (mw_facts w)"
    by (simp add: superseded_in_def supersede_fact_def)
  then have ids: "mf_id ` set (mw_facts ?w1) = mf_id ` set (mw_facts w)" by (metis list.set_map)
  have parts: "mf_scope_type f = pf_scope_type p" "mf_scope_id f = pf_scope_id p" "mf_status f = ''active''"
    using f(8) by (simp_all add: active_in_slot_def in_slot_def)
  have kind: "kind \<in> set source_kinds" using kind_ok by (auto simp: validate_source_kind_def split: if_splits)
  have "fact_violation f (mw_facts ?w1) = None"
    using no_clash [OF assms(1) f(8) scope_ok] valid_scope [OF scope_ok] kind f(2,6) assms(2)
    unfolding fact_violation_def ids parts fresh_facts_def by (simp add: state_statuses_def)
  then obtain w2 where w2: "replace_active (pf_installation p) (pf_scope_type p) (pf_scope_id p) (pf_key p)
      (confirmed_fact ?fid e p who (mem_now w)) w = (Inr f, w2)"
    "w2 = linked_to ?fid (map mf_id (actives (pf_installation p) (pf_scope_type p) (pf_scope_id p) (pf_key p) w))
       (?w1\<lparr>mw_facts := mw_facts ?w1 @ [f]\<rparr>)"
    using f(1,2) by (simp add: replace_active_def Let_def seq_apply insert_fact_def superseded_in_def linked_to_def actives_def)
  have db: "mem_db w2 = mem_db w" by (simp add: w2(2) linked_to_def superseded_in_def mem_db_def)
  have "f \<in> set (mw_facts w2)"
    using assms(2) f(2) by (auto simp: w2(2) linked_to_def fresh_facts_def actives_def)
  obtain w3 where w3: "rewrite_event (e_id e) (\<lambda>r. r\<lparr>e_payload := decided_payload (e_payload e) ''confirmed'' who (mem_now w)
      [(''workspace_state_id'', JStr (uuid_str ?fid))], e_task := pf_task p\<rparr>) w2 = (Inr (), w3)"
    "mw_facts w3 = mw_facts w2" "task_get (pf_task p) (mem_db w3) = task_get (pf_task p) (mem_db w2)"
    by (simp add: rewrite_event_def on_mem_db_def on_mem_post_def on_task_db_def mem_db_def task_get_def)
  obtain e' w4 where w4: "mem_log (pf_task p) [(''message'', JStr ''workspace_state_proposal_confirmed''),
      (''prompt_message_ts'', JStr ts'), (''workspace_state_id'', JStr (uuid_str ?fid)), (''confirmed_by_user_id'', JStr who)] w3
      = (Inr e', w4)"
    using mem_log_apply there w3(3) db by metis
  have run: "confirm_fact env ts' who ch w = (Inr f, w4)"
    using e(1) p w2(1) w3(1) w4 by (simp add: confirm_fact_def pending_proposal_event_def seq_apply)
  moreover have "facts_ok w4" by (rule facts.tracks_ok [OF facts_confirm assms(1) run])
  moreover have "f \<in> set (mw_facts w4)"
    using mem_log_InrD [OF w4] w3(2) \<open>f \<in> set (mw_facts w2)\<close> by simp
  ultimately show ?thesis using f by blast
qed

text \<open>The only active fact of a slot is the one that is read.\<close>

lemma get_active:
  assumes "facts_ok w" "f \<in> set (mw_facts w)" "active_in_slot inst st sid k f" "mf_expires_at f = None"
    and "validate_scope st sid = Inr ()" "normalize_key key = Inr k"
  shows "get_fact inst st sid key w = (Inr (Some f), w)"
proof -
  let ?p = "\<lambda>g. is_current inst (mem_now w) g \<and> in_slot inst st sid k g"
  have "length (actives inst st sid k w) \<le> 1" "f \<in> set (actives inst st sid k w)"
    using assms(1-3) by (auto simp: facts_ok_def actives_def)
  then have one: "actives inst st sid k w = [f]"
    by (cases "actives inst st sid k w") auto
  have "filter ?p (mw_facts w) = filter ?p (actives inst st sid k w)"
    unfolding actives_def filter_filter
    by (rule filter_cong) (auto simp: is_current_def active_in_slot_def)
  also have "\<dots> = [f]"
    using assms(3,4) by (simp add: one is_current_def active_in_slot_def in_slot_def)
  finally show ?thesis
    using assms(5,6) by (simp add: get_fact_def seq_apply first_by_def)
qed

lemma normalized_nonempty: "normalize_key key = Inr k \<Longrightarrow> k \<noteq> []"
  by (auto simp: normalize_key_def Let_def split: if_splits)

text \<open>The proposal that was just made is the open one of its message.\<close>

lemma memory_channel:
  "memory_thread t = Inr th \<Longrightarrow> th_channel th = t_channel t \<and> th_task th = Some (t_id t)"
  by (auto simp: memory_thread_def split: option.splits)

lemma proposed_open:
  assumes "propose_fact env pr w = (Inr p, w1)" and "log_dated (mem_db w1)"
  shows "\<exists>e t kind confidence ts. open_proposal (pf_prompt_ts p) (Some (pf_prompt_channel p)) (mem_db w1) = Some e \<and>
    e_payload e = proposal_payload pr t (pf_key p) kind (readable_text pr) confidence ts \<and>
    optional_confidence_score (mp_confidence pr) = Inr confidence \<and>
    validate_source_kind (mp_source_kind pr) = Inr kind \<and> pending_from_event e w1 = (Inr p, w1) \<and>
    normalize_key (mp_key pr) = Inr (pf_key p) \<and> validate_scope (mp_scope_type pr) (mp_scope_id pr) = Inr () \<and>
    task_get (mp_task pr) (mem_db w1) \<noteq> None"
proof -
  obtain poster t kind key confidence th ts w0 e where *: "task_get (mp_task pr) (mem_db w) = Some t"
    "validate_scope (mp_scope_type pr) (mp_scope_id pr) = Inr ()"
    "validate_source_kind (mp_source_kind pr) = Inr kind" "normalize_key (mp_key pr) = Inr key"
    "optional_confidence_score (mp_confidence pr) = Inr confidence"
    "mem_log (t_id t) (proposal_payload pr t key kind (readable_text pr) confidence ts) w0 = (Inr e, w1)"
    "pending_from_event e w1 = (Inr p, w1)"
    using propose_InrD [OF assms(1)] by blast
  let ?p = "proposal_payload pr t key kind (readable_text pr) confidence ts"
  have e: "e = new_event (t_id t) Log ?p (mem_db w0)" "mem_db w1 = add_event (t_id t) Log ?p (mem_db w0)"
    "task_get (t_id t) (mem_db w0) \<noteq> None"
    using mem_log_InrD [OF *(6)] by auto
  have p: "pf_key p = key" "pf_prompt_ts p = ts" "pf_prompt_channel p = t_channel t"
    using pending_of_proposal [OF *(7), of pr t key kind "readable_text pr" confidence ts] e(1) by simp_all
  have "is_open_proposal ts (Some (t_channel t)) (new_event (t_id t) Log ?p (mem_db w0))"
    by (simp add: is_open_proposal_def proposal_payload_def)
  then have "open_proposal ts (Some (t_channel t)) (mem_db w1) = Some e"
    using newest_open assms(2) e(1,2) by metis
  moreover have "task_get (mp_task pr) (mem_db w1) \<noteq> None" using e(2,3) task_get_id [OF *(1)] by simp
  moreover have "e_payload e = ?p" by (simp add: e(1))
  ultimately show ?thesis using * unfolding p by blast
qed

lemma confirm_own_proposal:
  assumes "propose_fact env pr w = (Inr p, w1)" and "facts_ok w" and "fresh_facts env"
    and "log_dated (mem_db w1)" and "mp_task pr < 16 ^ 32"
  shows "\<exists>f w2. confirm_fact env (pf_prompt_ts p) who (Some (pf_prompt_channel p)) w1 = (Inr f, w2) \<and>
    facts_ok w2 \<and> f \<in> set (mw_facts w2) \<and> mf_value f = mp_value pr \<and> mf_confirmed_by f = Some who \<and>
    mf_expires_at f = None \<and>
    active_in_slot (pf_installation p) (mp_scope_type pr) (mp_scope_id pr) (pf_key p) f \<and>
    normalize_key (mp_key pr) = Inr (pf_key p) \<and> validate_scope (mp_scope_type pr) (mp_scope_id pr) = Inr () \<and>
    uuid_parse (uuid_str (mp_installation pr)) = Some (pf_installation p)"
proof -
  obtain e t kind confidence ts where e: "open_proposal (pf_prompt_ts p) (Some (pf_prompt_channel p)) (mem_db w1) = Some e"
    "e_payload e = proposal_payload pr t (pf_key p) kind (readable_text pr) confidence ts"
    "optional_confidence_score (mp_confidence pr) = Inr confidence"
    "validate_source_kind (mp_source_kind pr) = Inr kind" "pending_from_event e w1 = (Inr p, w1)"
    "normalize_key (mp_key pr) = Inr (pf_key p)" "validate_scope (mp_scope_type pr) (mp_scope_id pr) = Inr ()"
    "task_get (mp_task pr) (mem_db w1) \<noteq> None"
    using proposed_open [OF assms(1,4)] by blast
  note p = pending_of_proposal [OF e(5,2)]
  have same: "pf_task p = mp_task pr" "pf_scope_type p = mp_scope_type pr" "pf_scope_id p = mp_scope_id pr"
    using p uuid_parse_str [OF assms(5)] by simp_all
  have ok: "facts_ok w1" by (rule facts.tracks_ok [OF facts_propose assms(2,1)])
  show ?thesis
    using confirm_proposal [OF ok assms(3) e(1-3,5) _ e(4), of who] e(6-8) p unfolding same by auto
qed

text \<open>C29. A confirmed proposal is what is read back. Whoever reacts to the message of the proposal a task
  just made, with a confidence score or without, the fact is stored with the proposed value, and reading its key in its scope gives it,
  confirmed by the person who reacted.\<close>

theorem confirmed_proposal_is_recalled:
  assumes "propose_fact env pr w = (Inr p, w1)" and "facts_ok w" and "fresh_facts env"
    and "log_dated (mem_db w1)"
    and "mp_task pr < 16 ^ 32" and "mp_installation pr < 16 ^ 32"
  shows "\<exists>f w2. confirm_fact env (pf_prompt_ts p) who (Some (pf_prompt_channel p)) w1 = (Inr f, w2) \<and>
    mf_value f = mp_value pr \<and> mf_confirmed_by f = Some who \<and>
    get_fact (mp_installation pr) (mp_scope_type pr) (mp_scope_id pr) (mp_key pr) w2 = (Inr (Some f), w2)"
proof -
  obtain f w2 where f: "confirm_fact env (pf_prompt_ts p) who (Some (pf_prompt_channel p)) w1 = (Inr f, w2)"
    "facts_ok w2" "f \<in> set (mw_facts w2)" "mf_value f = mp_value pr" "mf_confirmed_by f = Some who"
    "mf_expires_at f = None" "active_in_slot (pf_installation p) (mp_scope_type pr) (mp_scope_id pr) (pf_key p) f"
    "normalize_key (mp_key pr) = Inr (pf_key p)" "validate_scope (mp_scope_type pr) (mp_scope_id pr) = Inr ()"
    "uuid_parse (uuid_str (mp_installation pr)) = Some (pf_installation p)"
    using confirm_own_proposal [OF assms(1-5), of who] by blast
  have "pf_installation p = mp_installation pr" using f(10) uuid_parse_str [OF assms(6)] by simp
  then show ?thesis using get_active [OF f(2,3,7,6,9,8)] f(1,4,5) by auto
qed

section \<open>Two proposals of one task\<close>

definition slack_poster ::
  "post_env \<Rightarrow> slack_thread \<Rightarrow> string \<Rightarrow> string \<Rightarrow> (post_db, string) op" where
  "slack_poster penv th message purpose = post_message penv th message purpose None None"

lemma poster_parts:
  assumes "th_task th = Some tid" and "th_channel th \<noteq> ''playground''"
    and "slack_poster env th message purpose w = (Inr ts, w1)"
  shows "\<exists>w0 tx. flag_egress_urls env th (pe_normalize env message) purpose w = (Inr (), w0) \<and>
    post_task_message env th tid tx None purpose purpose w0 = (Inr ts, w1)"
  using assms by (auto simp: slack_poster_def post_message_def Let_def seq_apply key_name_def
      normalize_blocks_def split: prod.splits sum.splits)

lemma poster_sends:
  assumes "client_ok env" and "post_ok w" and "th_task th = Some tid" and "th_channel th \<noteq> ''playground''"
    and "slack_poster env th message purpose w = (Inr ts, w1)"
  shows "message_sent w1 (tid, purpose) ts \<and> post_ok w1"
proof -
  obtain w0 tx where w0: "flag_egress_urls env th (pe_normalize env message) purpose w = (Inr (), w0)"
    and posted: "post_task_message env th tid tx None purpose purpose w0 = (Inr ts, w1)"
    using poster_parts [OF assms(3-5)] by blast
  have ok: "post_ok w0" by (rule post.tracks_ok [OF tracks_flag assms(2) w0])
  show ?thesis
    using post_task_message_sends [OF assms(1) ok posted]
      post.tracks_ok [OF tracks_post_task_message [OF assms(1)] ok posted] by blast
qed

text \<open>The second message of a purpose is not posted.\<close>

lemma post_twice:
  assumes "client_ok env" and "post_ok w" and "th_task th = Some tid" and "th_channel th \<noteq> ''playground''"
    and "slack_poster env th message purpose w = (Inr ts, w1)" and "post_later w1 w2"
    and "th_task th' = Some tid" and "th_channel th' \<noteq> ''playground''"
    and "slack_poster env th' message' purpose w2 = (Inr ts', w3)"
  shows "ts' = ts \<and> ob_effects w3 = ob_effects w2 \<and> posted_events w3 = posted_events w2"
proof -
  note first = poster_sends [OF assms(1-5)]
  obtain w0 tx where w0: "flag_egress_urls env th' (pe_normalize env message') purpose w2 = (Inr (), w0)"
    and second: "post_task_message env th' tid tx None purpose purpose w0 = (Inr ts', w3)"
    using poster_parts [OF assms(7-9)] by blast
  have ok: "post_ok w1" "post_ok w2" using first post.rel_ok assms(6) by blast+
  have later: "post_later w1 w0" by (rule post.rel_trans [OF assms(6) post.tracksD [OF tracks_flag ok(2) w0]])
  have "message_sent w0 (tid, purpose) ts" by (rule message_sent_kept [OF ok(1) later]) (use first in blast)
  then have again: "post_task_message env th' tid tx None purpose purpose w0 = (Inr ts, w0)"
    by (rule post_task_message_sent [OF post.rel_ok [OF ok(1) later]])
  have "message_sent w2 (tid, purpose) ts" by (rule message_sent_kept [OF ok(1) assms(6)]) (use first in blast)
  then obtain t where t: "task_get tid (pw_db w2) = Some t" by (auto simp: message_sent_def)
  have "ob_effects w0 = ob_effects w2 \<and> posted_events w0 = posted_events w2"
    using flag_cases [OF assms(7) t, of env message' purpose] w0 by auto
  then show ?thesis using again second by auto
qed

text \<open>What a proposal does, and that it can be confirmed.\<close>

lemma propose_posts:
  assumes "propose_fact env pr w = (Inr p, w')" and "me_poster env = Some (slack_poster penv)"
    and "task_get (mp_task pr) (mem_db w) = Some t" and "post_ok (mw_post w)" and "client_ok penv"
  shows "\<exists>th w1. th_task th = Some (mp_task pr) \<and> th_channel th = t_channel t \<and>
    slack_poster penv th (confirmation_prompt_text (mp_scope_type pr) (readable_text pr)) ''memory_confirmation''
      (mw_post w) = (Inr (pf_prompt_ts p), w1) \<and>
    post_later w1 (mw_post w') \<and> ob_effects (mw_post w') = ob_effects w1 \<and>
    posted_events (mw_post w') = posted_events w1 \<and> pf_prompt_channel p = t_channel t"
proof -
  obtain kind key confidence th ts w1 e where *:
    "memory_thread t = Inr th"
    "on_mem_post (slack_poster penv th (confirmation_prompt_text (mp_scope_type pr) (readable_text pr)) ''memory_confirmation'') w
      = (Inr ts, w1)"
    "mem_log (t_id t) (proposal_payload pr t key kind (readable_text pr) confidence ts) w1 = (Inr e, w')"
    "pending_from_event e w' = (Inr p, w')"
    using propose_InrD [OF assms(1)] assms(2,3) by auto
  have id: "t_id t = mp_task pr" using task_get_id [OF assms(3)] by simp
  have th: "th_task th = Some (mp_task pr)" "th_channel th = t_channel t"
    using memory_channel [OF *(1)] id by simp_all
  obtain w2 where w2: "slack_poster penv th (confirmation_prompt_text (mp_scope_type pr) (readable_text pr))
      ''memory_confirmation'' (mw_post w) = (Inr ts, w2)" "mw_post w1 = w2"
    using *(2) by (auto simp: on_mem_post_def split: prod.splits)
  have ok: "post_ok w2"
    using post.tracks_ok [OF tracks_post_message [OF assms(5)] assms(4)] w2(1) by (simp add: slack_poster_def)
  have log: "on_task_db (append_event (t_id t) Log (proposal_payload pr t key kind (readable_text pr) confidence ts)) w2
      = (Inr e, mw_post w')"
    using *(3) w2(2) by (auto simp: mem_log_def on_mem_db_def on_mem_post_def split: prod.splits)
  have "post.tracks (on_task_db (append_event (t_id t) Log (proposal_payload pr t key kind (readable_text pr) confidence ts)))"
    by (rule tracks_on_task_db) auto
  then have later: "post_later w2 (mw_post w')" using post.tracksD ok log by blast
  have e: "e_payload e = proposal_payload pr t key kind (readable_text pr) confidence ts"
    using mem_log_InrD [OF *(3)] by (simp add: new_event_def)
  have "ob_effects (mw_post w') = ob_effects w2 \<and> posted_events (mw_post w') = posted_events w2"
    using mem_log_InrD [OF *(3)] w2(2) by (simp add: posted_events_def mem_db_def add_event_def new_event_def)
  moreover have "pf_prompt_ts p = ts" "pf_prompt_channel p = t_channel t"
    using pending_of_proposal [OF *(4) e] by simp_all
  ultimately show ?thesis using th w2(1) later by blast
qed

text \<open>C30. A second proposal of a task is not shown. Its message is taken for a repetition of the first one
  and is not posted, yet it is the one that is stored when somebody confirms the message that was
  shown, whoever that is.\<close>

theorem unseen_fact_confirmed:
  assumes "client_ok penv" and "me_poster env = Some (slack_poster penv)" and "fresh_facts env"
    and "post_ok (mw_post w)" and "task_get (mp_task pa) (mem_db w) = Some t"
    and "propose_fact env pa w = (Inr a, w1)" and "post_later (mw_post w1) (mw_post w2)"
    and "mp_task pb = mp_task pa" and "task_get (mp_task pb) (mem_db w2) = Some t'"
    and "t_channel t' = t_channel t" and "t_channel t \<noteq> ''playground''"
    and "propose_fact env pb w2 = (Inr b, w3)" and "facts_ok w2" and "log_dated (mem_db w3)"
    and "mp_task pb < 16 ^ 32"
  shows "ob_effects (mw_post w3) = ob_effects (mw_post w2) \<and>
    posted_events (mw_post w3) = posted_events (mw_post w2) \<and>
    (\<exists>f w4. confirm_fact env (pf_prompt_ts a) who (Some (pf_prompt_channel a)) w3 = (Inr f, w4) \<and>
       f \<in> set (mw_facts w4) \<and> mf_key f = pf_key b \<and> mf_value f = mp_value pb \<and> mf_confirmed_by f = Some who)"
proof -
  obtain th v where first: "th_task th = Some (mp_task pa)" "th_channel th = t_channel t"
    "slack_poster penv th (confirmation_prompt_text (mp_scope_type pa) (readable_text pa)) ''memory_confirmation''
      (mw_post w) = (Inr (pf_prompt_ts a), v)"
    "post_later v (mw_post w1)" "pf_prompt_channel a = t_channel t"
    using propose_posts [OF assms(6,2,5,4,1)] by blast
  have ok: "post_ok v"
    using post.tracks_ok [OF tracks_post_message [OF assms(1)] assms(4)] first(3) by (simp add: slack_poster_def)
  have later: "post_later v (mw_post w2)" by (rule post.rel_trans [OF first(4) assms(7)])
  obtain th' v' where second: "th_task th' = Some (mp_task pb)" "th_channel th' = t_channel t'"
    "slack_poster penv th' (confirmation_prompt_text (mp_scope_type pb) (readable_text pb)) ''memory_confirmation''
      (mw_post w2) = (Inr (pf_prompt_ts b), v')"
    "ob_effects (mw_post w3) = ob_effects v'" "posted_events (mw_post w3) = posted_events v'"
    "pf_prompt_channel b = t_channel t'"
    using propose_posts [OF assms(12,2,9) post.rel_ok [OF ok later] assms(1)] by blast
  have same: "pf_prompt_ts b = pf_prompt_ts a \<and> ob_effects v' = ob_effects (mw_post w2) \<and>
      posted_events v' = posted_events (mw_post w2)"
    by (rule post_twice [OF assms(1,4) first(1) _ first(3) later _ _ second(3)])
      (use first(2) second(1,2) assms(8,10,11) in simp_all)
  obtain f w4 where "confirm_fact env (pf_prompt_ts b) who (Some (pf_prompt_channel b)) w3 = (Inr f, w4)"
    "f \<in> set (mw_facts w4)" "mf_value f = mp_value pb" "mf_confirmed_by f = Some who"
    "active_in_slot (pf_installation b) (mp_scope_type pb) (mp_scope_id pb) (pf_key b) f"
    using confirm_own_proposal [OF assms(12,13,3,14,15), of who] by blast
  then show ?thesis
    using same second(4-6) first(5) assms(10) by (auto simp: active_in_slot_def in_slot_def)
qed

end
