(* ===== verification/Memory_Samples.thy ===== *)
theory Memory_Samples
  imports Memory_Properties
begin

text \<open>
  A task that proposes to remember one thing and then another, for the hypotheses of the theorems about
  the memory.
\<close>

section \<open>The proposals\<close>

definition sample_mem_env :: mem_env where
  "sample_mem_env = \<lparr>me_poster = Some (slack_poster sample_post_env),
     me_fresh = (\<lambda>w. Suc (sum_list (map mf_id (mw_facts w)))), me_collate = id\<rparr>"

definition sample_memory :: mem_world where
  "sample_memory = \<lparr>mw_post = post_world, mw_facts = []\<rparr>"

definition remembering :: "string \<Rightarrow> string \<Rightarrow> memory_proposal" where
  "remembering key s = \<lparr>mp_installation = 1, mp_scope_type = ''workspace'', mp_scope_id = None, mp_key = key,
     mp_value = [(''text'', JStr s)], mp_task = 7, mp_value_text = None, mp_reason = None,
     mp_confidence = JFloat ''0.8'', mp_confidence_reason = None, mp_source_kind = ''agent_proposed''\<rparr>"

definition report_day :: memory_proposal where
  "report_day = remembering ''Day'' ''Fri''"

definition report_reader :: memory_proposal where
  "report_reader = remembering ''Who'' ''Ann''"

lemma sample_facts_fresh: "fresh_facts sample_mem_env"
proof -
  have "Suc (sum_list (map mf_id fs)) \<noteq> mf_id f" if "f \<in> set fs" for f fs
  proof -
    have "mf_id f \<le> sum_list (map mf_id fs)" by (rule member_le_sum_list) (use that in simp_all)
    then show ?thesis by simp
  qed
  then show ?thesis by (auto simp: fresh_facts_def sample_mem_env_def)
qed

lemma sample_facts_ok: "facts_ok sample_memory"
  by (simp add: facts_ok_def sample_memory_def actives_def)

lemma secrets_need:
  "needs (\<lambda>c. lower_char c \<in> set ''-:=b'') secret_value_rx"
  "needs (\<lambda>c. lower_char c \<in> set ''-:=b'') secret_assignment_rx"
proof -
  note lits = needs_itext [of "set ''-:=b''"] needs_text [of "\<lambda>c. lower_char c \<in> set ''-:=b''"]
    needs_class [of "\<lambda>c. lower_char c \<in> set ''-:=b''"]
  have "needs (\<lambda>c. lower_char c \<in> set ''-:=b'') r"
    if "r \<in> {rx_text ''-'', rx_itext ''xapp-'', rx_itext ''-----BEGIN '', rx_itext ''bearer'', rx_itext ''sk-'',
      rx_text '':'', rx_class '':=''}" for r
    using that by (auto intro!: lits simp del: set_simps) (code_simp+)
  then show "needs (\<lambda>c. lower_char c \<in> set ''-:=b'') secret_value_rx"
    "needs (\<lambda>c. lower_char c \<in> set ''-:=b'') secret_assignment_rx"
    by (simp_all add: secret_value_rx_def secret_assignment_rx_def del: set_simps)
qed

lemma no_secret: "list_all (\<lambda>c. lower_char c \<notin> set ''-:=b'') s \<Longrightarrow> \<not> secret_text s"
  using needs_search [OF secrets_need(1), of s] needs_search [OF secrets_need(2), of s] by (simp add: secret_text_def)

lemma sample_no_secret: "\<not> secret_text ''Fri''" "\<not> secret_text ''Ann''"
  by (rule no_secret, code_simp)+

lemma sample_texts:
  "normalize_key (mp_key report_day) = Inr ''day''" "normalize_key (mp_key report_reader) = Inr ''who''"
  "readable_text report_day = ''Fri''" "readable_text report_reader = ''Ann''"
  by code_simp+

lemma sample_keys: "\<not> rx_search secret_key_rx ''day''" "\<not> rx_search secret_key_rx ''who''"
  "\<not> rx_search secret_key_rx ''text''"
  by code_simp+

lemma sample_strings:
  "string_values (JObj (mp_value report_day)) = [([''text''], ''Fri'')]"
  "string_values (JObj (mp_value report_reader)) = [([''text''], ''Ann'')]"
  by code_simp+

lemma sample_secrets:
  "secret_candidate_reason ''day'' (mp_value report_day) (Some ''Fri'') = None"
  "secret_candidate_reason ''who'' (mp_value report_reader) (Some ''Ann'') = None"
  unfolding secret_candidate_reason_def sample_strings
  by (simp_all add: sample_keys sample_no_secret secret_in_value_def truthy_def)

lemma sample_scans:
  "scan_text sample_post_env (confirmation_prompt_text ''workspace'' ''Fri'') = Inr []"
  "scan_text sample_post_env (confirmation_prompt_text ''workspace'' ''Ann'') = Inr []"
proof -
  have "scan_outbound_urls (\<lambda>n. None) [] (confirmation_prompt_text ''workspace'' ''Fri'') = Inr []"
    "scan_outbound_urls (\<lambda>n. None) [] (confirmation_prompt_text ''workspace'' ''Ann'') = Inr []"
    by code_simp+
  then show "scan_text sample_post_env (confirmation_prompt_text ''workspace'' ''Fri'') = Inr []"
    "scan_text sample_post_env (confirmation_prompt_text ''workspace'' ''Ann'') = Inr []"
    by (simp_all add: sample_post_env_def)
qed

section \<open>What the first proposal leaves\<close>

lemma dated_add: "log_dated d \<Longrightarrow> log_dated (add_event tid ty p d)"
  by (auto simp: log_dated_def add_event_def new_event_def less_Suc_eq)

lemma sample_dated: "log_dated claimed_db"
proof -
  have "log_dated empty_db" by (simp add: log_dated_def)
  then show ?thesis
    unfolding claimed_db_eq sample_db_eq
    by (intro dated_add) (simp add: log_dated_def upd_task_def add_event_def new_event_def)
qed

text \<open>The payload of a proposal that is complete can be read.\<close>

lemma pending_of_payload:
  assumes "e_payload e = proposal_payload pr t key kind readable confidence ts"
    and "mp_task pr < 16 ^ 32" "mp_installation pr < 16 ^ 32"
    and "key \<noteq> []" "ts \<noteq> []" "mp_scope_type pr \<noteq> []" "t_channel t \<noteq> []" "t_user t \<noteq> []"
  shows "\<exists>p. pending_from_event e w = (Inr p, w)"
proof -
  have texts: "\<exists>c s. uuid_str u = c # s" for u
    by (cases "uuid_str u") (auto simp: uuid_str_def Let_def)
  obtain c1 s1 c2 s2 c3 s3 c4 s4 c5 s5 c6 s6 c7 s7 where
    "uuid_str (mp_task pr) = c1 # s1" "uuid_str (mp_installation pr) = c2 # s2" "key = c3 # s3" "ts = c4 # s4"
    "mp_scope_type pr = c5 # s5" "t_channel t = c6 # s6" "t_user t = c7 # s7"
    using texts assms(4-8) unfolding neq_Nil_conv by metis
  then show ?thesis
    using uuid_parse_str [OF assms(2)] uuid_parse_str [OF assms(3)]
    by (simp add: pending_from_event_def assms(1) Let_def proposal_payload_def payload_str_of_def
        payload_optional_str_def payload_mapping_def parse_uuid_def jopt_str_def seq_apply split: option.split)
qed

text \<open>A proposal whose message is posted.\<close>

lemma sample_score: "optional_confidence_score (JFloat ''0.8'') = Inr (Some (Dec False 8 (-1)))"
  by code_simp

lemma propose_runs:
  assumes "me_poster env = Some (slack_poster penv)" and "task_get (mp_task pr) (mem_db w) = Some t"
    and "t_installation t = mp_installation pr" and "validate_scope (mp_scope_type pr) (mp_scope_id pr) = Inr ()"
    and "validate_source_kind (mp_source_kind pr) = Inr kind" and "normalize_key (mp_key pr) = Inr key"
    and "secret_candidate_reason key (mp_value pr) (Some (readable_text pr)) = None"
    and "optional_confidence_score (mp_confidence pr) = Inr confidence" and "memory_thread t = Inr th"
    and "slack_poster penv th (confirmation_prompt_text (mp_scope_type pr) (readable_text pr)) ''memory_confirmation''
      (mw_post w) = (Inr ts, v)"
    and "task_get (mp_task pr) (pw_db v) \<noteq> None"
    and "mp_task pr < 16 ^ 32" "mp_installation pr < 16 ^ 32"
    and "ts \<noteq> []" "t_channel t \<noteq> []" "t_user t \<noteq> []"
  shows "\<exists>p w' x. propose_fact env pr w = (Inr p, w') \<and> mw_post w' = v\<lparr>pw_db := add_event (mp_task pr) Log x (pw_db v)\<rparr> \<and>
    mw_facts w' = mw_facts w"
proof -
  let ?x = "proposal_payload pr t key kind (readable_text pr) confidence ts"
  let ?w' = "w\<lparr>mw_post := v\<lparr>pw_db := add_event (mp_task pr) Log ?x (pw_db v)\<rparr>\<rparr>"
  let ?e = "new_event (mp_task pr) Log ?x (pw_db v)"
  have id: "t_id t = mp_task pr" using task_get_id [OF assms(2)] by simp
  have e: "e_payload ?e = ?x" by (simp add: new_event_def)
  have "key \<noteq> []" "mp_scope_type pr \<noteq> []"
    using normalized_nonempty [OF assms(6)] valid_scope [OF assms(4)] by (auto simp: scope_types_def)
  then obtain p where p: "pending_from_event ?e ?w' = (Inr p, ?w')"
    using pending_of_payload [OF e assms(12,13), of ?w'] assms(14-16) by blast
  have "propose_fact env pr w = (Inr p, ?w')"
    using assms(1-11) p
    by (auto simp: propose_fact_def post_proposal_def seq_apply id mem_log_def on_mem_db_def on_mem_post_def
        on_task_db_def append_event_simp)
  then show ?thesis by auto
qed

section \<open>Both proposals\<close>

lemma sample_claimed: "t_id (claim_row wid now lease sample_row) = 7"
  "t_installation (claim_row wid now lease sample_row) = 1"
  "t_channel (claim_row wid now lease sample_row) = ''C1''" "t_user (claim_row wid now lease sample_row) = ''U1''"
  by (simp_all add: claim_row_def sample_row_def new_task_def sample_request_def)

lemma sample_thread:
  "\<exists>th. memory_thread (claim_row ''w1'' 0 (seconds 300) sample_row) = Inr th"
  by (simp add: memory_thread_def claim_row_def task_thread_ts_def sample_row_def new_task_def sample_request_def truthy_def)

lemma sample_prompt_post:
  assumes "memory_thread (claim_row ''w1'' 0 (seconds 300) sample_row) = Inr th"
    and "scan_text sample_post_env s = Inr []"
  shows "\<exists>v. slack_poster sample_post_env th s purpose post_world = (Inr ''12.5'', v) \<and>
    log_dated (pw_db v) \<and> task_get 7 (pw_db v) = Some (claim_row ''w1'' 0 (seconds 300) sample_row)"
proof -
  have th: "th_task th = Some 7" "th_channel th = ''C1''"
    using memory_channel [OF assms(1)] by (simp_all add: sample_claimed)
  have scan: "scan_outbound_urls (\<lambda>n. None) [] s = Inr []" using assms(2) by (simp add: sample_post_env_def)
  show ?thesis
    using th scan claimed_get
    by (simp add: slack_poster_def post_message_def flag_egress_urls_def Let_def sample_post_env_def post_world_def
        post_task_message_def on_task_db_def resolve_task_simp deliver_effect_def
        message_request_def deliver_def get_or_create_def find_by_key_def insert_effect_def
        effect_violation_def effect_operations_def new_effect_def seq_apply attempt_call_def catching_def
        jsonable_mapping_def posted_ts_def non_empty_str_def record_message_def put_effect_def key_name_def
        post_event_def append_event_simp dated_add sample_dated)
qed

lemma sample_first_proposal:
  "\<exists>p w1. propose_fact sample_mem_env report_day sample_memory = (Inr p, w1) \<and> log_dated (mem_db w1) \<and>
    mw_facts w1 = [] \<and> task_get 7 (mem_db w1) = Some (claim_row ''w1'' 0 (seconds 300) sample_row)"
proof -
  let ?t = "claim_row ''w1'' 0 (seconds 300) sample_row"
  obtain th where th: "memory_thread ?t = Inr th" using sample_thread by blast
  obtain v where v: "slack_poster sample_post_env th (confirmation_prompt_text ''workspace'' ''Fri'')
      ''memory_confirmation'' post_world = (Inr ''12.5'', v)" "log_dated (pw_db v)"
      "task_get 7 (pw_db v) = Some ?t"
    using sample_prompt_post [OF th sample_scans(1)] by blast
  have parts: "mp_task report_day = 7" "mp_scope_type report_day = ''workspace''" "mp_scope_id report_day = None"
    "mp_installation report_day = 1" "mp_source_kind report_day = ''agent_proposed''" "mp_confidence report_day = JFloat ''0.8''"
    by (simp_all add: report_day_def remembering_def)
  have row: "t_installation ?t = 1" "t_channel ?t \<noteq> []" "t_user ?t \<noteq> []"
    by (simp_all add: sample_claimed)
  have "\<exists>p w' y. propose_fact sample_mem_env report_day sample_memory = (Inr p, w') \<and>
      mw_post w' = v\<lparr>pw_db := add_event (mp_task report_day) Log y (pw_db v)\<rparr> \<and>
      mw_facts w' = mw_facts sample_memory"
    using row th v claimed_get sample_texts(1,3) sample_secrets(1)
    by (intro propose_runs [where t = ?t and ts = "''12.5''"])
      (simp_all add: parts sample_score sample_mem_env_def sample_memory_def mem_db_def post_world_def validate_scope_def
         scope_types_def validate_source_kind_def source_kinds_def)
  then show ?thesis
    using v(2,3) by (auto simp: mem_db_def dated_add sample_memory_def parts)
qed

text \<open>The channel of the message is settled by the first proposal, so the second one is answered.\<close>

lemma sample_reads: "mp_task report_reader = 7" "mp_scope_type report_reader = ''workspace''"
  "mp_scope_id report_reader = None" "mp_installation report_reader = 1"
  "mp_source_kind report_reader = ''agent_proposed''" "mp_confidence report_reader = JFloat ''0.8''"
  by (simp_all add: report_reader_def remembering_def)

lemma sample_second_post:
  assumes "post_ok w" and "message_sent w (7, purpose) ts" and "task_get 7 (pw_db w) = Some t"
    and "th_task th = Some 7" and "th_channel th \<noteq> ''playground''" and "scan_text sample_post_env s = Inr []"
  shows "slack_poster sample_post_env th s purpose w = (Inr ts, w)"
proof -
  have scan: "scan_outbound_urls (\<lambda>n. None) [] s = Inr []" using assms(6) by (simp add: sample_post_env_def)
  have "flag_egress_urls sample_post_env th s purpose w = (Inr (), w)"
    using scan assms(4) by (simp add: flag_egress_urls_def sample_post_env_def seq_apply)
  then show ?thesis
    using assms(4,5) post_task_message_sent [OF assms(1,2)]
    by (simp add: slack_poster_def post_message_def Let_def seq_apply key_name_def normalize_blocks_def)
      (simp add: sample_post_env_def)
qed

lemma payload_str_nonempty: "payload_str_of p k = Inr s \<Longrightarrow> s \<noteq> []"
  by (auto simp: payload_str_of_def split: option.splits list.splits)

lemma proposed_ts: "propose_fact env pr w = (Inr p, w') \<Longrightarrow> pf_prompt_ts p \<noteq> []"
proof -
  assume "propose_fact env pr w = (Inr p, w')"
  then obtain e where "pending_from_event e w' = (Inr p, w')" using propose_InrD by blast
  then show "pf_prompt_ts p \<noteq> []"
    by (auto elim!: seq_InrE simp: pending_from_event_def Let_def dest!: lifting_InrD payload_str_nonempty)
qed

lemma sample_second_proposal:
  assumes "propose_fact sample_mem_env report_day sample_memory = (Inr p, w1)" and "log_dated (mem_db w1)"
    and "task_get 7 (mem_db w1) = Some (claim_row ''w1'' 0 (seconds 300) sample_row)"
  shows "\<exists>q w2. propose_fact sample_mem_env report_reader w1 = (Inr q, w2) \<and> log_dated (mem_db w2)"
proof -
  let ?t = "claim_row ''w1'' 0 (seconds 300) sample_row"
  have env: "me_poster sample_mem_env = Some (slack_poster sample_post_env)" by (simp add: sample_mem_env_def)
  have row: "task_get (mp_task report_day) (mem_db sample_memory) = Some ?t" "post_ok (mw_post sample_memory)"
    using claimed_get post_world_ok by (simp_all add: report_day_def remembering_def sample_memory_def mem_db_def post_world_def)
  obtain th v where v: "th_task th = Some (mp_task report_day)" "th_channel th = t_channel ?t"
    "slack_poster sample_post_env th (confirmation_prompt_text (mp_scope_type report_day) (readable_text report_day))
       ''memory_confirmation'' (mw_post sample_memory) = (Inr (pf_prompt_ts p), v)"
    "post_later v (mw_post w1)"
    using propose_posts [OF assms(1) env row sample_client_ok] by blast
  have chan: "th_channel th \<noteq> ''playground''" using v(2) by (simp add: sample_claimed)
  have sent: "message_sent v (mp_task report_day, ''memory_confirmation'') (pf_prompt_ts p)" "post_ok v"
    using poster_sends [OF sample_client_ok row(2) v(1) chan v(3)] by blast+
  have later: "message_sent (mw_post w1) (7, ''memory_confirmation'') (pf_prompt_ts p)" "post_ok (mw_post w1)"
    using message_sent_kept [OF sent(2) v(4) sent(1)] post.rel_ok [OF sent(2) v(4)]
    by (simp_all add: report_day_def remembering_def)
  obtain th' where th': "memory_thread ?t = Inr th'" using sample_thread by blast
  have thread: "th_task th' = Some 7" "th_channel th' \<noteq> ''playground''"
    using memory_channel [OF th'] by (simp_all add: sample_claimed)
  have again: "slack_poster sample_post_env th' (confirmation_prompt_text ''workspace'' ''Ann'') ''memory_confirmation''
      (mw_post w1) = (Inr (pf_prompt_ts p), mw_post w1)"
    using assms(3) by (intro sample_second_post [OF later(2,1) _ thread sample_scans(2)]) (simp add: mem_db_def)
  have ts: "pf_prompt_ts p \<noteq> []" by (rule proposed_ts [OF assms(1)])
  have "\<exists>q w2 y. propose_fact sample_mem_env report_reader w1 = (Inr q, w2) \<and>
      mw_post w2 = (mw_post w1)\<lparr>pw_db := add_event (mp_task report_reader) Log y (pw_db (mw_post w1))\<rparr> \<and>
      mw_facts w2 = mw_facts w1"
    using again th' assms(3) sample_texts(2,4) sample_secrets(2) ts
    by (intro propose_runs [where t = ?t and ts = "pf_prompt_ts p"])
      (simp_all add: sample_reads sample_score env mem_db_def validate_scope_def sample_claimed
         scope_types_def validate_source_kind_def source_kinds_def)
  then show ?thesis using assms(2) by (auto simp: mem_db_def dated_add)
qed

section \<open>Witnesses\<close>

lemma memory_keeps_history_witness:
  "\<exists>p w1 f w2. propose_fact sample_mem_env report_day sample_memory = (Inr p, w1) \<and>
    confirm_fact sample_mem_env (pf_prompt_ts p) ''U9'' (Some (pf_prompt_channel p)) w1 = (Inr f, w2) \<and>
    length (actives 1 ''workspace'' None ''day'' w2) \<le> 1"
proof -
  obtain p w1 where p: "propose_fact sample_mem_env report_day sample_memory = (Inr p, w1)" "log_dated (mem_db w1)"
    using sample_first_proposal by blast
  obtain f w2 where f: "confirm_fact sample_mem_env (pf_prompt_ts p) ''U9'' (Some (pf_prompt_channel p)) w1 = (Inr f, w2)"
    using confirm_own_proposal [OF p(1) sample_facts_ok sample_facts_fresh p(2), of "''U9''"]
    by (auto simp: report_day_def remembering_def)
  have "(mem_step sample_mem_env)\<^sup>*\<^sup>* sample_memory w2"
    using mem_step.proposed [OF p(1)] mem_step.confirmed [OF f] by (meson converse_rtranclp_into_rtranclp r_into_rtranclp)
  from memory_keeps_history [OF sample_facts_ok this] p(1) f show ?thesis by blast
qed

lemma confirmed_proposal_is_recalled_witness:
  "\<exists>p w1 f w2. propose_fact sample_mem_env report_day sample_memory = (Inr p, w1) \<and>
    confirm_fact sample_mem_env (pf_prompt_ts p) ''U9'' (Some (pf_prompt_channel p)) w1 = (Inr f, w2) \<and>
    get_fact 1 ''workspace'' None ''Day'' w2 = (Inr (Some f), w2)"
proof -
  obtain p w1 where p: "propose_fact sample_mem_env report_day sample_memory = (Inr p, w1)" "log_dated (mem_db w1)"
    using sample_first_proposal by blast
  show ?thesis
    using confirmed_proposal_is_recalled [OF p(1) sample_facts_ok sample_facts_fresh p(2), of "''U9''"] p(1)
    by (simp add: report_day_def remembering_def) blast
qed

lemma unseen_fact_confirmed_witness:
  "\<exists>p w1 q w2 f w3. propose_fact sample_mem_env report_day sample_memory = (Inr p, w1) \<and>
    propose_fact sample_mem_env report_reader w1 = (Inr q, w2) \<and>
    confirm_fact sample_mem_env (pf_prompt_ts p) ''U9'' (Some (pf_prompt_channel p)) w2 = (Inr f, w3) \<and>
    mf_value f = [(''text'', JStr ''Ann'')]"
proof -
  let ?t = "claim_row ''w1'' 0 (seconds 300) sample_row"
  obtain p w1 where p: "propose_fact sample_mem_env report_day sample_memory = (Inr p, w1)" "log_dated (mem_db w1)"
    "mw_facts w1 = []" "task_get 7 (mem_db w1) = Some ?t"
    using sample_first_proposal by blast
  obtain q w2 where q: "propose_fact sample_mem_env report_reader w1 = (Inr q, w2)" "log_dated (mem_db w2)"
    using sample_second_proposal [OF p(1,2,4)] by blast
  have env: "me_poster sample_mem_env = Some (slack_poster sample_post_env)" by (simp add: sample_mem_env_def)
  have day: "mp_task report_day = 7" by (simp add: report_day_def remembering_def)
  have row: "task_get (mp_task report_day) (mem_db sample_memory) = Some ?t" "post_ok (mw_post sample_memory)"
    using claimed_get post_world_ok by (simp_all add: day sample_memory_def mem_db_def post_world_def)
  have chan: "t_channel ?t \<noteq> ''playground''" by (simp add: sample_claimed)
  have ok: "facts_ok w1" by (simp add: facts_ok_def actives_def p(3))
  have again: "mp_task report_reader = mp_task report_day" "task_get (mp_task report_reader) (mem_db w1) = Some ?t"
    "mp_task report_reader < 16 ^ 32"
    using p(4) by (simp_all add: sample_reads day)
  obtain f w3 where "confirm_fact sample_mem_env (pf_prompt_ts p) ''U9'' (Some (pf_prompt_channel p)) w2 = (Inr f, w3)"
    "mf_value f = mp_value report_reader"
    using unseen_fact_confirmed [OF sample_client_ok env sample_facts_fresh row(2,1) p(1) post.rel_refl again(1,2) refl chan
        q(1) ok q(2) again(3), of "''U9''"] by blast
  then show ?thesis using p(1) q(1) by (auto simp: report_reader_def remembering_def)
qed

end
