(* ===== verification/Slack_Inbound.thy ===== *)
theory Slack_Inbound
  imports Executor_Outputs
begin

text \<open>
  \<open>kortny/slack/inbound_events.py\<close>: the ledger of what Slack delivered, one row per event identifier,
  and the marks the handlers leave in it.

  What another delivery commits between the lookup and the insert is the argument \<open>race\<close>, as for
  tasks; the identifier of a new row is \<open>fresh\<close>.
\<close>

section \<open>Rows\<close>

record inbound =
  ib_id :: uuid
  ib_installation :: uuid
  ib_team :: string
  ib_event_id :: "string option"
  ib_type :: string
  ib_subtype :: "string option"
  ib_surface :: string
  ib_channel :: "string option"
  ib_user :: "string option"
  ib_message_ts :: "string option"
  ib_thread_ts :: "string option"
  ib_event_time :: "timestamp option"
  ib_retry_num :: "int option"
  ib_retry_reason :: "string option"
  ib_body :: jobj
  ib_event :: jobj
  ib_status :: string
  ib_attempts :: nat
  ib_task :: "uuid option"
  ib_observation :: "uuid option"
  ib_metadata :: jobj
  ib_last_error :: "jobj option"
  ib_received_at :: timestamp
  ib_processed_at :: "timestamp option"

record inbound_db =
  in_rows :: "inbound list"
  in_now :: timestamp

definition inbound_statuses :: "string list" where
  "inbound_statuses = [''received'', ''ignored'', ''task_created'', ''observed'', ''failed'',
     ''dead_lettered'', ''replayed'']"

definition non_degradable :: "string list" where
  "non_degradable = [''task_created'', ''observed'', ''dead_lettered'', ''replayed'']"

definition inbound_get :: "uuid \<Rightarrow> inbound_db \<Rightarrow> inbound option" where
  "inbound_get iid d = row_get ib_id iid (in_rows d)"

definition upd_inbound :: "uuid \<Rightarrow> (inbound \<Rightarrow> inbound) \<Rightarrow> inbound_db \<Rightarrow> inbound_db" where
  "upd_inbound iid f d = d\<lparr>in_rows := row_upd ib_id iid f (in_rows d)\<rparr>"

section \<open>What is read from a delivery\<close>

definition opt_text :: "json \<Rightarrow> string option" where
  "opt_text v = (case v of JStr s \<Rightarrow> if strip s = [] then None else Some (strip s) | _ \<Rightarrow> None)"

text \<open>Python's \<open>or\<close> on values and on optional texts.\<close>

definition json_or :: "json \<Rightarrow> json \<Rightarrow> json" where
  "json_or a b = (if json_truthy a then a else b)"

definition opt_or :: "'a option \<Rightarrow> 'a option \<Rightarrow> 'a option" where
  "opt_or a b = (case a of None \<Rightarrow> b | Some x \<Rightarrow> Some x)"

definition inbound_type :: "jobj \<Rightarrow> jobj \<Rightarrow> string" where
  "inbound_type body event =
     (case opt_text (json_or (jget event ''type'') (jget body ''type'')) of
        Some s \<Rightarrow> s | None \<Rightarrow> ''unknown'')"

definition in_item :: "string \<Rightarrow> jobj \<Rightarrow> string option" where
  "in_item k event =
     (case json_obj (jget event ''item'') of Some m \<Rightarrow> opt_text (jget m k) | None \<Rightarrow> None)"

definition inbound_channel :: "jobj \<Rightarrow> string option" where
  "inbound_channel event = opt_or (opt_text (jget event ''channel'')) (in_item ''channel'' event)"

definition inbound_message_ts :: "jobj \<Rightarrow> string option" where
  "inbound_message_ts event = opt_or (opt_text (jget event ''ts'')) (in_item ''ts'' event)"

definition inbound_thread_ts :: "jobj \<Rightarrow> string option" where
  "inbound_thread_ts event = opt_or (opt_text (jget event ''thread_ts'')) (inbound_message_ts event)"

text \<open>\<open>datetime.fromtimestamp\<close>: microseconds, halves to even, between the years 1 and 9999.\<close>

definition half_even_micros :: "nat \<Rightarrow> int \<Rightarrow> nat" where
  "half_even_micros c x =
     (if 0 \<le> x + 6 then c * 10 ^ nat (x + 6)
      else (let m = 10 ^ nat (- (x + 6)); q = c div m; r = c mod m
            in if m < 2 * r \<or> (2 * r = m \<and> odd q) then q + 1 else q))"

fun from_timestamp :: "decimal \<Rightarrow> timestamp res" where
  "from_timestamp (Dec s c x) =
     (let m = (if s then - 1 else 1) * int (half_even_micros c x)
      in if seconds (- 62135596800) \<le> m \<and> m < seconds 253402300800 then Inr m
         else Inl (ValueError ''year is out of range''))"
| "from_timestamp DNaN = Inl (ValueError ''cannot convert float NaN to integer'')"
| "from_timestamp (DInf s) = Inl (Raised ''OverflowError'' ''cannot convert float infinity to integer'')"

definition number_time :: "decimal option \<Rightarrow> timestamp option res" where
  "number_time x =
     (case x of None \<Rightarrow> Inr None
      | Some v \<Rightarrow> (case from_timestamp v of Inl e \<Rightarrow> Inl e | Inr t \<Rightarrow> Inr (Some t)))"

text \<open>Only of a text a \<open>ValueError\<close> is caught.\<close>

definition inbound_time :: "jobj \<Rightarrow> timestamp option res" where
  "inbound_time body =
     (case jget body ''event_time'' of
        JInt n \<Rightarrow> number_time (Some (dec_of_int n))
      | JFloat r \<Rightarrow> number_time (dec_parse r)
      | JStr s \<Rightarrow>
          (if strip s = [] then Inr None
           else (case number_time (dec_parse s) of Inl (ValueError m) \<Rightarrow> Inr None | r \<Rightarrow> r))
      | _ \<Rightarrow> Inr None)"

definition header_value :: "string \<Rightarrow> jobj \<Rightarrow> string option" where
  "header_value header_name body =
     (case json_obj (jget body ''headers'') of
        None \<Rightarrow> None
      | Some hs \<Rightarrow>
          (case find (\<lambda>kv. casefold (fst kv) = header_name) hs of
             None \<Rightarrow> None | Some kv \<Rightarrow> opt_text (snd kv)))"

definition inbound_retry_num :: "jobj \<Rightarrow> int option" where
  "inbound_retry_num body =
     (case json_or (jget body ''retry_num'') (json_or (jget body ''X-Slack-Retry-Num'')
             (jopt_str (header_value ''x-slack-retry-num'' body))) of
        JInt n \<Rightarrow> Some n
      | JStr s \<Rightarrow>
          (if strip s \<noteq> [] \<and> list_all is_digit (strip s)
           then Some (int (digits_value 10 (strip s))) else None)
      | _ \<Rightarrow> None)"

definition inbound_retry_reason :: "jobj \<Rightarrow> string option" where
  "inbound_retry_reason body =
     opt_or (opt_text (jget body ''retry_reason''))
       (opt_or (opt_text (jget body ''X-Slack-Retry-Reason'')) (header_value ''x-slack-retry-reason'' body))"

section \<open>Recording a delivery\<close>

definition existing_inbound :: "uuid \<Rightarrow> string option \<Rightarrow> inbound_db \<Rightarrow> inbound option" where
  "existing_inbound inst event_id d =
     (case event_id of
        None \<Rightarrow> None
      | Some ev \<Rightarrow> find (\<lambda>r. ib_installation r = inst \<and> ib_event_id r = Some ev) (in_rows d))"

definition surfaces_of :: "inbound \<Rightarrow> json list" where
  "surfaces_of r = (case jget (ib_metadata r) ''surfaces'' of JArr xs \<Rightarrow> xs | _ \<Rightarrow> [JStr (ib_surface r)])"

definition delivery_count :: "inbound \<Rightarrow> int" where
  "delivery_count r = (case jget (ib_metadata r) ''delivery_count'' of
     JInt n \<Rightarrow> if n = 0 then 1 else n | _ \<Rightarrow> 1)"

text \<open>A repeated delivery: the counter goes up only when Slack says that it is a retry. The list of surfaces
  is changed in place there, which the session writes only along with another change; the model keeps
  what the session sees.\<close>

definition seen_again :: "jobj \<Rightarrow> string \<Rightarrow> timestamp \<Rightarrow> inbound \<Rightarrow> inbound" where
  "seen_again body surface now r =
     (let surfaces = surfaces_of r;
          surfaces' = (if JStr surface \<in> set surfaces then surfaces else surfaces @ [JStr surface]);
          meta = AList.update ''surfaces'' (JArr surfaces') (ib_metadata r);
          again = (inbound_retry_num body \<noteq> None \<or> inbound_retry_reason body \<noteq> None)
      in r\<lparr>ib_metadata := (if again
             then AList.update ''last_delivery_at'' (JStr (isoformat now))
                    (AList.update ''delivery_count'' (JInt (delivery_count r + 1)) meta)
             else meta),
           ib_retry_num := opt_or (inbound_retry_num body) (ib_retry_num r),
           ib_retry_reason := opt_or (inbound_retry_reason body) (ib_retry_reason r)\<rparr>)"

definition new_inbound ::
  "uuid \<Rightarrow> uuid \<Rightarrow> string \<Rightarrow> jobj \<Rightarrow> jobj \<Rightarrow> string \<Rightarrow> timestamp option \<Rightarrow> timestamp \<Rightarrow> inbound" where
  "new_inbound iid inst team body event surface at now =
     \<lparr>ib_id = iid, ib_installation = inst, ib_team = team, ib_event_id = opt_text (jget body ''event_id''),
      ib_type = inbound_type body event, ib_subtype = opt_text (jget event ''subtype''),
      ib_surface = surface, ib_channel = inbound_channel event, ib_user = opt_text (jget event ''user''),
      ib_message_ts = inbound_message_ts event, ib_thread_ts = inbound_thread_ts event,
      ib_event_time = at, ib_retry_num = inbound_retry_num body,
      ib_retry_reason = inbound_retry_reason body, ib_body = body, ib_event = event,
      ib_status = ''received'', ib_attempts = 0, ib_task = None, ib_observation = None,
      ib_metadata = [(''delivery_count'', JInt 1), (''surfaces'', JArr [JStr surface])],
      ib_last_error = None, ib_received_at = now, ib_processed_at = None\<rparr>"

text \<open>The unique index on the installation and the event identifier.\<close>

definition inbound_violation :: "inbound \<Rightarrow> inbound_db \<Rightarrow> string option" where
  "inbound_violation r d =
     (if inbound_get (ib_id r) d \<noteq> None then Some ''slack_inbound_events_pkey''
      else if existing_inbound (ib_installation r) (ib_event_id r) d \<noteq> None
      then Some ''idx_slack_inbound_events_event_unique''
      else None)"

definition insert_inbound :: "inbound \<Rightarrow> (inbound_db, unit) op" where
  "insert_inbound r =
     seq (reading (inbound_violation r)) (\<lambda>bad.
     case bad of
       Some c \<Rightarrow> raising (IntegrityError c)
     | None \<Rightarrow> writing (\<lambda>d. d\<lparr>in_rows := in_rows d @ [r]\<rparr>))"

definition mark_seen :: "inbound \<Rightarrow> jobj \<Rightarrow> string \<Rightarrow> (inbound_db, uuid) op" where
  "mark_seen r body surface =
     seq (writing (\<lambda>d. upd_inbound (ib_id r) (seen_again body surface (in_now d)) d)) (\<lambda>_.
     returning (ib_id r))"

text \<open>The identifier of the row of the delivery, new or known.\<close>

definition record_inbound ::
  "(inbound_db \<Rightarrow> inbound_db) \<Rightarrow> (inbound_db \<Rightarrow> uuid) \<Rightarrow> uuid \<Rightarrow> string \<Rightarrow> jobj \<Rightarrow> jobj \<Rightarrow> string \<Rightarrow>
   (inbound_db, uuid) op" where
  "record_inbound race fresh inst team body event surface =
     (let event_id = opt_text (jget body ''event_id'') in
      seq (reading (existing_inbound inst event_id)) (\<lambda>known.
      case known of
        Some r \<Rightarrow> mark_seen r body surface
      | None \<Rightarrow>
          seq (lifting (inbound_time body)) (\<lambda>at.
          seq (writing race) (\<lambda>_.
          seq (reading (\<lambda>d. new_inbound (fresh d) inst team body event surface at (in_now d))) (\<lambda>r.
          catching (seq (insert_inbound r) (\<lambda>_. returning (ib_id r)))
            (\<lambda>e. case e of
               IntegrityError c \<Rightarrow>
                 seq (reading (existing_inbound inst event_id)) (\<lambda>again.
                 case again of
                   None \<Rightarrow> raising e
                 | Some r' \<Rightarrow> mark_seen r' body surface)
             | _ \<Rightarrow> raising e))))))"

section \<open>Marks\<close>

text \<open>Nothing is merged when there is nothing to merge; the result is the same.\<close>

definition marked :: "string \<Rightarrow> jobj \<Rightarrow> timestamp \<Rightarrow> inbound \<Rightarrow> inbound" where
  "marked status metadata now r =
     r\<lparr>ib_status := status, ib_processed_at := Some now, ib_metadata := jmerge (ib_metadata r) metadata\<rparr>"

definition mark_row :: "uuid \<Rightarrow> (timestamp \<Rightarrow> inbound \<Rightarrow> inbound) \<Rightarrow> (inbound_db, unit) op" where
  "mark_row iid f = writing (\<lambda>d. upd_inbound iid (f (in_now d)) d)"

definition ignored_row :: "string \<Rightarrow> jobj \<Rightarrow> timestamp \<Rightarrow> inbound \<Rightarrow> inbound" where
  "ignored_row reason metadata now r =
     (if ib_status r \<in> set non_degradable then r
      else marked ''ignored'' (jmerge [(''reason'', JStr reason)] metadata) now r)"

definition observed_row :: "uuid option \<Rightarrow> jobj \<Rightarrow> timestamp \<Rightarrow> inbound \<Rightarrow> inbound" where
  "observed_row observation metadata now r =
     (if ib_status r = ''task_created'' then r
      else marked ''observed'' metadata now (r\<lparr>ib_observation := opt_or observation (ib_observation r)\<rparr>))"

definition task_created_row :: "uuid \<Rightarrow> jobj \<Rightarrow> timestamp \<Rightarrow> inbound \<Rightarrow> inbound" where
  "task_created_row tid metadata now r = marked ''task_created'' metadata now (r\<lparr>ib_task := Some tid\<rparr>)"

definition failed_row :: "string \<times> string \<Rightarrow> jobj \<Rightarrow> timestamp \<Rightarrow> inbound \<Rightarrow> inbound" where
  "failed_row error metadata now r =
     (let r' = r\<lparr>ib_attempts := ib_attempts r + 1,
                  ib_last_error := Some [(''error_type'', JStr (fst error)), (''error'', JStr (snd error))]\<rparr>
      in if ib_status r \<noteq> ''task_created'' then marked ''failed'' metadata now r'
         else r'\<lparr>ib_metadata := jmerge (ib_metadata r) metadata\<rparr>)"

definition mark_ignored :: "uuid \<Rightarrow> string \<Rightarrow> jobj \<Rightarrow> (inbound_db, unit) op" where
  "mark_ignored iid reason metadata = mark_row iid (ignored_row reason metadata)"

definition mark_observed :: "uuid \<Rightarrow> uuid option \<Rightarrow> jobj \<Rightarrow> (inbound_db, unit) op" where
  "mark_observed iid observation metadata = mark_row iid (observed_row observation metadata)"

definition mark_task_created :: "uuid \<Rightarrow> uuid \<Rightarrow> jobj \<Rightarrow> (inbound_db, unit) op" where
  "mark_task_created iid tid metadata = mark_row iid (task_created_row tid metadata)"

definition mark_inbound_failed :: "uuid \<Rightarrow> string \<times> string \<Rightarrow> jobj \<Rightarrow> (inbound_db, unit) op" where
  "mark_inbound_failed iid error metadata = mark_row iid (failed_row error metadata)"

definition mark_dead_lettered :: "uuid \<Rightarrow> string \<Rightarrow> jobj \<Rightarrow> (inbound_db, unit) op" where
  "mark_dead_lettered iid reason metadata =
     mark_row iid (marked ''dead_lettered'' (jmerge [(''reason'', JStr reason)] metadata))"

definition mark_replayed :: "uuid \<Rightarrow> jobj \<Rightarrow> (inbound_db, unit) op" where
  "mark_replayed iid metadata = mark_row iid (marked ''replayed'' metadata)"

end
