(* ===== verification/Slack_Request.thy ===== *)
theory Slack_Request
  imports Slack_Inbound Py_Regex
begin

text \<open>
  What is read from a message before a task is made of it: the text of the task, the files that came
  with it (\<open>kortny/slack/ingress.py\<close>), and the policy for messages that only name the app
  (\<open>kortny/intent/policy.py\<close>, with the part of \<open>kortny/intent/models.py\<close> it reads).
\<close>

section \<open>Fields of an event\<close>

definition slack_str :: "jobj \<Rightarrow> string \<Rightarrow> string res" where
  "slack_str values k =
     (case jget values k of
        JStr (c # s) \<Rightarrow> Inr (c # s)
      | _ \<Rightarrow> Inl (ValueError (''Slack event is missing '' @ repr_text k)))"

definition team_id_of :: "jobj \<Rightarrow> jobj \<Rightarrow> string res" where
  "team_id_of body event =
     (case json_or (jget body ''team_id'') (jget event ''team'') of
        JStr (c # s) \<Rightarrow> Inr (c # s)
      | _ \<Rightarrow> Inl (ValueError ''Slack event is missing team_id''))"

definition event_thread_ts :: "jobj \<Rightarrow> string res" where
  "event_thread_ts event =
     (case json_or (jget event ''thread_ts'') (jget event ''ts'') of
        JStr (c # s) \<Rightarrow> Inr (c # s)
      | _ \<Rightarrow> Inl (ValueError ''Slack event is missing ts''))"

text \<open>The tasks of a direct conversation share its channel as their thread.\<close>

definition context_thread_ts :: "jobj \<Rightarrow> string \<Rightarrow> string \<Rightarrow> string res" where
  "context_thread_ts event source ch = (if source = ''dm'' then Inr ch else event_thread_ts event)"

definition is_thread_follow_up :: "jobj \<Rightarrow> bool" where
  "is_thread_follow_up event =
     (case (jget event ''thread_ts'', jget event ''ts'') of
        (JStr th, JStr ts) \<Rightarrow> th \<noteq> [] \<and> th \<noteq> ts | _ \<Rightarrow> False)"

definition ignored_dm_subtypes :: "string list" where
  "ignored_dm_subtypes = [''bot_message'', ''channel_join'', ''group_join'', ''message_changed'', ''message_deleted'']"

definition dm_ignore_reason :: "jobj \<Rightarrow> string option" where
  "dm_ignore_reason event =
     (if jget event ''channel_type'' \<noteq> JStr ''im'' then Some ''non_dm''
      else
        (case json_str (jget event ''subtype'') of
           Some s \<Rightarrow> if s \<in> set ignored_dm_subtypes then Some (''subtype:'' @ s)
             else if truthy (json_str (jget event ''bot_id'')) \<noteq> None then Some ''bot_id'' else None
         | None \<Rightarrow> if truthy (json_str (jget event ''bot_id'')) \<noteq> None then Some ''bot_id'' else None))"

section \<open>The text of a task\<close>

definition event_files :: "jobj \<Rightarrow> jobj list" where
  "event_files event =
     (case jget event ''files'' of JArr xs \<Rightarrow> concat (map (\<lambda>x. case json_obj x of Some f \<Rightarrow> [f] | None \<Rightarrow> []) xs)
      | _ \<Rightarrow> [])"

definition leading_mention :: rx where
  "leading_mention = rx_seqs [Rx_Star rx_spaces, rx_text ''<@'', rx_plus (Rx_Char (\<lambda>c. c \<noteq> CHR ''>'')),
     rx_text ''>'', Rx_Star rx_spaces]"

definition drop_leading_mention :: "string \<Rightarrow> string" where
  "drop_leading_mention s = rx_strip_prefix leading_mention s"

definition is_bare_app_mention :: "jobj \<Rightarrow> bool" where
  "is_bare_app_mention event =
     (if event_files event \<noteq> [] then False
      else (case json_str (jget event ''text'') of
              None \<Rightarrow> True | Some s \<Rightarrow> strip (drop_leading_mention s) = []))"

text \<open>Blanks before a punctuation mark are dropped; \<open>held\<close> are the blanks just read.\<close>

fun space_before_punctuation :: "string \<Rightarrow> string \<Rightarrow> string" where
  "space_before_punctuation held [] = held"
| "space_before_punctuation held (c # s) =
     (if is_space c then space_before_punctuation (held @ [c]) s
      else if c \<in> set '',.!?;:'' then c # space_before_punctuation [] s
      else held @ c # space_before_punctuation [] s)"

definition strip_bot_mention :: "string \<Rightarrow> string \<Rightarrow> string" where
  "strip_bot_mention bot_id s =
     join '' '' (split_ws (space_before_punctuation []
       (rx_sub (rx_text (''<@'' @ bot_id @ ''>'')) '' '' s)))"

definition file_lines :: "jobj \<Rightarrow> string list" where
  "file_lines f =
     (case opt_text (jget f ''id'') of
        None \<Rightarrow> []
      | Some fid \<Rightarrow> (''- id: '' @ fid) #
          concat (map (\<lambda>(k, label).
            (case opt_text (jget f k) of
               Some v \<Rightarrow> [''  '' @ label @ '': '' @ v]
             | None \<Rightarrow>
                 (case jget f k of
                    JInt n \<Rightarrow> if k = ''size'' then [''  '' @ label @ '': '' @ int_str n] else []
                  | _ \<Rightarrow> [])))
            [(''name'', ''name''), (''title'', ''title''), (''mimetype'', ''mimetype''), (''size'', ''size_bytes'')]))"

definition append_file_context :: "string \<Rightarrow> jobj \<Rightarrow> string" where
  "append_file_context input_text event =
     (case concat (map file_lines (event_files event)) of
        [] \<Rightarrow> input_text
      | ls \<Rightarrow> join nl ([input_text, [], ''<slack_files>''] @ ls @ [''</slack_files>'']))"

definition task_input :: "bool \<Rightarrow> string option \<Rightarrow> jobj \<Rightarrow> string" where
  "task_input strip_mention bot_id event =
     (case json_str (jget event ''text'') of
        None \<Rightarrow> []
      | Some s \<Rightarrow>
          (let s1 = (case bot_id of None \<Rightarrow> strip s | Some b \<Rightarrow> strip_bot_mention b (strip s));
               s2 = (if strip_mention then strip (drop_leading_mention s1) else s1)
           in append_file_context (if s2 = [] then strip s else s2) event))"

section \<open>The intent of a message\<close>

datatype intent_class =
    Task_Request_Intent | Follow_Up | Memory_Candidate | Clarification | Cancel_Or_Retry
  | Third_Person_Reference | Ambient_Observation | Ignore_Intent

fun intent_class_value :: "intent_class \<Rightarrow> string" where
  "intent_class_value Task_Request_Intent = ''task_request''"
| "intent_class_value Follow_Up = ''follow_up''"
| "intent_class_value Memory_Candidate = ''memory_candidate''"
| "intent_class_value Clarification = ''clarification''"
| "intent_class_value Cancel_Or_Retry = ''cancel_or_retry''"
| "intent_class_value Third_Person_Reference = ''third_person_reference''"
| "intent_class_value Ambient_Observation = ''ambient_observation''"
| "intent_class_value Ignore_Intent = ''ignore''"

text \<open>A decision of the classifier: the fields the ingress reads, and the whole of it as JSON. The
  first fragment of a message is its type and whether it is to be carried out.\<close>

record intent_decision =
  in_addressed :: bool
  in_class :: intent_class
  in_confidence :: decimal
  in_create :: bool
  in_ack :: bool
  in_primary :: "(intent_class \<times> bool) option"
  in_dump :: jobj

definition routing_classification :: "intent_decision \<Rightarrow> intent_class" where
  "routing_classification x =
     (case in_primary x of Some (c, True) \<Rightarrow> c | _ \<Rightarrow> in_class x)"

definition routing_should_create_task :: "intent_decision \<Rightarrow> bool" where
  "routing_should_create_task x = (case in_primary x of Some (c, go) \<Rightarrow> go | None \<Rightarrow> in_create x)"

definition soft_mention_confidence :: decimal where
  "soft_mention_confidence = Dec False 85 (- 2)"

definition confident :: "intent_decision \<Rightarrow> bool" where
  "confident x \<longleftrightarrow> dec_le soft_mention_confidence (in_confidence x) = Inr True"

definition should_create_task_from_soft_mention :: "intent_decision \<Rightarrow> bool" where
  "should_create_task_from_soft_mention x \<longleftrightarrow> in_addressed x \<and>
     routing_classification x \<in> {Task_Request_Intent, Follow_Up, Memory_Candidate} \<and> confident x \<and>
     routing_should_create_task x"

definition should_react_to_rejected_soft_mention :: "intent_decision \<Rightarrow> bool" where
  "should_react_to_rejected_soft_mention x \<longleftrightarrow> \<not> in_addressed x \<and> in_class x = Third_Person_Reference \<and>
     confident x \<and> \<not> in_create x \<and> in_ack x"

text \<open>The name as a word of its own, in either case.\<close>

definition contains_app_name :: "string \<Rightarrow> string \<Rightarrow> bool" where
  "contains_app_name app_name s =
     (let sub = casefold (strip app_name) in
      sub \<noteq> [] \<and> list_ex (\<lambda>i. starts_with sub (drop i (casefold s)) \<and>
        \<not> (0 < i \<and> word_at s (i - 1)) \<and> \<not> word_at s (i + length sub)) [0..<Suc (length s)])"

definition slack_user_mention :: rx where
  "slack_user_mention =
     (let upper = (\<lambda>c. c \<in> set ''ABCDEFGHIJKLMNOPQRSTUVWXYZ0123456789'') in
      rx_seqs [rx_text ''<@'', Rx_Char upper, Rx_Star (Rx_Char (\<lambda>c. upper c \<or> c \<in> set ''._-'')), rx_text ''>''])"

definition should_classify_channel_message :: "string \<Rightarrow> jobj \<Rightarrow> bool" where
  "should_classify_channel_message app_name event =
     (jget event ''type'' = JStr ''message'' \<and> jget event ''channel_type'' \<noteq> JStr ''im'' \<and>
      opt_text (jget event ''bot_id'') = None \<and> opt_text (jget event ''subtype'') = None \<and>
      (case opt_text (jget event ''text'') of
         None \<Rightarrow> False
       | Some s \<Rightarrow> \<not> rx_search slack_user_mention s \<and> contains_app_name app_name s))"

end
