(* ===== verification/Slack_Ingress.thy ===== *)
theory Slack_Ingress
  imports Slack_Request Memory_Facts Witness_Lifecycle
begin

text \<open>
  \<open>kortny/slack/ingress.py\<close>, the messages: a mention of the app, a direct message and a message that
  names the app become tasks, one for a message however often it is delivered.

  The classifier of intents with the checks of its request, the choice of an emoji, the refresh of the
  cached names and the commands and proposals about schedules are arguments, as are Slack's
  \<open>auth.test\<close> and \<open>reactions.add\<close>. The logger and the spans are left out.
\<close>

section \<open>State\<close>

record installation =
  is_id :: uuid
  is_team :: string
  is_bot :: "string option"
  is_admin :: "string option"

text \<open>The tables the ingress writes, and the installations this instance of it has created.\<close>

record ingress_world =
  ig_mem :: mem_world
  ig_inbound :: "inbound list"
  ig_installs :: "installation list"
  ig_new :: "uuid list"
  ig_candidates :: "candidate list"
  ig_proactive :: "proactive_event list"

definition ig_db :: "ingress_world \<Rightarrow> db" where
  "ig_db w = mem_db (ig_mem w)"

definition on_ig_mem :: "(mem_world, 'a) op \<Rightarrow> (ingress_world, 'a) op" where
  "on_ig_mem m = (\<lambda>w. case m (ig_mem w) of (r, v) \<Rightarrow> (r, w\<lparr>ig_mem := v\<rparr>))"

definition on_ig_post :: "(post_db, 'a) op \<Rightarrow> (ingress_world, 'a) op" where
  "on_ig_post m = on_ig_mem (on_mem_post m)"

definition on_ig_db :: "(db, 'a) op \<Rightarrow> (ingress_world, 'a) op" where
  "on_ig_db m = on_ig_mem (on_mem_db m)"

definition on_ig_inbound :: "(inbound_db, 'a) op \<Rightarrow> (ingress_world, 'a) op" where
  "on_ig_inbound m = (\<lambda>w. case m \<lparr>in_rows = ig_inbound w, in_now = db_now (ig_db w)\<rparr> of
     (r, d) \<Rightarrow> (r, w\<lparr>ig_inbound := in_rows d\<rparr>))"

definition ig_log :: "uuid \<Rightarrow> jobj \<Rightarrow> (ingress_world, unit) op" where
  "ig_log tid p = seq (on_ig_db (append_event tid Log p)) (\<lambda>_. returning ())"

text \<open>Where a schedule command or a proposal is made.\<close>

record schedule_context =
  sx_installation :: uuid
  sx_channel :: string
  sx_user :: string
  sx_thread_ts :: string
  sx_surface :: string
  sx_task :: uuid
  sx_status :: task_status

text \<open>What is said about a schedule: the kind of the answer, its text and its blocks.\<close>

record schedule_reply =
  sy_kind :: string
  sy_text :: string
  sy_blocks :: "json list option"

record ingress_env =
  ge_post :: post_env
  ge_sha :: "string \<Rightarrow> string"
  ge_race :: "db \<Rightarrow> db"
  ge_fresh_task :: "ingress_world \<Rightarrow> uuid"
  ge_inbound_race :: "inbound_db \<Rightarrow> inbound_db"
  ge_fresh_inbound :: "inbound_db \<Rightarrow> uuid"
  ge_install_race :: "installation list \<Rightarrow> installation list"
  ge_fresh_install :: "ingress_world \<Rightarrow> uuid"
  ge_auth_test :: "(ingress_world, slack_answer) op option"
  ge_reactions_add :: "(string \<Rightarrow> string \<Rightarrow> string \<Rightarrow> (post_db, slack_answer) op) option"
  ge_reaction :: "string \<Rightarrow> string \<Rightarrow> intent_decision option \<Rightarrow> string \<times> string"
  ge_classify :: "(string \<Rightarrow> string \<Rightarrow> bool \<Rightarrow> bool \<Rightarrow> schedule_context option \<Rightarrow> (ingress_world, intent_decision) op) option"
  ge_identity :: "uuid \<Rightarrow> string \<Rightarrow> string \<Rightarrow> (ingress_world, jobj) op"
  ge_traceparent :: "string option"
  ge_command :: "schedule_context \<Rightarrow> string \<Rightarrow> (ingress_world, schedule_reply option) op"
  ge_looks_like_schedule :: "string \<Rightarrow> bool"
  ge_proposal :: "schedule_context \<Rightarrow> string \<Rightarrow> (ingress_world, schedule_reply option) op"
  ge_acknowledgement :: "uuid \<Rightarrow> (ingress_world, string) op"
  ge_ceiling :: "string option"
  ge_assistant_threads :: "(string \<times> string) list"
  ge_agent_name :: string
  ge_ledger :: bool
  ge_materialize :: "candidate \<Rightarrow> string \<Rightarrow> (ingress_world, unit) op"

text \<open>\<open>except Exception\<close>.\<close>

definition excepting :: "(ingress_world, unit) op \<Rightarrow> (py_error \<Rightarrow> (ingress_world, unit) op) \<Rightarrow> (ingress_world, unit) op" where
  "excepting m h = catching m h"

section \<open>Installations\<close>

definition installation_of :: "string \<Rightarrow> ingress_world \<Rightarrow> installation option" where
  "installation_of team w = find (\<lambda>i. is_team i = team) (ig_installs w)"

definition new_installation :: "ingress_env \<Rightarrow> string \<Rightarrow> ingress_world \<Rightarrow> installation" where
  "new_installation env team w = \<lparr>is_id = ge_fresh_install env w, is_team = team, is_bot = None, is_admin = None\<rparr>"

definition get_or_create_installation :: "ingress_env \<Rightarrow> string \<Rightarrow> (ingress_world, installation) op" where
  "get_or_create_installation env team =
     seq (reading (installation_of team)) (\<lambda>known.
     case known of
       Some i \<Rightarrow> returning i
     | None \<Rightarrow>
         seq (writing (\<lambda>w. w\<lparr>ig_installs := ge_install_race env (ig_installs w)\<rparr>)) (\<lambda>_.
         seq (reading (\<lambda>w. (new_installation env team w, installation_of team w,
                is_id (new_installation env team w) \<in> is_id ` set (ig_installs w)))) (\<lambda>(i, again, taken).
         case again of
           Some j \<Rightarrow> returning j
         | None \<Rightarrow>
             if taken then raising (IntegrityError ''installations_pkey'')
             else seq (writing (\<lambda>w. w\<lparr>ig_installs := ig_installs w @ [i], ig_new := is_id i # ig_new w\<rparr>)) (\<lambda>_.
                  returning i))))"

definition upd_installation :: "uuid \<Rightarrow> (installation \<Rightarrow> installation) \<Rightarrow> (ingress_world, unit) op" where
  "upd_installation iid f = writing (\<lambda>w. w\<lparr>ig_installs := row_upd is_id iid f (ig_installs w)\<rparr>)"

definition record_event :: "ingress_env \<Rightarrow> uuid \<Rightarrow> string \<Rightarrow> jobj \<Rightarrow> jobj \<Rightarrow> string \<Rightarrow> (ingress_world, uuid) op" where
  "record_event env inst team body event surface =
     on_ig_inbound (record_inbound (ge_inbound_race env) (ge_fresh_inbound env) inst team body event surface)"

definition resolve_bot_user :: "ingress_env \<Rightarrow> installation \<Rightarrow> (ingress_world, string option) op" where
  "resolve_bot_user env i =
     (case truthy (is_bot i) of
        Some b \<Rightarrow> returning (Some b)
      | None \<Rightarrow>
          (case ge_auth_test env of
             None \<Rightarrow> returning None
           | Some call \<Rightarrow>
               seq call (\<lambda>answer.
               case answer of
                 Mapping_Answer p \<Rightarrow>
                   (case truthy (json_str (jget p ''user_id'')) of
                      None \<Rightarrow> returning None
                    | Some b \<Rightarrow> seq (upd_installation (is_id i) (\<lambda>r. r\<lparr>is_bot := Some b\<rparr>)) (\<lambda>_. returning (Some b)))
               | _ \<Rightarrow> returning None)))"

text \<open>The first words to the person who brought the app, once for an installation.\<close>

definition install_intro_text :: "string \<Rightarrow> string" where
  "install_intro_text agent_name =
     ''Hey '' @ em_dash @ '' I'' @ [CHR 0x27] @ ''m '' @ agent_name @
     '', your new AI coworker. Thanks for setting me up. :wave:'' @ nl @ nl @
     ''Here'' @ [CHR 0x27] @ ''s a good first thing to try: just DM me something like '' @
     ''*'' @ [CHR 0x22] @ ''summarize what happened in #general today'' @ [CHR 0x22] @ ''* and I'' @ [CHR 0x27] @
     ''ll get to work.'' @ nl @ nl @
     ''When you'' @ [CHR 0x27] @ ''re ready, invite me into a channel (`/invite @'' @ agent_name @
     ''`) and I'' @ [CHR 0x27] @ ''ll start helping the whole team there.''"

definition install_intro_request :: "ingress_env \<Rightarrow> uuid \<Rightarrow> string \<Rightarrow> string \<Rightarrow> effect_request" where
  "install_intro_request env inst user s =
     \<lparr>er_installation = inst, er_key = slack_install_intro_key inst, er_operation = ''chat_postMessage'',
      er_request = [(''channel'', JStr user), (''text'', JStr s)], er_channel = Some user, er_thread_ts = None,
      er_message_ts = None, er_task = None, er_purpose = Some ''install_intro''\<rparr>"

definition post_install_intro :: "ingress_env \<Rightarrow> installation \<Rightarrow> string \<Rightarrow> (ingress_world, unit) op" where
  "post_install_intro env i user =
     (if user = [] then returning ()
      else
        seq (reading (\<lambda>w. case row_get is_id (is_id i) (ig_installs w) of None \<Rightarrow> True | Some r \<Rightarrow> is_admin r = None)) (\<lambda>unset.
        seq (if unset then upd_installation (is_id i) (\<lambda>r. r\<lparr>is_admin := Some user\<rparr>) else returning ()) (\<lambda>_.
        let s = pe_normalize (ge_post env) (install_intro_text (ge_agent_name env)) in
        excepting
          (seq (on_ig_post (deliver_effect (ge_post env) (install_intro_request env (is_id i) user s)
                 (pe_chat_post (ge_post env) user s None None))) (\<lambda>_. returning ()))
          (\<lambda>e. returning ()))))"

definition intro_new_installation :: "ingress_env \<Rightarrow> installation \<Rightarrow> string \<Rightarrow> (ingress_world, unit) op" where
  "intro_new_installation env i user =
     seq (reading (\<lambda>w. is_id i \<in> set (ig_new w))) (\<lambda>fresh.
     if \<not> fresh then returning ()
     else seq (writing (\<lambda>w. w\<lparr>ig_new := filter (\<lambda>j. j \<noteq> is_id i) (ig_new w)\<rparr>)) (\<lambda>_. post_install_intro env i user))"

section \<open>The intent\<close>

definition record_intent :: "uuid \<Rightarrow> string \<Rightarrow> intent_decision \<Rightarrow> (ingress_world, unit) op" where
  "record_intent tid source x =
     ig_log tid [(''message'', JStr ''intent_classification_completed''), (''source'', JStr source),
       (''decision'', JObj (in_dump x))]"

text \<open>The surface of a request; what fails is logged.\<close>

definition intent_surface :: "string \<Rightarrow> string" where
  "intent_surface source = (if source \<in> {''dm'', ''channel_message''} then source else ''app_mention'')"

definition classify_intent :: "ingress_env \<Rightarrow> schedule_context \<Rightarrow> string \<Rightarrow> jobj \<Rightarrow> (ingress_world, intent_decision option) op" where
  "classify_intent env x input_text event =
     (case ge_classify env of
        None \<Rightarrow> returning None
      | Some classify \<Rightarrow>
          seq (catching
                (seq (classify input_text (intent_surface (sx_surface x)) (is_thread_follow_up event)
                       (event_files event \<noteq> []) (Some x)) (\<lambda>d. returning (Some d)))
                (\<lambda>e. seq (ig_log (sx_task x)
                     [(''message'', JStr ''intent_classification_failed''), (''source'', JStr (sx_surface x)),
                      (''error_type'', JStr (fst (pe_describe (ge_post env) e))),
                      (''error'', JStr (snd (pe_describe (ge_post env) e)))]) (\<lambda>_. returning None))) (\<lambda>found.
          case found of
            None \<Rightarrow> returning None
          | Some d \<Rightarrow> seq (record_intent (sx_task x) (sx_surface x) d) (\<lambda>_. returning (Some d))))"

definition classify_soft_message :: "ingress_env \<Rightarrow> string \<Rightarrow> jobj \<Rightarrow> (ingress_world, intent_decision option) op" where
  "classify_soft_message env input_text event =
     (case ge_classify env of
        None \<Rightarrow> returning None
      | Some classify \<Rightarrow>
          catching
            (seq (classify input_text ''channel_message'' (is_thread_follow_up event) (event_files event \<noteq> []) None)
               (\<lambda>d. returning (Some d)))
            (\<lambda>e. returning None))"

section \<open>Reactions on a message\<close>

definition reaction_request ::
  "uuid \<Rightarrow> uuid option \<Rightarrow> string \<Rightarrow> string \<Rightarrow> string \<Rightarrow> string \<Rightarrow> string \<Rightarrow> jobj \<Rightarrow> effect_request" where
  "reaction_request inst tid key purpose ch ts reaction extra =
     \<lparr>er_installation = inst, er_key = key, er_operation = ''reactions_add'',
      er_request = [(''channel'', JStr ch), (''name'', JStr reaction), (''timestamp'', JStr ts)] @ extra,
      er_channel = Some ch, er_thread_ts = None, er_message_ts = Some ts, er_task = tid,
      er_purpose = Some purpose\<rparr>"

definition ack_payload :: "string \<Rightarrow> string \<Rightarrow> string \<Rightarrow> string \<Rightarrow> string \<times> string \<Rightarrow> jobj" where
  "ack_payload message source ch ts choice =
     [(''message'', JStr message), (''source'', JStr source), (''channel'', JStr ch), (''message_ts'', JStr ts),
      (''reaction'', JStr (fst choice)), (''reaction_intent'', JStr (snd choice))]"

definition post_ack_reaction ::
  "ingress_env \<Rightarrow> schedule_context \<Rightarrow> string \<Rightarrow> string \<Rightarrow> intent_decision option \<Rightarrow> (ingress_world, unit) op" where
  "post_ack_reaction env x input_text ts decision =
     (let tid = sx_task x; ch = sx_channel x; source = sx_surface x;
          choice = ge_reaction env input_text source decision;
          key = slack_reaction_key tid ''reactions_add'' ch ts (fst choice)
      in case ge_reactions_add env of
           None \<Rightarrow> ig_log tid (ack_payload ''slack_ack_reaction_unavailable'' source ch ts choice)
         | Some add \<Rightarrow>
             seq (catching
                   (seq (on_ig_post (deliver_effect (ge_post env)
                          (reaction_request (sx_installation x) (Some tid) key ''acknowledgement'' ch ts (fst choice)
                             [(''reaction_intent'', JStr (snd choice)), (''source'', JStr source)])
                          (add ch (fst choice) ts))) (\<lambda>result. returning (Inr result)))
                   (\<lambda>e. returning (Inl e))) (\<lambda>result.
             case result of
               Inl e \<Rightarrow>
                 ig_log tid (ack_payload ''slack_ack_reaction_failed'' source ch ts choice @
                   [(''error_type'', JStr (fst (pe_describe (ge_post env) e))),
                    (''error'', JStr (snd (pe_describe (ge_post env) e)))])
             | Inr fr \<Rightarrow>
                 ig_log tid (ack_payload ''slack_ack_reaction_added'' source ch ts choice @
                   [(''slack_side_effect_id'', JStr (uuid_str (fr_effect fr))), (''idempotency_key'', JStr key)])))"

definition post_rejected_reaction ::
  "ingress_env \<Rightarrow> uuid \<Rightarrow> string \<Rightarrow> string \<Rightarrow> string \<Rightarrow> string \<Rightarrow> intent_decision \<Rightarrow> (ingress_world, unit) op" where
  "post_rejected_reaction env inst source ch ts input_text x =
     (if \<not> should_react_to_rejected_soft_mention x then returning ()
      else (let choice = ge_reaction env input_text source (Some x);
                key = ''slack:reactions_add:soft_rejected:'' @ uuid_str inst @ '':'' @ ch @ '':'' @ ts @ '':'' @ fst choice
            in case ge_reactions_add env of
                 None \<Rightarrow> returning ()
               | Some add \<Rightarrow>
                   excepting
                     (seq (on_ig_post (deliver_effect (ge_post env)
                            (reaction_request inst None key ''rejected_soft_mention'' ch ts (fst choice)
                               [(''reaction_intent'', JStr (snd choice)), (''source'', JStr source),
                                (''classification'', JStr (intent_class_value (in_class x)))])
                            (add ch (fst choice) ts))) (\<lambda>_. returning ()))
                     (\<lambda>e. returning ())))"

section \<open>Schedules\<close>

definition result_thread :: "schedule_context \<Rightarrow> slack_thread" where
  "result_thread x = \<lparr>th_channel = sx_channel x, th_thread_ts = Some (sx_thread_ts x), th_task = Some (sx_task x),
     th_assistant = False\<rparr>"

definition finish_with_reply :: "ingress_env \<Rightarrow> schedule_context \<Rightarrow> string \<Rightarrow> schedule_reply \<Rightarrow> (ingress_world, string option) op" where
  "finish_with_reply env x purpose reply =
     seq (on_ig_post (post_message (ge_post env) (result_thread x) (sy_text reply) purpose (sy_blocks reply) None)) (\<lambda>ts.
     seq (on_ig_db (update_task (sx_task x) (\<lambda>t. t\<lparr>t_result_summary := Some (sy_text reply)\<rparr>))) (\<lambda>_.
     seq (on_ig_db (transition (sx_status x) (sx_task x) ''succeeded'')) (\<lambda>_.
     returning (Some ts))))"

definition handle_schedule_command :: "ingress_env \<Rightarrow> schedule_context \<Rightarrow> string \<Rightarrow> (ingress_world, string option) op" where
  "handle_schedule_command env x input_text =
     seq (ge_command env x input_text) (\<lambda>found.
     case found of
       None \<Rightarrow> returning None
     | Some reply \<Rightarrow> finish_with_reply env x (''schedule_'' @ sy_kind reply) reply)"

definition should_attempt_schedule_proposal :: "ingress_env \<Rightarrow> string \<Rightarrow> intent_decision option \<Rightarrow> bool" where
  "should_attempt_schedule_proposal env input_text decision \<longleftrightarrow> ge_looks_like_schedule env input_text \<and>
     (case decision of
        None \<Rightarrow> True
      | Some d \<Rightarrow> routing_should_create_task d \<and> routing_classification d \<in> {Task_Request_Intent, Follow_Up})"

definition post_schedule_proposal ::
  "ingress_env \<Rightarrow> schedule_context \<Rightarrow> string \<Rightarrow> intent_decision option \<Rightarrow> (ingress_world, string option) op" where
  "post_schedule_proposal env x input_text decision =
     (if \<not> should_attempt_schedule_proposal env input_text decision then returning None
      else
        seq (ge_proposal env x input_text) (\<lambda>found.
        case found of
          None \<Rightarrow> returning None
        | Some reply \<Rightarrow>
            finish_with_reply env x
              (if sy_kind reply = ''proposed'' then ''schedule_proposal'' else ''schedule_created'') reply))"

section \<open>A message that is for the app\<close>

record mention_result =
  mr_task :: uuid
  mr_created :: bool
  mr_thread_ts :: string
  mr_ack :: "string option"

definition verbal_acks_enabled :: bool where
  "verbal_acks_enabled = False"

definition should_skip_visible_ack :: "jobj \<Rightarrow> string \<Rightarrow> bool" where
  "should_skip_visible_ack event source =
     (if \<not> verbal_acks_enabled then True else source = ''dm'' \<or> is_thread_follow_up event)"

text \<open>What the message asks for.\<close>

record message_request_args =
  ma_installation :: uuid
  ma_event_id :: string
  ma_channel :: string
  ma_thread_ts :: string
  ma_message_ts :: string
  ma_user :: string
  ma_input :: string
  ma_source :: string

definition message_task_request :: "message_request_args \<Rightarrow> task_identity option \<Rightarrow> task_request" where
  "message_task_request a ident =
     \<lparr>rq_installation = ma_installation a, rq_slack_event_id = Some (ma_event_id a), rq_channel = ma_channel a,
      rq_thread_ts = Some (ma_thread_ts a), rq_message_ts = Some (ma_message_ts a), rq_user = ma_user a,
      rq_input = ma_input a, rq_source_surface = Some (ma_source a), rq_parent = None, rq_identity = ident\<rparr>"

definition read_args :: "uuid \<Rightarrow> jobj \<Rightarrow> jobj \<Rightarrow> string \<Rightarrow> string \<Rightarrow> message_request_args res" where
  "read_args inst body event input_text source =
     (case slack_str body ''event_id'' of Inl e \<Rightarrow> Inl e | Inr ev \<Rightarrow>
     (case slack_str event ''channel'' of Inl e \<Rightarrow> Inl e | Inr ch \<Rightarrow>
     (case slack_str event ''ts'' of Inl e \<Rightarrow> Inl e | Inr ts \<Rightarrow>
     (case context_thread_ts event source ch of Inl e \<Rightarrow> Inl e | Inr th \<Rightarrow>
     (case slack_str event ''user'' of Inl e \<Rightarrow> Inl e | Inr u \<Rightarrow>
        Inr \<lparr>ma_installation = inst, ma_event_id = ev, ma_channel = ch, ma_thread_ts = th, ma_message_ts = ts,
             ma_user = u, ma_input = input_text, ma_source = source\<rparr>)))))"

text \<open>The task of the message if there is one; the delivery is marked.\<close>

definition find_existing_task :: "ingress_env \<Rightarrow> message_request_args \<Rightarrow> (ingress_world, task option) op" where
  "find_existing_task env a = on_ig_db (get_by_slack_task_identity (ge_sha env) (message_task_request a None))"

definition existing_result :: "uuid \<Rightarrow> message_request_args \<Rightarrow> task \<Rightarrow> (ingress_world, mention_result) op" where
  "existing_result iid a t =
     seq (on_ig_inbound (mark_task_created iid (t_id t) [(''dedupe'', JStr ''existing_task'')])) (\<lambda>_.
     returning \<lparr>mr_task = t_id t, mr_created = False,
       mr_thread_ts = (case truthy (t_thread_ts t) of Some th \<Rightarrow> th | None \<Rightarrow> ma_thread_ts a), mr_ack = None\<rparr>)"

text \<open>The identity of the message, with the cost ceiling of the settings in its payload.\<close>

definition message_identity :: "ingress_env \<Rightarrow> message_request_args \<Rightarrow> task_identity" where
  "message_identity env a =
     (let base = for_task_request (ge_sha env) (message_task_request a None)
      in case ge_ceiling env of
           None \<Rightarrow> base
         | Some c \<Rightarrow> base\<lparr>ident_payload := jmerge (ident_payload base) [(''runtime_cost_ceiling_usd'', JStr c)]\<rparr>)"

definition capture_traceparent :: "ingress_env \<Rightarrow> uuid \<Rightarrow> string \<Rightarrow> (ingress_world, unit) op" where
  "capture_traceparent env tid source =
     (case ge_traceparent env of
        None \<Rightarrow> returning ()
      | Some tp \<Rightarrow> ig_log tid [(''message'', JStr ''trace_context_captured''), (''source'', JStr source),
          (''traceparent'', JStr tp)])"

definition refresh_identities :: "ingress_env \<Rightarrow> schedule_context \<Rightarrow> (ingress_world, unit) op" where
  "refresh_identities env x =
     seq (ge_identity env (sx_installation x) (sx_user x) (sx_channel x)) (\<lambda>found.
     ig_log (sx_task x) ([(''message'', JStr ''slack_identity_cache_checked''), (''source'', JStr (sx_surface x)),
       (''user_id'', JStr (sx_user x)), (''channel_id'', JStr (sx_channel x))] @ found))"

definition message_context :: "message_request_args \<Rightarrow> task \<Rightarrow> schedule_context" where
  "message_context a t =
     \<lparr>sx_installation = ma_installation a, sx_channel = ma_channel a, sx_user = ma_user a,
      sx_thread_ts = ma_thread_ts a, sx_surface = ma_source a, sx_task = t_id t, sx_status = t_status t\<rparr>"

text \<open>What is done with a task after it was made: the commands and proposals about schedules are answered
  at once.\<close>

definition answer_message ::
  "ingress_env \<Rightarrow> schedule_context \<Rightarrow> string \<Rightarrow> jobj \<Rightarrow> intent_decision option \<Rightarrow> (ingress_world, mention_result) op" where
  "answer_message env x input_text event decision =
     (let result = (\<lambda>ack. \<lparr>mr_task = sx_task x, mr_created = True, mr_thread_ts = sx_thread_ts x, mr_ack = ack\<rparr>) in
      seq (handle_schedule_command env x input_text) (\<lambda>command.
      if command \<noteq> None then returning (result command)
      else
        seq (post_schedule_proposal env x input_text decision) (\<lambda>proposal.
        if proposal \<noteq> None then returning (result proposal)
        else if should_skip_visible_ack event (sx_surface x) then returning (result None)
        else
          seq (ge_acknowledgement env (sx_task x)) (\<lambda>words.
          seq (on_ig_post (post_message (ge_post env) (result_thread x) words ''acknowledgement'' None None)) (\<lambda>ts.
          returning (result (Some ts)))))))"

definition task_made ::
  "ingress_env \<Rightarrow> installation \<Rightarrow> uuid \<Rightarrow> message_request_args \<Rightarrow> jobj \<Rightarrow> intent_decision option \<Rightarrow> task \<Rightarrow>
   (ingress_world, mention_result) op" where
  "task_made env i iid a event preclassified t =
     (let x = message_context a t in
      seq (intro_new_installation env i (ma_user a)) (\<lambda>_.
      seq (on_ig_inbound (mark_task_created iid (t_id t) [(''source'', JStr (ma_source a))])) (\<lambda>_.
      seq (capture_traceparent env (t_id t) (ma_source a)) (\<lambda>_.
      seq (case preclassified of
             None \<Rightarrow> classify_intent env x (t_input t) event
           | Some d \<Rightarrow> seq (record_intent (t_id t) (ma_source a) d) (\<lambda>_. returning (Some d))) (\<lambda>decision.
      seq (post_ack_reaction env x (t_input t) (ma_message_ts a) decision) (\<lambda>_.
      seq (refresh_identities env x) (\<lambda>_.
      answer_message env x (ma_input a) event decision)))))))"

text \<open>The task of the message, made when there is none.\<close>

definition take_message ::
  "ingress_env \<Rightarrow> installation \<Rightarrow> uuid \<Rightarrow> message_request_args \<Rightarrow> jobj \<Rightarrow> intent_decision option \<Rightarrow>
   (ingress_world, mention_result) op" where
  "take_message env i iid a event preclassified =
     seq (find_existing_task env a) (\<lambda>existing.
     case existing of
       Some t \<Rightarrow> existing_result iid a t
     | None \<Rightarrow>
         seq (reading (ge_fresh_task env)) (\<lambda>fresh.
         seq (on_ig_db (create_task (ge_sha env) (ge_race env) fresh
                (message_task_request a (Some (message_identity env a))))) (\<lambda>t.
         task_made env i iid a event preclassified t)))"

definition handle_addressed_message ::
  "ingress_env \<Rightarrow> installation \<Rightarrow> string \<Rightarrow> jobj \<Rightarrow> jobj \<Rightarrow> string \<Rightarrow> string \<Rightarrow> intent_decision option \<Rightarrow>
   uuid option \<Rightarrow> (ingress_world, mention_result) op" where
  "handle_addressed_message env i team body event input_text source preclassified known_delivery =
     seq (lifting (slack_str body ''event_id'')) (\<lambda>_.
     seq (lifting (slack_str event ''channel'')) (\<lambda>_.
     seq (lifting (slack_str event ''ts'')) (\<lambda>_.
     seq (case known_delivery of
            Some iid \<Rightarrow> returning iid
          | None \<Rightarrow> record_event env (is_id i) team body event source) (\<lambda>iid.
     seq (lifting (read_args (is_id i) body event input_text source)) (\<lambda>a.
     take_message env i iid a event preclassified)))))"

section \<open>The handlers\<close>

definition handle_app_mention :: "ingress_env \<Rightarrow> jobj \<Rightarrow> jobj \<Rightarrow> (ingress_world, mention_result) op" where
  "handle_app_mention env body event =
     seq (lifting (team_id_of body event)) (\<lambda>team.
     seq (get_or_create_installation env team) (\<lambda>i.
     seq (resolve_bot_user env i) (\<lambda>bot_user.
     handle_addressed_message env i team body event (task_input True bot_user event) ''app_mention'' None None)))"

text \<open>A thread the assistant answers in.\<close>

definition assistant_thread_skip :: "ingress_env \<Rightarrow> jobj \<Rightarrow> bool" where
  "assistant_thread_skip env event =
     (case (truthy (json_str (jget event ''channel'')), truthy (json_str (jget event ''thread_ts''))) of
        (Some ch, Some th) \<Rightarrow> (ch, th) \<in> set (ge_assistant_threads env)
      | _ \<Rightarrow> False)"

definition handle_dm :: "ingress_env \<Rightarrow> jobj \<Rightarrow> jobj \<Rightarrow> (ingress_world, mention_result option) op" where
  "handle_dm env body event =
     seq (lifting (team_id_of body event)) (\<lambda>team.
     seq (get_or_create_installation env team) (\<lambda>i.
     seq (record_event env (is_id i) team body event ''dm'') (\<lambda>iid.
     case dm_ignore_reason event of
       Some reason \<Rightarrow> seq (on_ig_inbound (mark_ignored iid reason [])) (\<lambda>_. returning None)
     | None \<Rightarrow>
         if assistant_thread_skip env event
         then seq (on_ig_inbound (mark_ignored iid ''assistant_thread'' [])) (\<lambda>_. returning None)
         else seq (handle_addressed_message env i team body event (task_input False None event) ''dm'' None (Some iid))
                (\<lambda>r. returning (Some r)))))"

definition rejected_metadata :: "intent_decision \<Rightarrow> jobj" where
  "rejected_metadata x =
     [(''classification'', JStr (intent_class_value (in_class x))), (''confidence'', JFloat (dec_str (in_confidence x))),
      (''addressed_to_kortny'', JBool (in_addressed x))]"

definition handle_channel_message :: "ingress_env \<Rightarrow> string \<Rightarrow> jobj \<Rightarrow> jobj \<Rightarrow> (ingress_world, mention_result option) op" where
  "handle_channel_message env app_name body event =
     seq (lifting (team_id_of body event)) (\<lambda>team.
     seq (get_or_create_installation env team) (\<lambda>i.
     seq (record_event env (is_id i) team body event ''channel_message'') (\<lambda>iid.
     if \<not> should_classify_channel_message app_name event
     then seq (on_ig_inbound (mark_ignored iid ''not_soft_mention'' [])) (\<lambda>_. returning None)
     else
       let input_text = task_input False None event in
       seq (lifting (slack_str body ''event_id'')) (\<lambda>_.
       seq (lifting (slack_str event ''channel'')) (\<lambda>_.
       seq (lifting (slack_str event ''ts'')) (\<lambda>_.
       seq (lifting (slack_str event ''user'')) (\<lambda>_.
       seq (lifting (read_args (is_id i) body event input_text ''channel_message'')) (\<lambda>a.
       seq (find_existing_task env a) (\<lambda>existing.
       case existing of
         Some t \<Rightarrow> seq (existing_result iid a t) (\<lambda>r. returning (Some r))
       | None \<Rightarrow>
           seq (classify_soft_message env input_text event) (\<lambda>decision.
           case decision of
             None \<Rightarrow> seq (on_ig_inbound (mark_ignored iid ''intent_classification_unavailable'' [])) (\<lambda>_. returning None)
           | Some d \<Rightarrow>
               if \<not> should_create_task_from_soft_mention d
               then
                 seq (post_rejected_reaction env (is_id i) ''channel_message'' (ma_channel a) (ma_message_ts a) input_text d) (\<lambda>_.
                 seq (on_ig_inbound (mark_ignored iid ''intent_rejected'' (rejected_metadata d))) (\<lambda>_. returning None))
               else
                 seq (handle_addressed_message env i team body event input_text ''channel_message'' (Some d) (Some iid))
                   (\<lambda>r. returning (Some r))))))))))))"

end
