(* ===== verification/Slack_Reactions.thy ===== *)
theory Slack_Reactions
  imports Slack_Ingress
begin

text \<open>
  \<open>kortny/slack/ingress.py\<close>, the reactions: a check mark or a no-entry sign decides a memory proposal,
  a suggestion or a tool call, a cross cancels a task and arrows retry it.

  What accepting a suggestion sets up is the argument \<open>ge_materialize\<close>.
\<close>

section \<open>Results\<close>

record reaction_result =
  rr_handled :: bool
  rr_action :: string
  rr_task :: "uuid option"
  rr_reason :: "string option"

definition handled :: "string \<Rightarrow> uuid option \<Rightarrow> reaction_result" where
  "handled action tid = \<lparr>rr_handled = True, rr_action = action, rr_task = tid, rr_reason = None\<rparr>"

definition unhandled :: "string \<Rightarrow> uuid option \<Rightarrow> string \<Rightarrow> reaction_result" where
  "unhandled action tid reason =
     \<lparr>rr_handled = False, rr_action = action, rr_task = tid, rr_reason = Some reason\<rparr>"

definition reaction_cancel :: string where "reaction_cancel = ''x''"

definition reaction_retry :: string where "reaction_retry = ''arrows_counterclockwise''"

definition reaction_confirm :: string where "reaction_confirm = ''white_check_mark''"

definition reaction_reject :: string where "reaction_reject = ''no_entry_sign''"

section \<open>Cancelling and retrying\<close>

definition handle_cancel_reaction :: "task \<Rightarrow> string \<Rightarrow> (ingress_world, reaction_result) op" where
  "handle_cancel_reaction t user =
     (if t_user t \<noteq> user then returning (unhandled ''cancel'' (Some (t_id t)) ''non_owner'')
      else
        seq (on_ig_db (cancel_task (t_id t) (Some user) ''reaction_cancel'')) (\<lambda>done_task.
        case done_task of
          None \<Rightarrow> returning (unhandled ''cancel'' (Some (t_id t)) ''not_cancellable'')
        | Some t' \<Rightarrow> returning (handled ''cancel'' (Some (t_id t')))))"

definition handle_retry_reaction :: "task \<Rightarrow> string \<Rightarrow> (ingress_world, reaction_result) op" where
  "handle_retry_reaction t user =
     (if t_user t \<noteq> user then returning (unhandled ''retry'' (Some (t_id t)) ''non_owner'')
      else
        seq (on_ig_db (retry_failed_task (t_id t) (Some user) ''reaction_retry'' None)) (\<lambda>again.
        case again of
          None \<Rightarrow> returning (unhandled ''retry'' (Some (t_id t)) ''not_failed'')
        | Some t' \<Rightarrow> returning (handled ''retry'' (Some (t_id t')))))"

section \<open>Approving a tool call\<close>

text \<open>The timestamp of the last message of a purpose.\<close>

definition latest_posted_ts :: "uuid \<Rightarrow> string \<Rightarrow> db \<Rightarrow> string option" where
  "latest_posted_ts tid purpose d =
     (case first_by (\<lambda>e. - int (e_seq e)) (filter (\<lambda>e. e_task e = tid \<and> e_type e = Message_Posted \<and>
             json_text (jget (e_payload e) ''purpose'') = Some purpose) (db_events d)) of
        None \<Rightarrow> None
      | Some e \<Rightarrow> json_str (jget (e_payload e) ''message_ts''))"

definition tool_approval_rejected_purpose :: string where
  "tool_approval_rejected_purpose = ''tool_approval_rejected''"

definition rejection_text :: "jobj \<Rightarrow> string" where
  "rejection_text request =
     ''Okay, I won'' @ [CHR 0x27] @ ''t run '' @
     (case truthy (json_str (jget request ''tool'')) of
        Some tool \<Rightarrow> ''*'' @ tool @ ''*.'' | None \<Rightarrow> ''that action.'')"

definition post_approval_rejection :: "ingress_env \<Rightarrow> task \<Rightarrow> jobj \<Rightarrow> (ingress_world, unit) op" where
  "post_approval_rejection env t request =
     excepting
       (seq (lifting (thread_from_task t)) (\<lambda>th.
        seq (on_ig_post (post_message (ge_post env) th (rejection_text request) tool_approval_rejected_purpose None None)) (\<lambda>_.
        returning ())))
       (\<lambda>e. returning ())"

definition decide_tool_approval ::
  "ingress_env \<Rightarrow> task \<Rightarrow> string \<Rightarrow> string \<Rightarrow> jobj \<Rightarrow> string \<Rightarrow> (ingress_world, reaction_result) op" where
  "decide_tool_approval env t reaction user pending key =
     (if reaction = reaction_confirm
      then
        seq (on_ig_db (approve_tool_approval (t_id t) key user None)) (\<lambda>approved.
        case approved of
          None \<Rightarrow> returning (unhandled ''approve_tool'' (Some (t_id t)) ''approval_not_pending'')
        | Some t' \<Rightarrow> returning (handled ''approve_tool'' (Some (t_id t'))))
      else
        seq (on_ig_db (reject_tool_approval (t_id t) key user)) (\<lambda>rejected.
        case rejected of
          None \<Rightarrow> returning (unhandled ''reject_tool'' (Some (t_id t)) ''approval_not_pending'')
        | Some t' \<Rightarrow>
            seq (post_approval_rejection env t' pending) (\<lambda>_.
            returning (handled ''reject_tool'' (Some (t_id t'))))))"

definition handle_tool_approval_reaction ::
  "ingress_env \<Rightarrow> string \<Rightarrow> string \<Rightarrow> string \<Rightarrow> string \<Rightarrow> (ingress_world, reaction_result) op" where
  "handle_tool_approval_reaction env reaction ch ts user =
     seq (reading (\<lambda>w. get_by_slack_reaction_target ch ts (ig_db w))) (\<lambda>found.
     case found of
       None \<Rightarrow> returning (unhandled ''tool_approval'' None ''no_task'')
     | Some t \<Rightarrow>
         if t_user t \<noteq> user then returning (unhandled ''tool_approval'' (Some (t_id t)) ''non_owner'')
         else if t_status t \<noteq> Waiting_Approval
         then returning (unhandled ''tool_approval'' (Some (t_id t)) ''not_waiting_approval'')
         else
           seq (reading (\<lambda>w. latest_posted_ts (t_id t) approval_prompt_purpose (ig_db w))) (\<lambda>prompt.
           if prompt \<noteq> Some ts then returning (unhandled ''tool_approval'' (Some (t_id t)) ''not_approval_prompt'')
           else
             seq (on_ig_db (latest_pending_tool_approval (t_id t))) (\<lambda>pending.
             case pending of
               None \<Rightarrow> returning (unhandled ''tool_approval'' (Some (t_id t)) ''no_pending_tool_approval'')
             | Some request \<Rightarrow>
                 (case jget request ''approval_key'' of
                    JStr key \<Rightarrow> decide_tool_approval env t reaction user request key
                  | _ \<Rightarrow> returning (unhandled ''tool_approval'' (Some (t_id t)) ''invalid_approval_key'')))))"

section \<open>Deciding a memory proposal\<close>

definition memory_env :: "(mem_world \<Rightarrow> uuid) \<Rightarrow> mem_env" where
  "memory_env fresh = \<lparr>me_poster = None, me_fresh = fresh, me_collate = id\<rparr>"

definition memory_confirmed_text :: "memory_fact \<Rightarrow> string" where
  "memory_confirmed_text f =
     ''Saved. I'' @ [CHR 0x27] @ ''ll use this going forward'' @
     (case strip (case mf_value_text f of Some s \<Rightarrow> s | None \<Rightarrow> []) of [] \<Rightarrow> ''.'' | d \<Rightarrow> '': '' @ d)"

definition memory_rejected_text :: string where
  "memory_rejected_text = ''No problem, I won'' @ [CHR 0x27] @ ''t save that.''"

definition post_memory_result ::
  "ingress_env \<Rightarrow> uuid option \<Rightarrow> string \<Rightarrow> string \<Rightarrow> string \<Rightarrow> (ingress_world, unit) op" where
  "post_memory_result env tid ch words purpose =
     (case tid of
        None \<Rightarrow> returning ()
      | Some i \<Rightarrow>
          seq (reading (\<lambda>w. task_get i (ig_db w))) (\<lambda>found.
          case found of
            None \<Rightarrow> returning ()
          | Some t \<Rightarrow>
              (case task_thread_ts t of
                 None \<Rightarrow> returning ()
               | Some th \<Rightarrow>
                   seq (on_ig_post (post_message (ge_post env) \<lparr>th_channel = ch, th_thread_ts = Some th,
                          th_task = Some (t_id t), th_assistant = False\<rparr> words purpose None None)) (\<lambda>_.
                   returning ()))))"

text \<open>A \<open>LookupError\<close> of the service or of the answer means that there was no proposal.\<close>

definition handle_confirmation_reaction ::
  "ingress_env \<Rightarrow> (mem_world \<Rightarrow> uuid) \<Rightarrow> string \<Rightarrow> string \<Rightarrow> string \<Rightarrow> string \<Rightarrow> (ingress_world, reaction_result) op" where
  "handle_confirmation_reaction env fresh reaction ch ts user =
     catching
       (if reaction = reaction_confirm
        then
          seq (on_ig_mem (confirm_fact (memory_env fresh) ts user (Some ch))) (\<lambda>f.
          seq (post_memory_result env (mf_source_task f) ch (memory_confirmed_text f) ''memory_confirmed'') (\<lambda>_.
          returning (handled ''confirm_memory'' None)))
        else
          seq (on_ig_mem (reject_fact ts user (Some ch))) (\<lambda>p.
          seq (post_memory_result env (Some (pf_task p)) ch memory_rejected_text ''memory_rejected'') (\<lambda>_.
          returning (handled ''reject_memory'' None))))
       (\<lambda>e. case e of
          LookupErr m \<Rightarrow> returning (unhandled ''confirmation'' None ''no_pending_memory_proposal'')
        | _ \<Rightarrow> raising e)"

section \<open>Deciding a suggestion\<close>

definition channel_suggestion_purpose :: string where
  "channel_suggestion_purpose = ''witness_channel_suggestion''"

definition suggestion_effect :: "string \<Rightarrow> string \<Rightarrow> ingress_world \<Rightarrow> effect option" where
  "suggestion_effect ch ts w =
     first_by (\<lambda>r. - fx_created_at r)
       (filter (\<lambda>r. fx_purpose r = Some channel_suggestion_purpose \<and> fx_channel r = Some ch \<and>
          fx_status r = ''succeeded'' \<and>
          (case fx_response r of None \<Rightarrow> False | Some p \<Rightarrow> json_text (jget p ''ts'') = Some ts))
        (ob_effects (mw_post (ig_mem w))))"

definition suggestion_candidate :: "string \<Rightarrow> uuid option" where
  "suggestion_candidate key =
     (let prefix = channel_suggestion_purpose @ '':'' in
      if starts_with prefix key then uuid_parse (drop (length prefix) key) else None)"

text \<open>The tables of the suggestions with those of the outbox.\<close>

definition on_ig_witness :: "(witness_db, 'a) op \<Rightarrow> (ingress_world, 'a) op" where
  "on_ig_witness m = (\<lambda>w. let p = mw_post (ig_mem w) in
     case m \<lparr>ob_effects = ob_effects p, ob_now = ob_now p, ob_locks = ob_locks p, wt_candidates = ig_candidates w,
             wt_events = ig_proactive w\<rparr> of
       (r, d) \<Rightarrow> (r, w\<lparr>ig_mem := (ig_mem w)\<lparr>mw_post := p\<lparr>ob_effects := ob_effects d\<rparr>\<rparr>,
                        ig_candidates := wt_candidates d, ig_proactive := wt_events d\<rparr>))"

definition decide_suggestion ::
  "ingress_env \<Rightarrow> string \<Rightarrow> string \<Rightarrow> timestamp option \<Rightarrow> uuid \<Rightarrow> effect \<Rightarrow> (ingress_world, reaction_result) op" where
  "decide_suggestion env reaction user now cid r =
     (if reaction = reaction_confirm
      then
        seq (on_ig_witness (accept_candidate (ge_ledger env) cid (fx_installation r) user)) (\<lambda>c.
        seq (ge_materialize env c user) (\<lambda>_.
        returning (handled ''accept_witness_suggestion'' None)))
      else
        seq (on_ig_witness (dismiss_candidate (ge_ledger env) cid (fx_installation r) user (Some ''slack_reaction'') now)) (\<lambda>_.
        returning (handled ''dismiss_witness_suggestion'' None)))"

definition handle_suggestion_reaction ::
  "ingress_env \<Rightarrow> timestamp option \<Rightarrow> string \<Rightarrow> string \<Rightarrow> string \<Rightarrow> string \<Rightarrow> (ingress_world, reaction_result) op" where
  "handle_suggestion_reaction env now reaction ch ts user =
     seq (reading (suggestion_effect ch ts)) (\<lambda>found.
     case found of
       None \<Rightarrow> returning (unhandled ''witness_suggestion'' None ''no_witness_suggestion'')
     | Some r \<Rightarrow>
         (case suggestion_candidate (fx_key r) of
            None \<Rightarrow> returning (unhandled ''witness_suggestion'' None ''invalid_witness_suggestion_key'')
          | Some cid \<Rightarrow>
              catching (decide_suggestion env reaction user now cid r)
                (\<lambda>e. case e of
                   LookupErr m \<Rightarrow> returning (unhandled ''witness_suggestion'' None ''witness_candidate_not_actionable'')
                 | ValueError m \<Rightarrow> returning (unhandled ''witness_suggestion'' None ''witness_candidate_not_actionable'')
                 | _ \<Rightarrow> raising e)))"

section \<open>The handler\<close>

text \<open>A check mark or a no-entry sign: memory first, then suggestions, then approvals.\<close>

definition confirmation_order ::
  "ingress_env \<Rightarrow> (mem_world \<Rightarrow> uuid) \<Rightarrow> timestamp option \<Rightarrow> string \<Rightarrow> string \<Rightarrow> string \<Rightarrow> string \<Rightarrow>
   (ingress_world, reaction_result) op" where
  "confirmation_order env fresh now reaction ch ts user =
     seq (handle_confirmation_reaction env fresh reaction ch ts user) (\<lambda>memory.
     if rr_handled memory then returning memory
     else
       seq (handle_suggestion_reaction env now reaction ch ts user) (\<lambda>suggestion.
       if rr_handled suggestion then returning suggestion
       else
         seq (handle_tool_approval_reaction env reaction ch ts user) (\<lambda>approval.
         if rr_handled approval \<or> rr_reason approval \<noteq> Some ''no_task'' then returning approval
         else returning memory)))"

definition task_reaction :: "string \<Rightarrow> string \<Rightarrow> string \<Rightarrow> string \<Rightarrow> (ingress_world, reaction_result) op" where
  "task_reaction reaction ch ts user =
     seq (reading (\<lambda>w. get_by_slack_reaction_target ch ts (ig_db w))) (\<lambda>found.
     case found of
       None \<Rightarrow> returning (unhandled ''ignored'' None ''no_task'')
     | Some t \<Rightarrow>
         if reaction = reaction_cancel then handle_cancel_reaction t user
         else if reaction = reaction_retry then handle_retry_reaction t user
         else returning (unhandled ''ignored'' (Some (t_id t)) ''unsupported_reaction''))"

definition handle_reaction ::
  "ingress_env \<Rightarrow> (mem_world \<Rightarrow> uuid) \<Rightarrow> timestamp option \<Rightarrow> jobj \<Rightarrow> (ingress_world, reaction_result) op" where
  "handle_reaction env fresh now event =
     seq (lifting (slack_str event ''reaction'')) (\<lambda>reaction.
     seq (lifting (slack_str event ''user'')) (\<lambda>user.
     case json_obj (jget event ''item'') of
       None \<Rightarrow> returning (unhandled ''ignored'' None ''unsupported_item'')
     | Some item \<Rightarrow>
         if jget item ''type'' \<noteq> JStr ''message'' then returning (unhandled ''ignored'' None ''unsupported_item'')
         else
           seq (lifting (slack_str item ''channel'')) (\<lambda>ch.
           seq (lifting (slack_str item ''ts'')) (\<lambda>ts.
           if reaction \<in> {reaction_confirm, reaction_reject}
           then confirmation_order env fresh now reaction ch ts user
           else task_reaction reaction ch ts user))))"

text \<open>
  The delivery is recorded and marked; a failure is marked and raised again. The listener of the app
  runs the handler in a session of its own, and the error that is raised again rolls it back: with all
  else the handler did, the row of the delivery and its mark are lost.
\<close>

definition handle_reaction_added ::
  "ingress_env \<Rightarrow> (mem_world \<Rightarrow> uuid) \<Rightarrow> timestamp option \<Rightarrow> jobj \<Rightarrow> jobj \<Rightarrow> (ingress_world, reaction_result) op" where
  "handle_reaction_added env fresh now body event =
     seq (lifting (team_id_of body event)) (\<lambda>team.
     seq (get_or_create_installation env team) (\<lambda>i.
     seq (record_event env (is_id i) team body event ''reaction_added'') (\<lambda>iid.
     seq (catching (handle_reaction env fresh now event)
           (\<lambda>e. seq (on_ig_inbound (mark_inbound_failed iid (pe_describe (ge_post env) e)
                  [(''surface'', JStr ''reaction_added'')])) (\<lambda>_. raising e))) (\<lambda>result.
     seq (on_ig_inbound (if rr_handled result
            then mark_observed iid None [(''action'', JStr (rr_action result))]
            else mark_ignored iid (case truthy (rr_reason result) of Some r \<Rightarrow> r | None \<Rightarrow> ''ignored'')
                   [(''action'', JStr (rr_action result))])) (\<lambda>_.
     returning result)))))"

text \<open>\<open>others\<close> is what other sessions commit while the handler runs.\<close>

definition on_reaction_added ::
  "(ingress_world \<Rightarrow> ingress_world) \<Rightarrow> ingress_env \<Rightarrow> (mem_world \<Rightarrow> uuid) \<Rightarrow> timestamp option \<Rightarrow> jobj \<Rightarrow> jobj \<Rightarrow>
   (ingress_world, reaction_result) op" where
  "on_reaction_added others env fresh now body event =
     transaction others (handle_reaction_added env fresh now body event)"

end
