(* ===== verification/Ingress_Properties.thy ===== *)
theory Ingress_Properties
  imports Slack_Reactions Posting_Properties
begin

text \<open>
  What the ingress promises: a message is one task however often Slack delivers it, a delivery is one
  row of the ledger, and a reaction decides only about the tasks of the person who reacts.
\<close>

section \<open>The message path moves the tables\<close>

definition ig_ok :: "ingress_world \<Rightarrow> bool" where
  "ig_ok w \<longleftrightarrow> post_ok (mw_post (ig_mem w))"

definition ig_later :: "ingress_world \<Rightarrow> ingress_world \<Rightarrow> bool" where
  "ig_later w w' \<longleftrightarrow> post_later (mw_post (ig_mem w)) (mw_post (ig_mem w'))"

interpretation ingress: frame ig_ok ig_later
  by unfold_locales (auto simp: ig_ok_def ig_later_def intro: post.rel_refl post.rel_trans post.rel_ok)

lemma ingress_same: "mw_post (ig_mem w') = mw_post (ig_mem w) \<Longrightarrow> ig_later w w'"
  by (simp add: ig_later_def post.rel_refl)

lemma ingress_post: "post.tracks m \<Longrightarrow> ingress.tracks (on_ig_post m)"
  by (rule ingress.tracksI)
    (auto simp: on_ig_post_def on_ig_mem_def on_mem_post_def ig_ok_def ig_later_def
      dest: post.tracksD split: prod.splits)

lemma ingress_db: "core.tracks m \<Longrightarrow> ingress.tracks (on_ig_db m)"
  using ingress_post [OF tracks_on_task_db] by (simp add: on_ig_db_def on_ig_post_def on_mem_db_def)

lemma ingress_inbound: "ingress.tracks (on_ig_inbound m)"
  by (rule ingress.tracksI) (auto simp: on_ig_inbound_def intro!: ingress_same split: prod.splits)

lemma ingress_writing: "(\<And>w. ig_mem (f w) = ig_mem w) \<Longrightarrow> ingress.tracks (writing f)"
  by (rule ingress.tracksI) (auto intro!: ingress_same)

lemma ingress_log: "ingress.tracks (ig_log tid p)"
  unfolding ig_log_def by (auto intro!: ingress.tracks_seq ingress_db)

text \<open>What is asked of the services: they move the tables as the modelled operations do.\<close>

definition ingress_services_ok :: "ingress_env \<Rightarrow> bool" where
  "ingress_services_ok env \<longleftrightarrow> client_ok (ge_post env) \<and>
     (\<forall>d. core_ok d \<longrightarrow> moves d (ge_race env d)) \<and>
     (\<forall>add ch n ts. ge_reactions_add env = Some add \<longrightarrow> calls_ok (add ch n ts)) \<and>
     (\<forall>c s sf a b x. ge_classify env = Some c \<longrightarrow> ingress.tracks (c s sf a b x)) \<and>
     (\<forall>i u ch. ingress.tracks (ge_identity env i u ch)) \<and>
     (\<forall>x s. ingress.tracks (ge_command env x s)) \<and> (\<forall>x s. ingress.tracks (ge_proposal env x s)) \<and>
     (\<forall>tid. ingress.tracks (ge_acknowledgement env tid))"

lemma services_tracks:
  assumes "ingress_services_ok env"
  shows "ge_classify env = Some c \<Longrightarrow> ingress.tracks (c s sf a b y)"
    and "ingress.tracks (ge_identity env i u ch)" and "ingress.tracks (ge_command env x s)"
    and "ingress.tracks (ge_proposal env x s)" and "ingress.tracks (ge_acknowledgement env tid)"
    and "client_ok (ge_post env)" and "ge_reactions_add env = Some add \<Longrightarrow> calls_ok (add ch n ts)"
  using assms unfolding ingress_services_ok_def by (simp_all del: split_paired_All)

lemma ingress_deliver:
  "ingress_services_ok env \<Longrightarrow> ge_reactions_add env = Some add \<Longrightarrow>
   ingress.tracks (on_ig_post (deliver_effect (ge_post env) rq (add ch n ts)))"
  by (intro ingress_post tracks_deliver_effect services_tracks)

lemma ingress_message:
  "ingress_services_ok env \<Longrightarrow> ingress.tracks (on_ig_post (post_message (ge_post env) th s purpose bs k))"
  by (intro ingress_post tracks_post_message services_tracks)

lemma ingress_upd_installation: "ingress.tracks (upd_installation iid f)"
  unfolding upd_installation_def by (rule ingress_writing) simp

lemmas ingress_steps = ingress.tracks_seq ingress.tracks_catching ingress_log ingress_inbound ingress_db
  ingress_message ingress_upd_installation

lemma ingress_intro: "ingress_services_ok env \<Longrightarrow> ingress.tracks (intro_new_installation env i u)"
proof -
  assume ok: "ingress_services_ok env"
  have call: "calls_ok (pe_chat_post (ge_post env) ch tx ts bs)" for ch tx ts bs
    using services_tracks(6) [OF ok] by (simp add: client_ok_def)
  have "ingress.tracks (on_ig_post (deliver_effect (ge_post env) rq (pe_chat_post (ge_post env) ch tx ts bs)))" for rq ch tx ts bs
    by (intro ingress_post tracks_deliver_effect services_tracks ok call)
  then have "ingress.tracks (post_install_intro env i u)"
    unfolding post_install_intro_def excepting_def Let_def by (auto intro!: ingress_steps)
  then show ?thesis
    unfolding intro_new_installation_def by (auto intro!: ingress_steps ingress_writing)
qed

lemma ingress_classify: "ingress_services_ok env \<Longrightarrow> ingress.tracks (classify_intent env x s event)"
  unfolding classify_intent_def record_intent_def
  by (auto intro!: ingress_steps services_tracks split: option.splits)

lemma ingress_ack: "ingress_services_ok env \<Longrightarrow> ingress.tracks (post_ack_reaction env x s ts decision)"
  unfolding post_ack_reaction_def Let_def
  by (auto intro!: ingress_steps ingress_deliver split: option.splits sum.splits)

lemma ingress_finish: "ingress_services_ok env \<Longrightarrow> ingress.tracks (finish_with_reply env x purpose reply)"
proof -
  assume ok: "ingress_services_ok env"
  have "core.tracks (update_task (sx_task x) (\<lambda>t. t\<lparr>t_result_summary := s\<rparr>))" for s
    by (rule tracks_update) (auto simp: tame_def keeps_keys_def identity_of_def totals_def row_inv_defs)
  moreover have "core.tracks (transition (sx_status x) (sx_task x) ''succeeded'')"
    using tracks_finish_transition [of "sx_status x" "sx_task x" Succeeded] by simp
  ultimately show ?thesis
    unfolding finish_with_reply_def by (auto intro!: ingress_steps ok)
qed

lemma ingress_answer: "ingress_services_ok env \<Longrightarrow> ingress.tracks (answer_message env x s event decision)"
  unfolding answer_message_def handle_schedule_command_def post_schedule_proposal_def Let_def
  by (auto intro!: ingress_steps ingress_finish services_tracks split: option.splits)

lemma ingress_task_made: "ingress_services_ok env \<Longrightarrow> ingress.tracks (task_made env i iid a event pre t)"
  unfolding task_made_def Let_def capture_traceparent_def refresh_identities_def record_intent_def
  by (auto intro!: ingress_steps ingress_intro ingress_classify ingress_ack ingress_answer services_tracks
      split: option.splits)

section \<open>One message, one task\<close>

definition args_key :: "message_request_args \<Rightarrow> uuid \<times> string" where
  "args_key a = (ma_installation a,
     ''slack-message:'' @ ma_channel a @ '':'' @
       (case truthy (Some (ma_thread_ts a)) of Some th \<Rightarrow> th | None \<Rightarrow> ma_message_ts a) @ '':'' @ ma_message_ts a)"

text \<open>An event identifier is that of one message.\<close>

definition event_names :: "string \<Rightarrow> uuid \<times> string \<Rightarrow> db \<Rightarrow> bool" where
  "event_names ev k d \<longleftrightarrow> (\<forall>t \<in> set (db_tasks d). t_slack_event_id t = Some ev \<longrightarrow> identity_of t = Some k)"

lemma read_args_ts: "read_args inst body event s source = Inr a \<Longrightarrow> ma_message_ts a \<noteq> []"
  by (auto simp: read_args_def slack_str_def split: sum.splits json.splits list.splits)

lemma message_keys:
  assumes "ma_message_ts a \<noteq> []"
  shows "ident_key (for_task_request sha (message_task_request a i)) = snd (args_key a)"
    and "ident_key (message_identity env a) = snd (args_key a)"
    and "rq_installation (message_task_request a i) = fst (args_key a)"
  using assms by (simp_all add: for_task_request_def message_task_request_def truthy_def message_identity_def
      slack_message_identity_def args_key_def Let_def split: option.splits)

lemma identity_of_key:
  "t_installation t = inst \<Longrightarrow> t_identity_key t = Some key \<Longrightarrow> identity_of t = Some (inst, key)"
  by (simp add: identity_of_def)

lemma existing_identity:
  assumes "existing_row inst ident (Some ev) d = Some t" and "event_names ev (inst, ident_key ident) d"
  shows "t \<in> set (db_tasks d) \<and> identity_of t = Some (inst, ident_key ident)"
  using assms existing_row_in [OF assms(1)]
  by (auto simp: existing_row_def event_names_def identity_of_key split: option.splits
      dest!: get_by_identity_key_Some get_by_slack_event_id_Some)

lemma created_identity:
  assumes run: "create_task sha race fresh rq d = (Inr t, d')" and ok: "core_ok d"
    and race: "\<And>d. core_ok d \<Longrightarrow> moves d (race d)" "\<And>d. event_names ev k d \<Longrightarrow> event_names ev k (race d)"
    and names: "event_names ev k d" and k: "k = (rq_installation rq, ident_key (request_identity sha rq))"
    and ev: "rq_slack_event_id rq = Some ev"
  shows "t \<in> set (db_tasks d') \<and> identity_of t = Some k"
proof -
  let ?look = "lookup_existing (rq_installation rq) (request_identity sha rq) (Some ev)"
  have unique: "tasks_unique d" using ok core_okD by blast
  obtain x d1 where look: "?look d = (x, d1)" by (cases "?look d")
  note x = lookup_existing_result [OF look unique] lookup_existing_tasks [OF look unique]
  have ok1: "core_ok (race d1)"
    using core_ok_moves race(1) lookup_existing_moves [OF look unique] ok by blast
  have "event_names ev k d1" using names x(2) by (simp add: event_names_def)
  then have names1: "event_names ev k (race d1)" by (rule race(2))
  show ?thesis
  proof (cases "existing_row (rq_installation rq) (request_identity sha rq) (Some ev) d")
    case (Some u)
    then show ?thesis
      using run look x existing_identity [OF Some] names ev k by (simp add: create_task_def seq_apply)
  next
    case None
    then have ins: "create_insert sha fresh rq (race d1) = (Inr t, d')"
      using run look x ev by (simp add: create_task_def seq_apply)
    obtain y d2 where again: "?look (race d1) = (y, d2)" by (cases "?look (race d1)")
    have unique1: "tasks_unique (race d1)" using ok1 core_okD by blast
    note y = lookup_existing_result [OF again unique1] lookup_existing_tasks [OF again unique1]
    show ?thesis
      using ins again y ev k existing_identity [of "rq_installation rq" "request_identity sha rq" ev "race d1"] names1
      by (auto simp: create_insert_eq split: option.splits)
  qed
qed

text \<open>The result names the task that was made.\<close>

lemma answer_task: "answer_message env x s event decision w = (Inr r, w') \<Longrightarrow> mr_task r = sx_task x \<and> mr_created r"
  unfolding answer_message_def Let_def by (auto elim!: seq_InrE split: if_splits)

lemma made_task: "task_made env i iid a event pre t w = (Inr r, w') \<Longrightarrow> mr_task r = t_id t \<and> mr_created r"
  unfolding task_made_def Let_def by (auto elim!: seq_InrE simp: message_context_def dest!: answer_task)

lemma on_ig_db_apply: "on_ig_db m w = (r, w') \<Longrightarrow> m (ig_db w) = (r, ig_db w')"
  by (auto simp: on_ig_db_def on_ig_mem_def on_mem_db_def on_mem_post_def on_task_db_def ig_db_def mem_db_def
      split: prod.splits)

lemma on_ig_inbound_same: "on_ig_inbound m w = (r, w') \<Longrightarrow> ig_mem w' = ig_mem w"
  by (auto simp: on_ig_inbound_def split: prod.splits)

lemma delivery_same:
  "(case known of Some iid \<Rightarrow> returning iid | None \<Rightarrow> record_event env inst team body event source) w = (r, w') \<Longrightarrow>
   ig_mem w' = ig_mem w"
  by (auto simp: record_event_def dest: on_ig_inbound_same split: option.splits)

lemma handled_parts:
  assumes "handle_addressed_message env i team body event s source pre known w = (Inr r, w')"
  shows "\<exists>iid a wa. read_args (is_id i) body event s source = Inr a \<and> ig_mem wa = ig_mem w \<and>
    take_message env i iid a event pre wa = (Inr r, w')"
  using assms unfolding handle_addressed_message_def
  by (auto elim!: seq_InrE dest!: lifting_InrD delivery_same)

lemma handled_identity:
  assumes env: "ingress_services_ok env" and ok: "ig_ok w"
    and args: "read_args (is_id i) body event s source = Inr a"
    and names: "event_names (ma_event_id a) (args_key a) (ig_db w)"
      "\<And>d. event_names (ma_event_id a) (args_key a) d \<Longrightarrow> event_names (ma_event_id a) (args_key a) (ge_race env d)"
    and run: "handle_addressed_message env i team body event s source pre known w = (Inr r, w1)"
  shows "\<exists>t \<in> set (db_tasks (ig_db w1)). t_id t = mr_task r \<and> identity_of t = Some (args_key a)"
proof -
  let ?k = "args_key a"
  obtain iid wa where wa: "ig_mem wa = ig_mem w" and rest: "take_message env i iid a event pre wa = (Inr r, w1)"
    using handled_parts [OF run] args by auto
  have ts: "ma_message_ts a \<noteq> []" by (rule read_args_ts [OF args])
  obtain found wb where found: "find_existing_task env a wa = (Inr found, wb)"
    and rest: "(case found of
        Some t \<Rightarrow> existing_result iid a t
      | None \<Rightarrow>
          seq (reading (ge_fresh_task env)) (\<lambda>fresh.
          seq (on_ig_db (create_task (ge_sha env) (ge_race env) fresh
                 (message_task_request a (Some (message_identity env a))))) (\<lambda>t.
          task_made env i iid a event pre t))) wb = (Inr r, w1)"
    using rest unfolding take_message_def by (rule seq_InrE)
  have same: "ig_db wa = ig_db w" using wa by (simp add: ig_db_def)
  have okd: "core_ok (ig_db w)" using ok by (simp add: ig_ok_def post_ok_def ig_db_def mem_db_def)
  have look: "lookup_existing (fst ?k) (for_task_request (ge_sha env) (message_task_request a None)) (Some (ma_event_id a)) (ig_db w)
      = (Inr found, ig_db wb)"
    using on_ig_db_apply [OF found [unfolded find_existing_task_def]] same message_keys(3) [OF ts]
    by (simp add: get_by_slack_task_identity_def message_task_request_def)
  note res = lookup_existing_result [OF look core_okD(2) [OF okd]] lookup_existing_tasks [OF look core_okD(2) [OF okd]]
  have k: "?k = (fst ?k, ident_key (for_task_request (ge_sha env) (message_task_request a None)))"
    using message_keys(1) [OF ts] by simp
  show ?thesis
  proof (cases found)
    case (Some t)
    then have "mr_task r = t_id t" "ig_db w1 = ig_db wb"
      using rest by (auto simp: existing_result_def ig_db_def elim!: seq_InrE dest: on_ig_inbound_same)
    then show ?thesis
      using existing_identity [of "fst ?k" _ "ma_event_id a" "ig_db w" t] res Some names(1) k by auto
  next
    case None
    obtain t wc where t: "on_ig_db (create_task (ge_sha env) (ge_race env) (ge_fresh_task env wb)
        (message_task_request a (Some (message_identity env a)))) wb = (Inr t, wc)"
      and made: "task_made env i iid a event pre t wc = (Inr r, w1)"
      using rest None by (auto elim!: seq_InrE)
    have track_find: "ingress.tracks (find_existing_task env a)"
      unfolding find_existing_task_def get_by_slack_task_identity_def by (intro ingress_db tracks_lookup)
    have race: "core_ok d \<Longrightarrow> moves d (ge_race env d)" for d
      using env by (simp add: ingress_services_ok_def)
    have "core.tracks (create_task (ge_sha env) (ge_race env) n rq)" for n rq
      by (rule core.tracksI) (rule create_task_moves [OF _ _ race])
    then have tr: "ingress.tracks (on_ig_db (create_task (ge_sha env) (ge_race env) (ge_fresh_task env wb)
        (message_task_request a (Some (message_identity env a)))))" by (rule ingress_db)
    have oka: "ig_ok wa" using ok wa by (simp add: ig_ok_def)
    have okb: "ig_ok wb" by (rule ingress.tracks_ok [OF track_find oka found])
    have "ig_ok wc" by (rule ingress.tracks_ok [OF tr okb t])
    have okd2: "core_ok (ig_db wb)" using okb by (simp add: ig_ok_def post_ok_def ig_db_def mem_db_def)
    let ?rq = "message_task_request a (Some (message_identity env a))"
    have nm: "event_names (ma_event_id a) ?k (ig_db wb)" using names(1) res(2) by (simp add: event_names_def)
    have key: "?k = (rq_installation ?rq, ident_key (request_identity (ge_sha env) ?rq))"
      using message_keys(2) [OF ts, of env] message_keys(3) [OF ts, of "Some (message_identity env a)"]
      by (simp add: request_identity_def message_task_request_def)
    have ev: "rq_slack_event_id ?rq = Some (ma_event_id a)" by (simp add: message_task_request_def)
    have made_row: "t \<in> set (db_tasks (ig_db wc)) \<and> identity_of t = Some ?k"
      by (rule created_identity [OF on_ig_db_apply [OF t] okd2 race names(2) nm key ev])
    have "ig_later wc w1" by (rule ingress.tracksD [OF ingress_task_made [OF env] \<open>ig_ok wc\<close> made])
    then have "moves (ig_db wc) (ig_db w1)" by (simp add: ig_later_def post_later_def tables_later_def ig_db_def mem_db_def)
    moreover have "core_ok (ig_db wc)" using \<open>ig_ok wc\<close> by (simp add: ig_ok_def post_ok_def ig_db_def mem_db_def)
    ultimately show ?thesis
      using identity_moves made_row made_task [OF made] by metis
  qed
qed

text \<open>A row of the identity answers every later delivery.\<close>

definition rows_stay :: "db \<Rightarrow> db \<Rightarrow> bool" where
  "rows_stay d d' \<longleftrightarrow> (\<forall>t \<in> set (db_tasks d). \<exists>t' \<in> set (db_tasks d'). t_id t' = t_id t \<and> identity_of t' = identity_of t)"

lemma taken_again:
  assumes unique: "tasks_unique (ig_db w)" and t: "t \<in> set (db_tasks (ig_db w))" "identity_of t = Some (args_key a)"
    and ts: "ma_message_ts a \<noteq> []"
  shows "\<exists>r w'. take_message env i iid a event pre w = (Inr r, w') \<and> mr_task r = t_id t \<and> \<not> mr_created r \<and>
    db_tasks (ig_db w') = db_tasks (ig_db w) \<and> ob_effects (mw_post (ig_mem w')) = ob_effects (mw_post (ig_mem w))"
proof -
  let ?ident = "for_task_request (ge_sha env) (message_task_request a None)"
  let ?look = "lookup_existing (fst (args_key a)) ?ident (Some (ma_event_id a))"
  obtain x d where look: "?look (ig_db w) = (x, d)" by (cases "?look (ig_db w)")
  have "identity_of t = Some (fst (args_key a), ident_key ?ident)" using t(2) message_keys(1) [OF ts] by simp
  then have x: "x = Inr (Some t)" "db_tasks d = db_tasks (ig_db w)"
    using lookup_existing_result [OF look unique] existing_row_identity [OF unique t(1)]
      lookup_existing_tasks [OF look unique] by auto
  have "find_existing_task env a w = on_ig_db ?look w"
    using message_keys(3) [OF ts] by (simp add: find_existing_task_def get_by_slack_task_identity_def message_task_request_def)
  then have found: "find_existing_task env a w =
      (Inr (Some t), w\<lparr>ig_mem := (ig_mem w)\<lparr>mw_post := (mw_post (ig_mem w))\<lparr>pw_db := d\<rparr>\<rparr>\<rparr>)"
    using look x by (simp add: on_ig_db_def on_ig_mem_def on_mem_db_def on_mem_post_def on_task_db_def ig_db_def mem_db_def)
  let ?w1 = "w\<lparr>ig_mem := (ig_mem w)\<lparr>mw_post := (mw_post (ig_mem w))\<lparr>pw_db := d\<rparr>\<rparr>\<rparr>"
  obtain y w2 where mark: "on_ig_inbound (mark_task_created iid (t_id t) [(''dedupe'', JStr ''existing_task'')]) ?w1 = (y, w2)"
    by (cases "on_ig_inbound (mark_task_created iid (t_id t) [(''dedupe'', JStr ''existing_task'')]) ?w1")
  have "y = Inr ()" using mark by (auto simp: on_ig_inbound_def mark_task_created_def mark_row_def)
  then show ?thesis
    using found mark on_ig_inbound_same [OF mark] x(2)
    by (auto simp: take_message_def seq_apply existing_result_def ig_db_def mem_db_def)
qed

text \<open>C31. A message is one task. Once a delivery of a message has been handled, every later one with the
  same channel, thread and timestamp answers with the same task, whatever surface, event identifier or
  text it has: no task is made, no side effect is asked for and nothing is classified. Only the ledger
  of deliveries can fail to take it.\<close>

theorem redelivered_message_one_task:
  assumes "ingress_services_ok env" and "ig_ok w"
    and "read_args (is_id i) body event s source = Inr a"
    and "event_names (ma_event_id a) (args_key a) (ig_db w)"
    and "\<And>d. event_names (ma_event_id a) (args_key a) d \<Longrightarrow> event_names (ma_event_id a) (args_key a) (ge_race env d)"
    and "handle_addressed_message env i team body event s source pre known w = (Inr r, w1)"
    and "rows_stay (ig_db w1) (ig_db w2)" and "tasks_unique (ig_db w2)"
    and "read_args (is_id i') body' event' s' source' = Inr b" and "args_key b = args_key a"
  shows "\<exists>x w3. handle_addressed_message env' i' team' body' event' s' source' pre' known' w2 = (x, w3) \<and>
    db_tasks (ig_db w3) = db_tasks (ig_db w2) \<and>
    ob_effects (mw_post (ig_mem w3)) = ob_effects (mw_post (ig_mem w2)) \<and>
    (case x of
       Inr r' \<Rightarrow> mr_task r' = mr_task r \<and> \<not> mr_created r'
     | Inl e \<Rightarrow> known' = None \<and> fst (record_event env' (is_id i') team' body' event' source' w2) = Inl e)"
proof -
  obtain t1 where "t1 \<in> set (db_tasks (ig_db w1))" "t_id t1 = mr_task r" "identity_of t1 = Some (args_key a)"
    using handled_identity [OF assms(1-6)] by blast
  then obtain t where t: "t \<in> set (db_tasks (ig_db w2))" "t_id t = mr_task r" "identity_of t = Some (args_key b)"
    using assms(7,10) unfolding rows_stay_def by fastforce
  have reads: "\<exists>v. slack_str body' ''event_id'' = Inr v" "\<exists>v. slack_str event' ''channel'' = Inr v"
    "\<exists>v. slack_str event' ''ts'' = Inr v"
    using assms(9) by (auto simp: read_args_def split: sum.splits)
  let ?delivery = "case known' of Some iid \<Rightarrow> returning iid | None \<Rightarrow> record_event env' (is_id i') team' body' event' source'"
  obtain z v where delivery: "?delivery w2 = (z, v)" by (cases "?delivery w2")
  note same = delivery_same [OF delivery]
  show ?thesis
  proof (cases z)
    case (Inl e)
    then have "handle_addressed_message env' i' team' body' event' s' source' pre' known' w2 = (Inl e, v)"
      using reads delivery by (auto simp: handle_addressed_message_def seq_apply)
    moreover have "known' = None \<and> fst (record_event env' (is_id i') team' body' event' source' w2) = Inl e"
      using delivery Inl by (cases known') auto
    ultimately show ?thesis using same by (auto simp: ig_db_def)
  next
    case (Inr iid)
    have db: "ig_db v = ig_db w2" using same by (simp add: ig_db_def)
    obtain r' w3 where "take_message env' i' iid b event' pre' v = (Inr r', w3)" "mr_task r' = t_id t" "\<not> mr_created r'"
      "db_tasks (ig_db w3) = db_tasks (ig_db v)" "ob_effects (mw_post (ig_mem w3)) = ob_effects (mw_post (ig_mem v))"
      using taken_again [of v t b env' i' iid event' pre'] assms(8) t(1,3) db read_args_ts [OF assms(9)] by metis
    moreover have "handle_addressed_message env' i' team' body' event' s' source' pre' known' w2 =
        take_message env' i' iid b event' pre' v"
      using reads delivery Inr assms(9) by (auto simp: handle_addressed_message_def seq_apply)
    ultimately show ?thesis using t(2) db same by auto
  qed
qed

end
