(* ===== verification/Reaction_Properties.thy ===== *)
theory Reaction_Properties
  imports Ingress_Properties
begin

text \<open>
  What reactions decide: whatever a person reacts to, the tasks of others stay as they are.
\<close>

section \<open>Steps that keep every task\<close>

definition rows_same :: "db \<Rightarrow> db \<Rightarrow> bool" where
  "rows_same d d' \<longleftrightarrow> (tasks_unique d \<longrightarrow> tasks_unique d') \<and>
     (\<forall>tid t. task_get tid d = Some t \<longrightarrow> task_get tid d' = Some t)"

lemma rows_same_refl: "rows_same d d"
  by (simp add: rows_same_def)

lemma rows_same_trans: "rows_same d d' \<Longrightarrow> rows_same d' d'' \<Longrightarrow> rows_same d d''"
  by (simp add: rows_same_def)

lemma rows_same_tasks: "db_tasks d' = db_tasks d \<Longrightarrow> rows_same d d'"
  by (simp add: rows_same_def task_get_def tasks_unique_def)

interpretation post_rows: frame "\<lambda>w :: post_db. True" "\<lambda>w w'. rows_same (pw_db w) (pw_db w')"
  by unfold_locales (auto intro: rows_same_refl rows_same_trans)

interpretation mem_rows: frame "\<lambda>w :: mem_world. True" "\<lambda>w w'. rows_same (mem_db w) (mem_db w')"
  by unfold_locales (auto intro: rows_same_refl rows_same_trans)

interpretation ig_rows: frame "\<lambda>w :: ingress_world. True" "\<lambda>w w'. rows_same (ig_db w) (ig_db w')"
  by unfold_locales (auto intro: rows_same_refl rows_same_trans)

lemma post_rows_event: "post_rows.tracks (post_event tid ty p)"
  by (rule post_rows.tracksI)
    (auto simp: post_event_def on_task_db_def append_event_def seq_apply resolve_task_def add_event_def
      intro!: rows_same_tasks split: prod.splits sum.splits option.splits)

lemma post_rows_resolve: "post_rows.tracks (on_task_db (resolve_task tid))"
  by (rule post_rows.tracksI)
    (auto simp: on_task_db_def resolve_task_def intro!: rows_same_refl split: option.splits)

lemma post_rows_writing: "(\<And>w. pw_db (f w) = pw_db w) \<Longrightarrow> post_rows.tracks (writing f)"
  by (rule post_rows.tracksI) (auto intro!: rows_same_tasks)

lemmas post_rows_steps = post_rows.tracks_seq post_rows.tracks_catching post_rows_event post_rows_resolve post_rows_writing

text \<open>A client that leaves the tasks alone.\<close>

definition client_keeps :: "post_env \<Rightarrow> bool" where
  "client_keeps env \<longleftrightarrow> (\<forall>ch s ts bs. post_rows.tracks (pe_chat_post env ch s ts bs)) \<and>
     (\<forall>w. rows_same (pw_db w) (pw_db (pe_race env w)))"

lemma post_rows_deliver:
  assumes "client_keeps env" and "post_rows.tracks call"
  shows "post_rows.tracks (deliver_effect env rq call)"
proof -
  have race: "post_rows.tracks (writing (pe_race env))"
    using assms(1) by (auto simp: post_rows.tracks_def client_keeps_def)
  have insert: "post_rows.tracks (insert_effect fid rq)" for fid
    unfolding insert_effect_def by (auto intro!: post_rows_steps split: option.splits)
  have created: "post_rows.tracks (get_or_create (pe_race env) fid rq)" for fid
    unfolding get_or_create_def
    by (auto intro!: post_rows_steps race insert split: option.splits py_error.splits)
  have attempt: "post_rows.tracks (attempt_call describe api_error operation k call)" for describe api_error operation k
    unfolding attempt_call_def by (auto intro!: post_rows_steps assms(2) simp: put_effect_def split: option.splits)
  show ?thesis
    unfolding deliver_effect_def deliver_def
    by (auto intro!: post_rows_steps created attempt simp: put_effect_def)
qed

lemma post_rows_message:
  assumes "client_keeps env"
  shows "post_rows.tracks (post_message env th message purpose blocks key_purpose)"
proof -
  have c: "post_rows.tracks (pe_chat_post env ch tx ts bs)" for ch tx ts bs
    using assms by (simp add: client_keeps_def)
  have flag: "post_rows.tracks (flag_egress_urls env th s p)" for s p
    unfolding flag_egress_urls_def by (auto intro!: post_rows_steps split: option.splits)
  have task: "post_rows.tracks (post_task_message env th tid tx bs p k)" for tid tx bs p k
    unfolding post_task_message_def record_message_def
    by (auto intro!: post_rows_steps post_rows_deliver [OF assms c] split: option.splits)
  have plain: "post_rows.tracks (post_plain_message env th tx bs)" for tx bs
    unfolding post_plain_message_def by (auto intro!: post_rows_steps c split: option.splits)
  have play: "post_rows.tracks (post_playground_message env th tx p)" for tx p
    unfolding post_playground_message_def by (auto intro!: post_rows_steps split: option.splits)
  show ?thesis
    unfolding post_message_def Let_def by (auto intro!: post_rows_steps flag task plain play split: option.splits)
qed

section \<open>The memory\<close>

lemma mem_rows_post: "post_rows.tracks m \<Longrightarrow> mem_rows.tracks (on_mem_post m)"
  by (rule mem_rows.tracksI) (auto simp: on_mem_post_def mem_db_def dest: post_rows.tracksD split: prod.splits)

lemma mem_rows_facts: "(\<And>w. mw_post (f w) = mw_post w) \<Longrightarrow> mem_rows.tracks (writing f)"
  by (rule mem_rows.tracksI) (auto simp: mem_db_def intro!: rows_same_tasks)

lemma mem_rows_log: "mem_rows.tracks (mem_log tid p)"
proof -
  have "post_rows.tracks (on_task_db (append_event tid Log p))"
    by (rule post_rows.tracksI)
      (auto simp: on_task_db_def append_event_def seq_apply resolve_task_def add_event_def
        intro!: rows_same_tasks split: prod.splits sum.splits option.splits)
  then show ?thesis unfolding mem_log_def on_mem_db_def by (rule mem_rows_post)
qed

lemma mem_rows_rewrite: "mem_rows.tracks (rewrite_event eid f)"
proof -
  have "post_rows.tracks (on_task_db (writing (\<lambda>d. d\<lparr>db_events := row_upd e_id eid f (db_events d)\<rparr>)))"
    by (rule post_rows.tracksI) (auto simp: on_task_db_def intro!: rows_same_tasks)
  then show ?thesis unfolding rewrite_event_def on_mem_db_def by (rule mem_rows_post)
qed

lemma mem_rows_pending: "mem_rows.tracks (pending_from_event e)" "mem_rows.tracks (pending_proposal_event ts ch)"
  unfolding pending_from_event_def pending_proposal_event_def Let_def
  by (auto intro!: mem_rows.tracks_seq split: option.splits)

lemmas mem_rows_steps = mem_rows.tracks_seq mem_rows_facts mem_rows_log mem_rows_rewrite mem_rows_pending

lemma mem_rows_replace: "mem_rows.tracks build \<Longrightarrow> mem_rows.tracks (replace_active inst st sid key build)"
  unfolding replace_active_def Let_def insert_fact_def by (auto intro!: mem_rows_steps split: option.splits)

lemma mem_rows_confirm: "mem_rows.tracks (confirm_fact env ts who ch)"
proof -
  have "mem_rows.tracks (confirmed_fact fid e p who now)" for fid e p now
    unfolding confirmed_fact_def Let_def by (auto intro!: mem_rows.tracks_seq)
  then show ?thesis
    unfolding confirm_fact_def by (auto intro!: mem_rows_steps mem_rows_replace split: prod.splits)
qed

lemma mem_rows_reject: "mem_rows.tracks (reject_fact ts who ch)"
  unfolding reject_fact_def Let_def by (auto intro!: mem_rows_steps)

section \<open>The row of another person\<close>

definition stands :: "uuid \<Rightarrow> task \<Rightarrow> db \<Rightarrow> bool" where
  "stands i row d \<longleftrightarrow> tasks_unique d \<and> task_get i d = Some row"

lemma stands_same: "rows_same d d' \<Longrightarrow> stands i row d \<Longrightarrow> stands i row d'"
  by (simp add: rows_same_def stands_def)

interpretation spared: frame "\<lambda>w. stands i row (ig_db w)" "\<lambda>w w'. stands i row (ig_db w) \<longrightarrow> stands i row (ig_db w')"
  for i row
  by unfold_locales auto

lemma spared_rows: "ig_rows.tracks m \<Longrightarrow> spared.tracks i row m"
  by (rule spared.tracksI) (auto dest: ig_rows.tracksD intro: stands_same)

lemma spared_db:
  assumes "\<And>d r d'. stands i row d \<Longrightarrow> m d = (r, d') \<Longrightarrow> stands i row d'"
  shows "spared.tracks i row (on_ig_db m)"
  by (rule spared.tracksI)
    (use assms in \<open>auto simp: on_ig_db_def on_ig_mem_def on_mem_db_def on_mem_post_def on_task_db_def ig_db_def mem_db_def
      split: prod.splits\<close>)

lemma stands_upd: "j \<noteq> i \<Longrightarrow> keeps_keys f \<Longrightarrow> stands i row (upd_task j f d) \<longleftrightarrow> stands i row d"
  by (simp add: stands_def task_get_upd tasks_unique_def map_upd_task keeps_keys_def)

lemma stands_event: "stands i row (add_event tid ty p d) \<longleftrightarrow> stands i row d"
  by (simp add: stands_def tasks_unique_def)

lemma decided_row_keys: "keeps_keys (cancel_row now)" "keeps_keys (retry_row now)" "keeps_keys (approve_row now)"
  by (simp_all add: keeps_keys_def row_defs identity_of_def)

lemmas stands_moves = stands_upd stands_event decided_row_keys

lemma spared_cancel: "j \<noteq> i \<Longrightarrow> spared.tracks i row (on_ig_db (cancel_task j u reason))"
proof (rule spared_db)
  fix d r d' assume "j \<noteq> i" "stands i row d" "cancel_task j u reason d = (r, d')"
  then show "stands i row d'"
    by (cases "task_get j d") (auto simp: missing_task cancel_task_eq stands_moves split: if_splits)
qed

lemma spared_retry: "j \<noteq> i \<Longrightarrow> spared.tracks i row (on_ig_db (retry_failed_task j u reason at))"
proof (rule spared_db)
  fix d r d' assume "j \<noteq> i" "stands i row d" "retry_failed_task j u reason at d = (r, d')"
  then show "stands i row d'"
    by (cases "task_get j d") (auto simp: missing_task retry_failed_task_eq Let_def stands_moves split: if_splits)
qed

lemma spared_approve: "j \<noteq> i \<Longrightarrow> spared.tracks i row (on_ig_db (approve_tool_approval j key u at))"
proof (rule spared_db)
  fix d r d' assume h: "j \<noteq> i" "stands i row d" "approve_tool_approval j key u at d = (r, d')"
  show "stands i row d'"
  proof (cases "task_get j d")
    case (Some t)
    then show ?thesis
      using h by (cases "awaited j key d") (auto simp: approve_none approve_some Let_def stands_moves)
  qed (use h in \<open>simp add: missing_task\<close>)
qed

lemma spared_reject: "j \<noteq> i \<Longrightarrow> spared.tracks i row (on_ig_db (reject_tool_approval j key u))"
proof (rule spared_db)
  fix d r d' assume h: "j \<noteq> i" "stands i row d" "reject_tool_approval j key u d = (r, d')"
  show "stands i row d'"
  proof (cases "task_get j d")
    case (Some t)
    then show ?thesis
      using h by (cases "awaited j key d") (auto simp: approve_none reject_some stands_moves)
  qed (use h in \<open>simp add: missing_task\<close>)
qed

lemma spared_pending: "spared.tracks i row (on_ig_db (latest_pending_tool_approval j))"
  by (rule spared_db) (auto simp: latest_pending_tool_approval_def seq_apply resolve_task_def split: option.splits if_splits)

lemma target_row: "get_by_slack_reaction_target ch ts d = Some t \<Longrightarrow> t \<in> set (db_tasks d)"
proof -
  have first: "first_by key rows = Some r \<Longrightarrow> r \<in> set rows" for key :: "'r \<Rightarrow> 'k::linorder" and rows r
    by (auto simp: first_by_def split: list.splits dest: arg_cong [of _ _ set])
  have "get_by_slack_message ch ts d = Some u \<Longrightarrow> u \<in> set (db_tasks d)" for u
    unfolding get_by_slack_message_def by (auto dest!: first)
  moreover have "first_by key (posted_in ch ts d) = Some x \<Longrightarrow> snd x \<in> set (db_tasks d)" for key :: "event \<times> task \<Rightarrow> int \<times> int" and x
    by (drule first) (auto simp: posted_in_def)
  ultimately show "get_by_slack_reaction_target ch ts d = Some t \<Longrightarrow> t \<in> set (db_tasks d)"
    by (auto simp: get_by_slack_reaction_target_def Let_def split: option.splits if_splits)
qed

text \<open>The task a person owns is not the row of another.\<close>

lemma own_other:
  assumes "stands i row d" and "t_user row \<noteq> user" and "get_by_slack_reaction_target ch ts d = Some t" and "t_user t = user"
  shows "t_id t \<noteq> i"
proof
  assume i: "t_id t = i"
  have "tasks_unique d" "task_get i d = Some row" using assms(1) by (simp_all only: stands_def)
  with task_get_member [OF _ target_row [OF assms(3)]] i have "row = t" by (metis option.inject)
  with assms(2,4) show False by blast
qed

section \<open>The handlers\<close>

text \<open>Services that leave the tasks alone.\<close>

definition reaction_services_keep :: "ingress_env \<Rightarrow> bool" where
  "reaction_services_keep env \<longleftrightarrow> client_keeps (ge_post env) \<and> (\<forall>c u. ig_rows.tracks (ge_materialize env c u))"

lemma ig_rows_mem: "mem_rows.tracks m \<Longrightarrow> ig_rows.tracks (on_ig_mem m)"
  by (rule ig_rows.tracksI) (auto simp: on_ig_mem_def ig_db_def dest: mem_rows.tracksD split: prod.splits)

lemma ig_rows_message: "client_keeps (ge_post env) \<Longrightarrow> ig_rows.tracks (on_ig_post (post_message (ge_post env) th s purpose bs k))"
  unfolding on_ig_post_def by (intro ig_rows_mem mem_rows_post post_rows_message)

lemma ig_rows_inbound: "ig_rows.tracks (on_ig_inbound m)"
  by (rule ig_rows.tracksI)
    (auto simp: on_ig_inbound_def ig_db_def intro!: rows_same_refl split: prod.splits)

lemma ig_rows_writing: "(\<And>w. ig_mem (f w) = ig_mem w) \<Longrightarrow> ig_rows.tracks (writing f)"
  by (rule ig_rows.tracksI) (auto simp: ig_db_def rows_same_refl)

lemma ig_rows_witness: "ig_rows.tracks (on_ig_witness m)"
  by (rule ig_rows.tracksI)
    (auto simp: on_ig_witness_def ig_db_def mem_db_def Let_def intro!: rows_same_refl split: prod.splits)

lemmas ig_rows_steps = ig_rows.tracks_seq ig_rows.tracks_catching ig_rows_inbound ig_rows_witness ig_rows_message

lemma ig_rows_confirmation:
  assumes "reaction_services_keep env"
  shows "ig_rows.tracks (handle_confirmation_reaction env fresh reaction ch ts user)"
proof -
  have post: "client_keeps (ge_post env)" using assms by (simp add: reaction_services_keep_def)
  have "ig_rows.tracks (post_memory_result env tid ch words purpose)" for tid words purpose
    unfolding post_memory_result_def by (auto intro!: ig_rows_steps post split: option.splits)
  then show ?thesis
    unfolding handle_confirmation_reaction_def
    by (auto intro!: ig_rows_steps ig_rows_mem mem_rows_confirm mem_rows_reject split: py_error.splits)
qed

lemma ig_rows_suggestion:
  assumes "reaction_services_keep env"
  shows "ig_rows.tracks (handle_suggestion_reaction env now reaction ch ts user)"
proof -
  have "ig_rows.tracks (ge_materialize env c u)" for c u
    using assms by (simp add: reaction_services_keep_def)
  then have "ig_rows.tracks (decide_suggestion env reaction user now cid r)" for cid r
    unfolding decide_suggestion_def by (auto intro!: ig_rows_steps)
  then show ?thesis
    unfolding handle_suggestion_reaction_def by (auto intro!: ig_rows_steps split: option.splits py_error.splits)
qed

lemma spared_approval:
  assumes keep: "client_keeps (ge_post env)" and user: "t_user row \<noteq> user"
  shows "spared.tracks i row (handle_tool_approval_reaction env reaction ch ts user)"
proof -
  have rejection: "spared.tracks i row (post_approval_rejection env t rq)" for t rq
    unfolding post_approval_rejection_def excepting_def
    by (intro spared_rows) (auto intro!: ig_rows_steps keep)
  have decide: "spared.tracks i row (decide_tool_approval env t reaction user rq key)" if "t_id t \<noteq> i" for t user rq key
    unfolding decide_tool_approval_def using that
    by (auto intro!: spared.tracks_seq spared_approve spared_reject rejection split: option.splits)
  show ?thesis
    unfolding handle_tool_approval_reaction_def
  proof (rule spared.tracks_reading)
    fix w assume stands: "stands i row (ig_db w)"
    show "spared.tracks i row (case get_by_slack_reaction_target ch ts (ig_db w) of
       None \<Rightarrow> returning (unhandled ''tool_approval'' None ''no_task'')
     | Some t \<Rightarrow>
         if t_user t \<noteq> user then returning (unhandled ''tool_approval'' (Some (t_id t)) ''non_owner'')
         else if t_status t \<noteq> Waiting_Approval
         then returning (unhandled ''tool_approval'' (Some (t_id t)) ''not_waiting_approval'')
         else
           seq (reading (\<lambda>w. latest_posted_ts (t_id t) approval_prompt_purpose (ig_db w))) (\<lambda>prompt.
           if prompt \<noteq> Some ts then returning (unhandled ''tool_approval'' (Some (t_id t)) ''not_approval_prompt'')
           else
             seq (on_ig_db (latest_pending_tool_approval (t_id t))) (\<lambda>pending.
             case pending of
               None \<Rightarrow> returning (unhandled ''tool_approval'' (Some (t_id t)) ''no_pending_tool_approval'')
             | Some request \<Rightarrow>
                 (case jget request ''approval_key'' of
                    JStr key \<Rightarrow> decide_tool_approval env t reaction user request key
                  | _ \<Rightarrow> returning (unhandled ''tool_approval'' (Some (t_id t)) ''invalid_approval_key'')))))"
    proof (cases "get_by_slack_reaction_target ch ts (ig_db w)")
      case (Some t)
      then show ?thesis
        using decide [of t] own_other [OF stands user Some]
        by (auto intro!: spared.tracks_seq spared_pending split: option.splits json.splits)
    qed simp
  qed
qed

lemma spared_task_reaction:
  assumes "t_user row \<noteq> user"
  shows "spared.tracks i row (task_reaction reaction ch ts user)"
  unfolding task_reaction_def
proof (rule spared.tracks_reading)
  fix w assume stands: "stands i row (ig_db w)"
  have "spared.tracks i row (handle_cancel_reaction t user)" if "t_user t = user \<Longrightarrow> t_id t \<noteq> i" for t
    unfolding handle_cancel_reaction_def using that
    by (auto intro!: spared.tracks_seq spared_cancel split: option.splits)
  moreover have "spared.tracks i row (handle_retry_reaction t user)" if "t_user t = user \<Longrightarrow> t_id t \<noteq> i" for t
    unfolding handle_retry_reaction_def using that
    by (auto intro!: spared.tracks_seq spared_retry split: option.splits)
  ultimately show "spared.tracks i row (case get_by_slack_reaction_target ch ts (ig_db w) of
       None \<Rightarrow> returning (unhandled ''ignored'' None ''no_task'')
     | Some t \<Rightarrow>
         if reaction = reaction_cancel then handle_cancel_reaction t user
         else if reaction = reaction_retry then handle_retry_reaction t user
         else returning (unhandled ''ignored'' (Some (t_id t)) ''unsupported_reaction''))"
    using own_other [OF stands assms] by (auto split: option.splits)
qed

lemma spared_order:
  assumes keep: "reaction_services_keep env" and user: "t_user row \<noteq> user"
  shows "spared.tracks i row (confirmation_order env fresh now reaction ch ts user)"
proof -
  have post: "client_keeps (ge_post env)" using keep by (simp add: reaction_services_keep_def)
  show ?thesis
    unfolding confirmation_order_def
    by (auto intro!: spared.tracks_seq spared_rows [OF ig_rows_confirmation [OF keep]]
        spared_rows [OF ig_rows_suggestion [OF keep]] spared_approval [OF post user])
qed

lemma spared_reaction:
  assumes keep: "reaction_services_keep env" and user: "jget event ''user'' = JStr u" "t_user row \<noteq> u"
  shows "spared.tracks i row (handle_reaction env fresh now event)"
proof -
  have who: "x = u" if "slack_str event ''user'' = Inr x" for x
    using that user(1) by (auto simp: slack_str_def split: list.splits)
  have "spared.tracks i row (if reaction \<in> {reaction_confirm, reaction_reject}
      then confirmation_order env fresh now reaction ch ts u else task_reaction reaction ch ts u)" for reaction ch ts
    using spared_order [OF keep user(2)] spared_task_reaction [OF user(2)] by simp
  then show ?thesis
    unfolding handle_reaction_def
    by (auto intro!: spared.tracks_lifting dest!: who split: option.splits simp del: insert_iff)
qed

text \<open>C32. A person's reaction never touches the task of somebody else: whatever message is reacted to and
  with whatever sign, whether it cancels, retries, approves, rejects, saves a memory or accepts a
  suggestion, also when it fails, every task of another person stays exactly as it was. The listener's
  transaction keeps this: it commits what the handler did or takes back what it did, and leaves the
  task alone as long as the other sessions do.\<close>

theorem reaction_decides_own_tasks:
  assumes "reaction_services_keep env" and "tasks_unique (ig_db w)"
    and "jget event ''user'' = JStr user" and "task_get tid (ig_db w) = Some t" and "t_user t \<noteq> user"
    and run: "handle_reaction_added env fresh now body event w = (r, w')"
  shows "task_get tid (ig_db w') = Some t \<and>
    (\<forall>others. task_get tid (ig_db (others w)) = Some t \<longrightarrow>
       task_get tid (ig_db (snd (on_reaction_added others env fresh now body event w))) = Some t)"
proof -
  have installs: "ig_rows.tracks (get_or_create_installation env team)" for team
    unfolding get_or_create_installation_def
    by (auto intro!: ig_rows_steps ig_rows_writing split: option.splits prod.splits)
  have "spared.tracks tid t (handle_reaction_added env fresh now body event)"
    unfolding handle_reaction_added_def record_event_def
    by (auto intro!: spared.tracks_seq spared.tracks_catching spared_reaction [OF assms(1,3,5)]
        spared_rows [OF installs] spared_rows [OF ig_rows_inbound])
  moreover have "stands tid t (ig_db w)" using assms(2,4) by (simp only: stands_def)
  ultimately have "stands tid t (ig_db w')" using spared.tracksD [of tid t "handle_reaction_added env fresh now body event" w r w'] run by blast
  then have "task_get tid (ig_db w') = Some t" by (simp only: stands_def)
  then show ?thesis using run by (simp add: on_reaction_added_def transaction_def split: sum.split)
qed

end
