(* ===== verification/Inbound_Properties.thy ===== *)
theory Inbound_Properties
  imports Slack_Inbound
begin

text \<open>
  The ledger of deliveries over any run of the handlers: one row for an event, rows that say what was
  done, and a task that is never forgotten.
\<close>

section \<open>Rows\<close>

definition delivery_row_ok :: "inbound \<Rightarrow> bool" where
  "delivery_row_ok r \<longleftrightarrow> ib_status r \<in> set inbound_statuses \<and>
     (ib_status r = ''received'' \<longleftrightarrow> ib_processed_at r = None) \<and>
     (ib_status r = ''task_created'' \<longrightarrow> ib_task r \<noteq> None) \<and>
     (ib_status r = ''failed'' \<longrightarrow> 0 < ib_attempts r) \<and>
     (ib_attempts r = 0 \<longleftrightarrow> ib_last_error r = None)"

definition delivery_key :: "inbound \<Rightarrow> (uuid \<times> string) option" where
  "delivery_key r = map_option (Pair (ib_installation r)) (ib_event_id r)"

definition ledger_ok :: "inbound_db \<Rightarrow> bool" where
  "ledger_ok d \<longleftrightarrow> distinct (map ib_id (in_rows d)) \<and> distinct (somes (map delivery_key (in_rows d))) \<and>
     list_all delivery_row_ok (in_rows d)"

text \<open>What a later row says of the same delivery. \<open>operator\<close> allows for replays and dead letters.\<close>

definition delivery_follows :: "bool \<Rightarrow> inbound \<Rightarrow> inbound \<Rightarrow> bool" where
  "delivery_follows operator r r' \<longleftrightarrow> ib_id r' = ib_id r \<and> delivery_key r' = delivery_key r \<and>
     ib_body r' = ib_body r \<and> ib_event r' = ib_event r \<and> ib_received_at r' = ib_received_at r \<and>
     ib_attempts r \<le> ib_attempts r' \<and> (ib_task r \<noteq> None \<longrightarrow> ib_task r' \<noteq> None) \<and>
     (ib_status r \<noteq> ''received'' \<longrightarrow> ib_status r' \<noteq> ''received'') \<and>
     (\<not> operator \<longrightarrow> ib_status r = ''task_created'' \<longrightarrow> ib_status r' = ''task_created'')"

definition ledger_follows :: "bool \<Rightarrow> inbound_db \<Rightarrow> inbound_db \<Rightarrow> bool" where
  "ledger_follows operator d d' \<longleftrightarrow>
     (\<forall>r \<in> set (in_rows d). \<exists>r' \<in> set (in_rows d'). delivery_follows operator r r')"

lemma follows_refl: "delivery_follows operator r r"
  by (simp add: delivery_follows_def)

lemma follows_trans: "delivery_follows operator a b \<Longrightarrow> delivery_follows operator b c \<Longrightarrow> delivery_follows operator a c"
  unfolding delivery_follows_def by (auto intro: le_trans)

interpretation deliveries: frame ledger_ok "\<lambda>d d'. (ledger_ok d \<longrightarrow> ledger_ok d') \<and> ledger_follows operator d d'"
  for operator
proof unfold_locales
  fix a b c
  show "(ledger_ok a \<longrightarrow> ledger_ok a) \<and> ledger_follows operator a a"
    by (auto simp: ledger_follows_def intro: follows_refl)
  assume "(ledger_ok a \<longrightarrow> ledger_ok b) \<and> ledger_follows operator a b" "(ledger_ok b \<longrightarrow> ledger_ok c) \<and> ledger_follows operator b c"
  then show "(ledger_ok a \<longrightarrow> ledger_ok c) \<and> ledger_follows operator a c"
    unfolding ledger_follows_def by (meson follows_trans)
qed simp

section \<open>Marks\<close>

text \<open>A change of one row that keeps it well-formed.\<close>

definition good_mark :: "bool \<Rightarrow> (timestamp \<Rightarrow> inbound \<Rightarrow> inbound) \<Rightarrow> bool" where
  "good_mark operator f \<longleftrightarrow>
     (\<forall>now r. delivery_follows operator r (f now r) \<and> (delivery_row_ok r \<longrightarrow> delivery_row_ok (f now r)))"

lemma good_mark_ids: "good_mark operator f \<Longrightarrow> ib_id (f now r) = ib_id r \<and> delivery_key (f now r) = delivery_key r"
  by (simp add: good_mark_def delivery_follows_def)

lemma upd_inbound_ok:
  assumes "good_mark operator f"
  shows "ledger_ok d \<Longrightarrow> ledger_ok (upd_inbound iid (f now) d)"
    and "ledger_follows operator d (upd_inbound iid (f now) d)"
proof -
  note ids = good_mark_ids [OF assms]
  have "map ib_id (row_upd ib_id iid (f now) rows) = map ib_id rows" for rows using ids by simp
  moreover have "map delivery_key (row_upd ib_id iid (f now) rows) = map delivery_key rows" for rows
    using ids by (simp add: row_upd_def)
  moreover have "list_all delivery_row_ok rows \<Longrightarrow> list_all delivery_row_ok (row_upd ib_id iid (f now) rows)" for rows
    using assms by (auto simp: list_all_iff good_mark_def row_upd_def)
  ultimately show "ledger_ok d \<Longrightarrow> ledger_ok (upd_inbound iid (f now) d)"
    by (simp add: ledger_ok_def upd_inbound_def)
  show "ledger_follows operator d (upd_inbound iid (f now) d)"
    unfolding ledger_follows_def
  proof
    fix r assume r: "r \<in> set (in_rows d)"
    then have "(if ib_id r = iid then f now r else r) \<in> set (in_rows (upd_inbound iid (f now) d))"
      by (auto simp: upd_inbound_def row_upd_def)
    moreover have "delivery_follows operator r (if ib_id r = iid then f now r else r)"
      using assms follows_refl by (simp add: good_mark_def)
    ultimately show "\<exists>r' \<in> set (in_rows (upd_inbound iid (f now) d)). delivery_follows operator r r'" by blast
  qed
qed

lemma mark_tracks: "good_mark operator f \<Longrightarrow> deliveries.tracks operator (mark_row iid f)"
  by (rule deliveries.tracksI) (auto simp: mark_row_def upd_inbound_ok)

lemmas mark_defs = good_mark_def delivery_follows_def delivery_row_ok_def delivery_key_def inbound_statuses_def

lemma good_ignored: "good_mark operator (ignored_row reason metadata)"
  by (simp add: mark_defs ignored_row_def marked_def non_degradable_def)

lemma good_observed: "good_mark operator (observed_row observation metadata)"
  by (simp add: mark_defs observed_row_def marked_def)

lemma good_task_created: "good_mark operator (task_created_row tid metadata)"
  by (simp add: mark_defs task_created_row_def marked_def)

lemma good_failed: "good_mark operator (failed_row error metadata)"
  by (simp add: mark_defs failed_row_def marked_def Let_def)

lemma good_operator: "operator \<Longrightarrow> s = ''dead_lettered'' \<or> s = ''replayed'' \<Longrightarrow> good_mark operator (marked s metadata)"
  by (auto simp: mark_defs marked_def)

lemma good_seen: "good_mark operator (seen_again body surface)"
  by (auto simp: mark_defs seen_again_def Let_def)

lemmas good_marks = good_ignored good_observed good_task_created good_failed good_operator good_seen

section \<open>Recording\<close>

lemma existing_inbound_None:
  "existing_inbound inst (Some ev) d = None \<longleftrightarrow> (\<forall>r \<in> set (in_rows d). delivery_key r \<noteq> Some (inst, ev))"
  by (auto simp: existing_inbound_def delivery_key_def find_None_iff)

lemma insert_tracks:
  assumes "delivery_row_ok r"
  shows "deliveries.tracks operator (insert_inbound r)"
proof (rule deliveries.tracksI)
  fix d res d' assume ok: "ledger_ok d" and run: "insert_inbound r d = (res, d')"
  show "(ledger_ok d \<longrightarrow> ledger_ok d') \<and> ledger_follows operator d d'"
  proof (cases "inbound_violation r d")
    case (Some c)
    then have "d' = d" using run by (simp add: insert_inbound_def seq_apply)
    then show ?thesis by (auto simp: ledger_follows_def intro: follows_refl)
  next
    case None
    have d': "in_rows d' = in_rows d @ [r]" using None run by (auto simp: insert_inbound_def seq_apply)
    have "ib_id r \<notin> ib_id ` set (in_rows d)"
      using None by (auto simp: inbound_violation_def inbound_get_def row_get_None split: if_splits)
    moreover have "delivery_key r \<noteq> None \<Longrightarrow> the (delivery_key r) \<notin> set (somes (map delivery_key (in_rows d)))"
      using None existing_inbound_None [of "ib_installation r" _ d]
      by (auto simp: inbound_violation_def delivery_key_def [of r] set_somes split: if_splits)
    ultimately have "ledger_ok d'"
      using ok assms d' by (cases "delivery_key r") (auto simp: ledger_ok_def somes_append)
    then show ?thesis using d' by (auto simp: ledger_follows_def intro: follows_refl)
  qed
qed

lemma record_tracks:
  assumes race: "\<And>d. ledger_ok d \<Longrightarrow> ledger_ok (race d) \<and> ledger_follows operator d (race d)"
  shows "deliveries.tracks operator (record_inbound race fresh inst team body event surface)"
proof -
  have seen: "deliveries.tracks operator (mark_seen r body surface)" for r
    unfolding mark_seen_def using mark_tracks [OF good_seen]
    by (auto intro!: deliveries.tracks_seq simp: mark_row_def)
  have new: "delivery_row_ok (new_inbound iid inst team body event surface at now)" for iid at now
    by (simp add: delivery_row_ok_def new_inbound_def inbound_statuses_def)
  have raced: "deliveries.tracks operator (writing race)"
    using race by (intro deliveries.tracksI) auto
  have insert: "deliveries.tracks operator (catching (seq (insert_inbound r) (\<lambda>_. returning (ib_id r))) h)"
    if "delivery_row_ok r" "\<And>e. deliveries.tracks operator (h e)" for r h
    using that by (auto intro!: deliveries.tracks_seq deliveries.tracks_catching insert_tracks)
  show ?thesis
    unfolding record_inbound_def Let_def
    by (auto intro!: deliveries.tracks_reading deliveries.tracks_lifting
        deliveries.tracks_seq [OF raced] seen insert new split: option.splits py_error.splits)
qed

section \<open>Runs\<close>

text \<open>What a handler does in its session or, if \<open>operator\<close> holds, a person who repairs the ledger.\<close>

inductive ledger_action :: "bool \<Rightarrow> (inbound_db \<Rightarrow> inbound_db) \<Rightarrow> inbound_db \<Rightarrow> inbound_db \<Rightarrow> bool" for operator race where
  recorded: "record_inbound race fresh inst team body event surface d = (r, d') \<Longrightarrow> ledger_action operator race d d'"
| ignored: "mark_ignored iid reason metadata d = (r, d') \<Longrightarrow> ledger_action operator race d d'"
| observed: "mark_observed iid observation metadata d = (r, d') \<Longrightarrow> ledger_action operator race d d'"
| task_created: "mark_task_created iid tid metadata d = (r, d') \<Longrightarrow> ledger_action operator race d d'"
| failed: "mark_inbound_failed iid error metadata d = (r, d') \<Longrightarrow> ledger_action operator race d d'"
| dead_lettered: "operator \<Longrightarrow> mark_dead_lettered iid reason metadata d = (r, d') \<Longrightarrow> ledger_action operator race d d'"
| replayed: "operator \<Longrightarrow> mark_replayed iid metadata d = (r, d') \<Longrightarrow> ledger_action operator race d d'"
| others: "ledger_action operator race d (race d)"
| clock: "ledger_action operator race d (d\<lparr>in_now := t\<rparr>)"

text \<open>
  The session of a handler is one transaction. It is committed as a whole; when the handler raises it is
  rolled back, and of what the session saw only what others committed stays. The states between the
  steps are those that are committed.
\<close>

inductive ledger_step :: "bool \<Rightarrow> (inbound_db \<Rightarrow> inbound_db) \<Rightarrow> inbound_db \<Rightarrow> inbound_db \<Rightarrow> bool" for operator race where
  committed: "(ledger_action operator race)\<^sup>*\<^sup>* d d' \<Longrightarrow> ledger_step operator race d d'"
| rolled_back: "(ledger_action operator race)\<^sup>*\<^sup>* d lost \<Longrightarrow> ledger_step operator race d (race d)"

text \<open>What other handlers commit in between keeps the ledger as well.\<close>

definition good_race :: "bool \<Rightarrow> (inbound_db \<Rightarrow> inbound_db) \<Rightarrow> bool" where
  "good_race operator race \<longleftrightarrow> (\<forall>d. ledger_ok d \<longrightarrow> ledger_ok (race d) \<and> ledger_follows operator d (race d))"

lemma ledger_action_follows:
  assumes "ledger_action operator race d d'" and "good_race operator race" and "ledger_ok d"
  shows "ledger_ok d' \<and> ledger_follows operator d d'"
  using assms(1)
proof cases
  case (recorded fresh inst team body event surface r)
  have "deliveries.tracks operator (record_inbound race fresh inst team body event surface)"
    by (rule record_tracks) (use assms(2) in \<open>auto simp: good_race_def\<close>)
  then show ?thesis using deliveries.tracksD [of operator "record_inbound race fresh inst team body event surface" d r d'] assms(3) recorded by blast
next
  case clock
  then show ?thesis using assms(3) by (auto simp: ledger_ok_def ledger_follows_def intro: follows_refl)
next
  case others
  then show ?thesis using assms(2,3) by (auto simp: good_race_def)
qed (use assms(3) in \<open>auto simp: mark_ignored_def mark_observed_def mark_task_created_def mark_inbound_failed_def
      mark_dead_lettered_def mark_replayed_def mark_row_def upd_inbound_ok [of operator] upd_inbound_ok [of True] good_marks\<close>)

lemma ledger_actions_follow:
  assumes "(ledger_action operator race)\<^sup>*\<^sup>* d d'" and "good_race operator race" and "ledger_ok d"
  shows "ledger_ok d' \<and> ledger_follows operator d d'"
  using assms(1)
proof induction
  case base
  then show ?case using assms(3) by (auto simp: ledger_follows_def intro: follows_refl)
next
  case (step y z)
  then have "ledger_ok z \<and> ledger_follows operator y z" using ledger_action_follows assms(2) by blast
  then show ?case using step.IH unfolding ledger_follows_def by (meson follows_trans)
qed

text \<open>C33. The ledger of deliveries is sound in every committed state, after any run of handlers that commit or
  are rolled back, retries of Slack and races included. An event of an installation has one row; a row is
  unprocessed exactly while it is received, has a task when it says so and an error when it failed; no
  delivery that was committed is dropped or taken back to unprocessed, and what became a task stays
  marked so unless a person marks it otherwise.\<close>

theorem delivery_ledger_sound:
  assumes "(ledger_step operator race)\<^sup>*\<^sup>* d d'" and "good_race operator race" and "ledger_ok d"
  shows "ledger_ok d' \<and> ledger_follows operator d d'"
  using assms(1)
proof induction
  case base
  then show ?case using assms(3) by (auto simp: ledger_follows_def intro: follows_refl)
next
  case (step y z)
  from step.hyps(2) have "ledger_ok z \<and> ledger_follows operator y z"
  proof cases
    case committed
    then show ?thesis using ledger_actions_follow assms(2) step.IH by blast
  next
    case rolled_back
    then show ?thesis using assms(2) step.IH by (auto simp: good_race_def)
  qed
  then show ?case using step.IH unfolding ledger_follows_def by (meson follows_trans)
qed

text \<open>Slack delivers an event twice; in between a task is made of it, and a handler is rolled back.\<close>

definition sample_delivery :: jobj where
  "sample_delivery = [(''event_id'', JStr ''Ev1''), (''retry_num'', JInt 1)]"

definition sample_ledger :: "inbound_db \<Rightarrow> inbound_db" where
  "sample_ledger d =
     snd (record_inbound id (\<lambda>_. 6) 1 ''T1'' sample_delivery [] ''dm''
       (snd (mark_task_created 5 7 []
         (snd (record_inbound id (\<lambda>_. 5) 1 ''T1'' sample_delivery [] ''dm'' d)))))"

lemma sample_ledger_run: "(ledger_step False id)\<^sup>*\<^sup>* d (sample_ledger d)"
proof -
  let ?take = "\<lambda>n. record_inbound id (\<lambda>_. n) 1 ''T1'' sample_delivery [] ''dm''"
  have take: "ledger_action False id d1 (snd (?take n d1))" for n d1
    by (rule ledger_action.recorded) (rule surjective_pairing)
  have mark: "ledger_action False id d1 (snd (mark_task_created 5 7 [] d1))" for d1
    by (rule ledger_action.task_created) (rule surjective_pairing)
  have "(ledger_action False id)\<^sup>*\<^sup>* d (snd (mark_task_created 5 7 [] (snd (?take 5 d))))"
    using take mark by (meson rtranclp.rtrancl_into_rtrancl rtranclp.rtrancl_refl)
  then have first: "ledger_step False id d (snd (mark_task_created 5 7 [] (snd (?take 5 d))))"
    by (rule ledger_step.committed)
  have lost: "ledger_step False id d1 d1" for d1
    using ledger_step.rolled_back [of False id d1 d1] by simp
  have second: "ledger_step False id d1 (snd (?take 6 d1))" for d1
    by (rule ledger_step.committed) (intro r_into_rtranclp take)
  show ?thesis
    unfolding sample_ledger_def using first lost second
    by (meson rtranclp.rtrancl_into_rtrancl rtranclp.rtrancl_refl)
qed

lemma delivery_ledger_sound_witness:
  "ledger_ok (sample_ledger \<lparr>in_rows = [], in_now = 0\<rparr>) \<and>
   map (\<lambda>r. (ib_id r, ib_status r, ib_task r)) (in_rows (sample_ledger \<lparr>in_rows = [], in_now = 0\<rparr>)) =
     [(5, ''task_created'', Some 7)]"
proof -
  have "good_race False id" by (auto simp: good_race_def ledger_follows_def intro: follows_refl)
  moreover have "ledger_ok \<lparr>in_rows = [], in_now = 0\<rparr>" by (simp add: ledger_ok_def somes_def)
  ultimately have "ledger_ok (sample_ledger \<lparr>in_rows = [], in_now = 0\<rparr>)"
    using delivery_ledger_sound [OF sample_ledger_run] by blast
  moreover have "map (\<lambda>r. (ib_id r, ib_status r, ib_task r)) (in_rows (sample_ledger \<lparr>in_rows = [], in_now = 0\<rparr>)) =
      [(5, ''task_created'', Some 7)]"
    by code_simp
  ultimately show ?thesis by blast
qed

end
