(* ===== verification/Ingress_Samples.thy ===== *)
theory Ingress_Samples
  imports Reaction_Properties Inbound_Properties
begin

text \<open>
  A message and a reaction: the properties of the ingress applied.
\<close>

section \<open>A direct message\<close>

definition sample_ingress :: ingress_env where
  "sample_ingress = \<lparr>ge_post = sample_post_env, ge_sha = sample_sha, ge_race = id, ge_fresh_task = (\<lambda>w. 8),
     ge_inbound_race = id, ge_fresh_inbound = (\<lambda>d. 40 + (length (in_rows d))), ge_install_race = id,
     ge_fresh_install = (\<lambda>w. 60), ge_auth_test = None, ge_reactions_add = None,
     ge_reaction = (\<lambda>s source d. (''eyes'', ''look'')), ge_classify = None, ge_identity = (\<lambda>i u ch. returning []),
     ge_traceparent = None, ge_command = (\<lambda>x s. returning None), ge_looks_like_schedule = (\<lambda>s. False),
     ge_proposal = (\<lambda>x s. returning None), ge_acknowledgement = (\<lambda>tid. returning ''On it.''), ge_ceiling = None,
     ge_assistant_threads = [], ge_agent_name = ''Kortny'', ge_ledger = True, ge_materialize = (\<lambda>c u. returning ())\<rparr>"

definition sample_install :: installation where
  "sample_install = \<lparr>is_id = 1, is_team = ''T1'', is_bot = None, is_admin = Some ''U1''\<rparr>"

definition ingress_sample_world :: ingress_world where
  "ingress_sample_world = \<lparr>ig_mem = \<lparr>mw_post = post_world, mw_facts = []\<rparr>, ig_inbound = [],
     ig_installs = [sample_install], ig_new = [], ig_candidates = [], ig_proactive = []\<rparr>"

definition dm_body :: "string \<Rightarrow> jobj" where
  "dm_body ev = [(''event_id'', JStr ev)]"

definition dm_event :: "string \<Rightarrow> jobj" where
  "dm_event words = [(''channel'', JStr ''D1''), (''ts'', JStr ''20.5''), (''user'', JStr ''U1''), (''text'', JStr words)]"

definition dm_args :: "string \<Rightarrow> string \<Rightarrow> message_request_args" where
  "dm_args ev words = \<lparr>ma_installation = 1, ma_event_id = ev, ma_channel = ''D1'', ma_thread_ts = ''D1'',
     ma_message_ts = ''20.5'', ma_user = ''U1'', ma_input = words, ma_source = ''dm''\<rparr>"

definition first_dm :: "mention_result res \<times> ingress_world" where
  "first_dm = handle_addressed_message sample_ingress sample_install ''T1'' (dm_body ''Ev9'') (dm_event ''Hi'')
     ''Hi'' ''dm'' None None ingress_sample_world"

lemma dm_read:
  "ev \<noteq> [] \<Longrightarrow> read_args 1 (dm_body ev) (dm_event words) words ''dm'' = Inr (dm_args ev words)"
  by (cases ev) (simp_all add: read_args_def slack_str_def dm_body_def dm_event_def context_thread_ts_def dm_args_def)

lemma dm_fields: "is_id sample_install = 1" "slack_str (dm_body ''Ev9'') ''event_id'' = Inr ''Ev9''"
  "slack_str (dm_event words) ''channel'' = Inr ''D1''" "slack_str (dm_event words) ''ts'' = Inr ''20.5''"
  by (simp_all add: sample_install_def slack_str_def dm_body_def dm_event_def)

lemma dm_key: "args_key (dm_args ev words) = (1, ''slack-message:D1:D1:20.5'')"
  by (simp add: args_key_def dm_args_def truthy_def)

lemma claimed_rows: "db_tasks claimed_db = [claim_row ''w1'' 0 (seconds 300) sample_row]"
  by (simp add: claimed_db_eq sample_db_eq) (simp add: upd_task_def row_upd_def sample_row_def new_task_def)

lemma claimed_now: "db_now claimed_db = 0"
  by (simp add: claimed_db_eq sample_db_eq)

lemma claimed_keys:
  "identity_of (claim_row ''w1'' 0 (seconds 300) sample_row) = Some (1, ''slack-message:C1:10.5:10.5'')"
  "t_slack_event_id (claim_row ''w1'' 0 (seconds 300) sample_row) = Some ''Ev1''"
  by (simp_all add: claim_row_def sample_row_def identity_of_def new_task_def sample_request_def request_identity_def)

text \<open>A task that exists takes a log entry.\<close>

lemma ig_log_known:
  assumes "task_get tid (ig_db w) = Some t"
  shows "\<exists>w'. ig_log tid p w = (Inr (), w') \<and> task_get tid (ig_db w') = Some t"
  using assms by (simp add: ig_log_def seq_apply on_ig_db_def on_ig_mem_def on_mem_db_def on_mem_post_def on_task_db_def
      ig_db_def mem_db_def append_event_simp)

lemma on_ig_db_pure: "m (ig_db w) = (r, ig_db w) \<Longrightarrow> on_ig_db m w = (r, w)"
  by (simp add: on_ig_db_def on_ig_mem_def on_mem_db_def on_mem_post_def on_task_db_def ig_db_def mem_db_def)

lemma on_ig_db_run: "m (ig_db w) = (r, d) \<Longrightarrow> \<exists>w'. on_ig_db m w = (r, w') \<and> ig_db w' = d \<and> ig_new w' = ig_new w"
  by (simp add: on_ig_db_def on_ig_mem_def on_mem_db_def on_mem_post_def on_task_db_def ig_db_def mem_db_def)

lemma sample_task_made:
  assumes "task_get (t_id t) (ig_db w) = Some t" and "ig_new w = []"
  shows "\<exists>r w'. task_made sample_ingress sample_install iid (dm_args ev words) event None t w = (Inr r, w')"
proof -
  let ?mark = "on_ig_inbound (mark_task_created iid (t_id t) [(''source'', JStr ''dm'')])"
  obtain w1 where mark: "?mark w = (Inr (), w1)" "ig_mem w1 = ig_mem w"
    by (simp add: on_ig_inbound_def mark_task_created_def mark_row_def)
  have "ig_db w1 = ig_db w" using mark(2) by (simp only: ig_db_def)
  then have t1: "task_get (t_id t) (ig_db w1) = Some t" using assms(1) by (simp only:)
  have ack: "\<exists>p. post_ack_reaction sample_ingress (message_context (dm_args ev words) t) s ts d = ig_log (t_id t) p" for t s ts d
    by (simp add: post_ack_reaction_def sample_ingress_def message_context_def Let_def) blast
  obtain w2 where w2: "post_ack_reaction sample_ingress (message_context (dm_args ev words) t) (t_input t) ''20.5'' None w1 = (Inr (), w2)"
    "task_get (t_id t) (ig_db w2) = Some t"
    using ig_log_known [OF t1] ack [of t "t_input t" "''20.5''" None] by metis
  have "\<exists>p. refresh_identities sample_ingress (message_context (dm_args ev words) t) v = ig_log (t_id t) p v" for t v
    by (simp add: refresh_identities_def sample_ingress_def message_context_def seq_apply) (rule exI, rule refl)
  then obtain w3 where "refresh_identities sample_ingress (message_context (dm_args ev words) t) w2 = (Inr (), w3)"
    using ig_log_known [OF w2(2)] by metis
  then show ?thesis
    using mark(1) w2(1) \<open>ig_new w = []\<close>
    by (simp add: task_made_def Let_def seq_apply intro_new_installation_def capture_traceparent_def sample_ingress_def
        classify_intent_def dm_args_def answer_message_def handle_schedule_command_def post_schedule_proposal_def
        should_attempt_schedule_proposal_def should_skip_visible_ack_def verbal_acks_enabled_def)
qed

lemma dm_new:
  assumes ident: "ident_key ident = ''slack-message:D1:D1:20.5''" "ident_kind ident = ''slack_message''"
  shows "lookup_existing 1 ident (Some ''Ev9'') claimed_db = (Inr None, claimed_db)"
    and "insert_violation (new_task 8 (message_task_request (dm_args ''Ev9'' words) (Some ident)) ident now) claimed_db = None"
proof -
  have "existing_row 1 ident (Some ''Ev9'') claimed_db = None"
    using ident claimed_keys
    by (auto simp: existing_row_def get_by_identity_key_def get_by_slack_event_id_def claimed_rows find_None_iff identity_of_def
        split: option.splits)
  then show "lookup_existing 1 ident (Some ''Ev9'') claimed_db = (Inr None, claimed_db)"
    using lookup_existing_eq [OF core_okD(2) [OF claimed_core_ok], of 1 ident "Some ''Ev9''"] by simp
  show "insert_violation (new_task 8 (message_task_request (dm_args ''Ev9'' words) (Some ident)) ident now) claimed_db = None"
    using ident claimed_keys
    by (simp add: insert_violation_def new_task_def message_task_request_def dm_args_def identity_kinds_def claimed_rows
        identity_of_def sample_row_def claim_row_def)
qed

lemma first_dm_result: "\<exists>r w1. first_dm = (Inr r, w1)"
proof -
  let ?a = "dm_args ''Ev9'' ''Hi''"
  let ?ident = "message_identity sample_ingress ?a"
  let ?row = "new_task 8 (message_task_request ?a (Some ?ident)) ?ident 0"
  have ev: "opt_text (jget (dm_body ''Ev9'') ''event_id'') = Some ''Ev9''" by code_simp
  have at: "inbound_time (dm_body ''Ev9'') = Inr None" by (simp add: inbound_time_def dm_body_def)
  obtain d where "record_inbound id (\<lambda>d. 40 + length (in_rows d)) 1 ''T1'' (dm_body ''Ev9'') (dm_event ''Hi'') ''dm''
      \<lparr>in_rows = [], in_now = db_now (ig_db ingress_sample_world)\<rparr> = (Inr 40, d)"
    unfolding record_inbound_def Let_def ev
    by (simp add: seq_apply existing_inbound_def at insert_inbound_def inbound_violation_def inbound_get_def new_inbound_def
        catching_def ev)
  then have recorded: "\<exists>v. record_event sample_ingress 1 ''T1'' (dm_body ''Ev9'') (dm_event ''Hi'') ''dm'' ingress_sample_world = (Inr 40, v) \<and>
      ig_mem v = ig_mem ingress_sample_world \<and> ig_new v = []"
    by (simp add: record_event_def on_ig_inbound_def sample_ingress_def) (simp add: ingress_sample_world_def)
  then obtain v where v: "record_event sample_ingress 1 ''T1'' (dm_body ''Ev9'') (dm_event ''Hi'') ''dm'' ingress_sample_world = (Inr 40, v)"
    "ig_mem v = ig_mem ingress_sample_world" "ig_new v = []" by blast
  have db: "ig_db v = claimed_db" using v(2) by (simp add: ig_db_def mem_db_def ingress_sample_world_def post_world_def)
  have ts: "ma_message_ts ?a \<noteq> []" by (simp add: dm_args_def)
  have ident: "ident_key ?ident = ''slack-message:D1:D1:20.5''"
    "ident_key (for_task_request sample_sha (message_task_request ?a None)) = ''slack-message:D1:D1:20.5''"
    using message_keys(2) [OF ts, of sample_ingress] message_keys(1) [OF ts, of sample_sha None] dm_key by simp_all
  have kind: "ident_kind ?ident = ''slack_message''"
    "ident_kind (for_task_request sample_sha (message_task_request ?a None)) = ''slack_message''"
    by (simp_all add: message_identity_def for_task_request_def slack_message_identity_def message_task_request_def dm_args_def
        truthy_def sample_ingress_def Let_def)
  have found: "find_existing_task sample_ingress ?a v = (Inr None, v)"
    using on_ig_db_pure [of "lookup_existing 1 (for_task_request sample_sha (message_task_request ?a None)) (Some ''Ev9'')" v]
      dm_new(1) [OF ident(2) kind(2)] db
    by (simp add: find_existing_task_def get_by_slack_task_identity_def message_task_request_def dm_args_def sample_ingress_def)
  have request: "request_identity sample_sha (message_task_request ?a (Some ?ident)) = ?ident"
    by (simp add: request_identity_def message_task_request_def)
  have fields: "rq_installation (message_task_request ?a i) = 1" "rq_slack_event_id (message_task_request ?a i) = Some ''Ev9''" for i
    by (simp_all add: message_task_request_def dm_args_def)
  have created: "create_task sample_sha id 8 (message_task_request ?a (Some ?ident)) claimed_db =
      (Inr ?row, add_event 8 Task_Created (created_payload (message_task_request ?a (Some ?ident)) ?ident)
        (claimed_db\<lparr>db_tasks := db_tasks claimed_db @ [?row]\<rparr>))"
    using dm_new(1) [OF ident(1) kind(1)] dm_new(2) [OF ident(1) kind(1), of "''Hi''" 0] claimed_now
    by (simp add: create_task_def create_insert_eq request seq_apply fields)
  obtain u where u: "on_ig_db (create_task sample_sha id 8 (message_task_request ?a (Some ?ident))) v = (Inr ?row, u)"
    "ig_new u = ig_new v" "ig_db u = add_event 8 Task_Created (created_payload (message_task_request ?a (Some ?ident)) ?ident)
        (claimed_db\<lparr>db_tasks := db_tasks claimed_db @ [?row]\<rparr>)"
    using on_ig_db_run [of "create_task sample_sha id 8 (message_task_request ?a (Some ?ident))" v] created db by metis
  have row: "task_get (t_id ?row) (ig_db u) = Some ?row"
    unfolding u(3) by (simp add: task_get_def claimed_rows sample_row_def claim_row_def)
  have new: "ig_new u = []" using u(2) v(3) by simp
  obtain r w1 where made: "task_made sample_ingress sample_install 40 ?a (dm_event ''Hi'') None ?row u = (Inr r, w1)"
    using sample_task_made [OF row new] by blast
  have take: "take_message sample_ingress sample_install 40 ?a (dm_event ''Hi'') None v = (Inr r, w1)"
    unfolding take_message_def using found u(1) made by (simp add: seq_apply sample_ingress_def)
  have "first_dm = (Inr r, w1)"
    unfolding first_dm_def handle_addressed_message_def
    using dm_read [of "''Ev9''" "''Hi''"] v(1) take
    by (simp add: seq_apply dm_fields)
  then show ?thesis by blast
qed

section \<open>The message again\<close>

lemma sample_services: "ingress_services_ok sample_ingress"
  using sample_client_ok by (simp add: ingress_services_ok_def sample_ingress_def moves_refl)

lemma ingress_handled:
  assumes env: "ingress_services_ok env"
  shows "ingress.tracks (handle_addressed_message env i team body event s source pre known)"
proof -
  have find_task: "ingress.tracks (find_existing_task env a)" for a
    unfolding find_existing_task_def get_by_slack_task_identity_def by (intro ingress_db tracks_lookup)
  have race: "core_ok d \<Longrightarrow> moves d (ge_race env d)" for d
    using env by (simp add: ingress_services_ok_def)
  have "core.tracks (create_task (ge_sha env) (ge_race env) n rq)" for n rq
    by (rule core.tracksI) (rule create_task_moves [OF _ _ race])
  then have "ingress.tracks (take_message env i iid a event pre)" for iid a
    unfolding take_message_def existing_result_def
    by (auto intro!: ingress_steps find_task ingress_task_made env split: option.splits)
  then show ?thesis
    unfolding handle_addressed_message_def record_event_def by (auto intro!: ingress_steps split: option.splits)
qed

lemma redelivered_message_one_task_witness:
  "\<exists>r x w3. fst first_dm = Inr r \<and>
     handle_addressed_message sample_ingress sample_install ''T1'' (dm_body ''Ev10'') (dm_event ''Hi!'') ''Hi!'' ''dm''
       None (Some 40) (snd first_dm) = (Inr x, w3) \<and> mr_task x = mr_task r \<and> \<not> mr_created x"
proof -
  obtain r w1 where run: "first_dm = (Inr r, w1)" using first_dm_result by blast
  have ok: "ig_ok ingress_sample_world"
    using post_world_ok by (simp add: ig_ok_def ingress_sample_world_def)
  have args: "read_args (is_id sample_install) (dm_body ev) (dm_event words) words ''dm'' = Inr (dm_args ev words)"
    if "ev \<noteq> []" for ev words
    using dm_read [OF that] by (simp add: sample_install_def)
  have event: "ma_event_id (dm_args ev words) = ev" for ev words by (simp add: dm_args_def)
  have names: "event_names (ma_event_id (dm_args ''Ev9'' ''Hi'')) (args_key (dm_args ''Ev9'' ''Hi'')) (ig_db ingress_sample_world)"
    by (simp add: event dm_key event_names_def ig_db_def mem_db_def ingress_sample_world_def post_world_def claimed_rows claimed_keys)
  have race: "ge_race sample_ingress d = d" for d by (simp add: sample_ingress_def)
  have "ig_ok w1"
    by (rule ingress.tracks_ok [OF ingress_handled [OF sample_services] ok run [unfolded first_dm_def]])
  then have unique: "tasks_unique (ig_db w1)"
    using core_okD by (auto simp: ig_ok_def post_ok_def ig_db_def mem_db_def)
  have stay: "rows_stay (ig_db w1) (ig_db w1)" by (auto simp: rows_stay_def)
  obtain x w3 where again: "handle_addressed_message sample_ingress sample_install ''T1'' (dm_body ''Ev10'') (dm_event ''Hi!'') ''Hi!'' ''dm''
      None (Some 40) w1 = (x, w3)" and x: "(case x of Inr r' \<Rightarrow> mr_task r' = mr_task r \<and> \<not> mr_created r' | Inl e \<Rightarrow> False)"
    using redelivered_message_one_task [OF sample_services ok args [of "''Ev9''" "''Hi''"] names _ run [unfolded first_dm_def] stay unique
        args [of "''Ev10''" "''Hi!''"], of sample_ingress "''T1''" None "Some 40"]
    by (simp add: dm_key race cong: sum.case_cong) blast
  then obtain b where "x = Inr b" by (cases x) auto
  with x have "mr_task b = mr_task r" "\<not> mr_created b" by simp_all
  moreover have "handle_addressed_message sample_ingress sample_install ''T1'' (dm_body ''Ev10'') (dm_event ''Hi!'') ''Hi!'' ''dm''
      None (Some 40) (snd first_dm) = (Inr b, w3)"
    unfolding run snd_conv using again \<open>x = Inr b\<close> by blast
  moreover have "fst first_dm = Inr r" unfolding run by (rule fst_conv)
  ultimately show ?thesis by blast
qed

section \<open>A cross from somebody else\<close>

definition cross_event :: "string \<Rightarrow> jobj" where
  "cross_event user = [(''reaction'', JStr reaction_cancel), (''user'', JStr user), (''item'', JObj
     [(''type'', JStr ''message''), (''channel'', JStr ''C1''), (''ts'', JStr ''10.5'')])]"

definition cross_body :: jobj where
  "cross_body = [(''event_id'', JStr ''Ev11''), (''team_id'', JStr ''T1'')]"

definition reaction_to_task :: "string \<Rightarrow> reaction_result res \<times> ingress_world" where
  "reaction_to_task user =
     handle_reaction_added sample_ingress (\<lambda>w. 90) None cross_body (cross_event user) ingress_sample_world"

lemma sample_reactions_keep: "reaction_services_keep sample_ingress"
  by (auto simp: reaction_services_keep_def sample_ingress_def client_keeps_def sample_post_env_def rows_same_refl)

lemma reaction_decides_own_tasks_witness:
  "task_get 7 (ig_db (snd (reaction_to_task ''U2''))) = Some (claim_row ''w1'' 0 (seconds 300) sample_row) \<and>
   task_get 7 (ig_db (snd (on_reaction_added id sample_ingress (\<lambda>w. 90) None cross_body (cross_event ''U2'')
     ingress_sample_world))) = Some (claim_row ''w1'' 0 (seconds 300) sample_row)"
proof -
  have db: "ig_db ingress_sample_world = claimed_db"
    by (simp add: ig_db_def mem_db_def ingress_sample_world_def post_world_def)
  then have unique: "tasks_unique (ig_db ingress_sample_world)" using core_okD [OF claimed_core_ok] by simp
  have row: "task_get 7 (ig_db ingress_sample_world) = Some (claim_row ''w1'' 0 (seconds 300) sample_row)"
    using db claimed_get by simp
  have user: "jget (cross_event ''U2'') ''user'' = JStr ''U2''" by (simp add: cross_event_def)
  have owner: "t_user (claim_row ''w1'' 0 (seconds 300) sample_row) \<noteq> ''U2''"
    by (simp add: claim_row_def sample_row_def new_task_def sample_request_def)
  show ?thesis
    unfolding reaction_to_task_def
    using reaction_decides_own_tasks [OF sample_reactions_keep unique user row owner surjective_pairing] row
    by (metis id_apply)
qed

end
