(* ===== verification/Spec2Isabelle.thy ===== *)
theory Spec2Isabelle
  imports Task_Liveness Gate_Properties Model_Routing Scheduler_Progress Witness_Properties Decision_Properties Memory_Samples
    Ingress_Samples
begin

text \<open>
  A model of Kortny, a Slack assistant that runs LLM agents on durable tasks: the task core, the
  tool safety core, the agent loop, the scheduler, the Slack outbox and what is posted through it,
  the executor that ties them together, the lifecycle of proactive suggestions, the buttons of its
  messages, the memory of the workspace and the handlers of what Slack delivers.

  \<^bold>\<open>The program.\<close> Slack delivers events, each recorded in a ledger (\<open>kortny/slack/inbound_events.py\<close>)
  and handled once (\<open>kortny/slack/ingress.py\<close>). A Slack message, a schedule or an observed event becomes a task row
  (\<open>kortny/tasks/identity.py\<close> says when two requests are the same task,
  \<open>kortny/tasks/repository.py\<close> keeps the rows, their append-only event log and their cost).
  Workers take pending tasks from the table under a lease (\<open>kortny/queue/service.py\<close>,
  \<open>kortny/worker/service.py\<close>) and hand them to the executor
  (\<open>kortny/worker/agent_executor.py\<close>), which answers questions about schedules itself
  (\<open>kortny/routing/tier0.py\<close>), runs the agent for the rest, posts the answer or the files
  (\<open>kortny/slack/posting.py\<close>), parks the task when a call needs an approval or a connection, and
  tells the user of a failure. The agent (\<open>kortny/agent/coordinator.py\<close>) asks the model and runs
  tools in turns; before each call it classifies the risk (\<open>kortny/autonomy.py\<close>,
  \<open>kortny/tools/catalog.py\<close>), maps it to an approval requirement at the level of the channel
  (\<open>kortny/approvals.py\<close>, \<open>kortny/autonomy_policy.py\<close>), raises it when untrusted content has entered
  the task (\<open>kortny/agent/trifecta.py\<close>), and stops the task until a human approves when one is needed.
  Every side effect on Slack goes through the outbox (\<open>kortny/slack/outbox.py\<close>) under a key.

  \<^bold>\<open>The theories.\<close>
  \<^item> \<open>Kortny_Prelude\<close>: errors, the state-and-error operations \<open>('s, 'a) op\<close> with \<open>seq\<close>,
    \<open>reading\<close>, \<open>writing\<close>, \<open>raising\<close>, \<open>catching\<close>; JSON values and their text; Python's string
    operations on ASCII; the locale \<open>frame\<close>, by which an operation built from steps that keep a
    relation keeps it. \<open>Py_Numbers\<close>: Python's \<open>repr\<close> and \<open>str\<close>, \<open>Decimal\<close> and UUID parsing.
  \<^item> Task core. \<open>Task_Identity\<close>: \<open>tasks/identity.py\<close>. \<open>Task_Store\<close>: the rows of \<open>db/models.py\<close>, the
    store, the event log and the locale \<open>keyed_log\<close> of append-only logs with numbers.
    \<open>Task_Repository\<close>: every method of \<open>TaskRepository\<close>. \<open>Task_Queue\<close>: \<open>TaskQueue\<close>.
    \<open>Task_Worker\<close>: one poll cycle of \<open>TaskWorker.run_once\<close> in its phases, and the quality label.
    \<open>Task_Moves\<close>: the abstract specification, a step relation \<open>move\<close> with the few ways a task row
    may change, and the invariant \<open>core_ok\<close> it keeps. \<open>Task_Refinement\<close>: every operation of
    repository, queue and worker is a sequence of moves. \<open>Task_System\<close>: the reachable states of
    any number of clients whose operations interleave, creations split at their race window.
    \<open>Task_Properties\<close>, \<open>Task_Rows\<close>, \<open>Task_Liveness\<close>: the properties of the task core.
  \<^item> Safety core. \<open>Tool_Catalog\<close>: \<open>tools/catalog.py\<close> with the whole table of native tools, and the
    policy values of \<open>execution/sandbox.py\<close>. \<open>Autonomy\<close>, \<open>Approvals\<close>, \<open>Trifecta\<close>,
    \<open>Autonomy_Policy\<close>: the files of these names. \<open>Tool_Gate\<close>: the approval check of
    \<open>AgentCoordinator\<close>. \<open>Gate_Run\<close>: its runs in closed form. \<open>Gate_Properties\<close>: the properties of the
    safety core and the round trip through both cores.
  \<^item> Agent loop. \<open>Error_Policy\<close>: \<open>agent/error_policy.py\<close>. \<open>Tool_Attempts\<close>: plans, steps and budgets
    of \<open>agent/execution.py\<close>. \<open>Tool_Ledger\<close>: \<open>agent/idempotency.py\<close> and the ledger of tool calls in
    the event log. \<open>Result_Budget\<close>: how a tool result is cut for the model. \<open>Model_Routing\<close>:
    \<open>llm/routing.py\<close>. \<open>Agent_Planner\<close>: \<open>agent/planner.py\<close>. \<open>Agent_Loop\<close>: \<open>AgentCoordinator.run\<close>
    and every step of it. \<open>Ledger_Run\<close>, \<open>Ledger_Progress\<close>, \<open>Ledger_Sample\<close>, \<open>Ledger_Properties\<close>,
    \<open>Agent_Run\<close>, \<open>Agent_Properties\<close>: its lemmas and properties.
  \<^item> Scheduler. \<open>Scheduler\<close>: \<open>scheduler/service.py\<close>. \<open>Scheduler_Properties\<close>, \<open>Scheduler_Progress\<close>.
  \<^item> Slack. \<open>Slack_Outbox\<close>: \<open>slack/outbox.py\<close>; the locale \<open>at_most_once\<close> is the contract its callers
    rely on, interpreted on \<open>deliver\<close>, on the sends of suggestions and on the messages of a task.
    \<open>Outbox_Properties\<close>. \<open>Slack_Posting\<close>: \<open>slack/posting.py\<close> and \<open>slack/egress.py\<close>.
    \<open>Posting_Properties\<close>.
  \<^item> Suggestions. \<open>Witness_Lifecycle\<close>: \<open>witness/lifecycle.py\<close> and the event log of
    \<open>witness/ledger/service.py\<close>. \<open>Witness_Properties\<close>.
  \<^item> Executor. \<open>Schedule_Intent\<close>: \<open>schedule_intent.py\<close>, \<open>routing/tier0.py\<close>, \<open>routing/trace.py\<close>.
    \<open>Runtime_Handoff\<close>: \<open>workflow/handoff.py\<close>. \<open>Provider_Failure\<close>: \<open>llm/errors.py\<close>.
    \<open>Approval_Prompt\<close>, \<open>Executor_Outputs\<close>, \<open>Agent_Executor\<close>: \<open>AgentTaskExecutor\<close>.
    \<open>Executor_Properties\<close>.
  \<^item> Buttons. \<open>Interactive_Actions\<close>: \<open>slack/interactions.py\<close>. \<open>Slack_Decisions\<close>: \<open>slack/decisions.py\<close>
    and the clicks of \<open>slack/document_decisions.py\<close>. \<open>Decision_Properties\<close>.
  \<^item> Memory. \<open>Py_Regex\<close>: the regular expressions of Python's \<open>re\<close>. \<open>Memory_Facts\<close>: \<open>memory/service.py\<close>.
    \<open>Memory_Tools\<close>: \<open>tools/workspace_memory.py\<close>. \<open>Memory_Properties\<close>, \<open>Memory_Samples\<close>.
  \<^item> Ingress. \<open>Slack_Inbound\<close>: \<open>slack/inbound_events.py\<close>. \<open>Slack_Request\<close>: how the text of a task is read
    from a message, and \<open>intent/policy.py\<close>. \<open>Slack_Ingress\<close>, \<open>Slack_Reactions\<close>: the handlers of
    messages and of reactions of \<open>slack/ingress.py\<close>. \<open>Inbound_Properties\<close>, \<open>Ingress_Properties\<close>,
    \<open>Reaction_Properties\<close>, \<open>Ingress_Samples\<close>.

  \<^bold>\<open>Modelling decisions.\<close> An operation takes the store and returns an error or a value with the new
  store; a Python exception keeps the writes made before it, as an open transaction does. Rollbacks are
  written out where they happen: by the worker, by the operator \<open>transaction\<close> around a tick of the
  scheduler, a click and a reaction, and by the step \<open>rolled_back\<close> of the ledger of deliveries; what
  other transactions committed meanwhile stays. A session keeps the objects it has read over its
  commits, so \<open>transition\<close> and \<open>mark_waiting_for_tool_approval\<close> take the status that the session shows
  of the task as the argument \<open>seen\<close>, which may be any. UUIDs are naturals; timestamps and
  durations are integers of microseconds; costs are decimals rounded to the column's micro
  dollars. A \<open>Task | uuid\<close> argument is the id of the row. The clock is a field of the store.
  \<open>FOR UPDATE SKIP LOCKED\<close> skips the ids in a list of rows locked elsewhere, and what other
  transactions commit between a lookup and an insert is an argument. Texts are ASCII; regular
  expressions are written out as scanners, or as patterns of \<open>Py_Regex\<close>.

  Code outside the model is a field of an environment: \<open>agent_env\<close> has the model, the tools, the
  context engine and the hash function, \<open>post_env\<close> Slack's client, the file system and the mrkdwn
  normaliser, \<open>exec_env\<close> the runtime and the services of the executor, \<open>ingress_env\<close> the classifier of
  intents and the services of the ingress. The refinement theorems ask of
  them only that they move the tables as the modelled operations do (\<open>env_moves\<close>, \<open>client_ok\<close>,
  \<open>services_ok\<close>, \<open>ingress_services_ok\<close>), which the sample environments of the witnesses satisfy.

  \<^bold>\<open>Loops and bounds.\<close> Loops over rows, arguments and characters are structural, comment stripping
  recurses on the rest of the text, and the turns of the agent on the turns its limits leave. A run
  of the agent runs at most two tools per counted call and asks the model at most three times per
  turn, plus twice, plus once per recoverable failure allowed. The search for the next run of a
  cron expression has 370 days, the number in the code; one week is enough for every accepted
  expression. The interval loop ends because the interval is positive.

  \<^bold>\<open>What the properties show.\<close> Of the task core: the event log is numbered without gaps and its
  status entries tell the current status, whatever stale status their writers saw; identities are
  unique under races; claims,
  renewals and sweeps respect leases; approvals are decided once and only on request; cancelling is
  final; a worker cycle refines the moves; no due task starves. Of the safety core: SQL detection
  and its limits, when a call proceeds, and the approval round trip. Of the agent: bounds on its
  spending, that a retry after a lost lease does not run a recorded call again, how an interrupted one is decided. Of the
  scheduler: a tick refines the moves of the task core, a fire time yields one task, the next run is
  right, and two ways the queue is blocked. Of the outbox: a key is delivered once, one message per
  purpose of a task, one post per suggestion. Of the executor: with the agent as its runtime it
  refines the moves of both tables, a cancelled run that returns an answer delivers nothing, and parking
  undoes a cancellation. Of the buttons: only the person a button
  was made for decides with it, a decision is taken once, the approve button takes the task back into
  the queue. Of the memory: a key has one active fact and its history is kept, a confirmed proposal is
  read back, and a second proposal of a task is stored unseen. Of the ingress: a message is one task
  however often it is delivered, a reaction leaves the tasks of others alone, and the committed ledger of
  deliveries has one row for an event and forgets no task. Where the code differs from its
  documentation the theorem states what the code does.

  \<^bold>\<open>Not modelled.\<close> Network and LLM calls, the assembly of prompts, Slack's block rendering, the
  observation of channels and the schedule buttons of the ingress, the dashboard, the heartbeat thread, tracing, foreign keys to tables
  outside the model, database encodings of invalid values, the Temporal envelope, the building of
  tool registries, the visual revision of documents, the knowledge graph, the embedding index beside
  the memory, the extraction of suggestions.

  \<^bold>\<open>Plan.\<close> Next: the repair of tool arguments, schema pinning, tool scopes,
  the commands of the scheduler, the sandbox runner.
\<close>

end
